(* ===== verification/CS_Prelude.thy ===== *)
theory CS_Prelude
  imports Main "HOL-Library.Word"
begin

text \<open>
  Shared vocabulary of the development: UUIDs, timestamps, Go error values with wrapping,
  results, the collections of facts the components' proofs use, and generic lemmas on lists
  read as SQL tables.

  A Go \<open>error\<close> is a value of \<open>go_error\<close>: the sentinel errors the code compares against
  have a constructor each, \<open>Other\<close> is any other leaf error (with its text), and
  \<open>Wrap s e\<close> is \<open>fmt.Errorf("s: %w", e)\<close> and \<open>Wrapf p e q\<close> is any other format
  with the error between two texts; \<open>DaoLeaf m k\<close> is a \<open>DaoError\<close> with the message \<open>m\<close> and the
  flag \<open>k\<close> (the code sets at most one), \<open>DaoFailure m k e\<close> one around an error, and \<open>JoinErr\<close> an error made of two. A nil
  error is the \<open>Inr\<close> side of a result. Two values are not errors of the code but ways of not
  returning: \<open>GoPanic\<close> (a panic that unwinds the calls) and \<open>NeverReturns\<close> (a loop that runs
  longer than the model follows it); no error check of the code sees them.
\<close>

named_theorems table_simps "facts about tables: filter, update, delete by condition"
named_theorems queue_defs "definitions of the queue's SQL statements"

type_synonym uuid = "128 word"
type_synonym timestamp = int

abbreviation uuid_Nil :: uuid where
  "uuid_Nil \<equiv> 0"

datatype dao_kind = DaoNotFound | DaoBadValidation | DaoAlreadyExists | DaoForbidden | DaoPlain

datatype go_error =
    ErrNotExist
  | ErrNotRunning
  | ErrTaskCanceled
  | ErrContextCanceled
  | ErrRowsNotAffected
  | ErrMaxRetriesExceeded
  | ErrNotCancellable
  | ErrServerExited
  | Context_Canceled
  | Context_DeadlineExceeded
  | Pgx_ErrNoRows
  | Sql_ErrTxDone
  | Other string
  | Wrap string go_error
  | Wrapf string go_error string
  | DaoLeaf string dao_kind
  | DaoFailure string dao_kind go_error
  | JoinErr go_error go_error
  | PgError string string string
  | ModelErr string bool
  | GoPanic string
  | NeverReturns

type_synonym 'a result = "go_error + 'a"

text \<open>\<open>errors.Is\<close>: the error itself or one it wraps.\<close>

fun errors_Is :: "go_error \<Rightarrow> go_error \<Rightarrow> bool" where
  "errors_Is (Wrap s e) target = (Wrap s e = target \<or> errors_Is e target)"
| "errors_Is (Wrapf p e q) target = (Wrapf p e q = target \<or> errors_Is e target)"
| "errors_Is (DaoFailure m nf e) target = (DaoFailure m nf e = target \<or> errors_Is e target)"
| "errors_Is (JoinErr e e') target = (JoinErr e e' = target \<or> errors_Is e target \<or> errors_Is e' target)"
| "errors_Is e target = (e = target)"

text \<open>
  \<open>errors.As\<close> for a \<open>DaoError\<close>: the flag of the first one in the chain. And \<open>errors.Join\<close> of
  the errors that were collected (none: nil).
\<close>

fun as_dao :: "go_error \<Rightarrow> dao_kind option" where
  "as_dao (DaoLeaf m nf) = Some nf"
| "as_dao (DaoFailure m nf e) = Some nf"
| "as_dao (Wrap s e) = as_dao e"
| "as_dao (Wrapf p e q) = as_dao e"
| "as_dao (JoinErr e e') = (case as_dao e of None \<Rightarrow> as_dao e' | Some nf \<Rightarrow> Some nf)"
| "as_dao e = None"

definition NotFound :: "go_error \<Rightarrow> bool" where
  "NotFound err = (as_dao err = Some DaoNotFound)"

fun errors_Join :: "go_error list \<Rightarrow> go_error option" where
  "errors_Join [] = None"
| "errors_Join [e] = Some e"
| "errors_Join (e # e' # es) = map_option (JoinErr e) (errors_Join (e' # es))"

text \<open>The \<open>Error()\<close> text of an error value.\<close>

fun error_text :: "go_error \<Rightarrow> string" where
  "error_text ErrNotExist = ''task does not exist''"
| "error_text ErrNotRunning = ''task is not running''"
| "error_text ErrTaskCanceled = ''task was canceled''"
| "error_text ErrContextCanceled = ''dequeue context timed out or was canceled''"
| "error_text ErrRowsNotAffected = ''no rows were affected''"
| "error_text ErrMaxRetriesExceeded = ''task has exceeded the maximum amount of retries''"
| "error_text ErrNotCancellable = ''task not cancellable''"
| "error_text ErrServerExited = ''server exited''"
| "error_text Context_Canceled = ''context canceled''"
| "error_text Context_DeadlineExceeded = ''context deadline exceeded''"
| "error_text Pgx_ErrNoRows = ''no rows in result set''"
| "error_text Sql_ErrTxDone = ''sql: transaction has already been committed or rolled back''"
| "error_text (Other s) = s"
| "error_text (Wrap s e) = s @ '': '' @ error_text e"
| "error_text (Wrapf p e q) = p @ error_text e @ q"
| "error_text (DaoLeaf m nf) = m"
| "error_text (DaoFailure m nf e) = m @ '': '' @ error_text e"
| "error_text (JoinErr e e') = error_text e @ [CHR 10] @ error_text e'"
| "error_text (PgError m code c) = ''ERROR: '' @ m @ '' (SQLSTATE '' @ code @ '')''"
| "error_text (ModelErr m v) = m"
| "error_text (GoPanic s) = s"
| "error_text NeverReturns = []"

text \<open>A value that passes every error check of the code.\<close>

fun halted :: "go_error \<Rightarrow> bool" where
  "halted (GoPanic s) = True"
| "halted NeverReturns = True"
| "halted err = False"

lemma errors_Is_refl [simp]: "errors_Is e e"
  by (cases e) auto

lemma errors_Join_None [simp]: "errors_Join es = None \<longleftrightarrow> es = []"
  by (induction es rule: errors_Join.induct) auto

lemma errors_Is_Wrap [simp]: "errors_Is (Wrap s e) e"
  by simp

section \<open>Tables as lists of rows\<close>

text \<open>
  A table is the list of its rows. \<open>update_where\<close> and \<open>delete_where\<close> are the SQL
  statements \<open>UPDATE .. WHERE\<close> and \<open>DELETE .. WHERE\<close>; \<open>rows_affected\<close> is the number
  the command tag reports.
\<close>

definition update_where :: "('r \<Rightarrow> bool) \<Rightarrow> ('r \<Rightarrow> 'r) \<Rightarrow> 'r list \<Rightarrow> 'r list" where
  "update_where p f rows = map (\<lambda>r. if p r then f r else r) rows"

definition delete_where :: "('r \<Rightarrow> bool) \<Rightarrow> 'r list \<Rightarrow> 'r list" where
  "delete_where p rows = filter (\<lambda>r. \<not> p r) rows"

definition rows_affected :: "('r \<Rightarrow> bool) \<Rightarrow> 'r list \<Rightarrow> nat" where
  "rows_affected p rows = length (filter p rows)"

lemma update_where_Nil [table_simps, simp]: "update_where p f [] = []"
  by (simp add: update_where_def)

lemma update_where_Cons [table_simps, simp]:
  "update_where p f (r # rs) = (if p r then f r else r) # update_where p f rs"
  by (simp add: update_where_def)

lemma length_update_where [table_simps, simp]: "length (update_where p f rows) = length rows"
  by (simp add: update_where_def)

lemma set_update_where [table_simps]:
  "set (update_where p f rows) = (\<lambda>r. if p r then f r else r) ` set rows"
  by (simp add: update_where_def)

lemma ball_update_where [table_simps, simp]:
  "(\<forall>r \<in> set (update_where p f rows). P r) \<longleftrightarrow> (\<forall>r \<in> set rows. P (if p r then f r else r))"
  by (auto simp: update_where_def)

lemma in_update_whereE:
  assumes "r' \<in> set (update_where p f rows)"
  obtains r where "r \<in> set rows" "r' = (if p r then f r else r)"
  using assms by (auto simp: update_where_def)

lemma map_update_where [table_simps]:
  assumes "\<And>r. p r \<Longrightarrow> k (f r) = k r"
  shows "map k (update_where p f rows) = map k rows"
  using assms by (simp add: update_where_def)

lemma update_where_all:
  assumes "\<forall>r \<in> set rows. P r" and "\<And>r. r \<in> set rows \<Longrightarrow> P r \<Longrightarrow> p r \<Longrightarrow> P (f r)"
  shows "\<forall>r \<in> set (update_where p f rows). P r"
  using assms by (auto simp: set_update_where)

lemma set_delete_where [table_simps, simp]: "set (delete_where p rows) = {r \<in> set rows. \<not> p r}"
  by (simp add: delete_where_def)

lemma delete_where_Nil [table_simps, simp]: "delete_where p [] = []"
  by (simp add: delete_where_def)

lemma delete_where_Cons [table_simps, simp]:
  "delete_where p (r # rs) = (if p r then delete_where p rs else r # delete_where p rs)"
  by (simp add: delete_where_def)

lemma distinct_map_delete_where:
  "distinct (map k rows) \<Longrightarrow> distinct (map k (delete_where p rows))"
  by (simp add: delete_where_def distinct_map_filter)

lemma rows_affected_0_iff [table_simps]: "rows_affected p rows = 0 \<longleftrightarrow> (\<forall>r \<in> set rows. \<not> p r)"
  by (auto simp: rows_affected_def filter_empty_conv)

lemma rows_affected_key:
  assumes "distinct (map k rows)" and "\<And>r. p r \<Longrightarrow> k r = i"
  shows "rows_affected p rows \<le> 1"
  using assms
proof (induction rows)
  case (Cons r rs)
  show ?case
  proof (cases "p r")
    case True
    have "\<not> p r'" if "r' \<in> set rs" for r'
      using that True Cons.prems by (auto simp: image_iff)
    then have "filter p rs = []" by (simp add: filter_empty_conv)
    with True show ?thesis by (simp add: rows_affected_def)
  next
    case False
    with Cons show ?thesis by (simp add: rows_affected_def)
  qed
qed (simp add: rows_affected_def)

text \<open>The row with a given key: \<open>SELECT .. WHERE key = i\<close> on a unique key.\<close>

definition lookup_row :: "('r \<Rightarrow> 'k) \<Rightarrow> 'k \<Rightarrow> 'r list \<Rightarrow> 'r option" where
  "lookup_row k i rows = find (\<lambda>r. k r = i) rows"

lemma lookup_row_Nil [simp]: "lookup_row k i [] = None"
  by (simp add: lookup_row_def)

lemma lookup_row_Cons [simp]:
  "lookup_row k i (r # rs) = (if k r = i then Some r else lookup_row k i rs)"
  by (simp add: lookup_row_def)

lemma lookup_row_SomeD: "lookup_row k i rows = Some r \<Longrightarrow> r \<in> set rows \<and> k r = i"
  by (auto simp: lookup_row_def find_Some_iff)

lemma lookup_row_None: "lookup_row k i rows = None \<longleftrightarrow> i \<notin> k ` set rows"
  by (auto simp: lookup_row_def find_None_iff)

lemma lookup_row_in:
  assumes "distinct (map k rows)" and "r \<in> set rows"
  shows "lookup_row k (k r) rows = Some r"
  using assms by (induction rows) (auto simp: image_iff)

lemma lookup_row_iff:
  "distinct (map k rows) \<Longrightarrow> lookup_row k i rows = Some r \<longleftrightarrow> r \<in> set rows \<and> k r = i"
  using lookup_row_SomeD lookup_row_in by fastforce

lemma lookup_row_update_where:
  assumes "\<And>r. p r \<Longrightarrow> k (f r) = k r"
  shows "lookup_row k i (update_where p f rows) =
    map_option (\<lambda>r. if p r then f r else r) (lookup_row k i rows)"
  using assms by (induction rows) auto

lemma lookup_row_append:
  "lookup_row k i (xs @ ys) = (case lookup_row k i xs of Some r \<Rightarrow> Some r | None \<Rightarrow> lookup_row k i ys)"
  by (induction xs) auto

section \<open>Generic facts on lists\<close>

lemma find_cong_set: "(\<And>x. x \<in> set xs \<Longrightarrow> p x = q x) \<Longrightarrow> find p xs = find q xs"
  by (induction xs) auto

lemma find_mem: "find p xs = Some x \<Longrightarrow> x \<in> set xs \<and> p x"
  by (auto simp: find_Some_iff)

lemma set_tl: "set (tl xs) \<subseteq> set xs"
  by (cases xs) auto

end
