(* ===== verification/GoStrings.thy ===== *)
theory GoStrings
  imports CS_Prelude
begin

text \<open>
  The part of Go's \<open>strings\<close>, \<open>slices\<close> and \<open>unicode/utf8\<close> packages the program
  uses. A Go string is a byte string, a \<open>char list\<close> here. Case mapping and white-space
  trimming are the ASCII ones: the strings they are applied to (URLs, route paths, package
  and feature names, media types) are ASCII.
\<close>

section \<open>Definitions\<close>

definition HasPrefix :: "string \<Rightarrow> string \<Rightarrow> bool" where
  "HasPrefix s p = (take (length p) s = p)"

definition HasSuffix :: "string \<Rightarrow> string \<Rightarrow> bool" where
  "HasSuffix s p = (length p \<le> length s \<and> drop (length s - length p) s = p)"

definition TrimSuffix :: "string \<Rightarrow> string \<Rightarrow> string" where
  "TrimSuffix s p = (if HasSuffix s p then take (length s - length p) s else s)"

definition CutPrefix :: "string \<Rightarrow> string \<Rightarrow> string \<times> bool" where
  "CutPrefix s p = (if HasPrefix s p then (drop (length p) s, True) else (s, False))"

text \<open>\<open>strings.Cut\<close>: the text before and after the first occurrence of the separator.\<close>

fun Cut :: "string \<Rightarrow> string \<Rightarrow> string \<times> string \<times> bool" where
  "Cut [] sep = ([], [], sep = [])"
| "Cut (x # xs) sep =
     (if HasPrefix (x # xs) sep then ([], drop (length sep) (x # xs), True)
      else (case Cut xs sep of (b, a, found) \<Rightarrow> (x # b, a, found)))"

text \<open>\<open>strings.Contains\<close>.\<close>

definition StrContains :: "string \<Rightarrow> string \<Rightarrow> bool" where
  "StrContains s sub = snd (snd (Cut s sub))"

text \<open>\<open>strings.Split\<close> on a one-byte separator and \<open>strings.Join\<close>.\<close>

fun Split :: "string \<Rightarrow> char \<Rightarrow> string list" where
  "Split [] c = [[]]"
| "Split (x # xs) c =
     (if x = c then [] # Split xs c
      else (case Split xs c of [] \<Rightarrow> [[x]] | y # ys \<Rightarrow> (x # y) # ys))"

fun Join :: "string list \<Rightarrow> string \<Rightarrow> string" where
  "Join [] sep = []"
| "Join [x] sep = x"
| "Join (x # y # ys) sep = x @ sep @ Join (y # ys) sep"

definition TrimLeft :: "string \<Rightarrow> string \<Rightarrow> string" where
  "TrimLeft s cutset = dropWhile (\<lambda>c. c \<in> set cutset) s"

definition TrimRight :: "string \<Rightarrow> string \<Rightarrow> string" where
  "TrimRight s cutset = rev (dropWhile (\<lambda>c. c \<in> set cutset) (rev s))"

definition Trim :: "string \<Rightarrow> string \<Rightarrow> string" where
  "Trim s cutset = TrimRight (TrimLeft s cutset) cutset"

text \<open>The ASCII white space: space, tab, newline, vertical tab, form feed, carriage return.\<close>

definition whitespace :: string where
  "whitespace = [CHR 0x20, CHR 0x09, CHR 0x0A, CHR 0x0B, CHR 0x0C, CHR 0x0D]"

definition TrimSpace :: "string \<Rightarrow> string" where
  "TrimSpace s = Trim s whitespace"

definition ContainsAnyChar :: "string \<Rightarrow> string \<Rightarrow> bool" where
  "ContainsAnyChar s chars = list_ex (\<lambda>c. c \<in> set chars) s"

text \<open>\<open>strings.IndexAny\<close> and \<open>strings.LastIndex\<close> (of one byte); \<open>None\<close> is the result -1.\<close>

fun IndexAny :: "string \<Rightarrow> string \<Rightarrow> nat option" where
  "IndexAny [] chars = None"
| "IndexAny (x # xs) chars =
     (if x \<in> set chars then Some 0 else map_option Suc (IndexAny xs chars))"

fun LastIndex :: "string \<Rightarrow> char \<Rightarrow> nat option" where
  "LastIndex [] c = None"
| "LastIndex (x # xs) c =
     (case LastIndex xs c of Some i \<Rightarrow> Some (Suc i) | None \<Rightarrow> if x = c then Some 0 else None)"

definition to_lower :: "char \<Rightarrow> char" where
  "to_lower c = (let n = (of_char c :: nat) in if 65 \<le> n \<and> n \<le> 90 then char_of (n + 32) else c)"

definition ToLower :: "string \<Rightarrow> string" where
  "ToLower s = map to_lower s"

definition ReplaceAll :: "string \<Rightarrow> char \<Rightarrow> char \<Rightarrow> string" where
  "ReplaceAll s old new = map (\<lambda>c. if c = old then new else c) s"

text \<open>\<open>strconv.Itoa\<close>.\<close>

fun digits_of :: "nat \<Rightarrow> string" where
  "digits_of n = (if n < 10 then [char_of (48 + n)] else digits_of (n div 10) @ [char_of (48 + n mod 10)])"

declare digits_of.simps [simp del]

definition Itoa :: "int \<Rightarrow> string" where
  "Itoa i = (if i < 0 then CHR ''-'' # digits_of (nat (- i)) else digits_of (nat i))"

subsection \<open>UTF-8\<close>

text \<open>
  \<open>rune_width\<close>: how many bytes the valid UTF-8 encoding at the head takes, 0 when the head is
  not one (\<open>utf8.DecodeRuneInString\<close> reports \<open>RuneError\<close> of width 1 there).
\<close>

definition byte_in :: "nat \<Rightarrow> nat \<Rightarrow> char \<Rightarrow> bool" where
  "byte_in lo hi c = (let n = (of_char c :: nat) in lo \<le> n \<and> n \<le> hi)"

text \<open>
  The table Go decodes by: for a first byte, the number of bytes of the encoding (0 for a byte
  that starts none) and the range of the second byte.
\<close>

definition first_byte :: "char \<Rightarrow> nat \<times> nat \<times> nat" where
  "first_byte b =
     (if byte_in 0 127 b then (1, 0, 0)
      else if byte_in 194 223 b then (2, 128, 191)
      else if byte_in 224 224 b then (3, 160, 191)
      else if byte_in 237 237 b then (3, 128, 159)
      else if byte_in 225 239 b then (3, 128, 191)
      else if byte_in 240 240 b then (4, 144, 191)
      else if byte_in 241 243 b then (4, 128, 191)
      else if byte_in 244 244 b then (4, 128, 143)
      else (0, 0, 0))"

definition rune_width :: "string \<Rightarrow> nat" where
  "rune_width s = (case s of
      [] \<Rightarrow> 0
    | b0 # rest \<Rightarrow>
        (case first_byte b0 of (w, lo, hi) \<Rightarrow>
           (let cont = take (w - 1) rest in
            if length cont = w - 1 \<and>
               (case cont of [] \<Rightarrow> True
                | b1 # bs \<Rightarrow> byte_in lo hi b1 \<and> list_all (byte_in 128 191) bs)
            then w else 0)))"

text \<open>The valid runes of a string in order, each as its bytes; invalid bytes are skipped.\<close>

function valid_runes :: "string \<Rightarrow> string list" where
  "valid_runes s =
     (if s = [] then []
      else if rune_width s = 0 then valid_runes (tl s)
      else take (rune_width s) s # valid_runes (drop (rune_width s) s))"
  by pat_completeness auto
termination
  by (relation "measure length") auto

declare valid_runes.simps [simp del]

text \<open>
  The runes of a string as \<open>range\<close> and \<open>regexp\<close> step through them, each as its bytes: an
  invalid byte is a rune of its own.
\<close>

function rune_spans :: "string \<Rightarrow> string list" where
  "rune_spans s =
     (if s = [] then []
      else take (max 1 (rune_width s)) s # rune_spans (drop (max 1 (rune_width s)) s))"
  by pat_completeness auto
termination
  by (relation "measure length") auto

declare rune_spans.simps [simp del]

text \<open>\<open>strings.ToValidUTF8(s, "")\<close>, and SQL's \<open>left(s, n)\<close>, which counts characters.\<close>

definition ToValidUTF8 :: "string \<Rightarrow> string" where
  "ToValidUTF8 s = concat (valid_runes s)"

definition sql_left :: "nat \<Rightarrow> string \<Rightarrow> string" where
  "sql_left n s = concat (take n (valid_runes s))"

section \<open>Lemmas\<close>

lemma HasPrefix_append [simp]: "HasPrefix (p @ s) p"
  by (simp add: HasPrefix_def)

lemma HasPrefixE: "HasPrefix s p \<Longrightarrow> \<exists>t. s = p @ t"
  unfolding HasPrefix_def by (metis append_take_drop_id)

lemma HasSuffix_append [simp]: "HasSuffix (s @ p) p"
  by (simp add: HasSuffix_def)

lemma HasSuffixE: "HasSuffix s p \<Longrightarrow> \<exists>t. s = t @ p"
  unfolding HasSuffix_def by (metis append_take_drop_id)

lemma HasSuffix_iff: "HasSuffix s p \<longleftrightarrow> (\<exists>t. s = t @ p)"
  using HasSuffixE by auto

lemma TrimSuffix_append [simp]: "TrimSuffix (s @ p) p = s"
  by (simp add: TrimSuffix_def)

lemma HasSuffix_single: "HasSuffix s [c] \<longleftrightarrow> s \<noteq> [] \<and> last s = c"
  by (cases s rule: rev_cases) (auto simp: HasSuffix_iff)

lemma Cut_found:
  "Cut s sep = (b, a, True) \<Longrightarrow> s = b @ sep @ a"
proof (induction s arbitrary: b a)
  case (Cons x xs)
  show ?case
  proof (cases "HasPrefix (x # xs) sep")
    case True
    then obtain t where t: "x # xs = sep @ t" using HasPrefixE by blast
    from True Cons.prems have "b = []" "a = drop (length sep) (x # xs)" by auto
    with t show ?thesis by simp
  next
    case False
    with Cons show ?thesis by (auto split: prod.splits)
  qed
qed simp

lemma Cut_not_found: "Cut s sep = (b, a, False) \<Longrightarrow> b = s \<and> a = []"
  by (induction s arbitrary: b a) (auto split: prod.splits if_splits)

lemma Cut_before_free:
  "Cut s [c] = (b, a, found) \<Longrightarrow> c \<notin> set b"
  by (induction s arbitrary: b a found) (auto simp: HasPrefix_def split: prod.splits if_splits)

lemma Cut_single_append:
  "c \<notin> set b \<Longrightarrow> Cut (b @ c # a) [c] = (b, a, True)"
  by (induction b) (auto simp: HasPrefix_def)

lemma Cut_single_none: "c \<notin> set s \<Longrightarrow> Cut s [c] = (s, [], False)"
  by (induction s) (auto simp: HasPrefix_def)

lemma StrContains_single [simp]: "StrContains s [c] \<longleftrightarrow> c \<in> set s"
proof (cases "c \<in> set s")
  case True
  then obtain b a where "s = b @ c # a" "c \<notin> set b" by (meson split_list_first)
  with True show ?thesis by (simp add: StrContains_def Cut_single_append)
qed (simp add: StrContains_def Cut_single_none)

lemma Split_not_Nil [simp]: "Split s c \<noteq> []"
  by (induction s) (auto split: list.splits)

lemma Join_Cons: "ys \<noteq> [] \<Longrightarrow> Join (x # ys) sep = x @ sep @ Join ys sep"
  by (cases ys) auto

lemma Join_Split [simp]: "Join (Split s c) [c] = s"
proof (induction s)
  case (Cons x xs)
  obtain y ys where yy: "Split xs c = y # ys" by (cases "Split xs c") auto
  with Cons have "Join (y # ys) [c] = xs" by simp
  with yy show ?case by (cases ys) (auto simp: Join_Cons)
qed simp

lemma Split_free: "p \<in> set (Split s c) \<Longrightarrow> c \<notin> set p"
  by (induction s arbitrary: p) (auto split: list.splits if_splits)

lemma Split_chars: "p \<in> set (Split s c) \<Longrightarrow> set p \<subseteq> set s"
  by (induction s arbitrary: p) (fastforce split: list.splits if_splits)+

lemma Split_no_sep: "c \<notin> set s \<Longrightarrow> Split s c = [s]"
  by (induction s) auto

lemma Split_append_sep: "c \<notin> set p \<Longrightarrow> Split (p @ c # s) c = p # Split s c"
  by (induction p) auto

lemma Split_Join:
  assumes "ps \<noteq> []" and "\<And>p. p \<in> set ps \<Longrightarrow> c \<notin> set p"
  shows "Split (Join ps [c]) c = ps"
  using assms
proof (induction ps rule: induct_list012)
  case (3 p q ps)
  then have "Split (Join (q # ps) [c]) c = q # ps" by simp
  with 3 show ?case by (simp add: Split_append_sep)
qed (auto simp: Split_no_sep)

lemma length_Split: "length (Split s c) = Suc (count_list s c)"
  by (induction s) (auto split: list.splits)

lemma TrimLeft_hd: "TrimLeft s cs \<noteq> [] \<Longrightarrow> hd (TrimLeft s cs) \<notin> set cs"
  by (metis TrimLeft_def hd_dropWhile)

lemma TrimRight_last: "TrimRight s cs \<noteq> [] \<Longrightarrow> last (TrimRight s cs) \<notin> set cs"
  by (metis TrimRight_def hd_dropWhile hd_rev last_rev rev_is_Nil_conv rev_rev_ident)

lemma TrimRight_prefix: "\<exists>t. s = TrimRight s cs @ t \<and> set t \<subseteq> set cs"
proof -
  have "s = rev (dropWhile (\<lambda>c. c \<in> set cs) (rev s)) @ rev (takeWhile (\<lambda>c. c \<in> set cs) (rev s))"
    by (metis rev_append rev_rev_ident takeWhile_dropWhile_id)
  moreover have "set (rev (takeWhile (\<lambda>c. c \<in> set cs) (rev s))) \<subseteq> set cs"
    by (auto dest: set_takeWhileD)
  ultimately show ?thesis unfolding TrimRight_def by blast
qed

lemma TrimLeft_suffix: "\<exists>t. s = t @ TrimLeft s cs \<and> set t \<subseteq> set cs"
proof -
  have "s = takeWhile (\<lambda>c. c \<in> set cs) s @ TrimLeft s cs"
    by (simp add: TrimLeft_def)
  then show ?thesis using set_takeWhileD by fastforce
qed

lemma Trim_hd: "Trim s cs \<noteq> [] \<Longrightarrow> hd (Trim s cs) \<notin> set cs"
proof -
  assume ne: "Trim s cs \<noteq> []"
  obtain t where t: "TrimLeft s cs = Trim s cs @ t"
    using TrimRight_prefix [of "TrimLeft s cs" cs] by (auto simp: Trim_def)
  then have "TrimLeft s cs \<noteq> []" using ne by auto
  then have "hd (TrimLeft s cs) \<notin> set cs" by (rule TrimLeft_hd)
  moreover have "hd (TrimLeft s cs) = hd (Trim s cs)" using t ne by simp
  ultimately show ?thesis by simp
qed

lemma Trim_last: "Trim s cs \<noteq> [] \<Longrightarrow> last (Trim s cs) \<notin> set cs"
  by (simp add: Trim_def TrimRight_last)

lemma Trim_fix:
  "s = [] \<or> (hd s \<notin> set cs \<and> last s \<notin> set cs) \<Longrightarrow> Trim s cs = s"
proof (cases s rule: rev_cases)
  case (snoc t y)
  moreover assume "s = [] \<or> (hd s \<notin> set cs \<and> last s \<notin> set cs)"
  ultimately show ?thesis
    by (cases t) (auto simp: Trim_def TrimLeft_def TrimRight_def)
qed (simp add: Trim_def TrimLeft_def TrimRight_def)

lemma Trim_idem [simp]: "Trim (Trim s cs) cs = Trim s cs"
  by (rule Trim_fix) (use Trim_hd Trim_last in auto)

lemma TrimSpace_idem [simp]: "TrimSpace (TrimSpace s) = TrimSpace s"
  by (simp add: TrimSpace_def)

lemma set_Trim: "set (Trim s cs) \<subseteq> set s"
proof -
  have "set (TrimRight t cs) \<subseteq> set t" for t
    using TrimRight_prefix [of t cs] by (metis Un_upper1 set_append)
  moreover have "set (TrimLeft s cs) \<subseteq> set s"
    using TrimLeft_suffix [of s cs] by (metis Un_upper2 set_append)
  ultimately show ?thesis unfolding Trim_def by blast
qed

lemma set_TrimSpace: "set (TrimSpace s) \<subseteq> set s"
  by (simp add: TrimSpace_def set_Trim)

lemma LastIndex_Some:
  "LastIndex s c = Some i \<Longrightarrow> i < length s \<and> s ! i = c \<and> c \<notin> set (drop (Suc i) s)"
proof (induction s arbitrary: i)
  case (Cons x xs)
  show ?case
  proof (cases "LastIndex xs c")
    case None
    then have "c \<notin> set xs"
      by (induction xs) (auto split: option.splits if_splits)
    with Cons None show ?thesis by (auto split: if_splits)
  next
    case (Some j)
    with Cons show ?thesis by auto
  qed
qed simp

lemma LastIndex_None: "LastIndex s c = None \<longleftrightarrow> c \<notin> set s"
  by (induction s) (auto split: option.splits)

lemma LastIndex_append: "c \<notin> set b \<Longrightarrow> LastIndex (a @ c # b) c = Some (length a)"
proof (induction a)
  case Nil
  then show ?case by (simp add: LastIndex_None [THEN iffD2])
qed simp

lemma IndexAny_Some: "IndexAny s cs = Some i \<Longrightarrow> i < length s \<and> s ! i \<in> set cs \<and> (\<forall>j<i. s ! j \<notin> set cs)"
proof (induction s arbitrary: i)
  case (Cons x xs)
  show ?case
  proof (cases "x \<in> set cs")
    case False
    with Cons.prems obtain j where j: "IndexAny xs cs = Some j" "i = Suc j" by auto
    from Cons.IH [OF j(1)] have "j < length xs" "xs ! j \<in> set cs" "\<forall>k<j. xs ! k \<notin> set cs" by auto
    with j(2) False show ?thesis by (auto simp: less_Suc_eq_0_disj)
  qed (use Cons.prems in auto)
qed simp

lemma IndexAny_None: "IndexAny s cs = None \<longleftrightarrow> set s \<inter> set cs = {}"
  by (induction s) auto

lemma IndexAny_append:
  "set a \<inter> set cs = {} \<Longrightarrow> x \<in> set cs \<Longrightarrow> IndexAny (a @ x # b) cs = Some (length a)"
  by (induction a) auto

lemma length_ToLower [simp]: "length (ToLower s) = length s"
  by (simp add: ToLower_def)

lemma to_lower_idem [simp]: "to_lower (to_lower c) = to_lower c"
  by (auto simp: to_lower_def Let_def)

lemma ToLower_idem [simp]: "ToLower (ToLower s) = ToLower s"
  by (simp add: ToLower_def)

lemma ToLower_append: "ToLower (s @ t) = ToLower s @ ToLower t"
  by (simp add: ToLower_def)

subsection \<open>UTF-8 lemmas\<close>

lemma rune_width_le: "rune_width s \<le> length s"
  unfolding rune_width_def by (auto simp: Let_def split: list.split prod.split)

lemma rune_width_take:
  assumes "0 < rune_width s"
  shows "rune_width (take (rune_width s) s @ t) = rune_width s"
proof -
  obtain b0 rest where s: "s = b0 # rest" using assms by (cases s) (auto simp: rune_width_def)
  obtain w lo hi where f: "first_byte b0 = (w, lo, hi)" by (cases "first_byte b0") auto
  let ?cont = "take (w - 1) rest"
  have w: "rune_width s = w" and ok: "length ?cont = w - 1"
    using assms s f by (auto simp: rune_width_def Let_def split: if_splits)
  have "take (w - 1) (?cont @ t) = ?cont" using ok by simp
  moreover have "take w s = b0 # ?cont" using assms w s by (cases w) auto
  ultimately show ?thesis
    using assms w s f by (simp add: rune_width_def Let_def split: if_splits)
qed

lemma rune_spans_Nil [simp]: "rune_spans [] = []"
  by (simp add: rune_spans.simps)

lemma concat_rune_spans [simp]: "concat (rune_spans s) = s"
proof (induction s rule: rune_spans.induct)
  case (1 s)
  then show ?case by (cases "s = []") (simp_all add: rune_spans.simps [of s])
qed

lemma valid_runes_Nil [simp]: "valid_runes [] = []"
  by (simp add: valid_runes.simps)

lemma valid_runes_append:
  assumes "0 < rune_width r" and "rune_width r = length r"
  shows "valid_runes (r @ t) = r # valid_runes t"
proof -
  have "rune_width (r @ t) = length r"
    using rune_width_take [of r t] assms by simp
  with assms show ?thesis by (simp add: valid_runes.simps [of "r @ t"])
qed

lemma valid_runes_width: "r \<in> set (valid_runes s) \<Longrightarrow> 0 < rune_width r \<and> rune_width r = length r"
proof (induction s rule: valid_runes.induct)
  case (1 s)
  show ?case
  proof (cases "s = [] \<or> rune_width s = 0")
    case True
    with 1 show ?thesis by (auto simp: valid_runes.simps [of s] split: if_splits)
  next
    case False
    then have w: "rune_width (take (rune_width s) s) = rune_width s"
      using rune_width_take [of s "[]"] by simp
    with False 1 rune_width_le [of s] show ?thesis
      by (auto simp: valid_runes.simps [of s] min_absorb2)
  qed
qed

lemma valid_runes_concat:
  "\<forall>r \<in> set rs. 0 < rune_width r \<and> rune_width r = length r \<Longrightarrow> valid_runes (concat rs) = rs"
proof (induction rs)
  case (Cons r rs)
  then have "valid_runes (concat rs) = rs" by (metis list.set_intros(2))
  moreover from Cons.prems have "0 < rune_width r" "rune_width r = length r" by auto
  ultimately show ?case by (simp only: concat.simps valid_runes_append)
qed simp

lemma valid_runes_sql_left: "valid_runes (sql_left n s) = take n (valid_runes s)"
  unfolding sql_left_def
  by (rule valid_runes_concat) (auto dest: in_set_takeD valid_runes_width)

lemma ToValidUTF8_idem [simp]: "ToValidUTF8 (ToValidUTF8 s) = ToValidUTF8 s"
  unfolding ToValidUTF8_def by (subst valid_runes_concat) (auto dest: valid_runes_width)

lemma sql_left_bound: "length (valid_runes (sql_left n s)) \<le> n"
  by (simp add: valid_runes_sql_left)

subsection \<open>ASCII text\<close>

definition ascii :: "string \<Rightarrow> bool" where
  "ascii s = list_all (\<lambda>c. (of_char c :: nat) < 128) s"

lemma rune_width_ascii: "(of_char c :: nat) < 128 \<Longrightarrow> rune_width [c] = 1"
  by (simp add: rune_width_def first_byte_def byte_in_def Let_def)

lemma ToValidUTF8_ascii: "ascii s \<Longrightarrow> ToValidUTF8 s = s"
proof (induction s)
  case (Cons c s)
  then have "valid_runes ([c] @ s) = [c] # valid_runes s"
    by (intro valid_runes_append) (simp_all add: ascii_def rune_width_ascii)
  with Cons show ?case by (simp add: ToValidUTF8_def ascii_def)
qed (simp add: ToValidUTF8_def)

lemma ascii_take: "ascii s \<Longrightarrow> ascii (take n s)"
  by (auto simp: ascii_def list_all_iff dest: in_set_takeD)

end
