(* ===== verification/ConfigTasks.thy ===== *)
theory ConfigTasks
  imports CS_Prelude
begin

text \<open>
  The task types, task statuses and task lists of \<open>pkg/config/tasks.go\<close>, and the retry
  limit of \<open>pkg/tasks/queue/queue.go\<close>. Task types are the source's strings; the five status
  strings, which the code only compares, are a datatype.
\<close>

abbreviation RepositorySnapshotTask :: string where
  "RepositorySnapshotTask \<equiv> ''snapshot''"
abbreviation DeleteRepositorySnapshotsTask :: string where
  "DeleteRepositorySnapshotsTask \<equiv> ''delete-repository-snapshots''"
abbreviation DeleteSnapshotsTask :: string where
  "DeleteSnapshotsTask \<equiv> ''delete-snapshots''"
abbreviation IntrospectTask :: string where
  "IntrospectTask \<equiv> ''introspect''"
abbreviation DeleteTemplatesTask :: string where
  "DeleteTemplatesTask \<equiv> ''delete-templates''"
abbreviation UpdateTemplateContentTask :: string where
  "UpdateTemplateContentTask \<equiv> ''update-template-content''"
abbreviation UpdateRepositoryTask :: string where
  "UpdateRepositoryTask \<equiv> ''update-repository''"
abbreviation AddUploadsTask :: string where
  "AddUploadsTask \<equiv> ''add-uploads-repository''"
abbreviation UpdateLatestSnapshotTask :: string where
  "UpdateLatestSnapshotTask \<equiv> ''update-latest-snapshot''"
abbreviation BulkRemoveRpmsTask :: string where
  "BulkRemoveRpmsTask \<equiv> ''bulk-remove-rpms''"
abbreviation UpdateSnapshotPublishedTask :: string where
  "UpdateSnapshotPublishedTask \<equiv> ''update-snapshot-published''"

datatype task_status = Running | Failed | Completed | Canceled | Pending

definition TaskTypes :: "string list" where
  "TaskTypes = [RepositorySnapshotTask, DeleteRepositorySnapshotsTask, DeleteSnapshotsTask,
     IntrospectTask, DeleteTemplatesTask, UpdateTemplateContentTask, UpdateRepositoryTask,
     AddUploadsTask, UpdateLatestSnapshotTask, BulkRemoveRpmsTask, UpdateSnapshotPublishedTask]"

definition RequeueableTasks :: "string list" where
  "RequeueableTasks = [DeleteTemplatesTask, DeleteRepositorySnapshotsTask,
     UpdateTemplateContentTask, DeleteSnapshotsTask]"

definition CancellableTasks :: "string list" where
  "CancellableTasks = [IntrospectTask, RepositorySnapshotTask, UpdateTemplateContentTask]"

definition TasksToCleanup :: "string list" where
  "TasksToCleanup = [IntrospectTask, RepositorySnapshotTask, UpdateTemplateContentTask,
     UpdateRepositoryTask, UpdateLatestSnapshotTask, AddUploadsTask, BulkRemoveRpmsTask]"

definition TasksToCleanupIfCompleted :: "string list" where
  "TasksToCleanupIfCompleted = [DeleteRepositorySnapshotsTask, DeleteTemplatesTask, DeleteSnapshotsTask]"

definition MaxTaskRetries :: int where
  "MaxTaskRetries = 3"

end
