(* ===== verification/TaskQueue.thy ===== *)
theory TaskQueue
  imports GoStrings ConfigTasks
begin

text \<open>
  The PostgreSQL task queue, \<open>pkg/tasks/queue/pgqueue.go\<close> and \<open>queue.go\<close>.

  The database is a record of the three tables the queue keeps and of what it has notified. One
  definition per SQL statement (\<open>sqlEnqueue\<close>, \<open>sqlDequeue\<close>, ..) says what the statement does
  to the tables; the methods of \<open>PgQueue\<close> are written over them in the order of the code.
  A method that runs in a transaction is a value of type \<open>'a tx\<close>: it threads the database
  through its statements and stops at the first error, and \<open>run_tx\<close> is the commit or the
  deferred rollback. The environment \<open>qenv\<close> of a call holds the two clocks the code reads
  (\<open>clock_timestamp()\<close> and \<open>time.Now()\<close>), the configured retry bound, the rows that
  concurrent transactions hold locked, and which database calls fail.

  Columns that every insert of the program sets are not optional here; the nullable ones the
  code reads are options. Timestamps are nanoseconds.
\<close>

section \<open>State\<close>

record TaskInfo =
  ti_Id :: uuid
  ti_Typename :: string
  ti_Payload :: string
  ti_OrgId :: string
  ti_AccountId :: string
  ti_ObjectUUID :: "uuid option"
  ti_ObjectType :: "string option"
  ti_Token :: "uuid option"
  ti_Queued :: "timestamp option"
  ti_Started :: "timestamp option"
  ti_Finished :: "timestamp option"
  ti_Error :: "string option"
  ti_Status :: "task_status option"
  ti_RequestID :: string
  ti_Retries :: int
  ti_NextRetryTime :: "timestamp option"
  ti_Priority :: int
  ti_CancelAttempted :: bool

record Task =
  tk_Typename :: string
  tk_Payload :: string
  tk_Dependencies :: "uuid list"
  tk_OrgId :: string
  tk_AccountId :: string
  tk_ObjectUUID :: "uuid option"
  tk_ObjectType :: "string option"
  tk_RequestID :: string
  tk_Priority :: int

record heartbeat =
  hb_token :: uuid
  hb_id :: uuid
  hb_time :: timestamp

text \<open>
  \<open>notified\<close> counts the notifications on the \<open>tasks\<close> channel, \<open>cancel_notes\<close> are the
  payloads sent on the \<open>cancel_task\<close> channel, oldest first. Both are delivered at commit.
\<close>

record queue_db =
  tasks :: "TaskInfo list"
  task_dependencies :: "(uuid \<times> uuid) list"
  task_heartbeats :: "heartbeat list"
  notified :: nat
  cancel_notes :: "uuid list"

definition empty_db :: queue_db where
  "empty_db = \<lparr>tasks = [], task_dependencies = [], task_heartbeats = [], notified = 0, cancel_notes = []\<rparr>"

text \<open>The database calls of the code, by place; the environment says which of them fail.\<close>

datatype db_call =
    CAcquire | CBegin | CCommit | CNotify | CEnqueue | CInsertDependency uuid | CDequeue
  | CInsertHeartbeat | CDependencies | CStatus | CDeleteHeartbeat | CFinish | CDependents
  | CCancelDependent uuid | CCancelTask | CSetCancelAttempted | CCancelNotify | CRequeue
  | CRequeueFailed | CHeartbeats | CRefresh nat | CIdFromToken | CUpdatePayload | CDeleteAll

record qenv =
  clock_timestamp :: timestamp
  time_Now :: timestamp
  RetryWaitUpperBound :: int
  row_locked :: "uuid \<Rightarrow> bool"
  db_fails :: "db_call \<Rightarrow> bool"

section \<open>Transactions\<close>

type_synonym 'a tx = "queue_db \<Rightarrow> go_error + ('a \<times> queue_db)"

definition returnT :: "'a \<Rightarrow> 'a tx" where
  "returnT a = (\<lambda>db. Inr (a, db))"

definition failT :: "go_error \<Rightarrow> 'a tx" where
  "failT err = (\<lambda>db. Inl err)"

definition bindT :: "'a tx \<Rightarrow> ('a \<Rightarrow> 'b tx) \<Rightarrow> 'b tx" where
  "bindT m k = (\<lambda>db. case m db of Inl err \<Rightarrow> Inl err | Inr (a, db') \<Rightarrow> k a db')"

text \<open>\<open>callT\<close>: one database call that may fail; \<open>wrapT\<close>: \<open>fmt.Errorf("..: %w", err)\<close>.\<close>

definition callT :: "qenv \<Rightarrow> db_call \<Rightarrow> (queue_db \<Rightarrow> 'a \<times> queue_db) \<Rightarrow> 'a tx" where
  "callT e c f = (\<lambda>db. if db_fails e c then Inl (Other ''database error'') else Inr (f db))"

definition wrapT :: "string \<Rightarrow> 'a tx \<Rightarrow> 'a tx" where
  "wrapT s m = (\<lambda>db. case m db of Inl err \<Rightarrow> Inl (Wrap s err) | Inr r \<Rightarrow> Inr r)"

text \<open>\<open>flatT\<close>: \<open>fmt.Errorf("..: %v", err)\<close>, which does not wrap.\<close>

definition flatT :: "string \<Rightarrow> 'a tx \<Rightarrow> 'a tx" where
  "flatT s m = (\<lambda>db. case m db of Inl err \<Rightarrow> Inl (Other (s @ '': '' @ error_text err)) | Inr r \<Rightarrow> Inr r)"

fun forT :: "('x \<Rightarrow> unit tx) \<Rightarrow> 'x list \<Rightarrow> unit tx" where
  "forT f [] = returnT ()"
| "forT f (x # xs) = bindT (f x) (\<lambda>_. forT f xs)"

text \<open>Commit on success, rollback (the deferred \<open>tx.Rollback\<close>) on every error return.\<close>

definition run_tx :: "'a tx \<Rightarrow> queue_db \<Rightarrow> (go_error + 'a) \<times> queue_db" where
  "run_tx m db = (case m db of Inl err \<Rightarrow> (Inl err, db) | Inr (a, db') \<Rightarrow> (Inr a, db'))"

section \<open>SQL statements\<close>

definition has_id :: "uuid \<Rightarrow> TaskInfo \<Rightarrow> bool" where
  "has_id i t = (ti_Id t = i)"

definition sqlNotify :: "queue_db \<Rightarrow> queue_db" where
  "sqlNotify db = db\<lparr>notified := Suc (notified db)\<rparr>"

text \<open>The inserts report a violated primary or foreign key as \<open>None\<close>.\<close>

definition sqlEnqueue :: "timestamp \<Rightarrow> uuid \<Rightarrow> Task \<Rightarrow> queue_db \<Rightarrow> queue_db option" where
  "sqlEnqueue now i task db =
     (if i \<in> ti_Id ` set (tasks db) then None
      else Some (db\<lparr>tasks := tasks db @
        [\<lparr>ti_Id = i, ti_Typename = tk_Typename task, ti_Payload = tk_Payload task,
          ti_OrgId = tk_OrgId task, ti_AccountId = tk_AccountId task,
          ti_ObjectUUID = tk_ObjectUUID task, ti_ObjectType = tk_ObjectType task,
          ti_Token = None, ti_Queued = Some now, ti_Started = None, ti_Finished = None,
          ti_Error = None, ti_Status = Some Pending, ti_RequestID = tk_RequestID task,
          ti_Retries = 0, ti_NextRetryTime = None, ti_Priority = tk_Priority task,
          ti_CancelAttempted = False\<rparr>]\<rparr>))"

definition sqlInsertDependency :: "uuid \<Rightarrow> uuid \<Rightarrow> queue_db \<Rightarrow> queue_db option" where
  "sqlInsertDependency i d db =
     (if i \<in> ti_Id ` set (tasks db) \<and> d \<in> ti_Id ` set (tasks db)
      then Some (db\<lparr>task_dependencies := task_dependencies db @ [(i, d)]\<rparr>) else None)"

text \<open>The condition of \<open>sqlDequeue\<close> on a row: not started, not canceled, of one of the types,
  and no dependency that has not finished.\<close>

definition deps_finished :: "queue_db \<Rightarrow> uuid \<Rightarrow> bool" where
  "deps_finished db i =
     (\<not> list_ex (\<lambda>(ti, d). ti = i \<and>
           list_ex (\<lambda>dep. ti_Id dep = d \<and> ti_Finished dep = None) (tasks db)) (task_dependencies db))"

definition ready :: "queue_db \<Rightarrow> string list \<Rightarrow> TaskInfo \<Rightarrow> bool" where
  "ready db taskTypes t =
     (ti_Started t = None \<and> ti_Status t \<noteq> Some Canceled \<and> ti_Typename t \<in> set taskTypes \<and>
      deps_finished db (ti_Id t))"

text \<open>\<open>ORDER BY priority DESC, queued_at ASC\<close>, a null \<open>queued_at\<close> last.\<close>

fun queued_le :: "timestamp option \<Rightarrow> timestamp option \<Rightarrow> bool" where
  "queued_le _ None = True"
| "queued_le None (Some _) = False"
| "queued_le (Some a) (Some b) = (a \<le> b)"

definition before :: "TaskInfo \<Rightarrow> TaskInfo \<Rightarrow> bool" where
  "before a b = (ti_Priority b < ti_Priority a \<or>
     ti_Priority a = ti_Priority b \<and> queued_le (ti_Queued a) (ti_Queued b))"

text \<open>\<open>LIMIT 1\<close>: a least row, the first of them in the table's order.\<close>

fun limit1 :: "('r \<Rightarrow> 'r \<Rightarrow> bool) \<Rightarrow> 'r list \<Rightarrow> 'r option" where
  "limit1 le [] = None"
| "limit1 le (r # rs) = (case limit1 le rs of None \<Rightarrow> Some r | Some r' \<Rightarrow> if le r r' then Some r else Some r')"

definition dequeue_choice :: "qenv \<Rightarrow> string list \<Rightarrow> queue_db \<Rightarrow> TaskInfo option" where
  "dequeue_choice e taskTypes db =
     limit1 before (filter (\<lambda>t. ready db taskTypes t \<and> \<not> row_locked e (ti_Id t)) (tasks db))"

definition mark_running :: "timestamp \<Rightarrow> uuid \<Rightarrow> TaskInfo \<Rightarrow> TaskInfo" where
  "mark_running now tok t = t\<lparr>ti_Token := Some tok, ti_Started := Some now, ti_Status := Some Running\<rparr>"

definition sqlDequeue :: "qenv \<Rightarrow> uuid \<Rightarrow> string list \<Rightarrow> queue_db \<Rightarrow> TaskInfo option \<times> queue_db" where
  "sqlDequeue e tok taskTypes db =
     (case dequeue_choice e taskTypes db of
        None \<Rightarrow> (None, db)
      | Some t \<Rightarrow> (Some (mark_running (clock_timestamp e) tok t),
          db\<lparr>tasks := update_where (has_id (ti_Id t)) (mark_running (clock_timestamp e) tok) (tasks db)\<rparr>))"

definition mark_requeued :: "timestamp \<Rightarrow> TaskInfo \<Rightarrow> TaskInfo" where
  "mark_requeued now t = t\<lparr>ti_Started := None, ti_Token := None, ti_Status := Some Pending,
     ti_Retries := ti_Retries t + 1, ti_Queued := Some now\<rparr>"

definition requeue_row :: "uuid \<Rightarrow> TaskInfo \<Rightarrow> bool" where
  "requeue_row i t = (ti_Id t = i \<and> ti_Started t \<noteq> None \<and> ti_Finished t = None)"

definition sqlRequeue :: "timestamp \<Rightarrow> uuid \<Rightarrow> queue_db \<Rightarrow> nat \<times> queue_db" where
  "sqlRequeue now i db =
     (rows_affected (requeue_row i) (tasks db),
      db\<lparr>tasks := update_where (requeue_row i) (mark_requeued now) (tasks db)\<rparr>)"

text \<open>The tasks \<open>sqlRequeueFailedTasks\<close> retries, and the tasks it resets: those and every task
  that depends on one of them.\<close>

definition retryable :: "timestamp \<Rightarrow> string list \<Rightarrow> TaskInfo \<Rightarrow> bool" where
  "retryable now taskTypes t =
     (ti_Started t \<noteq> None \<and> ti_Finished t \<noteq> None \<and> ti_Status t = Some Failed \<and> ti_Retries t < 3 \<and>
      (case ti_NextRetryTime t of None \<Rightarrow> False | Some r \<Rightarrow> r \<le> now) \<and>
      ti_Typename t \<in> set taskTypes \<and> \<not> ti_CancelAttempted t)"

definition reset_by_retry :: "timestamp \<Rightarrow> string list \<Rightarrow> queue_db \<Rightarrow> TaskInfo \<Rightarrow> bool" where
  "reset_by_retry now taskTypes db t =
     (retryable now taskTypes t \<or>
      list_ex (\<lambda>p. retryable now taskTypes p \<and> (ti_Id t, ti_Id p) \<in> set (task_dependencies db)) (tasks db))"

definition mark_retried :: "timestamp \<Rightarrow> TaskInfo \<Rightarrow> TaskInfo" where
  "mark_retried now t = t\<lparr>ti_Started := None, ti_Finished := None, ti_Token := None,
     ti_Status := Some Pending, ti_Retries := ti_Retries t + 1, ti_Queued := Some now\<rparr>"

definition sqlRequeueFailedTasks :: "timestamp \<Rightarrow> string list \<Rightarrow> queue_db \<Rightarrow> nat \<times> queue_db" where
  "sqlRequeueFailedTasks now taskTypes db =
     (rows_affected (reset_by_retry now taskTypes db) (tasks db),
      db\<lparr>tasks := update_where (reset_by_retry now taskTypes db) (mark_retried now) (tasks db)\<rparr>)"

definition sqlQueryDependencies :: "uuid \<Rightarrow> queue_db \<Rightarrow> uuid list" where
  "sqlQueryDependencies i db = map snd (filter (\<lambda>(t, d). t = i) (task_dependencies db))"

definition sqlQueryDependents :: "uuid \<Rightarrow> queue_db \<Rightarrow> uuid list" where
  "sqlQueryDependents i db = map fst (filter (\<lambda>(t, d). d = i) (task_dependencies db))"

definition sqlQueryTaskStatus :: "uuid \<Rightarrow> queue_db \<Rightarrow> TaskInfo option" where
  "sqlQueryTaskStatus i db = lookup_row ti_Id i (tasks db)"

definition sqlQueryIdFromToken :: "uuid \<Rightarrow> queue_db \<Rightarrow> (uuid \<times> task_status option) option" where
  "sqlQueryIdFromToken tok db =
     map_option (\<lambda>t. (ti_Id t, ti_Status t)) (lookup_row ti_Token (Some tok) (tasks db))"

definition finish_row :: "uuid \<Rightarrow> TaskInfo \<Rightarrow> bool" where
  "finish_row i t = (ti_Id t = i \<and> ti_Finished t = None)"

definition mark_finished ::
  "timestamp \<Rightarrow> task_status \<Rightarrow> string option \<Rightarrow> timestamp option \<Rightarrow> TaskInfo \<Rightarrow> TaskInfo" where
  "mark_finished now st err retry t = t\<lparr>ti_Finished := Some now, ti_Status := Some st,
     ti_Error := map_option (sql_left 4000) err, ti_NextRetryTime := retry\<rparr>"

definition sqlFinishTask ::
  "timestamp \<Rightarrow> task_status \<Rightarrow> string option \<Rightarrow> timestamp option \<Rightarrow> uuid \<Rightarrow> queue_db \<Rightarrow> nat \<times> queue_db" where
  "sqlFinishTask now st err retry i db =
     (rows_affected (finish_row i) (tasks db),
      db\<lparr>tasks := update_where (finish_row i) (mark_finished now st err retry) (tasks db)\<rparr>)"

definition mark_canceled :: "string \<Rightarrow> TaskInfo \<Rightarrow> TaskInfo" where
  "mark_canceled msg t = t\<lparr>ti_Status := Some Canceled, ti_Error := Some (sql_left 4000 msg),
     ti_CancelAttempted := True\<rparr>"

definition sqlCancelTask :: "uuid \<Rightarrow> string \<Rightarrow> queue_db \<Rightarrow> queue_db" where
  "sqlCancelTask i msg db = db\<lparr>tasks := update_where (finish_row i) (mark_canceled msg) (tasks db)\<rparr>"

definition sqlSetCancelAttempted :: "uuid \<Rightarrow> queue_db \<Rightarrow> queue_db" where
  "sqlSetCancelAttempted i db =
     db\<lparr>tasks := update_where (has_id i) (\<lambda>t. t\<lparr>ti_CancelAttempted := True\<rparr>) (tasks db)\<rparr>"

definition sqlUpdatePayload :: "string \<Rightarrow> uuid \<Rightarrow> queue_db \<Rightarrow> queue_db" where
  "sqlUpdatePayload payload i db =
     db\<lparr>tasks := update_where (has_id i) (\<lambda>t. t\<lparr>ti_Payload := payload\<rparr>) (tasks db)\<rparr>"

definition sqlInsertHeartbeat :: "timestamp \<Rightarrow> uuid \<Rightarrow> uuid \<Rightarrow> queue_db \<Rightarrow> queue_db option" where
  "sqlInsertHeartbeat now tok i db =
     (if tok \<in> hb_token ` set (task_heartbeats db) then None
      else Some (db\<lparr>task_heartbeats := task_heartbeats db @ [\<lparr>hb_token = tok, hb_id = i, hb_time = now\<rparr>]\<rparr>))"

definition sqlQueryHeartbeats :: "timestamp \<Rightarrow> int \<Rightarrow> queue_db \<Rightarrow> uuid list" where
  "sqlQueryHeartbeats now olderThan db =
     map hb_token (filter (\<lambda>h. olderThan < now - hb_time h) (task_heartbeats db))"

definition sqlRefreshHeartbeat :: "timestamp \<Rightarrow> uuid \<Rightarrow> queue_db \<Rightarrow> nat \<times> queue_db" where
  "sqlRefreshHeartbeat now tok db =
     (rows_affected (\<lambda>h. hb_token h = tok) (task_heartbeats db),
      db\<lparr>task_heartbeats :=
          update_where (\<lambda>h. hb_token h = tok) (\<lambda>h. h\<lparr>hb_time := now\<rparr>) (task_heartbeats db)\<rparr>)"

definition sqlDeleteHeartbeat :: "uuid \<Rightarrow> queue_db \<Rightarrow> nat \<times> queue_db" where
  "sqlDeleteHeartbeat i db =
     (rows_affected (\<lambda>h. hb_id h = i) (task_heartbeats db),
      db\<lparr>task_heartbeats := delete_where (\<lambda>h. hb_id h = i) (task_heartbeats db)\<rparr>)"

definition sqlDeleteAllTasks :: "queue_db \<Rightarrow> queue_db" where
  "sqlDeleteAllTasks db = db\<lparr>task_heartbeats := [], task_dependencies := [], tasks := []\<rparr>"

section \<open>The methods of PgQueue\<close>

text \<open>An insert that may violate a key: the violation is an error of the call.\<close>

definition insertT :: "qenv \<Rightarrow> db_call \<Rightarrow> (queue_db \<Rightarrow> queue_db option) \<Rightarrow> unit tx" where
  "insertT e c f = (\<lambda>db.
     if db_fails e c then Inl (Other ''database error'')
     else (case f db of None \<Rightarrow> Inl (Other ''constraint violation'') | Some db' \<Rightarrow> Inr ((), db')))"

definition execT :: "qenv \<Rightarrow> db_call \<Rightarrow> (queue_db \<Rightarrow> queue_db) \<Rightarrow> unit tx" where
  "execT e c f = callT e c (\<lambda>db. ((), f db))"

definition queryT :: "qenv \<Rightarrow> db_call \<Rightarrow> (queue_db \<Rightarrow> 'a) \<Rightarrow> 'a tx" where
  "queryT e c f = callT e c (\<lambda>db. (f db, db))"

subsection \<open>Enqueue\<close>

definition Enqueue :: "qenv \<Rightarrow> uuid \<Rightarrow> Task \<Rightarrow> queue_db \<Rightarrow> (go_error + uuid) \<times> queue_db" where
  "Enqueue e taskID task = run_tx (
     bindT (execT e CAcquire id) (\<lambda>_.
     bindT (wrapT ''error starting database transaction'' (execT e CBegin id)) (\<lambda>_.
     bindT (wrapT ''error enqueuing task''
              (insertT e CEnqueue (sqlEnqueue (clock_timestamp e) taskID task))) (\<lambda>_.
     bindT (forT (\<lambda>d. wrapT ''error inserting dependency''
                       (insertT e (CInsertDependency d) (sqlInsertDependency taskID d)))
              (tk_Dependencies task)) (\<lambda>_.
     bindT (wrapT ''error notifying tasks channel'' (execT e CNotify sqlNotify)) (\<lambda>_.
     bindT (wrapT ''unable to commit database transaction'' (execT e CCommit id)) (\<lambda>_.
     returnT taskID)))))))"

subsection \<open>Reading a task\<close>

definition taskDependencies :: "qenv \<Rightarrow> uuid \<Rightarrow> (uuid list) tx" where
  "taskDependencies e i = queryT e CDependencies (sqlQueryDependencies i)"

definition taskDependents :: "qenv \<Rightarrow> uuid \<Rightarrow> (uuid list) tx" where
  "taskDependents e i = queryT e CDependents (sqlQueryDependents i)"

text \<open>Scanning a null status into a Go string is an error, as is a missing row.\<close>

definition statusWithConn :: "qenv \<Rightarrow> uuid \<Rightarrow> (TaskInfo \<times> uuid list) tx" where
  "statusWithConn e i =
     bindT (queryT e CStatus (sqlQueryTaskStatus i)) (\<lambda>row.
     (case row of
        None \<Rightarrow> failT Pgx_ErrNoRows
      | Some info \<Rightarrow>
          if ti_Status info = None then failT (Other ''cannot scan NULL into *string'')
          else bindT (taskDependencies e i) (\<lambda>deps. returnT (info, deps))))"

definition StatusQ :: "qenv \<Rightarrow> uuid \<Rightarrow> queue_db \<Rightarrow> (go_error + TaskInfo \<times> uuid list) \<times> queue_db" where
  "StatusQ e i = run_tx (bindT (execT e CAcquire id) (\<lambda>_. statusWithConn e i))"

subsection \<open>Dequeue\<close>

definition dequeueMaybe ::
  "qenv \<Rightarrow> uuid \<Rightarrow> string list \<Rightarrow> queue_db \<Rightarrow> (go_error + TaskInfo \<times> uuid list) \<times> queue_db" where
  "dequeueMaybe e tok taskTypes = run_tx (
     bindT (wrapT ''error starting a new transaction when dequeueing'' (execT e CBegin id)) (\<lambda>_.
     bindT (wrapT ''error during dequeue query''
              (bindT (callT e CDequeue (sqlDequeue e tok taskTypes))
                 (\<lambda>row. case row of None \<Rightarrow> failT Pgx_ErrNoRows | Some info \<Rightarrow> returnT info))) (\<lambda>info.
     bindT (wrapT ''error inserting the task's heartbeat''
              (insertT e CInsertHeartbeat (sqlInsertHeartbeat (clock_timestamp e) tok (ti_Id info)))) (\<lambda>_.
     bindT (wrapT ''error querying the task's dependencies'' (taskDependencies e (ti_Id info))) (\<lambda>deps.
     bindT (wrapT ''error committing the transaction for dequeueing task'' (execT e CCommit id)) (\<lambda>_.
     returnT (info, deps)))))))"

text \<open>
  \<open>Dequeue\<close> tries again each time the queue's listener wakes it. The list says what ends each
  wait: \<open>Notified f\<close>, a notification after other sessions changed the database by \<open>f\<close>, or
  \<open>CtxDone\<close>, the caller's context ended. \<open>None\<close> is a call that still waits when the list is
  used up.
\<close>

datatype wake = Notified "queue_db \<Rightarrow> queue_db" | CtxDone

fun Dequeue ::
  "qenv \<Rightarrow> uuid \<Rightarrow> string list \<Rightarrow> wake list \<Rightarrow> queue_db \<Rightarrow>
   ((go_error + TaskInfo \<times> uuid list) \<times> queue_db) option" where
  "Dequeue e tok taskTypes wakes db =
     (case dequeueMaybe e tok taskTypes db of
        (Inr info, db') \<Rightarrow> Some (Inr info, db')
      | (Inl err, db') \<Rightarrow>
          if \<not> errors_Is err Pgx_ErrNoRows then
            (if errors_Is err Context_DeadlineExceeded \<or> errors_Is err Context_Canceled
             then Some (Inl ErrContextCanceled, db')
             else Some (Inl (Other (''error dequeuing task: '' @ error_text err)), db'))
          else (case wakes of
              [] \<Rightarrow> None
            | CtxDone # _ \<Rightarrow> Some (Inl ErrContextCanceled, db')
            | Notified f # ws \<Rightarrow> Dequeue e tok taskTypes ws (f db')))"

declare Dequeue.simps [simp del]

subsection \<open>Finish\<close>

definition go_quot :: "int \<Rightarrow> int \<Rightarrow> int" where
  "go_quot a b = sgn a * sgn b * (\<bar>a\<bar> div \<bar>b\<bar>)"

text \<open>
  The wait before a failed task is retried: the configured bound in seconds divided by the
  retries that remain plus one, cut to whole seconds.
\<close>

definition next_retry :: "qenv \<Rightarrow> TaskInfo \<Rightarrow> timestamp" where
  "next_retry e info =
     (let retriesRemaining = MaxTaskRetries - ti_Retries info in
      time_Now e + 1000000000 * go_quot (RetryWaitUpperBound e) (1000000000 * (retriesRemaining + 1)))"

definition finishWithTx :: "qenv \<Rightarrow> uuid \<Rightarrow> go_error option \<Rightarrow> unit tx" where
  "finishWithTx e taskId taskError =
     (let status = (case taskError of Some _ \<Rightarrow> Failed | None \<Rightarrow> Completed);
          errMsg = map_option (\<lambda>err. ToValidUTF8 (error_text err)) taskError in
      bindT (wrapT ''error querying task info'' (statusWithConn e taskId)) (\<lambda>(info, _).
      if ti_Started info = None \<or> ti_Finished info \<noteq> None then failT ErrNotRunning
      else
        (let nextRetryTime =
               (if status = Failed \<and> ti_Retries info < MaxTaskRetries \<and>
                   ti_Typename info \<in> set RequeueableTasks
                then Some (next_retry e info) else None) in
         bindT (flatT ''error removing task from heartbeats''
                  (callT e CDeleteHeartbeat (sqlDeleteHeartbeat taskId))) (\<lambda>_.
         bindT (wrapT ''error finishing task''
                  (bindT (callT e CFinish (sqlFinishTask (clock_timestamp e) status errMsg nextRetryTime taskId))
                     (\<lambda>n. if n = 0 then failT ErrNotExist else returnT ()))) (\<lambda>_.
         bindT (if status = Failed then
                  bindT (wrapT ''error fetching task dependents'' (taskDependents e taskId)) (\<lambda>dependents.
                  forT (\<lambda>i. wrapT ''error cancelling dependent task''
                              (execT e (CCancelDependent i) (sqlCancelTask i ''parent task failed''))) dependents)
                else returnT ()) (\<lambda>_.
         wrapT ''error notifying tasks channel'' (execT e CNotify sqlNotify)))))))"

definition Finish :: "qenv \<Rightarrow> uuid \<Rightarrow> go_error option \<Rightarrow> queue_db \<Rightarrow> (go_error + unit) \<times> queue_db" where
  "Finish e taskId taskError = run_tx (
     bindT (flatT ''error starting database transaction'' (execT e CBegin id)) (\<lambda>_.
     bindT (finishWithTx e taskId taskError) (\<lambda>_.
     wrapT ''unable to commit database transaction'' (execT e CCommit id))))"

subsection \<open>Cancel\<close>

definition sendCancelNotification :: "qenv \<Rightarrow> uuid \<Rightarrow> unit tx" where
  "sendCancelNotification e taskId =
     wrapT ''error notifying cancel channel''
       (execT e CCancelNotify (\<lambda>db. db\<lparr>cancel_notes := cancel_notes db @ [taskId]\<rparr>))"

definition CancelQ :: "qenv \<Rightarrow> uuid \<Rightarrow> queue_db \<Rightarrow> (go_error + unit) \<times> queue_db" where
  "CancelQ e taskId = run_tx (
     bindT (execT e CAcquire id) (\<lambda>_.
     bindT (wrapT ''error starting database transaction'' (execT e CBegin id)) (\<lambda>_.
     bindT (sendCancelNotification e taskId) (\<lambda>_.
     bindT (flatT ''error removing task from heartbeats''
              (callT e CDeleteHeartbeat (sqlDeleteHeartbeat taskId))) (\<lambda>_.
     bindT (wrapT ''error canceling task''
              (execT e CCancelTask (sqlCancelTask taskId ''task canceled''))) (\<lambda>_.
     bindT (wrapT ''error setting cancel_attempted''
              (execT e CSetCancelAttempted (sqlSetCancelAttempted taskId))) (\<lambda>_.
     bindT (wrapT ''error fetching task dependents'' (taskDependents e taskId)) (\<lambda>dependents.
     bindT (forT (\<lambda>i. wrapT ''error cancelling dependent task''
                       (execT e (CCancelDependent i) (sqlCancelTask i ''parent task canceled''))) dependents) (\<lambda>_.
     bindT (wrapT ''error notifying tasks channel'' (execT e CNotify sqlNotify)) (\<lambda>_.
     wrapT ''unable to commit database transaction'' (execT e CCommit id)))))))))))"

subsection \<open>Requeue\<close>

text \<open>
  When the retries are used up the transaction finishes the task and commits, and the method
  still returns \<open>ErrMaxRetriesExceeded\<close>: the value of the transaction says which.
\<close>

definition requeueTx :: "qenv \<Rightarrow> uuid \<Rightarrow> (go_error option) tx" where
  "requeueTx e taskId =
     bindT (wrapT ''error starting database transaction'' (execT e CBegin id)) (\<lambda>_.
     bindT (wrapT ''error querying task status'' (statusWithConn e taskId)) (\<lambda>(info, _).
     if ti_CancelAttempted info \<and> ti_Status info \<noteq> Some Running then failT ErrTaskCanceled
     else if ti_Started info = None \<or> ti_Finished info \<noteq> None then failT ErrNotRunning
     else if ti_Retries info = MaxTaskRetries then
       bindT (wrapT ''error finishing task'' (finishWithTx e (ti_Id info) (Some ErrMaxRetriesExceeded))) (\<lambda>_.
       bindT (wrapT ''unable to commit database transaction'' (execT e CCommit id)) (\<lambda>_.
       returnT (Some ErrMaxRetriesExceeded)))
     else
       bindT (wrapT ''error removing task from heartbeats''
                (callT e CDeleteHeartbeat (sqlDeleteHeartbeat taskId))) (\<lambda>_.
       bindT (bindT (flatT ''error requeueing task'' (callT e CRequeue (sqlRequeue (clock_timestamp e) taskId)))
                (\<lambda>n. if n \<noteq> 1 then failT (Wrap ''error requeuing task'' ErrNotExist) else returnT ())) (\<lambda>_.
       bindT (wrapT ''error notifying tasks channel'' (execT e CNotify sqlNotify)) (\<lambda>_.
       bindT (wrapT ''unable to commit database transaction'' (execT e CCommit id)) (\<lambda>_.
       returnT None))))))"

definition Requeue :: "qenv \<Rightarrow> uuid \<Rightarrow> queue_db \<Rightarrow> (go_error + unit) \<times> queue_db" where
  "Requeue e taskId db =
     (case run_tx (requeueTx e taskId) db of
        (Inl err, db') \<Rightarrow> (Inl err, db')
      | (Inr (Some err), db') \<Rightarrow> (Inl err, db')
      | (Inr None, db') \<Rightarrow> (Inr (), db'))"

definition RequeueFailedTasks :: "qenv \<Rightarrow> string list \<Rightarrow> queue_db \<Rightarrow> (go_error + unit) \<times> queue_db" where
  "RequeueFailedTasks e taskTypes = run_tx (
     bindT (flatT ''error starting database transaction'' (execT e CBegin id)) (\<lambda>_.
     bindT (wrapT ''error requeueing failed tasks''
              (callT e CRequeueFailed (sqlRequeueFailedTasks (clock_timestamp e) taskTypes))) (\<lambda>_.
     bindT (flatT ''error notifying tasks channel'' (execT e CNotify sqlNotify)) (\<lambda>_.
     flatT ''unable to commit database transaction'' (execT e CCommit id)))))"

subsection \<open>Heartbeats, payloads and clearing\<close>

definition Heartbeats :: "qenv \<Rightarrow> int \<Rightarrow> queue_db \<Rightarrow> uuid list" where
  "Heartbeats e olderThan db =
     (if db_fails e CHeartbeats then [] else sqlQueryHeartbeats (clock_timestamp e) olderThan db)"

definition IdFromToken :: "qenv \<Rightarrow> uuid \<Rightarrow> queue_db \<Rightarrow> uuid \<times> bool \<times> go_error option" where
  "IdFromToken e tok db =
     (if db_fails e CAcquire then (uuid_Nil, False, Some (Other ''database error''))
      else if db_fails e CIdFromToken then (uuid_Nil, False, Some (Other ''error retrieving id: database error''))
      else (case sqlQueryIdFromToken tok db of
          None \<Rightarrow> (uuid_Nil, False, Some ErrNotExist)
        | Some (i, None) \<Rightarrow> (uuid_Nil, False, Some (Other ''error retrieving id: cannot scan NULL into *string''))
        | Some (i, Some st) \<Rightarrow> (i, st = Running, None)))"

text \<open>
  Three statements, each on its own: \<open>between1\<close> and \<open>between2\<close> are what other sessions do to
  the database between them.
\<close>

definition RefreshHeartbeat ::
  "qenv \<Rightarrow> (queue_db \<Rightarrow> queue_db) \<Rightarrow> (queue_db \<Rightarrow> queue_db) \<Rightarrow> uuid \<Rightarrow> queue_db \<Rightarrow>
   (go_error + unit) \<times> queue_db" where
  "RefreshHeartbeat e between1 between2 tok db =
     (if tok = uuid_Nil then (Inr (), db)
      else if db_fails e (CRefresh 1) then (Inl (Other ''database error''), db)
      else (let (n, db1) = sqlRefreshHeartbeat (clock_timestamp e) tok db in
        if n = 1 then (Inr (), db1)
        else (let db2 = between1 db1 in
          (case IdFromToken e tok db2 of
             (_, _, Some err) \<Rightarrow> (Inl err, db2)
           | (_, isRunning, None) \<Rightarrow>
               if \<not> isRunning then (Inr (), db2)
               else (let db3 = between2 db2 in
                 if db_fails e (CRefresh 2) then (Inl (Other ''database error''), db3)
                 else (let (m, db4) = sqlRefreshHeartbeat (clock_timestamp e) tok db3 in
                   if m = 1 then (Inr (), db4) else (Inl ErrRowsNotAffected, db4)))))))"

definition UpdatePayload :: "qenv \<Rightarrow> TaskInfo \<Rightarrow> string \<Rightarrow> queue_db \<Rightarrow> (go_error + TaskInfo) \<times> queue_db" where
  "UpdatePayload e task payload =
     run_tx (bindT (execT e CUpdatePayload (sqlUpdatePayload payload (ti_Id task))) (\<lambda>_. returnT task))"

definition RemoveAllTasks :: "qenv \<Rightarrow> queue_db \<Rightarrow> (go_error + unit) \<times> queue_db" where
  "RemoveAllTasks e = run_tx (wrapT ''error removing all tasks'' (execT e CDeleteAll sqlDeleteAllTasks))"

subsection \<open>The dequeuers waiting in a process\<close>

text \<open>
  \<open>dequeuers\<close> is the list of the channels (buffer 1) of the calls to \<open>Dequeue\<close> that are under
  way: the list element's identity and whether its channel holds a value. Sending to a full
  channel is the \<open>default\<close> branch of the select, which does nothing.
\<close>

type_synonym dequeuers = "(nat \<times> bool) list"

definition pushBack :: "nat \<Rightarrow> dequeuers \<Rightarrow> dequeuers" where
  "pushBack el d = d @ [(el, False)]"

definition remove_dequeuer :: "nat \<Rightarrow> dequeuers \<Rightarrow> dequeuers" where
  "remove_dequeuer el d = filter (\<lambda>(i, _). i \<noteq> el) d"

fun notifyAll :: "dequeuers \<Rightarrow> dequeuers" where
  "notifyAll [] = []"
| "notifyAll ((i, full) # d) = (i, if full then full else True) # notifyAll d"

end
