(* ===== verification/TaskQueueEffects.thy ===== *)
theory TaskQueueEffects
  imports TaskQueue
begin

text \<open>
  What the methods of the queue do, without the transaction plumbing: when a method returns
  without an error, the database it leaves is a closed expression of the statements it ran, and
  when no database call fails and its guards hold, it does return. The invariants and the
  properties of the queue rest on these equations.
\<close>

section \<open>Closed forms of the effects\<close>

definition no_faults :: "qenv \<Rightarrow> bool" where
  "no_faults e \<longleftrightarrow> (\<forall>c. \<not> db_fails e c)"

text \<open>Canceling several tasks at once: one statement per task in the code.\<close>

definition cancel_all :: "uuid list \<Rightarrow> string \<Rightarrow> queue_db \<Rightarrow> queue_db" where
  "cancel_all is msg db = db\<lparr>tasks :=
     update_where (\<lambda>t. ti_Id t \<in> set is \<and> ti_Finished t = None) (mark_canceled msg) (tasks db)\<rparr>"

definition finish_status :: "go_error option \<Rightarrow> task_status" where
  "finish_status taskError = (case taskError of Some _ \<Rightarrow> Failed | None \<Rightarrow> Completed)"

definition finish_message :: "go_error option \<Rightarrow> string option" where
  "finish_message taskError = map_option (\<lambda>err. ToValidUTF8 (error_text err)) taskError"

definition finish_retry :: "qenv \<Rightarrow> go_error option \<Rightarrow> TaskInfo \<Rightarrow> timestamp option" where
  "finish_retry e taskError info =
     (if taskError \<noteq> None \<and> ti_Retries info < MaxTaskRetries \<and> ti_Typename info \<in> set RequeueableTasks
      then Some (next_retry e info) else None)"

definition finish_effect :: "qenv \<Rightarrow> TaskInfo \<Rightarrow> go_error option \<Rightarrow> queue_db \<Rightarrow> queue_db" where
  "finish_effect e info taskError db =
     (let i = ti_Id info;
          db1 = snd (sqlDeleteHeartbeat i db);
          db2 = snd (sqlFinishTask (clock_timestamp e) (finish_status taskError)
                  (finish_message taskError) (finish_retry e taskError info) i db1);
          db3 = (if taskError = None then db2
                 else cancel_all (sqlQueryDependents i db) ''parent task failed'' db2)
      in sqlNotify db3)"

definition cancel_effect :: "uuid \<Rightarrow> queue_db \<Rightarrow> queue_db" where
  "cancel_effect i db =
     (let db1 = db\<lparr>cancel_notes := cancel_notes db @ [i]\<rparr>;
          db2 = snd (sqlDeleteHeartbeat i db1);
          db3 = sqlSetCancelAttempted i (sqlCancelTask i ''task canceled'' db2);
          db4 = cancel_all (sqlQueryDependents i db) ''parent task canceled'' db3
      in sqlNotify db4)"

definition requeue_effect :: "qenv \<Rightarrow> uuid \<Rightarrow> queue_db \<Rightarrow> queue_db" where
  "requeue_effect e i db =
     sqlNotify (snd (sqlRequeue (clock_timestamp e) i (snd (sqlDeleteHeartbeat i db))))"

definition new_row :: "timestamp \<Rightarrow> uuid \<Rightarrow> Task \<Rightarrow> TaskInfo" where
  "new_row now i task =
     \<lparr>ti_Id = i, ti_Typename = tk_Typename task, ti_Payload = tk_Payload task,
      ti_OrgId = tk_OrgId task, ti_AccountId = tk_AccountId task,
      ti_ObjectUUID = tk_ObjectUUID task, ti_ObjectType = tk_ObjectType task,
      ti_Token = None, ti_Queued = Some now, ti_Started = None, ti_Finished = None,
      ti_Error = None, ti_Status = Some Pending, ti_RequestID = tk_RequestID task,
      ti_Retries = 0, ti_NextRetryTime = None, ti_Priority = tk_Priority task,
      ti_CancelAttempted = False\<rparr>"

definition enqueue_effect :: "qenv \<Rightarrow> uuid \<Rightarrow> Task \<Rightarrow> queue_db \<Rightarrow> queue_db" where
  "enqueue_effect e i task db = sqlNotify
     (db\<lparr>tasks := tasks db @ [new_row (clock_timestamp e) i task],
         task_dependencies := task_dependencies db @ map (\<lambda>d. (i, d)) (tk_Dependencies task)\<rparr>)"

definition dequeue_effect :: "qenv \<Rightarrow> uuid \<Rightarrow> TaskInfo \<Rightarrow> queue_db \<Rightarrow> queue_db" where
  "dequeue_effect e tok t db =
     db\<lparr>tasks := update_where (has_id (ti_Id t)) (mark_running (clock_timestamp e) tok) (tasks db),
        task_heartbeats := task_heartbeats db @
          [\<lparr>hb_token = tok, hb_id = ti_Id t, hb_time = clock_timestamp e\<rparr>]\<rparr>"

section \<open>The transaction combinators\<close>

text \<open>
  When a transaction returns: each call in front of a continuation is peeled off by one
  equation, so that \<open>simp\<close> turns the success of a method into the conditions of its calls and
  the database it leaves.
\<close>

lemma bindT_Inr: "bindT m k db = Inr r \<longleftrightarrow> (\<exists>a db'. m db = Inr (a, db') \<and> k a db' = Inr r)"
  by (auto simp: bindT_def split: sum.splits)

lemma wrapT_Inr [simp]: "wrapT s m db = Inr r \<longleftrightarrow> m db = Inr r"
  by (auto simp: wrapT_def split: sum.splits)

lemma flatT_Inr [simp]: "flatT s m db = Inr r \<longleftrightarrow> m db = Inr r"
  by (auto simp: flatT_def split: sum.splits)

lemma callT_Inr [simp]: "callT e c f db = Inr r \<longleftrightarrow> \<not> db_fails e c \<and> f db = r"
  by (auto simp: callT_def)

lemma execT_Inr [simp]: "execT e c f db = Inr (u, db') \<longleftrightarrow> \<not> db_fails e c \<and> db' = f db"
  by (auto simp: execT_def)

lemma returnT_Inr [simp]: "returnT a db = Inr (b, db') \<longleftrightarrow> b = a \<and> db' = db"
  by (auto simp: returnT_def)

lemma failT_Inr [simp]: "failT err db = Inr r \<longleftrightarrow> False"
  by (simp add: failT_def)

lemma bindT_wrapT [simp]: "bindT (wrapT s m) k db = Inr r \<longleftrightarrow> bindT m k db = Inr r"
  by (simp add: bindT_Inr)

lemma bindT_flatT [simp]: "bindT (flatT s m) k db = Inr r \<longleftrightarrow> bindT m k db = Inr r"
  by (simp add: bindT_Inr)

lemma bindT_bindT [simp]: "bindT (bindT m k) l = bindT m (\<lambda>a. bindT (k a) l)"
  by (auto simp: bindT_def fun_eq_iff split: sum.splits)

lemma bindT_returnT [simp]: "bindT (returnT a) k = k a"
  by (simp add: bindT_def returnT_def fun_eq_iff)

lemma bindT_failT [simp]: "bindT (failT err) k = failT err"
  by (simp add: bindT_def failT_def fun_eq_iff)

lemma bindT_if [simp]: "bindT (if b then m else n) k = (if b then bindT m k else bindT n k)"
  by simp

lemma bindT_execT [simp]:
  "bindT (execT e c f) k db = Inr r \<longleftrightarrow> \<not> db_fails e c \<and> k () (f db) = Inr r"
  by (auto simp: bindT_Inr execT_def)

lemma bindT_queryT [simp]:
  "bindT (queryT e c f) k db = Inr r \<longleftrightarrow> \<not> db_fails e c \<and> k (f db) db = Inr r"
  by (auto simp: bindT_Inr queryT_def)

lemma bindT_callT [simp]:
  "bindT (callT e c f) k db = Inr r \<longleftrightarrow> \<not> db_fails e c \<and> k (fst (f db)) (snd (f db)) = Inr r"
  by (cases "f db") (auto simp: bindT_Inr)

lemma bindT_insertT [simp]:
  "bindT (insertT e c f) k db = Inr r \<longleftrightarrow>
   \<not> db_fails e c \<and> f db \<noteq> None \<and> k () (the (f db)) = Inr r"
  by (auto simp: bindT_Inr insertT_def split: option.splits)

lemma run_tx_Inl: "run_tx m db = (Inl err, db') \<Longrightarrow> db' = db"
  by (auto simp: run_tx_def split: sum.splits prod.splits)

lemma run_tx_Inr [simp]: "run_tx m db = (Inr a, db') \<longleftrightarrow> m db = Inr (a, db')"
  by (auto simp: run_tx_def split: sum.splits prod.splits)

lemma run_tx_cases: "snd (run_tx m db) = db \<or> (\<exists>a. m db = Inr (a, snd (run_tx m db)))"
  by (auto simp: run_tx_def split: sum.splits prod.splits)

lemma no_faultsD [simp]: "no_faults e \<Longrightarrow> \<not> db_fails e c"
  by (simp add: no_faults_def)

section \<open>Loops over dependencies\<close>

lemma cancel_all_Nil [simp]: "cancel_all [] msg db = db"
  by (simp add: cancel_all_def update_where_def)

lemma mark_canceled_simps [simp]:
  "ti_Id (mark_canceled msg t) = ti_Id t"
  "ti_Finished (mark_canceled msg t) = ti_Finished t"
  "mark_canceled msg (mark_canceled msg t) = mark_canceled msg t"
  by (simp_all add: mark_canceled_def)

lemma cancel_all_Cons [simp]: "cancel_all is msg (sqlCancelTask i msg db) = cancel_all (i # is) msg db"
proof -
  have "update_where (\<lambda>t. ti_Id t \<in> set is \<and> ti_Finished t = None) (mark_canceled msg)
          (update_where (finish_row i) (mark_canceled msg) (tasks db)) =
        update_where (\<lambda>t. ti_Id t \<in> set (i # is) \<and> ti_Finished t = None) (mark_canceled msg) (tasks db)"
    by (auto simp: update_where_def finish_row_def)
  then show ?thesis
    by (simp add: cancel_all_def sqlCancelTask_def)
qed

lemma bindT_forT_cancel [simp]:
  "bindT (forT (\<lambda>i. wrapT s (execT e (CCancelDependent i) (sqlCancelTask i msg))) is) k db = Inr r \<longleftrightarrow>
   (\<forall>i \<in> set is. \<not> db_fails e (CCancelDependent i)) \<and> k () (cancel_all is msg db) = Inr r"
  by (induction "is" arbitrary: db) (simp_all add: conj_assoc)

definition add_deps :: "uuid \<Rightarrow> uuid list \<Rightarrow> queue_db \<Rightarrow> queue_db" where
  "add_deps i ds db = db\<lparr>task_dependencies := task_dependencies db @ map (\<lambda>d. (i, d)) ds\<rparr>"

lemma add_deps_Nil [simp]: "add_deps i [] db = db"
  by (simp add: add_deps_def)

lemma tasks_add_deps [simp]: "tasks (add_deps i ds db) = tasks db"
  by (simp add: add_deps_def)

lemma add_deps_Cons: "add_deps i ds (add_deps i [d] db) = add_deps i (d # ds) db"
  by (simp add: add_deps_def)

lemma sqlInsertDependency_alt:
  "sqlInsertDependency i d db =
     (if i \<in> ti_Id ` set (tasks db) \<and> d \<in> ti_Id ` set (tasks db) then Some (add_deps i [d] db) else None)"
  by (simp add: sqlInsertDependency_def add_deps_def)

lemma bindT_forT_deps [simp]:
  "bindT (forT (\<lambda>d. wrapT s (insertT e (CInsertDependency d) (sqlInsertDependency i d))) ds) k db = Inr r \<longleftrightarrow>
   (\<forall>d \<in> set ds. \<not> db_fails e (CInsertDependency d) \<and> i \<in> ti_Id ` set (tasks db) \<and> d \<in> ti_Id ` set (tasks db)) \<and>
   k () (add_deps i ds db) = Inr r"
proof (induction ds arbitrary: db)
  case (Cons d ds)
  show ?case
  proof (cases "i \<in> ti_Id ` set (tasks db) \<and> d \<in> ti_Id ` set (tasks db)")
    case True
    then have "sqlInsertDependency i d db = Some (add_deps i [d] db)"
      by (simp add: sqlInsertDependency_alt)
    with True show ?thesis by (simp add: Cons.IH add_deps_Cons conj_assoc)
  next
    case False
    then have "sqlInsertDependency i d db = None" by (simp add: sqlInsertDependency_alt)
    with False show ?thesis by auto
  qed
qed simp

section \<open>What a method that returns has done\<close>

lemma bindT_statusWithConn [simp]:
  "bindT (statusWithConn e i) k db = Inr r \<longleftrightarrow>
   \<not> db_fails e CStatus \<and> \<not> db_fails e CDependencies \<and>
   (\<exists>info. lookup_row ti_Id i (tasks db) = Some info \<and> ti_Status info \<noteq> None \<and>
      k (info, sqlQueryDependencies i db) db = Inr r)"
  by (cases "lookup_row ti_Id i (tasks db)")
     (auto simp: statusWithConn_def taskDependencies_def sqlQueryTaskStatus_def)

lemma Enqueue_Inr:
  "Enqueue e i task db = (Inr j, db') \<longleftrightarrow>
   \<not> db_fails e CAcquire \<and> \<not> db_fails e CBegin \<and> \<not> db_fails e CEnqueue \<and> \<not> db_fails e CNotify \<and>
   \<not> db_fails e CCommit \<and> (\<forall>d \<in> set (tk_Dependencies task). \<not> db_fails e (CInsertDependency d)) \<and>
   i \<notin> ti_Id ` set (tasks db) \<and> set (tk_Dependencies task) \<subseteq> insert i (ti_Id ` set (tasks db)) \<and>
   j = i \<and> db' = enqueue_effect e i task db"
  unfolding Enqueue_def run_tx_Inr
  by (cases "i \<in> ti_Id ` set (tasks db)")
     (auto simp: sqlEnqueue_def enqueue_effect_def new_row_def sqlNotify_def add_deps_def)

lemma sqlQueryDependencies_tasks [simp]:
  "sqlQueryDependencies i (db\<lparr>tasks := ts\<rparr>) = sqlQueryDependencies i db"
  "sqlQueryDependencies i (db\<lparr>task_heartbeats := hs\<rparr>) = sqlQueryDependencies i db"
  by (simp_all add: sqlQueryDependencies_def)

lemma mark_running_id [simp]: "ti_Id (mark_running now tok t) = ti_Id t"
  by (simp add: mark_running_def)

lemma dequeueMaybe_Inr:
  "dequeueMaybe e tok types db = (Inr r, db') \<longleftrightarrow>
   \<not> db_fails e CBegin \<and> \<not> db_fails e CDequeue \<and> \<not> db_fails e CInsertHeartbeat \<and>
   \<not> db_fails e CDependencies \<and> \<not> db_fails e CCommit \<and> tok \<notin> hb_token ` set (task_heartbeats db) \<and>
   (\<exists>t. dequeue_choice e types db = Some t \<and> db' = dequeue_effect e tok t db \<and>
        r = (mark_running (clock_timestamp e) tok t, sqlQueryDependencies (ti_Id t) db))"
proof (cases "dequeue_choice e types db")
  case None
  then show ?thesis
    unfolding dequeueMaybe_def run_tx_Inr by (simp add: sqlDequeue_def)
next
  case (Some t)
  then show ?thesis
    unfolding dequeueMaybe_def run_tx_Inr
    by (cases r; cases "tok \<in> hb_token ` set (task_heartbeats db)")
       (auto simp: sqlDequeue_def sqlInsertHeartbeat_def taskDependencies_def dequeue_effect_def)
qed

lemma lookup_rows_affected:
  "lookup_row ti_Id i (tasks db) = Some t \<Longrightarrow> ti_Finished t = None \<Longrightarrow>
   rows_affected (finish_row i) (tasks db) \<noteq> 0"
  by (auto simp: rows_affected_0_iff finish_row_def dest: lookup_row_SomeD)

lemma bindT_finishWithTx:
  "bindT (finishWithTx e i taskError) k db = Inr r \<longleftrightarrow>
   \<not> db_fails e CStatus \<and> \<not> db_fails e CDependencies \<and>
   (\<exists>info. lookup_row ti_Id i (tasks db) = Some info \<and> ti_Status info \<noteq> None \<and>
     ti_Started info \<noteq> None \<and> ti_Finished info = None \<and>
     \<not> db_fails e CDeleteHeartbeat \<and> \<not> db_fails e CFinish \<and> \<not> db_fails e CNotify \<and>
     (taskError \<noteq> None \<longrightarrow> \<not> db_fails e CDependents \<and>
        (\<forall>j \<in> set (sqlQueryDependents i db). \<not> db_fails e (CCancelDependent j))) \<and>
     k () (finish_effect e info taskError db) = Inr r)"
proof (cases "lookup_row ti_Id i (tasks db)")
  case None
  then show ?thesis by (simp add: finishWithTx_def Let_def)
next
  case (Some info)
  then have i: "ti_Id info = i" by (auto dest: lookup_row_SomeD)
  show ?thesis
  proof (cases "ti_Started info = None \<or> ti_Finished info \<noteq> None")
    case True
    with Some show ?thesis by (auto simp: finishWithTx_def Let_def)
  next
    case False
    then obtain st where st: "ti_Started info = Some st" "ti_Finished info = None" by auto
    then have n: "rows_affected (finish_row i) (tasks db) \<noteq> 0"
      using lookup_rows_affected [OF Some] by simp
    show ?thesis
      using Some st n i
      by (cases taskError)
         (simp_all add: finishWithTx_def Let_def finish_effect_def finish_status_def finish_message_def
           finish_retry_def sqlDeleteHeartbeat_def sqlFinishTask_def taskDependents_def
           sqlQueryDependents_def cong: conj_cong, blast)
  qed
qed

text \<open>
  The calls of each method; a method returns exactly when none of its calls fails and its guards
  hold, and then its effect is the closed form.
\<close>

definition finish_calls_ok :: "qenv \<Rightarrow> uuid \<Rightarrow> go_error option \<Rightarrow> queue_db \<Rightarrow> bool" where
  "finish_calls_ok e i taskError db \<longleftrightarrow>
     \<not> db_fails e CStatus \<and> \<not> db_fails e CDependencies \<and> \<not> db_fails e CDeleteHeartbeat \<and>
     \<not> db_fails e CFinish \<and> \<not> db_fails e CNotify \<and>
     (taskError \<noteq> None \<longrightarrow> \<not> db_fails e CDependents \<and>
        (\<forall>j \<in> set (sqlQueryDependents i db). \<not> db_fails e (CCancelDependent j)))"

definition in_progress :: "TaskInfo \<Rightarrow> bool" where
  "in_progress t \<longleftrightarrow> ti_Status t \<noteq> None \<and> ti_Started t \<noteq> None \<and> ti_Finished t = None"

lemma bindT_finishWithTx' [simp]:
  "bindT (finishWithTx e i taskError) k db = Inr r \<longleftrightarrow>
   finish_calls_ok e i taskError db \<and>
   (\<exists>info. lookup_row ti_Id i (tasks db) = Some info \<and> in_progress info \<and>
     k () (finish_effect e info taskError db) = Inr r)"
  unfolding bindT_finishWithTx finish_calls_ok_def in_progress_def by blast

lemma Finish_Inr:
  "Finish e i taskError db = (Inr u, db') \<longleftrightarrow>
   \<not> db_fails e CBegin \<and> \<not> db_fails e CCommit \<and> finish_calls_ok e i taskError db \<and>
   (\<exists>info. lookup_row ti_Id i (tasks db) = Some info \<and> in_progress info \<and>
     db' = finish_effect e info taskError db)"
  unfolding Finish_def run_tx_Inr by (auto simp del: One_nat_def)

lemma CancelQ_Inr:
  "CancelQ e i db = (Inr u, db') \<longleftrightarrow>
   \<not> db_fails e CAcquire \<and> \<not> db_fails e CBegin \<and> \<not> db_fails e CCancelNotify \<and>
   \<not> db_fails e CDeleteHeartbeat \<and> \<not> db_fails e CCancelTask \<and> \<not> db_fails e CSetCancelAttempted \<and>
   \<not> db_fails e CDependents \<and>
   (\<forall>j \<in> set (sqlQueryDependents i db). \<not> db_fails e (CCancelDependent j)) \<and>
   \<not> db_fails e CNotify \<and> \<not> db_fails e CCommit \<and> db' = cancel_effect i db"
  unfolding CancelQ_def run_tx_Inr
  by (simp add: sendCancelNotification_def taskDependents_def cancel_effect_def Let_def
      sqlDeleteHeartbeat_def sqlCancelTask_def sqlSetCancelAttempted_def sqlQueryDependents_def)

definition requeue_calls_ok :: "qenv \<Rightarrow> bool" where
  "requeue_calls_ok e \<longleftrightarrow>
     \<not> db_fails e CBegin \<and> \<not> db_fails e CStatus \<and> \<not> db_fails e CDependencies \<and>
     \<not> db_fails e CDeleteHeartbeat \<and> \<not> db_fails e CRequeue \<and> \<not> db_fails e CNotify \<and>
     \<not> db_fails e CCommit"

lemma requeue_rows:
  assumes "distinct (map ti_Id (tasks db))" "lookup_row ti_Id i (tasks db) = Some t" "in_progress t"
  shows "rows_affected (requeue_row i) (tasks db) = Suc 0"
proof -
  have "rows_affected (requeue_row i) (tasks db) \<le> 1"
    by (rule rows_affected_key [OF assms(1), where i = i]) (simp add: requeue_row_def)
  moreover have "rows_affected (requeue_row i) (tasks db) \<noteq> 0"
    using lookup_row_SomeD [OF assms(2)] assms(3)
    by (auto simp: rows_affected_0_iff requeue_row_def in_progress_def)
  ultimately show ?thesis by simp
qed

lemma requeueTx_Inr:
  assumes "distinct (map ti_Id (tasks db))"
  shows "requeueTx e i db = Inr (r, db') \<longleftrightarrow>
   (\<exists>info. lookup_row ti_Id i (tasks db) = Some info \<and> in_progress info \<and>
     (ti_CancelAttempted info \<longrightarrow> ti_Status info = Some Running) \<and>
     (if ti_Retries info = MaxTaskRetries
      then \<not> db_fails e CBegin \<and> \<not> db_fails e CCommit \<and>
           finish_calls_ok e i (Some ErrMaxRetriesExceeded) db \<and>
           r = Some ErrMaxRetriesExceeded \<and> db' = finish_effect e info (Some ErrMaxRetriesExceeded) db
      else requeue_calls_ok e \<and> r = None \<and> db' = requeue_effect e i db))"
proof (cases "lookup_row ti_Id i (tasks db)")
  case None
  then show ?thesis by (simp add: requeueTx_def)
next
  case (Some info)
  have i: "ti_Id info = i" using Some by (auto dest: lookup_row_SomeD)
  show ?thesis
  proof (cases "in_progress info \<and> (ti_CancelAttempted info \<longrightarrow> ti_Status info = Some Running)")
    case False
    with Some show ?thesis by (auto simp: requeueTx_def in_progress_def)
  next
    case True
    then obtain s st where s: "ti_Started info = Some s" "ti_Finished info = None"
        "ti_Status info = Some st" by (auto simp: in_progress_def)
    have n: "rows_affected (requeue_row i) (tasks db) = Suc 0"
      using requeue_rows [OF assms Some] True by simp
    show ?thesis
    proof (cases "ti_Retries info = MaxTaskRetries")
      case max: True
      with Some s i True show ?thesis
        by (auto simp: requeueTx_def finish_calls_ok_def)
    next
      case False
      with Some s n True show ?thesis
        by (auto simp: requeueTx_def requeue_calls_ok_def requeue_effect_def sqlDeleteHeartbeat_def
            sqlRequeue_def)
    qed
  qed
qed

lemma RequeueFailedTasks_Inr:
  "RequeueFailedTasks e types db = (Inr u, db') \<longleftrightarrow>
   \<not> db_fails e CBegin \<and> \<not> db_fails e CRequeueFailed \<and> \<not> db_fails e CNotify \<and> \<not> db_fails e CCommit \<and>
   db' = sqlNotify (snd (sqlRequeueFailedTasks (clock_timestamp e) types db))"
  unfolding RequeueFailedTasks_def run_tx_Inr by simp

end
