(* ===== verification/TaskQueueInv.thy ===== *)
theory TaskQueueInv
  imports TaskQueueEffects
begin

text \<open>
  The well-formedness invariant of the queue's tables, and that every method keeps it on every
  path, errors included. \<open>row_ok\<close> relates the status column to the other columns,
  \<open>schema_ok\<close> are the CHECK constraints of the tasks table, \<open>queue_inv\<close> adds the keys, the
  references between the tables, that a running task has a heartbeat with its token, and that
  the dependency graph has no cycle. The sessions of the program interleave at the granularity
  of the methods' transactions: \<open>exec_op\<close> runs one of them, \<open>queue_step\<close> is a step of any
  session and \<open>reachable\<close> the states of the database from the empty one.
\<close>

section \<open>Well-formed rows and tables\<close>

definition row_ok :: "TaskInfo \<Rightarrow> bool" where
  "row_ok t \<longleftrightarrow>
     (case ti_Status t of
        None \<Rightarrow> False
      | Some Pending \<Rightarrow> ti_Started t = None \<and> ti_Finished t = None \<and> ti_Token t = None
      | Some Running \<Rightarrow> ti_Started t \<noteq> None \<and> ti_Finished t = None \<and> ti_Token t \<noteq> None
      | Some Canceled \<Rightarrow> ti_Finished t = None \<and> ti_CancelAttempted t \<and>
          (ti_Started t = None \<longleftrightarrow> ti_Token t = None)
      | Some _ \<Rightarrow> ti_Started t \<noteq> None \<and> ti_Finished t \<noteq> None \<and> ti_Token t \<noteq> None) \<and>
     0 \<le> ti_Retries t \<and> ti_Queued t \<noteq> None \<and>
     (case ti_Error t of None \<Rightarrow> True | Some s \<Rightarrow> length (valid_runes s) \<le> 4000)"

fun opt_le :: "timestamp option \<Rightarrow> timestamp option \<Rightarrow> bool" where
  "opt_le (Some a) (Some b) = (a \<le> b)"
| "opt_le _ _ = True"

text \<open>The CHECK constraints of the tasks table; a comparison with NULL does not fail a check.\<close>

definition schema_ok :: "TaskInfo \<Rightarrow> bool" where
  "schema_ok t \<longleftrightarrow>
     (ti_Finished t = None \<or> ti_Started t \<noteq> None) \<and>
     (ti_Started t = None \<or> opt_le (ti_Queued t) (ti_Started t)) \<and>
     (ti_Finished t = None \<or> opt_le (ti_Started t) (ti_Finished t)) \<and>
     ti_Token t \<noteq> Some uuid_Nil \<and>
     (ti_Started t = None \<or> ti_Token t \<noteq> None)"

definition past :: "timestamp \<Rightarrow> TaskInfo \<Rightarrow> bool" where
  "past now t \<longleftrightarrow> opt_le (ti_Queued t) (Some now) \<and> opt_le (ti_Started t) (Some now) \<and>
     opt_le (ti_Finished t) (Some now)"

definition has_heartbeat :: "queue_db \<Rightarrow> TaskInfo \<Rightarrow> bool" where
  "has_heartbeat db t \<longleftrightarrow>
     (\<exists>h \<in> set (task_heartbeats db). Some (hb_token h) = ti_Token t \<and> hb_id h = ti_Id t)"

definition refs_ok :: "queue_db \<Rightarrow> bool" where
  "refs_ok db \<longleftrightarrow>
     set (task_dependencies db) \<subseteq> ti_Id ` set (tasks db) \<times> ti_Id ` set (tasks db) \<and>
     hb_id ` set (task_heartbeats db) \<subseteq> ti_Id ` set (tasks db)"

definition queue_inv :: "queue_db \<Rightarrow> bool" where
  "queue_inv db \<longleftrightarrow>
     distinct (map ti_Id (tasks db)) \<and> distinct (map hb_token (task_heartbeats db)) \<and> refs_ok db \<and>
     (\<forall>t \<in> set (tasks db). row_ok t) \<and>
     (\<forall>t \<in> set (tasks db). ti_Status t = Some Running \<longrightarrow> has_heartbeat db t) \<and>
     acyclic (set (task_dependencies db))"

definition stamped :: "timestamp \<Rightarrow> TaskInfo \<Rightarrow> bool" where
  "stamped now t \<longleftrightarrow> schema_ok t \<and> past now t"

definition times_ok :: "timestamp \<Rightarrow> queue_db \<Rightarrow> bool" where
  "times_ok now db \<longleftrightarrow> (\<forall>t \<in> set (tasks db). stamped now t)"

section \<open>Steps of the sessions\<close>

datatype queue_op =
    OEnqueue uuid Task
  | ODequeue uuid "string list"
  | OFinish uuid "go_error option"
  | OCancel uuid
  | ORequeue uuid
  | ORequeueFailed "string list"
  | ORefresh uuid
  | OUpdatePayload TaskInfo string
  | ORemoveAll

fun exec_op :: "qenv \<Rightarrow> queue_op \<Rightarrow> queue_db \<Rightarrow> queue_db" where
  "exec_op e (OEnqueue i task) db = snd (Enqueue e i task db)"
| "exec_op e (ODequeue tok types) db = snd (dequeueMaybe e tok types db)"
| "exec_op e (OFinish i err) db = snd (Finish e i err db)"
| "exec_op e (OCancel i) db = snd (CancelQ e i db)"
| "exec_op e (ORequeue i) db = snd (Requeue e i db)"
| "exec_op e (ORequeueFailed types) db = snd (RequeueFailedTasks e types db)"
| "exec_op e (ORefresh tok) db = snd (RefreshHeartbeat e id id tok db)"
| "exec_op e (OUpdatePayload t p) db = snd (UpdatePayload e t p db)"
| "exec_op e ORemoveAll db = snd (RemoveAllTasks e db)"

text \<open>
  What \<open>uuid.New\<close> gives the methods that call it: an id that is not among the task's
  dependencies, and a token that is not nil and that no row has.
\<close>

fun op_fresh :: "queue_op \<Rightarrow> queue_db \<Rightarrow> bool" where
  "op_fresh (OEnqueue i task) db = (i \<notin> set (tk_Dependencies task))"
| "op_fresh (ODequeue tok types) db = (tok \<noteq> uuid_Nil \<and> Some tok \<notin> ti_Token ` set (tasks db))"
| "op_fresh _ db = True"

inductive queue_step :: "timestamp \<times> queue_db \<Rightarrow> timestamp \<times> queue_db \<Rightarrow> bool" where
  "now \<le> clock_timestamp e \<Longrightarrow> op_fresh op db \<Longrightarrow>
   queue_step (now, db) (clock_timestamp e, exec_op e op db)"

inductive reachable :: "timestamp \<times> queue_db \<Rightarrow> bool" where
  reachable_init: "reachable (0, empty_db)"
| reachable_step: "reachable s \<Longrightarrow> queue_step s s' \<Longrightarrow> reachable s'"

inductive_cases queue_stepE: "queue_step (now, db) s"

section \<open>Preservation by updates of the tables\<close>

lemma queue_inv_sqlNotify [simp]:
  "queue_inv (db\<lparr>notified := n\<rparr>) = queue_inv db"
  "queue_inv (db\<lparr>cancel_notes := c\<rparr>) = queue_inv db"
  by (simp_all add: queue_inv_def refs_ok_def has_heartbeat_def)

lemma times_ok_simps [simp]:
  "times_ok now (db\<lparr>notified := n\<rparr>) = times_ok now db"
  "times_ok now (db\<lparr>cancel_notes := c\<rparr>) = times_ok now db"
  "times_ok now (db\<lparr>task_heartbeats := h\<rparr>) = times_ok now db"
  "times_ok now (db\<lparr>task_dependencies := d\<rparr>) = times_ok now db"
  by (simp_all add: times_ok_def)

lemma upd_order:
  "db\<lparr>task_heartbeats := h, tasks := ts\<rparr> = db\<lparr>tasks := ts, task_heartbeats := h\<rparr>"
  "db\<lparr>cancel_notes := c, tasks := ts\<rparr> = db\<lparr>tasks := ts, cancel_notes := c\<rparr>"
  "db\<lparr>cancel_notes := c, task_heartbeats := h\<rparr> = db\<lparr>task_heartbeats := h, cancel_notes := c\<rparr>"
  by simp_all

lemma ids_update_where:
  assumes "\<And>t. p t \<Longrightarrow> ti_Id (f t) = ti_Id t"
  shows "ti_Id ` set (update_where p f ts) = ti_Id ` set ts"
  using arg_cong [OF map_update_where [where p = p and k = ti_Id and f = f and rows = ts, OF assms], of set]
  by simp

lemma queue_invI:
  assumes "distinct (map ti_Id (tasks db))" "distinct (map hb_token (task_heartbeats db))" "refs_ok db"
    "\<forall>t \<in> set (tasks db). row_ok t"
    "\<forall>t \<in> set (tasks db). ti_Status t = Some Running \<longrightarrow> has_heartbeat db t"
    "acyclic (set (task_dependencies db))"
  shows "queue_inv db"
  using assms by (simp add: queue_inv_def)

lemma queue_invD:
  assumes "queue_inv db"
  shows "distinct (map ti_Id (tasks db))" "distinct (map hb_token (task_heartbeats db))" "refs_ok db"
    "\<And>t. t \<in> set (tasks db) \<Longrightarrow> row_ok t"
    "\<And>t. t \<in> set (tasks db) \<Longrightarrow> ti_Status t = Some Running \<Longrightarrow> has_heartbeat db t"
    "acyclic (set (task_dependencies db))"
  using assms by (simp_all add: queue_inv_def)

lemma queue_inv_same:
  "queue_inv db \<Longrightarrow> t \<in> set (tasks db) \<Longrightarrow> u \<in> set (tasks db) \<Longrightarrow> ti_Id t = ti_Id u \<Longrightarrow> t = u"
  by (auto simp: queue_inv_def distinct_map inj_on_def)

lemma has_heartbeat_tasks [simp]: "has_heartbeat (db\<lparr>tasks := ts\<rparr>) t = has_heartbeat db t"
  by (simp add: has_heartbeat_def)

lemma queue_inv_update:
  assumes inv: "queue_inv db"
    and id: "\<And>t. p t \<Longrightarrow> ti_Id (f t) = ti_Id t"
    and row: "\<And>t. t \<in> set (tasks db) \<Longrightarrow> p t \<Longrightarrow> row_ok t \<Longrightarrow> row_ok (f t)"
    and run: "\<And>t. t \<in> set (tasks db) \<Longrightarrow> p t \<Longrightarrow> ti_Status (f t) \<noteq> Some Running \<or>
        ti_Status (f t) = ti_Status t \<and> ti_Token (f t) = ti_Token t"
  shows "queue_inv (db\<lparr>tasks := update_where p f (tasks db)\<rparr>)"
proof (rule queue_invI)
  note I = queue_invD [OF inv]
  show "refs_ok (db\<lparr>tasks := update_where p f (tasks db)\<rparr>)"
    using I(3) by (simp add: refs_ok_def ids_update_where id)
  show "\<forall>t \<in> set (tasks (db\<lparr>tasks := update_where p f (tasks db)\<rparr>)). ti_Status t = Some Running \<longrightarrow>
      has_heartbeat (db\<lparr>tasks := update_where p f (tasks db)\<rparr>) t"
  proof (simp, intro ballI conjI impI)
    fix t assume t: "t \<in> set (tasks db)" and "p t" "ti_Status (f t) = Some Running"
    then have "has_heartbeat db t" "ti_Token (f t) = ti_Token t" using I(5) [OF t] run [OF t] by auto
    then show "has_heartbeat db (f t)" using id [OF \<open>p t\<close>] by (simp add: has_heartbeat_def)
  qed (rule I(5))
qed (use queue_invD [OF inv] row in \<open>simp_all add: map_update_where id\<close>)

lemma queue_inv_delete_heartbeat:
  assumes inv: "queue_inv db"
    and run: "\<forall>t \<in> set (tasks db). ti_Id t = i \<longrightarrow> ti_Status t \<noteq> Some Running"
  shows "queue_inv (db\<lparr>task_heartbeats := delete_where (\<lambda>h. hb_id h = i) (task_heartbeats db)\<rparr>)"
proof (rule queue_invI)
  note I = queue_invD [OF inv]
  show "\<forall>t \<in> set (tasks (db\<lparr>task_heartbeats := delete_where (\<lambda>h. hb_id h = i) (task_heartbeats db)\<rparr>)).
      ti_Status t = Some Running \<longrightarrow>
      has_heartbeat (db\<lparr>task_heartbeats := delete_where (\<lambda>h. hb_id h = i) (task_heartbeats db)\<rparr>) t"
  proof (intro ballI impI)
    fix t assume "t \<in> set (tasks (db\<lparr>task_heartbeats := delete_where (\<lambda>h. hb_id h = i) (task_heartbeats db)\<rparr>))"
      and r: "ti_Status t = Some Running"
    then have t: "t \<in> set (tasks db)" by simp
    then have "ti_Id t \<noteq> i" using run r by blast
    then show "has_heartbeat (db\<lparr>task_heartbeats := delete_where (\<lambda>h. hb_id h = i) (task_heartbeats db)\<rparr>) t"
      using I(5) [OF t r] by (auto simp: has_heartbeat_def)
  qed
qed (use queue_invD [OF inv] in \<open>auto simp: refs_ok_def distinct_map_delete_where\<close>)

lemma past_mono: "past now t \<Longrightarrow> now \<le> now' \<Longrightarrow> past now' t"
  by (cases "ti_Queued t"; cases "ti_Started t"; cases "ti_Finished t") (auto simp: past_def)

lemma times_ok_update:
  assumes "times_ok now db" "now \<le> now'"
    "\<And>t. t \<in> set (tasks db) \<Longrightarrow> p t \<Longrightarrow> stamped now t \<Longrightarrow> stamped now' (f t)"
  shows "times_ok now' (db\<lparr>tasks := update_where p f (tasks db)\<rparr>)"
  using assms past_mono [OF _ assms(2)] by (simp add: times_ok_def) (simp add: stamped_def)

lemma times_ok_mono: "times_ok now db \<Longrightarrow> now \<le> now' \<Longrightarrow> times_ok now' db"
  using times_ok_update [of now db now' "\<lambda>_. False" id] by (simp add: update_where_def)

lemma no_edge_into: "(d, i) \<in> r\<^sup>* \<Longrightarrow> i \<notin> Range r \<Longrightarrow> d = i"
  by (erule rtranclE) auto

lemma acyclic_fresh:
  assumes "acyclic r" "i \<notin> Range r" "i \<notin> set ds"
  shows "acyclic (r \<union> set (map (\<lambda>d. (i, d)) ds))"
  using assms(3)
proof (induction ds)
  case (Cons d ds)
  let ?r = "r \<union> set (map (\<lambda>d. (i, d)) ds)"
  have "i \<notin> Range ?r" using assms(2) Cons.prems by auto
  then have "(d, i) \<notin> ?r\<^sup>*" using no_edge_into [of d i ?r] Cons.prems by (metis list.set_intros(1))
  moreover have "acyclic ?r" using Cons by simp
  ultimately have "acyclic (insert (i, d) ?r)" by (simp only: acyclic_insert not_False_eq_True simp_thms)
  then show ?case by simp
qed (simp add: assms(1))

section \<open>Preservation by the methods\<close>

lemma row_ok_new: "row_ok (new_row now i task)"
  by (simp add: row_ok_def new_row_def)

lemma queue_inv_enqueue:
  assumes inv: "queue_inv db" and i: "i \<notin> ti_Id ` set (tasks db)" "i \<notin> set (tk_Dependencies task)"
    and deps: "set (tk_Dependencies task) \<subseteq> insert i (ti_Id ` set (tasks db))"
  shows "queue_inv (enqueue_effect e i task db)"
proof -
  have "i \<notin> Range (set (task_dependencies db))"
    using inv i by (auto simp: queue_inv_def refs_ok_def)
  then have "acyclic (set (task_dependencies db) \<union> set (map (\<lambda>d. (i, d)) (tk_Dependencies task)))"
    using inv i by (intro acyclic_fresh) (auto simp: queue_inv_def)
  then show ?thesis
    unfolding enqueue_effect_def sqlNotify_def queue_inv_sqlNotify
    using assms by (intro queue_invI)
      (auto simp: queue_inv_def refs_ok_def has_heartbeat_def new_row_def row_ok_new [unfolded new_row_def])
qed

lemma dequeue_choice_Some:
  assumes "dequeue_choice e types db = Some t"
  shows "t \<in> set (tasks db) \<and> ready db types t \<and> \<not> row_locked e (ti_Id t)"
proof -
  have *: "limit1 le rs = Some r \<Longrightarrow> r \<in> set rs" for le and r :: TaskInfo and rs
    by (induction rs arbitrary: r) (auto split: option.splits if_splits)
  show ?thesis using * assms unfolding dequeue_choice_def by fastforce
qed

lemmas mark_defs = mark_running_def mark_requeued_def mark_retried_def mark_finished_def mark_canceled_def

lemma mark_ids [simp]:
  "ti_Id (mark_requeued now t) = ti_Id t"
  "ti_Id (mark_retried now t) = ti_Id t"
  "ti_Id (mark_finished now st err r t) = ti_Id t"
  by (simp_all add: mark_defs)

lemma row_ok_mark:
  "row_ok t \<Longrightarrow> ti_Started t = None \<Longrightarrow> row_ok (mark_running now tok t)"
  "row_ok t \<Longrightarrow> ti_Finished t = None \<Longrightarrow> row_ok (mark_requeued now t)"
  "row_ok t \<Longrightarrow> row_ok (mark_retried now t)"
  "row_ok t \<Longrightarrow> ti_Started t \<noteq> None \<Longrightarrow> st \<in> {Failed, Completed} \<Longrightarrow> row_ok (mark_finished now st err r t)"
  "row_ok t \<Longrightarrow> ti_Finished t = None \<Longrightarrow> row_ok (mark_canceled msg t)"
  "row_ok t \<Longrightarrow> row_ok (t\<lparr>ti_CancelAttempted := True\<rparr>)"
  "row_ok t \<Longrightarrow> row_ok (t\<lparr>ti_Payload := p\<rparr>)"
  by (auto simp: row_ok_def mark_defs sql_left_bound split: option.splits task_status.splits)

lemma mark_status [simp]:
  "ti_Status (mark_running now tok t) = Some Running"
  "ti_Status (mark_requeued now t) = Some Pending"
  "ti_Status (mark_retried now t) = Some Pending"
  "ti_Status (mark_finished now st err r t) = Some st"
  "ti_Status (mark_canceled msg t) = Some Canceled"
  by (simp_all add: mark_defs)

lemma finish_status_cases: "finish_status err \<in> {Failed, Completed}" "finish_status err \<noteq> Running"
  by (simp_all add: finish_status_def split: option.splits)

lemma queue_inv_cancel_all: "queue_inv db \<Longrightarrow> queue_inv (cancel_all is msg db)"
  unfolding cancel_all_def by (rule queue_inv_update) (simp_all add: row_ok_mark)

lemma refs_ok_heartbeat:
  "refs_ok db \<Longrightarrow> i \<in> ti_Id ` set (tasks db) \<Longrightarrow> hb_id h = i \<Longrightarrow>
   refs_ok (db\<lparr>task_heartbeats := task_heartbeats db @ [h]\<rparr>)"
  by (simp add: refs_ok_def)

lemma queue_inv_dequeue:
  assumes inv: "queue_inv db" and choice: "dequeue_choice e types db = Some t"
    and tok: "tok \<notin> hb_token ` set (task_heartbeats db)"
  shows "queue_inv (dequeue_effect e tok t db)"
  unfolding dequeue_effect_def
proof (rule queue_invI)
  note I = queue_invD [OF inv]
  have t: "t \<in> set (tasks db)" "ti_Started t = None"
    using dequeue_choice_Some [OF choice] by (auto simp: ready_def)
  have same: "r = t" if "r \<in> set (tasks db)" "has_id (ti_Id t) r" for r
    using queue_inv_same [OF inv that(1) t(1)] that by (simp add: has_id_def)
  let ?ts = "update_where (has_id (ti_Id t)) (mark_running (clock_timestamp e) tok) (tasks db)"
  let ?hb = "\<lparr>hb_token = tok, hb_id = ti_Id t, hb_time = clock_timestamp e\<rparr>"
  let ?db = "db\<lparr>tasks := ?ts, task_heartbeats := task_heartbeats db @ [?hb]\<rparr>"
  have ids: "ti_Id ` set ?ts = ti_Id ` set (tasks db)" by (rule ids_update_where) simp
  show "refs_ok ?db" using I(3) t by (simp add: refs_ok_def ids)
  show "\<forall>t \<in> set (tasks ?db). row_ok t"
    using I(4) t same by (auto intro!: row_ok_mark)
  have "has_heartbeat ?db (mark_running (clock_timestamp e) tok t)"
    by (simp add: has_heartbeat_def mark_running_def)
  moreover have "has_heartbeat ?db r" if "has_heartbeat db r" for r
    using that by (auto simp: has_heartbeat_def)
  ultimately show "\<forall>t \<in> set (tasks ?db). ti_Status t = Some Running \<longrightarrow> has_heartbeat ?db t"
    using I(5) same by auto
qed (use queue_invD [OF inv] tok in \<open>simp_all add: map_update_where\<close>)

lemma queue_inv_finish:
  assumes inv: "queue_inv db" and t: "lookup_row ti_Id i (tasks db) = Some info" "in_progress info"
  shows "queue_inv (finish_effect e info taskError db)"
proof -
  have info: "info \<in> set (tasks db)" "ti_Id info = i" using lookup_row_SomeD [OF t(1)] by auto
  have same: "r = info" if "r \<in> set (tasks db)" "ti_Id r = i" for r
    using queue_inv_same [OF inv that(1) info(1)] that info by simp
  let ?f = "mark_finished (clock_timestamp e) (finish_status taskError) (finish_message taskError)
      (finish_retry e taskError info)"
  let ?upd = "db\<lparr>tasks := update_where (finish_row i) ?f (tasks db)\<rparr>"
  have "row_ok (?f r)" if "r \<in> set (tasks db)" "finish_row i r" "row_ok r" for r
    using that same [of r] t(2) finish_status_cases(1) by (intro row_ok_mark) (auto simp: finish_row_def in_progress_def)
  then have "queue_inv ?upd"
    by (intro queue_inv_update [OF inv]) (simp_all add: finish_status_cases)
  moreover have "finish_row i r" if "r \<in> set (tasks db)" "ti_Id r = i" for r
    using same [OF that] t(2) info by (simp add: finish_row_def in_progress_def)
  then have "\<forall>t \<in> set (tasks ?upd). ti_Id t = i \<longrightarrow> ti_Status t \<noteq> Some Running"
    by (auto simp: finish_status_cases)
  ultimately have "queue_inv (?upd\<lparr>task_heartbeats := delete_where (\<lambda>h. hb_id h = i) (task_heartbeats ?upd)\<rparr>)"
    by (rule queue_inv_delete_heartbeat)
  then show ?thesis
    by (cases taskError) (simp_all add: finish_effect_def Let_def info sqlDeleteHeartbeat_def
        sqlFinishTask_def sqlNotify_def queue_inv_cancel_all upd_order)
qed

lemma queue_inv_cancel:
  assumes inv: "queue_inv db"
  shows "queue_inv (cancel_effect i db)"
proof -
  let ?m = "mark_canceled ''task canceled''"
  let ?a = "db\<lparr>tasks := update_where (finish_row i) ?m (tasks db)\<rparr>"
  let ?b = "?a\<lparr>tasks := update_where (has_id i) (\<lambda>t. t\<lparr>ti_CancelAttempted := True\<rparr>) (tasks ?a)\<rparr>"
  have "queue_inv ?a"
    by (rule queue_inv_update [OF inv]) (simp_all add: row_ok_mark finish_row_def)
  then have "queue_inv ?b"
    by (rule queue_inv_update) (simp_all add: row_ok_mark)
  moreover have "ti_Status t \<noteq> Some Running" if "t \<in> set (tasks db)" "\<not> finish_row i t" "ti_Id t = i" for t
    using queue_invD(4) [OF inv that(1)] that(2,3) by (auto simp: row_ok_def finish_row_def)
  then have "\<forall>t \<in> set (tasks ?b). ti_Id t = i \<longrightarrow> ti_Status t \<noteq> Some Running"
    by (simp add: has_id_def)
  ultimately have "queue_inv (?b\<lparr>task_heartbeats := delete_where (\<lambda>h. hb_id h = i) (task_heartbeats ?b)\<rparr>)"
    by (rule queue_inv_delete_heartbeat)
  then show ?thesis
    by (simp add: cancel_effect_def Let_def sqlDeleteHeartbeat_def sqlCancelTask_def
        sqlSetCancelAttempted_def sqlNotify_def queue_inv_cancel_all upd_order)
qed

lemma queue_inv_requeue:
  assumes inv: "queue_inv db" and t: "lookup_row ti_Id i (tasks db) = Some info" "in_progress info"
  shows "queue_inv (requeue_effect e i db)"
proof -
  have info: "info \<in> set (tasks db)" "ti_Id info = i" using lookup_row_SomeD [OF t(1)] by auto
  have same: "requeue_row i r" if "r \<in> set (tasks db)" "ti_Id r = i" for r
    using queue_inv_same [OF inv that(1) info(1)] that info t(2) by (simp add: requeue_row_def in_progress_def)
  let ?upd = "db\<lparr>tasks := update_where (requeue_row i) (mark_requeued (clock_timestamp e)) (tasks db)\<rparr>"
  have "queue_inv ?upd"
    by (rule queue_inv_update [OF inv]) (simp_all add: row_ok_mark requeue_row_def)
  moreover have "\<forall>t \<in> set (tasks ?upd). ti_Id t = i \<longrightarrow> ti_Status t \<noteq> Some Running"
    using same by auto
  ultimately have "queue_inv (?upd\<lparr>task_heartbeats := delete_where (\<lambda>h. hb_id h = i) (task_heartbeats ?upd)\<rparr>)"
    by (rule queue_inv_delete_heartbeat)
  then show ?thesis
    by (simp add: requeue_effect_def sqlDeleteHeartbeat_def sqlRequeue_def sqlNotify_def upd_order)
qed

lemma queue_inv_retry: "queue_inv db \<Longrightarrow> queue_inv (snd (sqlRequeueFailedTasks now types db))"
  unfolding sqlRequeueFailedTasks_def snd_conv
  by (rule queue_inv_update) (simp_all add: row_ok_mark)

lemma queue_inv_payload: "queue_inv db \<Longrightarrow> queue_inv (sqlUpdatePayload p i db)"
  unfolding sqlUpdatePayload_def by (rule queue_inv_update) (simp_all add: row_ok_mark)

lemma queue_inv_refresh:
  assumes inv: "queue_inv db"
  shows "queue_inv (snd (sqlRefreshHeartbeat now tok db))"
proof -
  let ?hs = "update_where (\<lambda>h. hb_token h = tok) (\<lambda>h. h\<lparr>hb_time := now\<rparr>) (task_heartbeats db)"
  have "map hb_token ?hs = map hb_token (task_heartbeats db)" "map hb_id ?hs = map hb_id (task_heartbeats db)"
    by (simp_all add: map_update_where)
  moreover have "hb_id ` set ?hs = hb_id ` set (task_heartbeats db)"
    using arg_cong [OF \<open>map hb_id ?hs = _\<close>, of set] by simp
  moreover have "has_heartbeat (db\<lparr>task_heartbeats := ?hs\<rparr>) t" if "has_heartbeat db t" for t
  proof -
    from that obtain h where h: "h \<in> set (task_heartbeats db)" "Some (hb_token h) = ti_Token t" "hb_id h = ti_Id t"
      by (auto simp: has_heartbeat_def)
    then have "(if hb_token h = tok then h\<lparr>hb_time := now\<rparr> else h) \<in> set ?hs" by (simp add: update_where_def)
    with h show ?thesis unfolding has_heartbeat_def
      by (intro bexI [where x = "if hb_token h = tok then h\<lparr>hb_time := now\<rparr> else h"]) auto
  qed
  ultimately show ?thesis
    using queue_invD [OF inv] unfolding sqlRefreshHeartbeat_def snd_conv
    by (intro queue_invI) (simp_all add: refs_ok_def)
qed

section \<open>The invariant of the reachable states\<close>

text \<open>A method either leaves the database as it was or has had its closed-form effect.\<close>

lemma snd_result_cases:
  assumes "\<And>err db'. x = (Inl err, db') \<Longrightarrow> P db'" "\<And>a db'. x = (Inr a, db') \<Longrightarrow> P db'"
  shows "P (snd x)"
  using assms by (metis obj_sumE prod.collapse)

lemma Inl_unchanged:
  "Enqueue e i task db = (Inl err, db') \<Longrightarrow> db' = db"
  "dequeueMaybe e tok types db = (Inl err, db') \<Longrightarrow> db' = db"
  "Finish e i taskError db = (Inl err, db') \<Longrightarrow> db' = db"
  "CancelQ e i db = (Inl err, db') \<Longrightarrow> db' = db"
  "RequeueFailedTasks e types db = (Inl err, db') \<Longrightarrow> db' = db"
  "UpdatePayload e t p db = (Inl err, db') \<Longrightarrow> db' = db"
  "RemoveAllTasks e db = (Inl err, db') \<Longrightarrow> db' = db"
  unfolding Enqueue_def dequeueMaybe_def Finish_def CancelQ_def RequeueFailedTasks_def UpdatePayload_def
    RemoveAllTasks_def
  by (erule run_tx_Inl)+

lemma Requeue_cases:
  assumes "distinct (map ti_Id (tasks db))"
  obtains
    err where "Requeue e i db = (Inl err, db)"
  | info where "lookup_row ti_Id i (tasks db) = Some info" "in_progress info"
      "ti_CancelAttempted info \<longrightarrow> ti_Status info = Some Running" "ti_Retries info = MaxTaskRetries"
      "Requeue e i db = (Inl ErrMaxRetriesExceeded, finish_effect e info (Some ErrMaxRetriesExceeded) db)"
  | info where "lookup_row ti_Id i (tasks db) = Some info" "in_progress info"
      "ti_CancelAttempted info \<longrightarrow> ti_Status info = Some Running" "ti_Retries info \<noteq> MaxTaskRetries"
      "Requeue e i db = (Inr (), requeue_effect e i db)"
proof (cases "requeueTx e i db")
  case (Inl err)
  then show ?thesis using that(1) by (simp add: Requeue_def run_tx_def)
next
  case (Inr p)
  obtain r db' where p: "p = (r, db')" by (cases p)
  from Inr obtain info where info: "lookup_row ti_Id i (tasks db) = Some info" "in_progress info"
      "ti_CancelAttempted info \<longrightarrow> ti_Status info = Some Running"
    and "(if ti_Retries info = MaxTaskRetries
      then r = Some ErrMaxRetriesExceeded \<and> db' = finish_effect e info (Some ErrMaxRetriesExceeded) db
      else r = None \<and> db' = requeue_effect e i db)"
    unfolding p requeueTx_Inr [OF assms] by (auto split: if_splits)
  then show ?thesis
    using that(2,3) [OF info] Inr by (auto simp: Requeue_def run_tx_def p split: if_splits)
qed

lemma RefreshHeartbeat_cases:
  "snd (RefreshHeartbeat e id id tok db) = db \<or>
   snd (RefreshHeartbeat e id id tok db) = snd (sqlRefreshHeartbeat (clock_timestamp e) tok db) \<or>
   snd (RefreshHeartbeat e id id tok db) =
     snd (sqlRefreshHeartbeat (clock_timestamp e) tok (snd (sqlRefreshHeartbeat (clock_timestamp e) tok db)))"
proof -
  obtain n db1 where 1: "sqlRefreshHeartbeat (clock_timestamp e) tok db = (n, db1)" by fastforce
  obtain m db2 where 2: "sqlRefreshHeartbeat (clock_timestamp e) tok db1 = (m, db2)" by fastforce
  show ?thesis
    by (cases "IdFromToken e tok db1" rule: prod_cases3)
       (auto simp: RefreshHeartbeat_def 1 2 Let_def split: option.splits)
qed

lemma queue_inv_empty: "queue_inv empty_db"
  by (simp add: queue_inv_def refs_ok_def empty_db_def acyclic_def)

lemma queue_inv_exec_op:
  assumes inv: "queue_inv db" and fresh: "op_fresh op db"
  shows "queue_inv (exec_op e op db)"
proof (cases op)
  case (OEnqueue i task)
  show ?thesis unfolding OEnqueue exec_op.simps
    by (rule snd_result_cases)
       (use inv fresh OEnqueue in \<open>auto dest: Inl_unchanged simp: Enqueue_Inr intro!: queue_inv_enqueue\<close>)
next
  case (ODequeue tok types)
  show ?thesis unfolding ODequeue exec_op.simps
    by (rule snd_result_cases) (use inv in \<open>auto dest: Inl_unchanged simp: dequeueMaybe_Inr intro: queue_inv_dequeue\<close>)
next
  case (OFinish i err)
  show ?thesis unfolding OFinish exec_op.simps
    by (rule snd_result_cases) (use inv in \<open>auto dest: Inl_unchanged simp: Finish_Inr intro: queue_inv_finish\<close>)
next
  case (OCancel i)
  show ?thesis unfolding OCancel exec_op.simps
    by (rule snd_result_cases) (use inv in \<open>auto dest: Inl_unchanged simp: CancelQ_Inr intro: queue_inv_cancel\<close>)
next
  case (ORequeue i)
  show ?thesis
    by (rule Requeue_cases [OF queue_invD(1) [OF inv], of e i])
       (use inv ORequeue in \<open>auto intro: queue_inv_finish queue_inv_requeue\<close>)
next
  case (ORequeueFailed types)
  show ?thesis unfolding ORequeueFailed exec_op.simps
    by (rule snd_result_cases)
       (use inv in \<open>auto dest: Inl_unchanged simp: RequeueFailedTasks_Inr sqlNotify_def intro: queue_inv_retry\<close>)
next
  case (ORefresh tok)
  then show ?thesis
    using RefreshHeartbeat_cases [of e tok db] inv queue_inv_refresh by (metis exec_op.simps(7))
next
  case (OUpdatePayload t p)
  show ?thesis unfolding OUpdatePayload exec_op.simps
    by (rule snd_result_cases)
       (use inv in \<open>auto dest: run_tx_Inl simp: UpdatePayload_def intro: queue_inv_payload\<close>)
next
  case ORemoveAll
  have "queue_inv (sqlDeleteAllTasks db)"
    by (simp add: sqlDeleteAllTasks_def queue_inv_def refs_ok_def acyclic_def)
  note del = this
  show ?thesis unfolding ORemoveAll exec_op.simps
    by (rule snd_result_cases) (use inv del in \<open>auto dest: run_tx_Inl simp: RemoveAllTasks_def\<close>)
qed

subsection \<open>The CHECK constraints\<close>

lemma stamped_mark:
  assumes "stamped now t" "now \<le> now'"
  shows "tok \<noteq> uuid_Nil \<Longrightarrow> ti_Finished t = None \<Longrightarrow> stamped now' (mark_running now' tok t)"
    and "ti_Finished t = None \<Longrightarrow> stamped now' (mark_requeued now' t)"
    and "stamped now' (mark_retried now' t)"
    and "ti_Started t \<noteq> None \<Longrightarrow> ti_Finished t = None \<Longrightarrow> stamped now' (mark_finished now' st err r t)"
    and "stamped now' (mark_canceled msg t)"
    and "stamped now' (t\<lparr>ti_CancelAttempted := c\<rparr>)"
    and "stamped now' (t\<lparr>ti_Payload := p\<rparr>)"
  using assms past_mono [of now t now'] unfolding stamped_def
  by (cases "ti_Queued t"; cases "ti_Started t"; cases "ti_Finished t";
      simp add: schema_ok_def past_def mark_defs)+

lemma times_ok_cancel_all: "times_ok now db \<Longrightarrow> times_ok now (cancel_all is msg db)"
  unfolding cancel_all_def by (rule times_ok_update) (auto simp: stamped_mark)

lemma times_ok_finish:
  assumes inv: "queue_inv db" and times: "times_ok now db" and le: "now \<le> clock_timestamp e"
    and t: "lookup_row ti_Id i (tasks db) = Some info" "in_progress info"
  shows "times_ok (clock_timestamp e) (finish_effect e info taskError db)"
proof -
  have info: "info \<in> set (tasks db)" "ti_Id info = i" using lookup_row_SomeD [OF t(1)] by auto
  have same: "r = info" if "r \<in> set (tasks db)" "ti_Id r = i" for r
    using queue_inv_same [OF inv that(1) info(1)] that info by simp
  let ?f = "mark_finished (clock_timestamp e) (finish_status taskError) (finish_message taskError)
      (finish_retry e taskError info)"
  have "times_ok (clock_timestamp e) (db\<lparr>tasks := update_where (finish_row i) ?f (tasks db)\<rparr>)"
    using times le by (rule times_ok_update)
      (use same t(2) le in \<open>auto simp: finish_row_def in_progress_def intro!: stamped_mark\<close>)
  then show ?thesis
    by (cases taskError) (simp_all add: finish_effect_def Let_def info sqlDeleteHeartbeat_def
        sqlFinishTask_def sqlNotify_def times_ok_cancel_all upd_order)
qed

lemma times_ok_cancel: "times_ok now db \<Longrightarrow> times_ok now (cancel_effect i db)"
proof -
  assume times: "times_ok now db"
  let ?a = "db\<lparr>tasks := update_where (finish_row i) (mark_canceled ''task canceled'') (tasks db)\<rparr>"
  have "times_ok now ?a" using times by (rule times_ok_update) (auto simp: stamped_mark)
  then have "times_ok now (?a\<lparr>tasks := update_where (has_id i) (\<lambda>t. t\<lparr>ti_CancelAttempted := True\<rparr>) (tasks ?a)\<rparr>)"
    by (rule times_ok_update) (auto simp: stamped_mark)
  then show ?thesis
    by (simp add: cancel_effect_def Let_def sqlDeleteHeartbeat_def sqlCancelTask_def
        sqlSetCancelAttempted_def sqlNotify_def times_ok_cancel_all upd_order)
qed

lemma times_ok_enqueue:
  assumes "times_ok now db" "now \<le> clock_timestamp e"
  shows "times_ok (clock_timestamp e) (enqueue_effect e i task db)"
  using times_ok_mono [OF assms]
  by (simp add: enqueue_effect_def sqlNotify_def times_ok_def stamped_def new_row_def schema_ok_def past_def)

lemma times_ok_dequeue:
  assumes inv: "queue_inv db" and times: "times_ok now db" and le: "now \<le> clock_timestamp e"
    and choice: "dequeue_choice e types db = Some t" and tok: "tok \<noteq> uuid_Nil"
  shows "times_ok (clock_timestamp e) (dequeue_effect e tok t db)"
proof -
  have t: "t \<in> set (tasks db)" "ti_Started t = None"
    using dequeue_choice_Some [OF choice] by (auto simp: ready_def)
  have same: "r = t" if "r \<in> set (tasks db)" "has_id (ti_Id t) r" for r
    using queue_inv_same [OF inv that(1) t(1)] that by (simp add: has_id_def)
  have "ti_Finished t = None" using times t by (auto simp: times_ok_def stamped_def schema_ok_def)
  then have "times_ok (clock_timestamp e)
      (db\<lparr>tasks := update_where (has_id (ti_Id t)) (mark_running (clock_timestamp e) tok) (tasks db)\<rparr>)"
    using times le by (intro times_ok_update [OF times le]) (auto dest!: same intro!: stamped_mark tok)
  then show ?thesis by (simp add: dequeue_effect_def)
qed

lemma times_ok_tasks: "times_ok now db \<Longrightarrow> tasks db' = tasks db \<Longrightarrow> times_ok now db'"
  by (simp add: times_ok_def)

lemma times_ok_retry:
  "times_ok now db \<Longrightarrow> now \<le> now' \<Longrightarrow> times_ok now' (snd (sqlRequeueFailedTasks now' types db))"
  unfolding sqlRequeueFailedTasks_def snd_conv by (rule times_ok_update) (auto simp: stamped_mark)

lemma times_ok_requeue:
  "times_ok now db \<Longrightarrow> now \<le> clock_timestamp e \<Longrightarrow> times_ok (clock_timestamp e) (requeue_effect e i db)"
  unfolding requeue_effect_def sqlDeleteHeartbeat_def sqlRequeue_def sqlNotify_def snd_conv upd_order
    times_ok_simps
  by (simp add: upd_order, rule times_ok_update) (auto simp: requeue_row_def intro!: stamped_mark)

lemma times_ok_exec_op:
  assumes inv: "queue_inv db" and times: "times_ok now db" and le: "now \<le> clock_timestamp e"
    and fresh: "op_fresh op db"
  shows "times_ok (clock_timestamp e) (exec_op e op db)"
proof -
  note mono = times_ok_mono [OF times le]
  show ?thesis
  proof (cases op)
    case (OEnqueue i task)
    show ?thesis unfolding OEnqueue exec_op.simps
      by (rule snd_result_cases)
         (use mono times le in \<open>auto dest: Inl_unchanged simp: Enqueue_Inr intro!: times_ok_enqueue\<close>)
  next
    case (ODequeue tok types)
    show ?thesis unfolding ODequeue exec_op.simps
      by (rule snd_result_cases)
         (use mono inv times le fresh ODequeue in \<open>auto dest: Inl_unchanged simp: dequeueMaybe_Inr intro: times_ok_dequeue\<close>)
  next
    case (OFinish i err)
    show ?thesis unfolding OFinish exec_op.simps
      by (rule snd_result_cases)
         (use mono inv times le in \<open>auto dest: Inl_unchanged simp: Finish_Inr intro: times_ok_finish\<close>)
  next
    case (OCancel i)
    show ?thesis unfolding OCancel exec_op.simps
      by (rule snd_result_cases) (use mono in \<open>auto dest: Inl_unchanged simp: CancelQ_Inr intro: times_ok_cancel\<close>)
  next
    case (ORequeue i)
    show ?thesis
      by (rule Requeue_cases [OF queue_invD(1) [OF inv], of e i])
         (use mono inv times le ORequeue in \<open>auto intro: times_ok_finish times_ok_requeue\<close>)
  next
    case (ORequeueFailed types)
    show ?thesis unfolding ORequeueFailed exec_op.simps
      by (rule snd_result_cases) (use mono times le in
          \<open>auto dest: Inl_unchanged simp: RequeueFailedTasks_Inr sqlNotify_def intro: times_ok_retry\<close>)
  next
    case (ORefresh tok)
    then show ?thesis
      using RefreshHeartbeat_cases [of e tok db] mono
      by (auto simp: sqlRefreshHeartbeat_def)
  next
    case (OUpdatePayload t p)
    have "times_ok (clock_timestamp e) (sqlUpdatePayload p (ti_Id t) db)"
      unfolding sqlUpdatePayload_def using mono by (rule times_ok_update) (auto simp: stamped_mark)
    note upd = this
    show ?thesis unfolding OUpdatePayload exec_op.simps
      by (rule snd_result_cases) (use mono upd in \<open>auto dest: run_tx_Inl simp: UpdatePayload_def\<close>)
  next
    case ORemoveAll
    show ?thesis unfolding ORemoveAll exec_op.simps
      by (rule snd_result_cases)
         (use mono in \<open>auto dest: run_tx_Inl simp: RemoveAllTasks_def sqlDeleteAllTasks_def times_ok_def\<close>)
  qed
qed

lemma reachable_inv_times: "reachable s \<Longrightarrow> queue_inv (snd s) \<and> times_ok (fst s) (snd s)"
proof (induction rule: reachable.induct)
  case reachable_init
  show ?case by (simp add: queue_inv_empty) (simp add: times_ok_def empty_db_def)
next
  case (reachable_step s s')
  then show ?case
    by (auto elim!: queue_step.cases intro: queue_inv_exec_op times_ok_exec_op)
qed

end
