(* ===== verification/Utils.thy ===== *)
theory Utils
  imports GoStrings "HOL-Library.List_Lexorder" "HOL-Library.Char_ord"
begin

text \<open>
  The generic helpers of \<open>pkg/utils\<close>: slices (\<open>utils.go\<close>), feature names
  (\<open>feature_names.go\<close>) and the locked map (\<open>concurrent_map.go\<close>). Go maps used as sets are
  lists of the keys inserted so far. \<open>slices.Sort\<close> on strings is \<open>sort\<close> for the
  lexicographic order of the bytes.
\<close>

section \<open>Slices\<close>

fun slices_equal_from :: "nat \<Rightarrow> 'a list \<Rightarrow> 'a list \<Rightarrow> bool" where
  "slices_equal_from 0 s1 s2 = True"
| "slices_equal_from (Suc n) s1 s2 = (if hd s1 \<noteq> hd s2 then False else slices_equal_from n (tl s1) (tl s2))"

definition SlicesEqual :: "'a list \<Rightarrow> 'a list \<Rightarrow> bool" where
  "SlicesEqual s1 s2 = (if length s1 \<noteq> length s2 then False else slices_equal_from (length s1) s1 s2)"

definition SubtractSlices :: "'a list \<Rightarrow> 'a list \<Rightarrow> 'a list" where
  "SubtractSlices s1 s2 = foldl (\<lambda>res elem. if elem \<notin> set s2 then res @ [elem] else res) [] s1"

fun at_indexes_from :: "nat \<Rightarrow> 'a list \<Rightarrow> 'a \<Rightarrow> nat list" where
  "at_indexes_from i [] v = []"
| "at_indexes_from i (s # elems) v = (if s = v then [i] else []) @ at_indexes_from (Suc i) elems v"

definition AtIndexes :: "'a list \<Rightarrow> 'a \<Rightarrow> nat list" where
  "AtIndexes elems v = at_indexes_from 0 elems v"

fun Contains :: "'a list \<Rightarrow> 'a \<Rightarrow> bool" where
  "Contains [] v = False"
| "Contains (s # elems) v = (if v = s then True else Contains elems v)"

fun ContainsAny :: "'a list \<Rightarrow> 'a list \<Rightarrow> bool" where
  "ContainsAny [] s2 = False"
| "ContainsAny (v1 # s1) s2 = (if Contains s2 v1 then True else ContainsAny s1 s2)"

fun AllStringsIn :: "string list \<Rightarrow> string list \<Rightarrow> bool" where
  "AllStringsIn [] l = True"
| "AllStringsIn (n # names) l = (if \<not> Contains l n then False else AllStringsIn names l)"

fun dedup_from :: "'a list \<Rightarrow> 'a list \<Rightarrow> 'a list" where
  "dedup_from seen [] = []"
| "dedup_from seen (x # xs) = (if x \<in> set seen then dedup_from seen xs else x # dedup_from (x # seen) xs)"

definition Deduplicate :: "'a list \<Rightarrow> 'a list" where
  "Deduplicate s = dedup_from [] s"

fun OptionalStringsEqual :: "string option \<Rightarrow> string option \<Rightarrow> bool" where
  "OptionalStringsEqual (Some l) (Some r) = (l = r)"
| "OptionalStringsEqual l r = (l = None \<and> r = None)"

section \<open>Feature names\<close>

fun parse_feature_parts :: "string list \<Rightarrow> string list \<Rightarrow> string list" where
  "parse_feature_parts seen [] = []"
| "parse_feature_parts seen (p # parts) =
     (let t = TrimSpace p in
      if t = [] then parse_feature_parts seen parts
      else if t \<in> set seen then parse_feature_parts seen parts
      else t # parse_feature_parts (t # seen) parts)"

definition ParseFeatures :: "string \<Rightarrow> string list" where
  "ParseFeatures featureNames =
     (if featureNames = [] then []
      else sort (parse_feature_parts [] (Split (ReplaceAll featureNames (CHR ''+'') (CHR '','')) (CHR '',''))))"

definition AnyFeatureMatch :: "string \<Rightarrow> string list \<Rightarrow> bool" where
  "AnyFeatureMatch featureNames l =
     (let names = ParseFeatures featureNames in
      if length names = 0 then True else list_ex (\<lambda>n. Contains l n) names)"

section \<open>ConcurrentMap\<close>

text \<open>Each operation holds the lock for its whole body, so it is one step on the map inside.\<close>

type_synonym ('k, 'v) ConcurrentMap = "('k \<times> 'v) list"

definition NewConcurrentMap :: "('k, 'v) ConcurrentMap" where
  "NewConcurrentMap = []"

definition cm_Set :: "'k \<Rightarrow> 'v \<Rightarrow> ('k, 'v) ConcurrentMap \<Rightarrow> ('k, 'v) ConcurrentMap" where
  "cm_Set key v m = (key, v) # filter (\<lambda>(k, _). k \<noteq> key) m"

definition cm_Get :: "'k \<Rightarrow> ('k, 'v) ConcurrentMap \<Rightarrow> 'v option" where
  "cm_Get key m = map_of m key"

definition cm_Remove :: "'k \<Rightarrow> ('k, 'v) ConcurrentMap \<Rightarrow> ('k, 'v) ConcurrentMap" where
  "cm_Remove key m = filter (\<lambda>(k, _). k \<noteq> key) m"

text \<open>What a client of a key-value map relies on; the laws are all the worker pool uses.\<close>

locale kv_map =
  fixes empty_map :: 'm
    and set_key :: "'k \<Rightarrow> 'v \<Rightarrow> 'm \<Rightarrow> 'm"
    and get_key :: "'k \<Rightarrow> 'm \<Rightarrow> 'v option"
    and remove_key :: "'k \<Rightarrow> 'm \<Rightarrow> 'm"
  assumes get_empty: "get_key k empty_map = None"
    and get_set: "get_key k (set_key k' v m) = (if k = k' then Some v else get_key k m)"
    and get_remove: "get_key k (remove_key k' m) = (if k = k' then None else get_key k m)"
begin

lemma set_then_remove: "get_key j (remove_key k (set_key k v m)) = get_key j (remove_key k m)"
  by (simp add: get_set get_remove)

lemma remove_other: "j \<noteq> k \<Longrightarrow> get_key j (remove_key k m) = get_key j m"
  by (simp add: get_remove)

lemma set_overwrites: "get_key j (set_key k v (set_key k u m)) = get_key j (set_key k v m)"
  by (simp add: get_set)

end

lemma map_of_filter_key: "map_of (filter (\<lambda>(k, _). k \<noteq> key) m) j = (if j = key then None else map_of m j)"
  by (induction m) auto

interpretation cmap: kv_map NewConcurrentMap cm_Set cm_Get cm_Remove
  by unfold_locales (auto simp: NewConcurrentMap_def cm_Set_def cm_Get_def cm_Remove_def map_of_filter_key)

section \<open>Reference meanings\<close>

lemma slices_equal_from: "length s1 = length s2 \<Longrightarrow> slices_equal_from (length s1) s1 s2 \<longleftrightarrow> s1 = s2"
proof (induction s1 arbitrary: s2)
  case (Cons x s1)
  then show ?case by (cases s2) auto
qed simp

lemma SlicesEqual_iff [simp]: "SlicesEqual s1 s2 \<longleftrightarrow> s1 = s2"
  using slices_equal_from [of s1 s2] by (auto simp: SlicesEqual_def)

lemma SubtractSlices_filter [simp]: "SubtractSlices s1 s2 = filter (\<lambda>x. x \<notin> set s2) s1"
proof -
  have "foldl (\<lambda>res elem. if elem \<notin> set s2 then res @ [elem] else res) acc s1 = acc @ filter (\<lambda>x. x \<notin> set s2) s1" for acc
    by (induction s1 arbitrary: acc) auto
  then show ?thesis by (simp add: SubtractSlices_def)
qed

lemma Contains_iff [simp]: "Contains elems v \<longleftrightarrow> v \<in> set elems"
  by (induction elems) auto

lemma ContainsAny_iff [simp]: "ContainsAny s1 s2 \<longleftrightarrow> set s1 \<inter> set s2 \<noteq> {}"
  by (induction s1) auto

lemma AllStringsIn_iff [simp]: "AllStringsIn names l \<longleftrightarrow> set names \<subseteq> set l"
  by (induction names) auto

lemma at_indexes_from_iff: "j \<in> set (at_indexes_from i elems v) \<longleftrightarrow> i \<le> j \<and> j - i < length elems \<and> elems ! (j - i) = v"
proof (induction elems arbitrary: i)
  case (Cons s elems)
  show ?case
  proof (cases "j = i")
    case False
    then show ?thesis using Cons [of "Suc i"] by (auto simp: nth_Cons split: nat.splits) (metis Suc_diff_le Suc_le_eq diff_Suc_Suc le_neq_implies_less nat.inject)+
  qed (use Cons [of "Suc i"] in auto)
qed simp

lemma set_dedup_from: "set (dedup_from seen xs) = set xs - set seen"
  by (induction seen xs rule: dedup_from.induct) auto

lemma distinct_dedup_from: "distinct (dedup_from seen xs)"
  by (induction seen xs rule: dedup_from.induct) (auto simp: set_dedup_from)

lemma set_Deduplicate [simp]: "set (Deduplicate xs) = set xs"
  by (simp add: Deduplicate_def set_dedup_from)

lemma distinct_Deduplicate [simp]: "distinct (Deduplicate xs)"
  by (simp add: Deduplicate_def distinct_dedup_from)

lemma dedup_from_distinct: "distinct xs \<Longrightarrow> set xs \<inter> set seen = {} \<Longrightarrow> dedup_from seen xs = xs"
  by (induction seen xs rule: dedup_from.induct) auto

lemma Deduplicate_idem [simp]: "Deduplicate (Deduplicate xs) = Deduplicate xs"
  using dedup_from_distinct [of "Deduplicate xs" "[]"] by (simp add: Deduplicate_def [of "Deduplicate xs"])

lemma parse_feature_parts_set:
  "set (parse_feature_parts seen parts) = TrimSpace ` set parts - {[]} - set seen"
  by (induction seen parts rule: parse_feature_parts.induct) (auto simp: Let_def)

lemma parse_feature_parts_distinct: "distinct (parse_feature_parts seen parts)"
  by (induction seen parts rule: parse_feature_parts.induct) (auto simp: Let_def parse_feature_parts_set)

lemma ParseFeatures_sorted_distinct: "sorted (ParseFeatures s) \<and> distinct (ParseFeatures s) \<and> [] \<notin> set (ParseFeatures s)"
  by (auto simp: ParseFeatures_def parse_feature_parts_distinct parse_feature_parts_set)

end
