(* ===== verification/Worker.thy ===== *)
theory Worker
  imports TaskQueueInv Utils
begin

text \<open>
  The worker pool, \<open>pkg/tasks/worker\<close>, and the task client, \<open>pkg/tasks/client\<close>.

  Workers see the queue through the interface \<open>queue.Queue\<close>: a record of operations on a
  queue state, an argument of every definition here. A worker has its channels (counts of the
  values they hold), its \<open>runningTask\<close>, the goroutine that processes a task, and whether its
  heartbeat timer is armed. The contexts of the tasks are numbered; canceling a context keeps
  the first cause. A handler maps the task and the queue state to an outcome and a state: it
  returns an error or nil, or it panics with a value that is an error or is not.
\<close>

section \<open>State\<close>

record 's queue_ops =
  q_Enqueue :: "Task \<Rightarrow> 's \<Rightarrow> (go_error + uuid) \<times> 's"
  q_Dequeue :: "string list \<Rightarrow> 's \<Rightarrow> ((go_error + TaskInfo \<times> uuid list) \<times> 's) option"
  q_Status :: "uuid \<Rightarrow> 's \<Rightarrow> go_error + TaskInfo \<times> uuid list"
  q_Finish :: "uuid \<Rightarrow> go_error option \<Rightarrow> 's \<Rightarrow> (go_error + unit) \<times> 's"
  q_Cancel :: "uuid \<Rightarrow> 's \<Rightarrow> (go_error + unit) \<times> 's"
  q_Requeue :: "uuid \<Rightarrow> 's \<Rightarrow> (go_error + unit) \<times> 's"
  q_RequeueFailedTasks :: "string list \<Rightarrow> 's \<Rightarrow> (go_error + unit) \<times> 's"
  q_Heartbeats :: "int \<Rightarrow> 's \<Rightarrow> uuid list"
  q_IdFromToken :: "uuid \<Rightarrow> 's \<Rightarrow> uuid \<times> bool \<times> go_error option"
  q_RefreshHeartbeat :: "uuid \<Rightarrow> 's \<Rightarrow> (go_error + unit) \<times> 's"

datatype outcome = Returned "go_error option" | Panicked "go_error option"

type_synonym 's TaskHandler = "TaskInfo \<Rightarrow> 's \<Rightarrow> outcome \<times> 's"

record runningTask =
  rt_id :: uuid
  rt_token :: uuid
  rt_typename :: string
  rt_requestID :: string
  rt_taskCancelFunc :: "nat option"
  rt_cancelled :: bool

record worker =
  w_taskTypes :: "string list"
  w_ready :: nat
  w_stopping :: nat
  w_running :: runningTask
  w_processing :: "TaskInfo option"
  w_beat_armed :: bool
  w_exited :: bool

record 's pool =
  p_queue :: 's
  p_workers :: "worker list"
  p_workerMap :: "(uuid, nat) ConcurrentMap"
  p_canceled :: "(nat, go_error) ConcurrentMap"
  p_next_ctx :: nat
  p_results :: "bool list"
  p_crashed :: bool

definition setTaskInfo :: "TaskInfo \<Rightarrow> runningTask \<Rightarrow> runningTask" where
  "setTaskInfo info t = t\<lparr>rt_id := ti_Id info,
     rt_token := (case ti_Token info of None \<Rightarrow> uuid_Nil | Some tok \<Rightarrow> tok),
     rt_typename := ti_Typename info, rt_requestID := ti_RequestID info\<rparr>"

definition clear :: "runningTask \<Rightarrow> runningTask" where
  "clear t = t\<lparr>rt_id := uuid_Nil, rt_token := uuid_Nil, rt_typename := [], rt_requestID := [],
     rt_cancelled := False\<rparr>"

definition newWorker :: "string list \<Rightarrow> worker" where
  "newWorker taskTypes = \<lparr>w_taskTypes = taskTypes, w_ready = 0, w_stopping = 0,
     w_running = \<lparr>rt_id = uuid_Nil, rt_token = uuid_Nil, rt_typename = [], rt_requestID = [],
       rt_taskCancelFunc = None, rt_cancelled = False\<rparr>,
     w_processing = None, w_beat_armed = False, w_exited = False\<rparr>"

section \<open>Operations on the pool's state\<close>

definition get_worker :: "nat \<Rightarrow> 's pool \<Rightarrow> worker" where
  "get_worker w p = p_workers p ! w"

definition upd_worker :: "nat \<Rightarrow> (worker \<Rightarrow> worker) \<Rightarrow> 's pool \<Rightarrow> 's pool" where
  "upd_worker w f p = p\<lparr>p_workers := (p_workers p)[w := f (p_workers p ! w)]\<rparr>"

text \<open>\<open>taskCancelFunc(cause)\<close>: the first cancellation of a context stays.\<close>

definition cancel_ctx :: "nat option \<Rightarrow> go_error \<Rightarrow> 's pool \<Rightarrow> 's pool" where
  "cancel_ctx c cause p = (case c of None \<Rightarrow> p
     | Some i \<Rightarrow> if cm_Get i (p_canceled p) = None then p\<lparr>p_canceled := cm_Set i cause (p_canceled p)\<rparr> else p)"

definition send_ready :: "worker \<Rightarrow> worker" where
  "send_ready w = w\<lparr>w_ready := Suc (w_ready w)\<rparr>"

definition clear_running :: "worker \<Rightarrow> worker" where
  "clear_running w = w\<lparr>w_running := clear (w_running w)\<rparr>"

definition recordMessageResult :: "bool \<Rightarrow> 's pool \<Rightarrow> 's pool" where
  "recordMessageResult res p = p\<lparr>p_results := p_results p @ [res]\<rparr>"

text \<open>The end of the goroutine that processes the worker's task.\<close>

definition end_process :: "worker \<Rightarrow> worker" where
  "end_process w = w\<lparr>w_processing := None\<rparr>"

section \<open>The worker\<close>

definition requeue :: "'s queue_ops \<Rightarrow> uuid \<Rightarrow> 's \<Rightarrow> (go_error + unit) \<times> 's" where
  "requeue Q i s = (case q_Requeue Q i s of
      (Inl err, s') \<Rightarrow> if errors_Is err ErrMaxRetriesExceeded then (Inr (), s') else (Inl err, s')
    | (Inr u, s') \<Rightarrow> (Inr (), s'))"

text \<open>
  \<open>recoverOnPanic\<close> with the panic value \<open>r\<close>: the error value is nil when \<open>r\<close> is not an error;
  when \<open>Finish\<close> fails then, logging calls \<open>Error\<close> on nil and the program crashes. The identity
  removed from the worker map is read after \<open>clear\<close>.
\<close>

definition recoverOnPanic :: "'s queue_ops \<Rightarrow> nat \<Rightarrow> go_error option \<Rightarrow> 's pool \<Rightarrow> 's pool" where
  "recoverOnPanic Q w err p =
     (let rt = w_running (get_worker w p) in
      case q_Finish Q (rt_id rt) err (p_queue p) of (tErr, s) \<Rightarrow>
        (let p1 = p\<lparr>p_queue := s\<rparr> in
         if err = None \<and> isl tErr then p1\<lparr>p_crashed := True\<rparr>
         else
           (let p2 = cancel_ctx (rt_taskCancelFunc rt) ErrNotRunning p1;
                p3 = upd_worker w clear_running p2;
                p4 = p3\<lparr>p_workerMap := cm_Remove (rt_id (w_running (get_worker w p3))) (p_workerMap p3)\<rparr>
            in upd_worker w send_ready p4)))"

definition isCanceledErr :: "go_error option \<Rightarrow> bool" where
  "isCanceledErr handlerErr = (case handlerErr of None \<Rightarrow> False
     | Some err \<Rightarrow> errors_Is err Context_Canceled \<or> errors_Is err ErrTaskCanceled \<or> errors_Is err Sql_ErrTxDone)"

definition process :: "'s queue_ops \<Rightarrow> (string \<Rightarrow> 's TaskHandler option) \<Rightarrow> nat \<Rightarrow> TaskInfo \<Rightarrow> 's pool \<Rightarrow> 's pool" where
  "process Q handlers w taskInfo p =
     upd_worker w end_process
     (case handlers (ti_Typename taskInfo) of
        None \<Rightarrow>
          (let p1 = upd_worker w clear_running p;
               p2 = p1\<lparr>p_workerMap := cm_Remove (ti_Id taskInfo) (p_workerMap p1)\<rparr>;
               p3 = cancel_ctx (rt_taskCancelFunc (w_running (get_worker w p2))) ErrNotRunning p2
           in upd_worker w send_ready p3)
      | Some handler \<Rightarrow>
          (case handler taskInfo (p_queue p) of
             (Panicked err, s) \<Rightarrow> recoverOnPanic Q w err (p\<lparr>p_queue := s\<rparr>)
           | (Returned handlerErr, s) \<Rightarrow>
               (let p0 = p\<lparr>p_queue := s\<rparr>; ctx = rt_taskCancelFunc (w_running (get_worker w p0)) in
                if (case handlerErr of None \<Rightarrow> False | Some err \<Rightarrow> errors_Is err ErrServerExited)
                then cancel_ctx ctx ErrNotRunning p0
                else if isCanceledErr handlerErr then
                  (let p1 = recordMessageResult True p0;
                       p2 = cancel_ctx ctx ErrNotRunning p1;
                       p3 = upd_worker w clear_running p2;
                       p4 = p3\<lparr>p_workerMap := cm_Remove (ti_Id taskInfo) (p_workerMap p3)\<rparr>
                   in upd_worker w send_ready p4)
                else
                  (let p1 = p0\<lparr>p_queue := snd (q_Finish Q (ti_Id taskInfo) handlerErr (p_queue p0))\<rparr>;
                       p2 = recordMessageResult (handlerErr = None) p1;
                       p3 = upd_worker w clear_running p2;
                       p4 = p3\<lparr>p_workerMap := cm_Remove (ti_Id taskInfo) (p_workerMap p3)\<rparr>;
                       p5 = cancel_ctx ctx ErrNotRunning p4
                   in upd_worker w send_ready p5))))"

text \<open>
  \<open>dequeue\<close> of the worker: on an error other than the canceled context the worker makes itself
  ready again.
\<close>

definition dequeue :: "nat \<Rightarrow> (go_error + TaskInfo \<times> uuid list) \<Rightarrow> 's pool \<Rightarrow> (go_error + TaskInfo) \<times> 's pool" where
  "dequeue w result p = (case result of
      Inl err \<Rightarrow> if err = ErrContextCanceled then (Inl err, p) else (Inl err, upd_worker w send_ready p)
    | Inr (info, _) \<Rightarrow> (Inr info, upd_worker w (\<lambda>wk. wk\<lparr>w_running := setTaskInfo info (w_running wk)\<rparr>) p))"

text \<open>The cases of the select in \<open>start\<close>: a stop request, a ready value, the heartbeat timer.\<close>

definition on_stop :: "'s queue_ops \<Rightarrow> nat \<Rightarrow> 's pool \<Rightarrow> 's pool" where
  "on_stop Q w p =
     (let p1 = upd_worker w (\<lambda>wk. wk\<lparr>w_stopping := w_stopping wk - 1\<rparr>) p;
          i = rt_id (w_running (get_worker w p1));
          p2 = (if i \<noteq> uuid_Nil then p1\<lparr>p_queue := snd (requeue Q i (p_queue p1))\<rparr> else p1)
      in upd_worker w (\<lambda>wk. wk\<lparr>w_exited := True, w_beat_armed := False\<rparr>) p2)"

definition on_ready :: "'s queue_ops \<Rightarrow> nat \<Rightarrow> 's pool \<Rightarrow> 's pool option" where
  "on_ready Q w p =
     (let c = p_next_ctx p;
          p1 = upd_worker w (\<lambda>wk. wk\<lparr>w_ready := w_ready wk - 1,
                 w_running := (w_running wk)\<lparr>rt_taskCancelFunc := Some c\<rparr>\<rparr>) (p\<lparr>p_next_ctx := Suc c\<rparr>)
      in (case q_Dequeue Q (w_taskTypes (get_worker w p1)) (p_queue p1) of
            None \<Rightarrow> None
          | Some (result, s) \<Rightarrow>
              (case dequeue w result (p1\<lparr>p_queue := s\<rparr>) of
                 (Inl err, p2) \<Rightarrow> Some p2
               | (Inr info, p2) \<Rightarrow>
                   Some (upd_worker w (\<lambda>wk. wk\<lparr>w_processing := Some info\<rparr>)
                     (p2\<lparr>p_workerMap := cm_Set (ti_Id info) w (p_workerMap p2)\<rparr>)))))"

definition on_beat :: "'s queue_ops \<Rightarrow> nat \<Rightarrow> 's pool \<Rightarrow> 's pool" where
  "on_beat Q w p =
     (let p1 = upd_worker w (\<lambda>wk. wk\<lparr>w_beat_armed := False\<rparr>) p;
          tok = rt_token (w_running (get_worker w p1));
          reset = upd_worker w (\<lambda>wk. wk\<lparr>w_beat_armed := True\<rparr>) in
      if tok \<noteq> uuid_Nil then
        (case q_RefreshHeartbeat Q tok (p_queue p1) of
           (Inl err, s) \<Rightarrow> if err = ErrRowsNotAffected then p1\<lparr>p_queue := s\<rparr> else reset (p1\<lparr>p_queue := s\<rparr>)
         | (Inr _, s) \<Rightarrow> reset (p1\<lparr>p_queue := s\<rparr>))
      else reset p1)"

text \<open>\<open>start\<close> up to its loop.\<close>

definition start_worker :: "nat \<Rightarrow> 's pool \<Rightarrow> 's pool" where
  "start_worker w p = upd_worker w (\<lambda>wk. (send_ready wk)\<lparr>w_beat_armed := True\<rparr>) p"

definition stop_worker :: "worker \<Rightarrow> worker" where
  "stop_worker w = w\<lparr>w_stopping := Suc (w_stopping w)\<rparr>"

section \<open>The pool\<close>

text \<open>One tick of \<open>HeartbeatListener\<close>: every token whose heartbeat is too old.\<close>

fun requeue_tokens :: "'s queue_ops \<Rightarrow> uuid list \<Rightarrow> 's \<Rightarrow> 's" where
  "requeue_tokens Q [] s = s"
| "requeue_tokens Q (tok # toks) s =
     (case q_IdFromToken Q tok s of
        (i, isRunning, _) \<Rightarrow>
          requeue_tokens Q toks (if isRunning then snd (q_Requeue Q i s) else s))"

definition HeartbeatListener_tick :: "'s queue_ops \<Rightarrow> int \<Rightarrow> 's \<Rightarrow> 's" where
  "HeartbeatListener_tick Q beat s = requeue_tokens Q (q_Heartbeats Q beat s) s"

definition RequeueFailedTasks_tick :: "'s queue_ops \<Rightarrow> 's \<Rightarrow> 's" where
  "RequeueFailedTasks_tick Q s = snd (q_RequeueFailedTasks Q RequeueableTasks s)"

text \<open>A notification of \<open>ListenForCancelledTasks\<close>.\<close>

definition on_cancel_note :: "uuid \<Rightarrow> 's pool \<Rightarrow> 's pool" where
  "on_cancel_note taskToCancel p =
     (case cm_Get taskToCancel (p_workerMap p) of
        None \<Rightarrow> p
      | Some w \<Rightarrow> cancel_ctx (rt_taskCancelFunc (w_running (get_worker w p))) ErrTaskCanceled p)"

definition StartWorkers :: "nat \<Rightarrow> string list \<Rightarrow> 's pool \<Rightarrow> 's pool" where
  "StartWorkers workerCount taskTypes p =
     foldl (\<lambda>p _. start_worker (length (p_workers p)) (p\<lparr>p_workers := p_workers p @ [newWorker taskTypes]\<rparr>))
       p [0..<workerCount]"

definition RegisterHandler ::
  "string \<Rightarrow> 's TaskHandler \<Rightarrow> (string \<Rightarrow> 's TaskHandler option) \<times> string list \<Rightarrow>
   (string \<Rightarrow> 's TaskHandler option) \<times> string list" where
  "RegisterHandler taskType handler hs = (case hs of (handlers, taskTypes) \<Rightarrow>
     (handlers(taskType \<mapsto> handler),
      if \<not> Contains taskTypes taskType then taskTypes @ [taskType] else taskTypes))"

definition StopPool :: "'s pool \<Rightarrow> 's pool" where
  "StopPool p = p\<lparr>p_workers := map stop_worker (p_workers p)\<rparr>"

section \<open>The task client\<close>

definition Client_Enqueue :: "'s queue_ops \<Rightarrow> Task \<Rightarrow> 's \<Rightarrow> (uuid \<times> go_error option) \<times> 's" where
  "Client_Enqueue Q task s = (case q_Enqueue Q task s of
      (Inl err, s') \<Rightarrow> ((uuid_Nil, Some err), s') | (Inr i, s') \<Rightarrow> ((i, None), s'))"

definition Client_Cancel :: "(string \<Rightarrow> go_error + uuid) \<Rightarrow> 's queue_ops \<Rightarrow> string \<Rightarrow> 's \<Rightarrow> (go_error + unit) \<times> 's" where
  "Client_Cancel uuid_Parse Q taskId s =
     (case uuid_Parse taskId of
        Inl err \<Rightarrow> (Inl err, s)
      | Inr taskUUID \<Rightarrow>
          (case q_Status Q taskUUID s of
             Inl err \<Rightarrow> (Inl err, s)
           | Inr (task, _) \<Rightarrow>
               if ti_Typename task \<notin> set CancellableTasks then (Inl ErrNotCancellable, s)
               else (case q_Cancel Q taskUUID s of
                   (Inl err, s') \<Rightarrow> (Inl err, s') | (Inr _, s') \<Rightarrow> (Inr (), s'))))"

section \<open>PgQueue as a Queue\<close>

text \<open>
  The queue interface on the PostgreSQL queue, for one environment, the id the next \<open>Enqueue\<close>
  and the token the next \<open>Dequeue\<close> generates. A \<open>Dequeue\<close> that finds nothing keeps waiting.
\<close>

definition pg_queue :: "qenv \<Rightarrow> uuid \<Rightarrow> uuid \<Rightarrow> queue_db queue_ops" where
  "pg_queue e newId token =
     \<lparr>q_Enqueue = Enqueue e newId, q_Dequeue = (\<lambda>types. Dequeue e token types []),
      q_Status = (\<lambda>i s. fst (StatusQ e i s)), q_Finish = Finish e, q_Cancel = CancelQ e, q_Requeue = Requeue e,
      q_RequeueFailedTasks = RequeueFailedTasks e, q_Heartbeats = Heartbeats e, q_IdFromToken = IdFromToken e,
      q_RefreshHeartbeat = RefreshHeartbeat e id id\<rparr>"

definition task_status_of :: "queue_db \<Rightarrow> uuid \<Rightarrow> task_status option" where
  "task_status_of db i = Option.bind (lookup_row ti_Id i (tasks db)) ti_Status"

section \<open>Steps of the pool\<close>

definition live :: "nat \<Rightarrow> 's pool \<Rightarrow> bool" where
  "live w p \<longleftrightarrow> w < length (p_workers p) \<and> \<not> w_exited (get_worker w p) \<and> \<not> p_crashed p"

inductive pool_step :: "'s pool \<Rightarrow> 's pool \<Rightarrow> bool" where
  step_stop: "live w p \<Longrightarrow> 0 < w_stopping (get_worker w p) \<Longrightarrow> pool_step p (on_stop Q w p)"
| step_ready: "live w p \<Longrightarrow> 0 < w_ready (get_worker w p) \<Longrightarrow> on_ready Q w p = Some p' \<Longrightarrow> pool_step p p'"
| step_beat: "live w p \<Longrightarrow> w_beat_armed (get_worker w p) \<Longrightarrow> pool_step p (on_beat Q w p)"
| step_process: "w < length (p_workers p) \<Longrightarrow> \<not> p_crashed p \<Longrightarrow> w_processing (get_worker w p) = Some info \<Longrightarrow>
    pool_step p (process Q handlers w info p)"
| step_cancel: "pool_step p (on_cancel_note i p)"
| step_shutdown: "pool_step p (StopPool p)"
| step_queue: "pool_step p (p\<lparr>p_queue := s\<rparr>)"

inductive pool_run :: "nat \<Rightarrow> string list \<Rightarrow> 's \<Rightarrow> 's pool \<Rightarrow> bool" for n types s where
  pool_init: "pool_run n types s (StartWorkers n types \<lparr>p_queue = s, p_workers = [],
    p_workerMap = NewConcurrentMap, p_canceled = NewConcurrentMap, p_next_ctx = 0, p_results = [], p_crashed = False\<rparr>)"
| pool_step: "pool_run n types s p \<Longrightarrow> pool_step p p' \<Longrightarrow> pool_run n types s p'"

text \<open>A worker is ready at most once, never while it processes a task, and its record of the
  running task is the task its goroutine processes.\<close>

definition worker_ok :: "worker \<Rightarrow> bool" where
  "worker_ok wk \<longleftrightarrow> w_ready wk \<le> 1 \<and>
     (case w_processing wk of None \<Rightarrow> True | Some info \<Rightarrow> w_ready wk = 0 \<and> rt_id (w_running wk) = ti_Id info)"

definition pool_ok :: "'s pool \<Rightarrow> bool" where
  "pool_ok p \<longleftrightarrow> (\<forall>w < length (p_workers p). worker_ok (get_worker w p))"

lemma p_workers_simps [simp]:
  "p_workers (cancel_ctx c cause p) = p_workers p"
  "p_queue (cancel_ctx c cause p) = p_queue p"
  "p_crashed (cancel_ctx c cause p) = p_crashed p"
  "p_workerMap (cancel_ctx c cause p) = p_workerMap p"
  "p_workers (recordMessageResult b p) = p_workers p"
  "p_queue (recordMessageResult b p) = p_queue p"
  "p_workerMap (recordMessageResult b p) = p_workerMap p"
  "p_crashed (recordMessageResult b p) = p_crashed p"
  by (simp_all add: cancel_ctx_def recordMessageResult_def split: option.splits)

lemma upd_worker_simps [simp]:
  "p_workers (upd_worker w f p) = (p_workers p)[w := f (p_workers p ! w)]"
  "p_queue (upd_worker w f p) = p_queue p"
  "p_workerMap (upd_worker w f p) = p_workerMap p"
  "p_canceled (upd_worker w f p) = p_canceled p"
  "p_crashed (upd_worker w f p) = p_crashed p"
  by (simp_all add: upd_worker_def)

lemma pool_ok_upd: "pool_ok p \<Longrightarrow> p_workers p' = (p_workers p)[w := wk] \<Longrightarrow> worker_ok wk \<Longrightarrow> pool_ok p'"
  unfolding pool_ok_def get_worker_def by (metis length_list_update nth_list_update_eq nth_list_update_neq)

lemma pool_ok_workers: "pool_ok p \<Longrightarrow> p_workers p' = p_workers p \<Longrightarrow> pool_ok p'"
  by (simp add: pool_ok_def get_worker_def)

lemma pool_okD: "pool_ok p \<Longrightarrow> w < length (p_workers p) \<Longrightarrow> worker_ok (p_workers p ! w)"
  by (simp add: pool_ok_def get_worker_def)

lemmas worker_defs = send_ready_def clear_running_def end_process_def clear_def setTaskInfo_def stop_worker_def

lemma process_workers:
  assumes "w < length (p_workers p)"
  shows "\<exists>wk. p_workers (process Q handlers w info p) = (p_workers p)[w := wk] \<and> w_processing wk = None \<and>
    w_ready wk \<le> Suc (w_ready (p_workers p ! w))"
proof (cases "handlers (ti_Typename info)")
  case None
  then show ?thesis using assms by (auto simp: process_def Let_def worker_defs intro!: exI)
next
  case (Some h)
  obtain out s where h: "h info (p_queue p) = (out, s)" by fastforce
  show ?thesis
  proof (cases out)
    case (Returned err)
    with Some h assms show ?thesis
      by (auto simp: process_def Let_def worker_defs intro!: exI)
  next
    case (Panicked err)
    obtain t s' where "q_Finish Q (rt_id (w_running (p_workers p ! w))) err s = (t, s')" by fastforce
    with Panicked Some h assms show ?thesis
      by (auto simp: process_def recoverOnPanic_def get_worker_def Let_def worker_defs intro!: exI)
  qed
qed

lemma process_ok:
  assumes ok: "pool_ok p" and w: "w < length (p_workers p)" and proc: "w_processing (get_worker w p) = Some info"
  shows "pool_ok (process Q handlers w info p)"
proof -
  obtain wk where wk: "p_workers (process Q handlers w info p) = (p_workers p)[w := wk]" "w_processing wk = None"
      "w_ready wk \<le> Suc (w_ready (p_workers p ! w))" using process_workers [OF w] by blast
  have "w_ready (p_workers p ! w) = 0" using pool_okD [OF ok w] proc by (auto simp: worker_ok_def get_worker_def)
  with wk(2,3) have "worker_ok wk" by (simp add: worker_ok_def)
  then show ?thesis by (rule pool_ok_upd [OF ok wk(1)])
qed

lemma on_stop_ok: "pool_ok p \<Longrightarrow> w < length (p_workers p) \<Longrightarrow> pool_ok (on_stop Q w p)"
  by (rule pool_ok_upd [of p _ w "(p_workers p ! w)\<lparr>w_stopping := w_stopping (p_workers p ! w) - 1,
         w_exited := True, w_beat_armed := False\<rparr>"])
     (auto simp: on_stop_def Let_def worker_ok_def dest!: pool_okD split: option.splits)

lemma on_beat_ok:
  assumes ok: "pool_ok p" and w: "w < length (p_workers p)"
  shows "pool_ok (on_beat Q w p)"
proof -
  obtain b where "p_workers (on_beat Q w p) = (p_workers p)[w := (p_workers p ! w)\<lparr>w_beat_armed := b\<rparr>]"
  proof -
    have "\<exists>b. p_workers (on_beat Q w p) = (p_workers p)[w := (p_workers p ! w)\<lparr>w_beat_armed := b\<rparr>]"
      using w by (auto simp: on_beat_def Let_def split: prod.splits sum.splits)
    then show ?thesis using that by blast
  qed
  moreover have "worker_ok ((p_workers p ! w)\<lparr>w_beat_armed := b\<rparr>)"
    using pool_okD [OF ok w] by (simp add: worker_ok_def split: option.splits)
  ultimately show ?thesis using pool_ok_upd [OF ok] by blast
qed

lemma on_ready_ok:
  assumes ok: "pool_ok p" and w: "w < length (p_workers p)" and ready: "0 < w_ready (get_worker w p)"
    and run: "on_ready Q w p = Some p'"
  shows "pool_ok p'"
proof -
  let ?wk = "p_workers p ! w"
  let ?w1 = "?wk\<lparr>w_ready := w_ready ?wk - 1, w_running := (w_running ?wk)\<lparr>rt_taskCancelFunc := Some (p_next_ctx p)\<rparr>\<rparr>"
  have r: "w_ready ?wk = 1" "w_processing ?wk = None"
    using pool_okD [OF ok w] ready by (auto simp: worker_ok_def get_worker_def split: option.splits)
  have "\<exists>wk. p_workers p' = (p_workers p)[w := wk] \<and> worker_ok wk"
    using run w r
    by (auto simp: on_ready_def Let_def dequeue_def worker_defs worker_ok_def
        split: option.splits prod.splits sum.splits if_splits)
  then show ?thesis using pool_ok_upd [OF ok] by blast
qed

lemma StartWorkers_ok: "pool_ok p \<Longrightarrow> pool_ok (StartWorkers n types p)"
proof (induction n)
  case (Suc n)
  then have "pool_ok (StartWorkers n types p)" by simp
  then show ?case
    by (auto simp: StartWorkers_def pool_ok_def get_worker_def start_worker_def nth_append nth_list_update
        worker_ok_def newWorker_def send_ready_def)
qed (simp add: StartWorkers_def)

lemma pool_step_ok: "pool_step p p' \<Longrightarrow> pool_ok p \<Longrightarrow> pool_ok p'"
proof (induction rule: pool_step.induct)
  case (step_cancel p i)
  then show ?case by (auto simp: on_cancel_note_def split: option.splits intro: pool_ok_workers)
next
  case (step_shutdown p)
  then show ?case by (auto simp: StopPool_def pool_ok_def get_worker_def worker_ok_def stop_worker_def
      split: option.splits)
qed (auto simp: live_def intro: on_stop_ok on_beat_ok on_ready_ok process_ok pool_ok_workers)

lemma pool_run_ok: "pool_run n types s p \<Longrightarrow> pool_ok p"
proof (induction rule: pool_run.induct)
  case pool_init
  show ?case by (rule StartWorkers_ok) (simp add: pool_ok_def)
qed (rule pool_step_ok)

section \<open>What the worker relies on\<close>

text \<open>
  The contract of the interface \<open>queue.Queue\<close> towards the worker pool and the client: what each
  operation keeps, and what the status of a task is after it.
\<close>

locale task_queue =
  fixes Q :: "'s queue_ops" and inv :: "'s \<Rightarrow> bool" and status :: "'s \<Rightarrow> uuid \<Rightarrow> task_status option"
  assumes finish_inv: "inv s \<Longrightarrow> inv (snd (q_Finish Q i err s))"
    and requeue_inv: "inv s \<Longrightarrow> inv (snd (q_Requeue Q i s))"
    and retry_inv: "inv s \<Longrightarrow> inv (snd (q_RequeueFailedTasks Q types s))"
    and refresh_inv: "inv s \<Longrightarrow> inv (snd (q_RefreshHeartbeat Q tok s))"
    and cancel_inv: "inv s \<Longrightarrow> inv (snd (q_Cancel Q i s))"
    and dequeue_inv: "inv s \<Longrightarrow> q_Dequeue Q types s = Some (r, s') \<Longrightarrow> inv s'"
    and finish_status: "inv s \<Longrightarrow> q_Finish Q i err s = (Inr (), s') \<Longrightarrow>
      status s' i = Some (case err of None \<Rightarrow> Completed | Some _ \<Rightarrow> Failed)"
    and finish_failed: "inv s \<Longrightarrow> q_Finish Q i err s = (Inl x, s') \<Longrightarrow> s' = s"
    and requeue_status: "inv s \<Longrightarrow> q_Requeue Q i s = (Inr (), s') \<Longrightarrow> status s' i = Some Pending"
    and requeue_max: "inv s \<Longrightarrow> q_Requeue Q i s = (Inl x, s') \<Longrightarrow> s' = s \<or> status s' i = Some Failed"
    and cancel_status: "inv s \<Longrightarrow> q_Cancel Q i s = (Inr (), s') \<Longrightarrow> status s' i \<notin> {Some Running, Some Pending}"
    and dequeue_status: "inv s \<Longrightarrow> q_Dequeue Q types s = Some (Inr (info, deps), s') \<Longrightarrow>
      status s (ti_Id info) = Some Pending \<and> status s' (ti_Id info) = Some Running \<and> ti_Typename info \<in> set types"
begin

lemma requeue_keeps: "inv s \<Longrightarrow> inv (snd (requeue Q i s))"
  using requeue_inv [of s i] by (auto simp: requeue_def split: prod.splits sum.splits)

lemma requeue_tokens_keeps: "inv s \<Longrightarrow> inv (requeue_tokens Q toks s)"
proof (induction toks arbitrary: s)
  case (Cons tok toks)
  then show ?case using requeue_inv by (auto split: prod.splits)
qed simp

lemma heartbeat_tick_keeps: "inv s \<Longrightarrow> inv (HeartbeatListener_tick Q beat s)"
  by (simp add: HeartbeatListener_tick_def requeue_tokens_keeps)

lemma retry_tick_keeps: "inv s \<Longrightarrow> inv (RequeueFailedTasks_tick Q s)"
  by (simp add: RequeueFailedTasks_tick_def retry_inv)

lemma recover_keeps: "inv (p_queue p) \<Longrightarrow> inv (p_queue (recoverOnPanic Q w err p))"
  using finish_inv [of "p_queue p" "rt_id (w_running (get_worker w p))" err]
  by (auto simp: recoverOnPanic_def Let_def split: prod.splits)

lemma process_keeps:
  assumes "inv (p_queue p)" "\<And>h out s'. handlers (ti_Typename info) = Some h \<Longrightarrow> h info (p_queue p) = (out, s') \<Longrightarrow> inv s'"
  shows "inv (p_queue (process Q handlers w info p))"
  using assms finish_inv recover_keeps [of "p\<lparr>p_queue := _\<rparr>"]
  by (auto simp: process_def Let_def split: option.splits prod.splits outcome.splits)

lemma process_returned:
  assumes "inv s" "handlers (ti_Typename info) = Some h" "h info (p_queue p) = (Returned err, s)"
    and "\<not> isCanceledErr err" "\<forall>x. err = Some x \<longrightarrow> \<not> errors_Is x ErrServerExited"
    and "q_Finish Q (ti_Id info) err s = (Inr (), s')"
  shows "status (p_queue (process Q handlers w info p)) (ti_Id info) =
      Some (case err of None \<Rightarrow> Completed | Some _ \<Rightarrow> Failed)"
    and "p_queue (process Q handlers w info p) = s'"
proof -
  show "p_queue (process Q handlers w info p) = s'"
    using assms(2-6) by (cases err) (simp_all add: process_def Let_def)
  then show "status (p_queue (process Q handlers w info p)) (ti_Id info) =
      Some (case err of None \<Rightarrow> Completed | Some _ \<Rightarrow> Failed)"
    using finish_status [OF assms(1,6)] by simp
qed

lemma process_panicked:
  assumes "inv s" "handlers (ti_Typename info) = Some h" "h info (p_queue p) = (Panicked err, s)"
    and "rt_id (w_running (get_worker w p)) = ti_Id info"
    and "q_Finish Q (ti_Id info) err s = (Inr (), s')"
  shows "status (p_queue (process Q handlers w info p)) (ti_Id info) =
      Some (case err of None \<Rightarrow> Completed | Some _ \<Rightarrow> Failed)"
  using assms finish_status [OF assms(1,5)]
  by (simp add: process_def recoverOnPanic_def Let_def get_worker_def)

end

end
