(* ===== verification/TaskMachine.thy ===== *)
theory TaskMachine
  imports TaskQueueInv
begin

text \<open>
  The abstract specification of the queue: the life of one task. \<open>row_step\<close> lists the changes
  a method may make to a row, with the condition the code must have checked; the simulation
  lemma says that every method of \<open>PgQueue\<close>, on every path, changes each row of the table by
  one of these steps, adds rows only when a task is enqueued and drops them only when all are
  removed. The invariants over single rows (token uniqueness, the bound on the retries, the
  transitions of the status) are proved on the abstract steps.
\<close>

section \<open>The life of one task\<close>

inductive row_step :: "qenv \<Rightarrow> queue_db \<Rightarrow> queue_op \<Rightarrow> TaskInfo \<Rightarrow> TaskInfo \<Rightarrow> bool" for e db where
  stutter: "row_step e db op t t"
| start: "ready db types t \<Longrightarrow> \<not> row_locked e (ti_Id t) \<Longrightarrow>
    row_step e db (ODequeue tok types) t (mark_running (clock_timestamp e) tok t)"
| finish: "in_progress t \<Longrightarrow>
    row_step e db (OFinish (ti_Id t) err) t
      (mark_finished (clock_timestamp e) (finish_status err) (finish_message err) (finish_retry e err t) t)"
| finish_dependent: "err \<noteq> None \<Longrightarrow> (ti_Id t, i) \<in> set (task_dependencies db) \<Longrightarrow> ti_Finished t = None \<Longrightarrow>
    row_step e db (OFinish i err) t (mark_canceled ''parent task failed'' t)"
| cancel: "ti_Finished t = None \<Longrightarrow>
    row_step e db (OCancel (ti_Id t)) t (mark_canceled ''task canceled'' t)"
| cancel_finished: "ti_Finished t \<noteq> None \<Longrightarrow>
    row_step e db (OCancel (ti_Id t)) t (t\<lparr>ti_CancelAttempted := True\<rparr>)"
| cancel_dependent: "(ti_Id t, i) \<in> set (task_dependencies db) \<Longrightarrow> ti_Finished t = None \<Longrightarrow>
    row_step e db (OCancel i) t (mark_canceled ''parent task canceled'' t)"
| requeue: "in_progress t \<Longrightarrow> ti_CancelAttempted t \<longrightarrow> ti_Status t = Some Running \<Longrightarrow>
    ti_Retries t \<noteq> MaxTaskRetries \<Longrightarrow>
    row_step e db (ORequeue (ti_Id t)) t (mark_requeued (clock_timestamp e) t)"
| give_up: "in_progress t \<Longrightarrow> ti_CancelAttempted t \<longrightarrow> ti_Status t = Some Running \<Longrightarrow>
    ti_Retries t = MaxTaskRetries \<Longrightarrow>
    row_step e db (ORequeue (ti_Id t)) t
      (mark_finished (clock_timestamp e) Failed (finish_message (Some ErrMaxRetriesExceeded)) None t)"
| give_up_dependent: "(ti_Id t, i) \<in> set (task_dependencies db) \<Longrightarrow> ti_Finished t = None \<Longrightarrow>
    row_step e db (ORequeue i) t (mark_canceled ''parent task failed'' t)"
| retry: "reset_by_retry (clock_timestamp e) types db t \<Longrightarrow>
    row_step e db (ORequeueFailed types) t (mark_retried (clock_timestamp e) t)"
| payload: "ti_Id t = ti_Id task \<Longrightarrow> row_step e db (OUpdatePayload task p) t (t\<lparr>ti_Payload := p\<rparr>)"

section \<open>The simulation\<close>

definition rows_follow :: "qenv \<Rightarrow> queue_db \<Rightarrow> queue_op \<Rightarrow> queue_db \<Rightarrow> bool" where
  "rows_follow e db op db' \<longleftrightarrow>
     (\<exists>g. tasks db' = map g (tasks db) \<and> (\<forall>t \<in> set (tasks db). row_step e db op t (g t)))"

lemma rows_follow_refl [simp]: "rows_follow e db op db"
  by (auto simp: rows_follow_def intro!: exI [of _ id] stutter)

lemma rows_followI:
  "tasks db' = map g (tasks db) \<Longrightarrow> (\<And>t. t \<in> set (tasks db) \<Longrightarrow> row_step e db op t (g t)) \<Longrightarrow>
   rows_follow e db op db'"
  by (auto simp: rows_follow_def)

lemma dependents_iff: "j \<in> set (sqlQueryDependents i db) \<longleftrightarrow> (j, i) \<in> set (task_dependencies db)"
  by (force simp: sqlQueryDependents_def)

lemma no_self_dependency: "queue_inv db \<Longrightarrow> (i, i) \<notin> set (task_dependencies db)"
  by (auto simp: queue_inv_def acyclic_def)

lemma tasks_finish_effect:
  "tasks (finish_effect e info err db) =
   map (\<lambda>t. if finish_row (ti_Id info) t
             then mark_finished (clock_timestamp e) (finish_status err) (finish_message err)
                     (finish_retry e err info) t
             else if err \<noteq> None \<and> (ti_Id t, ti_Id info) \<in> set (task_dependencies db) \<and> ti_Finished t = None
             then mark_canceled ''parent task failed'' t else t) (tasks db)"
  by (auto simp: finish_effect_def Let_def sqlDeleteHeartbeat_def sqlFinishTask_def sqlNotify_def
      cancel_all_def update_where_def dependents_iff mark_finished_def finish_row_def)

lemma mark_canceled_attempted [simp]:
  "(mark_canceled msg t)\<lparr>ti_CancelAttempted := True\<rparr> = mark_canceled msg t"
  by (simp add: mark_canceled_def)

lemma tasks_cancel_effect:
  assumes "(i, i) \<notin> set (task_dependencies db)"
  shows "tasks (cancel_effect i db) =
   map (\<lambda>t. if ti_Id t = i
             then (if ti_Finished t = None then mark_canceled ''task canceled'' t else t\<lparr>ti_CancelAttempted := True\<rparr>)
             else if (ti_Id t, i) \<in> set (task_dependencies db) \<and> ti_Finished t = None
             then mark_canceled ''parent task canceled'' t else t) (tasks db)"
proof -
  have "tasks (cancel_effect i db) =
    update_where (\<lambda>t. ti_Id t \<in> set (sqlQueryDependents i db) \<and> ti_Finished t = None)
      (mark_canceled ''parent task canceled'')
      (update_where (has_id i) (\<lambda>t. t\<lparr>ti_CancelAttempted := True\<rparr>)
        (update_where (finish_row i) (mark_canceled ''task canceled'') (tasks db)))"
    by (simp add: cancel_effect_def Let_def sqlDeleteHeartbeat_def sqlCancelTask_def
        sqlSetCancelAttempted_def sqlNotify_def cancel_all_def)
  also have "\<dots> = map (\<lambda>t. if ti_Id t = i
             then (if ti_Finished t = None then mark_canceled ''task canceled'' t else t\<lparr>ti_CancelAttempted := True\<rparr>)
             else if (ti_Id t, i) \<in> set (task_dependencies db) \<and> ti_Finished t = None
             then mark_canceled ''parent task canceled'' t else t) (tasks db)"
    unfolding update_where_def map_map
  proof (rule map_cong [OF refl])
    fix t assume "t \<in> set (tasks db)"
    show "((\<lambda>r. if ti_Id r \<in> set (sqlQueryDependents i db) \<and> ti_Finished r = None
                then mark_canceled ''parent task canceled'' r else r) \<circ>
           ((\<lambda>r. if has_id i r then r\<lparr>ti_CancelAttempted := True\<rparr> else r) \<circ>
            (\<lambda>r. if finish_row i r then mark_canceled ''task canceled'' r else r))) t =
          (if ti_Id t = i
             then (if ti_Finished t = None then mark_canceled ''task canceled'' t else t\<lparr>ti_CancelAttempted := True\<rparr>)
             else if (ti_Id t, i) \<in> set (task_dependencies db) \<and> ti_Finished t = None
             then mark_canceled ''parent task canceled'' t else t)"
      using assms
      by (cases "ti_Id t = i"; cases "ti_Finished t") (simp_all add: has_id_def finish_row_def dependents_iff)
  qed
  finally show ?thesis .
qed

lemma finish_follows:
  assumes inv: "queue_inv db" and t: "lookup_row ti_Id i (tasks db) = Some info" "in_progress info"
  shows "rows_follow e db (OFinish i err) (finish_effect e info err db)"
proof (rule rows_followI [OF tasks_finish_effect])
  fix t assume r: "t \<in> set (tasks db)"
  have info: "info \<in> set (tasks db)" "ti_Id info = i" using lookup_row_SomeD [OF t(1)] by auto
  have same: "t = info" if "ti_Id t = i" using queue_inv_same [OF inv r info(1)] that info by simp
  show "row_step e db (OFinish i err) t
     (if finish_row (ti_Id info) t
      then mark_finished (clock_timestamp e) (finish_status err) (finish_message err) (finish_retry e err info) t
      else if err \<noteq> None \<and> (ti_Id t, ti_Id info) \<in> set (task_dependencies db) \<and> ti_Finished t = None
      then mark_canceled ''parent task failed'' t else t)"
    using same t(2) info finish [of t e db err] by (auto simp: finish_row_def intro: stutter finish_dependent)
qed

lemma cancel_follows: "queue_inv db \<Longrightarrow> rows_follow e db (OCancel i) (cancel_effect i db)"
  by (rule rows_followI [OF tasks_cancel_effect])
     (auto simp: no_self_dependency intro: stutter cancel cancel_finished cancel_dependent)

lemma requeue_follows:
  assumes inv: "queue_inv db" and t: "lookup_row ti_Id i (tasks db) = Some info" "in_progress info"
    "ti_CancelAttempted info \<longrightarrow> ti_Status info = Some Running" "ti_Retries info \<noteq> MaxTaskRetries"
  shows "rows_follow e db (ORequeue i) (requeue_effect e i db)"
proof (rule rows_followI)
  show "tasks (requeue_effect e i db) =
      map (\<lambda>t. if requeue_row i t then mark_requeued (clock_timestamp e) t else t) (tasks db)"
    by (simp add: requeue_effect_def sqlDeleteHeartbeat_def sqlRequeue_def sqlNotify_def update_where_def)
  fix t assume r: "t \<in> set (tasks db)"
  have info: "info \<in> set (tasks db)" "ti_Id info = i" using lookup_row_SomeD [OF t(1)] by auto
  have "t = info" if "ti_Id t = i" using queue_inv_same [OF inv r info(1)] that info by simp
  then show "row_step e db (ORequeue i) t (if requeue_row i t then mark_requeued (clock_timestamp e) t else t)"
    using t info requeue [of t e db] by (auto simp: requeue_row_def intro: stutter)
qed

lemma give_up_follows:
  assumes inv: "queue_inv db" and t: "lookup_row ti_Id i (tasks db) = Some info" "in_progress info"
    and max: "ti_CancelAttempted info \<longrightarrow> ti_Status info = Some Running" "ti_Retries info = MaxTaskRetries"
  shows "rows_follow e db (ORequeue i) (finish_effect e info (Some ErrMaxRetriesExceeded) db)"
proof (rule rows_followI [OF tasks_finish_effect])
  fix t assume r: "t \<in> set (tasks db)"
  have info: "info \<in> set (tasks db)" "ti_Id info = i" using lookup_row_SomeD [OF t(1)] by auto
  have same: "t = info" if "ti_Id t = i" using queue_inv_same [OF inv r info(1)] that info by simp
  have "finish_retry e (Some ErrMaxRetriesExceeded) info = None" using max by (simp add: finish_retry_def)
  moreover have "finish_status (Some ErrMaxRetriesExceeded) = Failed" by (simp add: finish_status_def)
  ultimately show "row_step e db (ORequeue i) t
     (if finish_row (ti_Id info) t
      then mark_finished (clock_timestamp e) (finish_status (Some ErrMaxRetriesExceeded))
        (finish_message (Some ErrMaxRetriesExceeded)) (finish_retry e (Some ErrMaxRetriesExceeded) info) t
      else if Some ErrMaxRetriesExceeded \<noteq> None \<and> (ti_Id t, ti_Id info) \<in> set (task_dependencies db) \<and>
        ti_Finished t = None then mark_canceled ''parent task failed'' t else t)"
    using same t(2) info max give_up [of t e db]
    by (auto simp: finish_row_def intro: stutter give_up_dependent)
qed

lemma dequeue_follows:
  assumes inv: "queue_inv db" and choice: "dequeue_choice e types db = Some t"
  shows "rows_follow e db (ODequeue tok types) (dequeue_effect e tok t db)"
proof (rule rows_followI)
  show "tasks (dequeue_effect e tok t db) =
      map (\<lambda>r. if has_id (ti_Id t) r then mark_running (clock_timestamp e) tok r else r) (tasks db)"
    by (simp add: dequeue_effect_def update_where_def)
  note t = dequeue_choice_Some [OF choice]
  fix r assume r: "r \<in> set (tasks db)"
  have "r = t" if "has_id (ti_Id t) r" using queue_inv_same [OF inv r] t that by (simp add: has_id_def)
  then show "row_step e db (ODequeue tok types) r
      (if has_id (ti_Id t) r then mark_running (clock_timestamp e) tok r else r)"
    using t by (auto intro: stutter start)
qed

text \<open>
  The simulation: apart from \<open>Enqueue\<close>, which appends one row, and \<open>RemoveAllTasks\<close>, every
  method changes the table row by row along the steps of the abstract machine.
\<close>

lemma exec_op_follows:
  assumes inv: "queue_inv db"
  shows "rows_follow e db op (exec_op e op db) \<or>
    (\<exists>i task. op = OEnqueue i task \<and> i \<notin> ti_Id ` set (tasks db) \<and>
       tasks (exec_op e op db) = tasks db @ [new_row (clock_timestamp e) i task]) \<or>
    op = ORemoveAll \<and> tasks (exec_op e op db) = []"
proof (cases op)
  case (OEnqueue i task)
  show ?thesis unfolding OEnqueue exec_op.simps
    by (rule snd_result_cases)
       (auto dest: Inl_unchanged simp: Enqueue_Inr enqueue_effect_def sqlNotify_def)
next
  case (ODequeue tok types)
  show ?thesis unfolding ODequeue exec_op.simps
    by (rule snd_result_cases)
       (use inv in \<open>auto dest: Inl_unchanged simp: dequeueMaybe_Inr intro: dequeue_follows\<close>)
next
  case (OFinish i err)
  show ?thesis unfolding OFinish exec_op.simps
    by (rule snd_result_cases) (use inv in \<open>auto dest: Inl_unchanged simp: Finish_Inr intro: finish_follows\<close>)
next
  case (OCancel i)
  show ?thesis unfolding OCancel exec_op.simps
    by (rule snd_result_cases) (use inv in \<open>auto dest: Inl_unchanged simp: CancelQ_Inr intro: cancel_follows\<close>)
next
  case (ORequeue i)
  show ?thesis
    by (rule Requeue_cases [OF queue_invD(1) [OF inv], of e i])
       (use inv ORequeue in \<open>auto intro: give_up_follows requeue_follows\<close>)
next
  case (ORequeueFailed types)
  have "rows_follow e db (ORequeueFailed types) (sqlNotify (snd (sqlRequeueFailedTasks (clock_timestamp e) types db)))"
    by (rule rows_followI [where g = "\<lambda>t. if reset_by_retry (clock_timestamp e) types db t
           then mark_retried (clock_timestamp e) t else t"])
       (auto simp: sqlNotify_def sqlRequeueFailedTasks_def update_where_def intro: stutter retry)
  note this [simp]
  show ?thesis unfolding ORequeueFailed exec_op.simps
    by (rule snd_result_cases) (auto dest: Inl_unchanged simp: RequeueFailedTasks_Inr)
next
  case (ORefresh tok)
  have "tasks (exec_op e op db) = tasks db"
    using RefreshHeartbeat_cases [of e tok db] by (auto simp: ORefresh sqlRefreshHeartbeat_def)
  then show ?thesis by (auto intro!: rows_followI [where g = id] stutter)
next
  case (OUpdatePayload t p)
  have "rows_follow e db (OUpdatePayload t p) (sqlUpdatePayload p (ti_Id t) db)"
    by (rule rows_followI [where g = "\<lambda>r. if has_id (ti_Id t) r then r\<lparr>ti_Payload := p\<rparr> else r"])
       (auto simp: sqlUpdatePayload_def update_where_def has_id_def intro: stutter payload)
  note this [simp]
  show ?thesis unfolding OUpdatePayload exec_op.simps
    by (rule snd_result_cases) (auto dest: run_tx_Inl simp: UpdatePayload_def)
next
  case ORemoveAll
  show ?thesis unfolding ORemoveAll exec_op.simps
    by (rule snd_result_cases) (auto dest: run_tx_Inl simp: RemoveAllTasks_def sqlDeleteAllTasks_def)
qed

section \<open>Consequences on single rows\<close>

lemma row_step_id: "row_step e db op t t' \<Longrightarrow> ti_Id t' = ti_Id t"
  by (induction rule: row_step.induct) simp_all

lemma exec_op_rows:
  assumes "queue_inv db" "t' \<in> set (tasks (exec_op e op db))"
  obtains t where "t \<in> set (tasks db)" "row_step e db op t t'"
  | i task where "op = OEnqueue i task" "i \<notin> ti_Id ` set (tasks db)" "t' = new_row (clock_timestamp e) i task"
      "tasks (exec_op e op db) = tasks db @ [t']"
proof -
  from exec_op_follows [OF assms(1), of e op] show ?thesis
  proof (elim disjE exE conjE)
    fix i task assume "op = OEnqueue i task" "i \<notin> ti_Id ` set (tasks db)"
      "tasks (exec_op e op db) = tasks db @ [new_row (clock_timestamp e) i task]"
    then show ?thesis using assms(2) that stutter by (cases "t' \<in> set (tasks db)") auto
  qed (use that assms(2) in \<open>auto simp: rows_follow_def\<close>)
qed

text \<open>The transitions of the status column; only a task with dependencies can leave a final
  status other than by a retry of a failed task.\<close>

fun status_next :: "bool \<Rightarrow> task_status \<Rightarrow> task_status \<Rightarrow> bool" where
  "status_next dependent Pending s = (s \<in> {Pending, Running, Canceled})"
| "status_next dependent Running s = True"
| "status_next dependent Canceled s = (s \<in> {Canceled, Failed, Completed} \<or> dependent \<and> s = Pending)"
| "status_next dependent Failed s = (s \<in> {Failed, Pending})"
| "status_next dependent Completed s = (s = Completed \<or> dependent \<and> s = Pending)"

definition depends :: "queue_db \<Rightarrow> uuid \<Rightarrow> bool" where
  "depends db i = list_ex (\<lambda>(t, d). t = i) (task_dependencies db)"

lemma depends_iff: "depends db i \<longleftrightarrow> (\<exists>d. (i, d) \<in> set (task_dependencies db))"
  by (auto simp: depends_def list_ex_iff)

lemma reset_dependent:
  "reset_by_retry now types db t \<Longrightarrow> retryable now types t \<or> depends db (ti_Id t)"
  by (auto simp: reset_by_retry_def list_ex_iff depends_iff)

lemma row_step_status:
  assumes "row_step e db op t t'" "row_ok t"
  shows "status_next (depends db (ti_Id t)) (the (ti_Status t)) (the (ti_Status t'))"
  using assms
proof (induction rule: row_step.induct)
  case (stutter op t)
  then show ?case by (cases "ti_Status t") (auto simp: row_ok_def split: task_status.splits)
next
  case (retry types t)
  then show ?case using reset_dependent [of "clock_timestamp e" types db t]
    by (cases "ti_Status t") (auto simp: row_ok_def retryable_def split: task_status.splits)
qed (auto simp: row_ok_def in_progress_def ready_def finish_status_def split: option.splits task_status.splits)

text \<open>How often a task was handed out, read off its row.\<close>

definition handed :: "TaskInfo \<Rightarrow> int" where
  "handed t = ti_Retries t + (if ti_Started t = None then 0 else 1)"

fun starts :: "qenv \<Rightarrow> queue_op \<Rightarrow> queue_db \<Rightarrow> uuid \<Rightarrow> bool" where
  "starts e (ODequeue tok types) db i =
     (case fst (dequeueMaybe e tok types db) of Inr (info, _) \<Rightarrow> ti_Id info = i | Inl _ \<Rightarrow> False)"
| "starts e _ db i = False"

definition retries_ok :: "queue_db \<Rightarrow> TaskInfo \<Rightarrow> bool" where
  "retries_ok db t \<longleftrightarrow> depends db (ti_Id t) \<or> ti_Retries t \<le> MaxTaskRetries"

lemma row_step_retries:
  assumes "row_step e db op t t'" "row_ok t" "\<not> depends db (ti_Id t)" "ti_Retries t \<le> MaxTaskRetries"
  shows "ti_Retries t' \<le> MaxTaskRetries"
  using assms
proof (induction rule: row_step.induct)
  case (retry types t)
  then show ?case using reset_dependent [of "clock_timestamp e" types db t]
    by (auto simp: retryable_def mark_defs MaxTaskRetries_def)
qed (auto simp: mark_defs)

lemma row_step_handed:
  assumes "row_step e db op t t'" "row_ok t" "\<not> depends db (ti_Id t)" "\<forall>tok types. op \<noteq> ODequeue tok types"
  shows "handed t' = handed t"
  using assms
proof (induction rule: row_step.induct)
  case (retry types t)
  then show ?case using reset_dependent [of "clock_timestamp e" types db t]
    by (auto simp: retryable_def mark_defs handed_def)
qed (auto simp: mark_defs handed_def in_progress_def)

lemma dequeue_handed:
  assumes inv: "queue_inv db" and t': "t' \<in> set (tasks (snd (dequeueMaybe e tok types db)))"
  shows "\<exists>t \<in> set (tasks db). ti_Id t' = ti_Id t \<and>
    handed t' = handed t + (if starts e (ODequeue tok types) db (ti_Id t) then 1 else 0)"
proof (cases "fst (dequeueMaybe e tok types db)")
  case (Inl err)
  then have "snd (dequeueMaybe e tok types db) = db"
    using Inl_unchanged(2) by (metis prod.collapse)
  with Inl t' show ?thesis by auto
next
  case (Inr r)
  then have "dequeueMaybe e tok types db = (Inr r, snd (dequeueMaybe e tok types db))"
    by (metis prod.collapse)
  then obtain c where c: "dequeue_choice e types db = Some c"
      "snd (dequeueMaybe e tok types db) = dequeue_effect e tok c db"
      "r = (mark_running (clock_timestamp e) tok c, sqlQueryDependencies (ti_Id c) db)"
    unfolding dequeueMaybe_Inr by blast
  have choice: "c \<in> set (tasks db)" "ti_Started c = None"
    using dequeue_choice_Some [OF c(1)] by (auto simp: ready_def)
  have "t' \<in> set (update_where (has_id (ti_Id c)) (mark_running (clock_timestamp e) tok) (tasks db))"
    using t' unfolding c(2) by (simp add: dequeue_effect_def)
  then obtain t where t: "t \<in> set (tasks db)"
      "t' = (if has_id (ti_Id c) t then mark_running (clock_timestamp e) tok t else t)"
    by (rule in_update_whereE)
  have "handed t' = handed t + (if ti_Id c = ti_Id t then 1 else 0)"
  proof (cases "ti_Id t = ti_Id c")
    case True
    then have "t = c" using queue_inv_same [OF inv t(1) choice(1)] by simp
    then show ?thesis using t(2) choice(2) by (simp add: handed_def mark_running_def has_id_def)
  next
    case False
    then show ?thesis using t(2) by (simp add: has_id_def)
  qed
  moreover have "starts e (ODequeue tok types) db i \<longleftrightarrow> ti_Id c = i" for i
    using Inr c(3) by simp
  moreover have "ti_Id t' = ti_Id t" using t(2) by simp
  ultimately show ?thesis using t(1) by auto
qed

text \<open>Dependencies are only ever added, by the call that enqueues the task that has them.\<close>

lemma cancel_all_deps [simp]: "task_dependencies (cancel_all is msg db) = task_dependencies db"
  by (simp add: cancel_all_def)

lemma effect_deps [simp]:
  "task_dependencies (finish_effect e info err db) = task_dependencies db"
  "task_dependencies (cancel_effect i db) = task_dependencies db"
  "task_dependencies (requeue_effect e i db) = task_dependencies db"
  "task_dependencies (dequeue_effect e tok t db) = task_dependencies db"
  by (simp_all add: finish_effect_def cancel_effect_def requeue_effect_def dequeue_effect_def Let_def
      sqlNotify_def sqlDeleteHeartbeat_def sqlFinishTask_def sqlCancelTask_def sqlSetCancelAttempted_def
      sqlRequeue_def)

definition deps_grow :: "queue_op \<Rightarrow> queue_db \<Rightarrow> queue_db \<Rightarrow> bool" where
  "deps_grow op db db' \<longleftrightarrow> task_dependencies db' = task_dependencies db @
     (case op of OEnqueue i task \<Rightarrow> if tasks db' = tasks db then [] else map (\<lambda>d. (i, d)) (tk_Dependencies task)
      | _ \<Rightarrow> [])"

lemma exec_op_deps:
  assumes inv: "queue_inv db" and "op \<noteq> ORemoveAll"
  shows "deps_grow op db (exec_op e op db)"
proof (cases op)
  case (OEnqueue i task)
  show ?thesis unfolding OEnqueue exec_op.simps
    by (rule snd_result_cases)
       (auto dest: Inl_unchanged simp: deps_grow_def Enqueue_Inr enqueue_effect_def sqlNotify_def)
next
  case (ODequeue tok types)
  show ?thesis unfolding ODequeue exec_op.simps
    by (rule snd_result_cases) (auto dest: Inl_unchanged simp: deps_grow_def dequeueMaybe_Inr)
next
  case (OFinish i err)
  show ?thesis unfolding OFinish exec_op.simps
    by (rule snd_result_cases) (auto dest: Inl_unchanged simp: deps_grow_def Finish_Inr)
next
  case (OCancel i)
  show ?thesis unfolding OCancel exec_op.simps
    by (rule snd_result_cases) (auto dest: Inl_unchanged simp: deps_grow_def CancelQ_Inr)
next
  case (ORequeue i)
  show ?thesis
    by (rule Requeue_cases [OF queue_invD(1) [OF inv], of e i]) (auto simp: deps_grow_def ORequeue)
next
  case (ORequeueFailed types)
  show ?thesis unfolding ORequeueFailed exec_op.simps
    by (rule snd_result_cases)
       (auto dest: Inl_unchanged simp: deps_grow_def RequeueFailedTasks_Inr sqlNotify_def sqlRequeueFailedTasks_def)
next
  case (ORefresh tok)
  then show ?thesis
    using RefreshHeartbeat_cases [of e tok db] by (auto simp: deps_grow_def sqlRefreshHeartbeat_def)
next
  case (OUpdatePayload t p)
  show ?thesis unfolding OUpdatePayload exec_op.simps
    by (rule snd_result_cases) (auto dest: run_tx_Inl simp: deps_grow_def UpdatePayload_def sqlUpdatePayload_def)
qed (use assms in simp)

lemma depends_mono:
  "queue_inv db \<Longrightarrow> op \<noteq> ORemoveAll \<Longrightarrow> depends db i \<Longrightarrow> depends (exec_op e op db) i"
  using exec_op_deps [of db op e] by (auto simp: deps_grow_def depends_iff)

end
