(* ===== verification/TaskQueueRetries.thy ===== *)
theory TaskQueueRetries
  imports TaskQueueProps
begin

text \<open>
  Retries, atomicity and cancellation of dependents: how often a task can run, when a failed
  task is retried, that a method that fails leaves the database alone, and the cases in which
  the statements of the queue do less or more than their comments and names say.
\<close>

section \<open>Histories without clearing the table\<close>

text \<open>\<open>history i n s\<close>: the queue is in state \<open>s\<close> and has handed out task \<open>i\<close> \<open>n\<close> times.\<close>

inductive history :: "uuid \<Rightarrow> nat \<Rightarrow> timestamp \<times> queue_db \<Rightarrow> bool" for i where
  history_init: "history i 0 (0, empty_db)"
| history_step: "history i n (now, db) \<Longrightarrow> now \<le> clock_timestamp e \<Longrightarrow> op_fresh op db \<Longrightarrow> op \<noteq> ORemoveAll \<Longrightarrow>
    history i (if starts e op db i then Suc n else n) (clock_timestamp e, exec_op e op db)"

lemma history_reachable: "history i n s \<Longrightarrow> reachable s"
proof (induction rule: history.induct)
  case (history_step n now db e op)
  then show ?case by (auto intro: reachable.intros queue_step.intros)
qed (rule reachable_init)

lemma starts_in_table: "starts e op db i \<Longrightarrow> i \<in> ti_Id ` set (tasks db)"
proof (cases op)
  case (ODequeue tok types)
  assume "starts e op db i"
  then obtain info deps where r: "fst (dequeueMaybe e tok types db) = Inr (info, deps)" "ti_Id info = i"
    by (auto simp: ODequeue split: sum.splits)
  then have "dequeueMaybe e tok types db = (Inr (info, deps), snd (dequeueMaybe e tok types db))"
    by (metis prod.collapse)
  then obtain t where "dequeue_choice e types db = Some t" "info = mark_running (clock_timestamp e) tok t"
    unfolding dequeueMaybe_Inr by auto
  with r dequeue_choice_Some show ?thesis by fastforce
qed auto

lemma exec_op_keeps_ids:
  assumes "queue_inv db" "op \<noteq> ORemoveAll"
  shows "ti_Id ` set (tasks db) \<subseteq> ti_Id ` set (tasks (exec_op e op db))"
proof -
  from exec_op_follows [OF assms(1), of e op] assms(2) consider
    "rows_follow e db op (exec_op e op db)" | t where "tasks (exec_op e op db) = tasks db @ [t]" by blast
  then show ?thesis
  proof cases
    case 1
    then obtain g where g: "tasks (exec_op e op db) = map g (tasks db)"
        "\<forall>t \<in> set (tasks db). row_step e db op t (g t)" by (auto simp: rows_follow_def)
    have "ti_Id t \<in> ti_Id ` set (map g (tasks db))" if "t \<in> set (tasks db)" for t
      using row_step_id [of e db op t "g t"] g(2) that by (metis image_eqI image_set)
    with g(1) show ?thesis by auto
  qed auto
qed

text \<open>
  For a task without dependencies the row itself counts the hand-outs: the retries, and one more
  when it is started.
\<close>

lemma history_handed:
  "history i n s \<Longrightarrow> \<not> depends (snd s) i \<Longrightarrow>
   (i \<notin> ti_Id ` set (tasks (snd s)) \<longrightarrow> n = 0) \<and>
   (\<forall>t \<in> set (tasks (snd s)). ti_Id t = i \<longrightarrow> int n = handed t \<and> ti_Retries t \<le> MaxTaskRetries)"
proof (induction rule: history.induct)
  case history_init
  show ?case by (simp add: empty_db_def)
next
  case (history_step n now db e op)
  have inv: "queue_inv db" using reachable_inv_times [OF history_reachable [OF history_step(1)]] by simp
  have nd: "\<not> depends db i" using depends_mono [OF inv history_step(4)] history_step.prems by auto
  note IH = history_step.IH [unfolded snd_conv, OF nd]
  have "int (if starts e op db i then Suc n else n) = handed t' \<and> ti_Retries t' \<le> MaxTaskRetries"
    if t': "t' \<in> set (tasks (exec_op e op db))" "ti_Id t' = i" for t'
  proof (rule exec_op_rows [OF inv t'(1)])
    fix t assume t: "t \<in> set (tasks db)" "row_step e db op t t'"
    note ids = row_step_id [OF t(2)]
    have n: "int n = handed t" "ti_Retries t \<le> MaxTaskRetries" using IH t ids t' by auto
    have "ti_Retries t' \<le> MaxTaskRetries"
      using row_step_retries [OF t(2) queue_invD(4) [OF inv t(1)]] nd n ids t' by simp
    moreover have "handed t' = handed t + (if starts e op db i then 1 else 0)"
    proof (cases "\<exists>tok types. op = ODequeue tok types")
      case True
      then obtain tok types where op: "op = ODequeue tok types" by blast
      obtain u where "u \<in> set (tasks db)" "ti_Id t' = ti_Id u"
          "handed t' = handed u + (if starts e op db (ti_Id u) then 1 else 0)"
        using dequeue_handed [OF inv, of t' e tok types] t' unfolding op by auto
      then show ?thesis using queue_inv_same [OF inv t(1)] ids t' by metis
    next
      case False
      then have "\<not> starts e op db i" by (cases op) auto
      then show ?thesis
        using row_step_handed [OF t(2) queue_invD(4) [OF inv t(1)]] nd ids t' False by simp
    qed
    ultimately show ?thesis using n by simp
  next
    fix j task assume "op = OEnqueue j task" "j \<notin> ti_Id ` set (tasks db)" "t' = new_row (clock_timestamp e) j task"
    then show ?thesis using IH t' by (simp add: new_row_def handed_def MaxTaskRetries_def)
  qed
  then show ?case using IH starts_in_table exec_op_keeps_ids [OF inv history_step(4), of e] by auto
qed

text \<open>
  C7. The retry limit: however the methods interleave and fail, a task that depends on no other
  is handed out to workers at most four times, the first time and \<open>MaxTaskRetries\<close> more.
\<close>

theorem handed_out_at_most_four_times:
  assumes "history i n (now, db)" "\<not> depends db i"
  shows "n \<le> nat (MaxTaskRetries + 1)"
proof (cases "i \<in> ti_Id ` set (tasks db)")
  case True
  then obtain t where "t \<in> set (tasks db)" "ti_Id t = i" by auto
  then have "int n = handed t" "ti_Retries t \<le> MaxTaskRetries"
    using history_handed [OF assms(1)] assms(2) by auto
  then show ?thesis by (auto simp: handed_def split: if_splits)
qed (use history_handed [OF assms(1)] assms(2) in simp)

fun count_starts :: "timestamp \<Rightarrow> queue_op list \<Rightarrow> uuid \<Rightarrow> queue_db \<Rightarrow> nat" where
  "count_starts now [] i db = 0"
| "count_starts now (op # ops) i db =
     (if starts (demo_env now) op db i then 1 else 0) + count_starts (now + 1) ops i (exec_op (demo_env now) op db)"

lemma run_ops_history:
  "history i n (now, db) \<Longrightarrow> fresh_ops (now + 1) ops db \<Longrightarrow> ORemoveAll \<notin> set ops \<Longrightarrow>
   \<exists>now'. history i (n + count_starts (now + 1) ops i db) (now', run_ops (now + 1) ops db)"
proof (induction ops arbitrary: n now db)
  case (Cons op ops)
  have "op \<noteq> ORemoveAll" "op_fresh op db" using Cons.prems by auto
  then have "history i (if starts (demo_env (now + 1)) op db i then Suc n else n)
      (now + 1, exec_op (demo_env (now + 1)) op db)"
    using history_step [of i n now db "demo_env (now + 1)" op] Cons.prems(1) by simp
  from Cons.IH [OF this] Cons.prems show ?case by (auto split: if_splits)
qed auto

text \<open>A task that loses its worker three times and is handed out a fourth time.\<close>

definition retried_ops :: "queue_op list" where
  "retried_ops = [OEnqueue 1 (demo_task DeleteSnapshotsTask [] 0), ODequeue 7 TaskTypes, ORequeue 1,
     ODequeue 8 TaskTypes, ORequeue 1, ODequeue 9 TaskTypes, ORequeue 1, ODequeue 10 TaskTypes, ORequeue 1]"

theorem handed_out_at_most_four_times_witness:
  "count_starts 1 retried_ops 1 empty_db = 4 \<and> (4::nat) \<le> nat (MaxTaskRetries + 1)"
proof -
  have "fresh_ops (0 + 1) retried_ops empty_db" "ORemoveAll \<notin> set retried_ops" by code_simp+
  from run_ops_history [OF history_init this] obtain now where
    h: "history 1 (0 + count_starts (0 + 1) retried_ops 1 empty_db) (now, run_ops (0 + 1) retried_ops empty_db)"
    by blast
  have nd: "\<not> depends (run_ops (0 + 1) retried_ops empty_db) 1" by code_simp
  have "count_starts 1 retried_ops 1 empty_db = 4" by code_simp
  with handed_out_at_most_four_times [OF h nd] show ?thesis by simp
qed

section \<open>Atomicity\<close>


definition broken_env :: qenv where
  "broken_env = (demo_env 9)\<lparr>db_fails := (\<lambda>c. c = CNotify)\<rparr>"


section \<open>When a failed task is retried\<close>

lemma go_quot_pos: "0 \<le> a \<Longrightarrow> 0 < b \<Longrightarrow> go_quot a b = a div b"
  by (cases "a = 0") (simp_all add: go_quot_def)

lemma div_antimono: "0 \<le> (a::int) \<Longrightarrow> 0 < b \<Longrightarrow> b \<le> c \<Longrightarrow> a div c \<le> a div b"
  by (simp add: zdiv_mono2)

text \<open>
  The wait before the next retry: the retry time of a failed task is never in the past,
  never later than half the configured bound, and does not decrease with the retries already
  made.
\<close>

theorem retry_wait_bounds:
  assumes "0 \<le> RetryWaitUpperBound e" "0 \<le> ti_Retries t" "ti_Retries t \<le> ti_Retries u"
    "ti_Retries u < MaxTaskRetries"
  shows "time_Now e \<le> next_retry e t \<and> next_retry e t \<le> next_retry e u \<and>
         next_retry e u \<le> time_Now e + RetryWaitUpperBound e div 2"
proof -
  let ?U = "RetryWaitUpperBound e"
  let ?d = "\<lambda>t. 1000000000 * (MaxTaskRetries - ti_Retries t + 1)"
  have wait: "next_retry e v = time_Now e + 1000000000 * (?U div ?d v)" if "ti_Retries v < MaxTaskRetries" for v
    using that assms(1) by (simp add: next_retry_def Let_def go_quot_pos MaxTaskRetries_def)
  have pos: "0 < ?d u" "?d u \<le> ?d t" "2000000000 \<le> ?d u" using assms by auto
  have "0 \<le> ?U div ?d t" using assms(1) pos by (simp add: pos_imp_zdiv_nonneg_iff)
  moreover have "?U div ?d t \<le> ?U div ?d u" using assms(1) pos by (intro zdiv_mono2) auto
  moreover have "?U div ?d u \<le> ?U div 2000000000" using assms(1) pos by (intro zdiv_mono2) auto
  moreover have "1000000000 * (?U div 2000000000) \<le> ?U div 2"
    using zdiv_zmult2_eq [of 1000000000 ?U 2] mult_div_mod_eq [of 1000000000 "?U div 2"]
      pos_mod_sign [of 1000000000 "?U div 2"] by simp
  ultimately have "0 \<le> ?U div ?d t" "?U div ?d t \<le> ?U div ?d u"
    "1000000000 * (?U div ?d u) \<le> ?U div 2" by linarith+
  then show ?thesis using assms by (simp only: wait) linarith
qed

theorem retry_wait_bounds_witness:
  "let t = new_row 0 1 (demo_task DeleteSnapshotsTask [] 0); u = t\<lparr>ti_Retries := 2\<rparr> in
   5 \<le> next_retry (demo_env 5) t \<and> next_retry (demo_env 5) t \<le> next_retry (demo_env 5) u \<and>
   next_retry (demo_env 5) u \<le> 5 + 1800000000000"
proof -
  let ?t = "new_row 0 1 (demo_task DeleteSnapshotsTask [] 0)"
  show ?thesis
    using retry_wait_bounds [of "demo_env 5" ?t "?t\<lparr>ti_Retries := 2\<rparr>"]
    by (simp add: demo_env_def new_row_def MaxTaskRetries_def Let_def)
qed

definition failed_due :: "timestamp \<Rightarrow> string list \<Rightarrow> TaskInfo \<Rightarrow> bool" where
  "failed_due now types t \<longleftrightarrow> ti_Status t = Some Failed \<and> ti_Retries t < 3 \<and> ti_Typename t \<in> set types \<and>
     \<not> ti_CancelAttempted t \<and> (\<exists>r \<le> now. ti_NextRetryTime t = Some r)"

lemma retryable_failed_due: "row_ok t \<Longrightarrow> retryable now types t \<longleftrightarrow> failed_due now types t"
  by (auto simp: retryable_def failed_due_def row_ok_def split: option.splits)

lemma not_retryable_marked [simp]: "\<not> retryable now types (mark_retried now' t)"
  by (simp add: retryable_def mark_retried_def)

lemma reset_by_retry_notified [simp]: "reset_by_retry now types (db\<lparr>notified := n\<rparr>) = reset_by_retry now types db"
  by (simp add: reset_by_retry_def fun_eq_iff)

lemma retry_idempotent:
  "tasks (snd (sqlRequeueFailedTasks now types (snd (sqlRequeueFailedTasks now types db)))) =
   tasks (snd (sqlRequeueFailedTasks now types db))"
proof -
  let ?db = "snd (sqlRequeueFailedTasks now types db)"
  have "\<forall>t \<in> set (tasks ?db). \<not> retryable now types t"
    by (auto simp: sqlRequeueFailedTasks_def reset_by_retry_def)
  then have "\<forall>t \<in> set (tasks ?db). \<not> reset_by_retry now types ?db t"
    by (auto simp: reset_by_retry_def list_ex_iff)
  then show ?thesis
    unfolding sqlRequeueFailedTasks_def [of now types ?db] by (simp add: update_where_def map_idI)
qed

text \<open>
  \<open>RequeueFailedTasks\<close> makes every failed task whose retry time has come, with retries left
  and no cancellation attempted, and every task that depends on one, pending with one more
  retry, and leaves the other rows alone; called again at once it changes no row.
\<close>

theorem requeue_failed_outcome:
  assumes "reachable (now, db)" "no_faults e"
  shows "\<exists>db'. RequeueFailedTasks e types db = (Inr (), db') \<and>
    tasks db' = map (\<lambda>t. if failed_due (clock_timestamp e) types t \<or>
        (\<exists>p \<in> set (tasks db). failed_due (clock_timestamp e) types p \<and> (ti_Id t, ti_Id p) \<in> set (task_dependencies db))
      then mark_retried (clock_timestamp e) t else t) (tasks db) \<and>
    tasks (snd (RequeueFailedTasks e types db')) = tasks db'"
proof -
  have inv: "queue_inv db" using reachable_inv_times [OF assms(1)] by simp
  let ?now = "clock_timestamp e"
  have run: "RequeueFailedTasks e types d = (Inr (), sqlNotify (snd (sqlRequeueFailedTasks ?now types d)))" for d
    unfolding RequeueFailedTasks_Inr using assms(2) by simp
  have "reset_by_retry ?now types db t \<longleftrightarrow> failed_due ?now types t \<or>
      (\<exists>p \<in> set (tasks db). failed_due ?now types p \<and> (ti_Id t, ti_Id p) \<in> set (task_dependencies db))"
    if "t \<in> set (tasks db)" for t
    using that queue_invD(4) [OF inv] by (auto simp: reset_by_retry_def list_ex_iff retryable_failed_due)
  then have rows: "tasks (snd (sqlRequeueFailedTasks ?now types db)) = map (\<lambda>t. if failed_due ?now types t \<or>
        (\<exists>p \<in> set (tasks db). failed_due ?now types p \<and> (ti_Id t, ti_Id p) \<in> set (task_dependencies db))
      then mark_retried ?now t else t) (tasks db)"
    unfolding sqlRequeueFailedTasks_def by (simp add: update_where_def)
  have "tasks (snd (sqlRequeueFailedTasks ?now types (sqlNotify d))) = tasks (snd (sqlRequeueFailedTasks ?now types d))" for d
    by (simp add: sqlNotify_def sqlRequeueFailedTasks_def)
  then show ?thesis
    using run rows retry_idempotent [of ?now types db] by (simp add: sqlNotify_def)
qed

text \<open>Task 1 fails and its retry time comes; task 2 depends on it but was enqueued and completed
  after that failure, task 3 is running.\<close>

definition late_ops :: "queue_op list" where
  "late_ops = [OEnqueue 1 (demo_task DeleteSnapshotsTask [] 0), ODequeue 7 TaskTypes,
     OFinish 1 (Some (Other ''boom'')), OEnqueue 2 (demo_task IntrospectTask [1] 0), ODequeue 8 TaskTypes,
     OFinish 2 None, OEnqueue 3 (demo_task IntrospectTask [1] 0), ODequeue 9 TaskTypes]"

definition late_db :: queue_db where
  "late_db = run_ops 0 late_ops empty_db"

lemma late_reachable: "\<exists>now. reachable (now, late_db)"
proof -
  have "fresh_ops 0 late_ops empty_db" by code_simp
  then show ?thesis unfolding late_db_def by (rule run_ops_reachable [OF reachable_init])
qed

theorem requeue_failed_outcome_witness:
  "map ti_Status (tasks late_db) = [Some Failed, Some Completed, Some Running] \<and>
   (\<exists>db'. RequeueFailedTasks (demo_env 4000000000000) RequeueableTasks late_db = (Inr (), db') \<and>
     map ti_Status (tasks db') = [Some Pending, Some Pending, Some Pending] \<and>
     tasks (snd (RequeueFailedTasks (demo_env 4000000000000) RequeueableTasks db')) = tasks db')"
proof -
  obtain now where r: "reachable (now, late_db)" using late_reachable by blast
  have "map ti_Status (tasks (snd (RequeueFailedTasks (demo_env 4000000000000) RequeueableTasks late_db))) =
      [Some Pending, Some Pending, Some Pending]"
    "map ti_Status (tasks late_db) = [Some Failed, Some Completed, Some Running]" by code_simp+
  with requeue_failed_outcome [OF r no_faults_demo [of 4000000000000], of RequeueableTasks] show ?thesis by auto
qed

section \<open>Dependents\<close>

text \<open>
  C9. Resetting dependents looks only at the dependency: when a failed task is retried, a task
  that depends on it is made pending again also when it has completed or is running, so it runs
  a second time, and its retries grow without the check against the limit.
\<close>

theorem retry_resets_dependents_in_any_state:
  assumes "reachable (now, db)" "no_faults e" "p \<in> set (tasks db)" "retryable (clock_timestamp e) types p"
    "(ti_Id t, ti_Id p) \<in> set (task_dependencies db)" "t \<in> set (tasks db)"
  shows "\<exists>db'. RequeueFailedTasks e types db = (Inr (), db') \<and>
    (\<exists>t' \<in> set (tasks db'). ti_Id t' = ti_Id t \<and> ti_Status t' = Some Pending \<and>
       ti_Started t' = None \<and> ti_Retries t' = ti_Retries t + 1)"
proof -
  let ?db' = "sqlNotify (snd (sqlRequeueFailedTasks (clock_timestamp e) types db))"
  have "RequeueFailedTasks e types db = (Inr (), ?db')"
    unfolding RequeueFailedTasks_Inr using assms(2) by simp
  moreover have "reset_by_retry (clock_timestamp e) types db t"
    using assms by (auto simp: reset_by_retry_def list_ex_iff)
  then have "mark_retried (clock_timestamp e) t \<in> set (tasks ?db')"
    using assms(6) by (auto simp: sqlNotify_def sqlRequeueFailedTasks_def update_where_def image_iff intro!: bexI [of _ t])
  ultimately show ?thesis
    by (intro exI [of _ ?db'] conjI bexI [of _ "mark_retried (clock_timestamp e) t"]) (simp_all add: mark_retried_def)
qed

theorem retry_resets_dependents_in_any_state_witness:
  "ti_Status (tasks late_db ! 1) = Some Completed \<and>
   (\<exists>db'. RequeueFailedTasks (demo_env 4000000000000) RequeueableTasks late_db = (Inr (), db') \<and>
     (\<exists>t' \<in> set (tasks db'). ti_Id t' = 2 \<and> ti_Status t' = Some Pending))"
proof -
  obtain now where r: "reachable (now, late_db)" using late_reachable by blast
  have m: "3 = length (tasks late_db)" "ti_Id (tasks late_db ! 1) = 2" "ti_Status (tasks late_db ! 1) = Some Completed"
    "(ti_Id (tasks late_db ! 1), ti_Id (tasks late_db ! 0)) \<in> set (task_dependencies late_db)"
    "retryable (clock_timestamp (demo_env 4000000000000)) RequeueableTasks (tasks late_db ! 0)"
    by code_simp+
  from m(1) have "tasks late_db ! 0 \<in> set (tasks late_db)" "tasks late_db ! 1 \<in> set (tasks late_db)" by auto
  from retry_resets_dependents_in_any_state [OF r no_faults_demo this(1) m(5) m(4) this(2)] m(2,3)
  show ?thesis by auto
qed

text \<open>
  Past the limit there is no limit: \<open>Requeue\<close> compares the retries with \<open>MaxTaskRetries\<close>
  for equality, so a running task whose retries have passed it is made pending again each time,
  and is never finished for having used up its retries.
\<close>

theorem requeue_past_the_limit:
  assumes "reachable (now, db)" "no_faults e" "lookup_row ti_Id i (tasks db) = Some t"
    "ti_Status t = Some Running" "MaxTaskRetries < ti_Retries t"
  shows "\<exists>db'. Requeue e i db = (Inr (), db') \<and>
    lookup_row ti_Id i (tasks db') = Some (mark_requeued (clock_timestamp e) t)"
proof -
  have inv: "queue_inv db" using reachable_inv_times [OF assms(1)] by simp
  have t: "t \<in> set (tasks db)" "ti_Id t = i" using lookup_row_SomeD [OF assms(3)] by auto
  have p: "in_progress t" using queue_invD(4) [OF inv t(1)] assms(4) by (auto simp: row_ok_def in_progress_def)
  then have "requeueTx e i db = Inr (None, requeue_effect e i db)"
    using assms by (simp add: requeueTx_Inr [OF queue_invD(1) [OF inv]])
  then have r: "Requeue e i db = (Inr (), requeue_effect e i db)" by (simp add: Requeue_def run_tx_def)
  have "tasks (requeue_effect e i db) = update_where (requeue_row i) (mark_requeued (clock_timestamp e)) (tasks db)"
    by (simp add: requeue_effect_def sqlDeleteHeartbeat_def sqlRequeue_def sqlNotify_def)
  then have "lookup_row ti_Id i (tasks (requeue_effect e i db)) = Some (mark_requeued (clock_timestamp e) t)"
    using assms(3) p t by (simp add: lookup_row_update_where requeue_row_def in_progress_def)
  with r show ?thesis by blast
qed

text \<open>Two parents of task 3: one is retried three times, the other once.\<close>

definition past_limit_ops :: "queue_op list" where
  "past_limit_ops =
     (let fail = (\<lambda>i tok. [ODequeue tok [DeleteSnapshotsTask], OFinish i (Some (Other ''boom'')),
                           ORequeueFailed RequeueableTasks]) in
      [OEnqueue 1 (demo_task DeleteSnapshotsTask [] 1), OEnqueue 2 (demo_task DeleteSnapshotsTask [] 0),
       OEnqueue 3 (demo_task IntrospectTask [1, 2] 0)] @ fail 1 11 @ fail 1 12 @ fail 1 13 @
      [ODequeue 14 [DeleteSnapshotsTask], OFinish 1 None] @ fail 2 15 @
      [ODequeue 16 [DeleteSnapshotsTask], OFinish 2 None, ODequeue 17 [IntrospectTask]])"

fun run_late :: "timestamp \<Rightarrow> queue_op list \<Rightarrow> queue_db \<Rightarrow> queue_db" where
  "run_late now [] db = db"
| "run_late now (op # ops) db = run_late (now + 4000000000000) ops (exec_op (demo_env now) op db)"

fun fresh_late :: "timestamp \<Rightarrow> queue_op list \<Rightarrow> queue_db \<Rightarrow> bool" where
  "fresh_late now [] db = True"
| "fresh_late now (op # ops) db \<longleftrightarrow> op_fresh op db \<and> fresh_late (now + 4000000000000) ops (exec_op (demo_env now) op db)"

lemma run_late_reachable:
  "reachable (now, db) \<Longrightarrow> fresh_late (now + 4000000000000) ops db \<Longrightarrow>
   \<exists>now'. reachable (now', run_late (now + 4000000000000) ops db)"
proof (induction ops arbitrary: now db)
  case (Cons op ops)
  from Cons.prems have "reachable (now + 4000000000000, exec_op (demo_env (now + 4000000000000)) op db)"
    using reachable_step [OF Cons.prems(1) queue_step.intros [of now "demo_env (now + 4000000000000)" op db]] by simp
  from Cons.IH [OF this] Cons.prems show ?case by simp
qed auto

definition past_limit_db :: queue_db where
  "past_limit_db = run_late (0 + 4000000000000) past_limit_ops empty_db"

theorem requeue_past_the_limit_witness:
  "ti_Retries (the (lookup_row ti_Id 3 (tasks past_limit_db))) = 4 \<and>
   (\<exists>db'. Requeue (demo_env 0) 3 past_limit_db = (Inr (), db') \<and>
      ti_Retries (the (lookup_row ti_Id 3 (tasks db'))) = 5)"
proof -
  have "fresh_late (0 + 4000000000000) past_limit_ops empty_db" by code_simp
  then obtain now where r: "reachable (now, past_limit_db)"
    unfolding past_limit_db_def using run_late_reachable [OF reachable_init] by blast
  have *: "case lookup_row ti_Id 3 (tasks past_limit_db) of None \<Rightarrow> False
    | Some t \<Rightarrow> ti_Status t = Some Running \<and> ti_Retries t = 4" by code_simp
  then obtain t where t: "lookup_row ti_Id 3 (tasks past_limit_db) = Some t" "ti_Status t = Some Running"
      "ti_Retries t = 4" by (auto split: option.splits)
  from requeue_past_the_limit [OF r no_faults_demo [of 0] t(1,2)] t show ?thesis
    by (auto simp: MaxTaskRetries_def mark_requeued_def)
qed

text \<open>
  Canceling a task cancels its direct dependents only: a task that depends on a canceled
  dependent stays pending and, as the canceled one has no finish time, is not ready, whatever
  types a worker asks for.
\<close>

theorem cancel_blocks_grand_dependents:
  assumes "reachable (now, db)" "no_faults e"
    and "c \<in> set (tasks db)" "(ti_Id c, p) \<in> set (task_dependencies db)" "ti_Finished c = None"
    and "g \<in> set (tasks db)" "(ti_Id g, ti_Id c) \<in> set (task_dependencies db)"
    and "(ti_Id g, p) \<notin> set (task_dependencies db)" "ti_Id g \<noteq> p"
  shows "\<exists>db'. CancelQ e p db = (Inr (), db') \<and> g \<in> set (tasks db') \<and>
    (\<exists>c' \<in> set (tasks db'). ti_Id c' = ti_Id c \<and> ti_Status c' = Some Canceled) \<and> (\<forall>types. \<not> ready db' types g)"
proof -
  have inv: "queue_inv db" using reachable_inv_times [OF assms(1)] by simp
  let ?db' = "cancel_effect p db"
  note rows = tasks_cancel_effect [OF no_self_dependency [OF inv], of p]
  have c: "ti_Id c \<noteq> p" using no_self_dependency [OF inv, of p] assms(4) by auto
  then have c': "mark_canceled ''parent task canceled'' c \<in> set (tasks ?db')"
    unfolding rows using assms(3-5) by (auto simp: image_iff intro!: bexI [of _ c])
  have g': "g \<in> set (tasks ?db')" unfolding rows using assms(6,8,9) by (auto simp: image_iff intro!: bexI [of _ g])
  have "\<not> deps_finished ?db' (ti_Id g)"
    unfolding deps_finished_iff using c' assms(5,7) by (force simp: mark_canceled_def)
  moreover have "CancelQ e p db = (Inr (), ?db')" unfolding CancelQ_Inr using assms(2) by simp
  ultimately show ?thesis
    using c' g' by (intro exI [of _ ?db'] conjI bexI [OF _ c']) (simp_all add: ready_def)
qed

definition chain_db :: queue_db where
  "chain_db = run_ops 0 [OEnqueue 1 (demo_task DeleteSnapshotsTask [] 0), OEnqueue 2 (demo_task IntrospectTask [1] 0),
     OEnqueue 3 (demo_task IntrospectTask [2] 0)] empty_db"

theorem cancel_blocks_grand_dependents_witness:
  "\<exists>db'. CancelQ (demo_env 5) 1 chain_db = (Inr (), db') \<and> (\<forall>types. \<not> ready db' types (tasks chain_db ! 2))"
proof -
  have "fresh_ops 0 [OEnqueue 1 (demo_task DeleteSnapshotsTask [] 0), OEnqueue 2 (demo_task IntrospectTask [1] 0),
     OEnqueue 3 (demo_task IntrospectTask [2] 0)] empty_db" by code_simp
  then obtain now where r: "reachable (now, chain_db)"
    unfolding chain_db_def using run_ops_reachable [OF reachable_init] by blast
  have m: "3 = length (tasks chain_db)"
    "(ti_Id (tasks chain_db ! 1), 1) \<in> set (task_dependencies chain_db)" "ti_Finished (tasks chain_db ! 1) = None"
    "(ti_Id (tasks chain_db ! 2), ti_Id (tasks chain_db ! 1)) \<in> set (task_dependencies chain_db)"
    "(ti_Id (tasks chain_db ! 2), 1) \<notin> set (task_dependencies chain_db)" "ti_Id (tasks chain_db ! 2) \<noteq> 1"
    by code_simp+
  from m(1) have "tasks chain_db ! 1 \<in> set (tasks chain_db)" "tasks chain_db ! 2 \<in> set (tasks chain_db)" by auto
  from cancel_blocks_grand_dependents [OF r no_faults_demo [of 5] this(1) m(2,3) this(2) m(4-6)]
  show ?thesis by blast
qed

end
