(* ===== verification/WorkerProps.thy ===== *)
theory WorkerProps
  imports Worker TaskQueueRetries
begin

text \<open>
  The PostgreSQL queue fulfils the contract the worker pool relies on, and the properties of
  the worker pool and of the task client that follow.
\<close>

section \<open>PgQueue implements the contract\<close>

lemma lookup_row_map:
  assumes "\<And>r. r \<in> set rows \<Longrightarrow> k (f r) = k r"
  shows "lookup_row k i (map f rows) = map_option f (lookup_row k i rows)"
  using assms by (induction rows) auto

lemma status_after_finish:
  assumes "queue_inv db" "lookup_row ti_Id i (tasks db) = Some info" "in_progress info"
  shows "task_status_of (finish_effect e info err db) i = Some (finish_status err)"
  unfolding task_status_of_def finish_rows [OF assms]
  using assms(2) lookup_row_SomeD [OF assms(2)] by (subst lookup_row_map) auto

lemma status_after_cancel:
  assumes "queue_inv db"
  shows "task_status_of (cancel_effect i db) i \<notin> {Some Running, Some Pending}"
proof (cases "lookup_row ti_Id i (tasks db)")
  case (Some t)
  note t = lookup_row_SomeD [OF Some]
  have "task_status_of (cancel_effect i db) i =
      ti_Status (if ti_Finished t = None then mark_canceled ''task canceled'' t else t\<lparr>ti_CancelAttempted := True\<rparr>)"
    unfolding task_status_of_def tasks_cancel_effect [OF no_self_dependency [OF assms]]
    using Some t by (subst lookup_row_map) auto
  then show ?thesis
    using queue_invD(4) [OF assms, of t] t by (auto simp: row_ok_def)
next
  case None
  then show ?thesis
    unfolding task_status_of_def tasks_cancel_effect [OF no_self_dependency [OF assms]]
    by (subst lookup_row_map) auto
qed

lemma Dequeue_no_wake:
  "Dequeue e tok types [] db = Some (r, db') \<Longrightarrow>
   (\<exists>x. r = Inl x \<and> db' = db) \<or> (\<exists>y. r = Inr y \<and> dequeueMaybe e tok types db = (Inr y, db'))"
  by (auto simp: Dequeue.simps [of e tok types "[]"] split: prod.splits sum.splits if_splits dest: Inl_unchanged)

lemma status_lookup: "t \<in> set (tasks db) \<Longrightarrow> queue_inv db \<Longrightarrow> task_status_of db (ti_Id t) = ti_Status t"
  using lookup_row_in [OF queue_invD(1)] by (auto simp: task_status_of_def)

lemma status_after_dequeue:
  assumes inv: "queue_inv db" and choice: "dequeue_choice e types db = Some t"
  shows "task_status_of db (ti_Id t) = Some Pending \<and>
    task_status_of (dequeue_effect e tok t db) (ti_Id t) = Some Running \<and> ti_Typename t \<in> set types"
proof -
  note t = dequeue_choice_Some [OF choice]
  have "ti_Status t = Some Pending"
    using queue_invD(4) [OF inv, of t] t
    by (auto simp: row_ok_def ready_def split: option.splits task_status.splits)
  moreover have "lookup_row ti_Id (ti_Id t) (tasks db) = Some t"
    using lookup_row_in [OF queue_invD(1) [OF inv]] t by blast
  ultimately show ?thesis
    using t by (auto simp: task_status_of_def dequeue_effect_def lookup_row_update_where has_id_def ready_def)
qed

interpretation pgq: task_queue "pg_queue e newId token" queue_inv task_status_of for e newId token
proof (unfold_locales, simp_all only: pg_queue_def queue_ops.simps)
  fix s :: queue_db and i err
  assume inv: "queue_inv s"
  show "queue_inv (snd (Finish e i err s))" using queue_inv_exec_op [OF inv, of "OFinish i err" e] by simp
next
  fix s :: queue_db and i
  assume inv: "queue_inv s"
  show "queue_inv (snd (Requeue e i s))" using queue_inv_exec_op [OF inv, of "ORequeue i" e] by simp
next
  fix s :: queue_db and types
  assume inv: "queue_inv s"
  show "queue_inv (snd (RequeueFailedTasks e types s))"
    using queue_inv_exec_op [OF inv, of "ORequeueFailed types" e] by simp
next
  fix s :: queue_db and tok
  assume inv: "queue_inv s"
  show "queue_inv (snd (RefreshHeartbeat e id id tok s))"
    using queue_inv_exec_op [OF inv, of "ORefresh tok" e] by simp
next
  fix s :: queue_db and i
  assume inv: "queue_inv s"
  show "queue_inv (snd (CancelQ e i s))" using queue_inv_exec_op [OF inv, of "OCancel i" e] by simp
next
  fix s s' :: queue_db and types r
  assume "queue_inv s" "Dequeue e token types [] s = Some (r, s')"
  then show "queue_inv s'" by (auto dest!: Dequeue_no_wake simp: dequeueMaybe_Inr intro: queue_inv_dequeue)
next
  fix s s' :: queue_db and i err
  assume "queue_inv s" "Finish e i err s = (Inr (), s')"
  then show "task_status_of s' i = Some (case err of None \<Rightarrow> Completed | Some x \<Rightarrow> Failed)"
    by (auto simp: Finish_Inr status_after_finish) (simp add: finish_status_def split: option.splits)
next
  fix s s' :: queue_db and i err x
  assume "Finish e i err s = (Inl x, s')"
  then show "s' = s" by (rule Inl_unchanged)
next
  fix s s' :: queue_db and i
  assume inv: "queue_inv s" and r: "Requeue e i s = (Inr (), s')"
  show "task_status_of s' i = Some Pending"
  proof (rule Requeue_cases [OF queue_invD(1) [OF inv], of e i])
    fix info assume info: "lookup_row ti_Id i (tasks s) = Some info" "in_progress info"
      "Requeue e i s = (Inr (), requeue_effect e i s)"
    then show ?thesis using r lookup_row_SomeD [OF info(1)]
      by (simp add: task_status_of_def requeue_effect_def sqlDeleteHeartbeat_def sqlRequeue_def sqlNotify_def
          lookup_row_update_where requeue_row_def in_progress_def)
  qed (use r in simp_all)
next
  fix s s' :: queue_db and i x
  assume inv: "queue_inv s" and r: "Requeue e i s = (Inl x, s')"
  show "s' = s \<or> task_status_of s' i = Some Failed"
  proof (rule Requeue_cases [OF queue_invD(1) [OF inv], of e i])
    fix info assume info: "lookup_row ti_Id i (tasks s) = Some info" "in_progress info"
      "Requeue e i s = (Inl ErrMaxRetriesExceeded, finish_effect e info (Some ErrMaxRetriesExceeded) s)"
    then show ?thesis using r status_after_finish [OF inv info(1,2)] by (simp add: finish_status_def)
  qed (use r in simp_all)
next
  fix s s' :: queue_db and i
  assume "queue_inv s" "CancelQ e i s = (Inr (), s')"
  then show "task_status_of s' i \<notin> {Some Running, Some Pending}"
    using status_after_cancel by (simp add: CancelQ_Inr)
next
  fix s s' :: queue_db and types info deps
  assume "queue_inv s" "Dequeue e token types [] s = Some (Inr (info, deps), s')"
  then show "task_status_of s (ti_Id info) = Some Pending \<and> task_status_of s' (ti_Id info) = Some Running \<and>
      ti_Typename info \<in> set types"
    by (auto dest!: Dequeue_no_wake simp: dequeueMaybe_Inr status_after_dequeue)
       (auto dest: status_after_dequeue simp: mark_running_def)
qed

section \<open>The worker's protocol\<close>

text \<open>
  Whatever the queue answers and the handlers do, panics included, and however the events of
  the pool interleave, a worker holds at most one ready value, so its sends never block, holds
  none while it processes a task, so it never processes two, and its record of the running task
  is the task it processes.
\<close>

theorem worker_processes_one_task:
  assumes "pool_run n types s p" "w < length (p_workers p)"
  shows "w_ready (get_worker w p) \<le> 1 \<and>
    (\<forall>info. w_processing (get_worker w p) = Some info \<longrightarrow>
       w_ready (get_worker w p) = 0 \<and> rt_id (w_running (get_worker w p)) = ti_Id info)"
  using pool_okD [OF pool_run_ok [OF assms(1)] assms(2)] by (auto simp: worker_ok_def get_worker_def)

definition demo_pool :: "nat \<Rightarrow> queue_db \<Rightarrow> queue_db pool" where
  "demo_pool n s = StartWorkers n TaskTypes \<lparr>p_queue = s, p_workers = [], p_workerMap = NewConcurrentMap,
     p_canceled = NewConcurrentMap, p_next_ctx = 0, p_results = [], p_crashed = False\<rparr>"

lemma demo_pool_run: "pool_run n TaskTypes s (demo_pool n s)"
  unfolding demo_pool_def by (rule pool_init)

definition demo_pool1 :: "queue_db pool" where
  "demo_pool1 = the (on_ready (pg_queue (demo_env 5) 0 7) 0 (demo_pool 2 (run_ops 0 demo_ops empty_db)))"

theorem worker_processes_one_task_witness:
  "w_processing (get_worker 0 demo_pool1) \<noteq> None \<and> w_ready (get_worker 0 demo_pool1) = 0 \<and>
   rt_id (w_running (get_worker 0 demo_pool1)) = 3"
proof -
  let ?p = "demo_pool 2 (run_ops 0 demo_ops empty_db)"
  have *: "live 0 ?p" "0 < w_ready (get_worker 0 ?p)" "on_ready (pg_queue (demo_env 5) 0 7) 0 ?p \<noteq> None"
    "0 < length (p_workers demo_pool1)"
    "case w_processing (get_worker 0 demo_pool1) of None \<Rightarrow> False | Some info \<Rightarrow> ti_Id info = 3"
    unfolding live_def by code_simp+
  then have "pool_step ?p demo_pool1"
    unfolding demo_pool1_def by (intro step_ready [OF *(1,2)]) auto
  then have "pool_run 2 TaskTypes (run_ops 0 demo_ops empty_db) demo_pool1"
    by (rule pool_step [OF demo_pool_run])
  from worker_processes_one_task [OF this *(4)] *(5) show ?thesis by (auto split: option.splits)
qed

section \<open>Processing a task\<close>

lemma running_row:
  assumes "queue_inv db" "task_status_of db i = Some Running"
  obtains info where "lookup_row ti_Id i (tasks db) = Some info" "in_progress info" "ti_Status info = Some Running"
proof -
  from assms(2) obtain info where info: "lookup_row ti_Id i (tasks db) = Some info" "ti_Status info = Some Running"
    by (auto simp: task_status_of_def bind_eq_Some_conv)
  then have "in_progress info"
    using queue_invD(4) [OF assms(1), of info] lookup_row_SomeD [OF info(1)]
    by (auto simp: row_ok_def in_progress_def)
  with info that show thesis by blast
qed

lemma Finish_running:
  assumes "queue_inv db" "no_faults e" "task_status_of db i = Some Running"
  shows "\<exists>db'. Finish e i err db = (Inr (), db')"
  using running_row [OF assms(1,3)] assms(2) unfolding Finish_Inr by (metis finish_calls_ok_no_faults no_faultsD)

lemma process_returned_worker:
  assumes "handlers (ti_Typename info) = Some h" "h info (p_queue p) = (Returned err, s)" "w < length (p_workers p)"
    "\<forall>x. err = Some x \<longrightarrow> \<not> errors_Is x ErrServerExited"
  shows "w_ready (get_worker w (process Q handlers w info p)) = Suc (w_ready (get_worker w p))"
    "rt_id (w_running (get_worker w (process Q handlers w info p))) = uuid_Nil"
    "cm_Get (ti_Id info) (p_workerMap (process Q handlers w info p)) = None"
  using assms
  by (cases err; simp add: process_def Let_def get_worker_def worker_defs cmap.get_remove)+

text \<open>
  C10. A task whose handler returns: on success it becomes completed, on an error failed, and the
  worker is free again, with its record cleared and its entry gone from the worker map; when
  the handler stopped because the task was canceled, the queue is left alone and the worker is
  free; when the server exits, the queue is left alone and the worker takes no other task.
\<close>

theorem process_outcome:
  assumes "queue_inv s" "no_faults e" "task_status_of s (ti_Id info) = Some Running"
    and "handlers (ti_Typename info) = Some h" "h info (p_queue p) = (Returned err, s)" "w < length (p_workers p)"
  shows "let p' = process (pg_queue e i tok) handlers w info p in
    if (case err of None \<Rightarrow> False | Some x \<Rightarrow> errors_Is x ErrServerExited)
    then p_queue p' = s \<and> w_ready (get_worker w p') = w_ready (get_worker w p)
    else (if isCanceledErr err then p_queue p' = s
          else task_status_of (p_queue p') (ti_Id info) = Some (if err = None then Completed else Failed)) \<and>
      w_ready (get_worker w p') = Suc (w_ready (get_worker w p)) \<and>
      rt_id (w_running (get_worker w p')) = uuid_Nil \<and> cm_Get (ti_Id info) (p_workerMap p') = None"
proof (cases "case err of None \<Rightarrow> False | Some x \<Rightarrow> errors_Is x ErrServerExited")
  case True
  with assms(4-6) show ?thesis by (simp add: process_def Let_def get_worker_def worker_defs)
next
  case False
  then have ne: "\<forall>x. err = Some x \<longrightarrow> \<not> errors_Is x ErrServerExited" by auto
  note wk = process_returned_worker [where handlers = handlers and info = info and p = p and Q = "pg_queue e i tok",
      OF assms(4,5,6) ne]
  show ?thesis
  proof (cases "isCanceledErr err")
    case True
    then have "p_queue (process (pg_queue e i tok) handlers w info p) = s"
      using assms(4,5) False by (simp add: process_def Let_def)
    with True False wk show ?thesis by (simp add: Let_def)
  next
    case nc: False
    obtain s' where "Finish e (ti_Id info) err s = (Inr (), s')" using Finish_running [OF assms(1-3)] by blast
    then have "task_status_of (p_queue (process (pg_queue e i tok) handlers w info p)) (ti_Id info) =
        Some (case err of None \<Rightarrow> Completed | Some _ \<Rightarrow> Failed)"
      by (intro pgq.process_returned(1) [where handlers = handlers and info = info and p = p and h = h,
            OF assms(1,4,5) nc ne]) (simp add: pg_queue_def)
    with nc False wk show ?thesis by (cases err) (simp_all add: Let_def)
  qed
qed

definition demo_info :: TaskInfo where
  "demo_info = the (w_processing (get_worker 0 demo_pool1))"

lemma demo_pool1_inv: "queue_inv (p_queue demo_pool1)"
proof -
  have "fresh_ops 0 demo_ops empty_db" by code_simp
  then obtain now where "reachable (now, run_ops 0 demo_ops empty_db)"
    using run_ops_reachable [OF reachable_init] by blast
  then have i: "queue_inv (run_ops 0 demo_ops empty_db)" using reachable_inv_times by fastforce
  have "p_queue demo_pool1 = snd (the (Dequeue (demo_env 5) 7 TaskTypes [] (run_ops 0 demo_ops empty_db)))"
    by code_simp
  moreover have "Dequeue (demo_env 5) 7 TaskTypes [] (run_ops 0 demo_ops empty_db) \<noteq> None" by code_simp
  ultimately show ?thesis
    using pgq.dequeue_inv [OF i, of "demo_env 5" 0 7 TaskTypes] by (auto simp: pg_queue_def)
qed

theorem process_outcome_witness:
  "task_status_of (p_queue (process (pg_queue (demo_env 6) 0 8)
     (\<lambda>_. Some (\<lambda>_ s. (Returned (Some (Other ''boom'')), s))) 0 demo_info demo_pool1)) 3 = Some Failed"
proof -
  let ?h = "\<lambda>_ s. (Returned (Some (Other ''boom'')), s)"
  have *: "task_status_of (p_queue demo_pool1) (ti_Id demo_info) = Some Running" "ti_Id demo_info = 3"
    "0 < length (p_workers demo_pool1)" by code_simp+
  from process_outcome [OF demo_pool1_inv no_faults_demo *(1), of "\<lambda>_. Some ?h" ?h demo_pool1 "Some (Other ''boom'')" 0 6 0 8] *
  show ?thesis by (simp add: Let_def isCanceledErr_def)
qed

text \<open>
  A panic whose value is not an error is recorded as success: \<open>recoverOnPanic\<close> passes the
  failed type assertion's nil error to \<open>Finish\<close>, so the task of a handler that panics with,
  for instance, a string becomes completed.
\<close>

theorem panic_without_error_completes_task:
  assumes "queue_inv s" "no_faults e" "task_status_of s (ti_Id info) = Some Running"
    and "handlers (ti_Typename info) = Some h" "h info (p_queue p) = (Panicked None, s)"
    and "rt_id (w_running (get_worker w p)) = ti_Id info"
  shows "task_status_of (p_queue (process (pg_queue e i tok) handlers w info p)) (ti_Id info) = Some Completed"
proof -
  obtain s' where "Finish e (ti_Id info) None s = (Inr (), s')" using Finish_running [OF assms(1-3)] by blast
  then have f: "q_Finish (pg_queue e i tok) (ti_Id info) None s = (Inr (), s')" by (simp add: pg_queue_def)
  show ?thesis
    using pgq.process_panicked [where handlers = handlers and info = info and p = p and h = h,
        OF assms(1,4,5,6) f] by simp
qed

theorem panic_without_error_completes_task_witness:
  "task_status_of (p_queue (process (pg_queue (demo_env 6) 0 8) (\<lambda>_. Some (\<lambda>_ s. (Panicked None, s))) 0
     demo_info demo_pool1)) 3 = Some Completed"
proof -
  have *: "task_status_of (p_queue demo_pool1) (ti_Id demo_info) = Some Running" "ti_Id demo_info = 3"
    "rt_id (w_running (get_worker 0 demo_pool1)) = ti_Id demo_info" by code_simp+
  show ?thesis
    using panic_without_error_completes_task [OF demo_pool1_inv no_faults_demo *(1),
        of "\<lambda>_. Some (\<lambda>_ s. (Panicked None, s))" _ demo_pool1 0 6 0 8] * by simp
qed

text \<open>
  A panic leaves the worker in the worker map under the finished task's id, because the id
  is cleared before the entry is removed: when the worker then runs another task, a cancel
  notification for the finished task cancels the context of that other task.
\<close>

theorem panic_leaves_stale_map_entry:
  assumes "handlers (ti_Typename info) = Some h" "h info (p_queue p) = (Panicked err, s)" "w < length (p_workers p)"
    and "cm_Get (ti_Id info) (p_workerMap p) = Some w" "ti_Id info \<noteq> uuid_Nil"
    and "p1 = process Q handlers w info p" "\<not> p_crashed p1"
    and "on_ready Q' w p1 = Some p2" "w_processing (get_worker w p2) = Some info2" "ti_Id info2 \<noteq> ti_Id info"
    and "cm_Get (p_next_ctx p1) (p_canceled p2) = None"
  shows "rt_taskCancelFunc (w_running (get_worker w p2)) = Some (p_next_ctx p1) \<and>
    cm_Get (p_next_ctx p1) (p_canceled (on_cancel_note (ti_Id info) p2)) = Some ErrTaskCanceled"
proof -
  obtain t s' where f: "q_Finish Q (rt_id (w_running (p_workers p ! w))) err s = (t, s')" by fastforce
  have len: "w < length (p_workers p1)" using process_workers [OF assms(3), of Q handlers info] assms(3,6) by (metis length_list_update)
  have m1: "cm_Get (ti_Id info) (p_workerMap p1) = Some w"
    using assms(1-5,7) f unfolding assms(6)
    by (auto simp: process_def recoverOnPanic_def get_worker_def Let_def worker_defs cmap.get_remove split: if_splits)
  have "cm_Get (ti_Id info) (p_workerMap p2) = Some w" and
    ctx: "rt_taskCancelFunc (w_running (get_worker w p2)) = Some (p_next_ctx p1)"
    using assms(8,9,10) len m1
    by (auto simp: on_ready_def Let_def dequeue_def get_worker_def worker_defs cmap.get_set
        split: option.splits prod.splits sum.splits if_splits)
  then show ?thesis
    using assms(11) by (simp add: on_cancel_note_def cancel_ctx_def cmap.get_set)
qed

definition stale_p1 :: "queue_db pool" where
  "stale_p1 = process (pg_queue (demo_env 6) 0 8) (\<lambda>_. Some (\<lambda>_ s. (Panicked (Some (Other ''nil map'')), s))) 0
     demo_info demo_pool1"

definition stale_p2 :: "queue_db pool" where
  "stale_p2 = the (on_ready (pg_queue (demo_env 7) 0 9) 0 stale_p1)"

theorem panic_leaves_stale_map_entry_witness:
  "ti_Id (the (w_processing (get_worker 0 stale_p2))) = 1 \<and>
   cm_Get (the (rt_taskCancelFunc (w_running (get_worker 0 stale_p2)))) (p_canceled (on_cancel_note 3 stale_p2)) =
     Some ErrTaskCanceled"
proof -
  have *: "0 < length (p_workers demo_pool1)" "ti_Id demo_info = 3"
    "cm_Get (ti_Id demo_info) (p_workerMap demo_pool1) = Some 0" "ti_Id demo_info \<noteq> uuid_Nil" "\<not> p_crashed stale_p1"
    "on_ready (pg_queue (demo_env 7) 0 9) 0 stale_p1 \<noteq> None" "w_processing (get_worker 0 stale_p2) \<noteq> None"
    "ti_Id (the (w_processing (get_worker 0 stale_p2))) = 1"
    "cm_Get (p_next_ctx stale_p1) (p_canceled stale_p2) = None"
    by code_simp+
  obtain info2 where i2: "w_processing (get_worker 0 stale_p2) = Some info2" "ti_Id info2 \<noteq> ti_Id demo_info"
    using *(2,7,8) by auto
  have r: "on_ready (pg_queue (demo_env 7) 0 9) 0 stale_p1 = Some stale_p2"
    using *(6) by (auto simp: stale_p2_def)
  have "rt_taskCancelFunc (w_running (get_worker 0 stale_p2)) = Some (p_next_ctx stale_p1) \<and>
    cm_Get (p_next_ctx stale_p1) (p_canceled (on_cancel_note (ti_Id demo_info) stale_p2)) = Some ErrTaskCanceled"
    by (rule panic_leaves_stale_map_entry [where handlers = "\<lambda>_. Some (\<lambda>_ s. (Panicked (Some (Other ''nil map'')), s))",
          OF refl refl *(1) *(3) *(4) stale_p1_def *(5) r i2 *(9)])
  with * show ?thesis by simp
qed

section \<open>Heartbeats\<close>

lemma token_row:
  assumes "tokens_distinct db" "t \<in> set (tasks db)" "ti_Token t = Some tok"
  shows "lookup_row ti_Token (Some tok) (tasks db) = Some t"
proof (cases "lookup_row ti_Token (Some tok) (tasks db)")
  case None
  then show ?thesis using assms by (force simp: lookup_row_None image_iff)
next
  case (Some u)
  then show ?thesis using lookup_row_SomeD [OF Some] assms by (auto simp: tokens_distinct_def)
qed

lemma refreshed_not_stale:
  assumes "now' - now \<le> olderThan"
  shows "tok \<notin> set (sqlQueryHeartbeats now' olderThan (snd (sqlRefreshHeartbeat now tok db)))"
proof -
  have "tok \<notin> set (map hb_token (filter (\<lambda>h. olderThan < now' - hb_time h)
      (update_where (\<lambda>h. hb_token h = tok) (\<lambda>h. h\<lparr>hb_time := now\<rparr>) hs)))" for hs
  proof (induction hs)
    case (Cons h hs)
    then show ?case using assms by (cases "hb_token h = tok") simp_all
  qed simp
  then show ?thesis by (simp add: sqlQueryHeartbeats_def sqlRefreshHeartbeat_def del: set_map)
qed

text \<open>
  In every reachable state, refreshing the heartbeat of a running task succeeds and moves its
  heartbeat to the present, so that the heartbeat listener does not see it until the configured
  time has passed; and \<open>RefreshHeartbeat\<close> never reports \<open>ErrRowsNotAffected\<close>, the error on
  which a worker would stop beating.
\<close>

theorem heartbeat_refresh:
  assumes "reachable (now, db)" "no_faults e"
  shows "fst (RefreshHeartbeat e id id tok db) \<noteq> Inl ErrRowsNotAffected \<and>
    (\<forall>t \<in> set (tasks db). ti_Status t = Some Running \<and> ti_Token t = Some tok \<and> tok \<noteq> uuid_Nil \<longrightarrow>
       (\<exists>db'. RefreshHeartbeat e id id tok db = (Inr (), db') \<and>
         (\<forall>e' olderThan. clock_timestamp e' - clock_timestamp e \<le> olderThan \<longrightarrow> tok \<notin> set (Heartbeats e' olderThan db'))))"
proof -
  have inv: "queue_inv db" and tokens: "tokens_distinct db"
    using reachable_inv_times [OF assms(1)] reachable_tokens [OF assms(1)] by simp_all
  let ?n = "rows_affected (\<lambda>h. hb_token h = tok) (task_heartbeats db)"
  have le: "?n \<le> 1"
    by (rule rows_affected_key [OF queue_invD(2) [OF inv]]) simp
  have one: "?n = 1" if t: "t \<in> set (tasks db)" "ti_Status t = Some Running" "ti_Token t = Some tok" for t
    using queue_invD(5) [OF inv t(1,2)] t(3) le
    by (auto simp: has_heartbeat_def rows_affected_0_iff dest!: le_Suc_eq [THEN iffD1])
  show ?thesis
  proof (intro conjI ballI impI)
    have "ti_Status t \<noteq> Some Running" if "?n \<noteq> 1" "lookup_row ti_Token (Some tok) (tasks db) = Some t" for t
      using one [of t] lookup_row_SomeD [OF that(2)] that(1) by blast
    then show "fst (RefreshHeartbeat e id id tok db) \<noteq> Inl ErrRowsNotAffected"
      using assms(2)
      by (auto simp: RefreshHeartbeat_def sqlRefreshHeartbeat_def Let_def IdFromToken_def sqlQueryIdFromToken_def
          split: option.splits)
  next
    fix t assume t: "t \<in> set (tasks db)" "ti_Status t = Some Running \<and> ti_Token t = Some tok \<and> tok \<noteq> uuid_Nil"
    let ?db' = "snd (sqlRefreshHeartbeat (clock_timestamp e) tok db)"
    have "RefreshHeartbeat e id id tok db = (Inr (), ?db')"
      using one [of t] t assms(2) by (simp add: RefreshHeartbeat_def sqlRefreshHeartbeat_def)
    moreover have "tok \<notin> set (Heartbeats e' olderThan ?db')"
      if "clock_timestamp e' - clock_timestamp e \<le> olderThan" for e' olderThan
      using refreshed_not_stale [OF that] by (simp add: Heartbeats_def)
    ultimately show "\<exists>db'. RefreshHeartbeat e id id tok db = (Inr (), db') \<and>
        (\<forall>e' olderThan. clock_timestamp e' - clock_timestamp e \<le> olderThan \<longrightarrow> tok \<notin> set (Heartbeats e' olderThan db'))"
      by blast
  qed
qed

theorem heartbeat_refresh_witness:
  "\<exists>db'. RefreshHeartbeat (demo_env 20) id id 7 demo_db = (Inr (), db') \<and> 7 \<notin> set (Heartbeats (demo_env 25) 5 db') \<and>
     7 \<in> set (Heartbeats (demo_env 25) 5 demo_db)"
proof -
  obtain now where r: "reachable (now, demo_db)" using demo_reachable by blast
  have *: "list_ex (\<lambda>t. ti_Status t = Some Running \<and> ti_Token t = Some 7 \<and> (7::uuid) \<noteq> uuid_Nil) (tasks demo_db)"
    "7 \<in> set (Heartbeats (demo_env 25) 5 demo_db)" by code_simp+
  from heartbeat_refresh [OF r no_faults_demo [of 20], of 7] *(1) obtain db' where
    "RefreshHeartbeat (demo_env 20) id id 7 demo_db = (Inr (), db')"
    "\<forall>e' olderThan. clock_timestamp e' - clock_timestamp (demo_env 20) \<le> olderThan \<longrightarrow> 7 \<notin> set (Heartbeats e' olderThan db')"
    unfolding list_ex_iff by blast
  with *(2) show ?thesis by (auto intro!: exI [of _ db'])
qed

definition running_tokens :: "queue_db \<Rightarrow> uuid set" where
  "running_tokens db = {tok. \<exists>t \<in> set (tasks db). ti_Status t = Some Running \<and> ti_Token t = Some tok}"

lemma Requeue_running_tokens:
  assumes inv: "queue_inv db"
  shows "running_tokens (snd (Requeue e i db)) \<subseteq> running_tokens db"
proof
  fix tok assume "tok \<in> running_tokens (snd (Requeue e i db))"
  then obtain t' where t': "t' \<in> set (tasks (exec_op e (ORequeue i) db))" "ti_Status t' = Some Running"
      "ti_Token t' = Some tok" by (auto simp: running_tokens_def)
  from exec_op_rows [OF inv t'(1)] obtain t where t: "t \<in> set (tasks db)" "row_step e db (ORequeue i) t t'" by blast
  then have "t' = t" using t'(2) by (auto elim!: row_step.cases)
  then show "tok \<in> running_tokens db" using t t' by (auto simp: running_tokens_def)
qed

lemma Requeue_drops_token:
  assumes inv: "queue_inv db" and dist: "tokens_distinct db" and nf: "no_faults e"
    and t: "t \<in> set (tasks db)" "ti_Status t = Some Running" "ti_Token t = Some tok"
  shows "tok \<notin> running_tokens (snd (Requeue e (ti_Id t) db))"
proof
  assume "tok \<in> running_tokens (snd (Requeue e (ti_Id t) db))"
  then obtain t' where t': "t' \<in> set (tasks (exec_op e (ORequeue (ti_Id t)) db))" "ti_Status t' = Some Running"
      "ti_Token t' = Some tok" by (auto simp: running_tokens_def)
  from exec_op_rows [OF inv t'(1)] obtain u where u: "u \<in> set (tasks db)" "row_step e db (ORequeue (ti_Id t)) u t'" by blast
  then have "t' = u" using t'(2) by (auto elim!: row_step.cases)
  then have "t' = t" using dist u t t' by (auto simp: tokens_distinct_def)
  have inv': "queue_inv (snd (Requeue e (ti_Id t) db))"
    using queue_inv_exec_op [OF inv, of "ORequeue (ti_Id t)" e] by simp
  have row: "lookup_row ti_Id (ti_Id t) (tasks db) = Some t" using lookup_row_in [OF queue_invD(1) [OF inv] t(1)] .
  have "in_progress t" using queue_invD(4) [OF inv t(1)] t(2) by (auto simp: row_ok_def in_progress_def)
  then have "task_status_of (snd (Requeue e (ti_Id t) db)) (ti_Id t) \<in> {Some Pending, Some Failed}"
    using row status_after_finish [OF inv row, of e "Some ErrMaxRetriesExceeded"]
    by (cases "ti_Retries t = MaxTaskRetries")
       (simp_all add: Requeue_def run_tx_def requeueTx_running [OF inv nf row t(2)] finish_status_def
         task_status_of_def requeue_effect_def sqlDeleteHeartbeat_def sqlRequeue_def sqlNotify_def
         lookup_row_update_where requeue_row_def in_progress_def)
  then show False using status_lookup [OF _ inv', of t'] t' \<open>t' = t\<close> by simp
qed

lemma requeue_tokens_drop:
  assumes "queue_inv db" "tokens_distinct db" "no_faults e"
  shows "running_tokens (requeue_tokens (pg_queue e i tok0) toks db) \<inter> set toks = {} \<and>
    running_tokens (requeue_tokens (pg_queue e i tok0) toks db) \<subseteq> running_tokens db"
  using assms(1,2)
proof (induction toks arbitrary: db)
  case (Cons tok toks)
  let ?db = "if fst (snd (IdFromToken e tok db)) then snd (Requeue e (fst (IdFromToken e tok db)) db) else db"
  have keep: "queue_inv ?db" "tokens_distinct ?db"
    using queue_inv_exec_op [OF Cons.prems(1), of "ORequeue _" e] tokens_distinct_exec_op [OF Cons.prems, of "ORequeue _" e]
      Cons.prems by simp_all
  have sub: "running_tokens ?db \<subseteq> running_tokens db" using Requeue_running_tokens [OF Cons.prems(1)] by simp
  have "tok \<notin> running_tokens ?db"
  proof (cases "tok \<in> running_tokens db")
    case True
    then obtain t where t: "t \<in> set (tasks db)" "ti_Status t = Some Running" "ti_Token t = Some tok"
      by (auto simp: running_tokens_def)
    have "IdFromToken e tok db = (ti_Id t, True, None)"
      using token_row [OF Cons.prems(2) t(1,3)] t(2) assms(3) by (simp add: IdFromToken_def sqlQueryIdFromToken_def)
    with Requeue_drops_token [OF Cons.prems assms(3) t] show ?thesis by simp
  qed (use sub in blast)
  moreover have "requeue_tokens (pg_queue e i tok0) (tok # toks) db = requeue_tokens (pg_queue e i tok0) toks ?db"
    by (cases "IdFromToken e tok db" rule: prod_cases3) (simp add: pg_queue_def)
  ultimately show ?case using Cons.IH [OF keep] sub by auto
qed simp

text \<open>
  C11. One tick of the heartbeat listener deals with every worker that stopped: afterwards no task
  is running under a token whose heartbeat was older than the configured time. The tables stay
  well formed.
\<close>

theorem heartbeat_listener_clears_stale:
  assumes "reachable (now, db)" "no_faults e"
  shows "queue_inv (HeartbeatListener_tick (pg_queue e i tok0) beat db) \<and>
    (\<forall>t \<in> set (tasks (HeartbeatListener_tick (pg_queue e i tok0) beat db)). \<forall>tok.
       ti_Status t = Some Running \<and> ti_Token t = Some tok \<longrightarrow> tok \<notin> set (Heartbeats e beat db))"
proof -
  have inv: "queue_inv db" "tokens_distinct db"
    using reachable_inv_times [OF assms(1)] reachable_tokens [OF assms(1)] by simp_all
  have "HeartbeatListener_tick (pg_queue e i tok0) beat db =
      requeue_tokens (pg_queue e i tok0) (Heartbeats e beat db) db"
    by (simp add: HeartbeatListener_tick_def) (simp add: pg_queue_def)
  then have "running_tokens (HeartbeatListener_tick (pg_queue e i tok0) beat db) \<inter> set (Heartbeats e beat db) = {}"
    using requeue_tokens_drop [OF inv assms(2), of i tok0 "Heartbeats e beat db"] by simp
  then show ?thesis
    using pgq.heartbeat_tick_keeps [OF inv(1)] by (auto simp: running_tokens_def)
qed

theorem heartbeat_listener_clears_stale_witness:
  "Heartbeats (demo_env 100) 50 demo_db = [7, 8] \<and>
   map ti_Status (tasks (HeartbeatListener_tick (pg_queue (demo_env 100) 0 0) 50 demo_db)) =
     [Some Pending, Some Pending, Some Pending] \<and>
   queue_inv (HeartbeatListener_tick (pg_queue (demo_env 100) 0 0) 50 demo_db)"
proof -
  obtain now where r: "reachable (now, demo_db)" using demo_reachable by blast
  have "Heartbeats (demo_env 100) 50 demo_db = [7, 8]"
    "map ti_Status (tasks (HeartbeatListener_tick (pg_queue (demo_env 100) 0 0) 50 demo_db)) =
      [Some Pending, Some Pending, Some Pending]" by code_simp+
  with heartbeat_listener_clears_stale [OF r no_faults_demo [of 100], of 0 0 50] show ?thesis by blast
qed

end
