(* ===== verification/ConfigValues.thy ===== *)
theory ConfigValues
  imports GoStrings
begin

text \<open>
  The value constraints of \<open>pkg/config/value_constraints.go\<close>: the accepted distribution
  versions, architectures and extended releases, and the functions that check labels against
  them. Error responses of \<open>pkg/errors\<close> and their HTTP codes follow.
\<close>

section \<open>Value constraints\<close>

definition StatusValid :: string where "StatusValid = ''Valid''"
definition StatusUnavailable :: string where "StatusUnavailable = ''Unavailable''"
definition StatusInvalid :: string where "StatusInvalid = ''Invalid''"
definition StatusPending :: string where "StatusPending = ''Pending''"

definition OriginExternal :: string where "OriginExternal = ''external''"
definition OriginRedHat :: string where "OriginRedHat = ''red_hat''"
definition OriginUpload :: string where "OriginUpload = ''upload''"
definition OriginCommunity :: string where "OriginCommunity = ''community''"
definition OriginLightwell :: string where "OriginLightwell = ''lightwell''"

definition RedHatOrg :: string where "RedHatOrg = ''-1''"
definition CommunityOrg :: string where "CommunityOrg = ''-2''"
definition LightwellOrg :: string where "LightwellOrg = ''-3''"
definition LightwellDemoOrg :: string where "LightwellDemoOrg = ''-4''"

definition RedHatDomainName :: string where "RedHatDomainName = ''cs-redhat''"
definition CommunityDomainName :: string where "CommunityDomainName = ''cs-community''"
definition LightwellDomainName :: string where "LightwellDomainName = ''lightwell''"
definition LightwellDemoDomainName :: string where "LightwellDemoDomainName = ''public-lightwell-demo''"

definition RedHatGpgKeyPath :: string where
  "RedHatGpgKeyPath = ''file:///etc/pki/rpm-gpg/RPM-GPG-KEY-redhat-release''"

definition ANY_VERSION :: string where "ANY_VERSION = ''any''"
definition ANY_ARCH :: string where "ANY_ARCH = ''any''"

definition FailedIntrospectionsLimit :: int where "FailedIntrospectionsLimit = 20"

record DistributionVersion =
  dv_Name :: string
  dv_Label :: string

record DistributionMinorVersion =
  dm_Name :: string
  dm_Label :: string
  dm_Major :: string
  dm_ExtendedReleaseStreams :: "string list"

definition DistributionVersions :: "DistributionVersion list" where
  "DistributionVersions = [
     \<lparr>dv_Name = ''Any'', dv_Label = ANY_VERSION\<rparr>, \<lparr>dv_Name = ''RHEL 7'', dv_Label = ''7''\<rparr>,
     \<lparr>dv_Name = ''RHEL 8'', dv_Label = ''8''\<rparr>, \<lparr>dv_Name = ''RHEL 9'', dv_Label = ''9''\<rparr>,
     \<lparr>dv_Name = ''RHEL 10'', dv_Label = ''10''\<rparr>]"

definition DistributionArches :: "DistributionVersion list" where
  "DistributionArches = [
     \<lparr>dv_Name = ''Any'', dv_Label = ANY_ARCH\<rparr>, \<lparr>dv_Name = ''aarch64'', dv_Label = ''aarch64''\<rparr>,
     \<lparr>dv_Name = ''ppc64le'', dv_Label = ''ppc64le''\<rparr>, \<lparr>dv_Name = ''s390x'', dv_Label = ''s390x''\<rparr>,
     \<lparr>dv_Name = ''x86_64'', dv_Label = ''x86_64''\<rparr>]"

definition DistributionMinorVersions :: "DistributionMinorVersion list" where
  "DistributionMinorVersions =
     (let mk = (\<lambda>n l m s. \<lparr>dm_Name = n, dm_Label = l, dm_Major = m, dm_ExtendedReleaseStreams = s\<rparr>);
          EUS = ''eus''; E4S = ''e4s''; EEUS = ''eeus'' in
     [mk ''RHEL 8.6'' ''8.6'' ''8'' [E4S], mk ''RHEL 8.8'' ''8.8'' ''8'' [E4S],
      mk ''RHEL 9.0'' ''9.0'' ''9'' [E4S, EEUS], mk ''RHEL 9.2'' ''9.2'' ''9'' [E4S, EEUS],
      mk ''RHEL 9.4'' ''9.4'' ''9'' [EUS, E4S, EEUS], mk ''RHEL 9.6'' ''9.6'' ''9'' [EUS, E4S, EEUS],
      mk ''RHEL 9.8'' ''9.8'' ''9'' [EUS, E4S, EEUS], mk ''RHEL 10.0'' ''10.0'' ''10'' [EUS, EEUS],
      mk ''RHEL 10.2'' ''10.2'' ''10'' [EUS, EEUS]])"

definition ExtendedReleaseStreamNames :: "(string \<times> string) list" where
  "ExtendedReleaseStreamNames = [
     (''eus'', ''Extended Update Support (EUS)''), (''e4s'', ''Update Services for SAP Solutions (E4S)''),
     (''eeus'', ''Enhanced Extended Update Support (EEUS)'')]"

definition SubscriptionFeaturesIgnored :: "string list" where
  "SubscriptionFeaturesIgnored = [''RHEL-OS-x86_64'', '''', ''lightwell-network-demo'']"

fun ValidDistributionVersionLabels :: "string list \<Rightarrow> bool \<times> string" where
  "ValidDistributionVersionLabels [] = (True, [])"
| "ValidDistributionVersionLabels (l # labels) =
     (if \<not> list_ex (\<lambda>v. dv_Label v = l) DistributionVersions then (False, l)
      else ValidDistributionVersionLabels labels)"

definition ValidArchLabel :: "string \<Rightarrow> bool" where
  "ValidArchLabel label = list_ex (\<lambda>a. dv_Label a = label) DistributionArches"

definition ValidDistributionMinorVersionLabel :: "string \<Rightarrow> bool" where
  "ValidDistributionMinorVersionLabel label = list_ex (\<lambda>v. dm_Label v = label) DistributionMinorVersions"

definition ValidExtendedReleaseLabel :: "string \<Rightarrow> bool" where
  "ValidExtendedReleaseLabel label = (map_of ExtendedReleaseStreamNames label \<noteq> None)"

definition SnapshotInterval :: "bool \<Rightarrow> string" where
  "SnapshotInterval redHat = (if redHat then Itoa 45 @ '' minutes'' else Itoa 23 @ '' hours'')"

definition version_labels :: "string set" where
  "version_labels = {''any'', ''7'', ''8'', ''9'', ''10''}"

lemma version_label_iff: "list_ex (\<lambda>v. dv_Label v = l) DistributionVersions \<longleftrightarrow> l \<in> version_labels"
  by (auto simp: DistributionVersions_def version_labels_def ANY_VERSION_def)

lemma ValidDistributionVersionLabels_iff:
  "fst (ValidDistributionVersionLabels labels) \<longleftrightarrow> set labels \<subseteq> version_labels"
  by (induction labels) (auto simp: version_label_iff)

lemma ValidDistributionVersionLabels_first_invalid:
  "\<not> fst (ValidDistributionVersionLabels labels) \<Longrightarrow>
   find (\<lambda>l. l \<notin> version_labels) labels = Some (snd (ValidDistributionVersionLabels labels))"
  by (induction labels) (auto simp: version_label_iff)

lemma ValidArchLabel_iff: "ValidArchLabel a \<longleftrightarrow> a \<in> {''any'', ''aarch64'', ''ppc64le'', ''s390x'', ''x86_64''}"
  by (auto simp: ValidArchLabel_def DistributionArches_def ANY_ARCH_def)

section \<open>Errors and error responses\<close>

text \<open>An error of the data access layer, any other error by its text, and a wrapped error.\<close>

datatype app_error =
    DaoError (de_Err: "app_error option") (de_Message: string) (de_NotFound: bool)
      (de_BadValidation: bool) (de_AlreadyExists: bool) (de_Forbidden: bool)
  | PlainError string
  | WrappedError string app_error

fun app_error_text :: "app_error \<Rightarrow> string" where
  "app_error_text (DaoError None msg nf bv ae fb) = msg"
| "app_error_text (DaoError (Some e) msg nf bv ae fb) = app_error_text e"
| "app_error_text (PlainError s) = s"
| "app_error_text (WrappedError s e) = s @ '': '' @ app_error_text e"

text \<open>\<open>errors.Unwrap\<close>, with \<open>DaoError.Unwrap\<close>, which skips one layer.\<close>

fun unwrap_error :: "app_error \<Rightarrow> app_error option" where
  "unwrap_error (WrappedError s e) = Some e"
| "unwrap_error (PlainError s) = None"
| "unwrap_error (DaoError None msg nf bv ae fb) = None"
| "unwrap_error (DaoError (Some e) msg nf bv ae fb) = unwrap_error e"

definition dao_Wrap :: "app_error \<Rightarrow> app_error \<Rightarrow> app_error" where
  "dao_Wrap d err = (case d of
      DaoError _ msg nf bv ae fb \<Rightarrow> DaoError (Some (WrappedError msg err)) msg nf bv ae fb | _ \<Rightarrow> d)"

text \<open>\<open>errors.As\<close> for a \<open>DaoError\<close>: the first one in the chain of wrapped errors.\<close>

fun as_dao_error :: "app_error \<Rightarrow> app_error option" where
  "as_dao_error (DaoError e msg nf bv ae fb) = Some (DaoError e msg nf bv ae fb)"
| "as_dao_error (PlainError s) = None"
| "as_dao_error (WrappedError s e) = as_dao_error e"

definition HttpCodeForDaoError :: "app_error \<Rightarrow> int" where
  "HttpCodeForDaoError err = (case as_dao_error err of
      None \<Rightarrow> 500
    | Some d \<Rightarrow> if de_NotFound d then 404 else if de_BadValidation d then 400
        else if de_AlreadyExists d then 409 else if de_Forbidden d then 403 else 500)"

record HandlerError =
  he_Status :: int
  he_Title :: string
  he_Detail :: string

definition zero_HandlerError :: HandlerError where
  "zero_HandlerError = \<lparr>he_Status = 0, he_Title = [], he_Detail = []\<rparr>"

definition NewErrorResponse :: "int \<Rightarrow> string \<Rightarrow> string \<Rightarrow> HandlerError list" where
  "NewErrorResponse code title detail = [\<lparr>he_Status = code, he_Title = title, he_Detail = detail\<rparr>]"

definition handler_error_from :: "string \<Rightarrow> app_error option \<Rightarrow> HandlerError" where
  "handler_error_from title err = (case err of
      None \<Rightarrow> zero_HandlerError
    | Some e \<Rightarrow> \<lparr>he_Status = HttpCodeForDaoError e, he_Title = title, he_Detail = app_error_text e\<rparr>)"

text \<open>A single nil error makes the code call a method of nil, which panics: \<open>None\<close>.\<close>

definition NewErrorResponseFromError :: "string \<Rightarrow> app_error option list \<Rightarrow> HandlerError list option" where
  "NewErrorResponseFromError title errs =
     (if errs = [] then Some []
      else if errs = [None] then None
      else Some (map (handler_error_from title) errs))"

definition code_class :: "int \<Rightarrow> nat" where
  "code_class code =
     (if 100 \<le> code \<and> code < 200 then 0
      else if 200 \<le> code \<and> code < 300 \<or> code = 0 then 1
      else if 300 \<le> code \<and> code < 400 then 2
      else if 400 \<le> code \<and> code < 500 then 3 else 4)"

fun count_codes :: "HandlerError list \<Rightarrow> nat list \<Rightarrow> nat list" where
  "count_codes [] codes = codes"
| "count_codes (e # es) codes =
     (let i = code_class (he_Status e) in count_codes es (codes[i := Suc (codes ! i)]))"

text \<open>The loop from the last class down, stopping at the first with a count.\<close>

fun last_positive :: "nat \<Rightarrow> nat list \<Rightarrow> nat" where
  "last_positive 0 codes = 0"
| "last_positive (Suc i) codes = (if 0 < codes ! i then i else last_positive i codes)"

definition GetGeneralResponseCode :: "HandlerError list \<Rightarrow> int" where
  "GetGeneralResponseCode errs =
     (if errs = [] then 200
      else if length errs = 1 then he_Status (errs ! 0)
      else (let codes = count_codes errs [0, 0, 0, 0, 0] in int (last_positive 5 codes + 1) * 100))"

lemma code_class_bound: "code_class c < 5"
  by (simp add: code_class_def)

lemma length_count_codes [simp]: "length (count_codes es codes) = length codes"
  by (induction es codes rule: count_codes.induct) (auto simp: Let_def)

lemma count_codes_positive:
  assumes "length codes = 5" "i < 5"
  shows "0 < count_codes es codes ! i \<longleftrightarrow> 0 < codes ! i \<or> (\<exists>e \<in> set es. code_class (he_Status e) = i)"
  using assms(1)
proof (induction es codes rule: count_codes.induct)
  case (2 e es codes)
  show ?case
    using "2.IH" [OF refl] "2.prems" assms(2) code_class_bound [of "he_Status e"]
    by (auto simp: Let_def nth_list_update)
qed simp

lemma last_positive_le: "last_positive n codes \<le> n - 1"
  by (induction n) auto

lemma last_positive_max:
  assumes "j < n" "0 < codes ! j"
  shows "0 < codes ! last_positive n codes \<and> j \<le> last_positive n codes"
  using assms by (induction n) (auto simp: less_Suc_eq)

text \<open>
  The status of a response with several errors: it is the hundred of the highest class of
  status present among them, not of the most common one.
\<close>

theorem general_response_code_is_highest_class:
  assumes "1 < length errs"
  shows "GetGeneralResponseCode errs = int (Max (code_class ` he_Status ` set errs) + 1) * 100"
proof -
  let ?codes = "count_codes errs [0, 0, 0, 0, 0]"
  let ?m = "last_positive 5 ?codes"
  have pos: "0 < ?codes ! i \<longleftrightarrow> (\<exists>e \<in> set errs. code_class (he_Status e) = i)" if "i < 5" for i
    using count_codes_positive [of "[0, 0, 0, 0, 0]" i errs] that by (auto simp: less_Suc_eq numeral_eq_Suc)
  obtain e where e: "e \<in> set errs" using assms by (cases errs) auto
  have top: "0 < ?codes ! ?m \<and> code_class (he_Status x) \<le> ?m" if "x \<in> set errs" for x
    using last_positive_max [OF code_class_bound] pos [OF code_class_bound] that by blast
  have "?m < 5" using last_positive_le [of 5 ?codes] by simp
  then have "?m \<in> code_class ` he_Status ` set errs" using top [OF e] pos [of ?m] by (metis image_eqI)
  then have "Max (code_class ` he_Status ` set errs) = ?m"
    using top by (intro Max_eqI) auto
  then show ?thesis using assms by (auto simp: GetGeneralResponseCode_def Let_def)
qed

definition demo_errors :: "HandlerError list" where
  "demo_errors = [\<lparr>he_Status = 404, he_Title = [], he_Detail = []\<rparr>, \<lparr>he_Status = 404, he_Title = [], he_Detail = []\<rparr>,
     \<lparr>he_Status = 404, he_Title = [], he_Detail = []\<rparr>, \<lparr>he_Status = 500, he_Title = [], he_Detail = []\<rparr>]"

theorem general_response_code_is_highest_class_witness:
  "GetGeneralResponseCode demo_errors = int (Max (code_class ` he_Status ` set demo_errors) + 1) * 100 \<and>
   GetGeneralResponseCode demo_errors = 500"
  using general_response_code_is_highest_class [of demo_errors]
  by (simp add: demo_errors_def) (simp add: code_class_def)

end
