(* ===== verification/Rbac.thy ===== *)
theory Rbac
  imports ConfigValues Utils
begin

text \<open>
  Access control: request paths (\<open>pkg/handler/utils/path.go\<close>), the map from route to permission
  (\<open>pkg/rbac/permission_map.go\<close>), the access list cache (\<open>pkg/cache\<close>) and the two permission
  clients (\<open>pkg/rbac/client_wrapper.go\<close>, \<open>kessel.go\<close>). The RBAC and Kessel services, Redis and
  the JSON codec are arguments.
\<close>

section \<open>Paths\<close>

fun drop_empty_tail :: "string list \<Rightarrow> string list" where
  "drop_empty_tail [] = []"
| "drop_empty_tail (x # xs) = (case drop_empty_tail xs of [] \<Rightarrow> if x = [] then [] else [x] | ys \<Rightarrow> x # ys)"

definition NewPathWithString :: "string \<Rightarrow> string list" where
  "NewPathWithString path =
     (if path = [] \<or> path = ''/'' then []
      else if hd path \<noteq> CHR ''/'' then []
      else drop_empty_tail (tl (Split path (CHR ''/''))))"

text \<open>\<open>None\<close>: the panic of indexing the first byte of an empty version segment.\<close>

definition RemovePrefixes :: "string list \<Rightarrow> string list option" where
  "RemovePrefixes output =
     (if length output < 4 then Some []
      else if output ! 0 = ''beta'' \<and> length output < 5 then Some []
      else let idx = (if output ! 0 = ''beta'' then 1 else 0) in
        if output ! idx \<noteq> ''api'' then Some []
        else if output ! (idx + 1) \<noteq> ''content-sources'' then Some []
        else case output ! (idx + 2) of
            [] \<Rightarrow> None
          | c # _ \<Rightarrow> if c \<noteq> CHR ''v'' then Some [] else Some (drop (idx + 3) output))"

definition StartWithResources :: "string list \<Rightarrow> string list list \<Rightarrow> bool" where
  "StartWithResources p resources =
     list_ex (\<lambda>r. length r \<le> length p \<and> list_all (\<lambda>i. p ! i = r ! i) [0..<length r]) resources"

section \<open>The permission map\<close>

type_synonym Resource = string
type_synonym Verb = string

definition RbacVerbRead :: Verb where "RbacVerbRead = ''read''"
definition RbacVerbWrite :: Verb where "RbacVerbWrite = ''write''"
definition RbacVerbUpload :: Verb where "RbacVerbUpload = ''upload''"
definition ResourceRepositories :: Resource where "ResourceRepositories = ''repositories''"
definition ResourceTemplates :: Resource where "ResourceTemplates = ''templates''"
definition ResourceAny :: Resource where "ResourceAny = ''*''"
definition ResourceUndefined :: Resource where "ResourceUndefined = []"

record rbacEntry =
  resource :: Resource
  verb :: Verb

type_synonym PermissionsMap = "string \<rightharpoonup> (string \<rightharpoonup> rbacEntry)"

definition NewPermissionsMap :: PermissionsMap where
  "NewPermissionsMap = Map.empty"

definition Permission :: "PermissionsMap \<Rightarrow> string \<Rightarrow> string \<Rightarrow> (Resource \<times> Verb) option" where
  "Permission pm method path =
     (case pm method of
        None \<Rightarrow> None
      | Some paths \<Rightarrow> (case paths (Trim path ''/'') of
            None \<Rightarrow> None
          | Some permission \<Rightarrow> Some (resource permission, verb permission)))"

text \<open>
  The map after the call and whether the receiver (and not nil) is returned. A permission
  already present is changed in a local copy only.
\<close>

definition PermissionsMap_Add ::
  "PermissionsMap \<Rightarrow> string \<Rightarrow> string \<Rightarrow> Resource \<Rightarrow> Verb \<Rightarrow> PermissionsMap \<times> bool" where
  "PermissionsMap_Add pm method path res v =
     (if method = [] \<or> path = [] \<or> res = [] \<or> v = [] then (pm, False)
      else if res = ''*'' \<or> v = ''*'' then (pm, False)
      else (let path' = Trim path ''/'' in
        case pm method of
          Some paths \<Rightarrow>
            (case paths path' of
               Some permission \<Rightarrow> (pm, True)
             | None \<Rightarrow> (pm(method \<mapsto> paths(path' \<mapsto> \<lparr>resource = res, verb = v\<rparr>)), True))
        | None \<Rightarrow> (pm(method \<mapsto> [path' \<mapsto> \<lparr>resource = res, verb = v\<rparr>]), True)))"

text \<open>A registration: method, path, resource, verb.\<close>

type_synonym registration = "string \<times> string \<times> Resource \<times> Verb"

definition register :: "registration \<Rightarrow> PermissionsMap \<Rightarrow> PermissionsMap" where
  "register r pm = (case r of (method, path, res, v) \<Rightarrow> fst (PermissionsMap_Add pm method path res v))"

section \<open>The access list cache\<close>

text \<open>What the code reads of the identity header.\<close>

record identity =
  id_User :: "string option"
  id_ServiceAccount :: "string option"
  id_OrgID :: string
  id_InternalOrgID :: string
  id_AccountNumber :: string
  id_Type :: string

text \<open>With neither a user nor a service account the code reads through a nil pointer: \<open>None\<close>.\<close>

definition authKey :: "identity \<Rightarrow> string option" where
  "authKey i =
     (case (id_User i, id_ServiceAccount i) of
        (None, Some sa) \<Rightarrow> Some (''authen:'' @ sa @ '','' @ id_OrgID i)
      | (Some u, _) \<Rightarrow> Some (''authen:'' @ u @ '','' @ id_OrgID i)
      | (None, None) \<Rightarrow> None)"

definition subscriptionCheckKey :: "identity \<Rightarrow> string" where
  "subscriptionCheckKey i = ''subscription-check:'' @ id_OrgID i"

definition featureStatusKey :: "identity \<Rightarrow> string" where
  "featureStatusKey i = ''feature-status:'' @ id_OrgID i"

definition roadmapAppstreamsKey :: "identity \<Rightarrow> string" where
  "roadmapAppstreamsKey i = ''roadmap-appstreams:'' @ id_OrgID i"

definition roadmapRhelLifecycleKey :: "identity \<Rightarrow> string" where
  "roadmapRhelLifecycleKey i = ''roadmap-rhel-lifecycle:'' @ id_OrgID i"

definition contentCountsKey :: "string \<Rightarrow> string \<Rightarrow> string" where
  "contentCountsKey domainName repoUUID = ''content-counts:'' @ domainName @ '':'' @ repoUUID"

datatype cache_error = ErrNotFound | RedisError | UnmarshalError | MarshalError | NoUser

text \<open>
  The Redis server: its keys, and whether commands reach it. A key that expired is absent.
  Failed writes are silent: the code drops the result of \<open>Set\<close>.
\<close>

record redis =
  redis_keys :: "string \<rightharpoonup> string"
  redis_up :: bool

definition redis_get :: "redis \<Rightarrow> string \<Rightarrow> cache_error + string" where
  "redis_get r key =
     (if \<not> redis_up r then Inl RedisError
      else case redis_keys r key of None \<Rightarrow> Inl ErrNotFound | Some buf \<Rightarrow> Inr buf)"

definition redis_set :: "string \<Rightarrow> string \<Rightarrow> redis \<Rightarrow> redis" where
  "redis_set key v r = (if redis_up r then r\<lparr>redis_keys := (redis_keys r)(key \<mapsto> v)\<rparr> else r)"

text \<open>Reading and writing a JSON value under a key; \<open>enc\<close> and \<open>dec\<close> are the codec.\<close>

definition redis_read :: "(string \<Rightarrow> 'a option) \<Rightarrow> string \<Rightarrow> redis \<Rightarrow> cache_error + 'a" where
  "redis_read dec key r =
     (case redis_get r key of
        Inl e \<Rightarrow> Inl e
      | Inr buf \<Rightarrow> (case dec buf of None \<Rightarrow> Inl UnmarshalError | Some v \<Rightarrow> Inr v))"

definition redis_write :: "('a \<Rightarrow> string option) \<Rightarrow> string \<Rightarrow> 'a \<Rightarrow> redis \<Rightarrow> cache_error option \<times> redis" where
  "redis_write enc key v r =
     (case enc v of None \<Rightarrow> (Some MarshalError, r) | Some buf \<Rightarrow> (None, redis_set key buf r))"

definition redis_GetAccessList :: "(string \<Rightarrow> 'a option) \<Rightarrow> identity \<Rightarrow> redis \<Rightarrow> cache_error + 'a" where
  "redis_GetAccessList dec i r =
     (case (id_User i, authKey i) of
        (Some u, Some key) \<Rightarrow> redis_read dec key r
      | _ \<Rightarrow> Inl NoUser)"

definition redis_SetAccessList ::
  "('a \<Rightarrow> string option) \<Rightarrow> identity \<Rightarrow> 'a \<Rightarrow> redis \<Rightarrow> cache_error option \<times> redis" where
  "redis_SetAccessList enc i acl r =
     (case enc acl of
        None \<Rightarrow> (Some MarshalError, r)
      | Some buf \<Rightarrow> (case (id_User i, authKey i) of
            (Some u, Some key) \<Rightarrow> (None, redis_set key buf r)
          | _ \<Rightarrow> (Some NoUser, r)))"

record RepoContentCount =
  Packages :: int
  Builds :: int
  Versions :: int

definition redis_GetContentCounts ::
  "(string \<Rightarrow> RepoContentCount option) \<Rightarrow> string \<Rightarrow> string \<Rightarrow> redis \<Rightarrow> cache_error + RepoContentCount" where
  "redis_GetContentCounts dec domainName repoName = redis_read dec (contentCountsKey domainName repoName)"

definition redis_SetContentCounts ::
  "(RepoContentCount \<Rightarrow> string option) \<Rightarrow> string \<Rightarrow> string \<Rightarrow> RepoContentCount \<Rightarrow> redis \<Rightarrow> cache_error option \<times> redis" where
  "redis_SetContentCounts enc domainName repoName = redis_write enc (contentCountsKey domainName repoName)"

definition redis_GetSubscriptionCheck :: "(string \<Rightarrow> 'a option) \<Rightarrow> identity \<Rightarrow> redis \<Rightarrow> cache_error + 'a" where
  "redis_GetSubscriptionCheck dec i = redis_read dec (subscriptionCheckKey i)"

definition redis_SetSubscriptionCheck :: "('a \<Rightarrow> string option) \<Rightarrow> identity \<Rightarrow> 'a \<Rightarrow> redis \<Rightarrow> cache_error option \<times> redis" where
  "redis_SetSubscriptionCheck enc i = redis_write enc (subscriptionCheckKey i)"

definition redis_GetFeatureStatus :: "(string \<Rightarrow> 'a option) \<Rightarrow> identity \<Rightarrow> redis \<Rightarrow> cache_error + 'a" where
  "redis_GetFeatureStatus dec i = redis_read dec (featureStatusKey i)"

definition redis_SetFeatureStatus :: "('a \<Rightarrow> string option) \<Rightarrow> identity \<Rightarrow> 'a \<Rightarrow> redis \<Rightarrow> cache_error option \<times> redis" where
  "redis_SetFeatureStatus enc i = redis_write enc (featureStatusKey i)"

definition redis_GetRoadmapAppstreams :: "identity \<Rightarrow> redis \<Rightarrow> cache_error + string" where
  "redis_GetRoadmapAppstreams i r = redis_get r (roadmapAppstreamsKey i)"

definition redis_SetRoadmapAppstreams :: "identity \<Rightarrow> string \<Rightarrow> redis \<Rightarrow> redis" where
  "redis_SetRoadmapAppstreams i = redis_set (roadmapAppstreamsKey i)"

definition redis_GetRoadmapRhelLifecycle :: "identity \<Rightarrow> redis \<Rightarrow> cache_error + string" where
  "redis_GetRoadmapRhelLifecycle i r = redis_get r (roadmapRhelLifecycleKey i)"

definition redis_SetRoadmapRhelLifecycle :: "identity \<Rightarrow> string \<Rightarrow> redis \<Rightarrow> redis" where
  "redis_SetRoadmapRhelLifecycle i = redis_set (roadmapRhelLifecycleKey i)"

text \<open>The cache that caches nothing.\<close>

definition noop_GetAccessList :: "identity \<Rightarrow> unit \<Rightarrow> cache_error + 'a" where
  "noop_GetAccessList i s = Inl ErrNotFound"

definition noop_SetAccessList :: "identity \<Rightarrow> 'a \<Rightarrow> unit \<Rightarrow> cache_error option \<times> unit" where
  "noop_SetAccessList i acl s = (None, s)"

section \<open>Permission clients\<close>

record ('s, 'p) access_cache_ops =
  ac_Get :: "identity \<Rightarrow> 's \<Rightarrow> cache_error + 'p list"
  ac_Set :: "identity \<Rightarrow> 'p list \<Rightarrow> 's \<Rightarrow> cache_error option \<times> 's"

definition redis_cache :: "('p list \<Rightarrow> string option) \<Rightarrow> (string \<Rightarrow> 'p list option) \<Rightarrow> (redis, 'p) access_cache_ops" where
  "redis_cache enc dec = \<lparr>ac_Get = redis_GetAccessList dec, ac_Set = redis_SetAccessList enc\<rparr>"

definition noop_cache :: "(unit, 'p) access_cache_ops" where
  "noop_cache = \<lparr>ac_Get = noop_GetAccessList, ac_Set = noop_SetAccessList\<rparr>"

datatype rbac_error = CacheError cache_error | ClientError string | IdentityError

definition application :: string where "application = ''content-sources''"

text \<open>
  The decision and error, and the cache afterwards; \<open>None\<close> is the panic of a call through the nil
  cache. \<open>answer\<close> is what \<open>GetAccess\<close> of the RBAC service returns to this call, \<open>isAllowed\<close> is
  \<open>AccessList.IsAllowed\<close> of its client library.
\<close>

definition Allowed ::
  "('s, 'p) access_cache_ops option \<Rightarrow> ('p list \<Rightarrow> string \<Rightarrow> Resource \<Rightarrow> Verb \<Rightarrow> bool) \<Rightarrow> identity \<Rightarrow>
   string + 'p list \<Rightarrow> Resource \<Rightarrow> Verb \<Rightarrow> 's \<Rightarrow> (bool \<times> rbac_error option) option \<times> 's" where
  "Allowed cache isAllowed i answer res v s =
     (case (case cache of None \<Rightarrow> Inl ErrNotFound | Some ops \<Rightarrow> ac_Get ops i s) of
        Inr acl \<Rightarrow> (Some (isAllowed acl application res v, None), s)
      | Inl _ \<Rightarrow>
         (case cache of
            None \<Rightarrow> (None, s)
          | Some ops \<Rightarrow>
              (case answer of
                 Inl e \<Rightarrow> (let (err, s') = ac_Set ops i [] s in (Some (False, map_option CacheError err), s'))
               | Inr acl \<Rightarrow> (let (err, s') = ac_Set ops i acl s in
                   (Some (isAllowed acl application res v, None), s')))))"

definition mapToKesselPermission :: "Resource \<Rightarrow> Verb \<Rightarrow> string" where
  "mapToKesselPermission res v =
     (if res = ResourceAny \<or> res = ResourceUndefined \<or> res = [] then []
      else case (if v = RbacVerbRead then Some ''view'' else if v = RbacVerbWrite then Some ''edit''
                 else if v = RbacVerbUpload then Some ''upload'' else None) of
          None \<Rightarrow> []
        | Some kesselVerb \<Rightarrow>
            ''content_sources_'' @
            (if res = ResourceRepositories then ''repository'' else if res = ResourceTemplates then ''template'' else []) @
            ''_'' @ kesselVerb)"

record kessel_client =
  GetDefaultWorkspaceID :: "string \<Rightarrow> string + string"
  CheckRead :: "string \<Rightarrow> string \<Rightarrow> bool \<times> string option"
  CheckWrite :: "string \<Rightarrow> string \<Rightarrow> bool \<times> string option"

definition kessel_Allowed :: "kessel_client \<Rightarrow> identity \<Rightarrow> Resource \<Rightarrow> Verb \<Rightarrow> bool \<times> rbac_error option" where
  "kessel_Allowed k i res v =
     (if id_User i = None \<and> id_ServiceAccount i = None then (False, Some IdentityError)
      else case GetDefaultWorkspaceID k (id_OrgID i) of
          Inl e \<Rightarrow> (False, Some (ClientError (''failed to get root workspace ID: '' @ e)))
        | Inr workspaceID \<Rightarrow>
            (let kesselPermission = mapToKesselPermission res v;
                 (ok, err) = (if v = RbacVerbRead then CheckRead k workspaceID kesselPermission
                              else CheckWrite k workspaceID kesselPermission)
             in (ok, map_option ClientError err)))"

record Feature =
  Enabled :: bool
  Accounts :: "string list option"
  Organizations :: "string list option"
  Users :: "string list option"

definition listed :: "string list option \<Rightarrow> string option \<Rightarrow> bool" where
  "listed xs x = (case (xs, x) of (Some l, Some a) \<Rightarrow> a \<in> set l | _ \<Rightarrow> False)"

definition FeatureAccessible :: "identity \<Rightarrow> Feature \<Rightarrow> bool" where
  "FeatureAccessible i f =
     (if \<not> Enabled f then False
      else if Accounts f = None \<and> Users f = None \<and> Organizations f = None then True
      else if listed (Accounts f) (Some (id_AccountNumber i)) then True
      else if listed (Organizations f) (Some (id_OrgID i)) then True
      else if Users f \<noteq> None \<and> (listed (Users f) (id_User i) \<or> listed (Users f) (id_ServiceAccount i)) then True
      else False)"

section \<open>What registration and paths do\<close>

text \<open>The key a registration is stored under, and whether it is accepted.\<close>

definition reg_key :: "registration \<Rightarrow> string \<times> string" where
  "reg_key r = (case r of (method, path, res, v) \<Rightarrow> (method, Trim path ''/''))"

definition reg_accepted :: "registration \<Rightarrow> bool" where
  "reg_accepted r = (case r of (method, path, res, v) \<Rightarrow>
     method \<noteq> [] \<and> path \<noteq> [] \<and> res \<notin> {[], ''*''} \<and> v \<notin> {[], ''*''})"

definition first_registration :: "registration list \<Rightarrow> string \<Rightarrow> string \<Rightarrow> (Resource \<times> Verb) option" where
  "first_registration regs method path =
     map_option (\<lambda>r. snd (snd r)) (find (\<lambda>r. reg_accepted r \<and> reg_key r = (method, Trim path ''/'')) regs)"

lemma Permission_register:
  "Permission (register r pm) method path =
     (case Permission pm method path of
        Some p \<Rightarrow> Some p
      | None \<Rightarrow> if reg_accepted r \<and> reg_key r = (method, Trim path ''/'') then Some (snd (snd r)) else None)"
  by (cases r)
     (auto simp: Permission_def register_def PermissionsMap_Add_def reg_accepted_def reg_key_def Let_def
        split: option.splits if_splits)

lemma Permission_fold_register:
  "Permission (fold register regs pm) method path =
     (case Permission pm method path of Some p \<Rightarrow> Some p | None \<Rightarrow> first_registration regs method path)"
proof (induction regs arbitrary: pm)
  case Nil
  show ?case by (simp add: first_registration_def split: option.split)
next
  case (Cons r regs)
  show ?case
    by (auto simp: Cons.IH Permission_register first_registration_def split: option.split)
qed

text \<open>
  Looking up a permission: after any sequence of registrations the permission of a route is
  that of the first accepted registration of its method and path, with leading and trailing
  slashes ignored. A later registration of the same route does not change it, though \<open>Add\<close> is
  written to update it.
\<close>

theorem permission_of_first_registration:
  "Permission (fold register regs NewPermissionsMap) method path = first_registration regs method path"
  unfolding Permission_fold_register by (simp add: Permission_def NewPermissionsMap_def)

section \<open>The cache contract\<close>

text \<open>
  What happens to the cache between two calls, and the calls: \<open>Call\<close> asks with what the service
  would answer now, \<open>Outside\<close> is any other event of the cache (expiry, the server going away and
  coming back).
\<close>

datatype ('e, 'p) rbac_event = Call identity "string + 'p list" Resource Verb | Outside 'e

definition rbac_step ::
  "('s, 'p) access_cache_ops \<Rightarrow> ('e \<Rightarrow> 's \<Rightarrow> 's) \<Rightarrow> ('p list \<Rightarrow> string \<Rightarrow> Resource \<Rightarrow> Verb \<Rightarrow> bool) \<Rightarrow>
   ('e, 'p) rbac_event \<Rightarrow> 's \<Rightarrow> 's" where
  "rbac_step ops lose isAllowed ev s =
     (case ev of
        Call i answer res v \<Rightarrow> snd (Allowed (Some ops) isAllowed i answer res v s)
      | Outside e \<Rightarrow> lose e s)"

text \<open>The lists the service returned to calls that share a cache key.\<close>

definition answered :: "('e, 'p) rbac_event list \<Rightarrow> identity \<Rightarrow> 'p list set" where
  "answered evs i = {acl. \<exists>j res v. Call j (Inr acl) res v \<in> set evs \<and> authKey j = authKey i}"

text \<open>
  \<open>entry\<close>: what is stored for an identity; \<open>stored\<close>: what storing a list keeps of it. A hit
  returns the entry, a write changes the entries of its own key only and to the written list
  (or drops them), and outside events only remove entries.
\<close>

locale access_cache =
  fixes ops :: "('s, 'p) access_cache_ops"
    and lose :: "'e \<Rightarrow> 's \<Rightarrow> 's"
    and entry :: "identity \<Rightarrow> 's \<Rightarrow> 'p list option"
    and stored :: "'p list \<Rightarrow> 'p list option"
  assumes get_hit: "ac_Get ops i s = Inr acl \<Longrightarrow> entry i s = Some acl"
    and set_entry: "entry i (snd (ac_Set ops j acl s)) = entry i s \<or>
      authKey i = authKey j \<and> entry i (snd (ac_Set ops j acl s)) = stored acl"
    and lose_entry: "entry i (lose e s) = entry i s \<or> entry i (lose e s) = None"
begin

definition backed :: "('e, 'p) rbac_event list \<Rightarrow> 's \<Rightarrow> bool" where
  "backed evs s \<longleftrightarrow> (\<forall>i b. entry i s = Some b \<longrightarrow>
     (\<exists>acl. (acl = [] \<or> acl \<in> answered evs i) \<and> stored acl = Some b))"

lemma backed_step:
  assumes "backed evs s"
  shows "backed (evs @ [ev]) (rbac_step ops lose isAllowed ev s)"
  unfolding backed_def
proof (intro allI impI)
  fix i b
  assume b: "entry i (rbac_step ops lose isAllowed ev s) = Some b"
  have mono: "answered evs i \<subseteq> answered (evs @ [ev]) i" by (auto simp: answered_def)
  have old: "\<exists>acl. (acl = [] \<or> acl \<in> answered (evs @ [ev]) i) \<and> stored acl = Some b" if "entry i s = Some b"
    using assms that mono unfolding backed_def by (meson subsetD)
  show "\<exists>acl. (acl = [] \<or> acl \<in> answered (evs @ [ev]) i) \<and> stored acl = Some b"
  proof (cases ev)
    case (Outside e)
    with b lose_entry [of i e s] old show ?thesis by (auto simp: rbac_step_def)
  next
    case (Call j answer res v)
    show ?thesis
    proof (cases "ac_Get ops j s")
      case (Inr acl)
      with b Call old show ?thesis by (simp add: rbac_step_def Allowed_def)
    next
      case (Inl err)
      define w where "w = (case answer of Inl e \<Rightarrow> [] | Inr acl \<Rightarrow> acl)"
      have "rbac_step ops lose isAllowed ev s = snd (ac_Set ops j w s)"
        using Inl Call by (simp add: rbac_step_def Allowed_def w_def split: sum.split prod.split)
      then consider "entry i s = Some b" | "authKey i = authKey j" "stored w = Some b"
        using b set_entry [of i j w s] by auto
      then show ?thesis
      proof cases
        case 2
        have "w = [] \<or> w \<in> answered (evs @ [ev]) i"
          using 2(1) Call by (cases answer) (auto simp: w_def answered_def)
        with 2(2) show ?thesis by blast
      qed (rule old)
    qed
  qed
qed

lemma backed_run:
  assumes "backed past s"
  shows "backed (past @ evs) (fold (rbac_step ops lose isAllowed) evs s)"
  using assms
proof (induction evs arbitrary: past s)
  case (Cons ev evs)
  from Cons.IH [OF backed_step [OF Cons.prems]] show ?case by simp
qed simp

lemma granted_only_if_answered:
  assumes empty: "\<And>i. entry i s0 = None"
    and s: "s = fold (rbac_step ops lose isAllowed) evs s0"
    and granted: "fst (Allowed (Some ops) isAllowed i answer res v s) = Some (True, err)"
  shows "\<exists>acl b. (acl = [] \<or> acl \<in> answered (evs @ [Call i answer res v]) i) \<and> (b = acl \<or> stored acl = Some b) \<and>
    isAllowed b application res v"
proof (cases "ac_Get ops i s")
  case (Inr b)
  have "backed ([] @ evs) s" unfolding s by (rule backed_run) (simp add: backed_def empty)
  with get_hit [OF Inr] obtain acl where "acl = [] \<or> acl \<in> answered evs i" "stored acl = Some b"
    by (auto simp: backed_def)
  moreover have "isAllowed b application res v" using granted Inr by (simp add: Allowed_def)
  moreover have "answered evs i \<subseteq> answered (evs @ [Call i answer res v]) i" by (auto simp: answered_def)
  ultimately show ?thesis by blast
next
  case (Inl e)
  with granted obtain acl where "answer = Inr acl" "isAllowed acl application res v"
    by (cases answer) (auto simp: Allowed_def split: prod.splits)
  moreover from this(1) have "acl \<in> answered (evs @ [Call i answer res v]) i" by (auto simp: answered_def)
  ultimately show ?thesis by blast
qed

end

text \<open>Redis: its keys expire, and it goes down and comes back.\<close>

datatype redis_event = Expire string | RedisDown | RedisUp

definition redis_lose :: "redis_event \<Rightarrow> redis \<Rightarrow> redis" where
  "redis_lose e r =
     (case e of
        Expire key \<Rightarrow> r\<lparr>redis_keys := (redis_keys r)(key := None)\<rparr>
      | RedisDown \<Rightarrow> r\<lparr>redis_up := False\<rparr>
      | RedisUp \<Rightarrow> r\<lparr>redis_up := True\<rparr>)"

definition redis_entry :: "(string \<Rightarrow> 'p list option) \<Rightarrow> identity \<Rightarrow> redis \<Rightarrow> 'p list option" where
  "redis_entry dec i r = Option.bind (authKey i) (\<lambda>key. Option.bind (redis_keys r key) dec)"

lemma redis_set_keys:
  "redis_keys (redis_set key v r) k = redis_keys r k \<or> k = key \<and> redis_keys (redis_set key v r) k = Some v"
  by (simp add: redis_set_def)

interpretation redis: access_cache "redis_cache enc dec" redis_lose "redis_entry dec" "\<lambda>acl. Option.bind (enc acl) dec"
  for enc :: "'p list \<Rightarrow> string option" and dec
proof
  fix i j :: identity and s :: redis and acl :: "'p list" and e :: redis_event
  show "ac_Get (redis_cache enc dec) i s = Inr acl \<Longrightarrow> redis_entry dec i s = Some acl"
    by (auto simp: redis_cache_def redis_GetAccessList_def redis_read_def redis_get_def redis_entry_def
        split: option.splits if_splits)
  show "redis_entry dec i (snd (ac_Set (redis_cache enc dec) j acl s)) = redis_entry dec i s \<or>
    authKey i = authKey j \<and>
    redis_entry dec i (snd (ac_Set (redis_cache enc dec) j acl s)) = Option.bind (enc acl) dec"
    by (cases "authKey i")
       (auto simp: redis_cache_def redis_SetAccessList_def redis_entry_def redis_set_def split: option.splits)
  show "redis_entry dec i (redis_lose e s) = redis_entry dec i s \<or> redis_entry dec i (redis_lose e s) = None"
    by (cases e; cases "authKey i") (auto simp: redis_lose_def redis_entry_def)
qed

interpretation noop: access_cache noop_cache "\<lambda>(e :: unit) s. s" "\<lambda>i s. None" Some
  by unfold_locales (simp_all add: noop_cache_def noop_GetAccessList_def)


definition demo_user :: identity where
  "demo_user = \<lparr>id_User = Some ''u'', id_ServiceAccount = None, id_OrgID = ''7'', id_InternalOrgID = ''7'',
     id_AccountNumber = ''1'', id_Type = ''User''\<rparr>"

definition demo_allows :: "string list \<Rightarrow> string \<Rightarrow> Resource \<Rightarrow> Verb \<Rightarrow> bool" where
  "demo_allows acl app res v = ((app @ '':'' @ res @ '':'' @ v) \<in> set acl)"

text \<open>A codec for the examples: one line per permission, permissions being without line breaks.\<close>

definition demo_enc :: "string list \<Rightarrow> string option" where
  "demo_enc acl = (if list_all (\<lambda>p. CHR 0x0A \<notin> set p) acl then Some (concat (map (\<lambda>p. p @ [CHR 0x0A]) acl)) else None)"

definition demo_dec :: "string \<Rightarrow> string list option" where
  "demo_dec buf = Some (butlast (Split buf (CHR 0x0A)))"

lemma demo_codec: "demo_enc acl = Some buf \<Longrightarrow> demo_dec buf = Some acl"
proof (induction acl arbitrary: buf)
  case (Cons p acl)
  then obtain rest where r: "demo_enc acl = Some rest" "buf = p @ CHR 0x0A # rest" "CHR 0x0A \<notin> set p"
    by (auto simp: demo_enc_def split: if_splits)
  from Cons.IH [OF r(1)] r(2,3) show ?case by (simp add: demo_dec_def Split_append_sep)
qed (simp add: demo_enc_def demo_dec_def)


text \<open>
  C15. One failed call to the RBAC service locks a user out until the cache entry expires: the
  failure is reported as a plain refusal without an error, and it stores an empty access list,
  so every later call of that user is refused as well, whatever the service would answer then.
\<close>

theorem failed_rbac_call_denies_later_ones:
  assumes "id_User i = Some u" "redis_up r" "enc [] = Some buf" "dec buf = Some []"
    and "\<And>w. \<not> isAllowed [] application res w" "redis_GetAccessList dec i r = Inl ErrNotFound"
    and "Allowed (Some (redis_cache enc dec)) isAllowed i (Inl e) res v r = (result, r')"
  shows "result = Some (False, None) \<and>
    Allowed (Some (redis_cache enc dec)) isAllowed i answer res v' r' = (Some (False, None), r')"
proof -
  obtain key where key: "authKey i = Some key" using assms(1) by (simp add: authKey_def split: option.splits)
  have r': "r' = redis_set key buf r" and result: "result = Some (False, None)"
    using assms(1,3,6,7) key by (auto simp: Allowed_def redis_cache_def redis_SetAccessList_def)
  have "redis_GetAccessList dec i r' = Inr []"
    using assms(1,2,4) key by (simp add: r' redis_GetAccessList_def redis_read_def redis_get_def redis_set_def)
  then show ?thesis using result assms(5) by (simp add: Allowed_def redis_cache_def)
qed

theorem failed_rbac_call_denies_later_ones_witness:
  "snd (Allowed (Some (redis_cache demo_enc demo_dec)) demo_allows demo_user (Inl ''timeout'') ''repositories'' ''read''
     \<lparr>redis_keys = Map.empty, redis_up = True\<rparr>) = \<lparr>redis_keys = [''authen:u,7'' \<mapsto> []], redis_up = True\<rparr> \<and>
   fst (Allowed (Some (redis_cache demo_enc demo_dec)) demo_allows demo_user
     (Inr [''content-sources:repositories:read'']) ''repositories'' ''read''
     \<lparr>redis_keys = [''authen:u,7'' \<mapsto> []], redis_up = True\<rparr>) = Some (False, None)"
proof -
  let ?r = "\<lparr>redis_keys = Map.empty, redis_up = True\<rparr>" and ?r' = "\<lparr>redis_keys = [''authen:u,7'' \<mapsto> []], redis_up = True\<rparr>"
  have a: "Allowed (Some (redis_cache demo_enc demo_dec)) demo_allows demo_user (Inl ''timeout'') ''repositories'' ''read'' ?r =
      (Some (False, None), ?r')"
    by (simp add: Allowed_def redis_cache_def redis_GetAccessList_def redis_read_def redis_get_def redis_SetAccessList_def
        redis_set_def demo_enc_def demo_user_def authKey_def)
  have "redis_GetAccessList demo_dec demo_user ?r = Inl ErrNotFound"
    by (simp add: redis_GetAccessList_def redis_read_def redis_get_def demo_user_def authKey_def)
  from failed_rbac_call_denies_later_ones [OF _ _ _ _ _ this a, of "''u''" "[]" "Inr [''content-sources:repositories:read'']" "''read''"] a
  show ?thesis by (simp add: demo_user_def demo_enc_def demo_dec_def demo_allows_def)
qed

end
