(* ===== verification/Routes.thy ===== *)
theory Routes
  imports Rbac
begin

text \<open>
  The routes the handlers of \<open>pkg/handler\<close> register, each with the resource and verb it asks for
  (\<open>addRepoRoute\<close>, \<open>addTemplateRoute\<close>), and the prefixes they are registered under
  (\<open>RegisterRoutes\<close>).
\<close>

definition repo_route :: "string \<Rightarrow> string \<Rightarrow> Verb \<Rightarrow> registration" where
  "repo_route method path v = (method, path, ResourceRepositories, v)"

definition template_route :: "string \<Rightarrow> string \<Rightarrow> Verb \<Rightarrow> registration" where
  "template_route method path v = (method, path, ResourceTemplates, v)"

definition RegisterRepositoryRoutes :: "registration list" where
  "RegisterRepositoryRoutes = [
     repo_route ''GET'' ''/repositories/'' RbacVerbRead,
     repo_route ''GET'' ''/repositories/:uuid'' RbacVerbRead,
     repo_route ''PUT'' ''/repositories/:uuid'' RbacVerbWrite,
     repo_route ''PATCH'' ''/repositories/:uuid'' RbacVerbWrite,
     repo_route ''DELETE'' ''/repositories/:uuid'' RbacVerbWrite,
     repo_route ''POST'' ''/repositories/:uuid/add_uploads/'' RbacVerbUpload,
     repo_route ''POST'' ''/repositories/uploads/'' RbacVerbUpload,
     repo_route ''POST'' ''/repositories/uploads/:upload_uuid/upload_chunk/'' RbacVerbUpload,
     repo_route ''POST'' ''/repositories/bulk_delete/'' RbacVerbWrite,
     repo_route ''POST'' ''/repositories/'' RbacVerbWrite,
     repo_route ''POST'' ''/repositories/bulk_create/'' RbacVerbWrite,
     repo_route ''POST'' ''/repositories/:uuid/snapshot/'' RbacVerbWrite,
     repo_route ''POST'' ''/repositories/:uuid/introspect/'' RbacVerbWrite,
     repo_route ''GET'' ''/repository_gpg_key/:uuid'' RbacVerbRead,
     repo_route ''POST'' ''/repositories/bulk_export/'' RbacVerbRead,
     repo_route ''POST'' ''/repositories/bulk_import/'' RbacVerbWrite,
     repo_route ''POST'' ''/repositories/:uuid/rpms/bulk_remove/'' RbacVerbWrite]"

definition RegisterRepositoryParameterRoutes :: "registration list" where
  "RegisterRepositoryParameterRoutes = [
     repo_route ''GET'' ''/repository_parameters/'' RbacVerbRead,
     repo_route ''POST'' ''/repository_parameters/external_gpg_key/'' RbacVerbWrite,
     repo_route ''POST'' ''/repository_parameters/validate/'' RbacVerbWrite]"

definition RegisterRpmRoutes :: "registration list" where
  "RegisterRpmRoutes = [
     repo_route ''GET'' ''/repositories/:uuid/rpms'' RbacVerbRead,
     repo_route ''POST'' ''/rpms/names'' RbacVerbRead,
     repo_route ''GET'' ''/snapshots/:uuid/rpms'' RbacVerbRead,
     repo_route ''GET'' ''/snapshots/:uuid/errata'' RbacVerbRead,
     repo_route ''POST'' ''/snapshots/rpms/names'' RbacVerbRead,
     template_route ''GET'' ''/templates/:uuid/rpms'' RbacVerbRead,
     template_route ''GET'' ''/templates/:uuid/errata'' RbacVerbRead]"

definition RegisterPopularRepositoriesRoutes :: "registration list" where
  "RegisterPopularRepositoriesRoutes = [
     repo_route ''GET'' ''/popular_repositories/'' RbacVerbRead]"

definition RegisterTaskInfoRoutes :: "registration list" where
  "RegisterTaskInfoRoutes = [
     repo_route ''GET'' ''/tasks/'' RbacVerbRead,
     repo_route ''GET'' ''/tasks/:uuid'' RbacVerbRead,
     repo_route ''POST'' ''/tasks/:uuid/cancel/'' RbacVerbWrite]"

definition RegisterSnapshotRoutes :: "registration list" where
  "RegisterSnapshotRoutes = [
     repo_route ''POST'' ''/snapshots/for_date/'' RbacVerbRead,
     repo_route ''GET'' ''/repositories/:uuid/snapshots/'' RbacVerbRead,
     repo_route ''GET'' ''/repositories/:uuid/config.repo'' RbacVerbRead,
     repo_route ''GET'' ''/snapshots/:snapshot_uuid/config.repo'' RbacVerbRead,
     repo_route ''GET'' ''/templates/:uuid/snapshots/'' RbacVerbRead,
     repo_route ''DELETE'' ''/repositories/:repo_uuid/snapshots/:snapshot_uuid'' RbacVerbWrite,
     repo_route ''PATCH'' ''/repositories/:repo_uuid/snapshots/:snapshot_uuid/published'' RbacVerbWrite,
     repo_route ''POST'' ''/repositories/:repo_uuid/snapshots/bulk_delete/'' RbacVerbWrite]"

definition RegisterAdminTaskRoutes :: "registration list" where
  "RegisterAdminTaskRoutes = [
     repo_route ''GET'' ''/admin/tasks/'' RbacVerbRead,
     repo_route ''GET'' ''/admin/tasks/:uuid'' RbacVerbRead,
     repo_route ''GET'' ''/admin/features/'' RbacVerbRead,
     repo_route ''GET'' ''/admin/features/:name/content/'' RbacVerbRead]"

definition RegisterAdminRepositoriesRoutes :: "registration list" where
  "RegisterAdminRepositoriesRoutes = [
     repo_route ''PATCH'' ''/admin/repositories/:uuid/partner'' RbacVerbWrite]"

definition RegisterAdminNotificationsRoutes :: "registration list" where
  "RegisterAdminNotificationsRoutes = [
     repo_route ''POST'' ''/admin/notifications/test/'' RbacVerbWrite]"

definition RegisterFeaturesRoutes :: "registration list" where
  "RegisterFeaturesRoutes = [
     repo_route ''GET'' ''/features/'' RbacVerbRead]"

definition RegisterPublicRepositoriesRoutes :: "registration list" where
  "RegisterPublicRepositoriesRoutes = [
     repo_route ''GET'' ''/public_repositories/'' RbacVerbRead]"

definition RegisterPackageGroupRoutes :: "registration list" where
  "RegisterPackageGroupRoutes = [
     repo_route ''GET'' ''/repositories/:uuid/package_groups'' RbacVerbRead,
     repo_route ''POST'' ''/package_groups/names'' RbacVerbRead,
     repo_route ''POST'' ''/snapshots/package_groups/names'' RbacVerbRead]"

definition RegisterEnvironmentRoutes :: "registration list" where
  "RegisterEnvironmentRoutes = [
     repo_route ''GET'' ''/repositories/:uuid/environments'' RbacVerbRead,
     repo_route ''POST'' ''/environments/names'' RbacVerbRead,
     repo_route ''POST'' ''/snapshots/environments/names'' RbacVerbRead]"

definition RegisterTemplateRoutes :: "registration list" where
  "RegisterTemplateRoutes = [
     template_route ''GET'' ''/templates/'' RbacVerbRead,
     template_route ''GET'' ''/templates/:uuid'' RbacVerbRead,
     template_route ''POST'' ''/templates/'' RbacVerbWrite,
     template_route ''DELETE'' ''/templates/:uuid'' RbacVerbWrite,
     template_route ''PUT'' ''/templates/:uuid'' RbacVerbWrite,
     template_route ''PATCH'' ''/templates/:uuid'' RbacVerbWrite,
     template_route ''GET'' ''/templates/:template_uuid/config.repo'' RbacVerbRead,
     template_route ''GET'' ''/templates/:uuid/advisories/ids'' RbacVerbRead]"

definition RegisterPulpRoutes :: "registration list" where
  "RegisterPulpRoutes = [
     repo_route ''POST'' ''/pulp/uploads/'' RbacVerbUpload,
     repo_route ''PUT'' ''/pulp/uploads/:upload_href'' RbacVerbUpload,
     repo_route ''POST'' ''/pulp/uploads/:upload_href'' RbacVerbUpload,
     repo_route ''GET'' ''/pulp/tasks/:task_href'' RbacVerbRead]"

definition RegisterCandlepinRoutes :: "registration list" where
  "RegisterCandlepinRoutes = [
     repo_route ''GET'' ''/subscription_check/'' RbacVerbRead]"

definition RegisterModuleStreamsRoutes :: "registration list" where
  "RegisterModuleStreamsRoutes = [
     repo_route ''POST'' ''/snapshots/module_streams/search'' RbacVerbRead,
     repo_route ''POST'' ''/module_streams/search'' RbacVerbRead]"

definition RegisterUserPreferencesRoutes :: "registration list" where
  "RegisterUserPreferencesRoutes = [
     repo_route ''GET'' ''/user_preferences/'' RbacVerbRead,
     repo_route ''PUT'' ''/user_preferences/:label'' RbacVerbWrite]"

definition RegisterLightwellVulnerabilityRoutes :: "registration list" where
  "RegisterLightwellVulnerabilityRoutes = [
     repo_route ''GET'' ''/lightwell/beacon/vulnerabilities/customers/'' RbacVerbRead,
     repo_route ''GET'' ''/lightwell/beacon/vulnerabilities/ltwlsupt-ticket-ids/'' RbacVerbRead,
     repo_route ''GET'' ''/lightwell/beacon/vulnerabilities/'' RbacVerbRead]"

definition RegisterCoverageReportRoutes :: "registration list" where
  "RegisterCoverageReportRoutes = [
     repo_route ''POST'' ''/coverage_reports/'' RbacVerbWrite,
     repo_route ''GET'' ''/coverage_reports/:uuid'' RbacVerbRead,
     repo_route ''GET'' ''/coverage_reports/:uuid/packages'' RbacVerbRead]"

definition RegisterPackageRoutes :: "registration list" where
  "RegisterPackageRoutes = [
     repo_route ''GET'' ''/repositories/:uuid/packages'' RbacVerbRead,
     repo_route ''GET'' ''/repositories/:uuid/maven_packages/:group/:name'' RbacVerbRead,
     repo_route ''GET'' ''/repositories/:uuid/maven_packages/:group/:name/:version'' RbacVerbRead,
     repo_route ''GET'' ''/repositories/:uuid/python_packages/:name/:version'' RbacVerbRead,
     repo_route ''GET'' ''/repositories/:uuid/python_packages/:name'' RbacVerbRead,
     repo_route ''GET'' ''/repositories/:uuid/npm_packages/:scope/:name'' RbacVerbRead,
     repo_route ''GET'' ''/repositories/:uuid/npm_packages/:scope/:name/:version'' RbacVerbRead]"

text \<open>The package routes are registered when the tang client is configured.\<close>

definition service_routes :: "bool \<Rightarrow> registration list" where
  "service_routes tang =
     (RegisterRepositoryRoutes @ RegisterRepositoryParameterRoutes @ RegisterRpmRoutes
      @ RegisterPopularRepositoriesRoutes @ RegisterTaskInfoRoutes @ RegisterSnapshotRoutes
      @ RegisterAdminTaskRoutes @ RegisterAdminRepositoriesRoutes @ RegisterAdminNotificationsRoutes
      @ RegisterFeaturesRoutes @ RegisterPublicRepositoriesRoutes @ RegisterPackageGroupRoutes
      @ RegisterEnvironmentRoutes @ RegisterTemplateRoutes @ RegisterPulpRoutes
      @ RegisterCandlepinRoutes @ RegisterModuleStreamsRoutes @ RegisterUserPreferencesRoutes
      @ RegisterLightwellVulnerabilityRoutes @ RegisterCoverageReportRoutes
      @ (if tang then RegisterPackageRoutes else []))"

text \<open>
  The prefix, with the values of \<open>PATH_PREFIX\<close> and \<open>APP_NAME\<close> (names without slashes or dots,
  which \<open>filepath.Join\<close> joins as they are).
\<close>

definition RootPrefix :: "string option \<Rightarrow> string option \<Rightarrow> string" where
  "RootPrefix pathPrefix appName =
     ''/'' @ (case pathPrefix of None \<Rightarrow> ''api'' | Some p \<Rightarrow> p) @ ''/'' @
     (case appName of None \<Rightarrow> ''content-sources'' | Some a \<Rightarrow> a)"

definition FullRootPath :: "string option \<Rightarrow> string option \<Rightarrow> string" where
  "FullRootPath pathPrefix appName = RootPrefix pathPrefix appName @ ''/v1.0''"

definition MajorRootPath :: "string option \<Rightarrow> string option \<Rightarrow> string" where
  "MajorRootPath pathPrefix appName = RootPrefix pathPrefix appName @ ''/v1''"

text \<open>The paths known to the web framework, and the permission map, after registration.\<close>

definition RegisterPing :: "string list" where
  "RegisterPing = [''/ping'', ''/ping/'']"

definition registered_paths :: "string option \<Rightarrow> string option \<Rightarrow> bool \<Rightarrow> string list" where
  "registered_paths pathPrefix appName tang =
     RegisterPing @
     concat (map (\<lambda>prefix. (prefix @ ''/openapi.json'') # map (\<lambda>(m, path, r, v). prefix @ path) (service_routes tang))
       [FullRootPath pathPrefix appName, MajorRootPath pathPrefix appName])"

definition ServicePermissions :: "bool \<Rightarrow> PermissionsMap" where
  "ServicePermissions tang = fold register (service_routes tang @ service_routes tang) NewPermissionsMap"

section \<open>Lemmas\<close>

lemmas route_defs =
  repo_route_def template_route_def RbacVerbRead_def RbacVerbWrite_def RbacVerbUpload_def
  ResourceRepositories_def ResourceTemplates_def

lemma service_routes_accepted: "list_all reg_accepted (service_routes True)"
  by code_simp

lemma service_keys_distinct: "distinct (map reg_key (service_routes True))"
  by code_simp

text \<open>The path the permission is looked up under, for a matched route.\<close>

definition permission_path :: "string \<Rightarrow> string option" where
  "permission_path path = map_option (\<lambda>q. Join q ''/'') (RemovePrefixes (NewPathWithString path))"

lemma service_paths_found:
  "list_all (\<lambda>(m, path, r, v). path \<noteq> [] \<and>
     list_all (\<lambda>prefix. permission_path (prefix @ path) = Some (Trim path ''/'') \<and> Trim path ''/'' \<noteq> [])
       [FullRootPath None None, MajorRootPath None None]) (service_routes True)"
  by code_simp

lemma service_routes_mono: "r \<in> set (service_routes tang) \<Longrightarrow> r \<in> set (service_routes True)"
  by (auto simp: service_routes_def split: if_splits)

lemma distinct_keys_tang: "distinct (map reg_key (service_routes tang))"
proof (cases tang)
  case False
  have "service_routes True = service_routes False @ RegisterPackageRoutes" by (simp add: service_routes_def)
  then show ?thesis using service_keys_distinct False by simp
qed (simp add: service_keys_distinct)

lemma find_distinct_key:
  "\<lbrakk>distinct (map f xs); x \<in> set xs; P x\<rbrakk> \<Longrightarrow> find (\<lambda>y. P y \<and> f y = f x) (xs @ ys) = Some x"
  by (induction xs) (auto dest: image_eqI)

lemma service_permission:
  assumes "(m, path, res, v) \<in> set (service_routes tang)"
  shows "Permission (ServicePermissions tang) m (Trim path ''/'') = Some (res, v)"
proof -
  let ?r = "(m, path, res, v)"
  have "reg_accepted ?r"
    using service_routes_accepted service_routes_mono [OF assms] by (auto simp: list_all_iff)
  with assms distinct_keys_tang
  have "find (\<lambda>y. reg_accepted y \<and> reg_key y = reg_key ?r) (service_routes tang @ service_routes tang) = Some ?r"
    by (intro find_distinct_key) auto
  then show ?thesis
    unfolding ServicePermissions_def Permission_fold_register first_registration_def
    by (simp add: Permission_def NewPermissionsMap_def reg_key_def)
qed

lemma service_permission_path:
  assumes "(m, path, res, v) \<in> set (service_routes tang)"
    and "prefix \<in> {FullRootPath None None, MajorRootPath None None}"
  shows "permission_path (prefix @ path) = Some (Trim path ''/'') \<and> Trim path ''/'' \<noteq> []"
  using service_paths_found service_routes_mono [OF assms(1)] assms(2) by (fastforce simp: list_all_iff)

lemma service_path_registered:
  assumes "(m, path, res, v) \<in> set (service_routes tang)"
    and "prefix \<in> {FullRootPath pp an, MajorRootPath pp an}"
  shows "prefix @ path \<in> set (registered_paths pp an tang)"
  using assms by (force simp: registered_paths_def)

end
