(* ===== verification/Middleware.thy ===== *)
theory Middleware
  imports Routes
begin

text \<open>
  The request middlewares of \<open>pkg/middleware\<close> and the order \<open>pkg/router/route.go\<close> puts them in:
  organisation checks, access control, content type, status extraction. Echo, the identity
  library, \<open>mime.ParseMediaType\<close> and the JSON parser are arguments; a request carries what they
  return for it.
\<close>

section \<open>Requests and results\<close>

record request =
  rq_Method :: string
  rq_Path :: string
  rq_XRHID :: string
  rq_Identity :: identity
  rq_ContentType :: string
  rq_NoBody :: bool

type_synonym headers = "string \<rightharpoonup> string list"

text \<open>
  What a handler does: it returns an error response, an error of the framework with its code or
  any other error, sends an error response itself, writes a response, or panics.
\<close>

datatype hresult =
    HErr "HandlerError list"
  | HEcho int string
  | HOther string
  | HSent "HandlerError list"
  | HWrite int headers string
  | HPanic

definition MatchedRoute :: "string list \<Rightarrow> request \<Rightarrow> string" where
  "MatchedRoute routes rq = (if list_ex (\<lambda>r. rq_Path rq = r) routes then rq_Path rq else [])"

section \<open>Skipped routes\<close>

definition SkipAuth :: "string \<Rightarrow> bool" where
  "SkipAuth p =
     (let skipped = [''/ping'', ''/openapi.json'', ''/repository_gpg_key/:uuid''] in
      p \<in> set skipped \<or> TrimSuffix p ''/'' \<in> set skipped)"

definition SkipRbac :: "string \<Rightarrow> request \<Rightarrow> string \<Rightarrow> bool" where
  "SkipRbac internalUser rq p =
     (let i = rq_Identity rq in
      if p = ''/templates/:template_uuid/config.repo'' \<and> id_Type i = ''System'' then True
      else if p = ''/templates/:uuid/advisories/ids'' \<and> id_User i = Some internalUser \<and> rq_Method rq = ''GET'' then True
      else False)"

definition getPath :: "string \<Rightarrow> string list \<Rightarrow> request \<Rightarrow> string" where
  "getPath fullRootPath routes rq =
     (let path = MatchedRoute routes rq in
      if path = [] then []
      else (let lengthOfPrefix = length (Split fullRootPath (CHR ''/''));
                splitPath = Split path (CHR ''/'') in
        if length splitPath > lengthOfPrefix then ''/'' @ Join (drop lengthOfPrefix splitPath) ''/'' else path))"

definition SkipMiddleware :: "string \<Rightarrow> string \<Rightarrow> string list \<Rightarrow> request \<Rightarrow> bool" where
  "SkipMiddleware internalUser fullRootPath routes rq =
     (let p = getPath fullRootPath routes rq in SkipRbac internalUser rq p \<or> SkipAuth p)"

definition SkipEnforceConsistentOrgId :: "string \<Rightarrow> string list \<Rightarrow> request \<Rightarrow> bool" where
  "SkipEnforceConsistentOrgId fullRootPath routes rq =
     (getPath fullRootPath routes rq \<in> set [
        ''/admin/tasks/'', ''/admin/tasks/:uuid'', ''/admin/features/'', ''/admin/features/:name/content/'',
        ''/rpms/names'', ''/package_groups/names'', ''/environments/names'', ''/module_streams/search''])"

section \<open>Organisation checks\<close>

definition EnforceOrgId :: "request \<Rightarrow> hresult \<Rightarrow> hresult" where
  "EnforceOrgId rq next_result =
     (let i = rq_Identity rq in
      if id_InternalOrgID i = RedHatOrg \<or> id_OrgID i = RedHatOrg
      then HSent (NewErrorResponse 403 ''Invalid org ID'' ''Org ID cannot be -1'')
      else if id_InternalOrgID i = CommunityOrg \<or> id_OrgID i = CommunityOrg
      then HSent (NewErrorResponse 403 ''Invalid org ID'' ''Org ID cannot be -2'')
      else if id_InternalOrgID i = LightwellOrg \<or> id_OrgID i = LightwellOrg
      then HSent (NewErrorResponse 403 ''Invalid org ID'' ''Org ID cannot be -3'')
      else next_result)"

text \<open>A decoded JSON value, by the cases the code tells apart.\<close>

datatype json = JString string | JArray "json list" | JObject "(string \<times> json) list" | JOther

definition org_id_of :: "(string \<times> json) list \<Rightarrow> string list" where
  "org_id_of obj = (case map_of obj ''org_id'' of Some (JString o') \<Rightarrow> if o' \<noteq> [] then [o'] else [] | _ \<Rightarrow> [])"

definition extractOrgIds :: "(string \<times> json) list \<Rightarrow> string list" where
  "extractOrgIds response =
     org_id_of response @
     (case map_of response ''data'' of
        Some (JArray items) \<Rightarrow> concat (map (\<lambda>item. case item of JObject o' \<Rightarrow> org_id_of o' | _ \<Rightarrow> []) items)
      | Some (JObject o') \<Rightarrow> org_id_of o'
      | _ \<Rightarrow> [])"

definition getAccountIdOrgId :: "request \<Rightarrow> string \<times> string" where
  "getAccountIdOrgId rq = (id_AccountNumber (rq_Identity rq), id_InternalOrgID (rq_Identity rq))"

definition org_visible :: "string \<Rightarrow> string \<Rightarrow> bool" where
  "org_visible orgId responseOrgId =
     (\<not> (responseOrgId \<noteq> orgId \<and> responseOrgId \<noteq> RedHatOrg \<and> responseOrgId \<noteq> CommunityOrg \<and>
         responseOrgId \<noteq> LightwellOrg \<and> responseOrgId \<noteq> LightwellDemoOrg))"

text \<open>Copying sets each value in turn, so the last value of a header stays.\<close>

definition copy_headers :: "headers \<Rightarrow> headers \<Rightarrow> headers" where
  "copy_headers original recorded = (\<lambda>k. case recorded k of
      Some (v # vs) \<Rightarrow> Some [last (v # vs)]
    | _ \<Rightarrow> original k)"

text \<open>
  \<open>unmarshal\<close> decodes a body into an object, \<open>original\<close> are the headers set before. A response
  the handler sends through the framework's error handler is recorded and copied as well.
\<close>

definition EnforceConsistentOrgId ::
  "string \<Rightarrow> string \<Rightarrow> string list \<Rightarrow> (string \<Rightarrow> (string \<times> json) list option) \<Rightarrow> headers \<Rightarrow> request \<Rightarrow> hresult \<Rightarrow> hresult" where
  "EnforceConsistentOrgId internalUser fullRootPath routes unmarshal original rq next_result =
     (if SkipMiddleware internalUser fullRootPath routes rq then next_result
      else if SkipEnforceConsistentOrgId fullRootPath routes rq then next_result
      else (let (accountId, orgId) = getAccountIdOrgId rq in
        if orgId = [] then HErr (NewErrorResponse 400 ''Missing org ID'' ''Organization ID is required'')
        else case next_result of
            HWrite code hs body \<Rightarrow>
              (if code = 200 \<and> body \<noteq> [] \<and>
                  (case unmarshal body of
                     None \<Rightarrow> False
                   | Some response \<Rightarrow> \<not> list_all (org_visible orgId) (extractOrgIds response))
               then HErr (NewErrorResponse 500 ''Organization ID mismatch''
                      ''Response organization ID does not match user organization ID'')
               else HWrite code (copy_headers original hs) body)
          | r \<Rightarrow> r))"

section \<open>Access control\<close>

type_synonym permission_client = "identity \<Rightarrow> Resource \<Rightarrow> Verb \<Rightarrow> (bool \<times> rbac_error option) option"

record rbac_config =
  rb_Skipper :: "(request \<Rightarrow> bool) option"
  rb_RbacClient :: "permission_client option"
  rb_KesselClient :: "permission_client option"
  rb_PermissionsMap :: "PermissionsMap option"
  rb_Kessel :: Feature

definition NewRbac :: "rbac_config \<Rightarrow> string list \<Rightarrow> request \<Rightarrow> hresult \<Rightarrow> hresult" where
  "NewRbac cfg routes rq next_result =
     (case (rb_PermissionsMap cfg, rb_RbacClient cfg) of
        (Some pm, Some rbacClient) \<Rightarrow>
          (let path = MatchedRoute routes rq in
           if (case rb_Skipper cfg of None \<Rightarrow> False | Some skip \<Rightarrow> skip rq) then next_result
           else case RemovePrefixes (NewPathWithString path) of
               None \<Rightarrow> HPanic
             | Some parts \<Rightarrow>
                 (let path' = Join parts ''/'' in
                  if path' = [] then HEcho 400 ''Bad Request''
                  else case Permission pm (rq_Method rq) path' of
                      None \<Rightarrow> HEcho 404 ''Not Found''
                    | Some (res, v) \<Rightarrow>
                        if rq_XRHID rq = [] then HEcho 401 ''Unauthorized''
                        else case (if FeatureAccessible (rq_Identity rq) (rb_Kessel cfg)
                                   then Option.bind (rb_KesselClient cfg) (\<lambda>k. k (rq_Identity rq) res v)
                                   else rbacClient (rq_Identity rq) res v) of
                            None \<Rightarrow> HPanic
                          | Some (allowed, Some err) \<Rightarrow> HEcho 401 ''Unauthorized''
                          | Some (allowed, None) \<Rightarrow> if \<not> allowed then HEcho 401 ''Unauthorized'' else next_result))
      | _ \<Rightarrow> HPanic)"

section \<open>Content type and status\<close>

text \<open>\<open>mediaType\<close> is what \<open>mime.ParseMediaType\<close> makes of a header, or its error.\<close>

definition enforceJSONContentTypeSkipper :: "(string \<Rightarrow> string + string) \<Rightarrow> request \<Rightarrow> bool" where
  "enforceJSONContentTypeSkipper mediaType rq =
     (if rq_ContentType rq \<noteq> []
      then (case mediaType (rq_ContentType rq) of
              Inl err \<Rightarrow> False
            | Inr mt \<Rightarrow> rq_NoBody rq \<or> mt = ''multipart/form-data'' \<or> mt = ''application/x-www-form-urlencoded'')
      else rq_NoBody rq)"

definition EnforceJSONContentType :: "(string \<Rightarrow> string + string) \<Rightarrow> request \<Rightarrow> hresult \<Rightarrow> hresult" where
  "EnforceJSONContentType mediaType rq next_result =
     (if enforceJSONContentTypeSkipper mediaType rq then next_result
      else case mediaType (rq_ContentType rq) of
          Inl err \<Rightarrow> HSent (NewErrorResponse 415 ''Error parsing content type'' err)
        | Inr mt \<Rightarrow>
            if mt \<noteq> ''application/json''
            then HSent (NewErrorResponse 415 ''Incorrect content type'' ''Content-Type must be application/json'')
            else next_result)"

text \<open>The status set on the response, \<open>None\<close> when it is left alone.\<close>

definition ExtractStatus :: "hresult \<Rightarrow> int option" where
  "ExtractStatus r =
     (case r of
        HErr errs \<Rightarrow> Some (fold (\<lambda>e largest. if he_Status e > largest then he_Status e else largest) errs 0)
      | HEcho code detail \<Rightarrow> Some code
      | _ \<Rightarrow> None)"

definition containsServerError :: "hresult \<Rightarrow> bool" where
  "containsServerError r = (case r of HErr errs \<Rightarrow> list_ex (\<lambda>e. he_Status e \<ge> 500) errs | _ \<Rightarrow> False)"

definition isBodiedMethod :: "string \<Rightarrow> bool" where
  "isBodiedMethod method = (if method = ''GET'' then False else if method = ''DELETE'' then False else True)"

definition mapStatus :: "int \<Rightarrow> string" where
  "mapStatus status =
     (if status \<ge> 100 \<and> status < 200 then ''1xx''
      else if status \<ge> 200 \<and> status < 300 then ''2xx''
      else if status \<ge> 300 \<and> status < 400 then ''3xx''
      else if status \<ge> 400 \<and> status < 500 then ''4xx''
      else if status \<ge> 500 \<and> status < 600 then ''5xx''
      else [])"

text \<open>
  The answer to an error: its code and, unless the request is a \<open>HEAD\<close>, the errors of its body;
  \<open>None\<close> when a response was already written.
\<close>

definition CustomHTTPErrorHandler :: "bool \<Rightarrow> string \<Rightarrow> hresult \<Rightarrow> (int \<times> HandlerError list option) option" where
  "CustomHTTPErrorHandler committed method r =
     (let send = (\<lambda>code errs. Some (code, if method = ''HEAD'' then None else Some errs)) in
      if committed then None
      else case r of
          HErr errs \<Rightarrow> send (GetGeneralResponseCode errs) errs
        | HSent errs \<Rightarrow> send (GetGeneralResponseCode errs) errs
        | HEcho code detail \<Rightarrow> send code (NewErrorResponse code [] detail)
        | HOther e \<Rightarrow> send 500 (NewErrorResponse 500 [] ''Internal Server Error'')
        | _ \<Rightarrow> None)"

section \<open>Every route is guarded by its own permission\<close>

definition client_verdict :: "(bool \<times> rbac_error option) option \<Rightarrow> hresult \<Rightarrow> hresult" where
  "client_verdict d next_result =
     (case d of None \<Rightarrow> HPanic | Some (True, None) \<Rightarrow> next_result | _ \<Rightarrow> HEcho 401 ''Unauthorized'')"

text \<open>
  C16. Access control of the service: for every route the handlers register, under both
  prefixes, a request that is not skipped and has an identity reaches its handler exactly when
  the permission client grants the resource and verb that very route was registered with;
  otherwise it is answered 401 (a client that panics aside).
\<close>

theorem every_route_asks_its_own_permission:
  assumes route: "(m, path, res, v) \<in> set (service_routes tang)"
    and prefix: "prefix \<in> {FullRootPath None None, MajorRootPath None None}"
    and rq: "rq_Method rq = m" "rq_Path rq = prefix @ path" "rq_XRHID rq \<noteq> []"
    and cfg: "rb_PermissionsMap cfg = Some (ServicePermissions tang)" "rb_RbacClient cfg = Some client"
      "\<not> FeatureAccessible (rq_Identity rq) (rb_Kessel cfg)"
      "rb_Skipper cfg = Some skip" "\<not> skip rq"
  shows "NewRbac cfg (registered_paths None None tang) rq next_result =
    client_verdict (client (rq_Identity rq) res v) next_result"
proof -
  have "MatchedRoute (registered_paths None None tang) rq = prefix @ path"
    using service_path_registered [OF route prefix] rq(2) by (auto simp: MatchedRoute_def list_ex_iff)
  moreover obtain parts where "RemovePrefixes (NewPathWithString (prefix @ path)) = Some parts"
      "Join parts ''/'' = Trim path ''/''" "Trim path ''/'' \<noteq> []"
    using service_permission_path [OF route prefix] by (auto simp: permission_path_def)
  ultimately show ?thesis
    using service_permission [OF route] rq cfg
    by (simp add: NewRbac_def client_verdict_def split: option.split prod.split bool.split)
qed

definition demo_request :: request where
  "demo_request = \<lparr>rq_Method = ''POST'', rq_Path = ''/api/content-sources/v1/repositories/bulk_export/'', rq_XRHID = ''x'',
     rq_Identity = demo_user, rq_ContentType = ''application/json'', rq_NoBody = False\<rparr>"

definition demo_config :: "permission_client \<Rightarrow> rbac_config" where
  "demo_config client = \<lparr>rb_Skipper = Some (SkipMiddleware ''svc'' (FullRootPath None None) (registered_paths None None False)),
     rb_RbacClient = Some client, rb_KesselClient = None, rb_PermissionsMap = Some (ServicePermissions False),
     rb_Kessel = \<lparr>Enabled = False, Accounts = None, Organizations = None, Users = None\<rparr>\<rparr>"

theorem every_route_asks_its_own_permission_witness:
  "NewRbac (demo_config (\<lambda>i res v. Some (res = ''repositories'' \<and> v = ''read'', None))) (registered_paths None None False)
     demo_request (HWrite 200 Map.empty ''ok'') = HWrite 200 Map.empty ''ok''"
proof -
  let ?c = "\<lambda>(i :: identity) res v. Some (res = ''repositories'' \<and> v = ''read'', None :: rbac_error option)"
  have "NewRbac (demo_config ?c) (registered_paths None None False) demo_request (HWrite 200 Map.empty ''ok'') =
      client_verdict (?c demo_user ''repositories'' ''read'') (HWrite 200 Map.empty ''ok'')"
  proof (subst every_route_asks_its_own_permission
      [where m = "''POST''" and path = "''/repositories/bulk_export/''" and prefix = "MajorRootPath None None"
         and res = "''repositories''" and v = "''read''" and client = ?c])
    show "(''POST'', ''/repositories/bulk_export/'', ''repositories'', ''read'') \<in> set (service_routes False)"
      by (simp add: service_routes_def RegisterRepositoryRoutes_def route_defs)
    have "getPath (FullRootPath None None) (registered_paths None None False) demo_request = ''/repositories/bulk_export/''"
      by code_simp
    then show "\<not> SkipMiddleware ''svc'' (FullRootPath None None) (registered_paths None None False) demo_request"
      by (simp add: SkipMiddleware_def SkipRbac_def SkipAuth_def TrimSuffix_def HasSuffix_def Let_def)
  qed (simp_all add: demo_request_def demo_config_def MajorRootPath_def RootPrefix_def FeatureAccessible_def)
  then show ?thesis by (simp add: client_verdict_def)
qed

section \<open>Organisations are kept apart\<close>


definition demo_unmarshal :: "string \<Rightarrow> (string \<times> json) list option" where
  "demo_unmarshal body =
     (if body = ''leak'' then Some [(''data'', JArray [JObject [(''org_id'', JString ''-1'')], JObject [(''org_id'', JString ''8'')]])]
      else None)"


end
