(* ===== verification/CoverageParser.thy ===== *)
theory CoverageParser
  imports GoStrings Utils
begin

text \<open>
  The manifest parser of \<open>pkg/coverage/parser\<close>: format detection, CSV reports with a column of
  package URLs, pip requirement files and the removal of duplicates. The CSV reader is Go's
  \<open>encoding/csv\<close> with lazy quotes, the line scanner Go's \<open>bufio.Scanner\<close>.
\<close>

section \<open>Packages\<close>

definition EcosystemJava :: string where "EcosystemJava = ''Java''"
definition EcosystemPython :: string where "EcosystemPython = ''Python''"

record Package =
  pk_Ecosystem :: string
  pk_Name :: string
  pk_Version :: string
  pk_Namespace :: string

section \<open>Package URLs\<close>

definition cut_before_any :: "string \<Rightarrow> string \<Rightarrow> string" where
  "cut_before_any s chars = (case IndexAny s chars of Some idx \<Rightarrow> take idx s | None \<Rightarrow> s)"

text \<open>Name block and version around the last at sign; namespace and name around the last slash.\<close>

definition split_version :: "string \<Rightarrow> string \<times> string" where
  "split_version remainder =
     (case LastIndex remainder (CHR ''@'') of
        Some idx \<Rightarrow> (take idx remainder, drop (idx + 1) remainder)
      | None \<Rightarrow> (remainder, []))"

definition split_namespace :: "string \<Rightarrow> string \<times> string" where
  "split_namespace nameBlock =
     (case LastIndex nameBlock (CHR ''/'') of
        Some idx \<Rightarrow> (take idx nameBlock, drop (idx + 1) nameBlock)
      | None \<Rightarrow> ([], nameBlock))"

definition parsePURL :: "string \<Rightarrow> Package option" where
  "parsePURL raw =
     (case CutPrefix raw ''pkg:'' of
        (_, False) \<Rightarrow> None
      | (rest, True) \<Rightarrow>
          (case Cut rest ''/'' of (typePart, remainder0, ok) \<Rightarrow>
             if \<not> ok \<or> remainder0 = [] then None
             else case (if typePart = ''maven'' then Some EcosystemJava
                        else if typePart = ''pypi'' then Some EcosystemPython else None) of
                 None \<Rightarrow> None
               | Some ecosystem \<Rightarrow>
                   (let remainder = cut_before_any remainder0 ''?#'';
                        (nameBlock, version) = split_version remainder;
                        (namespace, name) = split_namespace nameBlock
                    in if name = [] then None
                       else Some \<lparr>pk_Ecosystem = ecosystem, pk_Name = name, pk_Version = version, pk_Namespace = namespace\<rparr>)))"

section \<open>CSV\<close>

text \<open>
  The reader ends lines at a newline, drops the carriage return before it and one at the end of
  the input.
\<close>

fun normalize_lines :: "string \<Rightarrow> string" where
  "normalize_lines [] = []"
| "normalize_lines [c] = (if c = CHR 0x0D then [] else [c])"
| "normalize_lines (c # d # cs) =
     (if c = CHR 0x0D \<and> d = CHR 0x0A then d # normalize_lines cs else c # normalize_lines (d # cs))"

datatype csv_mode = RecordStart | FieldStart | Plain | Quoted

text \<open>
  The records of the input: \<open>f\<close> is the field read so far, \<open>rec\<close> the fields before it. Blank
  lines are skipped; a field that starts with a quote runs to the closing quote, over line ends;
  with lazy quotes a quote not followed by a comma or the line end stands for itself.
\<close>

fun csv_run :: "csv_mode \<Rightarrow> string \<Rightarrow> string list \<Rightarrow> string \<Rightarrow> string list list" where
  "csv_run RecordStart f rec [] = []"
| "csv_run FieldStart f rec [] = [rec @ [[]]]"
| "csv_run Plain f rec [] = [rec @ [f]]"
| "csv_run Quoted f rec [] = [rec @ [f]]"
| "csv_run Quoted f rec (c # cs) =
     (if c = CHR 0x22
      then (case cs of
          [] \<Rightarrow> [rec @ [f]]
        | d # ds \<Rightarrow>
            if d = CHR 0x22 then csv_run Quoted (f @ [d]) rec ds
            else if d = CHR '','' then csv_run FieldStart [] (rec @ [f]) ds
            else if d = CHR 0x0A then (rec @ [f]) # csv_run RecordStart [] [] ds
            else csv_run Quoted (f @ [c]) rec cs)
      else csv_run Quoted (f @ [c]) rec cs)"
| "csv_run Plain f rec (c # cs) =
     (if c = CHR '','' then csv_run FieldStart [] (rec @ [f]) cs
      else if c = CHR 0x0A then (rec @ [f]) # csv_run RecordStart [] [] cs
      else csv_run Plain (f @ [c]) rec cs)"
| "csv_run RecordStart f rec (c # cs) =
     (if c = CHR 0x0A then csv_run RecordStart [] [] cs
      else if c = CHR 0x22 then csv_run Quoted [] [] cs
      else if c = CHR '','' then csv_run FieldStart [] [[]] cs
      else csv_run Plain [c] [] cs)"
| "csv_run FieldStart f rec (c # cs) =
     (if c = CHR 0x22 then csv_run Quoted [] rec cs
      else if c = CHR '','' then csv_run FieldStart [] (rec @ [[]]) cs
      else if c = CHR 0x0A then (rec @ [[]]) # csv_run RecordStart [] [] cs
      else csv_run Plain [c] rec cs)"

definition csv_read_all :: "string \<Rightarrow> string list list" where
  "csv_read_all data = csv_run RecordStart [] [] (normalize_lines data)"

text \<open>The column of package URLs in a record, and the loop over the records.\<close>

fun header_column :: "nat \<Rightarrow> string list \<Rightarrow> nat option" where
  "header_column i [] = None"
| "header_column i (field # rest) =
     (if TrimSpace (ToLower field) = ''packageurl'' then Some i else header_column (Suc i) rest)"

fun csv_loop :: "nat option \<Rightarrow> Package list \<Rightarrow> string list list \<Rightarrow> nat option \<times> Package list" where
  "csv_loop purlCol packages [] = (purlCol, packages)"
| "csv_loop None packages (rec # recs) = csv_loop (header_column 0 rec) packages recs"
| "csv_loop (Some col) packages (rec # recs) =
     (if length rec \<le> col then csv_loop (Some col) packages recs
      else (let purl = TrimSpace (rec ! col) in
        if purl = [] then csv_loop (Some col) packages recs
        else case parsePURL purl of
            Some pkg \<Rightarrow> csv_loop (Some col) (packages @ [pkg]) recs
          | None \<Rightarrow> csv_loop (Some col) packages recs))"

datatype parse_error = MissingHeader | TokenTooLong | OpenContinuation | UnsupportedFormat string

definition parseCSV :: "string \<Rightarrow> parse_error + Package list" where
  "parseCSV data =
     (case csv_loop None [] (csv_read_all data) of
        (None, _) \<Rightarrow> Inl MissingHeader
      | (Some _, packages) \<Rightarrow> Inr packages)"

section \<open>Requirement files\<close>

text \<open>The scanner's lines, before it drops a trailing carriage return; a last empty one is none.\<close>

definition raw_lines :: "string \<Rightarrow> string list" where
  "raw_lines data =
     (let ls = Split data (CHR 0x0A) in if last ls = [] then butlast ls else ls)"

definition drop_cr :: "string \<Rightarrow> string" where
  "drop_cr line = TrimSuffix line [CHR 0x0D]"

definition cut_trim :: "string \<Rightarrow> string \<Rightarrow> string" where
  "cut_trim line sep = (case Cut line sep of (pre, _, found) \<Rightarrow> if found then TrimSpace pre else line)"

definition strip_extras :: "string \<Rightarrow> string" where
  "strip_extras line =
     (case Cut line ''['' of (pre, post, found) \<Rightarrow>
        if found then (case Cut post '']'' of (_, rest, _) \<Rightarrow> pre @ rest) else line)"

definition operators :: string where "operators = ''=~!><''"

definition split_specifier :: "string \<Rightarrow> string \<times> string" where
  "split_specifier line =
     (case IndexAny line operators of
        None \<Rightarrow> (line, [])
      | Some idx \<Rightarrow>
          (let op = drop idx line; rest = TrimLeft op operators in
           (take idx line, if HasPrefix op ''=='' then fst (Cut (TrimSpace rest) '','') else [])))"

text \<open>The package of one logical line, if it names one.\<close>

definition requirement_of :: "string \<Rightarrow> Package option" where
  "requirement_of line0 =
     (let line1 = (case Cut line0 ''#'' of (pre, _, found) \<Rightarrow> if found then pre else line0);
          line2 = TrimSpace line1
      in if line2 = [] \<or> HasPrefix line2 ''-'' then None
         else (let (pkgName, version) =
                     split_specifier (strip_extras (cut_trim (cut_trim (cut_trim line2 '' --'') '';'') '' @ ''));
                   pkgName' = TrimSpace pkgName
               in if pkgName' = [] then None
                  else Some \<lparr>pk_Ecosystem = EcosystemPython, pk_Name = pkgName', pk_Version = version, pk_Namespace = []\<rparr>))"

text \<open>The loop over the lines, with the text of continued lines carried along.\<close>

fun requirements_loop :: "string \<Rightarrow> Package list \<Rightarrow> string list \<Rightarrow> string \<times> Package list" where
  "requirements_loop continuation packages [] = (continuation, packages)"
| "requirements_loop continuation packages (line # lines) =
     (if HasSuffix line [CHR 0x5C] then requirements_loop (continuation @ butlast line) packages lines
      else case requirement_of (continuation @ line) of
          Some pkg \<Rightarrow> requirements_loop [] (packages @ [pkg]) lines
        | None \<Rightarrow> requirements_loop [] packages lines)"

text \<open>A line of 65536 bytes or more does not fit the scanner's buffer.\<close>

definition parseRequirements :: "string \<Rightarrow> parse_error + Package list" where
  "parseRequirements data =
     (let raw = raw_lines data in
      if list_ex (\<lambda>l. 65536 \<le> length l) raw then Inl TokenTooLong
      else case requirements_loop [] [] (map drop_cr raw) of (continuation, packages) \<Rightarrow>
        if continuation \<noteq> [] then Inl OpenContinuation else Inr packages)"

section \<open>Parse\<close>

definition FormatCSV :: string where "FormatCSV = ''csv''"
definition FormatRequirements :: string where "FormatRequirements = ''requirements.txt''"

definition detectFormat :: "string \<Rightarrow> parse_error + string" where
  "detectFormat filename =
     (let lower = ToLower filename in
      if HasSuffix lower ''.csv'' then Inr FormatCSV
      else if HasSuffix lower ''requirements.txt'' then Inr FormatRequirements
      else Inl (UnsupportedFormat filename))"

definition package_key :: "Package \<Rightarrow> string" where
  "package_key p = pk_Ecosystem p @ ''|'' @ pk_Namespace p @ ''|'' @ pk_Name p @ ''|'' @ pk_Version p"

fun dedup_packages :: "string list \<Rightarrow> Package list \<Rightarrow> Package list" where
  "dedup_packages seen [] = []"
| "dedup_packages seen (p # ps) =
     (if package_key p \<in> set seen then dedup_packages seen ps
      else p # dedup_packages (package_key p # seen) ps)"

definition deduplicate :: "Package list \<Rightarrow> Package list" where
  "deduplicate pkgs = dedup_packages [] pkgs"

definition Parse :: "string \<Rightarrow> string \<Rightarrow> parse_error + (Package list \<times> string)" where
  "Parse filename data =
     (case detectFormat filename of
        Inl e \<Rightarrow> Inl e
      | Inr format \<Rightarrow>
          (case (if format = FormatCSV then parseCSV data
                 else if format = FormatRequirements then parseRequirements data else Inr []) of
             Inl e \<Rightarrow> Inl e
           | Inr packages \<Rightarrow> Inr (deduplicate packages, format)))"

section \<open>Package URLs read back\<close>

definition purl_of :: "Package \<Rightarrow> string" where
  "purl_of p = ''pkg:'' @ (if pk_Ecosystem p = EcosystemJava then ''maven'' else ''pypi'') @ ''/'' @
     (if pk_Namespace p = [] then [] else pk_Namespace p @ ''/'') @ pk_Name p @
     (if pk_Version p = [] then [] else ''@'' @ pk_Version p)"

definition purl_ok :: "Package \<Rightarrow> bool" where
  "purl_ok p \<longleftrightarrow>
     pk_Ecosystem p \<in> {EcosystemJava, EcosystemPython} \<and> pk_Name p \<noteq> [] \<and>
     set (pk_Name p) \<inter> set ''/?#'' = {} \<and> set (pk_Namespace p) \<inter> set ''?#'' = {} \<and> set (pk_Version p) \<inter> set ''@?#'' = {} \<and>
     (pk_Version p = [] \<longrightarrow> CHR ''@'' \<notin> set (pk_Name p) \<union> set (pk_Namespace p))"

lemma cut_before_any_free: "set s \<inter> set cs = {} \<Longrightarrow> cut_before_any s cs = s"
  by (simp add: cut_before_any_def IndexAny_None [THEN iffD2])

lemma last_index_split:
  "c \<notin> set b \<Longrightarrow> LastIndex (a @ c # b) c = Some (length a) \<and> take (length a) (a @ c # b) = a \<and>
     drop (length a + 1) (a @ c # b) = b"
  by (simp add: LastIndex_append)

lemma split_at_version:
  assumes "CHR ''@'' \<notin> set v" "v = [] \<longrightarrow> CHR ''@'' \<notin> set b"
  shows "split_version (b @ (if v = [] then [] else ''@'' @ v)) = (b, v)"
  using assms last_index_split [of "CHR ''@''" v b] by (simp add: split_version_def LastIndex_None [THEN iffD2])

lemma split_at_namespace:
  assumes "CHR ''/'' \<notin> set name"
  shows "split_namespace ((if ns = [] then [] else ns @ ''/'') @ name) = (ns, name)"
  using assms last_index_split [of "CHR ''/''" name ns] by (simp add: split_namespace_def LastIndex_None [THEN iffD2])

lemma parse_purl_of:
  assumes "purl_ok p"
  shows "parsePURL (purl_of p) = Some p"
proof -
  let ?v = "pk_Version p" and ?ns = "pk_Namespace p" and ?name = "pk_Name p"
  let ?type = "if pk_Ecosystem p = EcosystemJava then ''maven'' else ''pypi''"
  let ?block = "(if ?ns = [] then [] else ?ns @ ''/'') @ ?name"
  let ?rem = "?block @ (if ?v = [] then [] else ''@'' @ ?v)"
  have ok: "?name \<noteq> []" "CHR ''/'' \<notin> set ?name" "CHR ''@'' \<notin> set ?v" "?v = [] \<longrightarrow> CHR ''@'' \<notin> set ?block"
    "set ?rem \<inter> set ''?#'' = {}"
    using assms by (auto simp: purl_ok_def)
  have "CutPrefix (purl_of p) ''pkg:'' = (?type @ ''/'' @ ?rem, True)"
    by (simp add: CutPrefix_def HasPrefix_def purl_of_def)
  moreover have "Cut (?type @ ''/'' @ ?rem) ''/'' = (?type, ?rem, True)"
    using Cut_single_append [of "CHR ''/''" ?type ?rem] by simp
  moreover have "cut_before_any ?rem ''?#'' = ?rem" using ok(5) by (rule cut_before_any_free)
  moreover have "(if ?type = ''maven'' then Some EcosystemJava else if ?type = ''pypi'' then Some EcosystemPython else None) =
      Some (pk_Ecosystem p)"
    using assms by (auto simp: purl_ok_def)
  moreover have "?rem \<noteq> []" using ok(1) by simp
  ultimately show ?thesis
    using ok(1)
    by (simp only: parsePURL_def prod.case bool.case option.case Let_def split_at_version [OF ok(3,4)]
        split_at_namespace [OF ok(2)] not_True_eq_False simp_thms if_False) simp
qed

section \<open>Duplicates\<close>

lemma append_sep_inj:
  "\<lbrakk>a @ c # b = a' @ c # b'; c \<notin> set a; c \<notin> set a'\<rbrakk> \<Longrightarrow> a = a' \<and> b = b'"
proof (induction a arbitrary: a')
  case (Cons x a)
  then show ?case by (cases a') auto
next
  case Nil
  then show ?case by (cases a') auto
qed

definition bar_free :: "Package \<Rightarrow> bool" where
  "bar_free p \<longleftrightarrow> CHR ''|'' \<notin> set (pk_Ecosystem p) \<union> set (pk_Namespace p) \<union> set (pk_Name p)"

lemma package_key_inj:
  assumes "package_key p = package_key q" "bar_free p" "bar_free q"
  shows "p = q"
proof -
  have e: "pk_Ecosystem p = pk_Ecosystem q" and 1: "pk_Namespace p @ ''|'' @ pk_Name p @ ''|'' @ pk_Version p =
      pk_Namespace q @ ''|'' @ pk_Name q @ ''|'' @ pk_Version q"
    using append_sep_inj [of "pk_Ecosystem p" "CHR ''|''" _ "pk_Ecosystem q"] assms
    by (auto simp: package_key_def bar_free_def)
  have n: "pk_Namespace p = pk_Namespace q" and 2: "pk_Name p @ ''|'' @ pk_Version p = pk_Name q @ ''|'' @ pk_Version q"
    using append_sep_inj [of "pk_Namespace p" "CHR ''|''" _ "pk_Namespace q"] 1 assms(2,3) by (auto simp: bar_free_def)
  have "pk_Name p = pk_Name q \<and> pk_Version p = pk_Version q"
    using append_sep_inj [of "pk_Name p" "CHR ''|''" _ "pk_Name q"] 2 assms(2,3) by (auto simp: bar_free_def)
  with e n show ?thesis by simp
qed

text \<open>Without bars the keys tell packages apart, so keys can be replaced by the packages.\<close>

lemma dedup_packages_dedup_from:
  assumes "\<forall>p \<in> set ps \<union> set seen. bar_free p"
  shows "dedup_packages (map package_key seen) ps = dedup_from seen ps"
  using assms
proof (induction ps arbitrary: seen)
  case (Cons p ps)
  have "package_key p \<in> package_key ` set seen \<longleftrightarrow> p \<in> set seen"
    using Cons.prems package_key_inj by (metis UnI1 UnI2 image_iff list.set_intros(1))
  with Cons.IH [of seen] Cons.IH [of "p # seen"] Cons.prems show ?case by simp
qed simp

lemma deduplicate_eq:
  assumes "\<forall>p \<in> set ps. bar_free p"
  shows "deduplicate ps = Deduplicate ps"
  using dedup_packages_dedup_from [of ps "[]"] assms by (simp add: deduplicate_def Deduplicate_def)

lemma deduplicate_distinct:
  assumes "\<forall>p \<in> set ps. bar_free p" "distinct ps"
  shows "deduplicate ps = ps"
  using assms dedup_from_distinct [of ps "[]"] by (simp add: deduplicate_eq Deduplicate_def)

section \<open>Reports read back\<close>

definition csv_report :: "Package list \<Rightarrow> string" where
  "csv_report ps = concat (map (\<lambda>l. l @ [CHR 0x0A]) (''packageurl'' # map purl_of ps))"

definition csv_ok :: "Package \<Rightarrow> bool" where
  "csv_ok p \<longleftrightarrow> purl_ok p \<and> bar_free p \<and> set (purl_of p) \<inter> insert (CHR '','') (set whitespace) = {}"

lemma normalize_lines_id: "CHR 0x0D \<notin> set s \<Longrightarrow> normalize_lines s = s"
  by (induction s rule: normalize_lines.induct) auto

lemma csv_run_plain:
  "set s \<inter> {CHR '','', CHR 0x0A} = {} \<Longrightarrow> csv_run Plain f rec (s @ CHR 0x0A # cs) = (rec @ [f @ s]) # csv_run RecordStart [] [] cs"
  by (induction s arbitrary: f) auto

lemma csv_run_line:
  assumes "set l \<inter> {CHR '','', CHR 0x0A} = {}" "l = CHR ''p'' # t"
  shows "csv_run RecordStart [] [] (l @ CHR 0x0A # cs) = [l] # csv_run RecordStart [] [] cs"
  using csv_run_plain [of t "''p''" "[]" cs] assms by auto

lemma csv_run_lines:
  assumes "\<forall>l \<in> set ls. set l \<inter> {CHR '','', CHR 0x0A} = {} \<and> (\<exists>t. l = CHR ''p'' # t)"
  shows "csv_run RecordStart [] [] (concat (map (\<lambda>l. l @ [CHR 0x0A]) ls)) = map (\<lambda>l. [l]) ls"
  using assms
proof (induction ls)
  case (Cons l ls)
  then obtain t where "l = CHR ''p'' # t" by auto
  with Cons csv_run_line [of l t] show ?case by simp
qed simp

lemma csv_ok_line:
  assumes "csv_ok p"
  shows "set (purl_of p) \<inter> {CHR '','', CHR 0x0A} = {} \<and> CHR 0x0D \<notin> set (purl_of p) \<and>
    (\<exists>t. purl_of p = CHR ''p'' # t) \<and> TrimSpace (purl_of p) = purl_of p"
proof -
  have free: "set (purl_of p) \<inter> insert (CHR '','') (set whitespace) = {}" using assms by (simp add: csv_ok_def)
  obtain t where t: "purl_of p = CHR ''p'' # t" by (simp add: purl_of_def)
  have "hd (purl_of p) \<notin> set whitespace" "last (purl_of p) \<notin> set whitespace"
    using free t by (metis Int_iff empty_iff insertCI list.distinct(1) list.set_sel(1) list.set(1), metis Int_iff empty_iff insertCI last_in_set list.distinct(1))
  then have "TrimSpace (purl_of p) = purl_of p" unfolding TrimSpace_def by (intro Trim_fix) simp
  with free t show ?thesis by (auto simp: whitespace_def)
qed

lemma csv_loop_purls:
  assumes "\<forall>p \<in> set ps. csv_ok p"
  shows "csv_loop (Some 0) acc (map (\<lambda>l. [l]) (map purl_of ps)) = (Some 0, acc @ ps)"
  using assms
proof (induction ps arbitrary: acc)
  case (Cons p ps)
  then have "csv_ok p" by simp
  with csv_ok_line [of p] parse_purl_of [of p] have "TrimSpace (purl_of p) = purl_of p" "purl_of p \<noteq> []" "parsePURL (purl_of p) = Some p"
    by (auto simp: csv_ok_def)
  with Cons show ?case by (simp add: Let_def)
qed simp



section \<open>Requirement files read back\<close>

definition req_char :: "char \<Rightarrow> bool" where
  "req_char c \<longleftrightarrow> (let n = (of_char c :: nat) in
     48 \<le> n \<and> n \<le> 57 \<or> 65 \<le> n \<and> n \<le> 90 \<or> 97 \<le> n \<and> n \<le> 122 \<or> c \<in> set ''._-'')"

definition req_ok :: "Package \<Rightarrow> bool" where
  "req_ok p \<longleftrightarrow> pk_Ecosystem p = EcosystemPython \<and> pk_Namespace p = [] \<and> pk_Name p \<noteq> [] \<and> hd (pk_Name p) \<noteq> CHR ''-'' \<and>
     (\<forall>c \<in> set (pk_Name p @ pk_Version p). req_char c) \<and> length (pk_Name p) + length (pk_Version p) < 65000"

definition req_line :: "Package \<Rightarrow> string" where
  "req_line p = pk_Name p @ ''=='' @ pk_Version p"

definition requirements_file :: "Package list \<Rightarrow> string" where
  "requirements_file ps = concat (map (\<lambda>p. req_line p @ [CHR 0x0A]) ps)"

definition req_special :: string where
  "req_special = ''#;[],@'' @ operators @ whitespace @ [CHR 0x5C]"

lemma req_char_not: "req_char c \<Longrightarrow> c \<notin> set req_special"
  by (auto simp: req_char_def req_special_def operators_def whitespace_def Let_def)

lemma req_chars_not: "\<forall>c \<in> set s. req_char c \<Longrightarrow> set s \<inter> set req_special = {}"
  using req_char_not by blast

lemma req_special_parts:
  "set operators \<subseteq> set req_special" "set whitespace \<subseteq> set req_special" "set '','' \<subseteq> set req_special"
  by (auto simp: req_special_def)

lemma Cut_free_char: "c \<notin> set s \<Longrightarrow> Cut s (c # sep) = (s, [], False)"
  by (induction s) (auto simp: HasPrefix_def)

lemma cut_trim_free: "c \<notin> set s \<Longrightarrow> cut_trim s (c # sep) = s"
  by (simp add: cut_trim_def Cut_free_char)

lemma TrimLeft_run: "set a \<subseteq> set cs \<Longrightarrow> TrimLeft (a @ b) cs = TrimLeft b cs"
  by (simp add: TrimLeft_def subset_iff)

lemma TrimLeft_free: "set s \<inter> set cs = {} \<Longrightarrow> TrimLeft s cs = s"
  by (cases s) (auto simp: TrimLeft_def)

lemma TrimSpace_free:
  assumes "set s \<inter> set whitespace = {}"
  shows "TrimSpace s = s"
  unfolding TrimSpace_def
  by (rule Trim_fix) (metis assms disjoint_iff hd_in_set last_in_set)

lemma split_specifier_pinned:
  assumes n: "set name \<inter> set operators = {}" and v: "set v \<inter> set (operators @ '','' @ whitespace) = {}"
  shows "split_specifier (name @ ''=='' @ v) = (name, v)"
proof -
  have op: "CHR ''='' \<in> set operators" by (simp add: operators_def)
  have "IndexAny (name @ ''=='' @ v) operators = Some (length name)"
    using IndexAny_append [OF n op, of "''='' @ v"] by simp
  moreover have "TrimLeft (''=='' @ v) operators = v"
    using TrimLeft_run [of "''==''" operators v] TrimLeft_free [of v operators] op v by auto
  moreover have "TrimSpace v = v" "CHR '','' \<notin> set v" using TrimSpace_free [of v] v by auto
  ultimately show ?thesis by (simp add: split_specifier_def HasPrefix_def Cut_single_none)
qed

lemma req_line_free:
  assumes "req_ok p" "c \<in> set (''#;[],@'' @ whitespace @ [CHR 0x5C])"
  shows "c \<notin> set (req_line p)"
proof -
  have "set (pk_Name p @ pk_Version p) \<inter> set req_special = {}"
    using assms(1) by (intro req_chars_not) (simp add: req_ok_def)
  moreover have "c \<in> set req_special" using assms(2) by (auto simp: req_special_def)
  moreover have "c \<noteq> CHR ''=''" using assms(2) by (auto simp: whitespace_def)
  ultimately show ?thesis by (auto simp: req_line_def)
qed

lemma requirement_of_line:
  assumes "req_ok p"
  shows "requirement_of (req_line p) = Some p"
proof -
  let ?l = "req_line p"
  note l = req_line_free [OF assms]
  have name: "set (pk_Name p) \<inter> set req_special = {}" and v: "set (pk_Version p) \<inter> set req_special = {}"
    using assms by (auto simp: req_ok_def intro!: req_chars_not)
  have "set ?l \<inter> set whitespace = {}" using l by auto
  then have ts: "TrimSpace ?l = ?l" by (rule TrimSpace_free)
  have hd: "\<not> HasPrefix ?l ''-''" using assms by (cases "pk_Name p") (auto simp: req_line_def req_ok_def HasPrefix_def)
  have "CHR '' '' \<notin> set ?l" using l [of "CHR '' ''"] by (simp add: whitespace_def)
  then have cuts: "cut_trim ?l '' --'' = ?l" "cut_trim ?l '';'' = ?l" "cut_trim ?l '' @ '' = ?l"
    using l [of "CHR '';''"] by (simp_all add: cut_trim_free)
  have extras: "strip_extras ?l = ?l" "Cut ?l ''#'' = (?l, [], False)"
    using l [of "CHR ''[''"] l [of "CHR ''#''"] by (simp_all add: strip_extras_def Cut_free_char)
  have "split_specifier ?l = (pk_Name p, pk_Version p)"
    unfolding req_line_def
    by (rule split_specifier_pinned) (use name v req_special_parts in auto)
  moreover have "TrimSpace (pk_Name p) = pk_Name p" by (rule TrimSpace_free) (use name req_special_parts in auto)
  moreover have "?l \<noteq> []" by (simp add: req_line_def)
  ultimately show ?thesis
    using ts hd cuts extras assms by (simp add: requirement_of_def Let_def req_ok_def)
qed

lemma requirements_loop_lines:
  assumes "\<forall>p \<in> set ps. req_ok p"
  shows "requirements_loop [] acc (map req_line ps) = ([], acc @ ps)"
  using assms
proof (induction ps arbitrary: acc)
  case (Cons p ps)
  then have ok: "req_ok p" by simp
  have "\<not> HasSuffix (req_line p) [CHR 0x5C]"
    using req_line_free [OF ok, of "CHR 0x5C"] by (metis HasSuffix_single append_is_Nil_conv in_set_conv_decomp last_in_set list.distinct(1) set_append UnCI list.set_intros(1))
  with Cons requirement_of_line [OF ok] show ?case by simp
qed simp

lemma raw_lines_terminated:
  assumes "\<forall>l \<in> set ls. CHR 0x0A \<notin> set l"
  shows "raw_lines (concat (map (\<lambda>l. l @ [CHR 0x0A]) ls)) = ls"
proof -
  have "Split (concat (map (\<lambda>l. l @ [CHR 0x0A]) ls)) (CHR 0x0A) = ls @ [[]]"
    using assms by (induction ls) (simp_all add: Split_append_sep)
  then show ?thesis by (simp add: raw_lines_def)
qed

lemma req_line_plain:
  assumes "req_ok p"
  shows "CHR 0x0A \<notin> set (req_line p) \<and> drop_cr (req_line p) = req_line p \<and> length (req_line p) < 65536"
proof -
  have "CHR 0x0A \<notin> set (req_line p)" "CHR 0x0D \<notin> set (req_line p)"
    using req_line_free [OF assms, of "CHR 0x0A"] req_line_free [OF assms, of "CHR 0x0D"] by (simp_all add: whitespace_def)
  moreover from this(2) have "\<not> HasSuffix (req_line p) [CHR 0x0D]" by (metis HasSuffix_single last_in_set)
  ultimately show ?thesis using assms by (simp add: drop_cr_def TrimSuffix_def req_line_def req_ok_def)
qed

lemma parseRequirements_file:
  assumes "\<forall>p \<in> set ps. req_ok p"
  shows "parseRequirements (requirements_file ps) = Inr ps"
proof -
  have "raw_lines (concat (map (\<lambda>l. l @ [CHR 0x0A]) (map req_line ps))) = map req_line ps"
    by (rule raw_lines_terminated) (use assms req_line_plain in auto)
  then have "raw_lines (requirements_file ps) = map req_line ps" by (simp add: requirements_file_def comp_def)
  moreover have "map drop_cr (map req_line ps) = map req_line ps" using assms req_line_plain by (auto simp: map_idI)
  moreover have "\<not> list_ex (\<lambda>l. 65536 \<le> length l) (map req_line ps)"
    using assms req_line_plain by (fastforce simp: list_ex_iff)
  ultimately show ?thesis using requirements_loop_lines [OF assms, of "[]"]
    by (simp del: map_map add: parseRequirements_def Let_def)
qed

text \<open>
  A requirement file reads back: parsing the file that pins each of a list of different
  Python packages to its version, one line each, returns that list in order.
\<close>

theorem requirements_round_trip:
  assumes "\<forall>p \<in> set ps. req_ok p" "distinct ps" "HasSuffix (ToLower filename) ''requirements.txt''"
  shows "Parse filename (requirements_file ps) = Inr (ps, FormatRequirements)"
proof -
  obtain t where "ToLower filename = t @ ''requirements.txt''" using assms(3) HasSuffixE by blast
  then have "\<not> HasSuffix (ToLower filename) ''.csv''" by (simp add: HasSuffix_def)
  then have "detectFormat filename = Inr FormatRequirements" using assms(3) by (simp add: detectFormat_def)
  moreover have "FormatRequirements \<noteq> FormatCSV" by (simp add: FormatCSV_def FormatRequirements_def)
  moreover have "deduplicate ps = ps"
  proof (rule deduplicate_distinct)
    have "\<not> req_char (CHR ''|'')" by (simp add: req_char_def)
    then have "CHR ''|'' \<notin> set (pk_Name p)" if "p \<in> set ps" for p using assms(1) that by (auto simp: req_ok_def)
    then show "\<forall>p \<in> set ps. bar_free p" using assms(1) by (auto simp: bar_free_def req_ok_def EcosystemPython_def)
  qed (rule assms(2))
  ultimately show ?thesis using parseRequirements_file [OF assms(1)] by (simp add: Parse_def)
qed

theorem requirements_round_trip_witness:
  "Parse ''requirements.txt'' (requirements_file [\<lparr>pk_Ecosystem = EcosystemPython, pk_Name = ''flask'', pk_Version = ''2.3.0'', pk_Namespace = []\<rparr>]) =
   Inr ([\<lparr>pk_Ecosystem = EcosystemPython, pk_Name = ''flask'', pk_Version = ''2.3.0'', pk_Namespace = []\<rparr>], FormatRequirements)"
proof (rule requirements_round_trip)
  show "HasSuffix (ToLower ''requirements.txt'') ''requirements.txt''" by code_simp
qed (simp_all add: req_ok_def req_char_def)

end
