(* ===== verification/CoverageMatcher.thy ===== *)
theory CoverageMatcher
  imports CoverageParser
begin

text \<open>
  The matcher of \<open>pkg/coverage/matcher\<close>: packages of a manifest against a catalog, by normalised
  name and version, with counts per ecosystem. Its \<open>Package\<close> has the fields of the parser's.
\<close>

definition MatchStatusExact :: string where "MatchStatusExact = ''exact''"
definition MatchStatusPartial :: string where "MatchStatusPartial = ''partial''"
definition MatchStatusNone :: string where "MatchStatusNone = ''none''"

record MatchResult =
  mr_Package :: Package
  mr_MatchStatus :: string

record EcosystemSummary =
  es_Ecosystem :: string
  es_Total :: int
  es_ExactMatches :: int
  es_PartialMatches :: int
  es_Unmatched :: int

record MatchSummary =
  ms_Total :: int
  ms_ExactMatches :: int
  ms_PartialMatches :: int
  ms_Unmatched :: int
  ms_EcosystemCoverageSummary :: "EcosystemSummary list"
  ms_CatalogSnapshotAt :: int

text \<open>Runs of separators become one hyphen; the flag says that one was just written.\<close>

fun normalize_name :: "bool \<Rightarrow> string \<Rightarrow> string" where
  "normalize_name separatorWritten [] = []"
| "normalize_name separatorWritten (ch # chs) =
     (if ch = CHR ''-'' \<or> ch = CHR ''_'' \<or> ch = CHR ''.''
      then (if \<not> separatorWritten then CHR ''-'' # normalize_name True chs else normalize_name separatorWritten chs)
      else ch # normalize_name False chs)"

definition normalizePythonName :: "string \<Rightarrow> string" where
  "normalizePythonName name = normalize_name False (ToLower name)"

definition normalizeKey :: "Package \<Rightarrow> string" where
  "normalizeKey pkg =
     (if pk_Ecosystem pkg = EcosystemPython then normalizePythonName (pk_Name pkg)
      else if pk_Ecosystem pkg = EcosystemJava then ToLower (pk_Namespace pkg) @ '':'' @ ToLower (pk_Name pkg)
      else ToLower (pk_Ecosystem pkg) @ '':'' @ ToLower (pk_Name pkg))"

definition buildIndex :: "Package list \<Rightarrow> string set \<times> string set" where
  "buildIndex catalog =
     fold (\<lambda>pkg (catalogedNames, catalogedNameVersions).
        (let key = normalizeKey pkg in
         (insert key catalogedNames,
          if pk_Version pkg \<noteq> [] then insert (key @ '':'' @ pk_Version pkg) catalogedNameVersions
          else catalogedNameVersions))) catalog ({}, {})"

definition matchPackage :: "Package \<Rightarrow> string set \<Rightarrow> string set \<Rightarrow> string" where
  "matchPackage pkg catalogedNames catalogedNameVersions =
     (let nameKey = normalizeKey pkg in
      if pk_Version pkg \<noteq> [] \<and> nameKey @ '':'' @ pk_Version pkg \<in> catalogedNameVersions then MatchStatusExact
      else if nameKey \<in> catalogedNames then MatchStatusPartial
      else MatchStatusNone)"

definition count_match :: "string \<Rightarrow> EcosystemSummary \<Rightarrow> EcosystemSummary" where
  "count_match status entry =
     (let entry = entry\<lparr>es_Total := es_Total entry + 1\<rparr> in
      if status = MatchStatusExact then entry\<lparr>es_ExactMatches := es_ExactMatches entry + 1\<rparr>
      else if status = MatchStatusPartial then entry\<lparr>es_PartialMatches := es_PartialMatches entry + 1\<rparr>
      else if status = MatchStatusNone then entry\<lparr>es_Unmatched := es_Unmatched entry + 1\<rparr>
      else entry)"

definition empty_summary :: "string \<Rightarrow> EcosystemSummary" where
  "empty_summary e = \<lparr>es_Ecosystem = e, es_Total = 0, es_ExactMatches = 0, es_PartialMatches = 0, es_Unmatched = 0\<rparr>"

text \<open>
  The map of summaries as a list with one entry per ecosystem, in the order first met. Go visits
  a map in any order, so only the set of the entries is meant.
\<close>

fun add_match :: "string \<Rightarrow> string \<Rightarrow> EcosystemSummary list \<Rightarrow> EcosystemSummary list" where
  "add_match ecosystem status [] = [count_match status (empty_summary ecosystem)]"
| "add_match ecosystem status (entry # entries) =
     (if es_Ecosystem entry = ecosystem then count_match status entry # entries
      else entry # add_match ecosystem status entries)"

definition add_entry :: "EcosystemSummary \<Rightarrow> MatchSummary \<Rightarrow> MatchSummary" where
  "add_entry entry summary =
     summary\<lparr>ms_Total := ms_Total summary + es_Total entry,
       ms_ExactMatches := ms_ExactMatches summary + es_ExactMatches entry,
       ms_PartialMatches := ms_PartialMatches summary + es_PartialMatches entry,
       ms_Unmatched := ms_Unmatched summary + es_Unmatched entry,
       ms_EcosystemCoverageSummary := ms_EcosystemCoverageSummary summary @ [entry]\<rparr>"

definition MatchCatalog :: "Package list \<Rightarrow> Package list \<Rightarrow> int \<Rightarrow> MatchResult list \<times> MatchSummary" where
  "MatchCatalog catalog parsedPackages snapshotAt =
     (let (catalogedNames, catalogedNameVersions) = buildIndex catalog;
          results = map (\<lambda>pkg. \<lparr>mr_Package = pkg, mr_MatchStatus = matchPackage pkg catalogedNames catalogedNameVersions\<rparr>) parsedPackages;
          ecosystemSummaries = fold (\<lambda>r. add_match (pk_Ecosystem (mr_Package r)) (mr_MatchStatus r)) results []
      in (results,
          fold add_entry ecosystemSummaries
            \<lparr>ms_Total = 0, ms_ExactMatches = 0, ms_PartialMatches = 0, ms_Unmatched = 0,
             ms_EcosystemCoverageSummary = [], ms_CatalogSnapshotAt = snapshotAt\<rparr>))"

section \<open>Matching against the specification\<close>

lemma buildIndex_sets:
  "buildIndex catalog = (normalizeKey ` set catalog,
     {normalizeKey q @ '':'' @ pk_Version q |q. q \<in> set catalog \<and> pk_Version q \<noteq> []})"
proof -
  have "fold (\<lambda>pkg (ns, vs). (let key = normalizeKey pkg in
        (insert key ns, if pk_Version pkg \<noteq> [] then insert (key @ '':'' @ pk_Version pkg) vs else vs))) catalog (ns, vs) =
      (normalizeKey ` set catalog \<union> ns,
       {normalizeKey q @ '':'' @ pk_Version q |q. q \<in> set catalog \<and> pk_Version q \<noteq> []} \<union> vs)" for ns vs
    by (induction catalog arbitrary: ns vs) (auto simp: Let_def)
  then show ?thesis by (simp add: buildIndex_def)
qed

lemma key_version_inj:
  assumes "k @ '':'' @ v = k' @ '':'' @ v'" "CHR '':'' \<notin> set v" "CHR '':'' \<notin> set v'"
  shows "k = k' \<and> v = v'"
proof -
  have "rev v @ CHR '':'' # rev k = rev v' @ CHR '':'' # rev k'"
    using assms(1) by (metis append.assoc append_Cons append_Nil rev.simps(2) rev_append rev_rev_ident)
  then show ?thesis using append_sep_inj [of "rev v" "CHR '':''" "rev k" "rev v'" "rev k'"] assms(2,3) by simp
qed

text \<open>The reference definition: compare with every catalogued package in turn.\<close>

definition match_spec :: "Package list \<Rightarrow> Package \<Rightarrow> string" where
  "match_spec catalog pkg =
     (if list_ex (\<lambda>q. normalizeKey q = normalizeKey pkg \<and> pk_Version q = pk_Version pkg \<and> pk_Version pkg \<noteq> []) catalog
      then MatchStatusExact
      else if list_ex (\<lambda>q. normalizeKey q = normalizeKey pkg) catalog then MatchStatusPartial
      else MatchStatusNone)"

definition colon_free :: "Package \<Rightarrow> bool" where
  "colon_free p \<longleftrightarrow> CHR '':'' \<notin> set (pk_Version p)"

lemma matchPackage_spec:
  assumes "\<forall>q \<in> set catalog. colon_free q" "colon_free pkg"
  shows "matchPackage pkg (fst (buildIndex catalog)) (snd (buildIndex catalog)) = match_spec catalog pkg"
proof -
  have "normalizeKey pkg @ '':'' @ pk_Version pkg \<in> snd (buildIndex catalog) \<longleftrightarrow>
      (\<exists>q \<in> set catalog. normalizeKey q = normalizeKey pkg \<and> pk_Version q = pk_Version pkg \<and> pk_Version q \<noteq> [])"
  proof -
    have "normalizeKey q @ '':'' @ pk_Version q = normalizeKey pkg @ '':'' @ pk_Version pkg \<longleftrightarrow>
        normalizeKey q = normalizeKey pkg \<and> pk_Version q = pk_Version pkg" if "q \<in> set catalog" for q
      using key_version_inj [of "normalizeKey q" "pk_Version q" "normalizeKey pkg" "pk_Version pkg"] assms that
      by (auto simp: colon_free_def)
    then show ?thesis by (simp add: buildIndex_sets) metis
  qed
  moreover have "normalizeKey pkg \<in> fst (buildIndex catalog) \<longleftrightarrow> (\<exists>q \<in> set catalog. normalizeKey q = normalizeKey pkg)"
    by (simp add: buildIndex_sets image_iff) metis
  ultimately show ?thesis by (auto simp: matchPackage_def match_spec_def list_ex_iff Let_def)
qed

definition ecosystem_counts :: "string \<Rightarrow> MatchResult list \<Rightarrow> EcosystemSummary" where
  "ecosystem_counts e rs =
     (let mine = filter (\<lambda>r. pk_Ecosystem (mr_Package r) = e) rs;
          count = (\<lambda>st. int (length (filter (\<lambda>r. mr_MatchStatus r = st) mine))) in
      \<lparr>es_Ecosystem = e, es_Total = int (length mine), es_ExactMatches = count MatchStatusExact,
       es_PartialMatches = count MatchStatusPartial, es_Unmatched = count MatchStatusNone\<rparr>)"

lemma count_match_snoc:
  "count_match (mr_MatchStatus r) (ecosystem_counts (pk_Ecosystem (mr_Package r)) rs) =
     ecosystem_counts (pk_Ecosystem (mr_Package r)) (rs @ [r])"
  by (simp add: count_match_def ecosystem_counts_def Let_def MatchStatusExact_def MatchStatusPartial_def MatchStatusNone_def)

lemma other_counts_snoc:
  "e \<noteq> pk_Ecosystem (mr_Package r) \<Longrightarrow> ecosystem_counts e (rs @ [r]) = ecosystem_counts e rs"
  by (simp add: ecosystem_counts_def)

lemma empty_summary_counts:
  "\<forall>r \<in> set rs. pk_Ecosystem (mr_Package r) \<noteq> e \<Longrightarrow> empty_summary e = ecosystem_counts e rs"
  by (simp add: empty_summary_def ecosystem_counts_def filter_empty_conv Let_def)

lemma ecosystem_counts_name [simp]: "es_Ecosystem (ecosystem_counts e rs) = e"
  by (simp add: ecosystem_counts_def Let_def)

lemma add_match_counts:
  assumes "distinct es" "\<forall>e'. e' \<notin> set es \<and> e' \<notin> done \<longrightarrow> (\<forall>q \<in> set rs. pk_Ecosystem (mr_Package q) \<noteq> e')"
    and "pk_Ecosystem (mr_Package r) \<notin> done"
  shows "add_match (pk_Ecosystem (mr_Package r)) (mr_MatchStatus r) (map (\<lambda>e. ecosystem_counts e rs) es) =
    map (\<lambda>e. ecosystem_counts e (rs @ [r]))
      (if pk_Ecosystem (mr_Package r) \<in> set es then es else es @ [pk_Ecosystem (mr_Package r)])"
  using assms
proof (induction es arbitrary: "done")
  case Nil
  then show ?case using count_match_snoc [of r rs] empty_summary_counts [of rs "pk_Ecosystem (mr_Package r)"] by auto
next
  case (Cons e es)
  show ?case
  proof (cases "e = pk_Ecosystem (mr_Package r)")
    case True
    then have "map (\<lambda>e. ecosystem_counts e rs) es = map (\<lambda>e. ecosystem_counts e (rs @ [r])) es"
      using Cons.prems(1) by (intro map_cong refl other_counts_snoc [symmetric]) auto
    with True show ?thesis by (simp add: count_match_snoc)
  next
    case False
    with Cons.IH [of "insert e done"] Cons.prems show ?thesis by (auto simp: other_counts_snoc)
  qed
qed

lemma fold_add_match:
  "\<exists>es. distinct es \<and> set es = (pk_Ecosystem \<circ> mr_Package) ` set rs \<and>
     fold (\<lambda>r. add_match (pk_Ecosystem (mr_Package r)) (mr_MatchStatus r)) rs [] = map (\<lambda>e. ecosystem_counts e rs) es"
proof (induction rs rule: rev_induct)
  case (snoc r rs)
  then obtain es where es: "distinct es" "set es = (pk_Ecosystem \<circ> mr_Package) ` set rs"
    "fold (\<lambda>r. add_match (pk_Ecosystem (mr_Package r)) (mr_MatchStatus r)) rs [] = map (\<lambda>e. ecosystem_counts e rs) es" by blast
  let ?es = "if pk_Ecosystem (mr_Package r) \<in> set es then es else es @ [pk_Ecosystem (mr_Package r)]"
  have "\<forall>e'. e' \<notin> set es \<and> e' \<notin> {} \<longrightarrow> (\<forall>q \<in> set rs. pk_Ecosystem (mr_Package q) \<noteq> e')"
    unfolding es(2) by auto
  from add_match_counts [OF es(1) this, of r]
  have "fold (\<lambda>r. add_match (pk_Ecosystem (mr_Package r)) (mr_MatchStatus r)) (rs @ [r]) [] =
      map (\<lambda>e. ecosystem_counts e (rs @ [r])) ?es"
    by (simp add: es(3))
  moreover have "distinct ?es" "set ?es = (pk_Ecosystem \<circ> mr_Package) ` set (rs @ [r])" using es(1,2) by auto
  ultimately show ?case by blast
qed simp

lemma fold_add_entry:
  "fold add_entry entries summary =
     summary\<lparr>ms_Total := ms_Total summary + sum_list (map es_Total entries),
       ms_ExactMatches := ms_ExactMatches summary + sum_list (map es_ExactMatches entries),
       ms_PartialMatches := ms_PartialMatches summary + sum_list (map es_PartialMatches entries),
       ms_Unmatched := ms_Unmatched summary + sum_list (map es_Unmatched entries),
       ms_EcosystemCoverageSummary := ms_EcosystemCoverageSummary summary @ entries\<rparr>"
  by (induction entries arbitrary: summary) (simp_all add: add_entry_def)

lemma add_match_sums:
  "sum_list (map es_Total (add_match e st es)) = sum_list (map es_Total es) + 1"
  "sum_list (map es_ExactMatches (add_match e st es)) = sum_list (map es_ExactMatches es) + of_bool (st = MatchStatusExact)"
  "sum_list (map es_PartialMatches (add_match e st es)) = sum_list (map es_PartialMatches es) + of_bool (st = MatchStatusPartial)"
  "sum_list (map es_Unmatched (add_match e st es)) = sum_list (map es_Unmatched es) + of_bool (st = MatchStatusNone)"
  by (induction es)
     (auto simp: count_match_def empty_summary_def Let_def MatchStatusExact_def MatchStatusPartial_def MatchStatusNone_def)

lemma sum_fold_add_match:
  assumes "\<And>e st es. sum_list (map f (add_match e st es)) = sum_list (map f es) + of_bool (P st)"
  shows "sum_list (map f (fold (\<lambda>r. add_match (pk_Ecosystem (mr_Package r)) (mr_MatchStatus r)) rs [])) =
    (int (length (filter (\<lambda>r. P (mr_MatchStatus r)) rs)))"
  by (induction rs rule: rev_induct) (simp_all add: assms)

text \<open>
  C19. Matching a manifest: every package of the manifest gets, in order, the status that
  comparing it with each catalogued package gives (exact for the same normalised name and
  version, partial for the same name, none otherwise), as long as versions hold no colon; the
  summary counts each status over all packages, and has exactly one entry per ecosystem of the
  manifest with the counts of that ecosystem.
\<close>

theorem match_catalog_correct:
  assumes "\<forall>q \<in> set catalog \<union> set pkgs. colon_free q" "MatchCatalog catalog pkgs at = (rs, summary)"
  shows "map mr_Package rs = pkgs \<and> map mr_MatchStatus rs = map (match_spec catalog) pkgs \<and>
    ms_Total summary = int (length pkgs) \<and>
    ms_ExactMatches summary = int (length (filter (\<lambda>r. mr_MatchStatus r = MatchStatusExact) rs)) \<and>
    ms_PartialMatches summary = int (length (filter (\<lambda>r. mr_MatchStatus r = MatchStatusPartial) rs)) \<and>
    ms_Unmatched summary = int (length (filter (\<lambda>r. mr_MatchStatus r = MatchStatusNone) rs)) \<and>
    distinct (map es_Ecosystem (ms_EcosystemCoverageSummary summary)) \<and>
    set (ms_EcosystemCoverageSummary summary) = (\<lambda>e. ecosystem_counts e rs) ` pk_Ecosystem ` set pkgs"
proof -
  let ?names = "fst (buildIndex catalog)" and ?versions = "snd (buildIndex catalog)"
  let ?entries = "fold (\<lambda>r. add_match (pk_Ecosystem (mr_Package r)) (mr_MatchStatus r)) rs []"
  have rs: "rs = map (\<lambda>p. \<lparr>mr_Package = p, mr_MatchStatus = matchPackage p ?names ?versions\<rparr>) pkgs"
    and summary: "summary = fold add_entry ?entries
      \<lparr>ms_Total = 0, ms_ExactMatches = 0, ms_PartialMatches = 0, ms_Unmatched = 0,
       ms_EcosystemCoverageSummary = [], ms_CatalogSnapshotAt = at\<rparr>"
    using assms(2) by (auto simp: MatchCatalog_def Let_def split: prod.splits)
  have "map mr_MatchStatus rs = map (match_spec catalog) pkgs"
    using matchPackage_spec [of catalog] assms(1) by (simp add: rs)
  moreover have pk: "map mr_Package rs = pkgs" by (simp add: rs comp_def)
  moreover obtain es where es: "distinct es" "set es = (pk_Ecosystem \<circ> mr_Package) ` set rs"
      "?entries = map (\<lambda>e. ecosystem_counts e rs) es"
    using fold_add_match [of rs] by blast
  moreover have "(pk_Ecosystem \<circ> mr_Package) ` set rs = pk_Ecosystem ` set pkgs"
    by (metis image_comp list.set_map pk)
  moreover have "sum_list (map es_Total ?entries) = int (length rs)"
    using sum_fold_add_match [of es_Total "\<lambda>_. True" rs] by (simp add: add_match_sums)
  moreover have "length rs = length pkgs" by (simp add: rs)
  ultimately show ?thesis
    using sum_fold_add_match [OF add_match_sums(2), of rs] sum_fold_add_match [OF add_match_sums(3), of rs]
      sum_fold_add_match [OF add_match_sums(4), of rs]
    by (simp add: summary fold_add_entry comp_def)
qed

definition demo_pkg :: "string \<Rightarrow> string \<Rightarrow> Package" where
  "demo_pkg n v = \<lparr>pk_Ecosystem = EcosystemPython, pk_Name = n, pk_Version = v, pk_Namespace = []\<rparr>"

theorem match_catalog_correct_witness:
  "map mr_MatchStatus (fst (MatchCatalog [demo_pkg ''ruamel.yaml'' ''1.0'', demo_pkg ''flask'' ''2'']
      [demo_pkg ''Ruamel__Yaml'' ''1.0'', demo_pkg ''Flask'' ''3'', demo_pkg ''x'' []] 0)) = [''exact'', ''partial'', ''none''] \<and>
   ms_Total (snd (MatchCatalog [demo_pkg ''ruamel.yaml'' ''1.0'', demo_pkg ''flask'' ''2'']
      [demo_pkg ''Ruamel__Yaml'' ''1.0'', demo_pkg ''Flask'' ''3'', demo_pkg ''x'' []] 0)) = 3"
proof -
  let ?cat = "[demo_pkg ''ruamel.yaml'' ''1.0'', demo_pkg ''flask'' ''2'']"
  let ?pkgs = "[demo_pkg ''Ruamel__Yaml'' ''1.0'', demo_pkg ''Flask'' ''3'', demo_pkg ''x'' []]"
  have "\<forall>q \<in> set ?cat \<union> set ?pkgs. colon_free q" by (simp add: demo_pkg_def colon_free_def)
  note * = match_catalog_correct [OF this prod.collapse [symmetric], of 0]
  have "map (match_spec ?cat) ?pkgs = [''exact'', ''partial'', ''none'']" by code_simp
  with * show ?thesis by simp
qed

end
