(* ===== verification/Models.thy ===== *)
theory Models
  imports ConfigValues Utils
begin

text \<open>
  The models of \<open>pkg/models\<close> that validate and normalise what is stored: repositories,
  repository configurations, templates, uploads and user preferences. A gorm hook is a function
  from the model (and what it reads of its surroundings: a generated UUID, the clock, the labels
  taken in the organisation) to an error or the model as it is saved; \<open>SetColumn\<close> sets the
  model's field. \<open>url.ParseRequestURI\<close> and \<open>random.String\<close> are parameters. A zero time is
  \<open>None\<close>, a nil slice of versions is \<open>None\<close>.
\<close>

section \<open>Base\<close>

record model_error =
  me_Message :: string
  me_Validation :: bool

abbreviation invalid :: "string \<Rightarrow> model_error" where
  "invalid msg \<equiv> \<lparr>me_Message = msg, me_Validation = True\<rparr>"

definition trimString :: "string option \<Rightarrow> nat \<Rightarrow> string option" where
  "trimString str limit = (case str of None \<Rightarrow> None | Some s \<Rightarrow> if length s < limit then Some s else Some (take limit s))"

section \<open>Repositories\<close>

record Repository =
  r_UUID :: string
  r_URL :: string
  r_RepomdChecksum :: string
  r_Public :: bool
  r_LastIntrospectionTime :: "timestamp option"
  r_LastIntrospectionSuccessTime :: "timestamp option"
  r_LastIntrospectionUpdateTime :: "timestamp option"
  r_LastIntrospectionError :: "string option"
  r_LastIntrospectionStatus :: string
  r_PackageCount :: int
  r_BuildCount :: int
  r_VersionCount :: int
  r_FailedIntrospectionsCount :: int
  r_Origin :: string
  r_ContentType :: string
  r_SecurityLevel :: string
  r_PublishedDistURL :: string
  r_PublishedDistBasePath :: string

definition stringContainsInternalWhitespace :: "string \<Rightarrow> bool" where
  "stringContainsInternalWhitespace s = ContainsAnyChar (TrimSpace s) whitespace"

fun strip_slashes :: "nat \<Rightarrow> string \<Rightarrow> string" where
  "strip_slashes 0 url = url"
| "strip_slashes (Suc n) url =
     (if 0 < length url \<and> url ! (length url - 1) = CHR ''/'' then strip_slashes n (take (length url - 1) url) else url)"

text \<open>The loop that removes trailing slashes runs at most as often as the string is long.\<close>

definition CleanupURL :: "string \<Rightarrow> string" where
  "CleanupURL url =
     (let url = TrimSpace url; url = strip_slashes (length url) url
      in if url \<noteq> [] then url @ ''/'' else url)"

definition repository_validate :: "(string \<Rightarrow> bool) \<Rightarrow> Repository \<Rightarrow> model_error option" where
  "repository_validate ParseRequestURI r =
     (if r_Origin r = OriginUpload \<or> r_Origin r = OriginLightwell then
        (if r_URL r = [] then None else Some (invalid ''URL cannot be specified for upload repositories.''))
      else if r_URL r = [] then Some (invalid ''URL cannot be blank for custom and Red Hat repositories.'')
      else if stringContainsInternalWhitespace (r_URL r) then Some (invalid ''URL cannot contain whitespace.'')
      else if \<not> ParseRequestURI (r_URL r) then Some (invalid ''Invalid URL for request.'')
      else None)"

definition repository_BeforeCreate ::
  "(string \<Rightarrow> bool) \<Rightarrow> string \<Rightarrow> timestamp \<Rightarrow> Repository \<Rightarrow> model_error + Repository" where
  "repository_BeforeCreate ParseRequestURI newUUID now r =
     (let r = r\<lparr>r_UUID := newUUID\<rparr> in
      case repository_validate ParseRequestURI r of
        Some err \<Rightarrow> Inl err
      | None \<Rightarrow>
          (let r = r\<lparr>r_URL := CleanupURL (r_URL r)\<rparr> in
           if r_Origin r = OriginUpload then
             Inr (r\<lparr>r_LastIntrospectionStatus := StatusValid, r_LastIntrospectionTime := Some now,
                    r_LastIntrospectionSuccessTime := Some now, r_LastIntrospectionUpdateTime := Some now\<rparr>)
           else Inr r))"

datatype column = CStr string | COptStr "string option" | CBool bool | CTime "timestamp option" | CInt int | CStrs "string list option"

definition repository_MapForUpdate :: "Repository \<Rightarrow> (string \<times> column) list" where
  "repository_MapForUpdate r =
     (if r_URL r \<noteq> [] then [(''URL'', CStr (r_URL r))] else []) @
     [(''Public'', CBool (r_Public r)), (''RepomdChecksum'', CStr (r_RepomdChecksum r)),
      (''LastIntrospectionTime'', CTime (r_LastIntrospectionTime r)),
      (''LastIntrospectionError'', COptStr (trimString (r_LastIntrospectionError r) 255)),
      (''LastIntrospectionSuccessTime'', CTime (r_LastIntrospectionSuccessTime r)),
      (''LastIntrospectionUpdateTime'', CTime (r_LastIntrospectionUpdateTime r)),
      (''LastIntrospectionStatus'', CStr (r_LastIntrospectionStatus r)),
      (''PackageCount'', CInt (r_PackageCount r)), (''BuildCount'', CInt (r_BuildCount r)),
      (''VersionCount'', CInt (r_VersionCount r)),
      (''FailedIntrospectionsCount'', CInt (r_FailedIntrospectionsCount r))]"

section \<open>Repository configurations\<close>

record RepositoryConfiguration =
  rc_UUID :: string
  rc_Name :: string
  rc_Versions :: "string list option"
  rc_Arch :: string
  rc_GpgKey :: string
  rc_Label :: string
  rc_MetadataVerification :: bool
  rc_ModuleHotfixes :: bool
  rc_AccountID :: string
  rc_OrgID :: string
  rc_RepositoryUUID :: string
  rc_Origin :: string
  rc_Snapshot :: bool
  rc_ExtendedRelease :: string
  rc_ExtendedReleaseVersion :: string

definition versions :: "RepositoryConfiguration \<Rightarrow> string list" where
  "versions rc = (case rc_Versions rc of None \<Rightarrow> [] | Some vs \<Rightarrow> vs)"

definition rc_MapForUpdate :: "RepositoryConfiguration \<Rightarrow> (string \<times> column) list" where
  "rc_MapForUpdate rc =
     [(''Name'', CStr (rc_Name rc)), (''Arch'', CStr (rc_Arch rc)), (''Versions'', CStrs (rc_Versions rc)),
      (''GpgKey'', CStr (rc_GpgKey rc)), (''MetadataVerification'', CBool (rc_MetadataVerification rc)),
      (''AccountID'', CStr (rc_AccountID rc)), (''OrgID'', CStr (rc_OrgID rc)),
      (''RepositoryUUID'', CStr (rc_RepositoryUUID rc)), (''snapshot'', CBool (rc_Snapshot rc)),
      (''module_hotfixes'', CBool (rc_ModuleHotfixes rc))]"

definition DedupeVersions :: "RepositoryConfiguration \<Rightarrow> RepositoryConfiguration" where
  "DedupeVersions rc = rc\<lparr>rc_Versions := Some (sort (dedup_from [] (versions rc)))\<rparr>"

definition ReplaceEmptyValues :: "RepositoryConfiguration \<Rightarrow> RepositoryConfiguration" where
  "ReplaceEmptyValues rc =
     (let rc1 = (if rc_Versions rc = Some [] then rc\<lparr>rc_Versions := Some [ANY_VERSION]\<rparr> else rc)
      in if rc_Arch rc1 = [] then rc1\<lparr>rc_Arch := ANY_ARCH\<rparr> else rc1)"

definition IsRedHat :: "RepositoryConfiguration \<Rightarrow> bool" where
  "IsRedHat rc = (rc_OrgID rc = RedHatOrg)"

definition IsCommunity :: "RepositoryConfiguration \<Rightarrow> bool" where
  "IsCommunity rc = (rc_OrgID rc = CommunityOrg)"

definition versionContainsAnyAndOthers :: "string list \<Rightarrow> bool" where
  "versionContainsAnyAndOthers arr = (if length arr \<le> 1 then False else list_ex (\<lambda>a. a = ANY_VERSION) arr)"

definition rc_validate :: "RepositoryConfiguration \<Rightarrow> model_error option" where
  "rc_validate rc =
     (if rc_Name rc = [] then Some (invalid ''Name cannot be blank.'')
      else if rc_OrgID rc = [] then Some (invalid ''Org ID cannot be blank.'')
      else if rc_RepositoryUUID rc = [] then Some (invalid ''Repository UUID foreign key cannot be blank.'')
      else if rc_Arch rc \<noteq> [] \<and> \<not> ValidArchLabel (rc_Arch rc) then
        Some (invalid (''Specified distribution architecture '' @ rc_Arch rc @ '' is invalid.''))
      else (case ValidDistributionVersionLabels (versions rc) of (valid, invalidVer) \<Rightarrow>
        if 0 < length (versions rc) \<and> \<not> valid then
          Some (invalid (''Specified distribution version '' @ invalidVer @ '' is invalid.''))
        else if versionContainsAnyAndOthers (versions rc) then
          Some (invalid (''Specified a distribution version of '' @ [CHR 39] @ ANY_VERSION @ [CHR 39] @
            '' along with other version types, this is invalid.''))
        else if rc_ExtendedReleaseVersion rc \<noteq> [] \<and> \<not> ValidDistributionMinorVersionLabel (rc_ExtendedReleaseVersion rc) then
          Some (invalid (''Specified extended release version '' @ rc_ExtendedReleaseVersion rc @ '' is invalid.''))
        else if rc_ExtendedRelease rc \<noteq> [] \<and> \<not> ValidExtendedReleaseLabel (rc_ExtendedRelease rc) then
          Some (invalid (''Specified extended release '' @ rc_ExtendedRelease rc @ '' is invalid.''))
        else if rc_Origin rc = OriginUpload \<and> \<not> rc_Snapshot rc then
          Some (invalid ''Snapshot must be true for upload repositories'')
        else None))"

text \<open>
  The class of the regular expression lists the characters of \<open>:space\<close>, so a colon is kept.
  The expression replaces whole characters: one of several bytes becomes one underscore.
\<close>

definition label_char :: "char \<Rightarrow> char" where
  "label_char c =
     (let n = (of_char c :: nat) in
      if 97 \<le> n \<and> n \<le> 122 \<or> 65 \<le> n \<and> n \<le> 90 \<or> 48 \<le> n \<and> n \<le> 57 \<or> c = CHR '':'' then c else CHR ''_'')"

definition label_rune :: "string \<Rightarrow> char" where
  "label_rune r = (case r of [c] \<Rightarrow> label_char c | _ \<Rightarrow> CHR ''_'')"

text \<open>\<open>taken org label\<close>: the count of the organisation's configurations with that label, \<open>None\<close>
  when the query fails. The code then returns the nil error of the regular expression.\<close>

definition SetLabel ::
  "(string \<Rightarrow> string \<Rightarrow> nat option) \<Rightarrow> string \<Rightarrow> RepositoryConfiguration \<Rightarrow> RepositoryConfiguration" where
  "SetLabel taken rnd rc =
     (if IsRedHat rc then rc
      else if IsCommunity rc then rc
      else (let label = map label_rune (rune_spans (rc_Name rc)) in
        case taken (rc_OrgID rc) label of
          None \<Rightarrow> rc
        | Some found \<Rightarrow> rc\<lparr>rc_Label := (if 0 < found then label @ ''_'' @ rnd else label)\<rparr>))"

definition rc_BeforeCreate ::
  "(string \<Rightarrow> string \<Rightarrow> nat option) \<Rightarrow> string \<Rightarrow> string \<Rightarrow> RepositoryConfiguration \<Rightarrow> model_error + RepositoryConfiguration" where
  "rc_BeforeCreate taken rnd newUUID rc =
     (let rc1 = SetLabel taken rnd (rc\<lparr>rc_UUID := newUUID\<rparr>);
          rc2 = ReplaceEmptyValues (DedupeVersions rc1)
      in case rc_validate rc2 of Some err \<Rightarrow> Inl err | None \<Rightarrow> Inr rc2)"

definition rc_BeforeUpdate :: "RepositoryConfiguration \<Rightarrow> model_error + RepositoryConfiguration" where
  "rc_BeforeUpdate rc =
     (let rc2 = ReplaceEmptyValues (DedupeVersions rc)
      in case rc_validate rc2 of Some err \<Rightarrow> Inl err | None \<Rightarrow> Inr rc2)"

definition CandlepinContentGpgKeyUrl :: "string \<Rightarrow> string \<Rightarrow> string \<Rightarrow> string \<Rightarrow> string option" where
  "CandlepinContentGpgKeyUrl externalURL fullRootPath orgID repoConfigUUID =
     (if orgID = RedHatOrg then None
      else Some (TrimSuffix externalURL ''/'' @ fullRootPath @ ''/repository_gpg_key/'' @ repoConfigUUID))"

definition RepoConfigGpgKeyURL :: "string \<Rightarrow> string \<Rightarrow> string \<Rightarrow> string \<Rightarrow> string option" where
  "RepoConfigGpgKeyURL externalURL fullRootPath orgID repoConfigUUID =
     (if orgID = RedHatOrg then Some RedHatGpgKeyPath
      else CandlepinContentGpgKeyUrl externalURL fullRootPath orgID repoConfigUUID)"

section \<open>Templates, uploads, user preferences\<close>

record DeletedAt =
  da_Time :: "timestamp option"
  da_Valid :: bool

record Template =
  t_UUID :: string
  t_Name :: string
  t_OrgID :: string
  t_Description :: string
  t_Date :: "timestamp option"
  t_Version :: string
  t_Arch :: string
  t_ExtendedRelease :: string
  t_ExtendedReleaseVersion :: string
  t_DeletedAt :: DeletedAt
  t_LastUpdatedBy :: string
  t_UseLatest :: bool

definition template_validate :: "'x Template_scheme \<Rightarrow> model_error option" where
  "template_validate t =
     (if t_Name t = [] then Some (invalid ''Name cannot be blank.'')
      else if t_OrgID t = [] then Some (invalid ''Org ID cannot be blank.'')
      else if t_Arch t = [] then Some (invalid ''Arch cannot be blank.'')
      else if t_Version t = [] then Some (invalid ''Version cannot be blank.'')
      else if t_Arch t \<noteq> [] \<and> \<not> ValidArchLabel (t_Arch t) then
        Some (invalid (''Specified architecture '' @ t_Arch t @ '' is invalid.''))
      else (case ValidDistributionVersionLabels [t_Version t] of (valid, invalidVer) \<Rightarrow>
        if 0 < length (t_Version t) \<and> \<not> valid then
          Some (invalid (''Specified distribution version '' @ invalidVer @ '' is invalid.''))
        else if t_ExtendedReleaseVersion t \<noteq> [] \<and> \<not> ValidDistributionMinorVersionLabel (t_ExtendedReleaseVersion t) then
          Some (invalid (''Specified extended release version '' @ t_ExtendedReleaseVersion t @ '' is invalid.''))
        else if t_ExtendedRelease t \<noteq> [] \<and> \<not> ValidExtendedReleaseLabel (t_ExtendedRelease t) then
          Some (invalid (''Specified extended release '' @ t_ExtendedRelease t @ '' is invalid.''))
        else if t_UseLatest t \<and> t_Date t \<noteq> None then Some (invalid ''Date must be null if use_latest is true.'')
        else None))"

definition template_BeforeCreate :: "string \<Rightarrow> Template \<Rightarrow> model_error + Template" where
  "template_BeforeCreate newUUID t =
     (let t = t\<lparr>t_UUID := newUUID\<rparr> in case template_validate t of Some err \<Rightarrow> Inl err | None \<Rightarrow> Inr t)"

definition template_BeforeUpdate :: "Template \<Rightarrow> model_error + Template" where
  "template_BeforeUpdate t = (case template_validate t of Some err \<Rightarrow> Inl err | None \<Rightarrow> Inr t)"

text \<open>\<open>UTC\<close> does not change the instant; the new \<open>DeletedAt\<close> has the zero value of \<open>Valid\<close>.\<close>

definition template_AfterFind :: "'x Template_scheme \<Rightarrow> 'x Template_scheme" where
  "template_AfterFind t = t\<lparr>t_DeletedAt := \<lparr>da_Time = da_Time (t_DeletedAt t), da_Valid = False\<rparr>\<rparr>"

definition template_MapForUpdate :: "Template \<Rightarrow> (string \<times> column) list" where
  "template_MapForUpdate t =
     [(''description'', CStr (t_Description t)), (''date'', CTime (t_Date t)),
      (''last_updated_by'', CStr (t_LastUpdatedBy t)), (''name'', CStr (t_Name t)),
      (''use_latest'', CBool (t_UseLatest t)), (''extended_release_version'', CStr (t_ExtendedReleaseVersion t))]"

record Upload =
  u_UploadUUID :: string
  u_OrgID :: string
  u_ChunkSize :: int
  u_Size :: int
  u_Sha256 :: string

definition upload_validate :: "Upload \<Rightarrow> model_error option" where
  "upload_validate t =
     (if u_UploadUUID t = [] then Some (invalid ''Upload UUID cannot be blank.'')
      else if u_OrgID t = [] then Some (invalid ''Org ID cannot be blank.'')
      else if u_ChunkSize t = 0 then Some (invalid ''ChunkSize cannot be 0.'')
      else if u_Size t = 0 then Some (invalid ''Size cannot be 0.'')
      else if u_Sha256 t = [] then Some (invalid ''Sha256 cannot be blank.'')
      else None)"

text \<open>The message quotes the value as \<open>%q\<close> does a value without characters to escape.\<close>

definition ValidUserPreferenceValues :: "(string \<times> string list) list" where
  "ValidUserPreferenceValues =
     [(''lightwell-notification-enabled'', [''true'', ''false'']),
      (''lightwell-notification-minimum'', [''critical'', ''high'', ''medium'', ''low''])]"

definition IsValidUserPreferenceLabel :: "string \<Rightarrow> bool" where
  "IsValidUserPreferenceLabel label =
     (label \<in> set [''lightwell-notification-enabled'', ''lightwell-notification-minimum''])"

definition ValidateUserPreferenceValue :: "string \<Rightarrow> string \<Rightarrow> string option" where
  "ValidateUserPreferenceValue label v =
     (case map_of ValidUserPreferenceValues label of
        None \<Rightarrow> Some (''invalid preference label: '' @ label)
      | Some allowed \<Rightarrow> if length allowed = 0 then None
          else if v \<notin> set allowed then
            Some (''invalid value '' @ [CHR 34] @ v @ [CHR 34] @ '' for preference label '' @ label)
          else None)"

record UserPreference =
  up_OrgID :: string
  up_UserID :: string
  up_Label :: string
  up_Value :: string

definition preference_validate :: "UserPreference \<Rightarrow> model_error option" where
  "preference_validate up =
     (if up_OrgID up = [] then Some (invalid ''Org ID cannot be blank.'')
      else if up_UserID up = [] then Some (invalid ''User ID cannot be blank.'')
      else if up_Label up = [] then Some (invalid ''Label cannot be blank.'')
      else if \<not> IsValidUserPreferenceLabel (up_Label up) then Some (invalid (''Invalid preference label: '' @ up_Label up))
      else if up_Value up = [] then Some (invalid ''Value cannot be blank.'')
      else (case ValidateUserPreferenceValue (up_Label up) (up_Value up) of
          Some err \<Rightarrow> Some (invalid err) | None \<Rightarrow> None))"

section \<open>URLs\<close>

definition ends_slash :: "string \<Rightarrow> bool" where
  "ends_slash s \<longleftrightarrow> s \<noteq> [] \<and> last s = CHR ''/''"

lemma strip_slashes_step:
  "strip_slashes (Suc n) url = (if ends_slash url then strip_slashes n (butlast url) else url)"
  by (cases "url = []") (simp_all add: ends_slash_def last_conv_nth butlast_conv_take)

lemma strip_slashes_done: "length url \<le> n \<Longrightarrow> \<not> ends_slash (strip_slashes n url)"
proof (induction n arbitrary: url)
  case (Suc n)
  then show ?case by (cases "ends_slash url") (auto simp: strip_slashes_step simp del: strip_slashes.simps)
qed (simp add: ends_slash_def)

lemma strip_slashes_id: "\<not> ends_slash url \<Longrightarrow> strip_slashes n url = url"
  by (cases n) (simp_all add: strip_slashes_step del: strip_slashes.simps(2))

lemma strip_slashes_prefix: "\<exists>k. url = strip_slashes n url @ replicate k (CHR ''/'')"
proof (induction n arbitrary: url)
  case 0
  show ?case by (rule exI [of _ 0]) simp
next
  case (Suc n)
  show ?case
  proof (cases "ends_slash url")
    case True
    obtain k where "butlast url = strip_slashes n (butlast url) @ replicate k (CHR ''/'')" using Suc by blast
    then have "url = strip_slashes n (butlast url) @ replicate k (CHR ''/'') @ [CHR ''/'']"
      using True by (metis append_assoc append_butlast_last_id ends_slash_def)
    then show ?thesis using True
      by (auto simp: strip_slashes_step replicate_append_same simp del: strip_slashes.simps intro!: exI [of _ "Suc k"])
  next
    case False
    then show ?thesis by (auto simp: strip_slashes_step simp del: strip_slashes.simps intro!: exI [of _ 0])
  qed
qed

lemma strip_slashes_snoc: "\<not> ends_slash url \<Longrightarrow> strip_slashes (Suc n) (url @ ''/'') = url"
  by (simp add: strip_slashes_step ends_slash_def [of "url @ _"] strip_slashes_id del: strip_slashes.simps)

lemma hd_strip_slashes: "strip_slashes n url \<noteq> [] \<Longrightarrow> hd (strip_slashes n url) = hd url"
  using strip_slashes_prefix [of url n] by (metis hd_append2)

lemma slash_not_whitespace: "CHR ''/'' \<notin> set whitespace"
  by (simp add: whitespace_def)

lemma cleanup_url_form:
  "CleanupURL (CleanupURL url) = CleanupURL url \<and>
   (CleanupURL url = [] \<or>
    (\<exists>u. CleanupURL url = u @ ''/'' \<and> u \<noteq> [] \<and> \<not> ends_slash u \<and> hd u \<notin> set whitespace))"
proof -
  let ?t = "TrimSpace url"
  let ?u = "strip_slashes (length ?t) ?t"
  have u: "\<not> ends_slash ?u" by (rule strip_slashes_done) simp
  show ?thesis
  proof (cases "?u = []")
    case True
    then have "CleanupURL url = []" by (simp add: CleanupURL_def)
    then show ?thesis by (simp add: CleanupURL_def TrimSpace_def Trim_def TrimLeft_def TrimRight_def)
  next
    case False
    then have c: "CleanupURL url = ?u @ ''/''" by (simp add: CleanupURL_def Let_def)
    have "?t \<noteq> []" using False by auto
    then have h: "hd ?u \<notin> set whitespace" using Trim_hd [of url whitespace] hd_strip_slashes [OF False] by (simp add: TrimSpace_def)
    then have "TrimSpace (?u @ ''/'') = ?u @ ''/''"
      unfolding TrimSpace_def using False slash_not_whitespace by (intro Trim_fix) (auto simp: hd_append)
    then have "CleanupURL (?u @ ''/'') = ?u @ ''/''"
      using False u strip_slashes_snoc [OF u, of "length ?u"] by (simp add: CleanupURL_def Let_def)
    with c u h False show ?thesis by metis
  qed
qed

lemmas CleanupURL_idem [simp] = cleanup_url_form [THEN conjunct1]

text \<open>
  C12. \<open>CleanupURL\<close> puts every URL into one form: it is empty or ends with exactly one slash and
  does not start with white space, and cleaning again changes nothing.
\<close>

theorem cleanup_url_normal_form:
  "CleanupURL (CleanupURL url) = CleanupURL url \<and>
   (CleanupURL url = [] \<or>
    (\<exists>u. CleanupURL url = u @ ''/'' \<and> u \<noteq> [] \<and> \<not> ends_slash u \<and> hd u \<notin> set whitespace))"
  by (rule cleanup_url_form)

lemma strip_replicate: "n \<le> m \<Longrightarrow> strip_slashes m (replicate n (CHR ''/'')) = []"
proof (induction m arbitrary: n)
  case (Suc m)
  note IH = Suc.IH and le = Suc.prems
  show ?case
  proof (cases n)
    case (Suc k)
    have "butlast (replicate (Suc k) (CHR ''/'')) = replicate k (CHR ''/'')"
      by (metis butlast_snoc replicate_Suc replicate_append_same)
    moreover have "ends_slash (replicate (Suc k) (CHR ''/''))" by (simp add: ends_slash_def)
    ultimately show ?thesis
      using IH [of k] le Suc by (simp only: strip_slashes_step if_True Suc_le_mono)
  qed simp
qed simp

lemma cleanup_slashes: "CleanupURL (replicate n (CHR ''/'')) = []"
proof -
  have "TrimSpace (replicate n (CHR ''/'')) = replicate n (CHR ''/'')"
    unfolding TrimSpace_def using slash_not_whitespace by (intro Trim_fix) auto
  then show ?thesis by (simp add: CleanupURL_def Let_def strip_replicate)
qed

text \<open>
  A repository is validated before its URL is cleaned: a URL made of slashes only, which
  \<open>url.ParseRequestURI\<close> accepts as a path, passes the check that the URL is not blank and is
  then cleaned to the blank URL the check refuses.
\<close>

theorem slashes_url_is_stored_blank:
  assumes "r_URL r = replicate (Suc n) (CHR ''/'')" "r_Origin r \<notin> {OriginUpload, OriginLightwell}"
    "ParseRequestURI (replicate (Suc n) (CHR ''/''))"
  shows "\<exists>r'. repository_BeforeCreate ParseRequestURI newUUID now r = Inr r' \<and> r_URL r' = []"
proof -
  have "\<not> stringContainsInternalWhitespace (replicate (Suc n) (CHR ''/''))"
    using set_TrimSpace [of "replicate (Suc n) (CHR ''/'')"]
    by (auto simp: stringContainsInternalWhitespace_def ContainsAnyChar_def list_ex_iff whitespace_def)
  with assms have "repository_validate ParseRequestURI (r\<lparr>r_UUID := newUUID\<rparr>) = None"
    by (simp add: repository_validate_def)
  then show ?thesis
    using assms cleanup_slashes [of "Suc n"] by (simp add: repository_BeforeCreate_def Let_def)
qed

definition demo_repo :: Repository where
  "demo_repo = \<lparr>r_UUID = [], r_URL = ''/'', r_RepomdChecksum = [], r_Public = False, r_LastIntrospectionTime = None,
     r_LastIntrospectionSuccessTime = None, r_LastIntrospectionUpdateTime = None, r_LastIntrospectionError = None,
     r_LastIntrospectionStatus = StatusPending, r_PackageCount = 0, r_BuildCount = 0, r_VersionCount = 0,
     r_FailedIntrospectionsCount = 0, r_Origin = OriginExternal, r_ContentType = ''rpm'', r_SecurityLevel = [],
     r_PublishedDistURL = [], r_PublishedDistBasePath = []\<rparr>"

theorem slashes_url_is_stored_blank_witness:
  "\<exists>r'. repository_BeforeCreate (HasPrefix ''/'') ''u'' 0 demo_repo = Inr r' \<and> r_URL r' = []"
  by (rule slashes_url_is_stored_blank [of _ 0])
     (simp_all add: demo_repo_def OriginExternal_def OriginUpload_def OriginLightwell_def HasPrefix_def)

section \<open>Repository configurations in normal form\<close>

definition rc_normal :: "RepositoryConfiguration \<Rightarrow> bool" where
  "rc_normal rc \<longleftrightarrow>
     (\<exists>vs. rc_Versions rc = Some vs \<and> vs \<noteq> [] \<and> sorted vs \<and> distinct vs \<and> set vs \<subseteq> version_labels \<and>
        (ANY_VERSION \<in> set vs \<longrightarrow> vs = [ANY_VERSION])) \<and>
     rc_Arch rc \<noteq> [] \<and> ValidArchLabel (rc_Arch rc) \<and> rc_Name rc \<noteq> [] \<and> rc_OrgID rc \<noteq> [] \<and>
     rc_RepositoryUUID rc \<noteq> [] \<and> (rc_Origin rc = OriginUpload \<longrightarrow> rc_Snapshot rc)"

lemma sorted_nonempty_dedup: "sort (dedup_from [] vs) = [] \<longleftrightarrow> vs = []"
proof -
  have "set (sort (dedup_from [] vs)) = set vs" by (simp add: set_dedup_from)
  then show ?thesis by (metis set_empty)
qed

lemma replaced_versions:
  "rc_Versions (ReplaceEmptyValues (DedupeVersions rc)) =
   Some (if versions rc = [] then [ANY_VERSION] else sort (dedup_from [] (versions rc)))"
  by (simp add: ReplaceEmptyValues_def DedupeVersions_def Let_def sorted_nonempty_dedup)

lemma any_alone:
  assumes "distinct vs" "vs \<noteq> []" "\<not> versionContainsAnyAndOthers vs" "ANY_VERSION \<in> set vs"
  shows "vs = [ANY_VERSION]"
  using assms by (cases vs) (auto simp: versionContainsAnyAndOthers_def list_ex_iff split: if_splits)

lemma rc_validate_None:
  "rc_validate rc = None \<Longrightarrow>
   rc_Name rc \<noteq> [] \<and> rc_OrgID rc \<noteq> [] \<and> rc_RepositoryUUID rc \<noteq> [] \<and> (rc_Arch rc \<noteq> [] \<longrightarrow> ValidArchLabel (rc_Arch rc)) \<and>
   set (versions rc) \<subseteq> version_labels \<and> \<not> versionContainsAnyAndOthers (versions rc) \<and>
   (rc_Origin rc = OriginUpload \<longrightarrow> rc_Snapshot rc)"
  using ValidDistributionVersionLabels_iff [of "versions rc"]
  by (cases "ValidDistributionVersionLabels (versions rc)"; cases "versions rc = []")
     (simp_all add: rc_validate_def split: if_splits, blast+)

lemma replaced_versions_ok:
  assumes "rc_Versions (ReplaceEmptyValues (DedupeVersions rc)) = Some vs"
  shows "vs \<noteq> [] \<and> sorted vs \<and> distinct vs"
  using assms unfolding replaced_versions
  by (cases "versions rc = []") (auto simp: sorted_nonempty_dedup distinct_dedup_from)

lemma normal_after:
  assumes "rc_validate (ReplaceEmptyValues (DedupeVersions rc)) = None"
  shows "rc_normal (ReplaceEmptyValues (DedupeVersions rc))"
proof -
  let ?rc = "ReplaceEmptyValues (DedupeVersions rc)"
  note v = rc_validate_None [OF assms]
  obtain vs where vs: "rc_Versions ?rc = Some vs" using replaced_versions by blast
  then have vs2: "versions ?rc = vs" by (simp add: versions_def)
  note ok = replaced_versions_ok [OF vs]
  have "ANY_VERSION \<in> set vs \<longrightarrow> vs = [ANY_VERSION]" using any_alone [of vs] ok v vs2 by blast
  moreover have "rc_Arch ?rc \<noteq> []" by (simp add: ReplaceEmptyValues_def Let_def ANY_ARCH_def)
  ultimately show ?thesis using v vs ok unfolding rc_normal_def vs2 by blast
qed

lemma normal_fixpoint:
  assumes "rc_normal rc" "rc_validate rc = None"
  shows "rc_BeforeUpdate rc = Inr rc"
proof -
  obtain vs where vs: "rc_Versions rc = Some vs" "vs \<noteq> []" "sorted vs" "distinct vs" using assms(1) by (auto simp: rc_normal_def)
  then have "sort (dedup_from [] vs) = vs" using dedup_from_distinct [of vs "[]"] by (simp add: sorted_sort_id)
  then have "DedupeVersions rc = rc" using vs by (simp add: DedupeVersions_def versions_def)
  moreover have "ReplaceEmptyValues rc = rc"
    using vs assms(1) by (simp add: ReplaceEmptyValues_def Let_def rc_normal_def)
  ultimately show ?thesis using assms(2) by (simp add: rc_BeforeUpdate_def)
qed

lemma SetLabel_fields [simp]:
  "rc_Versions (SetLabel taken rnd rc) = rc_Versions rc" "rc_OrgID (SetLabel taken rnd rc) = rc_OrgID rc"
  by (simp_all add: SetLabel_def Let_def split: option.splits)

definition label_ok :: "char \<Rightarrow> bool" where
  "label_ok c \<longleftrightarrow> (let n = (of_char c :: nat) in
     97 \<le> n \<and> n \<le> 122 \<or> 65 \<le> n \<and> n \<le> 90 \<or> 48 \<le> n \<and> n \<le> 57) \<or> c = CHR '':'' \<or> c = CHR ''_''"

lemma label_ok_underscore: "label_ok (CHR ''_'')"
  by (simp add: label_ok_def)

lemma label_ok_rune: "label_ok (label_rune r)"
  by (auto simp: label_rune_def label_ok_def label_char_def Let_def split: list.split)


definition demo_rc :: RepositoryConfiguration where
  "demo_rc = \<lparr>rc_UUID = [], rc_Name = ''my repo: x'', rc_Versions = Some [''9'', ''8'', ''9''], rc_Arch = [], rc_GpgKey = [],
     rc_Label = [], rc_MetadataVerification = False, rc_ModuleHotfixes = False, rc_AccountID = [], rc_OrgID = ''1234'',
     rc_RepositoryUUID = ''r'', rc_Origin = OriginExternal, rc_Snapshot = False, rc_ExtendedRelease = [],
     rc_ExtendedReleaseVersion = []\<rparr>"


section \<open>Templates and errors\<close>

lemma ToValidUTF8_replicate: "ToValidUTF8 (replicate n (CHR ''a'') @ t) = replicate n (CHR ''a'') @ ToValidUTF8 t"
proof (induction n)
  case (Suc n)
  have "rune_width ''a'' = 1" by code_simp
  then have "valid_runes (''a'' @ s) = ''a'' # valid_runes s" for s by (intro valid_runes_append) simp_all
  with Suc show ?case by (simp add: ToValidUTF8_def)
qed simp

text \<open>Cutting after a number of bytes can split a character.\<close>

lemma trim_string_can_split_a_character:
  "\<exists>s t. ToValidUTF8 s = s \<and> trimString (Some s) 255 = Some t \<and> ToValidUTF8 t \<noteq> t"
proof -
  let ?a = "replicate 254 (CHR ''a'')"
  have e: "ToValidUTF8 [CHR 0xC3, CHR 0xA9] = [CHR 0xC3, CHR 0xA9]" "ToValidUTF8 [CHR 0xC3] = []" by code_simp+
  have "ToValidUTF8 (?a @ [CHR 0xC3, CHR 0xA9]) = ?a @ [CHR 0xC3, CHR 0xA9]"
    "ToValidUTF8 (?a @ [CHR 0xC3]) \<noteq> ?a @ [CHR 0xC3]"
    by (simp_all only: ToValidUTF8_replicate e append_same_eq append_Nil2, simp)
  moreover have "trimString (Some (?a @ [CHR 0xC3, CHR 0xA9])) 255 = Some (?a @ [CHR 0xC3])"
    by (simp add: trimString_def)
  ultimately show ?thesis by blast
qed

end
