(* ===== verification/GoIO.thy ===== *)
theory GoIO
  imports CS_Prelude
begin

text \<open>
  Steps of the tasks that call other services: each takes the state of the world, returns an
  error or a value, and leaves a new state, also when it fails. \<open>bindIO\<close> is the usual
  \<open>if err != nil { return err }\<close> between two calls.
\<close>

type_synonym ('a, 's) io = "'s \<Rightarrow> 'a result \<times> 's"

definition returnIO :: "'a \<Rightarrow> ('a, 's) io" where
  "returnIO a = (\<lambda>s. (Inr a, s))"

definition failIO :: "go_error \<Rightarrow> ('a, 's) io" where
  "failIO err = (\<lambda>s. (Inl err, s))"

definition bindIO :: "('a, 's) io \<Rightarrow> ('a \<Rightarrow> ('b, 's) io) \<Rightarrow> ('b, 's) io" where
  "bindIO m k = (\<lambda>s. case m s of (Inl err, s') \<Rightarrow> (Inl err, s') | (Inr a, s') \<Rightarrow> k a s')"

text \<open>\<open>fmt.Errorf("text: %w", err)\<close> around a call; a panic goes past it.\<close>

definition wrapIO :: "string \<Rightarrow> ('a, 's) io \<Rightarrow> ('a, 's) io" where
  "wrapIO text m = (\<lambda>s. case m s of (Inl err, s') \<Rightarrow> (Inl (if halted err then err else Wrap text err), s') | (Inr a, s') \<Rightarrow> (Inr a, s'))"

text \<open>A call whose error the code looks at itself; a panic goes past it.\<close>

definition handleIO :: "('a, 's) io \<Rightarrow> (go_error \<Rightarrow> ('a, 's) io) \<Rightarrow> ('a, 's) io" where
  "handleIO m h = (\<lambda>s. case m s of
      (Inl err, s') \<Rightarrow> if halted err then (Inl err, s') else h err s'
    | (Inr a, s') \<Rightarrow> (Inr a, s'))"

text \<open>A call of which the code goes on in both cases; a panic goes past it.\<close>

definition caseIO :: "('a, 's) io \<Rightarrow> (go_error \<Rightarrow> ('b, 's) io) \<Rightarrow> ('a \<Rightarrow> ('b, 's) io) \<Rightarrow> ('b, 's) io" where
  "caseIO m h k = (\<lambda>s. case m s of
      (Inl err, s') \<Rightarrow> if halted err then (Inl err, s') else h err s'
    | (Inr a, s') \<Rightarrow> k a s')"

text \<open>The dereference of a pointer that may be nil.\<close>

definition nil_dereference :: go_error where
  "nil_dereference = GoPanic ''runtime error: invalid memory address or nil pointer dereference''"

definition deref :: "'a option \<Rightarrow> ('a, 's) io" where
  "deref p = (case p of Some a \<Rightarrow> returnIO a | None \<Rightarrow> failIO nil_dereference)"

text \<open>\<open>gorm.ErrRecordNotFound\<close>.\<close>

definition ErrRecordNotFound :: go_error where "ErrRecordNotFound = Other ''record not found''"

fun forIO :: "('a \<Rightarrow> (unit, 's) io) \<Rightarrow> 'a list \<Rightarrow> (unit, 's) io" where
  "forIO f [] = returnIO ()"
| "forIO f (x # xs) = bindIO (f x) (\<lambda>_. forIO f xs)"

text \<open>A loop that collects the errors of its rounds and goes on; a panic ends it.\<close>

fun collectIO :: "('a \<Rightarrow> (unit, 's) io) \<Rightarrow> 'a list \<Rightarrow> (go_error list, 's) io" where
  "collectIO f [] = returnIO []"
| "collectIO f (x # xs) =
     bindIO (handleIO (bindIO (f x) (\<lambda>_. returnIO [])) (\<lambda>err. returnIO [err])) (\<lambda>errs.
     bindIO (collectIO f xs) (\<lambda>more. returnIO (errs @ more)))"

text \<open>\<open>return errors.Join(errs...)\<close>\<close>

definition joinIO :: "(go_error list, 's) io \<Rightarrow> (unit, 's) io" where
  "joinIO m = bindIO m (\<lambda>errs. case errors_Join errs of None \<Rightarrow> returnIO () | Some err \<Rightarrow> failIO err)"

definition whenIO :: "bool \<Rightarrow> (unit, 's) io \<Rightarrow> (unit, 's) io" where
  "whenIO b m = (if b then m else returnIO ())"

lemma returnIO_apply [simp]: "returnIO a s = (Inr a, s)"
  by (simp add: returnIO_def)

lemma failIO_apply [simp]: "failIO err s = (Inl err, s)"
  by (simp add: failIO_def)

lemma bindIO_Inr: "m s = (Inr a, s') \<Longrightarrow> bindIO m k s = k a s'"
  by (simp add: bindIO_def)

lemma bindIO_Inl: "m s = (Inl err, s') \<Longrightarrow> bindIO m k s = (Inl err, s')"
  by (simp add: bindIO_def)

lemma bindIO_return [simp]: "bindIO (returnIO a) k = k a"
  by (simp add: bindIO_def)

lemma bindIO_fail [simp]: "bindIO (failIO err) k = failIO err"
  by (simp add: bindIO_def failIO_def)

lemma bindIO_assoc: "bindIO (bindIO m k) h = bindIO m (\<lambda>a. bindIO (k a) h)"
  by (rule ext) (simp add: bindIO_def split: prod.split sum.split)

lemma bindIO_success:
  "bindIO m k s = (Inr b, s'') \<longleftrightarrow> (\<exists>a s'. m s = (Inr a, s') \<and> k a s' = (Inr b, s''))"
  by (auto simp: bindIO_def split: prod.splits sum.splits)

lemma bindIO_successE:
  assumes "bindIO m k s = (Inr b, s'')"
  obtains a s' where "m s = (Inr a, s')" "k a s' = (Inr b, s'')"
  using assms by (auto simp: bindIO_success)

lemma bindIO_prod_successE:
  assumes "bindIO m (\<lambda>(a, b). k a b) s = (Inr c, s'')"
  obtains a b s' where "m s = (Inr (a, b), s')" "k a b s' = (Inr c, s'')"
  using assms by (auto simp: bindIO_success)

lemma caseIO_successE:
  assumes "caseIO m h k s = (Inr b, s'')"
  obtains a s' where "m s = (Inr a, s')" "k a s' = (Inr b, s'')"
  | e s' where "m s = (Inl e, s')" "h e s' = (Inr b, s'')"
  using assms by (auto simp: caseIO_def split: prod.splits sum.splits if_splits)

lemma wrapIO_success [simp]: "wrapIO text m s = (Inr a, s') \<longleftrightarrow> m s = (Inr a, s')"
  by (auto simp: wrapIO_def split: prod.splits sum.splits)

lemma deref_simps [simp]:
  "deref (Some a) = returnIO a"
  "deref None = failIO nil_dereference"
  by (simp_all add: deref_def)

lemma deref_success: "deref p w = (Inr a, w') \<longleftrightarrow> p = Some a \<and> w' = w"
  by (cases p) (auto simp: nil_dereference_def)

lemma whenIO_True [simp]: "whenIO True m = m"
  by (simp add: whenIO_def)

lemma whenIO_False [simp]: "whenIO False m = returnIO ()"
  by (simp add: whenIO_def)

text \<open>
  A relation between the states before and after that holds for every part of a sequence holds
  for the sequence: the form in which the tasks' frame conditions are proved.
\<close>

definition keeps :: "('s \<Rightarrow> 's \<Rightarrow> bool) \<Rightarrow> ('a, 's) io \<Rightarrow> bool" where
  "keeps R m \<longleftrightarrow> (\<forall>s. R s (snd (m s)))"

lemma keepsI: "(\<And>s. R s (snd (m s))) \<Longrightarrow> keeps R m"
  by (simp add: keeps_def)

lemma keepsD: "keeps R m \<Longrightarrow> R s (snd (m s))"
  by (simp add: keeps_def)

lemma keeps_return: "reflp R \<Longrightarrow> keeps R (returnIO a)"
  by (simp add: keeps_def reflpD)

lemma keeps_fail: "reflp R \<Longrightarrow> keeps R (failIO err)"
  by (simp add: keeps_def reflpD)

lemma keeps_bind:
  assumes "transp R" "keeps R m" "\<And>a. keeps R (k a)"
  shows "keeps R (bindIO m k)"
proof (rule keepsI)
  fix s
  obtain r s' where m: "m s = (r, s')" by (cases "m s")
  then have "R s s'" using keepsD [OF assms(2), of s] by simp
  moreover have "R s' (snd (k a s'))" for a using keepsD [OF assms(3)] .
  ultimately show "R s (snd (bindIO m k s))"
    using assms(1) m by (cases r) (auto simp: bindIO_def elim: transpE)
qed

lemma keeps_wrap: "keeps R m \<Longrightarrow> keeps R (wrapIO text m)"
  unfolding keeps_def wrapIO_def by (auto split: prod.split sum.split) (metis snd_conv)+

lemma keeps_handle:
  assumes "transp R" "keeps R m" "\<And>e. keeps R (h e)"
  shows "keeps R (handleIO m h)"
proof (rule keepsI)
  fix s
  obtain r s' where m: "m s = (r, s')" by (cases "m s")
  then have "R s s'" using keepsD [OF assms(2), of s] by simp
  moreover have "R s' (snd (h e s'))" for e using keepsD [OF assms(3)] .
  ultimately show "R s (snd (handleIO m h s))"
    using assms(1) m by (cases r) (auto simp: handleIO_def elim: transpE)
qed

lemma keeps_case:
  assumes "transp R" "keeps R m" "\<And>e. keeps R (h e)" "\<And>a. keeps R (k a)"
  shows "keeps R (caseIO m h k)"
proof (rule keepsI)
  fix s
  obtain r s' where m: "m s = (r, s')" by (cases "m s")
  then have "R s s'" using keepsD [OF assms(2), of s] by simp
  moreover have "R s' (snd (h e s'))" "R s' (snd (k a s'))" for e a using keepsD [OF assms(3)] keepsD [OF assms(4)] by auto
  ultimately show "R s (snd (caseIO m h k s))"
    using assms(1) m by (cases r) (auto simp: caseIO_def elim: transpE)
qed

lemma keeps_for:
  assumes "reflp R" "transp R" "\<And>x. keeps R (f x)"
  shows "keeps R (forIO f xs)"
proof (induction xs)
  case Nil
  show ?case by (simp add: keeps_def reflpD [OF assms(1)])
next
  case (Cons x xs)
  then show ?case by (auto intro: keeps_bind assms)
qed

lemma keeps_collect:
  assumes "reflp R" "transp R" "\<And>x. x \<in> set xs \<Longrightarrow> keeps R (f x)"
  shows "keeps R (collectIO f xs)"
  using assms(3)
proof (induction xs)
  case Nil
  show ?case by (simp add: keeps_def reflpD [OF assms(1)])
next
  case (Cons x xs)
  then show ?case
    by (auto intro!: keeps_bind [OF assms(2)] keeps_handle [OF assms(2)] keeps_return [OF assms(1)] simp del: returnIO_apply)
qed

text \<open>A loop that reports no error had none in any round.\<close>

lemma collectIO_none:
  assumes "collectIO f (x # xs) w = (Inr [], w')"
  obtains w1 where "f x w = (Inr (), w1)" "collectIO f xs w1 = (Inr [], w')"
  using assms by (auto simp: bindIO_def handleIO_def split: prod.splits sum.splits if_splits)

lemma joinIO_success [simp]: "joinIO m w = (Inr (), w') \<longleftrightarrow> m w = (Inr [], w')"
  by (auto simp: joinIO_def bindIO_def split: prod.splits sum.splits option.splits)

end
