(* ===== verification/Introspection.thy ===== *)
theory Introspection
  imports Models GoIO
begin

text \<open>
  Introspection of repositories: the repository rows and their updates
  (\<open>pkg/dao/repositories.go\<close>) and the steps of one introspection
  (\<open>pkg/external_repos/introspect.go\<close>). The yum metadata, the tables of RPMs, package groups,
  environments and module streams, SHA-256 and failing database calls are arguments.
\<close>

section \<open>Repository rows\<close>

record dao_Repository =
  dr_UUID :: string
  dr_URL :: string
  dr_Public :: bool
  dr_RepomdChecksum :: string
  dr_LastIntrospectionTime :: "timestamp option"
  dr_LastIntrospectionSuccessTime :: "timestamp option"
  dr_LastIntrospectionUpdateTime :: "timestamp option"
  dr_LastIntrospectionError :: "string option"
  dr_LastIntrospectionStatus :: string
  dr_PackageCount :: int
  dr_BuildCount :: int
  dr_VersionCount :: int
  dr_FailedIntrospectionsCount :: int
  dr_Origin :: string

record RepositoryUpdate =
  ru_UUID :: string
  ru_URL :: "string option"
  ru_Public :: "bool option"
  ru_RepomdChecksum :: "string option"
  ru_LastIntrospectionTime :: "timestamp option"
  ru_LastIntrospectionSuccessTime :: "timestamp option"
  ru_LastIntrospectionUpdateTime :: "timestamp option"
  ru_LastIntrospectionError :: "string option"
  ru_LastIntrospectionStatus :: "string option"
  ru_PackageCount :: "int option"
  ru_BuildCount :: "int option"
  ru_VersionCount :: "int option"
  ru_FailedIntrospectionsCount :: "int option"

definition modelToInternal :: "Repository \<Rightarrow> dao_Repository" where
  "modelToInternal model =
     \<lparr>dr_UUID = r_UUID model, dr_URL = r_URL model, dr_Public = r_Public model,
      dr_RepomdChecksum = r_RepomdChecksum model,
      dr_LastIntrospectionTime = r_LastIntrospectionTime model,
      dr_LastIntrospectionSuccessTime = r_LastIntrospectionSuccessTime model,
      dr_LastIntrospectionUpdateTime = r_LastIntrospectionUpdateTime model,
      dr_LastIntrospectionError = r_LastIntrospectionError model,
      dr_LastIntrospectionStatus = r_LastIntrospectionStatus model,
      dr_PackageCount = r_PackageCount model, dr_BuildCount = r_BuildCount model,
      dr_VersionCount = r_VersionCount model,
      dr_FailedIntrospectionsCount = r_FailedIntrospectionsCount model, dr_Origin = r_Origin model\<rparr>"

definition or_else :: "'a option \<Rightarrow> 'a \<Rightarrow> 'a" where
  "or_else x d = (case x of Some a \<Rightarrow> a | None \<Rightarrow> d)"

definition or_keep :: "'a option \<Rightarrow> 'a option \<Rightarrow> 'a option" where
  "or_keep x d = (case x of Some a \<Rightarrow> Some a | None \<Rightarrow> d)"

text \<open>Fields that are nil are left; the counts of builds and versions are not read.\<close>

definition internalToModel :: "RepositoryUpdate \<Rightarrow> Repository \<Rightarrow> Repository" where
  "internalToModel u model =
     model\<lparr>r_URL := or_else (ru_URL u) (r_URL model),
       r_RepomdChecksum := or_else (ru_RepomdChecksum u) (r_RepomdChecksum model),
       r_Public := or_else (ru_Public u) (r_Public model),
       r_LastIntrospectionError := or_keep (map_option ToValidUTF8 (ru_LastIntrospectionError u)) (r_LastIntrospectionError model),
       r_LastIntrospectionTime := or_keep (ru_LastIntrospectionTime u) (r_LastIntrospectionTime model),
       r_LastIntrospectionUpdateTime := or_keep (ru_LastIntrospectionUpdateTime u) (r_LastIntrospectionUpdateTime model),
       r_LastIntrospectionSuccessTime := or_keep (ru_LastIntrospectionSuccessTime u) (r_LastIntrospectionSuccessTime model),
       r_LastIntrospectionStatus := or_else (ru_LastIntrospectionStatus u) (r_LastIntrospectionStatus model),
       r_PackageCount := or_else (ru_PackageCount u) (r_PackageCount model),
       r_FailedIntrospectionsCount := or_else (ru_FailedIntrospectionsCount u) (r_FailedIntrospectionsCount model)\<rparr>"

text \<open>
  What the row holds after writing the columns of \<open>MapForUpdate\<close>: the error is cut, an empty
  URL is not written. PostgreSQL refuses a text that is not valid UTF-8.
\<close>

definition written_row :: "Repository \<Rightarrow> Repository \<Rightarrow> Repository" where
  "written_row old new = new\<lparr>r_LastIntrospectionError := trimString (r_LastIntrospectionError new) 255,
     r_URL := (if r_URL new \<noteq> [] then r_URL new else r_URL old)\<rparr>"

definition storable :: "Repository \<Rightarrow> bool" where
  "storable row = (case r_LastIntrospectionError row of None \<Rightarrow> True | Some e \<Rightarrow> ToValidUTF8 e = e)"

record 'c world =
  w_repos :: "Repository list"
  w_content :: 'c
  w_sent :: "(string \<times> string \<times> string) list"

text \<open>\<open>faults\<close>: the errors of the reading and the writing call, if the database fails them.\<close>

definition Update :: "go_error option \<times> go_error option \<Rightarrow> RepositoryUpdate \<Rightarrow> (unit, 'c world) io" where
  "Update faults repoIn = (\<lambda>w.
     case fst faults of
       Some err \<Rightarrow> (Inl err, w)
     | None \<Rightarrow>
         (case find (\<lambda>r. r_UUID r = ru_UUID repoIn) (w_repos w) of
            None \<Rightarrow> (Inl ErrRecordNotFound, w)
          | Some row \<Rightarrow>
              (let new = written_row row (internalToModel repoIn row) in
               case snd faults of
                 Some err \<Rightarrow> (Inl err, w)
               | None \<Rightarrow>
                   if \<not> storable new then (Inl (Other ''invalid byte sequence for encoding UTF8''), w)
                   else (Inr (), w\<lparr>w_repos := map (\<lambda>r. if r_UUID r = ru_UUID repoIn then new else r) (w_repos w)\<rparr>))))"

definition FetchForUrl :: "go_error option \<Rightarrow> string \<Rightarrow> string option \<Rightarrow> (dao_Repository, 'c world) io" where
  "FetchForUrl fault url origin = (\<lambda>w.
     case fault of
       Some err \<Rightarrow> (Inl err, w)
     | None \<Rightarrow>
         (case find (\<lambda>r. r_URL r = CleanupURL url \<and> (case origin of None \<Rightarrow> True | Some o' \<Rightarrow> r_Origin r = o')) (w_repos w) of
            None \<Rightarrow> (Inl ErrRecordNotFound, w)
          | Some row \<Rightarrow> (Inr (modelToInternal row), w)))"

text \<open>The rows due for introspection: \<open>now\<close> is in hours, the interval is 23 of them.\<close>

definition due :: "bool \<Rightarrow> timestamp \<Rightarrow> string list option \<Rightarrow> Repository \<Rightarrow> bool" where
  "due always now urls r =
     ((always \<or>
       ((r_LastIntrospectionStatus r \<noteq> StatusValid \<or> r_LastIntrospectionTime r = None \<or>
         (case r_LastIntrospectionTime r of None \<Rightarrow> False | Some t \<Rightarrow> t < now - 23)) \<and>
        (r_FailedIntrospectionsCount r < FailedIntrospectionsLimit + 1 \<or> r_Public r))) \<and>
      (case urls of None \<Rightarrow> True | Some us \<Rightarrow> r_URL r \<in> set (map CleanupURL us)) \<and>
      r_Origin r \<in> {OriginExternal, OriginRedHat, OriginCommunity})"

definition ListForIntrospection ::
  "bool \<Rightarrow> timestamp \<Rightarrow> string list option \<Rightarrow> bool \<Rightarrow> 'c world \<Rightarrow> dao_Repository list" where
  "ListForIntrospection alwaysRunCronTasks now urls force w =
     map modelToInternal (filter (due (force \<or> alwaysRunCronTasks) now urls) (w_repos w))"

section \<open>One introspection\<close>

record ('c, 'p, 'g, 'e, 'm) introspect_env =
  ie_httpClient :: "bool \<Rightarrow> go_error option"
  ie_sha256 :: "string \<Rightarrow> string"
  ie_Repomd :: "string option result"
  ie_Packages :: "'p list result"
  ie_PackageGroups :: "'g list result"
  ie_Environments :: "'e list result"
  ie_ModuleMDs :: "'m list result"
  ie_InsertRpms :: "string \<Rightarrow> 'p list \<Rightarrow> 'c \<Rightarrow> int result \<times> 'c"
  ie_RpmCount :: "string \<Rightarrow> 'c \<Rightarrow> int result"
  ie_InsertPackageGroups :: "string \<Rightarrow> 'g list \<Rightarrow> 'c \<Rightarrow> int result \<times> 'c"
  ie_InsertEnvironments :: "string \<Rightarrow> 'e list \<Rightarrow> 'c \<Rightarrow> int result \<times> 'c"
  ie_InsertModuleStreams :: "string \<Rightarrow> 'm list \<Rightarrow> 'c \<Rightarrow> int result \<times> 'c"
  ie_fetchFault :: "go_error option"
  ie_updateFaults :: "go_error option \<times> go_error option"
  ie_statusFaults :: "go_error option \<times> go_error option"
  ie_configs :: "string \<Rightarrow> (string \<times> string) list"
  ie_now :: timestamp

definition IsRedHatUrl :: "string \<Rightarrow> bool" where
  "IsRedHatUrl url = StrContains url ''cdn.redhat.com''"

definition RepoToRepoUpdate :: "dao_Repository \<Rightarrow> RepositoryUpdate" where
  "RepoToRepoUpdate repo =
     \<lparr>ru_UUID = dr_UUID repo, ru_URL = Some (dr_URL repo), ru_Public = None,
      ru_RepomdChecksum = Some (dr_RepomdChecksum repo),
      ru_LastIntrospectionTime = dr_LastIntrospectionTime repo,
      ru_LastIntrospectionSuccessTime = dr_LastIntrospectionSuccessTime repo,
      ru_LastIntrospectionUpdateTime = dr_LastIntrospectionUpdateTime repo,
      ru_LastIntrospectionError = dr_LastIntrospectionError repo,
      ru_LastIntrospectionStatus = Some (dr_LastIntrospectionStatus repo),
      ru_PackageCount = Some (dr_PackageCount repo), ru_BuildCount = Some (dr_BuildCount repo),
      ru_VersionCount = Some (dr_VersionCount repo),
      ru_FailedIntrospectionsCount = Some (dr_FailedIntrospectionsCount repo)\<rparr>"

text \<open>A call on the content tables, and reading a part of the metadata.\<close>

definition onContent :: "('c \<Rightarrow> 'a result \<times> 'c) \<Rightarrow> ('a, 'c world) io" where
  "onContent f = (\<lambda>w. case f (w_content w) of (r, c) \<Rightarrow> (r, w\<lparr>w_content := c\<rparr>))"

definition readIO :: "'a result \<Rightarrow> ('a, 's) io" where
  "readIO r = (\<lambda>s. (r, s))"

text \<open>From the packages to the module streams: the new RPMs and the RPMs of the repository.\<close>

definition introspect_content ::
  "('c, 'p, 'g, 'e, 'm) introspect_env \<Rightarrow> string \<Rightarrow> (int \<times> int, 'c world) io" where
  "introspect_content env uuid =
     bindIO (readIO (ie_Packages env)) (\<lambda>packages.
     bindIO (onContent (ie_InsertRpms env uuid packages)) (\<lambda>inserted.
     bindIO (\<lambda>w. (ie_RpmCount env uuid (w_content w), w)) (\<lambda>foundCount.
     bindIO (readIO (ie_PackageGroups env)) (\<lambda>packageGroups.
     bindIO (onContent (ie_InsertPackageGroups env uuid packageGroups)) (\<lambda>_.
     bindIO (readIO (ie_Environments env)) (\<lambda>environments.
     bindIO (onContent (ie_InsertEnvironments env uuid environments)) (\<lambda>_.
     bindIO (readIO (ie_ModuleMDs env)) (\<lambda>modMds.
     bindIO (onContent (ie_InsertModuleStreams env uuid modMds)) (\<lambda>_.
     returnIO (inserted, foundCount))))))))))"

definition over_limit :: go_error where
  "over_limit = Other (''introspection skipped because this repository has failed more than '' @
     Itoa FailedIntrospectionsLimit @ '' times in a row'')"

text \<open>
  The count, error and updated flag, the repository as the caller's variable holds it
  afterwards, and the world.
\<close>

definition Introspect ::
  "('c, 'p, 'g, 'e, 'm) introspect_env \<Rightarrow> dao_Repository \<Rightarrow> 'c world \<Rightarrow>
   (int \<times> go_error option \<times> bool) \<times> dao_Repository \<times> 'c world" where
  "Introspect env repo w =
     (if dr_FailedIntrospectionsCount repo = FailedIntrospectionsLimit
      then ((0, Some over_limit, False), repo, w)
      else case ie_httpClient env (IsRedHatUrl (dr_URL repo)) of
          Some err \<Rightarrow> ((0, Some err, False), repo, w)
        | None \<Rightarrow>
            (case ie_Repomd env of
               Inl err \<Rightarrow> ((0, Some err, False), repo, w)
             | Inr repomdString \<Rightarrow>
                 (let checksumStr = (case repomdString of
                        None \<Rightarrow> []
                      | Some md \<Rightarrow> if md \<noteq> [] then ie_sha256 env md else [])
                  in if dr_RepomdChecksum repo \<noteq> [] \<and> checksumStr \<noteq> [] \<and> checksumStr = dr_RepomdChecksum repo
                     then ((0, None, False), repo, w)
                     else case introspect_content env (dr_UUID repo) w of
                         (Inl err, w') \<Rightarrow> ((0, Some err, False), repo, w')
                       | (Inr (inserted, foundCount), w') \<Rightarrow>
                           (let repo' = repo\<lparr>dr_RepomdChecksum := checksumStr, dr_PackageCount := foundCount\<rparr> in
                            case Update (ie_updateFaults env) (RepoToRepoUpdate repo') w' of
                              (Inl err, w'') \<Rightarrow> ((0, Some err, False), repo', w'')
                            | (Inr _, w'') \<Rightarrow> ((inserted, None, True), repo', w'')))))"

definition updateIntrospectionStatusMetadata ::
  "dao_Repository \<Rightarrow> int \<Rightarrow> go_error option \<Rightarrow> timestamp \<Rightarrow> RepositoryUpdate" where
  "updateIntrospectionStatusMetadata input count err now =
     (let output = input\<lparr>dr_LastIntrospectionTime := Some now\<rparr> in
      case err of
        None \<Rightarrow>
          RepoToRepoUpdate (output\<lparr>
            dr_LastIntrospectionUpdateTime := (if count \<noteq> 0 then Some now else dr_LastIntrospectionUpdateTime input),
            dr_LastIntrospectionSuccessTime := Some now, dr_LastIntrospectionError := Some [],
            dr_LastIntrospectionStatus := StatusValid, dr_FailedIntrospectionsCount := 0\<rparr>)
      | Some e \<Rightarrow>
          (let status = dr_LastIntrospectionStatus input in
           RepoToRepoUpdate (output\<lparr>
             dr_LastIntrospectionError := Some (error_text e),
             dr_FailedIntrospectionsCount := dr_FailedIntrospectionsCount input + 1,
             dr_LastIntrospectionStatus :=
               (if status = StatusValid then StatusUnavailable
                else if status = StatusInvalid then StatusInvalid
                else if status = StatusPending
                then (if dr_LastIntrospectionSuccessTime input = None then StatusInvalid else StatusUnavailable)
                else if status = StatusUnavailable then status
                else StatusUnavailable)\<rparr>)))"

definition UpdateIntrospectionStatusMetadata ::
  "go_error option \<times> go_error option \<Rightarrow> timestamp \<Rightarrow> dao_Repository \<Rightarrow> int \<Rightarrow> go_error option \<Rightarrow> (unit, 'c world) io" where
  "UpdateIntrospectionStatusMetadata faults now repo count err =
     wrapIO ''failed to update introspection timestamps''
       (Update faults (updateIntrospectionStatusMetadata repo count err now))"

text \<open>The configurations of each repository get a notification with its event.\<close>

definition sendIntrospectionNotifications ::
  "(string \<Rightarrow> (string \<times> string) list) \<Rightarrow> string list \<Rightarrow> string list \<Rightarrow> 'c world \<Rightarrow> 'c world" where
  "sendIntrospectionNotifications configs successUuids failedUuids w =
     w\<lparr>w_sent := w_sent w @
        concat (map (\<lambda>u. map (\<lambda>(org, payload). (org, ''repository-introspected'', payload)) (configs u)) successUuids) @
        concat (map (\<lambda>u. map (\<lambda>(org, payload). (org, ''repository-introspection-failure'', payload)) (configs u)) failedUuids)\<rparr>"

definition IntrospectUrl ::
  "('c, 'p, 'g, 'e, 'm) introspect_env \<Rightarrow> string \<Rightarrow> string option \<Rightarrow> 'c world \<Rightarrow>
   (int \<times> go_error option \<times> go_error option) \<times> 'c world" where
  "IntrospectUrl env url origin w =
     (case FetchForUrl (ie_fetchFault env) url origin w of
        (Inl err, w1) \<Rightarrow> ((0, None, Some err), w1)
      | (Inr repo, w1) \<Rightarrow>
          (case Introspect env repo w1 of ((count, err, updated), repo', w2) \<Rightarrow>
            (let introspectionError = map_option (\<lambda>e. Other (''error introspecting '' @ dr_URL repo' @ '': '' @ error_text e)) err;
                 failedUuids = (if err \<noteq> None then [dr_UUID repo'] else []);
                 successUuids = (if err = None \<and> updated then [dr_UUID repo'] else []);
                 (r, w3) = UpdateIntrospectionStatusMetadata (ie_statusFaults env) (ie_now env) repo' count err w2;
                 w4 = sendIntrospectionNotifications (ie_configs env) successUuids failedUuids w3
             in ((count, introspectionError, case r of Inl e \<Rightarrow> Some e | Inr _ \<Rightarrow> None), w4))))"

section \<open>What an introspection leaves of a row\<close>

text \<open>Replacing the row of a UUID, and the part of a row the history of introspections is in.\<close>

definition put_row :: "Repository \<Rightarrow> Repository list \<Rightarrow> Repository list" where
  "put_row new rows = map (\<lambda>r. if r_UUID r = r_UUID new then new else r) rows"

definition hist :: "Repository \<Rightarrow> string \<times> string \<times> string \<times> bool \<times> string \<times> int \<times> timestamp option" where
  "hist r = (r_UUID r, r_URL r, r_Origin r, r_Public r, r_LastIntrospectionStatus r, r_FailedIntrospectionsCount r,
     r_LastIntrospectionSuccessTime r)"

definition internal_hist :: "dao_Repository \<Rightarrow> string \<times> string \<times> string \<times> bool \<times> string \<times> int \<times> timestamp option" where
  "internal_hist r = (dr_UUID r, dr_URL r, dr_Origin r, dr_Public r, dr_LastIntrospectionStatus r, dr_FailedIntrospectionsCount r,
     dr_LastIntrospectionSuccessTime r)"

lemma internal_hist_model [simp]: "internal_hist (modelToInternal r) = hist r"
  by (simp add: internal_hist_def modelToInternal_def hist_def)

lemma put_row_uuids [simp]: "map r_UUID (put_row new rows) = map r_UUID rows"
  by (simp add: put_row_def)

lemma put_row_same: "distinct (map r_UUID rows) \<Longrightarrow> row \<in> set rows \<Longrightarrow> put_row row rows = rows"
  unfolding put_row_def by (rule map_idI) (metis distinct_map inj_onD)

lemma put_row_in: "row \<in> set rows \<Longrightarrow> r_UUID new = r_UUID row \<Longrightarrow> new \<in> set (put_row new rows)"
  by (force simp: put_row_def)

lemma put_row_put_row: "r_UUID a = r_UUID b \<Longrightarrow> put_row a (put_row b rows) = put_row a rows"
  by (simp add: put_row_def)

lemma find_uuid:
  "distinct (map r_UUID rows) \<Longrightarrow> row \<in> set rows \<Longrightarrow> find (\<lambda>r. r_UUID r = r_UUID row) rows = Some row"
  by (induction rows) auto

lemma find_put_row:
  assumes "find P rows = Some row" "distinct (map r_UUID rows)" "r_UUID new = r_UUID row" "P new"
  shows "find P (put_row new rows) = Some new"
  using assms by (induction rows) (auto simp: put_row_def split: if_splits)

lemma Update_result:
  assumes "distinct (map r_UUID (w_repos w))" "row \<in> set (w_repos w)" "ru_UUID u = r_UUID row"
    and "Update faults u w = (res, w')"
  shows "(\<exists>e. res = Inl e) \<and> w' = w \<or>
    res = Inr () \<and> w' = w\<lparr>w_repos := put_row (written_row row (internalToModel u row)) (w_repos w)\<rparr>"
  using assms find_uuid [OF assms(1,2)]
  by (auto simp: Update_def put_row_def written_row_def internalToModel_def Let_def split: option.splits if_splits)

lemma Update_stored:
  assumes "distinct (map r_UUID (w_repos w))" "row \<in> set (w_repos w)" "ru_UUID u = r_UUID row"
    and "storable (written_row row (internalToModel u row))"
  shows "Update (None, None) u w = (Inr (), w\<lparr>w_repos := put_row (written_row row (internalToModel u row)) (w_repos w)\<rparr>)"
  using assms find_uuid [OF assms(1,2)]
  by (simp add: Update_def put_row_def written_row_def internalToModel_def Let_def)

lemma written_uuid [simp]: "r_UUID (written_row row (internalToModel u row)) = r_UUID row"
  by (simp add: written_row_def internalToModel_def)

lemma hist_written:
  "hist (written_row row (internalToModel (RepoToRepoUpdate repo) row)) =
     (if internal_hist repo = hist row then hist row
      else hist (written_row row (internalToModel (RepoToRepoUpdate repo) row)))"
  by (auto simp: hist_def internal_hist_def written_row_def internalToModel_def RepoToRepoUpdate_def or_else_def or_keep_def
      split: option.splits)

abbreviation same_repos :: "'c world \<Rightarrow> 'c world \<Rightarrow> bool" where
  "same_repos w w' \<equiv> w_repos w' = w_repos w"

lemma same_repos_order: "reflp same_repos" "transp same_repos"
  by (auto intro: transpI reflpI)

lemma keeps_readIO: "keeps same_repos (readIO x)"
  by (simp add: keeps_def readIO_def)

lemma keeps_onContent: "keeps same_repos (onContent f)"
  by (simp add: keeps_def onContent_def split: prod.split)

lemma keeps_query: "keeps same_repos (\<lambda>w. (f w, w))"
  by (simp add: keeps_def)

lemma introspect_content_keeps: "keeps same_repos (introspect_content env uuid)"
  unfolding introspect_content_def
  by (intro keeps_bind [OF same_repos_order(2)] keeps_return [OF same_repos_order(1)] keeps_readIO keeps_onContent keeps_query)

lemma Introspect_row:
  assumes "distinct (map r_UUID (w_repos w))" "row \<in> set (w_repos w)"
    and "Introspect env (modelToInternal row) w = ((c, err, upd), repo', w2)"
  shows "internal_hist repo' = hist row \<and> (\<exists>row2. hist row2 = hist row \<and> w_repos w2 = put_row row2 (w_repos w))"
proof -
  let ?repo = "modelToInternal row"
  have same: "\<exists>row2. hist row2 = hist row \<and> w_repos w' = put_row row2 (w_repos w)" if "w_repos w' = w_repos w" for w'
    using that put_row_same [OF assms(1,2)] by (intro exI [of _ row]) simp
  let ?sum = "\<lambda>md. case md of None \<Rightarrow> [] | Some md \<Rightarrow> if md \<noteq> [] then ie_sha256 env md else []"
  consider (early) "repo' = ?repo" "w2 = w" | (content) e where "repo' = ?repo" "introspect_content env (dr_UUID ?repo) w = (Inl e, w2)"
    | (update) ck n m w' res where "repo' = ?repo\<lparr>dr_RepomdChecksum := ck, dr_PackageCount := n\<rparr>"
        "introspect_content env (dr_UUID ?repo) w = (Inr (m, n), w')" "Update (ie_updateFaults env) (RepoToRepoUpdate repo') w' = (res, w2)"
    using assms(3) unfolding Introspect_def Let_def
    by (auto split: if_splits option.splits sum.splits prod.splits)
  then show ?thesis
  proof cases
    case content
    then have "w_repos w2 = w_repos w" using keepsD [OF introspect_content_keeps, of env "dr_UUID ?repo" w] by simp
    with content same [of w2] show ?thesis by auto
  next
    case update
    have w': "w_repos w' = w_repos w" using update(2) keepsD [OF introspect_content_keeps, of env "dr_UUID ?repo" w] by simp
    have h: "internal_hist repo' = hist row" using update(1) by (simp add: internal_hist_def modelToInternal_def hist_def)
    let ?new = "written_row row (internalToModel (RepoToRepoUpdate repo') row)"
    have "ru_UUID (RepoToRepoUpdate repo') = r_UUID row" using update(1) by (simp add: RepoToRepoUpdate_def modelToInternal_def)
    from Update_result [OF _ _ this update(3)] assms(1,2) w'
    have "w_repos w2 = w_repos w \<or> w_repos w2 = put_row ?new (w_repos w)" by auto
    moreover have "hist ?new = hist row" using h by (simp add: hist_written)
    ultimately show ?thesis using same [of w2] h by blast
  qed (use same [of w] in auto)
qed

section \<open>The history of a repository\<close>

definition at_url :: "string \<Rightarrow> string option \<Rightarrow> Repository \<Rightarrow> bool" where
  "at_url url origin r = (r_URL r = CleanupURL url \<and> (case origin of None \<Rightarrow> True | Some o' \<Rightarrow> r_Origin r = o'))"

definition lookup_url :: "string \<Rightarrow> string option \<Rightarrow> 'c world \<Rightarrow> Repository option" where
  "lookup_url url origin w = find (at_url url origin) (w_repos w)"

lemma FetchForUrl_lookup:
  "lookup_url url origin w = Some row \<Longrightarrow> FetchForUrl None url origin w = (Inr (modelToInternal row), w)"
  by (simp add: FetchForUrl_def lookup_url_def at_url_def [abs_def])

definition next_status :: "bool \<Rightarrow> string \<Rightarrow> timestamp option \<Rightarrow> string" where
  "next_status ok status success =
     (if ok then StatusValid
      else if status = StatusInvalid \<or> status = StatusPending \<and> success = None then StatusInvalid
      else StatusUnavailable)"

text \<open>How a round that was recorded changes status, count of failures and time of success.\<close>

definition after_round ::
  "bool \<Rightarrow> timestamp \<Rightarrow> string \<times> string \<times> string \<times> bool \<times> string \<times> int \<times> timestamp option \<Rightarrow>
   string \<times> string \<times> string \<times> bool \<times> string \<times> int \<times> timestamp option" where
  "after_round ok now h = (case h of (u, l, o', p, status, n, success) \<Rightarrow>
     (u, l, o', p, next_status ok status success, if ok then 0 else n + 1, if ok then Some now else success))"

lemma status_distinct [simp]:
  "StatusValid \<noteq> StatusInvalid" "StatusValid \<noteq> StatusPending" "StatusValid \<noteq> StatusUnavailable"
  "StatusInvalid \<noteq> StatusPending" "StatusInvalid \<noteq> StatusUnavailable" "StatusPending \<noteq> StatusUnavailable"
  "StatusInvalid \<noteq> StatusValid" "StatusPending \<noteq> StatusValid" "StatusUnavailable \<noteq> StatusValid"
  "StatusPending \<noteq> StatusInvalid" "StatusUnavailable \<noteq> StatusInvalid" "StatusUnavailable \<noteq> StatusPending"
  by (simp_all add: StatusValid_def StatusInvalid_def StatusPending_def StatusUnavailable_def)

lemma recorded_hist:
  assumes "internal_hist repo = hist row"
  shows "hist (written_row row (internalToModel (updateIntrospectionStatusMetadata repo count err now) row)) =
    after_round (err = None) now (hist row)"
  using assms
  by (cases err)
     (auto simp: hist_def internal_hist_def updateIntrospectionStatusMetadata_def written_row_def internalToModel_def
        RepoToRepoUpdate_def or_else_def or_keep_def after_round_def next_status_def Let_def split: option.splits)

lemma status_update_uuid: "ru_UUID (updateIntrospectionStatusMetadata repo count err now) = dr_UUID repo"
  by (cases err) (simp_all add: updateIntrospectionStatusMetadata_def RepoToRepoUpdate_def Let_def)

lemma hist_uuid: "hist a = hist b \<Longrightarrow> r_UUID a = r_UUID b"
  by (simp add: hist_def)

lemma internal_hist_uuid: "internal_hist a = hist b \<Longrightarrow> dr_UUID a = r_UUID b"
  by (simp add: internal_hist_def hist_def)

lemma lookup_put_row:
  assumes "lookup_url url origin w = Some row" "distinct (map r_UUID (w_repos w))" "w_repos w' = put_row new (w_repos w)"
    and "r_UUID new = r_UUID row" "r_URL new = r_URL row" "r_Origin new = r_Origin row"
  shows "lookup_url url origin w' = Some new"
proof -
  have "at_url url origin row" using assms(1) by (auto simp: lookup_url_def find_Some_iff)
  with assms(5,6) have "at_url url origin new" by (cases origin) (simp_all add: at_url_def)
  with assms(1) find_put_row [of "at_url url origin" "w_repos w" row new] assms(2-4) show ?thesis
    unfolding lookup_url_def by simp
qed

lemma lookup_in: "lookup_url url origin w = Some row \<Longrightarrow> row \<in> set (w_repos w)"
  by (auto simp: lookup_url_def find_Some_iff)

lemma IntrospectUrl_round:
  assumes dist: "distinct (map r_UUID (w_repos w))" and row: "lookup_url url origin w = Some row"
    and run: "IntrospectUrl env url origin w = ((count, ierr, None), w')"
  shows "\<exists>row'. lookup_url url origin w' = Some row' \<and> distinct (map r_UUID (w_repos w')) \<and>
    hist row' = after_round (ierr = None) (ie_now env) (hist row)"
proof -
  note in_w = lookup_in [OF row]
  have "ie_fetchFault env = None" using run by (cases "ie_fetchFault env") (simp_all add: IntrospectUrl_def FetchForUrl_def)
  then have fetch: "FetchForUrl (ie_fetchFault env) url origin w = (Inr (modelToInternal row), w)"
    using FetchForUrl_lookup [OF row] by simp
  obtain c err upd repo' w2 where I: "Introspect env (modelToInternal row) w = ((c, err, upd), repo', w2)"
    by (metis prod_cases3 surj_pair)
  obtain row2 where row2: "internal_hist repo' = hist row" "hist row2 = hist row" "w_repos w2 = put_row row2 (w_repos w)"
    using Introspect_row [OF dist in_w I] by blast
  note u2 = hist_uuid [OF row2(2)]
  have d2: "distinct (map r_UUID (w_repos w2))" and in2: "row2 \<in> set (w_repos w2)"
    using dist row2(3) put_row_in [OF in_w u2] by simp_all
  let ?u = "updateIntrospectionStatusMetadata repo' c err (ie_now env)"
  let ?new = "written_row row2 (internalToModel ?u row2)"
  obtain r w3 where U: "Update (ie_statusFaults env) ?u w2 = (r, w3)" by (metis surj_pair)
  have ierr: "ierr = None \<longleftrightarrow> err = None" and repos: "w_repos w' = w_repos w3" and r: "\<exists>x. r = Inr x"
    using run [unfolded IntrospectUrl_def fetch I UpdateIntrospectionStatusMetadata_def wrapIO_def U] fetch
    by (cases r; simp add: I U Let_def sendIntrospectionNotifications_def; force)+
  have "ru_UUID ?u = r_UUID row2" using internal_hist_uuid [OF row2(1)] u2 by (simp add: status_update_uuid)
  from Update_result [OF d2 in2 this U] r have w3: "w_repos w3 = put_row ?new (w_repos w2)" by auto
  have new: "hist ?new = after_round (err = None) (ie_now env) (hist row)"
    using recorded_hist [of repo' row2] row2(1,2) by simp
  have repos': "w_repos w' = put_row ?new (w_repos w)" using repos w3 row2(3) by (simp add: put_row_put_row)
  have same: "r_UUID ?new = r_UUID row" "r_URL ?new = r_URL row" "r_Origin ?new = r_Origin row"
    using new by (auto simp: hist_def after_round_def)
  have "lookup_url url origin w' = Some ?new" by (rule lookup_put_row [OF row dist repos' same])
  moreover have "distinct (map r_UUID (w_repos w'))" using dist repos' by simp
  moreover have "hist ?new = after_round (ierr = None) (ie_now env) (hist row)" using new ierr by simp
  ultimately show ?thesis by blast
qed

text \<open>A sequence of introspections of one URL; each is recorded and may fail.\<close>

fun rounds ::
  "string \<Rightarrow> string option \<Rightarrow> ('c, 'p, 'g, 'e, 'm) introspect_env list \<Rightarrow> 'c world \<Rightarrow>
   (bool \<times> bool) list \<times> 'c world" where
  "rounds url origin [] w = ([], w)"
| "rounds url origin (env # envs) w =
     (case IntrospectUrl env url origin w of ((count, ierr, fatal), w1) \<Rightarrow>
        (case rounds url origin envs w1 of (outs, w2) \<Rightarrow> ((ierr = None, fatal = None) # outs, w2)))"

definition history_status :: "bool list \<Rightarrow> string" where
  "history_status oks = (if oks = [] then StatusPending else if last oks then StatusValid
     else if True \<in> set oks then StatusUnavailable else StatusInvalid)"

definition history_failures :: "bool list \<Rightarrow> int" where
  "history_failures oks = int (length (takeWhile Not (rev oks)))"

definition fits :: "bool list \<Rightarrow> Repository \<Rightarrow> bool" where
  "fits oks row \<longleftrightarrow> r_LastIntrospectionStatus row = history_status oks \<and>
     r_FailedIntrospectionsCount row = history_failures oks \<and>
     (r_LastIntrospectionSuccessTime row \<noteq> None \<longleftrightarrow> True \<in> set oks)"

lemma fits_snoc:
  assumes "fits oks row" "hist row' = after_round ok now (hist row)"
  shows "fits (oks @ [ok]) row'"
proof -
  have "True \<in> set oks" if "oks \<noteq> []" "last oks" using last_in_set [OF that(1)] that(2) by simp
  with assms show ?thesis
  by (auto simp: fits_def hist_def after_round_def next_status_def history_status_def history_failures_def
      split: if_splits)
qed

lemma rounds_fit:
  assumes "distinct (map r_UUID (w_repos w))" "lookup_url url origin w = Some row" "fits past row"
    and "rounds url origin envs w = (outs, w')" "\<forall>out \<in> set outs. snd out"
  shows "\<exists>row'. lookup_url url origin w' = Some row' \<and> fits (past @ map fst outs) row'"
  using assms
proof (induction envs arbitrary: w row past outs)
  case (Cons env envs)
  obtain count ierr fatal w1 where run: "IntrospectUrl env url origin w = ((count, ierr, fatal), w1)"
    by (metis prod_cases3 surj_pair)
  obtain outs1 w2 where rest: "rounds url origin envs w1 = (outs1, w2)" by (metis surj_pair)
  with run Cons.prems(4) have outs: "outs = (ierr = None, fatal = None) # outs1" "w2 = w'" by simp_all
  with Cons.prems(5) have ok: "fatal = None" "\<forall>out \<in> set outs1. snd out" by simp_all
  obtain row1 where row1: "lookup_url url origin w1 = Some row1" "distinct (map r_UUID (w_repos w1))"
      "hist row1 = after_round (ierr = None) (ie_now env) (hist row)"
    using IntrospectUrl_round [OF Cons.prems(1,2), of env] run ok(1) by blast
  from Cons.IH [OF row1(2,1) fits_snoc [OF Cons.prems(3) row1(3)], of outs1] rest outs ok(2)
  show ?case by simp
qed auto


definition demo_introspect :: "timestamp \<Rightarrow> string option result \<Rightarrow> (unit, unit, unit, unit, unit) introspect_env" where
  "demo_introspect now repomd =
     \<lparr>ie_httpClient = (\<lambda>_. None), ie_sha256 = id, ie_Repomd = repomd, ie_Packages = Inr [], ie_PackageGroups = Inr [],
      ie_Environments = Inr [], ie_ModuleMDs = Inr [], ie_InsertRpms = (\<lambda>_ _ c. (Inr 3, c)), ie_RpmCount = (\<lambda>_ _. Inr 3),
      ie_InsertPackageGroups = (\<lambda>_ _ c. (Inr 0, c)), ie_InsertEnvironments = (\<lambda>_ _ c. (Inr 0, c)),
      ie_InsertModuleStreams = (\<lambda>_ _ c. (Inr 0, c)), ie_fetchFault = None, ie_updateFaults = (None, None),
      ie_statusFaults = (None, None), ie_configs = (\<lambda>_. []), ie_now = now\<rparr>"

definition demo_world :: "unit world" where
  "demo_world = \<lparr>w_repos = [demo_repo\<lparr>r_UUID := ''u'', r_URL := ''http://a/''\<rparr>], w_content = (), w_sent = []\<rparr>"

lemma length_one: "length xs = 1 \<Longrightarrow> \<exists>x. xs = [x]"
  by (cases xs) simp_all


section \<open>Repositories that keep failing\<close>

text \<open>One periodic run: the repository is introspected when the list of due repositories has it.\<close>

definition scheduled_round :: "string \<Rightarrow> ('c, 'p, 'g, 'e, 'm) introspect_env \<Rightarrow> 'c world \<Rightarrow> 'c world" where
  "scheduled_round url env w =
     (if list_ex (\<lambda>r. dr_URL r = CleanupURL url) (ListForIntrospection False (ie_now env) None False w)
      then snd (IntrospectUrl env url None w) else w)"

text \<open>Every fetch of the metadata fails, the database does not.\<close>

definition unreachable :: "go_error \<Rightarrow> ('c, 'p, 'g, 'e, 'm) introspect_env \<Rightarrow> bool" where
  "unreachable err env \<longleftrightarrow> (\<forall>b. ie_httpClient env b = None) \<and> ie_Repomd env = Inl err \<and> ie_fetchFault env = None \<and>
     ie_statusFaults env = (None, None)"

definition failed_row :: "go_error \<Rightarrow> timestamp \<Rightarrow> Repository \<Rightarrow> Repository" where
  "failed_row err now row =
     (let e = (if r_FailedIntrospectionsCount row = FailedIntrospectionsLimit then over_limit else err) in
      written_row row (internalToModel (updateIntrospectionStatusMetadata (modelToInternal row) 0 (Some e) now) row))"

lemma over_limit_ascii: "ascii (error_text over_limit)"
  by code_simp

lemma failed_row_fields:
  "r_UUID (failed_row err now row) = r_UUID row" "r_URL (failed_row err now row) = r_URL row"
  "r_Origin (failed_row err now row) = r_Origin row" "r_Public (failed_row err now row) = r_Public row"
  "r_FailedIntrospectionsCount (failed_row err now row) = r_FailedIntrospectionsCount row + 1"
  "r_LastIntrospectionStatus (failed_row err now row) \<noteq> StatusValid"
  "r_LastIntrospectionError (failed_row err now row) =
     trimString (Some (ToValidUTF8 (error_text (if r_FailedIntrospectionsCount row = FailedIntrospectionsLimit then over_limit else err)))) 255"
  by (auto simp: failed_row_def written_row_def internalToModel_def updateIntrospectionStatusMetadata_def RepoToRepoUpdate_def
      modelToInternal_def or_else_def or_keep_def Let_def)

lemma storable_failed_row: "ascii (error_text err) \<Longrightarrow> storable (failed_row err now row)"
  using over_limit_ascii
  by (auto simp: storable_def failed_row_fields trimString_def ToValidUTF8_ascii ascii_take)

lemma unreachable_round:
  assumes "distinct (map r_UUID (w_repos w))" "lookup_url url None w = Some row" "unreachable err env" "ascii (error_text err)"
  shows "w_repos (snd (IntrospectUrl env url None w)) = put_row (failed_row err (ie_now env) row) (w_repos w)"
proof -
  let ?e = "if r_FailedIntrospectionsCount row = FailedIntrospectionsLimit then over_limit else err"
  let ?u = "updateIntrospectionStatusMetadata (modelToInternal row) 0 (Some ?e) (ie_now env)"
  have F: "FetchForUrl (ie_fetchFault env) url None w = (Inr (modelToInternal row), w)"
    using assms(3) FetchForUrl_lookup [OF assms(2)] by (simp add: unreachable_def)
  have I: "Introspect env (modelToInternal row) w = ((0, Some ?e, False), modelToInternal row, w)"
    using assms(3) by (simp add: Introspect_def unreachable_def modelToInternal_def)
  have new: "failed_row err (ie_now env) row = written_row row (internalToModel ?u row)" by (simp add: failed_row_def Let_def)
  have "ru_UUID ?u = r_UUID row" by (simp add: status_update_uuid modelToInternal_def)
  then have U: "Update (None, None) ?u w = (Inr (), w\<lparr>w_repos := put_row (failed_row err (ie_now env) row) (w_repos w)\<rparr>)"
    using Update_stored [OF assms(1) lookup_in [OF assms(2)]] storable_failed_row [OF assms(4), of "ie_now env" row]
    by (simp add: new)
  have "ie_statusFaults env = (None, None)" using assms(3) by (simp add: unreachable_def)
  then show ?thesis
    unfolding IntrospectUrl_def F
    by (simp add: I UpdateIntrospectionStatusMetadata_def wrapIO_def U sendIntrospectionNotifications_def)
qed

definition failing :: "go_error \<Rightarrow> nat \<Rightarrow> Repository \<Rightarrow> bool" where
  "failing err n row \<longleftrightarrow> \<not> r_Public row \<and> r_Origin row \<in> {OriginExternal, OriginRedHat, OriginCommunity} \<and>
     r_LastIntrospectionStatus row \<noteq> StatusValid \<and> r_FailedIntrospectionsCount row = min (int n) 21 \<and>
     (0 < n \<longrightarrow> r_LastIntrospectionError row = Some (error_text (if n \<le> 20 then err else over_limit)))"

lemma failing_due: "failing err n row \<Longrightarrow> due False now None row \<longleftrightarrow> n < 21"
  by (auto simp: failing_def due_def FailedIntrospectionsLimit_def)

lemma failing_step:
  assumes "failing err n row" "n < 21" "ascii (error_text err)" "length (error_text err) < 255"
  shows "failing err (Suc n) (failed_row err now row)"
proof -
  have "length (error_text over_limit) < 255" by code_simp
  then have e: "r_LastIntrospectionError (failed_row err now row) = Some (error_text (if Suc n \<le> 20 then err else over_limit))"
    using assms over_limit_ascii
    by (auto simp: failed_row_fields failing_def FailedIntrospectionsLimit_def trimString_def ToValidUTF8_ascii)
  then show ?thesis using assms(1,2) failed_row_fields [of err now row] by (auto simp: failing_def)
qed

lemma distinct_url_due:
  assumes "distinct (map r_URL rows)" "row \<in> set rows" "r_URL row = u"
  shows "list_ex (\<lambda>r. dr_URL r = u) (map modelToInternal (filter P rows)) \<longleftrightarrow> P row"
  using assms inj_onD [of r_URL "set rows"]
  by (auto simp: list_ex_iff modelToInternal_def distinct_map)

lemma put_row_urls:
  assumes "distinct (map r_UUID rows)" "row \<in> set rows" "r_UUID new = r_UUID row" "r_URL new = r_URL row"
  shows "map r_URL (put_row new rows) = map r_URL rows"
  unfolding put_row_def map_map comp_def
  by (rule map_cong [OF refl]) (metis assms distinct_map inj_onD)

lemma scheduled_failing:
  assumes "distinct (map r_UUID (w_repos w))" "distinct (map r_URL (w_repos w))" "lookup_url url None w = Some row"
    and "failing err n row" "unreachable err env" "ascii (error_text err)" "length (error_text err) < 255"
  shows "\<exists>row'. lookup_url url None (scheduled_round url env w) = Some row' \<and> failing err (Suc n) row' \<and>
    distinct (map r_UUID (w_repos (scheduled_round url env w))) \<and> distinct (map r_URL (w_repos (scheduled_round url env w)))"
proof -
  have "r_URL row = CleanupURL url" using assms(3) by (auto simp: lookup_url_def find_Some_iff at_url_def)
  then have listed: "list_ex (\<lambda>r. dr_URL r = CleanupURL url) (ListForIntrospection False (ie_now env) None False w) \<longleftrightarrow> n < 21"
    using distinct_url_due [OF assms(2) lookup_in [OF assms(3)]] failing_due [OF assms(4)] by (simp add: ListForIntrospection_def)
  show ?thesis
  proof (cases "n < 21")
    case True
    let ?new = "failed_row err (ie_now env) row" and ?w = "scheduled_round url env w"
    have repos: "w_repos ?w = put_row ?new (w_repos w)"
      using True listed unreachable_round [OF assms(1,3,5,6)] by (simp add: scheduled_round_def)
    then have "lookup_url url None ?w = Some ?new"
      by (rule lookup_put_row [OF assms(3,1)]) (simp_all add: failed_row_fields)
    moreover have "map r_URL (w_repos ?w) = map r_URL (w_repos w)"
      unfolding repos by (rule put_row_urls [OF assms(1) lookup_in [OF assms(3)]]) (simp_all add: failed_row_fields)
    ultimately show ?thesis using failing_step [OF assms(4) True assms(6,7)] assms(1,2) repos by auto
  next
    case False
    then have "failing err (Suc n) row" using assms(4) by (auto simp: failing_def)
    with False listed assms(1-3) show ?thesis by (simp add: scheduled_round_def)
  qed
qed



section \<open>Errors that cannot be stored\<close>

text \<open>
  An error text is cleaned to valid UTF-8 and only then cut after 255 bytes: when the cut
  splits a character the database refuses the row, so the failure is not recorded at all. The
  repository keeps its status and its count of failures, and no later attempt with that error
  ever reaches the limit.
\<close>

theorem split_error_is_never_recorded:
  assumes "distinct (map r_UUID (w_repos w))" "lookup_url url None w = Some row" "unreachable err env"
    and "r_FailedIntrospectionsCount row \<noteq> FailedIntrospectionsLimit"
    and "ToValidUTF8 (error_text err) = error_text err" "trimString (Some (error_text err)) 255 = Some t" "ToValidUTF8 t \<noteq> t"
    and "IntrospectUrl env url None w = ((count, ierr, fatal), w')"
  shows "ierr \<noteq> None \<and> fatal \<noteq> None \<and> w_repos w' = w_repos w"
proof -
  let ?u = "updateIntrospectionStatusMetadata (modelToInternal row) 0 (Some err) (ie_now env)"
  have F: "FetchForUrl (ie_fetchFault env) url None w = (Inr (modelToInternal row), w)"
    using assms(3) FetchForUrl_lookup [OF assms(2)] by (simp add: unreachable_def)
  have I: "Introspect env (modelToInternal row) w = ((0, Some err, False), modelToInternal row, w)"
    using assms(3,4) by (simp add: Introspect_def unreachable_def modelToInternal_def)
  have "r_LastIntrospectionError (written_row row (internalToModel ?u row)) = Some t"
    using assms(5,6) by (simp add: written_row_def internalToModel_def updateIntrospectionStatusMetadata_def
        RepoToRepoUpdate_def or_keep_def Let_def)
  then have "\<not> storable (written_row row (internalToModel ?u row))" using assms(7) by (simp add: storable_def)
  moreover have "ru_UUID ?u = r_UUID row" by (simp add: status_update_uuid modelToInternal_def)
  ultimately have U: "Update (None, None) ?u w = (Inl (Other ''invalid byte sequence for encoding UTF8''), w)"
    using find_uuid [OF assms(1) lookup_in [OF assms(2)]] by (simp add: Update_def Let_def)
  have "ie_statusFaults env = (None, None)" using assms(3) by (simp add: unreachable_def)
  then show ?thesis
    using assms(8) unfolding IntrospectUrl_def F
    by (auto simp: I UpdateIntrospectionStatusMetadata_def wrapIO_def U sendIntrospectionNotifications_def)
qed

theorem split_error_is_never_recorded_witness:
  "\<exists>s. w_repos (snd (IntrospectUrl (demo_introspect 5 (Inl (Other s))) ''http://a'' None demo_world)) = w_repos demo_world"
proof -
  obtain s t where st: "ToValidUTF8 s = s" "trimString (Some s) 255 = Some t" "ToValidUTF8 t \<noteq> t"
    using trim_string_can_split_a_character by blast
  let ?env = "demo_introspect 5 (Inl (Other s))" and ?row = "demo_repo\<lparr>r_UUID := ''u'', r_URL := ''http://a/''\<rparr>"
  have look: "lookup_url ''http://a'' None demo_world = Some ?row" by code_simp
  have d: "distinct (map r_UUID (w_repos demo_world))" by (simp add: demo_world_def)
  have env: "unreachable (Other s) ?env" by (simp add: unreachable_def demo_introspect_def)
  have n: "r_FailedIntrospectionsCount ?row \<noteq> FailedIntrospectionsLimit" by (simp add: demo_repo_def FailedIntrospectionsLimit_def)
  have err: "ToValidUTF8 (error_text (Other s)) = error_text (Other s)" "trimString (Some (error_text (Other s))) 255 = Some t" "ToValidUTF8 t \<noteq> t"
    using st by simp_all
  obtain count ierr fatal w' where run: "IntrospectUrl ?env ''http://a'' None demo_world = ((count, ierr, fatal), w')"
    by (metis prod_cases3 surj_pair)
  from split_error_is_never_recorded [OF d look env n err run] run have "w_repos (snd (IntrospectUrl ?env ''http://a'' None demo_world)) = w_repos demo_world"
    by simp
  then show ?thesis by blast
qed

end
