(* ===== verification/PulpClient.thy ===== *)
theory PulpClient
  imports GoStrings GoIO Utils
begin

text \<open>
  The client of the Pulp content service (\<open>pkg/clients/pulp_client\<close>). The generated HTTP bindings
  (zest) and Pulp itself are not part of the repository: they are the argument \<open>zest\<close>, a record
  with one function per call the client makes (and the equality of its nullable strings), over a state of Pulp of any type. Each call
  changes that state and answers with a value or with an error, with or without an HTTP
  response. Every call runs under a context: the task's, which may be cancelled between two
  calls, or the background one.
\<close>

section \<open>Answers of the bindings\<close>

text \<open>
  \<open>hr_task\<close> is the task member of the body read as an asynchronous operation, if the body can be
  read and decoded.
\<close>

record http_resp =
  hr_StatusCode :: int
  hr_Body :: string
  hr_task :: "string option"

datatype 'a zest_answer =
    ZestOk http_resp 'a
  | ZestErr "http_resp option" go_error

type_synonym ('a, 'p) zest_call = "'p \<Rightarrow> 'a zest_answer \<times> 'p"

record TaskResponse =
  tr_PulpHref :: "string option"
  tr_State :: "string option"
  tr_CreatedResources :: "string list"
  tr_Error :: "(string \<times> string) list option"

text \<open>A publication that is null is set, one that the answer leaves out is not.\<close>

record DistributionResponse =
  di_PulpHref :: "string option"
  di_Name :: string
  di_BasePath :: string
  di_ContentGuard :: "string option"
  di_Publication :: "string option"
  di_PublicationIsSet :: bool

record RpmRepositoryResponse =
  rr_PulpHref :: "string option"
  rr_LatestVersionHref :: "string option"

record ContentSummary =
  cs_Present :: "(string \<times> int option) list"
  cs_Added :: "(string \<times> int option) list"
  cs_Removed :: "(string \<times> int option) list"

text \<open>The enumerations of the bindings the client chooses from.\<close>

datatype SyncPolicyEnum = SYNCPOLICYENUM_MIRROR_CONTENT_ONLY
datatype PolicyEnum = POLICY692ENUM_ON_DEMAND | POLICY692ENUM_IMMEDIATE
datatype StorageClassEnum =
    STORAGECLASSENUM_STORAGES_BACKENDS_S3BOTO3_S3_BOTO3_STORAGE
  | STORAGECLASSENUM_PULPCORE_APP_MODELS_STORAGE_FILE_SYSTEM

record RpmRemote =
  rm_Name :: string
  rm_Url :: string
  rm_ClientCert :: "string option"
  rm_ClientKey :: "string option"
  rm_CaCert :: "string option"
  rm_Policy :: PolicyEnum

record DomainBody =
  db_Name :: string
  db_StorageClass :: StorageClassEnum
  db_StorageSettings :: "(string \<times> string) list"
  db_PulpLabels :: "(string \<times> string) list"

record HeaderContentGuard =
  hg_Name :: string
  hg_HeaderName :: string
  hg_HeaderValue :: string
  hg_JqFilter :: "string option"

record CompositeContentGuard =
  cg_Name :: string
  cg_Guards :: "string option list"

record FeatureContentGuard =
  fg_Name :: string
  fg_HeaderName :: string
  fg_JqFilter :: "string option"
  fg_Features :: "string list"

text \<open>The values of a patch: \<open>None\<close> is a member that is not sent.\<close>

record PatchedDistribution =
  pd_Name :: string
  pd_BasePath :: string
  pd_Publication :: string
  pd_ContentGuard :: "string option"

record 'p zest =
  z_HTTPClient :: "go_error option"
  z_TasksRead :: "string \<Rightarrow> (TaskResponse, 'p) zest_call"
  z_TasksCancel :: "string \<Rightarrow> string \<Rightarrow> (TaskResponse, 'p) zest_call"
  z_DistributionsCreate :: "string \<Rightarrow> DistributionResponse \<Rightarrow> (string, 'p) zest_call"
  z_DistributionsList :: "string \<Rightarrow> string option \<Rightarrow> (DistributionResponse list, 'p) zest_call"
  z_DistributionsDelete :: "string \<Rightarrow> (string, 'p) zest_call"
  z_DistributionsUpdate :: "string \<Rightarrow> PatchedDistribution \<Rightarrow> (string, 'p) zest_call"
  z_PublicationsCreate :: "string \<Rightarrow> string \<Rightarrow> (string, 'p) zest_call"
  z_PublicationsList :: "string \<Rightarrow> string \<Rightarrow> (string option list, 'p) zest_call"
  z_RepositoriesCreate :: "string \<Rightarrow> string \<Rightarrow> string option \<Rightarrow> (RpmRepositoryResponse, 'p) zest_call"
  z_RepositoriesListName :: "string \<Rightarrow> string \<Rightarrow> (RpmRepositoryResponse list, 'p) zest_call"
  z_RepositoriesListRemote :: "string \<Rightarrow> string \<Rightarrow> (RpmRepositoryResponse list, 'p) zest_call"
  z_RepositoriesSync :: "string \<Rightarrow> string option \<Rightarrow> SyncPolicyEnum \<Rightarrow> (string, 'p) zest_call"
  z_RepositoriesDelete :: "string \<Rightarrow> (string, 'p) zest_call"
  z_RepositoriesModify :: "string \<Rightarrow> string list \<Rightarrow> string list \<Rightarrow> (string, 'p) zest_call"
  z_VersionsRead :: "string \<Rightarrow> (ContentSummary option, 'p) zest_call"
  z_VersionsDelete :: "string \<Rightarrow> (string, 'p) zest_call"
  z_VersionsRepair :: "string \<Rightarrow> bool \<Rightarrow> (string, 'p) zest_call"
  z_RemotesCreate :: "string \<Rightarrow> RpmRemote \<Rightarrow> (string option, 'p) zest_call"
  z_RemotesUpdate :: "string \<Rightarrow> string \<Rightarrow> string option \<Rightarrow> string option \<Rightarrow> string option \<Rightarrow> (string, 'p) zest_call"
  z_RemotesListName :: "string \<Rightarrow> string \<Rightarrow> (string option list, 'p) zest_call"
  z_RemotesDelete :: "string \<Rightarrow> (string, 'p) zest_call"
  z_DomainsList :: "string \<Rightarrow> string \<Rightarrow> ((string option \<times> (string \<times> string) list) list, 'p) zest_call"
  z_DomainsCreate :: "string \<Rightarrow> DomainBody \<Rightarrow> (string option, 'p) zest_call"
  z_DomainsUpdate :: "string \<Rightarrow> (string \<times> string) list \<Rightarrow> (string, 'p) zest_call"
  z_PackagesList :: "string \<Rightarrow> string \<Rightarrow> 32 word \<Rightarrow> 32 word \<Rightarrow> (string list \<times> nat, 'p) zest_call"
  z_NullableStringEqual :: "string option \<Rightarrow> string option \<Rightarrow> bool"
  z_HeaderCreate :: "string \<Rightarrow> HeaderContentGuard \<Rightarrow> (string option, 'p) zest_call"
  z_HeaderList :: "string \<Rightarrow> string \<Rightarrow> ((string option \<times> HeaderContentGuard) list, 'p) zest_call"
  z_HeaderUpdate :: "string \<Rightarrow> string \<Rightarrow> string \<Rightarrow> string \<Rightarrow> (string option, 'p) zest_call"
  z_CompositeCreate :: "string \<Rightarrow> CompositeContentGuard \<Rightarrow> (string option, 'p) zest_call"
  z_CompositeList :: "string \<Rightarrow> string \<Rightarrow> ((string option \<times> CompositeContentGuard) list, 'p) zest_call"
  z_CompositeUpdate :: "string \<Rightarrow> string option list \<Rightarrow> (string option, 'p) zest_call"
  z_FeatureCreate :: "string \<Rightarrow> FeatureContentGuard \<Rightarrow> (string option, 'p) zest_call"
  z_FeatureList :: "string \<Rightarrow> string \<Rightarrow> ((string option \<times> FeatureContentGuard) list, 'p) zest_call"
  z_FeatureUpdate :: "string \<Rightarrow> FeatureContentGuard \<Rightarrow> (string option, 'p) zest_call"

section \<open>Contexts and the shape of a call\<close>

datatype ctx = TaskCtx | Background

text \<open>
  \<open>pw_cancel\<close> is the number of calls after which the task's context is cancelled (\<open>None\<close>: never)
  and \<open>pw_cause\<close> the error of a call under a cancelled context; \<open>pw_slept\<close> counts the seconds slept.
\<close>

record 'p pulp_world =
  pw_pulp :: 'p
  pw_cancel :: "nat option"
  pw_cause :: go_error
  pw_slept :: nat

definition cancelled :: "('p, 'x) pulp_world_scheme \<Rightarrow> bool" where
  "cancelled w = (pw_cancel w = Some 0)"

definition tick :: "('p, 'x) pulp_world_scheme \<Rightarrow> ('p, 'x) pulp_world_scheme" where
  "tick w = w\<lparr>pw_cancel := map_option (\<lambda>n. n - 1) (pw_cancel w)\<rparr>"

text \<open>The settings the client reads (\<open>config.Get().Clients.Pulp\<close>).\<close>

record ObjectStore =
  os_URL :: string
  os_AccessKey :: string
  os_SecretKey :: string
  os_Name :: string
  os_Region :: string

record PulpConfig =
  pc_StorageType :: string
  pc_CustomRepoObjects :: ObjectStore
  pc_DownloadPolicy :: string
  pc_GuardSubjectDn :: string
  pc_RepoContentGuards :: bool

text \<open>
  A client: its domain, its settings, the bindings, and for how many rounds a poll is followed.
\<close>

record 'p pulpDaoImpl =
  domainName :: string
  p_config :: PulpConfig
  p_zest :: "'p zest"
  p_rounds :: nat

definition WithDomain :: "'p pulpDaoImpl \<Rightarrow> string \<Rightarrow> 'p pulpDaoImpl" where
  "WithDomain p domain = p\<lparr>domainName := domain\<rparr>"

definition ParseAsyncOperationTaskHref :: "http_resp option \<Rightarrow> string" where
  "ParseAsyncOperationTaskHref httpResp =
     (case httpResp of None \<Rightarrow> '''' | Some resp \<Rightarrow> (case hr_task resp of None \<Rightarrow> '''' | Some t \<Rightarrow> t))"

definition errorWithResponseBody :: "string \<Rightarrow> http_resp option \<Rightarrow> go_error \<Rightarrow> go_error" where
  "errorWithResponseBody message httpResp err =
     (case httpResp of
        Some resp \<Rightarrow> Wrapf (message @ '': '') err ('': '' @ hr_Body resp)
      | None \<Rightarrow> Wrapf '''' err '': no body'')"

definition getZestClient :: "'p pulpDaoImpl \<Rightarrow> (unit, 's) io" where
  "getZestClient r = (case z_HTTPClient (p_zest r) of Some err \<Rightarrow> failIO err | None \<Rightarrow> returnIO ())"

definition Execute :: "ctx \<Rightarrow> ('a, 'p) zest_call \<Rightarrow> ('p, 'x) pulp_world_scheme \<Rightarrow> 'a zest_answer \<times> ('p, 'x) pulp_world_scheme" where
  "Execute ctx call w =
     (if ctx = TaskCtx \<and> cancelled w then (ZestErr None (pw_cause w), w)
      else case call (pw_pulp w) of (answer, p') \<Rightarrow> (answer, (tick w)\<lparr>pw_pulp := p'\<rparr>))"

text \<open>The usual call: client, call, \<open>if err != nil\<close> with the response's body in the error.\<close>

definition zestIO ::
  "'p pulpDaoImpl \<Rightarrow> ctx \<Rightarrow> string \<Rightarrow> ('a, 'p) zest_call \<Rightarrow> ('a, ('p, 'x) pulp_world_scheme) io" where
  "zestIO r ctx message call = bindIO (getZestClient r) (\<lambda>_ w.
     case Execute ctx call w of
       (ZestOk resp a, w') \<Rightarrow> (Inr a, w')
     | (ZestErr httpResp err, w') \<Rightarrow> (Inl (errorWithResponseBody message httpResp err), w'))"

definition first :: "'a list \<Rightarrow> 'a option" where
  "first xs = (case xs of [] \<Rightarrow> None | x # _ \<Rightarrow> Some x)"

section \<open>Tasks\<close>

definition COMPLETED :: string where "COMPLETED = ''completed''"
definition WAITING :: string where "WAITING = ''waiting''"
definition RUNNING :: string where "RUNNING = ''running''"
definition SKIPPED :: string where "SKIPPED = ''skipped''"
definition CANCELED :: string where "CANCELED = ''canceled''"
definition CANCELING :: string where "CANCELING = ''canceling''"
definition FAILED :: string where "FAILED = ''failed''"

definition maxGetTaskAttempts :: nat where "maxGetTaskAttempts = 5"

definition GetTask :: "'p pulpDaoImpl \<Rightarrow> ctx \<Rightarrow> string \<Rightarrow> (TaskResponse, ('p, 'x) pulp_world_scheme) io" where
  "GetTask r ctx taskHref = zestIO r ctx ''error reading task'' (z_TasksRead (p_zest r) taskHref)"

text \<open>A conflict answers the zero task.\<close>

definition CancelTask :: "'p pulpDaoImpl \<Rightarrow> ctx \<Rightarrow> string \<Rightarrow> (TaskResponse, ('p, 'x) pulp_world_scheme) io" where
  "CancelTask r ctx taskHref = bindIO (getZestClient r) (\<lambda>_ w.
     case Execute ctx (z_TasksCancel (p_zest r) taskHref CANCELED) w of
       (ZestOk resp task, w') \<Rightarrow> (Inr task, w')
     | (ZestErr httpResp err, w') \<Rightarrow>
         (case httpResp of
            Some resp \<Rightarrow>
              if hr_StatusCode resp = 409
              then (Inr \<lparr>tr_PulpHref = None, tr_State = None, tr_CreatedResources = [], tr_Error = None\<rparr>, w')
              else (Inl (errorWithResponseBody ''error canceling task'' httpResp err), w')
          | None \<Rightarrow> (Inl (errorWithResponseBody ''error canceling task'' httpResp err), w')))"

definition backoff_seconds :: "nat \<Rightarrow> nat" where
  "backoff_seconds iteration =
     (if iteration \<le> 5 then 1
      else if iteration > 5 \<and> iteration \<le> 10 then 5
      else if iteration > 10 \<and> iteration \<le> 20 then 10
      else 30)"

definition SleepWithBackoff :: "nat \<Rightarrow> (unit, ('p, 'x) pulp_world_scheme) io" where
  "SleepWithBackoff iteration = (\<lambda>w. (Inr (), w\<lparr>pw_slept := pw_slept w + backoff_seconds iteration\<rparr>))"

definition TaskErrorString :: "TaskResponse \<Rightarrow> string" where
  "TaskErrorString task =
     (case tr_Error task of
        None \<Rightarrow> ''''
      | Some es \<Rightarrow> foldl (\<lambda>str (key, element). str @ key @ '': '' @ element @ ''.  '') '''' es)"

text \<open>The attempts of one round: \<open>left\<close> of them are left after this one.\<close>

fun getTaskAttempts ::
  "'p pulpDaoImpl \<Rightarrow> ctx \<Rightarrow> string \<Rightarrow> nat \<Rightarrow> nat \<Rightarrow> (TaskResponse \<times> nat, ('p, 'x) pulp_world_scheme) io" where
  "getTaskAttempts r ctx taskHref 0 pollCount =
     bindIO (GetTask r ctx taskHref) (\<lambda>task. returnIO (task, pollCount))"
| "getTaskAttempts r ctx taskHref (Suc left) pollCount =
     handleIO (bindIO (GetTask r ctx taskHref) (\<lambda>task. returnIO (task, pollCount)))
       (\<lambda>err. bindIO (SleepWithBackoff pollCount) (\<lambda>_. getTaskAttempts r ctx taskHref left (pollCount + 1)))"

fun pollRounds ::
  "'p pulpDaoImpl \<Rightarrow> ctx \<Rightarrow> string \<Rightarrow> nat \<Rightarrow> nat \<Rightarrow> (TaskResponse, ('p, 'x) pulp_world_scheme) io" where
  "pollRounds r ctx taskHref 0 pollCount = failIO NeverReturns"
| "pollRounds r ctx taskHref (Suc rounds) pollCount =
     bindIO (getTaskAttempts r ctx taskHref (maxGetTaskAttempts - 1) pollCount) (\<lambda>(task, pollCount).
     bindIO (deref (tr_State task)) (\<lambda>taskState.
       if taskState \<in> {WAITING, RUNNING, CANCELING} then
         bindIO (deref (tr_PulpHref task)) (\<lambda>_.
         bindIO (SleepWithBackoff pollCount) (\<lambda>_. pollRounds r ctx taskHref rounds (pollCount + 1)))
       else if taskState \<in> {COMPLETED, SKIPPED, CANCELED} then
         bindIO (deref (tr_PulpHref task)) (\<lambda>_. returnIO task)
       else if taskState = FAILED then
         failIO (Other (''domain '' @ domainName r @ '' had Pulp Task error '' @ [CHR 39] @ TaskErrorString task @ [CHR 39]))
       else bindIO (deref (tr_PulpHref task)) (\<lambda>_. returnIO task)))"

definition PollTask :: "'p pulpDaoImpl \<Rightarrow> ctx \<Rightarrow> string \<Rightarrow> (TaskResponse, ('p, 'x) pulp_world_scheme) io" where
  "PollTask r ctx taskHref = pollRounds r ctx taskHref (p_rounds r) 1"

text \<open>
  The regular expressions the hrefs are selected with: literals, \<open>.*\<close> and \<open>[0-9]*\<close>; a match may
  start anywhere and end anywhere.
\<close>

datatype re_piece = Lit string | AnyStar | DigitStar

fun re_char :: "re_piece \<Rightarrow> char \<Rightarrow> bool" where
  "re_char AnyStar c = (c \<noteq> CHR 10)"
| "re_char DigitStar c = (c \<in> set ''0123456789'')"
| "re_char (Lit l) c = False"

fun re_here :: "re_piece list \<Rightarrow> string \<Rightarrow> bool" where
  "re_here [] s = True"
| "re_here (Lit l # ps) s = (HasPrefix s l \<and> re_here ps (drop (length l) s))"
| "re_here (p # ps) [] = re_here ps []"
| "re_here (p # ps) (c # s) = (re_here ps (c # s) \<or> (re_char p c \<and> re_here (p # ps) s))"

fun MatchString :: "re_piece list \<Rightarrow> string \<Rightarrow> bool" where
  "MatchString ps [] = re_here ps []"
| "MatchString ps (c # s) = (re_here ps (c # s) \<or> MatchString ps s)"

definition SelectCreatedVersionHref :: "TaskResponse \<Rightarrow> re_piece list \<Rightarrow> string option" where
  "SelectCreatedVersionHref task regex = find (MatchString regex) (tr_CreatedResources task)"

definition SelectVersionHref :: "TaskResponse \<Rightarrow> string option" where
  "SelectVersionHref task = SelectCreatedVersionHref task
     [Lit ''/pulp/'', AnyStar, Lit ''/api/v3/repositories/rpm/rpm/'', AnyStar, Lit ''/versions/'', DigitStar, Lit ''/'']"

definition SelectPublicationHref :: "TaskResponse \<Rightarrow> string option" where
  "SelectPublicationHref task = SelectCreatedVersionHref task
     [Lit ''/pulp/'', AnyStar, Lit ''/api/v3/publications/rpm/rpm/'', AnyStar, Lit ''/'']"

definition SelectRpmDistributionHref :: "TaskResponse \<Rightarrow> string option" where
  "SelectRpmDistributionHref task = SelectCreatedVersionHref task
     [Lit ''/pulp/'', AnyStar, Lit ''/api/v3/distributions/rpm/rpm/'', AnyStar, Lit ''/'']"

section \<open>Distributions\<close>

definition CreateRpmDistribution ::
  "'p pulpDaoImpl \<Rightarrow> ctx \<Rightarrow> string \<Rightarrow> string \<Rightarrow> string \<Rightarrow> string option \<Rightarrow> (string, ('p, 'x) pulp_world_scheme) io" where
  "CreateRpmDistribution r ctx publicationHref name basePath contentGuardHref =
     zestIO r ctx ''error creating rpm distributions''
       (z_DistributionsCreate (p_zest r) (domainName r)
          \<lparr>di_PulpHref = None, di_Name = name, di_BasePath = basePath, di_ContentGuard = contentGuardHref,
           di_Publication = Some publicationHref, di_PublicationIsSet = True\<rparr>)"

definition FindDistributionByPath ::
  "'p pulpDaoImpl \<Rightarrow> ctx \<Rightarrow> string \<Rightarrow> (DistributionResponse option, ('p, 'x) pulp_world_scheme) io" where
  "FindDistributionByPath r ctx path =
     bindIO (zestIO r ctx ''error listing rpm distributions'' (z_DistributionsList (p_zest r) (domainName r) (Some path)))
       (\<lambda>res. returnIO (first res))"

text \<open>An error whose text is that of a missing resource is not one.\<close>

definition deleteIO ::
  "'p pulpDaoImpl \<Rightarrow> ctx \<Rightarrow> string \<Rightarrow> (string, 'p) zest_call \<Rightarrow> (string option, ('p, 'x) pulp_world_scheme) io" where
  "deleteIO r ctx message call = bindIO (getZestClient r) (\<lambda>_ w.
     case Execute ctx call w of
       (ZestOk resp task, w') \<Rightarrow> (Inr (Some task), w')
     | (ZestErr httpResp err, w') \<Rightarrow>
         if error_text err = ''404 Not Found'' then (Inr None, w')
         else (Inl (errorWithResponseBody message httpResp err), w'))"

definition DeleteRpmDistribution ::
  "'p pulpDaoImpl \<Rightarrow> ctx \<Rightarrow> string \<Rightarrow> (string option, ('p, 'x) pulp_world_scheme) io" where
  "DeleteRpmDistribution r ctx rpmDistributionHref =
     (if rpmDistributionHref = '''' then returnIO None
      else deleteIO r ctx ''error deleting rpm distribution'' (z_DistributionsDelete (p_zest r) rpmDistributionHref))"

text \<open>
  A partial update answers 200 with the object or 202 with a task; the bindings report the first as
  an error, so the status is looked at before the error.
\<close>

definition updateIO ::
  "'p pulpDaoImpl \<Rightarrow> ctx \<Rightarrow> string \<Rightarrow> (string, 'p) zest_call \<Rightarrow> (string, ('p, 'x) pulp_world_scheme) io" where
  "updateIO r ctx message call = bindIO (getZestClient r) (\<lambda>_ w.
     case Execute ctx call w of
       (answer, w') \<Rightarrow>
         (case answer of
            ZestOk resp task \<Rightarrow>
              (Inr (if hr_StatusCode resp = 200 then ''''
                    else if hr_StatusCode resp = 202 then ParseAsyncOperationTaskHref (Some resp) else ''''), w')
          | ZestErr None err \<Rightarrow> (Inl (errorWithResponseBody message None err), w')
          | ZestErr (Some resp) err \<Rightarrow>
              if hr_StatusCode resp = 200 then (Inr '''', w')
              else if hr_StatusCode resp = 202 then (Inr (ParseAsyncOperationTaskHref (Some resp)), w')
              else (Inl (errorWithResponseBody message (Some resp) err), w')))"

definition UpdateRpmDistribution ::
  "'p pulpDaoImpl \<Rightarrow> ctx \<Rightarrow> string \<Rightarrow> string \<Rightarrow> string \<Rightarrow> string \<Rightarrow> string option \<Rightarrow> (string, ('p, 'x) pulp_world_scheme) io" where
  "UpdateRpmDistribution r ctx rpmDistributionHref rpmPublicationHref distributionName basePath contentGuardHref =
     updateIO r ctx ''error listing rpm distributions''
       (z_DistributionsUpdate (p_zest r) rpmDistributionHref
          \<lparr>pd_Name = distributionName, pd_BasePath = basePath, pd_Publication = rpmPublicationHref,
           pd_ContentGuard = contentGuardHref\<rparr>)"

definition ListDistributions :: "'p pulpDaoImpl \<Rightarrow> ctx \<Rightarrow> (DistributionResponse list, ('p, 'x) pulp_world_scheme) io" where
  "ListDistributions r ctx =
     zestIO r ctx ''error listing rpm distributions'' (z_DistributionsList (p_zest r) (domainName r) None)"

section \<open>Publications\<close>

definition CreateRpmPublication :: "'p pulpDaoImpl \<Rightarrow> ctx \<Rightarrow> string \<Rightarrow> (string, ('p, 'x) pulp_world_scheme) io" where
  "CreateRpmPublication r ctx versionHref =
     zestIO r ctx ''error creating rpm publication'' (z_PublicationsCreate (p_zest r) (domainName r) versionHref)"

text \<open>A publication is known by its href, which may be missing.\<close>

definition FindRpmPublicationByVersion ::
  "'p pulpDaoImpl \<Rightarrow> ctx \<Rightarrow> string \<Rightarrow> (string option option, ('p, 'x) pulp_world_scheme) io" where
  "FindRpmPublicationByVersion r ctx versionHref =
     bindIO (zestIO r ctx ''error listing rpm publications'' (z_PublicationsList (p_zest r) (domainName r) versionHref))
       (\<lambda>results. returnIO (first results))"

section \<open>Repositories and their versions\<close>

definition CreateRpmRepository ::
  "'p pulpDaoImpl \<Rightarrow> ctx \<Rightarrow> string \<Rightarrow> string option \<Rightarrow> (RpmRepositoryResponse, ('p, 'x) pulp_world_scheme) io" where
  "CreateRpmRepository r ctx uuid rpmRemotePulpRef =
     zestIO r ctx ''error creating rpm repository'' (z_RepositoriesCreate (p_zest r) (domainName r) uuid rpmRemotePulpRef)"

definition GetRpmRepositoryByName ::
  "'p pulpDaoImpl \<Rightarrow> ctx \<Rightarrow> string \<Rightarrow> (RpmRepositoryResponse option, ('p, 'x) pulp_world_scheme) io" where
  "GetRpmRepositoryByName r ctx name =
     bindIO (zestIO r ctx ''error listing rpm repositories'' (z_RepositoriesListName (p_zest r) (domainName r) name))
       (\<lambda>results. returnIO (first results))"

definition GetRpmRepositoryByRemote ::
  "'p pulpDaoImpl \<Rightarrow> ctx \<Rightarrow> string \<Rightarrow> (RpmRepositoryResponse option, ('p, 'x) pulp_world_scheme) io" where
  "GetRpmRepositoryByRemote r ctx pulpHref =
     bindIO (zestIO r ctx ''error listing rpm repositories'' (z_RepositoriesListRemote (p_zest r) (domainName r) pulpHref))
       (\<lambda>results. returnIO (first results))"

definition SyncRpmRepository ::
  "'p pulpDaoImpl \<Rightarrow> ctx \<Rightarrow> string \<Rightarrow> string option \<Rightarrow> (string, ('p, 'x) pulp_world_scheme) io" where
  "SyncRpmRepository r ctx rpmRpmRepositoryHref remoteHref =
     zestIO r ctx ''error syncing rpm repository''
       (z_RepositoriesSync (p_zest r) rpmRpmRepositoryHref remoteHref SYNCPOLICYENUM_MIRROR_CONTENT_ONLY)"

definition DeleteRpmRepository :: "'p pulpDaoImpl \<Rightarrow> ctx \<Rightarrow> string \<Rightarrow> (string, ('p, 'x) pulp_world_scheme) io" where
  "DeleteRpmRepository r ctx rpmRepositoryHref =
     zestIO r ctx ''error deleting rpm repository'' (z_RepositoriesDelete (p_zest r) rpmRepositoryHref)"

definition GetRpmRepositoryVersion ::
  "'p pulpDaoImpl \<Rightarrow> ctx \<Rightarrow> string \<Rightarrow> (ContentSummary option, ('p, 'x) pulp_world_scheme) io" where
  "GetRpmRepositoryVersion r ctx href =
     zestIO r ctx ''error reading rpm repository versions'' (z_VersionsRead (p_zest r) href)"

definition DeleteRpmRepositoryVersion ::
  "'p pulpDaoImpl \<Rightarrow> ctx \<Rightarrow> string \<Rightarrow> (string option, ('p, 'x) pulp_world_scheme) io" where
  "DeleteRpmRepositoryVersion r ctx href =
     deleteIO r ctx ''error deleting rpm repository versions'' (z_VersionsDelete (p_zest r) href)"

definition RepairRpmRepositoryVersion :: "'p pulpDaoImpl \<Rightarrow> ctx \<Rightarrow> string \<Rightarrow> (string, ('p, 'x) pulp_world_scheme) io" where
  "RepairRpmRepositoryVersion r ctx href =
     zestIO r ctx ''error repairing rpm repository versions'' (z_VersionsRepair (p_zest r) href True)"

definition ModifyRpmRepositoryContent ::
  "'p pulpDaoImpl \<Rightarrow> ctx \<Rightarrow> string \<Rightarrow> string list \<Rightarrow> string list \<Rightarrow> (string, ('p, 'x) pulp_world_scheme) io" where
  "ModifyRpmRepositoryContent r ctx repoHref contentHrefsToAdd contentHrefsToRemove =
     zestIO r ctx ''error modifying rpm repository content''
       (z_RepositoriesModify (p_zest r) repoHref contentHrefsToAdd contentHrefsToRemove)"

section \<open>Remotes\<close>

definition DownloadPolicyOnDemand :: string where "DownloadPolicyOnDemand = ''on_demand''"
definition DownloadPolicyImmediate :: string where "DownloadPolicyImmediate = ''immediate''"

definition remote_policy :: "string \<Rightarrow> PolicyEnum" where
  "remote_policy policy =
     (if policy = DownloadPolicyOnDemand then POLICY692ENUM_ON_DEMAND
      else if policy = DownloadPolicyImmediate then POLICY692ENUM_IMMEDIATE
      else POLICY692ENUM_IMMEDIATE)"

definition CreateRpmRemote ::
  "'p pulpDaoImpl \<Rightarrow> ctx \<Rightarrow> string \<Rightarrow> string \<Rightarrow> string option \<Rightarrow> string option \<Rightarrow> string option \<Rightarrow> (string option, ('p, 'x) pulp_world_scheme) io" where
  "CreateRpmRemote r ctx name url clientCert clientKey caCert =
     zestIO r ctx ''error creating rpm remote''
       (z_RemotesCreate (p_zest r) (domainName r)
          \<lparr>rm_Name = name, rm_Url = url, rm_ClientCert = clientCert, rm_ClientKey = clientKey, rm_CaCert = caCert,
           rm_Policy = remote_policy (pc_DownloadPolicy (p_config r))\<rparr>)"

definition UpdateRpmRemote ::
  "'p pulpDaoImpl \<Rightarrow> ctx \<Rightarrow> string \<Rightarrow> string \<Rightarrow> string option \<Rightarrow> string option \<Rightarrow> string option \<Rightarrow> (string, ('p, 'x) pulp_world_scheme) io" where
  "UpdateRpmRemote r ctx pulpHref url clientCert clientKey caCert =
     updateIO r ctx ''error in rpm remote partial update''
       (z_RemotesUpdate (p_zest r) pulpHref url clientCert clientKey caCert)"

definition GetRpmRemoteByName ::
  "'p pulpDaoImpl \<Rightarrow> ctx \<Rightarrow> string \<Rightarrow> (string option option, ('p, 'x) pulp_world_scheme) io" where
  "GetRpmRemoteByName r ctx name =
     bindIO (zestIO r ctx ''error listing rpm remotes'' (z_RemotesListName (p_zest r) (domainName r) name))
       (\<lambda>results. returnIO (first results))"

definition DeleteRpmRemote :: "'p pulpDaoImpl \<Rightarrow> ctx \<Rightarrow> string \<Rightarrow> (string, ('p, 'x) pulp_world_scheme) io" where
  "DeleteRpmRemote r ctx pulpHref = zestIO r ctx ''error deleting rpm remote'' (z_RemotesDelete (p_zest r) pulpHref)"

section \<open>Domains\<close>

definition STORAGE_TYPE_LOCAL :: string where "STORAGE_TYPE_LOCAL = ''local''"
definition STORAGE_TYPE_OBJECT :: string where "STORAGE_TYPE_OBJECT = ''object''"

definition S3StorageConfiguration :: "PulpConfig \<Rightarrow> (string \<times> string) list" where
  "S3StorageConfiguration cfg = (let loaded = pc_CustomRepoObjects cfg in
     [(''aws_default_acl'', ''private''), (''aws_s3_region_name'', os_Region loaded),
      (''endpoint_url'', os_URL loaded), (''access_key'', os_AccessKey loaded),
      (''secret_key'', os_SecretKey loaded), (''aws_storage_bucket_name'', os_Name loaded)])"

text \<open>Equality of the maps two association lists stand for (\<open>reflect.DeepEqual\<close>).\<close>

definition maps_equal :: "('k \<times> 'v) list \<Rightarrow> ('k \<times> 'v) list \<Rightarrow> bool" where
  "maps_equal xs ys = list_all (\<lambda>k. map_of xs k = map_of ys k) (map fst xs @ map fst ys)"

definition lookupDomain ::
  "'p pulpDaoImpl \<Rightarrow> ctx \<Rightarrow> string \<Rightarrow> ((string option \<times> (string \<times> string) list) option, ('p, 'x) pulp_world_scheme) io" where
  "lookupDomain r ctx name =
     bindIO (zestIO r ctx ''error listing domains'' (z_DomainsList (p_zest r) ''default'' name)) (\<lambda>results.
       case results of
         [] \<Rightarrow> returnIO None
       | d # _ \<Rightarrow> if fst d = None then failIO (Other (''unexpectedly got a nil href for domain '' @ name))
                  else returnIO (Some d))"

definition LookupDomain :: "'p pulpDaoImpl \<Rightarrow> ctx \<Rightarrow> string \<Rightarrow> (string, ('p, 'x) pulp_world_scheme) io" where
  "LookupDomain r ctx name = bindIO (lookupDomain r ctx name) (\<lambda>d.
     returnIO (case d of Some (Some href, settings) \<Rightarrow> href | _ \<Rightarrow> ''''))"

definition CreateDomain :: "'p pulpDaoImpl \<Rightarrow> ctx \<Rightarrow> string \<Rightarrow> (string, ('p, 'x) pulp_world_scheme) io" where
  "CreateDomain r ctx name =
     bindIO (zestIO r ctx ''error creating domain'' (z_DomainsCreate (p_zest r) ''default''
         (if pc_StorageType (p_config r) = STORAGE_TYPE_OBJECT
          then \<lparr>db_Name = name, db_StorageClass = STORAGECLASSENUM_STORAGES_BACKENDS_S3BOTO3_S3_BOTO3_STORAGE,
                db_StorageSettings = S3StorageConfiguration (p_config r), db_PulpLabels = [(''contentsources'', ''true'')]\<rparr>
          else \<lparr>db_Name = name, db_StorageClass = STORAGECLASSENUM_PULPCORE_APP_MODELS_STORAGE_FILE_SYSTEM,
                db_StorageSettings = [(''location'', ''/var/lib/pulp/'' @ name @ ''/'')],
                db_PulpLabels = [(''contentsources'', ''true'')]\<rparr>)))
       deref"

definition LookupOrCreateDomain :: "'p pulpDaoImpl \<Rightarrow> ctx \<Rightarrow> string \<Rightarrow> (string, ('p, 'x) pulp_world_scheme) io" where
  "LookupOrCreateDomain r ctx name = bindIO (LookupDomain r ctx name) (\<lambda>href.
     if href \<noteq> '''' then returnIO href
     else handleIO (CreateDomain r ctx name) (\<lambda>createErr.
       bindIO (handleIO (LookupDomain r ctx name) (\<lambda>_. returnIO '''')) (\<lambda>href.
         if href = '''' then failIO createErr else returnIO href)))"

definition UpdateDomainIfNeeded :: "'p pulpDaoImpl \<Rightarrow> ctx \<Rightarrow> string \<Rightarrow> (unit, ('p, 'x) pulp_world_scheme) io" where
  "UpdateDomainIfNeeded r ctx name = bindIO (getZestClient r) (\<lambda>_.
     if pc_StorageType (p_config r) = STORAGE_TYPE_LOCAL then returnIO ()
     else bindIO (lookupDomain r ctx name) (\<lambda>found.
       bindIO (deref found) (\<lambda>(pulpHref, settings).
         if maps_equal settings (S3StorageConfiguration (p_config r)) then returnIO ()
         else bindIO (deref pulpHref) (\<lambda>href w.
           case Execute ctx (z_DomainsUpdate (p_zest r) href (S3StorageConfiguration (p_config r))) w of
             (ZestOk resp _, w') \<Rightarrow> (Inr (), w')
           | (ZestErr httpResp err, w') \<Rightarrow>
               if error_text err \<noteq> ''no value given for required property task''
               then (Inl (errorWithResponseBody ''error updating domain'' httpResp err), w')
               else (Inr (), w')))))"

section \<open>Packages of a version\<close>

definition ListVersionPackages ::
  "'p pulpDaoImpl \<Rightarrow> ctx \<Rightarrow> string \<Rightarrow> 32 word \<Rightarrow> 32 word \<Rightarrow> (string list \<times> nat, ('p, 'x) pulp_world_scheme) io" where
  "ListVersionPackages r ctx versionHref offset limit =
     zestIO r ctx ''error listing packages for version'' (z_PackagesList (p_zest r) (domainName r) versionHref limit offset)"

text \<open>The loop over the pages; it runs while fewer packages are read than the first page announced.\<close>

fun package_pages ::
  "'p pulpDaoImpl \<Rightarrow> ctx \<Rightarrow> string \<Rightarrow> 32 word \<Rightarrow> nat \<Rightarrow> nat \<Rightarrow> 32 word \<Rightarrow> string list \<Rightarrow> (string list, ('p, 'x) pulp_world_scheme) io" where
  "package_pages r ctx versionHref limit count 0 initial pkgs =
     (if length pkgs < count then failIO NeverReturns else returnIO pkgs)"
| "package_pages r ctx versionHref limit count (Suc rounds) initial pkgs =
     (if length pkgs < count then
        bindIO (ListVersionPackages r ctx versionHref (initial + limit) limit) (\<lambda>(pkgList, _).
          package_pages r ctx versionHref limit count rounds (initial + limit) (pkgs @ pkgList))
      else returnIO pkgs)"

definition ListVersionAllPackages :: "'p pulpDaoImpl \<Rightarrow> ctx \<Rightarrow> string \<Rightarrow> (string list, ('p, 'x) pulp_world_scheme) io" where
  "ListVersionAllPackages r ctx versionHref =
     bindIO (ListVersionPackages r ctx versionHref 0 300) (\<lambda>(pkgs, count).
       package_pages r ctx versionHref 300 count (p_rounds r) 0 pkgs)"

section \<open>Calls that succeed or fail\<close>

lemma zestIO_success:
  assumes "zestIO r ctx m call w = (Inr a, w')"
  obtains resp where "call (pw_pulp w) = (ZestOk resp a, pw_pulp w')"
  using assms unfolding zestIO_def getZestClient_def Execute_def tick_def
  by (auto split: option.splits zest_answer.splits prod.splits if_splits simp: bindIO_def)

lemma zestIO_failure:
  assumes "zestIO r ctx m call w = (Inl err, w')"
  shows "pw_pulp w' = pw_pulp w \<or> (\<exists>resp e. call (pw_pulp w) = (ZestErr resp e, pw_pulp w'))"
  using assms unfolding zestIO_def getZestClient_def Execute_def tick_def
  by (auto split: option.splits zest_answer.splits prod.splits if_splits simp: bindIO_def)

lemma getZestClient_state [simp]: "snd (getZestClient r w) = w"
  by (simp add: getZestClient_def split: option.split)

lemma getZestClient_Inr: "getZestClient r w = (Inr u, w') \<Longrightarrow> w' = w"
  by (metis getZestClient_state snd_conv)

lemma client_then_successE:
  assumes "bindIO (getZestClient r) (\<lambda>_. bindIO m k) w = (Inr b, w')"
  obtains a w1 where "m w = (Inr a, w1)" "k a w1 = (Inr b, w')"
  using assms by (auto simp: bindIO_success dest!: getZestClient_Inr)

end
