(* ===== verification/PulpGuards.thy ===== *)
theory PulpGuards
  imports PulpClient
begin

text \<open>
  Content guards (\<open>pkg/clients/pulp_client/content_guard.go\<close>): who may download what a distribution
  serves. A list call answers the guards of the domain with the asked name, so its count is the
  number of its results.
\<close>

section \<open>The operations\<close>

definition IdentityHeader :: string where "IdentityHeader = ''x-rh-identity''"

definition ORG_ID_GUARD_NAME :: string where "ORG_ID_GUARD_NAME = ''org_id_guard''"
definition ORG_ID_JQ_FILTER :: string where "ORG_ID_JQ_FILTER = ''.identity.org_id''"
definition TURNPIKE_GUARD_NAME :: string where "TURNPIKE_GUARD_NAME = ''turnpike_guard''"
definition TURNPIKE_JQ_FILTER :: string where "TURNPIKE_JQ_FILTER = ''.identity.x509.subject_dn''"
definition COMPOSITE_GUARD_NAME :: string where "COMPOSITE_GUARD_NAME = ''composite_guard''"

definition rhelCompositeGuardName :: "string list \<Rightarrow> string" where
  "rhelCompositeGuardName features = ''rhel_composite_'' @ Join features ''_''"

definition featureGuardPulpName :: "string list \<Rightarrow> string" where
  "featureGuardPulpName features = ''feature_'' @ Join features ''_''"

text \<open>The first result, unless there is none or it has no href.\<close>

definition found_guard :: "(string option \<times> 'g) list \<Rightarrow> (string \<times> 'g) option" where
  "found_guard results = (case results of (Some href, g) # _ \<Rightarrow> Some (href, g) | _ \<Rightarrow> None)"

definition createRHIDHeaderGuard ::
  "'p pulpDaoImpl \<Rightarrow> ctx \<Rightarrow> string \<Rightarrow> string \<Rightarrow> string \<Rightarrow> (string, ('p, 'x) pulp_world_scheme) io" where
  "createRHIDHeaderGuard r ctx name jqFilter value =
     bindIO (zestIO r ctx ''error creating header guard'' (z_HeaderCreate (p_zest r) (domainName r)
        \<lparr>hg_Name = name, hg_HeaderName = IdentityHeader, hg_HeaderValue = value, hg_JqFilter = Some jqFilter\<rparr>))
       deref"

definition fetchHeaderContentGuard ::
  "'p pulpDaoImpl \<Rightarrow> ctx \<Rightarrow> string \<Rightarrow> ((string \<times> HeaderContentGuard) option, ('p, 'x) pulp_world_scheme) io" where
  "fetchHeaderContentGuard r ctx name =
     bindIO (zestIO r ctx ''error updating header guard'' (z_HeaderList (p_zest r) (domainName r) name))
       (\<lambda>results. returnIO (found_guard results))"

definition fetchAndUpdateHeaderGuard ::
  "'p pulpDaoImpl \<Rightarrow> ctx \<Rightarrow> string \<Rightarrow> string \<Rightarrow> string \<Rightarrow> (string, ('p, 'x) pulp_world_scheme) io" where
  "fetchAndUpdateHeaderGuard r ctx name jqFilter value =
     bindIO (getZestClient r) (\<lambda>_.
     bindIO (fetchHeaderContentGuard r ctx name) (\<lambda>guard.
       case guard of
         None \<Rightarrow> returnIO ''''
       | Some (pulpHref, g) \<Rightarrow>
           if hg_HeaderName g \<noteq> IdentityHeader \<or> hg_HeaderValue g \<noteq> value \<or> hg_JqFilter g \<noteq> Some jqFilter
           then bindIO (zestIO r ctx ''error updating header guard''
                  (z_HeaderUpdate (p_zest r) pulpHref IdentityHeader value jqFilter)) deref
           else returnIO pulpHref))"

text \<open>
  After a failed creation the guard is looked up again: someone else may have made it. \<open>orFetch\<close> is
  that step of the three creations.
\<close>

definition orFetch ::
  "(string, 's) io \<Rightarrow> ((string \<times> 'g) option, 's) io \<Rightarrow> string \<Rightarrow> (string, 's) io" where
  "orFetch create fetch message = handleIO create (\<lambda>err.
     bindIO (handleIO fetch (\<lambda>_. returnIO None)) (\<lambda>guard.
       case guard of None \<Rightarrow> failIO (Wrapf message err '''') | Some (href, g) \<Rightarrow> returnIO href))"

definition createOrUpdateRHIDHeaderGuard ::
  "'p pulpDaoImpl \<Rightarrow> ctx \<Rightarrow> string \<Rightarrow> string \<Rightarrow> string \<Rightarrow> (string, ('p, 'x) pulp_world_scheme) io" where
  "createOrUpdateRHIDHeaderGuard r ctx name jqFilter value =
     bindIO (fetchAndUpdateHeaderGuard r ctx name jqFilter value) (\<lambda>pulpHref.
       if pulpHref \<noteq> '''' then returnIO pulpHref
       else orFetch (createRHIDHeaderGuard r ctx name jqFilter value) (fetchHeaderContentGuard r ctx name)
              ''failed to create and then fetch a RHID header '')"

definition CreateOrUpdateOrgIdGuard :: "'p pulpDaoImpl \<Rightarrow> ctx \<Rightarrow> string \<Rightarrow> (string, ('p, 'x) pulp_world_scheme) io" where
  "CreateOrUpdateOrgIdGuard r ctx orgId = createOrUpdateRHIDHeaderGuard r ctx ORG_ID_GUARD_NAME ORG_ID_JQ_FILTER orgId"

definition CreateOrUpdateTurnpikeGuard :: "'p pulpDaoImpl \<Rightarrow> ctx \<Rightarrow> (string, ('p, 'x) pulp_world_scheme) io" where
  "CreateOrUpdateTurnpikeGuard r ctx =
     createOrUpdateRHIDHeaderGuard r ctx TURNPIKE_GUARD_NAME TURNPIKE_JQ_FILTER (pc_GuardSubjectDn (p_config r))"

definition ptrStringsFromHrefs :: "string list \<Rightarrow> string option list" where
  "ptrStringsFromHrefs hrefs = map Some hrefs"

fun compositeChildHrefsEqual :: "string option list \<Rightarrow> string list \<Rightarrow> bool" where
  "compositeChildHrefsEqual [] [] = True"
| "compositeChildHrefsEqual (e # es) (w # ws) = (e \<noteq> None \<and> e = Some w \<and> compositeChildHrefsEqual es ws)"
| "compositeChildHrefsEqual es ws = False"

definition fetchNamedCompositeContentGuard ::
  "'p pulpDaoImpl \<Rightarrow> ctx \<Rightarrow> string \<Rightarrow> ((string \<times> CompositeContentGuard) option, ('p, 'x) pulp_world_scheme) io" where
  "fetchNamedCompositeContentGuard r ctx name =
     bindIO (zestIO r ctx ''error listing composite guards'' (z_CompositeList (p_zest r) (domainName r) name))
       (\<lambda>results. returnIO (found_guard results))"

definition createNamedCompositeGuard ::
  "'p pulpDaoImpl \<Rightarrow> ctx \<Rightarrow> string \<Rightarrow> string list \<Rightarrow> (string, ('p, 'x) pulp_world_scheme) io" where
  "createNamedCompositeGuard r ctx name guardHrefs =
     bindIO (zestIO r ctx ''error creating composite guard'' (z_CompositeCreate (p_zest r) (domainName r)
        \<lparr>cg_Name = name, cg_Guards = ptrStringsFromHrefs guardHrefs\<rparr>)) deref"

definition fetchOrUpdateNamedCompositeGuard ::
  "'p pulpDaoImpl \<Rightarrow> ctx \<Rightarrow> string \<Rightarrow> string list \<Rightarrow> (string, ('p, 'x) pulp_world_scheme) io" where
  "fetchOrUpdateNamedCompositeGuard r ctx name guardHrefs =
     bindIO (getZestClient r) (\<lambda>_.
     bindIO (fetchNamedCompositeContentGuard r ctx name) (\<lambda>guard.
       case guard of
         None \<Rightarrow> returnIO ''''
       | Some (pulpHref, g) \<Rightarrow>
           if \<not> compositeChildHrefsEqual (cg_Guards g) guardHrefs
           then bindIO (zestIO r ctx ''error updating composite guard''
                  (z_CompositeUpdate (p_zest r) pulpHref (ptrStringsFromHrefs guardHrefs))) deref
           else returnIO pulpHref))"

definition createOrUpdateNamedCompositeGuard ::
  "'p pulpDaoImpl \<Rightarrow> ctx \<Rightarrow> string \<Rightarrow> string list \<Rightarrow> (string, ('p, 'x) pulp_world_scheme) io" where
  "createOrUpdateNamedCompositeGuard r ctx name guardHrefs =
     bindIO (fetchOrUpdateNamedCompositeGuard r ctx name guardHrefs) (\<lambda>pulpHref.
       if pulpHref \<noteq> '''' then returnIO pulpHref
       else orFetch (createNamedCompositeGuard r ctx name guardHrefs) (fetchNamedCompositeContentGuard r ctx name)
              (''failed to create and fetch composite content guard '' @ [CHR 34] @ name @ [CHR 34] @ '': ''))"

definition createCompositeGuard :: "'p pulpDaoImpl \<Rightarrow> ctx \<Rightarrow> string \<Rightarrow> string \<Rightarrow> (string, ('p, 'x) pulp_world_scheme) io" where
  "createCompositeGuard r ctx guard1 guard2 = createNamedCompositeGuard r ctx COMPOSITE_GUARD_NAME [guard1, guard2]"

definition fetchCompositeContentGuard ::
  "'p pulpDaoImpl \<Rightarrow> ctx \<Rightarrow> ((string \<times> CompositeContentGuard) option, ('p, 'x) pulp_world_scheme) io" where
  "fetchCompositeContentGuard r ctx = fetchNamedCompositeContentGuard r ctx COMPOSITE_GUARD_NAME"

definition fetchOrUpdateCompositeGuard ::
  "'p pulpDaoImpl \<Rightarrow> ctx \<Rightarrow> string \<Rightarrow> string \<Rightarrow> (string, ('p, 'x) pulp_world_scheme) io" where
  "fetchOrUpdateCompositeGuard r ctx guard1 guard2 =
     fetchOrUpdateNamedCompositeGuard r ctx COMPOSITE_GUARD_NAME [guard1, guard2]"

definition createOrUpdateCompositeGuard ::
  "'p pulpDaoImpl \<Rightarrow> ctx \<Rightarrow> string \<Rightarrow> string \<Rightarrow> (string, ('p, 'x) pulp_world_scheme) io" where
  "createOrUpdateCompositeGuard r ctx guard1href guard2href =
     bindIO (fetchOrUpdateCompositeGuard r ctx guard1href guard2href) (\<lambda>pulpHref.
       if pulpHref \<noteq> '''' then returnIO pulpHref
       else orFetch (createCompositeGuard r ctx guard1href guard2href) (fetchCompositeContentGuard r ctx)
              ''failed to create and fetch composite content guard '')"

definition createOrUpdateRhelCompositeGuard ::
  "'p pulpDaoImpl \<Rightarrow> ctx \<Rightarrow> string list \<Rightarrow> string list \<Rightarrow> (string, ('p, 'x) pulp_world_scheme) io" where
  "createOrUpdateRhelCompositeGuard r ctx guardHrefs features =
     createOrUpdateNamedCompositeGuard r ctx (rhelCompositeGuardName features) guardHrefs"

definition fetchFeatureGuard ::
  "'p pulpDaoImpl \<Rightarrow> ctx \<Rightarrow> string list \<Rightarrow> ((string \<times> FeatureContentGuard) option, ('p, 'x) pulp_world_scheme) io" where
  "fetchFeatureGuard r ctx features =
     bindIO (zestIO r ctx ''error listing feature guards'' (z_FeatureList (p_zest r) (domainName r) (featureGuardPulpName features)))
       (\<lambda>results. returnIO (found_guard results))"

definition CreateOrUpdateFeatureGuard :: "'p pulpDaoImpl \<Rightarrow> ctx \<Rightarrow> string \<Rightarrow> (string, ('p, 'x) pulp_world_scheme) io" where
  "CreateOrUpdateFeatureGuard r ctx featureName =
     (let features = ParseFeatures featureName;
          guardToCreate = \<lparr>fg_Name = featureGuardPulpName features, fg_HeaderName = IdentityHeader,
            fg_JqFilter = Some ''.identity.org_id'', fg_Features = features\<rparr>
      in
      if features = [] then failIO (Other ''empty feature name for content guard'')
      else if length features \<noteq> 1 then
        failIO (Other (''CreateOrUpdateFeatureGuard expects a single feature name, got '' @ Itoa (int (length features)) @ '' after parsing''))
      else bindIO (getZestClient r) (\<lambda>_.
        bindIO (fetchFeatureGuard r ctx features) (\<lambda>guard.
          case guard of
            Some (pulpHref, g) \<Rightarrow>
              if fg_HeaderName guardToCreate \<noteq> fg_HeaderName g \<or>
                 \<not> z_NullableStringEqual (p_zest r) (fg_JqFilter guardToCreate) (fg_JqFilter g) \<or>
                 sort (fg_Features guardToCreate) \<noteq> sort (fg_Features g)
              then bindIO (zestIO r ctx ''error updating feature guard''
                     (z_FeatureUpdate (p_zest r) pulpHref guardToCreate)) deref
              else returnIO pulpHref
          | None \<Rightarrow>
              bindIO (zestIO r ctx ''error creating feature guard''
                (z_FeatureCreate (p_zest r) (domainName r) guardToCreate)) deref)))"

definition CreateOrUpdateGuardsForOrg :: "'p pulpDaoImpl \<Rightarrow> ctx \<Rightarrow> string \<Rightarrow> (string, ('p, 'x) pulp_world_scheme) io" where
  "CreateOrUpdateGuardsForOrg r ctx orgId =
     bindIO (CreateOrUpdateOrgIdGuard r ctx orgId) (\<lambda>OrgIdHref.
     bindIO (CreateOrUpdateTurnpikeGuard r ctx) (\<lambda>TurnpikeHref.
     createOrUpdateCompositeGuard r ctx OrgIdHref TurnpikeHref))"

fun feature_guards :: "'p pulpDaoImpl \<Rightarrow> ctx \<Rightarrow> string list \<Rightarrow> (string list, ('p, 'x) pulp_world_scheme) io" where
  "feature_guards r ctx [] = returnIO []"
| "feature_guards r ctx (f # fs) =
     bindIO (CreateOrUpdateFeatureGuard r ctx f) (\<lambda>href.
     bindIO (feature_guards r ctx fs) (\<lambda>hrefs. returnIO (href # hrefs)))"

definition CreateOrUpdateGuardsForRhelRepo :: "'p pulpDaoImpl \<Rightarrow> ctx \<Rightarrow> string \<Rightarrow> (string, ('p, 'x) pulp_world_scheme) io" where
  "CreateOrUpdateGuardsForRhelRepo r ctx featureName =
     (let features = ParseFeatures featureName in
      if features = [] then failIO (Other ''feature name required for RHEL composite content guard'')
      else
        bindIO (feature_guards r ctx features) (\<lambda>guardHrefs.
        bindIO (CreateOrUpdateTurnpikeGuard r ctx) (\<lambda>turnpikeHref.
        createOrUpdateRhelCompositeGuard r ctx (guardHrefs @ [turnpikeHref]) features)))"

section \<open>What Pulp promises about guards\<close>

text \<open>
  The guards Pulp holds, per kind: rows of domain, href and guard. \<open>view\<close> reads them off a state of
  Pulp.
\<close>

type_synonym 'g guard_rows = "(string \<times> string \<times> 'g) list"

record guard_tables =
  gt_header :: "HeaderContentGuard guard_rows"
  gt_feature :: "FeatureContentGuard guard_rows"
  gt_composite :: "CompositeContentGuard guard_rows"

definition row_href :: "string \<times> string \<times> 'g \<Rightarrow> string" where
  "row_href row = fst (snd row)"

definition named :: "('g \<Rightarrow> string) \<Rightarrow> string \<Rightarrow> string \<Rightarrow> string \<times> string \<times> 'g \<Rightarrow> bool" where
  "named nm d n row = (fst row = d \<and> nm (snd (snd row)) = n)"

definition all_hrefs :: "guard_tables \<Rightarrow> string list" where
  "all_hrefs t = map row_href (gt_header t) @ map row_href (gt_feature t) @ map row_href (gt_composite t)"

definition tables_ok :: "guard_tables \<Rightarrow> bool" where
  "tables_ok t = (distinct (all_hrefs t) \<and> '''' \<notin> set (all_hrefs t))"

text \<open>A list call answers the rows of the domain with the name, and changes nothing.\<close>

definition list_ok ::
  "('p \<Rightarrow> guard_tables) \<Rightarrow> (guard_tables \<Rightarrow> 'g guard_rows) \<Rightarrow> ('g \<Rightarrow> string) \<Rightarrow>
   (string \<Rightarrow> string \<Rightarrow> ((string option \<times> 'g) list, 'p) zest_call) \<Rightarrow> bool" where
  "list_ok view get nm call \<longleftrightarrow> (\<forall>d n p. view (snd (call d n p)) = view p \<and>
     (\<forall>resp rs. fst (call d n p) = ZestOk resp rs \<longrightarrow>
        rs = map (\<lambda>row. (Some (row_href row), snd (snd row))) (filter (named nm d n) (get (view p)))))"

text \<open>
  A creation adds the guard under a new href. One that fails leaves the tables, or another request
  has made the same guard in the meantime.
\<close>

definition create_ok ::
  "('p \<Rightarrow> guard_tables) \<Rightarrow> (guard_tables \<Rightarrow> 'g guard_rows) \<Rightarrow> ('g guard_rows \<Rightarrow> guard_tables \<Rightarrow> guard_tables) \<Rightarrow>
   (string \<Rightarrow> 'g \<Rightarrow> (string option, 'p) zest_call) \<Rightarrow> bool" where
  "create_ok view get put call \<longleftrightarrow> (\<forall>d g p.
     let t = view p; t' = view (snd (call d g p));
         added = (\<lambda>h. h \<noteq> '''' \<and> h \<notin> set (all_hrefs t) \<and> t' = put (get t @ [(d, h, g)]) t) in
     (\<forall>resp h. fst (call d g p) = ZestOk resp (Some h) \<longrightarrow> added h) \<and>
     (\<forall>resp err. fst (call d g p) = ZestErr resp err \<longrightarrow> t' = t \<or> (\<exists>h. added h)))"

text \<open>An update changes the guard with the href and answers that href.\<close>

definition update_ok ::
  "('p \<Rightarrow> guard_tables) \<Rightarrow> (guard_tables \<Rightarrow> 'g guard_rows) \<Rightarrow> ('g guard_rows \<Rightarrow> guard_tables \<Rightarrow> guard_tables) \<Rightarrow>
   ('a \<Rightarrow> 'g \<Rightarrow> 'g) \<Rightarrow> (string \<Rightarrow> 'a \<Rightarrow> (string option, 'p) zest_call) \<Rightarrow> bool" where
  "update_ok view get put patch call \<longleftrightarrow> (\<forall>href a p resp h.
     fst (call href a p) = ZestOk resp (Some h) \<longrightarrow>
       h = href \<and>
       view (snd (call href a p)) = put (map (\<lambda>(d, h', g). (d, h', if h' = href then patch a g else g)) (get (view p))) (view p))"

definition patch_header :: "string \<times> string \<times> string \<Rightarrow> HeaderContentGuard \<Rightarrow> HeaderContentGuard" where
  "patch_header = (\<lambda>(headerName, value, jqFilter) g.
     g\<lparr>hg_HeaderName := headerName, hg_HeaderValue := value, hg_JqFilter := Some jqFilter\<rparr>)"

text \<open>The laws of all three kinds, and nullable strings that compare equal hold the same string.\<close>

definition pulp_guards :: "('p \<Rightarrow> guard_tables) \<Rightarrow> 'p zest \<Rightarrow> bool" where
  "pulp_guards view z \<longleftrightarrow>
     (\<forall>x y. z_NullableStringEqual z x y \<longrightarrow> x = y) \<and>
     list_ok view gt_header hg_Name (z_HeaderList z) \<and>
     create_ok view gt_header (\<lambda>rows t. t\<lparr>gt_header := rows\<rparr>) (z_HeaderCreate z) \<and>
     update_ok view gt_header (\<lambda>rows t. t\<lparr>gt_header := rows\<rparr>) patch_header
       (\<lambda>href (headerName, value, jqFilter). z_HeaderUpdate z href headerName value jqFilter) \<and>
     list_ok view gt_feature fg_Name (z_FeatureList z) \<and>
     create_ok view gt_feature (\<lambda>rows t. t\<lparr>gt_feature := rows\<rparr>) (z_FeatureCreate z) \<and>
     update_ok view gt_feature (\<lambda>rows t. t\<lparr>gt_feature := rows\<rparr>) (\<lambda>new g. new) (z_FeatureUpdate z) \<and>
     list_ok view gt_composite cg_Name (z_CompositeList z) \<and>
     create_ok view gt_composite (\<lambda>rows t. t\<lparr>gt_composite := rows\<rparr>) (z_CompositeCreate z) \<and>
     update_ok view gt_composite (\<lambda>rows t. t\<lparr>gt_composite := rows\<rparr>) (\<lambda>guards g. g\<lparr>cg_Guards := guards\<rparr>) (z_CompositeUpdate z)"

text \<open>
  Whom a guard lets through: a header guard whoever's identity has the value under the filter, a
  feature guard whoever's organisation (the filter's value) is entitled to every feature, a
  composite guard whomever one of its children lets through. \<open>ident\<close> is what a filter finds in the
  caller's identity and \<open>entitled\<close> the subscriptions.
\<close>

definition header_permits :: "(string \<Rightarrow> string option) \<Rightarrow> HeaderContentGuard \<Rightarrow> bool" where
  "header_permits ident g = (hg_HeaderName g = IdentityHeader \<and>
     (case hg_JqFilter g of None \<Rightarrow> False | Some f \<Rightarrow> ident f = Some (hg_HeaderValue g)))"

definition feature_permits :: "(string \<Rightarrow> string \<Rightarrow> bool) \<Rightarrow> (string \<Rightarrow> string option) \<Rightarrow> FeatureContentGuard \<Rightarrow> bool" where
  "feature_permits entitled ident g = (fg_HeaderName g = IdentityHeader \<and>
     (case fg_JqFilter g of None \<Rightarrow> False
      | Some f \<Rightarrow> (case ident f of None \<Rightarrow> False | Some org \<Rightarrow> list_all (entitled org) (fg_Features g))))"

definition child_permits ::
  "guard_tables \<Rightarrow> (string \<Rightarrow> string \<Rightarrow> bool) \<Rightarrow> (string \<Rightarrow> string option) \<Rightarrow> string \<Rightarrow> bool" where
  "child_permits t entitled ident href =
     (list_ex (\<lambda>row. row_href row = href \<and> header_permits ident (snd (snd row))) (gt_header t) \<or>
      list_ex (\<lambda>row. row_href row = href \<and> feature_permits entitled ident (snd (snd row))) (gt_feature t))"

definition permits ::
  "guard_tables \<Rightarrow> (string \<Rightarrow> string \<Rightarrow> bool) \<Rightarrow> (string \<Rightarrow> string option) \<Rightarrow> string \<Rightarrow> bool" where
  "permits t entitled ident href =
     list_ex (\<lambda>row. row_href row = href \<and>
       list_ex (\<lambda>c. case c of None \<Rightarrow> False | Some h \<Rightarrow> child_permits t entitled ident h) (cg_Guards (snd (snd row))))
       (gt_composite t)"

end
