(* ===== verification/PulpDistribution.thy ===== *)
theory PulpDistribution
  imports PulpGuards ConfigValues
begin

text \<open>
  Distributions of snapshots (\<open>pkg/tasks/helpers/pulp_distribution_helper.go\<close>): the paths under which
  Pulp serves a publication, and the guard in front of each. Of a repository and a snapshot the
  fields are those the tasks read.
\<close>

type_synonym ContentCountsType = "(string \<times> int) list"

record Snapshot =
  sn_UUID :: string
  sn_CreatedAt :: timestamp
  sn_Deleted :: bool
  sn_VersionHref :: string
  sn_PublicationHref :: string
  sn_DistributionPath :: string
  sn_RepositoryPath :: string
  sn_DistributionHref :: string
  sn_RepositoryConfigurationUUID :: string
  sn_ContentCounts :: ContentCountsType
  sn_AddedCounts :: ContentCountsType
  sn_RemovedCounts :: ContentCountsType
  sn_Published :: bool

record RepositoryResponse =
  re_UUID :: string
  re_OrgID :: string
  re_RepositoryUUID :: string
  re_URL :: string
  re_Origin :: string
  re_Name :: string
  re_Label :: string
  re_FeatureName :: string
  re_ExtendedRelease :: string
  re_ModuleHotfixes :: bool
  re_GpgKey :: string
  re_Partner :: bool
  re_LastSnapshotUUID :: string
  re_LastSnapshot :: "Snapshot option"

definition GetLatestRepoDistPath :: "string \<Rightarrow> string" where
  "GetLatestRepoDistPath repoUUID = repoUUID @ ''/'' @ ''latest''"

definition ShouldUpdateLatestDistributionOnCreate :: "RepositoryResponse \<Rightarrow> bool" where
  "ShouldUpdateLatestDistributionOnCreate repo = (\<not> re_Partner repo)"

definition FetchContentGuard ::
  "'p pulpDaoImpl \<Rightarrow> ctx \<Rightarrow> string \<Rightarrow> string \<Rightarrow> (string option, ('p, 'x) pulp_world_scheme) io" where
  "FetchContentGuard pdh ctx orgId feature =
     (if \<not> pc_RepoContentGuards (p_config pdh) then returnIO None
      else if orgId = RedHatOrg \<or> orgId = CommunityOrg then
        (let names = ParseFeatures feature in
         if 0 < length names \<and> \<not> AllStringsIn names SubscriptionFeaturesIgnored then
           bindIO (wrapIO ''could not fetch/create/update RHEL composite content guard''
             (CreateOrUpdateGuardsForRhelRepo pdh ctx feature)) (\<lambda>href. returnIO (Some href))
         else returnIO None)
      else
        bindIO (wrapIO ''could not fetch/create/update content guard'' (CreateOrUpdateGuardsForOrg pdh ctx orgId))
          (\<lambda>href. returnIO (Some href)))"

definition createDistribution ::
  "'p pulpDaoImpl \<Rightarrow> ctx \<Rightarrow> string \<Rightarrow> string \<Rightarrow> string \<Rightarrow> string option \<Rightarrow> (TaskResponse, ('p, 'x) pulp_world_scheme) io" where
  "createDistribution pdh ctx publicationHref distName distPath contentGuardHref =
     bindIO (CreateRpmDistribution pdh ctx publicationHref distName distPath contentGuardHref) (\<lambda>distTask.
     PollTask pdh ctx distTask)"

definition CreateDistribution ::
  "'p pulpDaoImpl \<Rightarrow> ctx \<Rightarrow> RepositoryResponse \<Rightarrow> string \<Rightarrow> string \<Rightarrow> string \<Rightarrow> (TaskResponse, ('p, 'x) pulp_world_scheme) io" where
  "CreateDistribution pdh ctx repo publicationHref distName distPath =
     bindIO (FetchContentGuard pdh ctx (re_OrgID repo) (re_FeatureName repo)) (\<lambda>contentGuardHref.
     createDistribution pdh ctx publicationHref distName distPath contentGuardHref)"

definition distributionUpdateNeeded :: "DistributionResponse \<Rightarrow> string \<Rightarrow> string option \<Rightarrow> bool" where
  "distributionUpdateNeeded existingDist publicationHref contentGuardHref =
     (if \<not> OptionalStringsEqual (di_ContentGuard existingDist) contentGuardHref then True
      else if di_Publication existingDist = None \<or> di_Publication existingDist \<noteq> Some publicationHref then True
      else False)"

definition DistributionUpdateNeeded ::
  "'p pulpDaoImpl \<Rightarrow> ctx \<Rightarrow> RepositoryResponse \<Rightarrow> DistributionResponse \<Rightarrow> string \<Rightarrow> (bool, ('p, 'x) pulp_world_scheme) io" where
  "DistributionUpdateNeeded pdh ctx repo existingDist publicationHref =
     bindIO (FetchContentGuard pdh ctx (re_OrgID repo) (re_FeatureName repo)) (\<lambda>contentGuardHref.
     returnIO (distributionUpdateNeeded existingDist publicationHref contentGuardHref))"

definition updateDistribution ::
  "'p pulpDaoImpl \<Rightarrow> ctx \<Rightarrow> string \<Rightarrow> string \<Rightarrow> string \<Rightarrow> string \<Rightarrow> string option \<Rightarrow> (TaskResponse, ('p, 'x) pulp_world_scheme) io" where
  "updateDistribution pdh ctx distHref publicationHref distName distPath contentGuardHref =
     bindIO (UpdateRpmDistribution pdh ctx distHref publicationHref distName distPath contentGuardHref) (\<lambda>distTaskHref.
     PollTask pdh ctx distTaskHref)"

definition UpdateDistribution ::
  "'p pulpDaoImpl \<Rightarrow> ctx \<Rightarrow> RepositoryResponse \<Rightarrow> string \<Rightarrow> string \<Rightarrow> string \<Rightarrow> string \<Rightarrow> (TaskResponse, ('p, 'x) pulp_world_scheme) io" where
  "UpdateDistribution pdh ctx repo distHref publicationHref distName distPath =
     bindIO (FetchContentGuard pdh ctx (re_OrgID repo) (re_FeatureName repo)) (\<lambda>contentGuardHref.
     updateDistribution pdh ctx distHref publicationHref distName distPath contentGuardHref)"

definition task_href :: "TaskResponse \<Rightarrow> string" where
  "task_href task = (case tr_PulpHref task of None \<Rightarrow> '''' | Some href \<Rightarrow> href)"

text \<open>The message of a task without a distribution prints the address of the href; here it is the href.\<close>

definition createOrUpdateDistribution ::
  "'p pulpDaoImpl \<Rightarrow> ctx \<Rightarrow> string \<Rightarrow> string \<Rightarrow> string \<Rightarrow> string option \<Rightarrow> (string \<times> string, ('p, 'x) pulp_world_scheme) io" where
  "createOrUpdateDistribution pdh ctx publicationHref distName distPath contentGuardHref =
     bindIO (FindDistributionByPath pdh ctx distPath) (\<lambda>resp.
       case resp of
         None \<Rightarrow>
           bindIO (createDistribution pdh ctx publicationHref distName distPath contentGuardHref) (\<lambda>distTask.
             case SelectRpmDistributionHref distTask of
               None \<Rightarrow> failIO (Other (''could not find a distribution href in task: '' @ task_href distTask))
             | Some distHref \<Rightarrow> returnIO (distHref, task_href distTask))
       | Some dist \<Rightarrow>
           if \<not> distributionUpdateNeeded dist publicationHref contentGuardHref then returnIO ('''', '''')
           else bindIO (deref (di_PulpHref dist)) (\<lambda>distHref.
             bindIO (updateDistribution pdh ctx distHref publicationHref distName distPath contentGuardHref) (\<lambda>distTask.
             returnIO (distHref, task_href distTask))))"

definition CreateOrUpdateDistribution ::
  "'p pulpDaoImpl \<Rightarrow> ctx \<Rightarrow> RepositoryResponse \<Rightarrow> string \<Rightarrow> string \<Rightarrow> string \<Rightarrow> (string \<times> string, ('p, 'x) pulp_world_scheme) io" where
  "CreateOrUpdateDistribution pdh ctx repo publicationHref distName distPath =
     bindIO (FetchContentGuard pdh ctx (re_OrgID repo) (re_FeatureName repo)) (\<lambda>contentGuardHref.
     createOrUpdateDistribution pdh ctx publicationHref distName distPath contentGuardHref)"

definition CreateOrUpdateLatestDistribution ::
  "'p pulpDaoImpl \<Rightarrow> ctx \<Rightarrow> RepositoryResponse \<Rightarrow> string \<Rightarrow> (string \<times> string, ('p, 'x) pulp_world_scheme) io" where
  "CreateOrUpdateLatestDistribution pdh ctx repo publicationHref =
     CreateOrUpdateDistribution pdh ctx repo publicationHref (re_UUID repo) (GetLatestRepoDistPath (re_UUID repo))"

definition CreateOrUpdateUnguardedDistribution ::
  "'p pulpDaoImpl \<Rightarrow> ctx \<Rightarrow> string \<Rightarrow> string \<Rightarrow> string \<Rightarrow> (string \<times> string, ('p, 'x) pulp_world_scheme) io" where
  "CreateOrUpdateUnguardedDistribution pdh ctx publicationHref distName distPath =
     createOrUpdateDistribution pdh ctx publicationHref distName distPath None"

definition CreateOrUpdateTemplateDistribution ::
  "'p pulpDaoImpl \<Rightarrow> ctx \<Rightarrow> RepositoryResponse \<Rightarrow> Snapshot \<Rightarrow> string \<Rightarrow> string \<Rightarrow> string \<Rightarrow> (string \<times> string, ('p, 'x) pulp_world_scheme) io" where
  "CreateOrUpdateTemplateDistribution pdh ctx repo snapshot templateOrgID distName distPath =
     (if re_Partner repo \<and> re_OrgID repo \<noteq> templateOrgID then
        if \<not> sn_Published snapshot then
          failIO (Other (''refusing to create unguarded distribution for foreign partner repository '' @ re_UUID repo @
            '' using unpublished snapshot '' @ sn_UUID snapshot))
        else CreateOrUpdateUnguardedDistribution pdh ctx (sn_PublicationHref snapshot) distName distPath
      else CreateOrUpdateDistribution pdh ctx repo (sn_PublicationHref snapshot) distName distPath)"

definition FindOrCreateDistribution ::
  "'p pulpDaoImpl \<Rightarrow> ctx \<Rightarrow> RepositoryResponse \<Rightarrow> string \<Rightarrow> string \<Rightarrow> string \<Rightarrow> (string, ('p, 'x) pulp_world_scheme) io" where
  "FindOrCreateDistribution pdh ctx repo publicationHref distName distPath =
     bindIO (FindDistributionByPath pdh ctx distPath) (\<lambda>resp.
       case (case resp of None \<Rightarrow> None | Some dist \<Rightarrow> di_PulpHref dist) of
         Some href \<Rightarrow> returnIO href
       | None \<Rightarrow>
           bindIO (CreateDistribution pdh ctx repo publicationHref distName distPath) (\<lambda>distTask.
             case SelectRpmDistributionHref distTask of
               None \<Rightarrow> failIO (Other (''could not find a distribution href in task: '' @ task_href distTask))
             | Some _ \<Rightarrow> deref (tr_PulpHref distTask)))"

end
