(* ===== verification/ContentDB.thy ===== *)
theory ContentDB
  imports PulpDistribution Models
begin

text \<open>
  The tables behind the content tasks: repositories and their configurations, snapshots, templates
  and the rows that associate a template with a configuration and a snapshot, and domains. A
  database call runs under a context and fails as the list \<open>tw_faults\<close> says, in order; under the
  task's context it also fails once that is cancelled. Row identifiers are UUIDs as the canonical
  text the columns hold. A row has the columns the tasks read and write; \<open>Deleted\<close> is a set
  \<open>deleted_at\<close>, and a column that may be null is an option.
\<close>

section \<open>Choosing a row\<close>

text \<open>\<open>ORDER BY .. LIMIT 1\<close>: the first of the rows that no other comes before.\<close>

primrec pick :: "('r \<Rightarrow> 'r \<Rightarrow> bool) \<Rightarrow> 'r list \<Rightarrow> 'r option" where
  "pick sooner [] = None"
| "pick sooner (r # rs) = (case pick sooner rs of None \<Rightarrow> Some r | Some b \<Rightarrow> Some (if sooner b r then b else r))"

text \<open>\<open>SELECT DISTINCT ON (key) .. ORDER BY key, ..\<close>: for each key the row that comes first.\<close>

definition distinct_on :: "('r \<Rightarrow> 'k) \<Rightarrow> ('r \<Rightarrow> 'r \<Rightarrow> bool) \<Rightarrow> 'r list \<Rightarrow> 'r list" where
  "distinct_on key sooner rows =
     List.map_filter (\<lambda>k. pick sooner (filter (\<lambda>r. key r = k) rows)) (remdups (map key rows))"

lemma pick_None [simp]: "pick sooner rs = None \<longleftrightarrow> rs = []"
  by (cases rs) (auto split: option.split)

lemma pick_mem: "pick sooner rs = Some r \<Longrightarrow> r \<in> set rs"
  by (induction rs arbitrary: r) (auto split: option.splits if_splits)

lemma pick_filterD: "pick sooner (filter P rs) = Some r \<Longrightarrow> r \<in> set rs \<and> P r"
  by (auto dest: pick_mem)

lemma distinct_on_iff:
  "r \<in> set (distinct_on key sooner rows) \<longleftrightarrow> pick sooner (filter (\<lambda>r'. key r' = key r) rows) = Some r"
proof
  assume "r \<in> set (distinct_on key sooner rows)"
  then obtain k where "pick sooner (filter (\<lambda>r. key r = k) rows) = Some r"
    by (auto simp: distinct_on_def List.map_filter_def)
  moreover from this have "key r = k" by (auto dest: pick_filterD)
  ultimately show "pick sooner (filter (\<lambda>r'. key r' = key r) rows) = Some r" by simp
next
  assume p: "pick sooner (filter (\<lambda>r'. key r' = key r) rows) = Some r"
  then have "r \<in> set rows" by (auto dest: pick_filterD)
  with p show "r \<in> set (distinct_on key sooner rows)"
    by (force simp: distinct_on_def List.map_filter_def image_iff intro: bexI [of _ "key r"])
qed

text \<open>An order in which rows that neither precede each other are interchangeable.\<close>

locale row_order =
  fixes sooner :: "'r \<Rightarrow> 'r \<Rightarrow> bool"
  assumes asymmetric: "sooner r s \<Longrightarrow> \<not> sooner s r"
    and between: "sooner r s \<Longrightarrow> sooner r t \<or> sooner t s"
begin

lemma irreflexive: "\<not> sooner r r"
  using asymmetric by blast

lemma transitive: "sooner r s \<Longrightarrow> sooner s t \<Longrightarrow> sooner r t"
  using between [of r s t] asymmetric [of s t] by blast

lemma pick_least: "pick sooner rs = Some r \<Longrightarrow> s \<in> set rs \<Longrightarrow> \<not> sooner s r"
proof (induction rs arbitrary: r s)
  case (Cons x xs)
  show ?case
  proof (cases "pick sooner xs")
    case None
    with Cons.prems show ?thesis using irreflexive by auto
  next
    case (Some b)
    then have b: "\<not> sooner s b" if "s \<in> set xs" for s using Cons.IH that by blast
    have r: "r = (if sooner b x then b else x)" using Cons.prems(1) Some by simp
    show ?thesis
      using Cons.prems(2) b r between [of s x b] irreflexive asymmetric by (auto split: if_splits)
  qed
qed simp

text \<open>A row that strictly precedes all the others is the one that is chosen.\<close>

lemma pick_first:
  assumes "r \<in> set rs" and "\<And>s. s \<in> set rs \<Longrightarrow> s \<noteq> r \<Longrightarrow> sooner r s"
  shows "pick sooner rs = Some r"
proof (cases "pick sooner rs")
  case None
  with assms(1) show ?thesis by simp
next
  case (Some s)
  with pick_least [OF Some assms(1)] assms(2) pick_mem [OF Some] show ?thesis by auto
qed

end

section \<open>Tables\<close>

record repository_row =
  rp_UUID :: string
  rp_URL :: string
  rp_Origin :: string
  rp_Public :: bool

record config_row =
  co_UUID :: string
  co_OrgID :: string
  co_RepositoryUUID :: string
  co_Name :: string
  co_Label :: string
  co_FeatureName :: string
  co_ExtendedRelease :: string
  co_ModuleHotfixes :: bool
  co_GpgKey :: string
  co_Partner :: bool
  co_LastSnapshotUUID :: "string option"
  co_LastSnapshotTaskUUID :: "string option"
  co_FailedSnapshotCount :: nat
  co_Deleted :: bool

text \<open>A row of templates is the model with two more columns.\<close>

record template_row = Template +
  te_RHSMEnvironmentCreated :: bool
  te_LastUpdateSnapshotError :: "string option"

abbreviation template_deleted :: "'x Template_scheme \<Rightarrow> bool" where
  "template_deleted t \<equiv> da_Valid (t_DeletedAt t)"

text \<open>\<open>TemplateRepositoryConfiguration\<close>.\<close>

record trc_row =
  trc_TemplateUUID :: string
  trc_RepositoryConfigurationUUID :: string
  trc_SnapshotUUID :: string
  trc_DistributionHref :: "string option"
  trc_Deleted :: bool

text \<open>
  \<open>tw_clock\<close> is what the clock shows at each reading (microseconds), \<open>tw_reads\<close> how often it was read;
  \<open>tw_uuids\<close> counts the UUIDs that were made.
\<close>

record 'p db_world = "'p pulp_world" +
  tw_repositories :: "repository_row list"
  tw_configs :: "config_row list"
  tw_snapshots :: "Snapshot list"
  tw_templates :: "template_row list"
  tw_trcs :: "trc_row list"
  tw_domains :: "(string \<times> string) list"
  tw_faults :: "go_error option list"
  tw_uuids :: nat
  tw_clock :: "nat \<Rightarrow> timestamp"
  tw_reads :: nat

definition Now :: "(timestamp, ('p, 'x) db_world_scheme) io" where
  "Now = (\<lambda>w. (Inr (tw_clock w (tw_reads w)), w\<lparr>tw_reads := tw_reads w + 1\<rparr>))"

text \<open>\<open>uuid.NewString\<close>: the next of a stream of identifiers.\<close>

definition NewString :: "(nat \<Rightarrow> string) \<Rightarrow> (string, ('p, 'x) db_world_scheme) io" where
  "NewString uuid = (\<lambda>w. (Inr (uuid (tw_uuids w)), w\<lparr>tw_uuids := tw_uuids w + 1\<rparr>))"

text \<open>A database call under a context, and the two kinds there are: a query and a statement.\<close>

definition dbIO ::
  "ctx \<Rightarrow> (('p, 'x) db_world_scheme \<Rightarrow> 'a result \<times> ('p, 'x) db_world_scheme) \<Rightarrow> ('a, ('p, 'x) db_world_scheme) io" where
  "dbIO ctx call = (\<lambda>w.
     if ctx = TaskCtx \<and> cancelled w then (Inl (pw_cause w), w)
     else
       (let w1 = (tick w)\<lparr>tw_faults := tl (tw_faults w)\<rparr> in
        case tw_faults w of
          Some err # _ \<Rightarrow> (Inl err, w1)
        | _ \<Rightarrow> call w1))"

definition queryIO :: "ctx \<Rightarrow> (('p, 'x) db_world_scheme \<Rightarrow> 'a result) \<Rightarrow> ('a, ('p, 'x) db_world_scheme) io" where
  "queryIO ctx q = dbIO ctx (\<lambda>w. (q w, w))"

definition execIO ::
  "ctx \<Rightarrow> (('p, 'x) db_world_scheme \<Rightarrow> ('p, 'x) db_world_scheme) \<Rightarrow> (unit, ('p, 'x) db_world_scheme) io" where
  "execIO ctx f = dbIO ctx (\<lambda>w. (Inr (), f w))"

text \<open>\<open>First\<close>: the row or \<open>gorm.ErrRecordNotFound\<close>.\<close>

definition record_or_not_found :: "'a option \<Rightarrow> 'a result" where
  "record_or_not_found r = (case r of None \<Rightarrow> Inl ErrRecordNotFound | Some a \<Rightarrow> Inr a)"

lemma record_or_not_found_simps [simp]:
  "record_or_not_found (Some a) = Inr a"
  "record_or_not_found None = Inl ErrRecordNotFound"
  "record_or_not_found r = Inr a \<longleftrightarrow> r = Some a"
  by (auto simp: record_or_not_found_def split: option.splits)

text \<open>
  A transaction: begin, body, commit; if one of them fails the tables are as they were before. The
  answer is the error of the transaction and what the body answered, if it ran.
\<close>

definition restore :: "('p, 'x) db_world_scheme \<Rightarrow> ('p, 'x) db_world_scheme \<Rightarrow> ('p, 'x) db_world_scheme" where
  "restore w w' = w'\<lparr>tw_repositories := tw_repositories w, tw_configs := tw_configs w, tw_snapshots := tw_snapshots w,
     tw_templates := tw_templates w, tw_trcs := tw_trcs w, tw_domains := tw_domains w\<rparr>"

definition transactionIO ::
  "ctx \<Rightarrow> ('a, ('p, 'x) db_world_scheme) io \<Rightarrow> ('p, 'x) db_world_scheme \<Rightarrow> (go_error option \<times> 'a result option) \<times> ('p, 'x) db_world_scheme" where
  "transactionIO ctx body w =
     (case execIO ctx (\<lambda>w. w) w of
        (Inl e, w1) \<Rightarrow> ((Some e, None), w1)
      | (Inr _, w1) \<Rightarrow>
          (case body w1 of
             (Inl e, w2) \<Rightarrow> ((Some e, Some (Inl e)), restore w1 w2)
           | (Inr a, w2) \<Rightarrow>
               (case execIO ctx (\<lambda>w. w) w2 of
                  (Inl e, w3) \<Rightarrow> ((Some e, Some (Inr a)), restore w1 w3)
                | (Inr _, w3) \<Rightarrow> ((None, Some (Inr a)), w3))))"

text \<open>A transaction whose error is the answer's error (the last case does not occur).\<close>

definition inTransaction :: "ctx \<Rightarrow> ('a, ('p, 'x) db_world_scheme) io \<Rightarrow> ('a, ('p, 'x) db_world_scheme) io" where
  "inTransaction ctx body = (\<lambda>w.
     case transactionIO ctx body w of
       ((Some err, _), w') \<Rightarrow> (Inl err, w')
     | ((None, Some (Inr a)), w') \<Rightarrow> (Inr a, w')
     | ((None, _), w') \<Rightarrow> (Inl Sql_ErrTxDone, w'))"

text \<open>A query on another connection while a transaction is open: it sees the rows as they were before.\<close>

definition readCommitted :: "('p, 'x) db_world_scheme \<Rightarrow> ('a, ('p, 'x) db_world_scheme) io \<Rightarrow> ('a, ('p, 'x) db_world_scheme) io" where
  "readCommitted committed m = (\<lambda>w. case m (restore committed w) of (r, w') \<Rightarrow> (r, restore w w'))"

section \<open>Errors of the database layer\<close>

text \<open>
  What the layer makes of a database error: a missing row is \<open>NotFound\<close>, an error that is one already
  stays one.
\<close>

definition dao_error :: "string \<Rightarrow> go_error \<Rightarrow> string option \<Rightarrow> go_error" where
  "dao_error what e uuid =
     (if errors_Is e ErrRecordNotFound
      then DaoFailure (case uuid of None \<Rightarrow> what @ '' not found'' | Some u \<Rightarrow> what @ '' with UUID '' @ u @ '' not found'') DaoNotFound e
      else DaoFailure (error_text e) (if NotFound e then DaoNotFound else DaoPlain) e)"

text \<open>A violated unique constraint (\<open>dupKeyName\<close> names what is taken) and a text that is not valid in the encoding.\<close>

fun pg_error :: "string \<Rightarrow> (string \<Rightarrow> string) \<Rightarrow> go_error \<Rightarrow> go_error option" where
  "pg_error what dupKeyName (PgError m code constraint) =
     (if code = ''23505'' then Some (DaoLeaf (what @ '' with this '' @ dupKeyName constraint @ '' already belongs to organization'') DaoAlreadyExists)
      else if code = ''22021'' then Some (DaoLeaf ''Request parameters contain invalid syntax'' DaoBadValidation)
      else None)"
| "pg_error what dupKeyName e = None"

definition SnapshotsDBToApiError :: "go_error \<Rightarrow> string option \<Rightarrow> go_error" where
  "SnapshotsDBToApiError e uuid = dao_error ''Snapshot'' e uuid"

definition TemplateDBToApiError :: "go_error \<Rightarrow> string option \<Rightarrow> go_error" where
  "TemplateDBToApiError e uuid =
     (case pg_error ''Template'' (\<lambda>c. if c = ''name_org_id_not_deleted_unique'' then ''name'' else '''') e of
        Some err \<Rightarrow> err
      | None \<Rightarrow>
          (case e of
             ModelErr m validation \<Rightarrow> DaoFailure m (if validation then DaoBadValidation else DaoPlain) e
           | _ \<Rightarrow> dao_error ''Template'' e uuid))"

definition RepositoryDBErrorToApi :: "go_error \<Rightarrow> string option \<Rightarrow> go_error" where
  "RepositoryDBErrorToApi e uuid =
     (case pg_error ''Repository'' (\<lambda>c.
          if c = ''repo_config_repo_org_id_deleted_null_unique'' \<or> c = ''repositories_unique_url'' then ''URL''
          else if c = ''repo_config_name_deleted_org_id_unique'' then ''name''
          else if c = ''repo_config_label_deleted_org_id_unique'' then ''label'' else '''') e of
        Some err \<Rightarrow> err
      | None \<Rightarrow>
          (case e of
             ModelErr m validation \<Rightarrow> DaoLeaf m (if validation then DaoBadValidation else DaoPlain)
           | _ \<Rightarrow> dao_error ''Repository'' e uuid))"

text \<open>The unique index on the names of an organisation's templates that are not deleted.\<close>

definition name_violation :: go_error where
  "name_violation = PgError (''duplicate key value violates unique constraint '' @ [CHR 34] @ ''name_org_id_not_deleted_unique'' @ [CHR 34])
     ''23505'' ''name_org_id_not_deleted_unique''"

text \<open>A call for which a missing row is no error.\<close>

definition unless_missing :: "('a, 's) io \<Rightarrow> ('a option, 's) io" where
  "unless_missing m = handleIO (bindIO m (\<lambda>a. returnIO (Some a))) (\<lambda>err. if NotFound err then returnIO None else failIO err)"

definition mapErrIO :: "(go_error \<Rightarrow> go_error) \<Rightarrow> ('a, 's) io \<Rightarrow> ('a, 's) io" where
  "mapErrIO f m = handleIO m (\<lambda>err. failIO (f err))"

section \<open>Domains\<close>

definition Domain_Fetch :: "ctx \<Rightarrow> string \<Rightarrow> (string, ('p, 'x) db_world_scheme) io" where
  "Domain_Fetch ctx orgId = queryIO ctx (\<lambda>w.
     (let found = filter (\<lambda>d. fst d = orgId) (tw_domains w) in
      Inr (case found of [d] \<Rightarrow> snd d | _ \<Rightarrow> '''')))"

section \<open>Calls that succeed\<close>

text \<open>A call leaves the other tables alone, whatever it answers.\<close>

definition same_tables :: "('p, 'x) db_world_scheme \<Rightarrow> ('p, 'y) db_world_scheme \<Rightarrow> bool" where
  "same_tables w w' \<longleftrightarrow> tw_repositories w' = tw_repositories w \<and> tw_configs w' = tw_configs w \<and>
     tw_snapshots w' = tw_snapshots w \<and> tw_templates w' = tw_templates w \<and> tw_trcs w' = tw_trcs w \<and> tw_domains w' = tw_domains w"

lemma same_tables_order: "reflp same_tables" "transp same_tables"
  by (auto simp: reflp_def transp_def same_tables_def)

lemma dbIO_success:
  assumes "dbIO ctx call w = (Inr a, w')"
  obtains w1 where "call w1 = (Inr a, w')" "same_tables w w1" "db_world.more w1 = db_world.more w" "pw_pulp w1 = pw_pulp w"
    "tw_uuids w1 = tw_uuids w" "tw_clock w1 = tw_clock w" "tw_reads w1 = tw_reads w"
  using assms by (auto simp: dbIO_def tick_def Let_def same_tables_def split: if_splits list.splits option.splits)

lemma dbIO_failure:
  assumes "dbIO ctx call w = (Inl e, w')"
  obtains (refused) "same_tables w w'" "db_world.more w' = db_world.more w" "pw_pulp w' = pw_pulp w"
  | (answered) w1 where "call w1 = (Inl e, w')" "same_tables w w1" "db_world.more w1 = db_world.more w" "pw_pulp w1 = pw_pulp w"
  using assms by (auto simp: dbIO_def tick_def Let_def same_tables_def split: if_splits list.splits option.splits)

lemma queryIO_success:
  assumes "queryIO ctx q w = (Inr a, w')"
  obtains "q w' = Inr a" "same_tables w w'" "db_world.more w' = db_world.more w" "pw_pulp w' = pw_pulp w"
    "tw_clock w' = tw_clock w" "tw_reads w' = tw_reads w"
  using assms by (auto simp: queryIO_def elim!: dbIO_success)

lemma execIO_success:
  assumes "execIO ctx f w = (Inr u, w')"
  obtains w1 where "w' = f w1" "same_tables w w1" "db_world.more w1 = db_world.more w" "pw_pulp w1 = pw_pulp w"
    "tw_clock w1 = tw_clock w" "tw_reads w1 = tw_reads w"
  using assms by (auto simp: execIO_def elim!: dbIO_success)

lemma mapErrIO_success [simp]: "mapErrIO f m w = (Inr a, w') \<longleftrightarrow> m w = (Inr a, w')"
  by (auto simp: mapErrIO_def handleIO_def split: prod.splits sum.splits if_splits)

text \<open>Sequences that only read.\<close>

named_theorems db_reads "operations that leave the tables as they are"

lemma queryIO_same_tables [db_reads]: "keeps same_tables (queryIO ctx q)"
  by (auto simp: keeps_def queryIO_def dbIO_def tick_def Let_def same_tables_def split: list.split option.split)

lemmas reads_return [db_reads] = keeps_return [OF same_tables_order(1)]
lemmas reads_fail [db_reads] = keeps_fail [OF same_tables_order(1)]
lemmas reads_bind [db_reads] = keeps_bind [OF same_tables_order(2)]
lemmas reads_wrap [db_reads] = keeps_wrap [of same_tables]
lemmas reads_for [db_reads] = keeps_for [OF same_tables_order]

lemma reads_handle [db_reads]: "keeps same_tables m \<Longrightarrow> (\<And>e. keeps same_tables (h e)) \<Longrightarrow> keeps same_tables (handleIO m h)"
  by (rule keeps_handle [OF same_tables_order(2)])

lemma reads_mapErr [db_reads]: "keeps same_tables m \<Longrightarrow> keeps same_tables (mapErrIO f m)"
  by (simp add: mapErrIO_def db_reads)

lemma reads_when [db_reads]: "keeps same_tables m \<Longrightarrow> keeps same_tables (whenIO b m)"
  by (cases b) (simp_all add: db_reads del: returnIO_apply)

lemma reads_Domain_Fetch [db_reads]: "keeps same_tables (Domain_Fetch ctx orgId)"
  by (simp add: Domain_Fetch_def db_reads)

lemma reads_run: "keeps same_tables m \<Longrightarrow> m w = (r, w') \<Longrightarrow> same_tables w w'"
  by (metis keepsD snd_conv)

end
