(* ===== verification/SnapshotDao.thy ===== *)
theory SnapshotDao
  imports ContentDB
begin

text \<open>
  The queries and statements on snapshots (\<open>pkg/dao/snapshots.go\<close>) and who may see a snapshot
  (\<open>pkg/dao/partner_visibility.go\<close>): the owner of its repository, everyone for Red Hat's and the
  community's repositories, and other organisations for the published snapshots of a partner.
\<close>

section \<open>Visibility\<close>

definition IsForeignPartnerView :: "config_row \<Rightarrow> string \<Rightarrow> bool" where
  "IsForeignPartnerView repoConfig viewerOrgID = (co_Partner repoConfig \<and> co_OrgID repoConfig \<noteq> viewerOrgID)"

definition published_snapshot :: "string \<Rightarrow> Snapshot \<Rightarrow> bool" where
  "published_snapshot repoConfigUUID s =
     (sn_RepositoryConfigurationUUID s = repoConfigUUID \<and> sn_Published s \<and> \<not> sn_Deleted s)"

definition foreignPartnerVisible :: "string \<Rightarrow> Snapshot list \<Rightarrow> config_row \<Rightarrow> bool" where
  "foreignPartnerVisible viewerOrgID snapshots c =
     (co_Partner c \<and> co_OrgID c \<noteq> viewerOrgID \<and> list_ex (published_snapshot (co_UUID c)) snapshots)"

definition readableSnapshotOrgFilter :: "string \<Rightarrow> config_row \<Rightarrow> Snapshot \<Rightarrow> bool" where
  "readableSnapshotOrgFilter viewerOrgID c s =
     (co_OrgID c \<in> {viewerOrgID, RedHatOrg, CommunityOrg} \<or>
      co_Partner c \<and> co_OrgID c \<noteq> viewerOrgID \<and> sn_Published s)"

definition HasPublishedSnapshot :: "ctx \<Rightarrow> string \<Rightarrow> (bool, ('p, 'x) db_world_scheme) io" where
  "HasPublishedSnapshot ctx repoConfigUUID =
     queryIO ctx (\<lambda>w. Inr (0 < length (filter (published_snapshot repoConfigUUID) (tw_snapshots w))))"

section \<open>Rows\<close>

definition config_of :: "('p, 'x) db_world_scheme \<Rightarrow> Snapshot \<Rightarrow> config_row option" where
  "config_of w s = lookup_row co_UUID (sn_RepositoryConfigurationUUID s) (tw_configs w)"

text \<open>
  Two statements without a transaction: the row is inserted (with the time of its creation), then
  the configuration points to it.
\<close>

definition Snapshot_Create :: "(nat \<Rightarrow> string) \<Rightarrow> ctx \<Rightarrow> Snapshot \<Rightarrow> (Snapshot, ('p, 'x) db_world_scheme) io" where
  "Snapshot_Create uuid ctx s =
     bindIO (NewString uuid) (\<lambda>id.
     bindIO Now (\<lambda>now.
     let row = s\<lparr>sn_UUID := id, sn_CreatedAt := now\<rparr> in
     bindIO (execIO ctx (\<lambda>w. w\<lparr>tw_snapshots := tw_snapshots w @ [row]\<rparr>)) (\<lambda>_.
     bindIO (execIO ctx (\<lambda>w. w\<lparr>tw_configs :=
         update_where (\<lambda>c. co_UUID c = sn_RepositoryConfigurationUUID s) (\<lambda>c. c\<lparr>co_LastSnapshotUUID := Some id\<rparr>) (tw_configs w)\<rparr>)) (\<lambda>_.
     returnIO row))))"

definition Snapshot_FetchModel :: "ctx \<Rightarrow> string \<Rightarrow> bool \<Rightarrow> (Snapshot, ('p, 'x) db_world_scheme) io" where
  "Snapshot_FetchModel ctx uuid includeSoftDel =
     mapErrIO (\<lambda>e. SnapshotsDBToApiError e (Some uuid)) (queryIO ctx (\<lambda>w.
       record_or_not_found (find (\<lambda>s. sn_UUID s = uuid \<and> (includeSoftDel \<or> \<not> sn_Deleted s)) (tw_snapshots w))))"

text \<open>\<open>fetch\<close> reads the configuration of the snapshot with it (a deleted one counts as none).\<close>

definition Snapshot_fetch :: "ctx \<Rightarrow> string \<Rightarrow> (Snapshot \<times> config_row option, ('p, 'x) db_world_scheme) io" where
  "Snapshot_fetch ctx uuid =
     mapErrIO (\<lambda>e. SnapshotsDBToApiError e (Some uuid)) (queryIO ctx (\<lambda>w.
       record_or_not_found (map_option
         (\<lambda>s. (s, find (\<lambda>c. co_UUID c = sn_RepositoryConfigurationUUID s \<and> \<not> co_Deleted c) (tw_configs w)))
         (find (\<lambda>s. sn_UUID s = uuid \<and> \<not> sn_Deleted s) (tw_snapshots w)))))"

definition denyUnpublishedForeignPartnerAccess :: "string \<Rightarrow> Snapshot \<times> config_row option \<Rightarrow> go_error option" where
  "denyUnpublishedForeignPartnerAccess viewerOrgID snap =
     (case snap of (s, c) \<Rightarrow>
        if (case c of None \<Rightarrow> False | Some c \<Rightarrow> IsForeignPartnerView c viewerOrgID) \<and> \<not> sn_Published s
        then Some (SnapshotsDBToApiError ErrRecordNotFound (Some (sn_UUID s))) else None)"

definition Snapshot_Fetch :: "ctx \<Rightarrow> string \<Rightarrow> string \<Rightarrow> (Snapshot, ('p, 'x) db_world_scheme) io" where
  "Snapshot_Fetch ctx orgID uuid =
     bindIO (Snapshot_fetch ctx uuid) (\<lambda>snap.
       case denyUnpublishedForeignPartnerAccess orgID snap of
         Some err \<Rightarrow> failIO err
       | None \<Rightarrow> returnIO (fst snap))"

text \<open>
  Without the soft-deleted rows the error of the query is not seen: the handle whose error is
  checked is the one the query was derived from.
\<close>

definition FetchForRepoConfigUUID :: "ctx \<Rightarrow> string \<Rightarrow> bool \<Rightarrow> (Snapshot list, ('p, 'x) db_world_scheme) io" where
  "FetchForRepoConfigUUID ctx repoConfigUUID inclSoftDel =
     (let query = queryIO ctx (\<lambda>w.
        Inr (filter (\<lambda>s. sn_RepositoryConfigurationUUID s = repoConfigUUID \<and> (inclSoftDel \<or> \<not> sn_Deleted s)) (tw_snapshots w)))
      in if inclSoftDel then query else handleIO query (\<lambda>_. returnIO []))"

section \<open>Deleting\<close>

definition soft_delete :: "string \<Rightarrow> ('p, 'x) db_world_scheme \<Rightarrow> ('p, 'x) db_world_scheme" where
  "soft_delete uuid w = w\<lparr>tw_snapshots := update_where (\<lambda>s. sn_UUID s = uuid) (\<lambda>s. s\<lparr>sn_Deleted := True\<rparr>) (tw_snapshots w)\<rparr>"

definition Snapshot_SoftDelete :: "ctx \<Rightarrow> string \<Rightarrow> (unit, ('p, 'x) db_world_scheme) io" where
  "Snapshot_SoftDelete ctx snapUUID =
     bindIO (Snapshot_FetchModel ctx snapUUID True) (\<lambda>snap.
       whenIO (\<not> sn_Deleted snap) (execIO ctx (soft_delete snapUUID)))"

definition ClearDeletedAt :: "ctx \<Rightarrow> string \<Rightarrow> (unit, ('p, 'x) db_world_scheme) io" where
  "ClearDeletedAt ctx snapUUID =
     bindIO (Snapshot_FetchModel ctx snapUUID True) (\<lambda>snap.
       execIO ctx (\<lambda>w. w\<lparr>tw_snapshots := update_where (\<lambda>s. sn_UUID s = snapUUID) (\<lambda>s. s\<lparr>sn_Deleted := False\<rparr>) (tw_snapshots w)\<rparr>))"

text \<open>
  \<open>BulkDelete\<close>: each snapshot is looked up outside the transaction that marks them; after an error the
  transaction is rolled back to its start and goes on with the next one, to collect their errors.
  What comes back are the errors of the loop (with \<open>None\<close> for the others), or none if there was none;
  the error of the transaction itself is dropped. Save points are taken not to fail.
\<close>

fun bulkDelete ::
  "ctx \<Rightarrow> ('p, 'x) db_world_scheme \<Rightarrow> string list \<Rightarrow> (go_error option list, ('p, 'x) db_world_scheme) io" where
  "bulkDelete ctx start [] = returnIO []"
| "bulkDelete ctx start (uuid # uuids) =
     (let failed = (\<lambda>err w. (Inr (Some err), restore start w)) in
      bindIO (caseIO (readCommitted start (Snapshot_fetch ctx uuid)) failed
        (\<lambda>(snap, _). caseIO (execIO ctx (soft_delete (sn_UUID snap))) failed (\<lambda>_. returnIO None))) (\<lambda>err.
      bindIO (bulkDelete ctx start uuids) (\<lambda>errs. returnIO (err # errs))))"

definition BulkDelete :: "ctx \<Rightarrow> string list \<Rightarrow> (go_error option list, ('p, 'x) db_world_scheme) io" where
  "BulkDelete ctx uuids = (\<lambda>w.
     case execIO ctx (\<lambda>w. w) w of
       (Inl _, w1) \<Rightarrow> (Inr [], w1)
     | (Inr _, w1) \<Rightarrow>
         (case bulkDelete ctx w1 uuids w1 of
            (Inl err, w2) \<Rightarrow> (Inl err, restore w1 w2)
          | (Inr errs, w2) \<Rightarrow>
              if list_ex (\<lambda>e. e \<noteq> None) errs then (Inr errs, restore w1 w2)
              else
                (case execIO ctx (\<lambda>w. w) w2 of
                   (Inl _, w3) \<Rightarrow> (Inr [], restore w1 w3)
                 | (Inr _, w3) \<Rightarrow> (Inr [], w3))))"

text \<open>
  A row that a template's association refers to cannot be deleted (the foreign key restricts it);
  a configuration that points to the row then points to none.
\<close>

definition fk_violation :: go_error where
  "fk_violation = Other ''violates foreign key constraint fk_templates_repository_configurations_snapshots''"

definition delete_snapshot_row :: "string \<Rightarrow> ('p, 'x) db_world_scheme \<Rightarrow> unit result \<times> ('p, 'x) db_world_scheme" where
  "delete_snapshot_row uuid w =
     (if list_ex (\<lambda>t. trc_SnapshotUUID t = uuid) (tw_trcs w) then (Inl fk_violation, w)
      else (Inr (), w\<lparr>tw_snapshots := delete_where (\<lambda>s. sn_UUID s = uuid) (tw_snapshots w),
             tw_configs := update_where (\<lambda>c. co_LastSnapshotUUID c = Some uuid) (\<lambda>c. c\<lparr>co_LastSnapshotUUID := None\<rparr>) (tw_configs w)\<rparr>))"

definition Snapshot_Delete :: "ctx \<Rightarrow> string \<Rightarrow> (unit, ('p, 'x) db_world_scheme) io" where
  "Snapshot_Delete ctx snapUUID =
     bindIO (Snapshot_FetchModel ctx snapUUID True) (\<lambda>snap. dbIO ctx (delete_snapshot_row (sn_UUID snap)))"

section \<open>The latest snapshot\<close>

text \<open>\<open>ORDER BY created_at DESC\<close>; \<open>First\<close> adds the primary key to the order.\<close>

definition created_later :: "Snapshot \<Rightarrow> Snapshot \<Rightarrow> bool" where
  "created_later s t = (sn_CreatedAt t < sn_CreatedAt s)"

definition newer :: "Snapshot \<Rightarrow> Snapshot \<Rightarrow> bool" where
  "newer s t = (sn_CreatedAt t < sn_CreatedAt s \<or> sn_CreatedAt s = sn_CreatedAt t \<and> sn_UUID s < sn_UUID t)"

definition created_sooner :: "Snapshot \<Rightarrow> Snapshot \<Rightarrow> bool" where
  "created_sooner s t = (sn_CreatedAt s < sn_CreatedAt t)"

interpretation later: row_order created_later
  by unfold_locales (auto simp: created_later_def)

interpretation newest: row_order newer
  by unfold_locales (auto simp: newer_def)

interpretation sooner: row_order created_sooner
  by unfold_locales (auto simp: created_sooner_def)

definition newest_where :: "(Snapshot \<Rightarrow> bool) \<Rightarrow> Snapshot list \<Rightarrow> Snapshot option" where
  "newest_where P snapshots = pick newer (filter (\<lambda>s. P s \<and> \<not> sn_Deleted s) snapshots)"

definition FetchLatestSnapshotModel :: "ctx \<Rightarrow> string \<Rightarrow> (Snapshot, ('p, 'x) db_world_scheme) io" where
  "FetchLatestSnapshotModel ctx repoConfigUUID = queryIO ctx (\<lambda>w.
     record_or_not_found (newest_where (\<lambda>s. sn_RepositoryConfigurationUUID s = repoConfigUUID) (tw_snapshots w)))"

definition FetchLatestPublishedSnapshotModel :: "ctx \<Rightarrow> string \<Rightarrow> (Snapshot, ('p, 'x) db_world_scheme) io" where
  "FetchLatestPublishedSnapshotModel ctx repoConfigUUID = queryIO ctx (\<lambda>w.
     record_or_not_found (newest_where (\<lambda>s. sn_RepositoryConfigurationUUID s = repoConfigUUID \<and> sn_Published s) (tw_snapshots w)))"

definition FetchLatestSnapshotForDistribution :: "ctx \<Rightarrow> string \<Rightarrow> (Snapshot, ('p, 'x) db_world_scheme) io" where
  "FetchLatestSnapshotForDistribution ctx repoConfigUUID =
     bindIO (queryIO ctx (\<lambda>w. record_or_not_found (find (\<lambda>c. co_UUID c = repoConfigUUID \<and> \<not> co_Deleted c) (tw_configs w)))) (\<lambda>repoConfig.
       if co_Partner repoConfig then FetchLatestPublishedSnapshotModel ctx repoConfigUUID
       else FetchLatestSnapshotModel ctx repoConfigUUID)"

definition FetchSnapshotByVersionHref :: "ctx \<Rightarrow> string \<Rightarrow> string \<Rightarrow> (Snapshot option, ('p, 'x) db_world_scheme) io" where
  "FetchSnapshotByVersionHref ctx repoConfigUUID versionHref = queryIO ctx (\<lambda>w.
     Inr (pick created_later (filter (\<lambda>s. sn_RepositoryConfigurationUUID s = repoConfigUUID \<and> sn_VersionHref s = versionHref \<and> \<not> sn_Deleted s)
       (tw_snapshots w))))"

section \<open>The snapshot of a date\<close>

text \<open>Both sides of the comparison are cut to seconds: \<open>date_trunc\<close> on the column, RFC 3339 for the date.\<close>

definition trunc_second :: "timestamp \<Rightarrow> timestamp" where
  "trunc_second t = t div 1000000 * 1000000"

definition not_after :: "timestamp \<Rightarrow> Snapshot \<Rightarrow> bool" where
  "not_after date s = (trunc_second (sn_CreatedAt s) \<le> trunc_second date)"

definition candidates :: "string \<Rightarrow> string list \<Rightarrow> ('p, 'x) db_world_scheme \<Rightarrow> Snapshot list" where
  "candidates orgID repositoryUUIDS w =
     filter (\<lambda>s. sn_RepositoryConfigurationUUID s \<in> set repositoryUUIDS \<and> \<not> sn_Deleted s \<and>
         (case config_of w s of None \<Rightarrow> False | Some c \<Rightarrow> readableSnapshotOrgFilter orgID c s)) (tw_snapshots w)"

definition snapshots_by_date :: "string \<Rightarrow> string list \<Rightarrow> timestamp \<Rightarrow> ('p, 'x) db_world_scheme \<Rightarrow> Snapshot list" where
  "snapshots_by_date orgID repositoryUUIDS date w =
     (let rows = candidates orgID repositoryUUIDS w;
          beforeQuery = distinct_on sn_RepositoryConfigurationUUID created_later (filter (not_after date) rows);
          afterQuery = distinct_on sn_RepositoryConfigurationUUID created_sooner (filter (\<lambda>s. \<not> not_after date s) rows);
          union = map sn_UUID beforeQuery @ map sn_UUID afterQuery;
          combined = map sn_UUID (distinct_on sn_RepositoryConfigurationUUID created_sooner
            (filter (\<lambda>s. sn_UUID s \<in> set union) (tw_snapshots w)))
      in filter (\<lambda>s. sn_UUID s \<in> set combined \<and> \<not> sn_Deleted s) (tw_snapshots w))"

definition FetchSnapshotsModelByDateAndRepository ::
  "ctx \<Rightarrow> string \<Rightarrow> string list \<Rightarrow> timestamp \<Rightarrow> (Snapshot list, ('p, 'x) db_world_scheme) io" where
  "FetchSnapshotsModelByDateAndRepository ctx orgID repositoryUUIDS date =
     mapErrIO (\<lambda>e. Wrapf ''could not query snapshots for date '' e '''') (queryIO ctx (\<lambda>w. Inr (snapshots_by_date orgID repositoryUUIDS date w)))"


section \<open>Publishing\<close>

text \<open>
  Only the owner of a partner's repository may publish a snapshot of it. With the column the
  repository becomes public, or is no longer public when no published snapshot is left.
\<close>

definition set_public :: "string \<Rightarrow> ('p, 'x) db_world_scheme \<Rightarrow> ('p, 'x) db_world_scheme" where
  "set_public repoConfigUUID w =
     (case lookup_row co_UUID repoConfigUUID (tw_configs w) of
        None \<Rightarrow> w
      | Some c \<Rightarrow> w\<lparr>tw_repositories := update_where (\<lambda>r. rp_UUID r = co_RepositoryUUID c)
          (\<lambda>r. r\<lparr>rp_Public := list_ex (published_snapshot repoConfigUUID) (tw_snapshots w)\<rparr>) (tw_repositories w)\<rparr>)"

definition UpdatePublishedStatus ::
  "ctx \<Rightarrow> string \<Rightarrow> bool \<Rightarrow> string \<Rightarrow> string \<Rightarrow> (Snapshot, ('p, 'x) db_world_scheme) io" where
  "UpdatePublishedStatus ctx orgID published repoConfigUUID snapshotUUID = inTransaction ctx
     (bindIO (Snapshot_fetch ctx snapshotUUID) (\<lambda>(snapshot, config).
      if sn_RepositoryConfigurationUUID snapshot \<noteq> repoConfigUUID then failIO (SnapshotsDBToApiError ErrRecordNotFound (Some snapshotUUID))
      else if (case config of None \<Rightarrow> '''' | Some c \<Rightarrow> co_OrgID c) \<noteq> orgID then
        failIO (DaoLeaf ''Cannot (un)publish snapshots for repositories outside your organization.'' DaoForbidden)
      else if \<not> (case config of None \<Rightarrow> False | Some c \<Rightarrow> co_Partner c) then
        failIO (DaoLeaf ''Cannot (un)publish snapshots of non-partner repositories.'' DaoBadValidation)
      else
        bindIO (mapErrIO (\<lambda>e. SnapshotsDBToApiError e (Some snapshotUUID)) (execIO ctx (\<lambda>w. w\<lparr>tw_snapshots :=
          update_where (\<lambda>s. sn_UUID s = snapshotUUID \<and> \<not> sn_Deleted s) (\<lambda>s. s\<lparr>sn_Published := published\<rparr>) (tw_snapshots w)\<rparr>))) (\<lambda>_.
        bindIO (execIO ctx (set_public repoConfigUUID)) (\<lambda>_.
        returnIO (snapshot\<lparr>sn_Published := published\<rparr>)))))"

end
