(* ===== verification/ConfigDao.thy ===== *)
theory ConfigDao
  imports SnapshotDao
begin

text \<open>
  The queries and statements on repository configurations that the content tasks and the snapshot
  handlers use (\<open>pkg/dao/repository_configs.go\<close>). \<open>GetContentPath\<close> of the Pulp client joins two
  settings; its answer and the setting that enables snapshots are parameters.
\<close>

record DaoRegistry =
  dr_GetContentPath :: "string result"
  dr_SnapshotsEnabled :: bool

definition resultIO :: "'a result \<Rightarrow> ('a, 's) io" where
  "resultIO r = (case r of Inl e \<Rightarrow> failIO e | Inr a \<Rightarrow> returnIO a)"

text \<open>
  \<open>ModelToApiFields\<close> of a configuration with its repository and its last snapshot (read with it, a
  deleted one counts as none). Of the response the fields are those the tasks read.
\<close>

definition ModelToApiFields :: "('p, 'x) db_world_scheme \<Rightarrow> config_row \<Rightarrow> RepositoryResponse" where
  "ModelToApiFields w c =
     (let repo = lookup_row rp_UUID (co_RepositoryUUID c) (tw_repositories w);
          last = (case co_LastSnapshotUUID c of None \<Rightarrow> None
                  | Some u \<Rightarrow> find (\<lambda>s. sn_UUID s = u \<and> \<not> sn_Deleted s) (tw_snapshots w))
      in
      \<lparr>re_UUID = co_UUID c, re_OrgID = co_OrgID c, re_RepositoryUUID = co_RepositoryUUID c,
       re_URL = (case repo of None \<Rightarrow> '''' | Some r \<Rightarrow> rp_URL r), re_Origin = (case repo of None \<Rightarrow> '''' | Some r \<Rightarrow> rp_Origin r),
       re_Name = co_Name c, re_Label = co_Label c, re_FeatureName = co_FeatureName c, re_ExtendedRelease = co_ExtendedRelease c,
       re_ModuleHotfixes = co_ModuleHotfixes c, re_GpgKey = co_GpgKey c, re_Partner = co_Partner c,
       re_LastSnapshotUUID = (case co_LastSnapshotUUID c of None \<Rightarrow> '''' | Some u \<Rightarrow> u), re_LastSnapshot = last\<rparr>)"

definition fetchRepoConfig ::
  "ctx \<Rightarrow> string \<Rightarrow> string \<Rightarrow> bool \<Rightarrow> (config_row \<times> RepositoryResponse, ('p, 'x) db_world_scheme) io" where
  "fetchRepoConfig ctx orgID uuid includeSharedRepos =
     mapErrIO (\<lambda>e. RepositoryDBErrorToApi e (Some uuid)) (queryIO ctx (\<lambda>w.
       record_or_not_found (map_option (\<lambda>c. (c, ModelToApiFields w c))
         (find (\<lambda>c. co_UUID c = uuid \<and> \<not> co_Deleted c \<and>
             (if includeSharedRepos
              then co_OrgID c \<in> {orgID, RedHatOrg, CommunityOrg, LightwellOrg, LightwellDemoOrg} \<or>
                   foreignPartnerVisible orgID (tw_snapshots w) c
              else co_OrgID c = orgID)) (tw_configs w)))))"

text \<open>
  A partner's repository is shown to other organisations as one of the community's, with its newest
  published snapshot.
\<close>

definition applyPartnerResponseOverrides ::
  "ctx \<Rightarrow> string \<Rightarrow> config_row \<Rightarrow> RepositoryResponse \<Rightarrow> (RepositoryResponse, ('p, 'x) db_world_scheme) io" where
  "applyPartnerResponseOverrides ctx viewerOrgID c repo =
     (if \<not> IsForeignPartnerView c viewerOrgID then returnIO repo
      else
        (let masked = repo\<lparr>re_Origin := OriginCommunity, re_OrgID := CommunityOrg\<rparr> in
         if (case re_LastSnapshot repo of None \<Rightarrow> False | Some s \<Rightarrow> sn_Published s) then returnIO masked
         else handleIO
           (bindIO (queryIO ctx (\<lambda>w. record_or_not_found (pick newer (filter (published_snapshot (co_UUID c)) (tw_snapshots w))))) (\<lambda>snap.
            returnIO (masked\<lparr>re_LastSnapshotUUID := sn_UUID snap, re_LastSnapshot := Some snap\<rparr>)))
           (\<lambda>_. returnIO (masked\<lparr>re_LastSnapshotUUID := '''', re_LastSnapshot := None\<rparr>))))"

definition RepositoryConfig_Fetch ::
  "DaoRegistry \<Rightarrow> ctx \<Rightarrow> string \<Rightarrow> string \<Rightarrow> (RepositoryResponse, ('p, 'x) db_world_scheme) io" where
  "RepositoryConfig_Fetch reg ctx orgID uuid =
     bindIO (fetchRepoConfig ctx orgID uuid True) (\<lambda>(c, repo).
     bindIO (whenIO (re_LastSnapshot repo \<noteq> None \<and> dr_SnapshotsEnabled reg)
       (bindIO (Domain_Fetch ctx orgID) (\<lambda>_. bindIO (resultIO (dr_GetContentPath reg)) (\<lambda>_. returnIO ())))) (\<lambda>_.
     applyPartnerResponseOverrides ctx orgID c repo))"

definition FetchWithoutOrgID :: "ctx \<Rightarrow> string \<Rightarrow> bool \<Rightarrow> (RepositoryResponse, ('p, 'x) db_world_scheme) io" where
  "FetchWithoutOrgID ctx uuid includeSoftDel =
     mapErrIO (\<lambda>e. RepositoryDBErrorToApi e (Some uuid)) (queryIO ctx (\<lambda>w.
       record_or_not_found (map_option (ModelToApiFields w)
         (find (\<lambda>c. co_UUID c = uuid \<and> (includeSoftDel \<or> \<not> co_Deleted c)) (tw_configs w)))))"

definition UpdateLastSnapshot :: "ctx \<Rightarrow> string \<Rightarrow> string \<Rightarrow> string \<Rightarrow> (unit, ('p, 'x) db_world_scheme) io" where
  "UpdateLastSnapshot ctx orgID repoConfigUUID snapUUID = execIO ctx (\<lambda>w. w\<lparr>tw_configs :=
     update_where (\<lambda>c. co_OrgID c = orgID \<and> co_UUID c = repoConfigUUID) (\<lambda>c. c\<lparr>co_LastSnapshotUUID := Some snapUUID\<rparr>) (tw_configs w)\<rparr>)"

text \<open>The rows are found by the UUID of the repository, not by that of the configuration.\<close>

definition UpdateLastSnapshotTask :: "ctx \<Rightarrow> string \<Rightarrow> string \<Rightarrow> string \<Rightarrow> (unit, ('p, 'x) db_world_scheme) io" where
  "UpdateLastSnapshotTask ctx taskUUID orgID repoUUID = execIO ctx (\<lambda>w. w\<lparr>tw_configs :=
     update_where (\<lambda>c. co_OrgID c = orgID \<and> co_RepositoryUUID c = repoUUID)
       (\<lambda>c. c\<lparr>co_LastSnapshotTaskUUID := (if taskUUID \<noteq> '''' then Some taskUUID else None)\<rparr>) (tw_configs w)\<rparr>)"

definition InternalOnly_ResetFailedSnapshotCount :: "ctx \<Rightarrow> string \<Rightarrow> (unit, ('p, 'x) db_world_scheme) io" where
  "InternalOnly_ResetFailedSnapshotCount ctx rcUuid = wrapIO ''failed to update failed_snapshot_count''
     (execIO ctx (\<lambda>w. w\<lparr>tw_configs :=
        update_where (\<lambda>c. co_UUID c = rcUuid \<and> \<not> co_Deleted c) (\<lambda>c. c\<lparr>co_FailedSnapshotCount := 0\<rparr>) (tw_configs w)\<rparr>))"

definition InternalOnly_IncrementFailedSnapshotCount :: "ctx \<Rightarrow> string \<Rightarrow> (unit, ('p, 'x) db_world_scheme) io" where
  "InternalOnly_IncrementFailedSnapshotCount ctx rcUuid = wrapIO ''failed to update failed_snapshot_count''
     (execIO ctx (\<lambda>w. w\<lparr>tw_configs :=
        update_where (\<lambda>c. co_UUID c = rcUuid \<and> \<not> co_Deleted c) (\<lambda>c. c\<lparr>co_FailedSnapshotCount := co_FailedSnapshotCount c + 1\<rparr>)
          (tw_configs w)\<rparr>))"

text \<open>
  A configuration that snapshots still refer to cannot be deleted (their reference would become null,
  which the column does not allow); its associations with templates go with it.
\<close>

definition snapshots_remain :: go_error where
  "snapshots_remain = Other ''null value in column repository_configuration_uuid violates not-null constraint''"

definition RepositoryConfig_Delete :: "ctx \<Rightarrow> string \<Rightarrow> string \<Rightarrow> (unit, ('p, 'x) db_world_scheme) io" where
  "RepositoryConfig_Delete ctx orgID uuid =
     bindIO (mapErrIO (\<lambda>e. RepositoryDBErrorToApi e (Some uuid)) (queryIO ctx (\<lambda>w.
       record_or_not_found (find (\<lambda>c. co_UUID c = uuid \<and> co_OrgID c = orgID) (tw_configs w))))) (\<lambda>c.
     dbIO ctx (\<lambda>w.
       if list_ex (\<lambda>s. sn_RepositoryConfigurationUUID s = uuid) (tw_snapshots w) then (Inl snapshots_remain, w)
       else (Inr (), w\<lparr>tw_configs := delete_where (\<lambda>c. co_UUID c = uuid) (tw_configs w),
              tw_trcs := delete_where (\<lambda>t. trc_RepositoryConfigurationUUID t = uuid) (tw_trcs w)\<rparr>)))"

section \<open>What a fetch answers\<close>

lemma fetchRepoConfig_success:
  assumes "fetchRepoConfig ctx orgID uuid shared w = (Inr (c, repo), w')"
  shows "same_tables w w' \<and> c \<in> set (tw_configs w) \<and> co_UUID c = uuid \<and> \<not> co_Deleted c \<and> repo = ModelToApiFields w' c \<and>
    (if shared then co_OrgID c \<in> {orgID, RedHatOrg, CommunityOrg, LightwellOrg, LightwellDemoOrg} \<or> foreignPartnerVisible orgID (tw_snapshots w) c
     else co_OrgID c = orgID)"
  using assms unfolding fetchRepoConfig_def
  by (auto elim!: queryIO_success simp: same_tables_def dest!: find_mem split: if_splits)

lemma ModelToApiFields_simps [simp]:
  "re_UUID (ModelToApiFields w c) = co_UUID c" "re_OrgID (ModelToApiFields w c) = co_OrgID c" "re_Partner (ModelToApiFields w c) = co_Partner c"
  "re_LastSnapshotUUID (ModelToApiFields w c) = (case co_LastSnapshotUUID c of None \<Rightarrow> '''' | Some u \<Rightarrow> u)"
  "re_RepositoryUUID (ModelToApiFields w c) = co_RepositoryUUID c"
  by (simp_all add: ModelToApiFields_def Let_def)

lemma reads_overrides [db_reads]: "keeps same_tables (applyPartnerResponseOverrides ctx viewer c repo)"
  by (simp add: applyPartnerResponseOverrides_def Let_def db_reads)

lemma reads_fetchRepoConfig [db_reads]: "keeps same_tables (fetchRepoConfig ctx orgID uuid shared)"
  by (simp add: fetchRepoConfig_def db_reads)

lemma reads_resultIO [db_reads]: "keeps same_tables (resultIO r)"
  by (simp add: resultIO_def db_reads split: sum.split)

lemma reads_Fetch [db_reads]: "keeps same_tables (RepositoryConfig_Fetch reg ctx orgID uuid)" "keeps same_tables (FetchWithoutOrgID ctx uuid del)"
  by (auto simp: RepositoryConfig_Fetch_def FetchWithoutOrgID_def intro!: db_reads split: prod.split)

lemma overrides_success:
  assumes "applyPartnerResponseOverrides ctx viewer c repo w = (Inr repo', w')"
  shows "re_UUID repo' = re_UUID repo"
    and "re_OrgID repo' = (if IsForeignPartnerView c viewer then CommunityOrg else re_OrgID repo)"
    and "\<not> IsForeignPartnerView c viewer \<Longrightarrow> repo' = repo"
  using assms unfolding applyPartnerResponseOverrides_def Let_def handleIO_def bindIO_def
  by (auto split: if_splits prod.splits sum.splits option.splits)

text \<open>
  The organisation of a fetched repository: the owner's, except that a partner's repository is shown
  to others as the community's.
\<close>

lemma RepositoryConfig_Fetch_success:
  assumes "RepositoryConfig_Fetch reg ctx orgID uuid w = (Inr repo, w')"
  obtains c where "c \<in> set (tw_configs w)" "co_UUID c = uuid" "\<not> co_Deleted c" "re_UUID repo = uuid"
    "co_OrgID c \<in> {orgID, RedHatOrg, CommunityOrg, LightwellOrg, LightwellDemoOrg} \<or> foreignPartnerVisible orgID (tw_snapshots w) c"
    "re_OrgID repo = (if IsForeignPartnerView c orgID then CommunityOrg else co_OrgID c)"
    "\<not> IsForeignPartnerView c orgID \<Longrightarrow> re_LastSnapshotUUID repo = (case co_LastSnapshotUUID c of None \<Rightarrow> '''' | Some u \<Rightarrow> u)"
proof -
  obtain c repo0 w1 w2 where f: "fetchRepoConfig ctx orgID uuid True w = (Inr (c, repo0), w1)"
    and o: "applyPartnerResponseOverrides ctx orgID c repo0 w2 = (Inr repo, w')"
    using assms unfolding RepositoryConfig_Fetch_def by (elim bindIO_prod_successE bindIO_successE)
  note fs = fetchRepoConfig_success [OF f] and os = overrides_success [OF o]
  show thesis by (rule that [of c]) (use fs os in auto)
qed

end
