(* ===== verification/SnapshotTask.thy ===== *)
theory SnapshotTask
  imports ConfigDao
begin

text \<open>
  Taking a snapshot: \<open>pkg/tasks/repository_snapshot.go\<close> (synchronise the repository in Pulp) and
  \<open>pkg/tasks/snapshot_helper.go\<close> (publish a version, distribute it, record it). The task's payload is
  saved in the queue at every step, so that a run that was interrupted is resumed.
\<close>

section \<open>State\<close>

text \<open>\<open>tw_payload\<close> is the payload in memory and \<open>tw_saved\<close> the one in the tasks table.\<close>

record ('p, 'd) task_world = "'p db_world" +
  tw_payload :: 'd
  tw_saved :: 'd

section \<open>Counts\<close>

definition counts :: "(string \<times> int option) list \<Rightarrow> ContentCountsType" where
  "counts items = List.map_filter (\<lambda>(contentType, num). map_option (Pair contentType) num) items"

definition ContentSummaryToContentCounts ::
  "ContentSummary option \<Rightarrow> ContentCountsType \<times> ContentCountsType \<times> ContentCountsType" where
  "ContentSummaryToContentCounts summary =
     (case summary of
        None \<Rightarrow> ([], [], [])
      | Some s \<Rightarrow> (counts (cs_Present s), counts (cs_Added s), counts (cs_Removed s)))"

section \<open>The helper\<close>

text \<open>What the helper asks of the task it works for (\<open>ResumableSnapshotInterface\<close>).\<close>

record 's ResumableSnapshot =
  SavePublicationTaskHref :: "string \<Rightarrow> (unit, 's) io"
  GetPublicationTaskHref :: "'s \<Rightarrow> string option"
  SaveDistributionTaskHref :: "string \<Rightarrow> (unit, 's) io"
  GetDistributionTaskHref :: "'s \<Rightarrow> string option"
  SaveSnapshotIdent :: "string \<Rightarrow> (unit, 's) io"
  GetSnapshotIdent :: "'s \<Rightarrow> string option"
  SaveSnapshotUUID :: "string \<Rightarrow> (unit, 's) io"
  GetSnapshotUUID :: "'s \<Rightarrow> string option"

definition getIO :: "('s \<Rightarrow> 'a) \<Rightarrow> ('a, 's) io" where
  "getIO f = (\<lambda>s. (Inr (f s), s))"

text \<open>\<open>path/filepath.Join\<close> of slash-separated paths.\<close>

fun clean_parts :: "bool \<Rightarrow> string list \<Rightarrow> string list \<Rightarrow> string list" where
  "clean_parts rooted out [] = rev out"
| "clean_parts rooted out (p # ps) =
     (if p = [] \<or> p = ''.'' then clean_parts rooted out ps
      else if p = ''..'' then
        (case out of
           [] \<Rightarrow> clean_parts rooted (if rooted then [] else [p]) ps
         | q # qs \<Rightarrow> if q = ''..'' then clean_parts rooted (p # out) ps else clean_parts rooted qs ps)
      else clean_parts rooted (p # out) ps)"

definition filepath_Clean :: "string \<Rightarrow> string" where
  "filepath_Clean path =
     (let rooted = HasPrefix path ''/''; s = Join (clean_parts rooted [] (Split path (CHR ''/''))) ''/'' in
      if rooted then CHR ''/'' # s else if s = [] then ''.'' else s)"

definition filepath_Join :: "string list \<Rightarrow> string" where
  "filepath_Join elem = (let parts = filter (\<lambda>e. e \<noteq> []) elem in
     if parts = [] then [] else filepath_Clean (Join parts ''/''))"

text \<open>
  \<open>sh_uuid\<close> is the source of identifiers and \<open>sh_SetDetectedOSVersion\<close> the error of that step, if it has
  one (it reads the snapshot's packages).
\<close>

record ('p, 'd) SnapshotHelper =
  sh_pulpClient :: "'p pulpDaoImpl"
  sh_ctx :: ctx
  sh_payload :: "('p, 'd) task_world ResumableSnapshot"
  sh_repo :: RepositoryResponse
  sh_domainName :: string
  sh_uuid :: "nat \<Rightarrow> string"
  sh_SetDetectedOSVersion :: "string \<Rightarrow> go_error option"

definition findOrCreatePublication :: "('p, 'd) SnapshotHelper \<Rightarrow> string \<Rightarrow> (string, ('p, 'd) task_world) io" where
  "findOrCreatePublication sh versionHref =
     bindIO (FindRpmPublicationByVersion (sh_pulpClient sh) (sh_ctx sh) versionHref) (\<lambda>publication.
       case (case publication of None \<Rightarrow> None | Some href \<Rightarrow> href) of
         Some href \<Rightarrow> returnIO href
       | None \<Rightarrow>
           bindIO (getIO (GetPublicationTaskHref (sh_payload sh))) (\<lambda>saved.
           bindIO (whenIO (saved = None)
             (bindIO (CreateRpmPublication (sh_pulpClient sh) (sh_ctx sh) versionHref) (\<lambda>publicationTaskHref.
              SavePublicationTaskHref (sh_payload sh) publicationTaskHref))) (\<lambda>_.
           bindIO (getIO (GetPublicationTaskHref (sh_payload sh))) (\<lambda>href.
           bindIO (deref href) (\<lambda>taskHref.
           bindIO (PollTask (sh_pulpClient sh) (sh_ctx sh) taskHref) (\<lambda>publicationTask.
             case SelectPublicationHref publicationTask of
               None \<Rightarrow> failIO (Other (''could not find a publication href in task: '' @ task_href publicationTask))
             | Some publicationHref \<Rightarrow> returnIO publicationHref))))))"

definition snapshot_row ::
  "('p, 'd) SnapshotHelper \<Rightarrow> string \<Rightarrow> string \<Rightarrow> string \<Rightarrow> string \<Rightarrow> ContentSummary option \<Rightarrow> Snapshot" where
  "snapshot_row sh versionHref publicationHref distPath distHref summary =
     (let (current, added, removed) = ContentSummaryToContentCounts summary in
      \<lparr>sn_UUID = '''', sn_CreatedAt = 0, sn_Deleted = False, sn_VersionHref = versionHref, sn_PublicationHref = publicationHref,
       sn_DistributionPath = distPath, sn_RepositoryPath = filepath_Join [sh_domainName sh, distPath],
       sn_DistributionHref = distHref, sn_RepositoryConfigurationUUID = re_UUID (sh_repo sh),
       sn_ContentCounts = current, sn_AddedCounts = added, sn_RemovedCounts = removed, sn_Published = False\<rparr>)"

definition SetDetectedOSVersion :: "('p, 'd) SnapshotHelper \<Rightarrow> string \<Rightarrow> (unit, ('p, 'd) task_world) io" where
  "SetDetectedOSVersion sh uuid =
     dbIO (sh_ctx sh) (\<lambda>w. case sh_SetDetectedOSVersion sh uuid of Some err \<Rightarrow> (Inl err, w) | None \<Rightarrow> (Inr (), w))"

definition helper_Run :: "('p, 'd) SnapshotHelper \<Rightarrow> string \<Rightarrow> (unit, ('p, 'd) task_world) io" where
  "helper_Run sh versionHref =
     bindIO (findOrCreatePublication sh versionHref) (\<lambda>publicationHref.
     bindIO (getIO (GetSnapshotIdent (sh_payload sh))) (\<lambda>ident.
     bindIO (whenIO (ident = None)
       (bindIO (NewString (sh_uuid sh)) (\<lambda>id.
        wrapIO ''unable to save snapshot ident'' (SaveSnapshotIdent (sh_payload sh) id)))) (\<lambda>_.
     bindIO (getIO (GetSnapshotIdent (sh_payload sh))) (\<lambda>ident.
     bindIO (deref ident) (\<lambda>ident.
     let distPath = re_UUID (sh_repo sh) @ ''/'' @ ident in
     bindIO (CreateOrUpdateDistribution (sh_pulpClient sh) (sh_ctx sh) (sh_repo sh) publicationHref ident distPath) (\<lambda>(distHref, distTaskHref).
     bindIO (wrapIO ''unable to save distribution task href'' (SaveDistributionTaskHref (sh_payload sh) distTaskHref)) (\<lambda>_.
     bindIO (whenIO (ShouldUpdateLatestDistributionOnCreate (sh_repo sh))
       (bindIO (CreateOrUpdateLatestDistribution (sh_pulpClient sh) (sh_ctx sh) (sh_repo sh) publicationHref) (\<lambda>_. returnIO ()))) (\<lambda>_.
     bindIO (GetRpmRepositoryVersion (sh_pulpClient sh) (sh_ctx sh) versionHref) (\<lambda>summary.
     bindIO (Snapshot_Create (sh_uuid sh) (sh_ctx sh) (snapshot_row sh versionHref publicationHref distPath distHref summary)) (\<lambda>snap.
     bindIO (wrapIO ''unable to save snapshot uuid'' (SaveSnapshotUUID (sh_payload sh) (sn_UUID snap))) (\<lambda>_.
     whenIO (re_OrgID (sh_repo sh) = RedHatOrg)
       (wrapIO ''could not set detected OS release'' (SetDetectedOSVersion sh (sn_UUID snap))))))))))))))"

text \<open>Delete a distribution and wait for it, where Pulp starts a task for that.\<close>

definition delete_and_poll :: "('p, 'd) SnapshotHelper \<Rightarrow> string \<Rightarrow> (unit, ('p, 'd) task_world) io" where
  "delete_and_poll sh distHref =
     bindIO (DeleteRpmDistribution (sh_pulpClient sh) (sh_ctx sh) distHref) (\<lambda>deleteDistributionHref.
       case deleteDistributionHref of
         None \<Rightarrow> returnIO ()
       | Some task \<Rightarrow> bindIO (PollTask (sh_pulpClient sh) (sh_ctx sh) task) (\<lambda>_. returnIO ()))"

definition Cleanup :: "('p, 'd) SnapshotHelper \<Rightarrow> (unit, ('p, 'd) task_world) io" where
  "Cleanup sh =
     bindIO (getIO (GetDistributionTaskHref (sh_payload sh))) (\<lambda>distTaskHref.
     bindIO (case distTaskHref of
         None \<Rightarrow> returnIO ()
       | Some href \<Rightarrow>
           bindIO (GetTask (sh_pulpClient sh) (sh_ctx sh) href) (\<lambda>distTask.
             case SelectRpmDistributionHref distTask of
               None \<Rightarrow> returnIO ()
             | Some distHref \<Rightarrow>
                 bindIO (delete_and_poll sh distHref) (\<lambda>_.
                 bindIO (SavePublicationTaskHref (sh_payload sh) '''') (\<lambda>_.
                 SaveDistributionTaskHref (sh_payload sh) '''')))) (\<lambda>_.
     bindIO (getIO (GetSnapshotUUID (sh_payload sh))) (\<lambda>snapUUID.
     bindIO (case snapUUID of None \<Rightarrow> returnIO () | Some uuid \<Rightarrow> Snapshot_Delete (sh_ctx sh) uuid) (\<lambda>_.
     bindIO (SaveSnapshotUUID (sh_payload sh) '''') (\<lambda>_.
     bindIO (FindDistributionByPath (sh_pulpClient sh) (sh_ctx sh) (GetLatestRepoDistPath (re_UUID (sh_repo sh)))) (\<lambda>latestDistro.
       case latestDistro of
         None \<Rightarrow> returnIO ()
       | Some dist \<Rightarrow> (\<lambda>w.
           case FetchLatestSnapshotForDistribution (sh_ctx sh) (re_UUID (sh_repo sh)) w of
             (Inl err, w') \<Rightarrow>
               if errors_Is err ErrRecordNotFound
               then bindIO (deref (di_PulpHref dist)) (delete_and_poll sh) w'
               else (Inl err, w')
           | (Inr latestSnap, w') \<Rightarrow>
               bindIO (CreateOrUpdateLatestDistribution (sh_pulpClient sh) (sh_ctx sh) (sh_repo sh) (sn_PublicationHref latestSnap))
                 (\<lambda>_. returnIO ()) w')))))))"

section \<open>The snapshot task\<close>

record SnapshotPayload =
  SnapshotIdent :: "string option"
  SnapshotUUID :: "string option"
  SyncTaskHref :: "string option"
  PublicationTaskHref :: "string option"
  DistributionTaskHref :: "string option"

type_synonym 'p snapshot_world = "('p, SnapshotPayload) task_world"

text \<open>The queue writes the payload under its own context.\<close>

definition sr_UpdatePayload :: "(unit, ('p, 'd) task_world) io" where
  "sr_UpdatePayload = dbIO Background (\<lambda>w. (Inr (), w\<lparr>tw_saved := tw_payload w\<rparr>))"

definition set_payload :: "('d \<Rightarrow> 'd) \<Rightarrow> (unit, ('p, 'd) task_world) io" where
  "set_payload f = (\<lambda>w. (Inr (), w\<lparr>tw_payload := f (tw_payload w)\<rparr>))"

definition blank_nil :: "string \<Rightarrow> string option" where
  "blank_nil href = (if href = '''' then None else Some href)"

definition sr_SavePublicationTaskHref :: "string \<Rightarrow> (unit, 'p snapshot_world) io" where
  "sr_SavePublicationTaskHref href = bindIO (set_payload (PublicationTaskHref_update (\<lambda>_. blank_nil href))) (\<lambda>_. sr_UpdatePayload)"

definition sr_SaveDistributionTaskHref :: "string \<Rightarrow> (unit, 'p snapshot_world) io" where
  "sr_SaveDistributionTaskHref href = bindIO (set_payload (DistributionTaskHref_update (\<lambda>_. blank_nil href))) (\<lambda>_. sr_UpdatePayload)"

definition sr_SaveSnapshotIdent :: "string \<Rightarrow> (unit, 'p snapshot_world) io" where
  "sr_SaveSnapshotIdent ident = bindIO (set_payload (SnapshotIdent_update (\<lambda>_. blank_nil ident))) (\<lambda>_. sr_UpdatePayload)"

definition sr_SaveSnapshotUUID :: "string \<Rightarrow> (unit, 'p snapshot_world) io" where
  "sr_SaveSnapshotUUID uuid = bindIO (set_payload (SnapshotUUID_update (\<lambda>_. blank_nil uuid))) (\<lambda>_. sr_UpdatePayload)"

definition snapshot_payload :: "'p snapshot_world ResumableSnapshot" where
  "snapshot_payload =
     \<lparr>SavePublicationTaskHref = sr_SavePublicationTaskHref, GetPublicationTaskHref = PublicationTaskHref \<circ> tw_payload,
      SaveDistributionTaskHref = sr_SaveDistributionTaskHref, GetDistributionTaskHref = DistributionTaskHref \<circ> tw_payload,
      SaveSnapshotIdent = sr_SaveSnapshotIdent, GetSnapshotIdent = SnapshotIdent \<circ> tw_payload,
      SaveSnapshotUUID = sr_SaveSnapshotUUID, GetSnapshotUUID = SnapshotUUID \<circ> tw_payload\<rparr>"

text \<open>
  \<open>sr_repoConfig\<close> is what the lookup of the configuration answers; \<open>sr_CdnCertPair\<close> and \<open>sr_LoadCA\<close> are the
  certificates for Red Hat's content network.
\<close>

record 'p SnapshotRepository =
  sr_domainName :: string
  sr_pulpClient :: "'p pulpDaoImpl"
  sr_repoConfig :: "RepositoryResponse result"
  sr_CdnCertPair :: "string option"
  sr_LoadCA :: "string result"
  sr_uuid :: "nat \<Rightarrow> string"
  sr_SetDetectedOSVersion :: "string \<Rightarrow> go_error option"

definition GetOrphanedLatestVersion ::
  "'p pulpDaoImpl \<Rightarrow> ctx \<Rightarrow> string \<Rightarrow> (string option, ('p, 'd) task_world) io" where
  "GetOrphanedLatestVersion pulpClient ctx repoConfigUUID =
     bindIO (GetRpmRepositoryByName pulpClient ctx repoConfigUUID) (\<lambda>repoResp.
       case (case repoResp of None \<Rightarrow> None | Some repo \<Rightarrow> rr_LatestVersionHref repo) of
         None \<Rightarrow> returnIO None
       | Some latest \<Rightarrow>
           bindIO (FetchSnapshotByVersionHref ctx repoConfigUUID latest) (\<lambda>snap.
             returnIO (if snap = None then Some latest else None)))"

definition lookupRepoObjects :: "'p SnapshotRepository \<Rightarrow> (RepositoryResponse, 'p snapshot_world) io" where
  "lookupRepoObjects sr = dbIO TaskCtx (\<lambda>w. (sr_repoConfig sr, w))"

definition urlIsRedHat :: "string \<Rightarrow> bool" where
  "urlIsRedHat url = StrContains url ''cdn.redhat.com''"

definition findOrCreateRemote :: "'p SnapshotRepository \<Rightarrow> RepositoryResponse \<Rightarrow> (string, 'p snapshot_world) io" where
  "findOrCreateRemote sr repoConfig =
     (let redhat = (re_OrgID repoConfig = RedHatOrg \<and> urlIsRedHat (re_URL repoConfig));
          clientCertPair = (if redhat then sr_CdnCertPair sr else None);
          caCert = (if redhat then Some (case sr_LoadCA sr of Inl err \<Rightarrow> '''' | Inr ca \<Rightarrow> ca) else None);
          r = sr_pulpClient sr
      in
      bindIO (GetRpmRemoteByName r TaskCtx (re_UUID repoConfig)) (\<lambda>remoteResp.
        case remoteResp of
          None \<Rightarrow> bindIO (CreateRpmRemote r TaskCtx (re_UUID repoConfig) (re_URL repoConfig) clientCertPair clientCertPair caCert) deref
        | Some None \<Rightarrow> failIO nil_dereference
        | Some (Some href) \<Rightarrow>
            bindIO (UpdateRpmRemote r TaskCtx href (re_URL repoConfig) clientCertPair clientCertPair caCert) (\<lambda>_. returnIO href)))"

definition findOrCreatePulpRepo :: "'p SnapshotRepository \<Rightarrow> string \<Rightarrow> string \<Rightarrow> (string, 'p snapshot_world) io" where
  "findOrCreatePulpRepo sr repoConfigUUID remoteHref =
     bindIO (GetRpmRepositoryByName (sr_pulpClient sr) TaskCtx repoConfigUUID) (\<lambda>repoResp.
     bindIO (case repoResp of
         Some repo \<Rightarrow> returnIO repo
       | None \<Rightarrow> CreateRpmRepository (sr_pulpClient sr) TaskCtx repoConfigUUID (Some remoteHref)) (\<lambda>repo.
     deref (rr_PulpHref repo)))"

definition syncRepository :: "'p SnapshotRepository \<Rightarrow> string \<Rightarrow> string \<Rightarrow> (string option, 'p snapshot_world) io" where
  "syncRepository sr repoHref remoteHref =
     bindIO (getIO (SyncTaskHref \<circ> tw_payload)) (\<lambda>saved.
     bindIO (whenIO (saved = None)
       (bindIO (SyncRpmRepository (sr_pulpClient sr) TaskCtx repoHref (Some remoteHref)) (\<lambda>syncTaskHref.
        bindIO (set_payload (SyncTaskHref_update (\<lambda>_. Some syncTaskHref))) (\<lambda>_. sr_UpdatePayload)))) (\<lambda>_.
     bindIO (getIO (SyncTaskHref \<circ> tw_payload)) (\<lambda>href.
     bindIO (deref href) (\<lambda>taskHref.
     bindIO (PollTask (sr_pulpClient sr) TaskCtx taskHref) (\<lambda>syncTask. returnIO (SelectVersionHref syncTask))))))"

definition cleanupOnCancel :: "'p SnapshotRepository \<Rightarrow> (unit, 'p snapshot_world) io" where
  "cleanupOnCancel sr =
     bindIO (getIO (SyncTaskHref \<circ> tw_payload)) (\<lambda>syncTaskHref.
       case syncTaskHref of
         None \<Rightarrow> returnIO ()
       | Some href \<Rightarrow>
           bindIO (CancelTask (sr_pulpClient sr) Background href) (\<lambda>_.
           bindIO (GetTask (sr_pulpClient sr) Background href) (\<lambda>task.
           bindIO (set_payload (SyncTaskHref_update (\<lambda>_. None))) (\<lambda>_.
           bindIO (getIO (PublicationTaskHref \<circ> tw_payload)) (\<lambda>publicationTaskHref.
           bindIO (case publicationTaskHref of
               None \<Rightarrow> returnIO ()
             | Some publication \<Rightarrow>
                 bindIO (CancelTask (sr_pulpClient sr) Background publication) (\<lambda>_.
                 set_payload (PublicationTaskHref_update (\<lambda>_. None)))) (\<lambda>_.
             case SelectVersionHref task of
               None \<Rightarrow> returnIO ()
             | Some versionHref \<Rightarrow>
                 bindIO (DeleteRpmRepositoryVersion (sr_pulpClient sr) Background versionHref) (\<lambda>_. returnIO ())))))))"

definition snapshot_helper :: "'p SnapshotRepository \<Rightarrow> RepositoryResponse \<Rightarrow> ('p, SnapshotPayload) SnapshotHelper" where
  "snapshot_helper sr repoConfig =
     \<lparr>sh_pulpClient = sr_pulpClient sr, sh_ctx = TaskCtx, sh_payload = snapshot_payload, sh_repo = repoConfig,
      sh_domainName = sr_domainName sr, sh_uuid = sr_uuid sr, sh_SetDetectedOSVersion = sr_SetDetectedOSVersion sr\<rparr>"

text \<open>The body of \<open>Run\<close> after the \<open>defer\<close>.\<close>

definition run_snapshot :: "'p SnapshotRepository \<Rightarrow> RepositoryResponse \<Rightarrow> (unit, 'p snapshot_world) io" where
  "run_snapshot sr repoConfig =
     bindIO (if re_Origin repoConfig \<noteq> OriginUpload
       then wrapIO ''failed to find or create remote'' (findOrCreateRemote sr repoConfig) else returnIO '''') (\<lambda>remoteHref.
     bindIO (wrapIO ''failed to find or create pulp repo'' (findOrCreatePulpRepo sr (re_UUID repoConfig) remoteHref)) (\<lambda>repoHref.
     bindIO (if re_Origin repoConfig = OriginUpload
       then bindIO (wrapIO ''failed to lookup version for upload repo''
              (GetRpmRepositoryByName (sr_pulpClient sr) TaskCtx (re_UUID repoConfig))) (\<lambda>repo.
            bindIO (deref repo) (\<lambda>repo. returnIO (rr_LatestVersionHref repo)))
       else wrapIO ''failed to sync repository'' (syncRepository sr repoHref remoteHref)) (\<lambda>versionHref.
     bindIO (if versionHref = None
       then wrapIO ''failed to get orphaned latest version''
              (GetOrphanedLatestVersion (sr_pulpClient sr) TaskCtx (re_UUID repoConfig))
       else returnIO versionHref) (\<lambda>versionHref.
       case versionHref of
         None \<Rightarrow> returnIO ()
       | Some version \<Rightarrow> helper_Run (snapshot_helper sr repoConfig) version))))"

text \<open>The deferred function: errors of the cleanup are logged.\<close>

definition ignoreIO :: "(unit, 's) io \<Rightarrow> (unit, 's) io" where
  "ignoreIO m = handleIO m (\<lambda>_. returnIO ())"

definition on_cancel :: "'p SnapshotRepository \<Rightarrow> RepositoryResponse \<Rightarrow> (unit, 'p snapshot_world) io" where
  "on_cancel sr repoConfig =
     bindIO (ignoreIO (Cleanup (snapshot_helper sr repoConfig))) (\<lambda>_.
     bindIO (ignoreIO (cleanupOnCancel sr)) (\<lambda>_.
     ignoreIO sr_UpdatePayload))"

definition run_in_domain :: "'p SnapshotRepository \<Rightarrow> RepositoryResponse \<Rightarrow> (unit, 'p snapshot_world) io" where
  "run_in_domain sr repoConfig =
     bindIO (wrapIO ''failed to lookup or create domain'' (LookupOrCreateDomain (sr_pulpClient sr) TaskCtx (sr_domainName sr))) (\<lambda>_.
     bindIO (wrapIO ''failed to update domain'' (UpdateDomainIfNeeded (sr_pulpClient sr) TaskCtx (sr_domainName sr))) (\<lambda>_ w.
       case run_snapshot sr repoConfig w of
         (Inl err, w') \<Rightarrow>
           if errors_Is err Context_Canceled
           then bindIO (on_cancel sr repoConfig) (\<lambda>_. failIO err) w'
           else (Inl err, w')
       | (Inr _, w') \<Rightarrow> (Inr (), w')))"

text \<open>The result of \<open>Run\<close> comes with the UUID of the configuration it found (blank if it found none).\<close>

definition snapshot_Run :: "'p SnapshotRepository \<Rightarrow> 'p snapshot_world \<Rightarrow> (string \<times> unit result) \<times> 'p snapshot_world" where
  "snapshot_Run sr w =
     (case wrapIO ''failed to lookup repo objects'' (lookupRepoObjects sr) w of
        (Inl err, w') \<Rightarrow> (('''', Inl err), w')
      | (Inr repoConfig, w') \<Rightarrow>
          (case run_in_domain sr repoConfig w' of (res, w'') \<Rightarrow> ((re_UUID repoConfig, res), w'')))"

text \<open>The handler: a cancelled run counts as success, any other error is counted at the configuration.\<close>

definition SnapshotHandler :: "'p SnapshotRepository \<Rightarrow> (unit, 'p snapshot_world) io" where
  "SnapshotHandler sr = (\<lambda>w.
     case snapshot_Run sr w of
       ((uuid, Inr _), w') \<Rightarrow> InternalOnly_ResetFailedSnapshotCount TaskCtx uuid w'
     | ((uuid, Inl err), w') \<Rightarrow>
         if halted err then (Inl err, w')
         else if errors_Is err Context_Canceled then (Inr (), w')
         else bindIO (ignoreIO (InternalOnly_IncrementFailedSnapshotCount Background uuid)) (\<lambda>_. failIO err) w')"

end
