(* ===== verification/PulpFrame.thy ===== *)
theory PulpFrame
  imports PulpDistribution
begin

text \<open>
  What the client's calls leave alone: whatever Pulp answers, a call changes Pulp, the seconds slept
  and the count to the cancellation, and nothing else of the state. And under a cancelled context
  no call reaches Pulp.
\<close>

named_theorems pulp_keeps "operations of the client that change nothing but Pulp"

definition only_pulp :: "('p, 'x) pulp_world_scheme \<Rightarrow> ('p, 'x) pulp_world_scheme \<Rightarrow> bool" where
  "only_pulp w w' \<longleftrightarrow> pulp_world.more w' = pulp_world.more w \<and> pw_cause w' = pw_cause w \<and> (cancelled w \<longrightarrow> cancelled w')"

lemma only_pulp_refl: "reflp only_pulp"
  by (simp add: reflp_def only_pulp_def)

lemma only_pulp_trans: "transp only_pulp"
  by (auto simp: transp_def only_pulp_def)

lemma only_pulp_Pair [pulp_keeps]: "keeps only_pulp (Pair r)"
  by (simp add: keeps_def only_pulp_def)

lemmas only_pulp_return [pulp_keeps] = keeps_return [OF only_pulp_refl]
lemmas only_pulp_fail [pulp_keeps] = keeps_fail [OF only_pulp_refl]
lemmas only_pulp_bind [pulp_keeps] = keeps_bind [OF only_pulp_trans]
lemmas only_pulp_wrap [pulp_keeps] = keeps_wrap [of only_pulp]

lemmas only_pulp_handle [pulp_keeps] = keeps_handle [OF only_pulp_trans]

lemma only_pulp_deref [pulp_keeps]: "keeps only_pulp (deref p)"
  by (cases p) (simp_all add: pulp_keeps)

lemma only_pulp_client [pulp_keeps]: "keeps only_pulp (getZestClient r)"
  by (simp add: getZestClient_def pulp_keeps split: option.split)

lemma Execute_only_pulp: "Execute ctx call w = (answer, w') \<Longrightarrow> only_pulp w w'"
  by (auto simp: Execute_def tick_def only_pulp_def cancelled_def split: if_splits prod.splits)

lemma only_pulp_call [pulp_keeps]:
  "keeps only_pulp (zestIO r ctx msg call)"
  "keeps only_pulp (deleteIO r ctx msg call')"
  "keeps only_pulp (updateIO r ctx msg call'')"
  unfolding zestIO_def deleteIO_def updateIO_def
  by (intro only_pulp_bind only_pulp_client keepsI;
      auto dest!: Execute_only_pulp split: prod.split zest_answer.split option.split)+

lemma only_pulp_CancelTask [pulp_keeps]: "keeps only_pulp (CancelTask r ctx href)"
  unfolding CancelTask_def
  by (intro only_pulp_bind only_pulp_client keepsI)
    (auto dest!: Execute_only_pulp split: prod.split zest_answer.split option.split)

lemma only_pulp_Sleep [pulp_keeps]: "keeps only_pulp (SleepWithBackoff n)"
  by (simp add: keeps_def SleepWithBackoff_def only_pulp_def cancelled_def)

lemma only_pulp_attempts [pulp_keeps]: "keeps only_pulp (getTaskAttempts r ctx href n pc)"
  by (induction n arbitrary: pc) (auto simp: GetTask_def intro!: pulp_keeps)

lemma only_pulp_rounds [pulp_keeps]: "keeps only_pulp (pollRounds r ctx href n pc)"
  by (induction n arbitrary: pc) (auto intro!: pulp_keeps split: prod.split)

lemma only_pulp_Poll [pulp_keeps]: "keeps only_pulp (PollTask r ctx href)"
  by (simp add: PollTask_def pulp_keeps)

lemma only_pulp_simple [pulp_keeps]:
  "keeps only_pulp (GetTask r ctx href)"
  "keeps only_pulp (CreateRpmDistribution r ctx pub name path guard)"
  "keeps only_pulp (FindDistributionByPath r ctx path)"
  "keeps only_pulp (DeleteRpmDistribution r ctx href)"
  "keeps only_pulp (UpdateRpmDistribution r ctx href pub name path guard)"
  "keeps only_pulp (CreateRpmPublication r ctx version)"
  "keeps only_pulp (FindRpmPublicationByVersion r ctx version)"
  "keeps only_pulp (CreateRpmRepository r ctx name remote)"
  "keeps only_pulp (GetRpmRepositoryByName r ctx name)"
  "keeps only_pulp (SyncRpmRepository r ctx repo remote)"
  "keeps only_pulp (GetRpmRepositoryVersion r ctx version)"
  "keeps only_pulp (DeleteRpmRepositoryVersion r ctx version)"
  "keeps only_pulp (GetRpmRemoteByName r ctx name)"
  "keeps only_pulp (DeleteRpmRemote r ctx href)"
  "keeps only_pulp (DeleteRpmRepository r ctx href)"
  unfolding GetTask_def CreateRpmDistribution_def FindDistributionByPath_def DeleteRpmDistribution_def UpdateRpmDistribution_def
    CreateRpmPublication_def FindRpmPublicationByVersion_def CreateRpmRepository_def GetRpmRepositoryByName_def
    SyncRpmRepository_def GetRpmRepositoryVersion_def DeleteRpmRepositoryVersion_def
    GetRpmRemoteByName_def DeleteRpmRemote_def DeleteRpmRepository_def
  by (auto intro!: pulp_keeps)

lemma only_pulp_orFetch [pulp_keeps]:
  assumes "keeps only_pulp create" "keeps only_pulp fetch"
  shows "keeps only_pulp (orFetch create fetch msg)"
  unfolding orFetch_def by (intro pulp_keeps assms) (auto intro!: pulp_keeps split: option.split)

lemma only_pulp_rhid [pulp_keeps]: "keeps only_pulp (createOrUpdateRHIDHeaderGuard r ctx name filt v)"
  unfolding createOrUpdateRHIDHeaderGuard_def fetchAndUpdateHeaderGuard_def createRHIDHeaderGuard_def fetchHeaderContentGuard_def
  by (auto intro!: pulp_keeps split: option.split)

lemma only_pulp_composite [pulp_keeps]:
  "keeps only_pulp (fetchOrUpdateNamedCompositeGuard r ctx name hrefs)"
  "keeps only_pulp (createNamedCompositeGuard r ctx name hrefs)"
  "keeps only_pulp (fetchNamedCompositeContentGuard r ctx name)"
  unfolding fetchOrUpdateNamedCompositeGuard_def createNamedCompositeGuard_def fetchNamedCompositeContentGuard_def
  by (auto intro!: pulp_keeps split: option.split)

lemma only_pulp_feature [pulp_keeps]: "keeps only_pulp (CreateOrUpdateFeatureGuard r ctx f)"
  unfolding CreateOrUpdateFeatureGuard_def fetchFeatureGuard_def Let_def
  by (auto intro!: pulp_keeps split: option.split)

lemma only_pulp_features [pulp_keeps]: "keeps only_pulp (feature_guards r ctx fs)"
  by (induction fs) (auto intro!: pulp_keeps)

lemma only_pulp_guards [pulp_keeps]:
  "keeps only_pulp (CreateOrUpdateGuardsForOrg r ctx org)"
  "keeps only_pulp (CreateOrUpdateGuardsForRhelRepo r ctx f)"
  unfolding CreateOrUpdateGuardsForOrg_def CreateOrUpdateGuardsForRhelRepo_def CreateOrUpdateOrgIdGuard_def
    CreateOrUpdateTurnpikeGuard_def createOrUpdateCompositeGuard_def fetchOrUpdateCompositeGuard_def createCompositeGuard_def
    fetchCompositeContentGuard_def createOrUpdateRhelCompositeGuard_def createOrUpdateNamedCompositeGuard_def Let_def
  by (auto intro!: pulp_keeps)

lemma only_pulp_guard [pulp_keeps]: "keeps only_pulp (FetchContentGuard r ctx org f)"
  unfolding FetchContentGuard_def Let_def by (auto intro!: pulp_keeps)

lemma only_pulp_distribution [pulp_keeps]:
  "keeps only_pulp (createDistribution r ctx pub name path guard)"
  "keeps only_pulp (updateDistribution r ctx href pub name path guard)"
  unfolding createDistribution_def updateDistribution_def by (auto intro!: pulp_keeps)

lemma only_pulp_create_or_update [pulp_keeps]: "keeps only_pulp (createOrUpdateDistribution r ctx pub name path guard)"
  unfolding createOrUpdateDistribution_def by (auto intro!: pulp_keeps split: option.split)

lemma only_pulp_CreateOrUpdate [pulp_keeps]:
  "keeps only_pulp (CreateOrUpdateDistribution r ctx repo pub name path)"
  "keeps only_pulp (CreateOrUpdateLatestDistribution r ctx repo pub)"
  unfolding CreateOrUpdateLatestDistribution_def CreateOrUpdateDistribution_def by (auto intro!: pulp_keeps)

section \<open>Cancelled contexts\<close>

lemma Execute_cancelled: "cancelled w \<Longrightarrow> Execute TaskCtx call w = (ZestErr None (pw_cause w), w)"
  by (simp add: Execute_def)

text \<open>The error of a call under a cancelled context.\<close>

definition cancel_error :: "'p pulpDaoImpl \<Rightarrow> ('p, 'x) pulp_world_scheme \<Rightarrow> go_error" where
  "cancel_error r w = (case z_HTTPClient (p_zest r) of Some err \<Rightarrow> err | None \<Rightarrow> errorWithResponseBody '''' None (pw_cause w))"

lemma zestIO_cancelled: "cancelled w \<Longrightarrow> zestIO r TaskCtx msg call w = (Inl (cancel_error r w), w)"
  by (simp add: zestIO_def getZestClient_def Execute_cancelled cancel_error_def bindIO_def errorWithResponseBody_def split: option.split)

end
