(* ===== verification/PulpGuardsProps.thy ===== *)
theory PulpGuardsProps
  imports PulpGuards
begin

text \<open>
  The guards the client leaves in Pulp: every create-or-update operation is an update of the row
  with its name, or an insertion, in one table and leaves the other rows; so the composite guard it
  returns lets through exactly whom it should.
\<close>

section \<open>One table\<close>

definition kind :: "(guard_tables \<Rightarrow> 'g guard_rows) \<Rightarrow> ('g guard_rows \<Rightarrow> guard_tables \<Rightarrow> guard_tables) \<Rightarrow> bool" where
  "kind get put \<longleftrightarrow> (\<forall>rows t. get (put rows t) = rows) \<and> (\<forall>t. put (get t) t = t) \<and>
     (\<forall>t. \<exists>A B. \<forall>rows. all_hrefs (put rows t) = A @ map row_href rows @ B)"

lemma kindI:
  assumes "\<And>rows t. get (put rows t) = rows" "\<And>t. put (get t) t = t"
    and "\<And>rows t. all_hrefs (put rows t) = A t @ map row_href rows @ B t"
  shows "kind get put"
  unfolding kind_def using assms by blast

lemma kind_header: "kind gt_header (\<lambda>rows t. t\<lparr>gt_header := rows\<rparr>)"
  by (rule kindI [where A = "\<lambda>t. []" and B = "\<lambda>t. map row_href (gt_feature t) @ map row_href (gt_composite t)"])
    (simp_all add: all_hrefs_def)

lemma kind_feature: "kind gt_feature (\<lambda>rows t. t\<lparr>gt_feature := rows\<rparr>)"
  by (rule kindI [where A = "\<lambda>t. map row_href (gt_header t)" and B = "\<lambda>t. map row_href (gt_composite t)"])
    (simp_all add: all_hrefs_def)

lemma kind_composite: "kind gt_composite (\<lambda>rows t. t\<lparr>gt_composite := rows\<rparr>)"
  by (rule kindI [where A = "\<lambda>t. map row_href (gt_header t) @ map row_href (gt_feature t)" and B = "\<lambda>t. []"])
    (simp_all add: all_hrefs_def)

text \<open>The row named \<open>n\<close> of the domain is \<open>g\<close> at \<open>href\<close> now, and rows of other names are as before.\<close>

definition upserted ::
  "(guard_tables \<Rightarrow> 'g guard_rows) \<Rightarrow> ('g guard_rows \<Rightarrow> guard_tables \<Rightarrow> guard_tables) \<Rightarrow> ('g \<Rightarrow> string) \<Rightarrow>
   string \<Rightarrow> 'g \<Rightarrow> guard_tables \<Rightarrow> guard_tables \<Rightarrow> string \<Rightarrow> bool" where
  "upserted get put nm d g t t' href \<longleftrightarrow> tables_ok t' \<and> href \<noteq> '''' \<and>
     (\<exists>rows'. t' = put rows' t \<and> (d, href, g) \<in> set rows' \<and>
        (\<forall>row \<in> set (get t). \<not> named nm d (nm g) row \<longrightarrow> row \<in> set rows'))"

lemma kind_hrefs:
  assumes "kind get put"
  obtains A B where "all_hrefs t = A @ map row_href (get t) @ B"
    "\<forall>rows. all_hrefs (put rows t) = A @ map row_href rows @ B"
  using assms unfolding kind_def by metis

lemma href_not_blank: "kind get put \<Longrightarrow> tables_ok t \<Longrightarrow> (d, href, g) \<in> set (get t) \<Longrightarrow> href \<noteq> ''''"
  by (erule kind_hrefs [of get put t]) (force simp: tables_ok_def row_href_def)

lemma upserted_present:
  assumes "kind get put" "tables_ok t" "(d, href, g) \<in> set (get t)"
  shows "upserted get put nm d g t t href"
proof -
  have "t = put (get t) t" using assms(1) by (simp add: kind_def)
  then show ?thesis using assms href_not_blank [OF assms] unfolding upserted_def by blast
qed

lemma upserted_update:
  assumes k: "kind get put" and ok: "tables_ok t" and row: "(d, href, g0) \<in> set (get t)"
    and nm: "nm g0 = nm g" and p: "patch a g0 = g"
    and t': "t' = put (map (\<lambda>(d, h', g). (d, h', if h' = href then patch a g else g)) (get t)) t"
  shows "upserted get put nm d g t t' href"
proof -
  let ?up = "\<lambda>(d, h', g). (d, h', if h' = href then patch a g else g)"
  obtain A B where A: "all_hrefs t = A @ map row_href (get t) @ B"
    "\<forall>rows. all_hrefs (put rows t) = A @ map row_href rows @ B" by (rule kind_hrefs [OF k, of t])
  have same: "map row_href (map ?up (get t)) = map row_href (get t)"
    by (simp add: row_href_def split_beta)
  then have "all_hrefs t' = all_hrefs t" unfolding t' by (simp only: A(1) A(2) [rule_format])
  then have ok': "tables_ok t'" using ok by (simp add: tables_ok_def)
  have dist: "distinct (map row_href (get t))" using ok A(1) by (simp add: tables_ok_def)
  have keep: "r \<in> set (map ?up (get t))" if r: "r \<in> set (get t)" "\<not> named nm d (nm g) r" for r
  proof -
    obtain d' h' g' where [simp]: "r = (d', h', g')" by (cases r)
    have "h' \<noteq> href"
    proof
      assume "h' = href"
      then have "row_href r = row_href (d, href, g0)" by (simp add: row_href_def)
      then have "r = (d, href, g0)" using dist r(1) row by (meson distinct_map inj_onD)
      then show False using r(2) nm by (simp add: named_def)
    qed
    then have "?up r = r" by simp
    then show ?thesis using imageI [OF r(1), of ?up] by simp
  qed
  have "(d, href, g) \<in> set (map ?up (get t))" using imageI [OF row, of ?up] p by simp
  then show ?thesis unfolding upserted_def using ok' href_not_blank [OF k ok row] keep t' by blast
qed

lemma upserted_create:
  assumes k: "kind get put" and ok: "tables_ok t" and "href \<noteq> ''''" "href \<notin> set (all_hrefs t)"
    and t': "t' = put (get t @ [(d, href, g)]) t"
  shows "upserted get put nm d g t t' href"
proof -
  obtain A B where A: "all_hrefs t = A @ map row_href (get t) @ B"
    "\<forall>rows. all_hrefs (put rows t) = A @ map row_href rows @ B" by (rule kind_hrefs [OF k, of t])
  have "tables_ok t'"
    using ok A assms(3,4) unfolding tables_ok_def t' by (auto simp: row_href_def)
  then show ?thesis unfolding upserted_def using assms(3) t' by auto
qed

section \<open>Calls\<close>

lemma found_guard_rows:
  "found_guard (map (\<lambda>row. (Some (row_href row), snd (snd row))) (filter (named nm d n) rows)) =
     map_option (\<lambda>row. (row_href row, snd (snd row))) (find (named nm d n) rows)"
  by (induction rows) (simp_all add: found_guard_def)

text \<open>A fetch: the first row with the name.\<close>

definition fetches where
  "fetches view get nm d n m \<longleftrightarrow> (\<forall>w. view (pw_pulp (snd (m w))) = view (pw_pulp w)) \<and>
     (\<forall>w res w'. m w = (Inr res, w') \<longrightarrow>
        res = map_option (\<lambda>row. (row_href row, snd (snd row))) (find (named nm d n) (get (view (pw_pulp w)))))"

lemma list_ok_view: "list_ok view get nm call \<Longrightarrow> call d n p = (answer, p') \<Longrightarrow> view p' = view p"
  unfolding list_ok_def by (metis snd_conv)

lemma fetchesI:
  assumes l: "list_ok view get nm call"
    and m: "m = bindIO (zestIO r ctx msg (call d n)) (\<lambda>results. returnIO (found_guard results))"
  shows "fetches view get nm d n m"
  unfolding fetches_def
proof (intro conjI allI impI)
  fix w
  show "view (pw_pulp (snd (m w))) = view (pw_pulp w)"
  proof (cases "zestIO r ctx msg (call d n) w")
    case (Pair res w')
    show ?thesis
    proof (cases res)
      case (Inl err)
      then show ?thesis using zestIO_failure [OF Pair [unfolded Inl]] l Pair
        unfolding m by (auto simp: bindIO_def list_ok_view [OF l])
    next
      case (Inr rs)
      obtain resp where "call d n (pw_pulp w) = (ZestOk resp rs, pw_pulp w')"
        using zestIO_success [OF Pair [unfolded Inr]] .
      then show ?thesis using Pair Inr unfolding m by (auto simp: bindIO_def list_ok_view [OF l])
    qed
  qed
next
  fix w res w'
  assume "m w = (Inr res, w')"
  then obtain rs w1 where z: "zestIO r ctx msg (call d n) w = (Inr rs, w1)" and res: "res = found_guard rs"
    unfolding m by (auto simp: bindIO_success)
  obtain resp where "call d n (pw_pulp w) = (ZestOk resp rs, pw_pulp w1)" using zestIO_success [OF z] .
  then have "rs = map (\<lambda>row. (Some (row_href row), snd (snd row))) (filter (named nm d n) (get (view (pw_pulp w))))"
    using l [unfolded list_ok_def, rule_format, of d n "pw_pulp w"] by simp
  then show "res = map_option (\<lambda>row. (row_href row, snd (snd row))) (find (named nm d n) (get (view (pw_pulp w))))"
    using res by (simp add: found_guard_rows)
qed

lemma fetchesD:
  assumes "fetches view get nm d n m" "m w = (Inr res, w')"
  shows "view (pw_pulp w') = view (pw_pulp w)"
    "res = None \<Longrightarrow> \<forall>row \<in> set (get (view (pw_pulp w))). \<not> named nm d n row"
    "res = Some (h, g) \<Longrightarrow> (d, h, g) \<in> set (get (view (pw_pulp w))) \<and> nm g = n"
proof -
  let ?rows = "get (view (pw_pulp w))"
  have res: "res = map_option (\<lambda>row. (row_href row, snd (snd row))) (find (named nm d n) ?rows)"
    using assms unfolding fetches_def by blast
  show "view (pw_pulp w') = view (pw_pulp w)" using assms unfolding fetches_def by (metis snd_conv)
  show "\<forall>row \<in> set ?rows. \<not> named nm d n row" if "res = None"
    using that res by (auto simp: find_None_iff)
  show "(d, h, g) \<in> set ?rows \<and> nm g = n" if some: "res = Some (h, g)"
  proof -
    obtain row where "find (named nm d n) ?rows = Some row" "h = row_href row" "g = snd (snd row)"
      using some res by auto
    then show ?thesis
      using find_mem [of "named nm d n" ?rows row] by (cases row) (auto simp: find_Some_iff named_def row_href_def)
  qed
qed

lemma create_call:
  assumes c: "create_ok view get put call" and k: "kind get put" and ok: "tables_ok (view (pw_pulp w))"
    and z: "bindIO (zestIO r ctx msg (call d g)) deref w = (Inr href, w')"
  shows "upserted get put nm d g (view (pw_pulp w)) (view (pw_pulp w')) href"
proof -
  obtain resp where "call d g (pw_pulp w) = (ZestOk resp (Some href), pw_pulp w')"
    using z by (auto simp: bindIO_success deref_success elim: zestIO_success)
  then show ?thesis
    using c [unfolded create_ok_def Let_def, rule_format, of d g "pw_pulp w"] upserted_create [OF k ok] by auto
qed

lemma update_call:
  assumes u: "update_ok view get put patch call" and k: "kind get put" and ok: "tables_ok (view (pw_pulp w))"
    and row: "(d, href, g0) \<in> set (get (view (pw_pulp w)))" "nm g0 = nm g" "patch a g0 = g"
    and z: "bindIO (zestIO r ctx msg (call href a)) deref w = (Inr href', w')"
  shows "href' = href \<and> upserted get put nm d g (view (pw_pulp w)) (view (pw_pulp w')) href"
proof -
  obtain resp where "call href a (pw_pulp w) = (ZestOk resp (Some href'), pw_pulp w')"
    using z by (auto simp: bindIO_success deref_success elim: zestIO_success)
  then have "href' = href \<and> view (pw_pulp w') =
      put (map (\<lambda>(d, h', g). (d, h', if h' = href then patch a g else g)) (get (view (pw_pulp w)))) (view (pw_pulp w))"
    using u [unfolded update_ok_def, rule_format, of href a "pw_pulp w" resp href'] by simp
  then show ?thesis using upserted_update [where get = get and put = put and nm = nm and patch = patch and a = a, OF k ok row] by blast
qed

text \<open>The second look after a failed creation finds the same guard, if any.\<close>

lemma orFetch_upserted:
  assumes c: "create_ok view get put call" and k: "kind get put" and ok: "tables_ok (view (pw_pulp w))"
    and f: "fetches view get nm d (nm g) fetch"
    and none: "\<forall>row \<in> set (get (view (pw_pulp w))). \<not> named nm d (nm g) row"
    and run: "orFetch (bindIO (zestIO r ctx msg (call d g)) deref) fetch message w = (Inr href, w')"
  shows "upserted get put nm d g (view (pw_pulp w)) (view (pw_pulp w')) href"
proof (cases "bindIO (zestIO r ctx msg (call d g)) deref w")
  case (Pair res w1)
  show ?thesis
  proof (cases res)
    case (Inr h)
    then show ?thesis using create_call [OF c k ok] run Pair by (simp add: orFetch_def handleIO_def)
  next
    case (Inl err)
    let ?t = "view (pw_pulp w)" and ?t1 = "view (pw_pulp w1)"
    have run1: "\<not> halted err"
      "bindIO (handleIO fetch (\<lambda>_. returnIO None))
         (\<lambda>guard. case guard of None \<Rightarrow> failIO (Wrapf message err '''') | Some (href, g) \<Rightarrow> returnIO href) w1 = (Inr href, w')"
      using run Pair Inl by (auto simp: orFetch_def handleIO_def split: if_splits)
    then obtain h g' where got: "fetch w1 = (Inr (Some (h, g')), w')" and "h = href"
      by (auto simp: bindIO_success handleIO_def split: option.splits prod.splits sum.splits if_splits)
    have row: "(d, href, g') \<in> set (get ?t1)" "nm g' = nm g" and t': "view (pw_pulp w') = ?t1"
      using fetchesD [OF f got] \<open>h = href\<close> by auto
    have "pw_pulp w1 = pw_pulp w \<or> (\<exists>resp e. call d g (pw_pulp w) = (ZestErr resp e, pw_pulp w1))"
    proof (cases "zestIO r ctx msg (call d g) w")
      case z: (Pair res' w2)
      show ?thesis
      proof (cases res')
        case (Inl e)
        then show ?thesis using zestIO_failure [of r ctx msg "call d g" w e w2] z Pair \<open>res = Inl err\<close> by (auto simp: bindIO_def)
      next
        case (Inr p)
        then have "deref p w2 = (Inl err, w1)" using z Pair \<open>res = Inl err\<close> by (simp add: bindIO_def)
        then show ?thesis using run1(1) by (cases p) (auto simp: nil_dereference_def)
      qed
    qed
    then consider "?t1 = ?t" | h where "h \<noteq> ''''" "h \<notin> set (all_hrefs ?t)" "?t1 = put (get ?t @ [(d, h, g)]) ?t"
      using c [unfolded create_ok_def Let_def, rule_format, of d g "pw_pulp w"] by auto
    then show ?thesis
    proof cases
      case 1
      then show ?thesis using none row by (force simp: named_def)
    next
      case (2 h)
      have "get ?t1 = get ?t @ [(d, h, g)]" using k 2(3) by (simp add: kind_def)
      then have "href = h" using row none by (force simp: named_def)
      then show ?thesis using upserted_create [OF k ok, of h] 2 t' by simp
    qed
  qed
qed

text \<open>Fetch and update the row with the name, or create it.\<close>

lemma createOrUpdate_upserted:
  assumes c: "create_ok view get put create" and k: "kind get put" and ok: "tables_ok (view (pw_pulp w))"
    and f: "fetches view get nm d (nm g) fetch"
    and step: "\<And>w w' href h g0. tables_ok (view (pw_pulp w)) \<Longrightarrow> (d, h, g0) \<in> set (get (view (pw_pulp w))) \<Longrightarrow> nm g0 = nm g \<Longrightarrow>
      change h g0 w = (Inr href, w') \<Longrightarrow> upserted get put nm d g (view (pw_pulp w)) (view (pw_pulp w')) href"
    and run: "bindIO (bindIO (getZestClient r) (\<lambda>_. bindIO fetch (\<lambda>guard. case guard of None \<Rightarrow> returnIO '''' | Some (h, g0) \<Rightarrow> change h g0)))
      (\<lambda>pulpHref. if pulpHref \<noteq> '''' then returnIO pulpHref
         else orFetch (bindIO (zestIO r ctx msg (create d g)) deref) fetch message) w = (Inr href, w')"
  shows "upserted get put nm d g (view (pw_pulp w)) (view (pw_pulp w')) href"
proof -
  obtain guard w1 w2 pulpHref where fw: "fetch w = (Inr guard, w1)"
    and g: "(case guard of None \<Rightarrow> returnIO '''' | Some (h, g0) \<Rightarrow> change h g0) w1 = (Inr pulpHref, w2)"
    and rest: "(if pulpHref \<noteq> '''' then returnIO pulpHref
         else orFetch (bindIO (zestIO r ctx msg (create d g)) deref) fetch message) w2 = (Inr href, w')"
    using run by (auto simp: bindIO_success dest!: getZestClient_Inr)
  have t: "view (pw_pulp w1) = view (pw_pulp w)" using fetchesD(1) [OF f fw] .
  show ?thesis
  proof (cases guard)
    case None
    then have "pulpHref = ''''" "w2 = w1" using g by auto
    then show ?thesis
      using orFetch_upserted [OF c k _ f, of w1 r ctx msg message href w'] fetchesD(2) [OF f fw None] rest ok t by simp
  next
    case (Some p)
    then obtain h g0 where p: "guard = Some (h, g0)" by (cases p) auto
    have row: "(d, h, g0) \<in> set (get (view (pw_pulp w1)))" "nm g0 = nm g" using fetchesD(3) [OF f fw p] t by auto
    have u: "upserted get put nm d g (view (pw_pulp w1)) (view (pw_pulp w2)) pulpHref"
      using step [OF _ row] ok t g p by simp
    then have "pulpHref \<noteq> ''''" by (simp add: upserted_def)
    then show ?thesis using u rest t by simp
  qed
qed

section \<open>The operations\<close>

definition rhid_guard :: "string \<Rightarrow> string \<Rightarrow> string \<Rightarrow> HeaderContentGuard" where
  "rhid_guard name jqFilter value =
     \<lparr>hg_Name = name, hg_HeaderName = IdentityHeader, hg_HeaderValue = value, hg_JqFilter = Some jqFilter\<rparr>"

lemma rhid_guard_upserted:
  assumes z: "pulp_guards view (p_zest r)" and ok: "tables_ok (view (pw_pulp w))"
    and run: "createOrUpdateRHIDHeaderGuard r ctx name jqFilter value w = (Inr href, w')"
  shows "upserted gt_header (\<lambda>rows t. t\<lparr>gt_header := rows\<rparr>) hg_Name (domainName r) (rhid_guard name jqFilter value)
    (view (pw_pulp w)) (view (pw_pulp w')) href"
proof (rule createOrUpdate_upserted [where create = "z_HeaderCreate (p_zest r)" and fetch = "fetchHeaderContentGuard r ctx name"
      and r = r and ctx = ctx and msg = "''error creating header guard''"
      and message = "''failed to create and then fetch a RHID header ''"
      and change = "\<lambda>h g. if hg_HeaderName g \<noteq> IdentityHeader \<or> hg_HeaderValue g \<noteq> value \<or> hg_JqFilter g \<noteq> Some jqFilter
           then bindIO (zestIO r ctx ''error updating header guard'' (z_HeaderUpdate (p_zest r) h IdentityHeader value jqFilter)) deref
           else returnIO h"])
  show "create_ok view gt_header (\<lambda>rows t. t\<lparr>gt_header := rows\<rparr>) (z_HeaderCreate (p_zest r))"
    using z by (simp add: pulp_guards_def)
  have "list_ok view gt_header hg_Name (z_HeaderList (p_zest r))" using z by (simp add: pulp_guards_def)
  then show "fetches view gt_header hg_Name (domainName r) (hg_Name (rhid_guard name jqFilter value)) (fetchHeaderContentGuard r ctx name)"
    by (rule fetchesI) (simp add: fetchHeaderContentGuard_def rhid_guard_def)
next
  fix w w' href h g0
  assume ok: "tables_ok (view (pw_pulp w))" and row: "(domainName r, h, g0) \<in> set (gt_header (view (pw_pulp w)))"
    and nm: "hg_Name g0 = hg_Name (rhid_guard name jqFilter value)"
    and run: "(if hg_HeaderName g0 \<noteq> IdentityHeader \<or> hg_HeaderValue g0 \<noteq> value \<or> hg_JqFilter g0 \<noteq> Some jqFilter
           then bindIO (zestIO r ctx ''error updating header guard'' (z_HeaderUpdate (p_zest r) h IdentityHeader value jqFilter)) deref
           else returnIO h) w = (Inr href, w')"
  have u: "update_ok view gt_header (\<lambda>rows t. t\<lparr>gt_header := rows\<rparr>) patch_header
       (\<lambda>href (headerName, value, jqFilter). z_HeaderUpdate (p_zest r) href headerName value jqFilter)"
    using z by (simp add: pulp_guards_def)
  have p: "patch_header (IdentityHeader, value, jqFilter) g0 = rhid_guard name jqFilter value"
    using nm by (simp add: patch_header_def rhid_guard_def)
  show "upserted gt_header (\<lambda>rows t. t\<lparr>gt_header := rows\<rparr>) hg_Name (domainName r) (rhid_guard name jqFilter value)
    (view (pw_pulp w)) (view (pw_pulp w')) href"
  proof (cases "hg_HeaderName g0 \<noteq> IdentityHeader \<or> hg_HeaderValue g0 \<noteq> value \<or> hg_JqFilter g0 \<noteq> Some jqFilter")
    case True
    then show ?thesis using update_call [OF u kind_header ok row nm p, where r = r and ctx = ctx and msg = "''error updating header guard''" and href' = href and w' = w'] run
      by simp
  next
    case False
    then have "g0 = rhid_guard name jqFilter value" "href = h" "w' = w" using nm run by (simp_all add: rhid_guard_def)
    then show ?thesis using upserted_present [OF kind_header ok row] by simp
  qed
qed (fact kind_header, fact ok, fact run [unfolded createOrUpdateRHIDHeaderGuard_def fetchAndUpdateHeaderGuard_def
    createRHIDHeaderGuard_def, folded rhid_guard_def])

lemma composite_equal: "compositeChildHrefsEqual es ws \<longleftrightarrow> es = map Some ws"
  by (induction es ws rule: compositeChildHrefsEqual.induct) auto

lemma composite_guard_upserted:
  assumes z: "pulp_guards view (p_zest r)" and ok: "tables_ok (view (pw_pulp w))"
    and run: "bindIO (fetchOrUpdateNamedCompositeGuard r ctx name hrefs) (\<lambda>pulpHref.
       if pulpHref \<noteq> '''' then returnIO pulpHref
       else orFetch (createNamedCompositeGuard r ctx name hrefs) (fetchNamedCompositeContentGuard r ctx name) message) w = (Inr href, w')"
  shows "upserted gt_composite (\<lambda>rows t. t\<lparr>gt_composite := rows\<rparr>) cg_Name (domainName r) \<lparr>cg_Name = name, cg_Guards = map Some hrefs\<rparr>
    (view (pw_pulp w)) (view (pw_pulp w')) href"
proof (rule createOrUpdate_upserted [where create = "z_CompositeCreate (p_zest r)" and fetch = "fetchNamedCompositeContentGuard r ctx name"
      and r = r and ctx = ctx and msg = "''error creating composite guard''" and message = message
      and change = "\<lambda>h g. if \<not> compositeChildHrefsEqual (cg_Guards g) hrefs
           then bindIO (zestIO r ctx ''error updating composite guard'' (z_CompositeUpdate (p_zest r) h (map Some hrefs))) deref
           else returnIO h"])
  show "create_ok view gt_composite (\<lambda>rows t. t\<lparr>gt_composite := rows\<rparr>) (z_CompositeCreate (p_zest r))"
    using z by (simp add: pulp_guards_def)
  have "list_ok view gt_composite cg_Name (z_CompositeList (p_zest r))" using z by (simp add: pulp_guards_def)
  then show "fetches view gt_composite cg_Name (domainName r) (cg_Name \<lparr>cg_Name = name, cg_Guards = map Some hrefs\<rparr>)
      (fetchNamedCompositeContentGuard r ctx name)"
    by (rule fetchesI) (simp add: fetchNamedCompositeContentGuard_def)
next
  fix w w' href h g0
  assume ok: "tables_ok (view (pw_pulp w))" and row: "(domainName r, h, g0) \<in> set (gt_composite (view (pw_pulp w)))"
    and nm: "cg_Name g0 = cg_Name \<lparr>cg_Name = name, cg_Guards = map Some hrefs\<rparr>"
    and run: "(if \<not> compositeChildHrefsEqual (cg_Guards g0) hrefs
           then bindIO (zestIO r ctx ''error updating composite guard'' (z_CompositeUpdate (p_zest r) h (map Some hrefs))) deref
           else returnIO h) w = (Inr href, w')"
  have u: "update_ok view gt_composite (\<lambda>rows t. t\<lparr>gt_composite := rows\<rparr>) (\<lambda>guards g. g\<lparr>cg_Guards := guards\<rparr>) (z_CompositeUpdate (p_zest r))"
    using z by (simp add: pulp_guards_def)
  have p: "g0\<lparr>cg_Guards := map Some hrefs\<rparr> = \<lparr>cg_Name = name, cg_Guards = map Some hrefs\<rparr>"
    using nm by simp
  show "upserted gt_composite (\<lambda>rows t. t\<lparr>gt_composite := rows\<rparr>) cg_Name (domainName r) \<lparr>cg_Name = name, cg_Guards = map Some hrefs\<rparr>
    (view (pw_pulp w)) (view (pw_pulp w')) href"
  proof (cases "compositeChildHrefsEqual (cg_Guards g0) hrefs")
    case False
    then show ?thesis using update_call [OF u kind_composite ok row nm p, where r = r and ctx = ctx and msg = "''error updating composite guard''" and href' = href and w' = w'] run
      by simp
  next
    case True
    then have "g0 = \<lparr>cg_Name = name, cg_Guards = map Some hrefs\<rparr>" "href = h" "w' = w"
      using nm run by (simp_all add: composite_equal)
    then show ?thesis using upserted_present [OF kind_composite ok row] by simp
  qed
qed (fact kind_composite, fact ok, fact run [unfolded fetchOrUpdateNamedCompositeGuard_def createNamedCompositeGuard_def
    ptrStringsFromHrefs_def])

definition feature_guard :: "string \<Rightarrow> FeatureContentGuard" where
  "feature_guard f = \<lparr>fg_Name = featureGuardPulpName [f], fg_HeaderName = IdentityHeader,
     fg_JqFilter = Some ORG_ID_JQ_FILTER, fg_Features = [f]\<rparr>"

lemma sort_single: "sort xs = sort [x] \<Longrightarrow> xs = [x]"
  by (metis length_sort length_Suc_conv length_0_conv list.size(3) list.size(4) set_ConsD set_sort list.set_intros(1) empty_iff list.set(1))

lemma feature_guard_upserted:
  assumes z: "pulp_guards view (p_zest r)" and ok: "tables_ok (view (pw_pulp w))" and f: "ParseFeatures f = [f]"
    and run: "CreateOrUpdateFeatureGuard r ctx f w = (Inr href, w')"
  shows "upserted gt_feature (\<lambda>rows t. t\<lparr>gt_feature := rows\<rparr>) fg_Name (domainName r) (feature_guard f)
    (view (pw_pulp w)) (view (pw_pulp w')) href"
proof -
  let ?g = "feature_guard f"
  have g: "\<lparr>fg_Name = featureGuardPulpName [f], fg_HeaderName = IdentityHeader,
      fg_JqFilter = Some ''.identity.org_id'', fg_Features = [f]\<rparr> = ?g"
    by (simp add: feature_guard_def ORG_ID_JQ_FILTER_def)
  have c: "create_ok view gt_feature (\<lambda>rows t. t\<lparr>gt_feature := rows\<rparr>) (z_FeatureCreate (p_zest r))"
    and u: "update_ok view gt_feature (\<lambda>rows t. t\<lparr>gt_feature := rows\<rparr>) (\<lambda>new g. new) (z_FeatureUpdate (p_zest r))"
    and l: "list_ok view gt_feature fg_Name (z_FeatureList (p_zest r))"
    and eq: "\<And>x y. z_NullableStringEqual (p_zest r) x y \<Longrightarrow> x = y"
    using z by (simp_all add: pulp_guards_def)
  have fe: "fetches view gt_feature fg_Name (domainName r) (featureGuardPulpName [f]) (fetchFeatureGuard r ctx [f])"
    by (rule fetchesI [OF l]) (simp add: fetchFeatureGuard_def)
  have one: "(if [f] = [] then a else if length [f] \<noteq> 1 then b else c) = c" for a b c :: "(string, ('a, 'b) pulp_world_scheme) io"
    by simp
  have "bindIO (getZestClient r) (\<lambda>_. bindIO (fetchFeatureGuard r ctx [f]) (\<lambda>guard. case guard of
            Some (pulpHref, g) \<Rightarrow>
              if fg_HeaderName ?g \<noteq> fg_HeaderName g \<or> \<not> z_NullableStringEqual (p_zest r) (fg_JqFilter ?g) (fg_JqFilter g) \<or>
                 sort (fg_Features ?g) \<noteq> sort (fg_Features g)
              then bindIO (zestIO r ctx ''error updating feature guard'' (z_FeatureUpdate (p_zest r) pulpHref ?g)) deref
              else returnIO pulpHref
          | None \<Rightarrow> bindIO (zestIO r ctx ''error creating feature guard'' (z_FeatureCreate (p_zest r) (domainName r) ?g)) deref)) w
       = (Inr href, w')"
    using run unfolding CreateOrUpdateFeatureGuard_def f Let_def g one .
  then obtain guard w1 where fw: "fetchFeatureGuard r ctx [f] w = (Inr guard, w1)"
    and k: "(case guard of
            Some (pulpHref, g) \<Rightarrow>
              if fg_HeaderName ?g \<noteq> fg_HeaderName g \<or> \<not> z_NullableStringEqual (p_zest r) (fg_JqFilter ?g) (fg_JqFilter g) \<or>
                 sort (fg_Features ?g) \<noteq> sort (fg_Features g)
              then bindIO (zestIO r ctx ''error updating feature guard'' (z_FeatureUpdate (p_zest r) pulpHref ?g)) deref
              else returnIO pulpHref
          | None \<Rightarrow> bindIO (zestIO r ctx ''error creating feature guard'' (z_FeatureCreate (p_zest r) (domainName r) ?g)) deref) w1
       = (Inr href, w')"
    by (rule client_then_successE)
  have t: "view (pw_pulp w1) = view (pw_pulp w)" and ok1: "tables_ok (view (pw_pulp w1))"
    using fetchesD(1) [OF fe fw] ok by simp_all
  show ?thesis
  proof (cases guard)
    case None
    then show ?thesis
      using create_call [OF c kind_feature ok1, where r = r and ctx = ctx and msg = "''error creating feature guard''" and d = "domainName r" and g = ?g
          and nm = fg_Name and href = href and w' = w'] k t by simp
  next
    case (Some p)
    then obtain h g0 where p: "guard = Some (h, g0)" by (cases p) auto
    have row: "(domainName r, h, g0) \<in> set (gt_feature (view (pw_pulp w1)))" "fg_Name g0 = fg_Name ?g"
      using fetchesD(3) [OF fe fw p] t by (simp_all add: feature_guard_def)
    show ?thesis
    proof (cases "fg_HeaderName ?g \<noteq> fg_HeaderName g0 \<or> \<not> z_NullableStringEqual (p_zest r) (fg_JqFilter ?g) (fg_JqFilter g0) \<or>
        sort (fg_Features ?g) \<noteq> sort (fg_Features g0)")
      case True
      then show ?thesis
        using update_call [OF u kind_feature ok1 row refl, where r = r and ctx = ctx and msg = "''error updating feature guard''" and href' = href and w' = w'] k p t
        by simp
    next
      case False
      then have "sort (fg_Features ?g) = sort (fg_Features g0)" by simp
      then have "sort (fg_Features g0) = sort (fg_Features ?g)" by (rule sym)
      then have "sort (fg_Features g0) = sort [f]" by (simp only: feature_guard_def FeatureContentGuard.select_convs)
      then have "fg_Features g0 = [f]" by (rule sort_single)
      moreover have "fg_JqFilter g0 = fg_JqFilter ?g" using False eq [of "fg_JqFilter ?g" "fg_JqFilter g0"] by simp
      ultimately have "g0 = ?g" "href = h" "w' = w1" using False row(2) k p by (auto simp: feature_guard_def)
      then show ?thesis using upserted_present [OF kind_feature ok1 row(1)] t by simp
    qed
  qed
qed

section \<open>Whom the guards let through\<close>

lemma parsed_feature:
  assumes "f \<in> set (ParseFeatures s)"
  shows "ParseFeatures f = [f]"
proof -
  let ?r = "ReplaceAll s (CHR ''+'') (CHR '','')"
  obtain part where part: "part \<in> set (Split ?r (CHR '',''))" "f = TrimSpace part" "f \<noteq> []"
    using assms by (auto simp: ParseFeatures_def parse_feature_parts_set split: if_splits)
  have "set part \<subseteq> set ?r"
    using Split_chars [OF part(1)] .
  then have "CHR ''+'' \<notin> set part" by (auto simp: ReplaceAll_def)
  moreover have "CHR '','' \<notin> set part" using Split_free [OF part(1)] .
  ultimately have "CHR ''+'' \<notin> set f" "CHR '','' \<notin> set f" using set_TrimSpace [of part] part(2) by auto
  then have "ReplaceAll f (CHR ''+'') (CHR '','') = f" "Split f (CHR '','') = [f]"
    by (auto simp: ReplaceAll_def Split_no_sep intro: map_idI)
  then show ?thesis using part(2,3) by (simp add: ParseFeatures_def)
qed

lemma tables_distinct:
  assumes "tables_ok t"
  shows "distinct (map row_href (gt_header t))" "distinct (map row_href (gt_feature t))" "distinct (map row_href (gt_composite t))"
    "row \<in> set (gt_header t) \<Longrightarrow> row' \<in> set (gt_feature t) \<Longrightarrow> row_href row \<noteq> row_href row'"
  using assms by (auto simp: tables_ok_def all_hrefs_def)

lemma list_ex_unique:
  assumes "distinct (map f xs)" "x \<in> set xs"
  shows "list_ex (\<lambda>y. f y = f x \<and> P y) xs \<longleftrightarrow> P x"
  using assms by (auto simp: list_ex_iff dest: distinct_map [THEN iffD1, THEN conjunct2, THEN inj_onD])

lemma header_child:
  assumes "tables_ok t" "(d, h, g) \<in> set (gt_header t)"
  shows "child_permits t entitled ident h \<longleftrightarrow> header_permits ident g"
proof -
  have "\<not> list_ex (\<lambda>row. row_href row = h \<and> feature_permits entitled ident (snd (snd row))) (gt_feature t)"
    using tables_distinct(4) [OF assms] by (auto simp: list_ex_iff row_href_def)
  then show ?thesis
    using list_ex_unique [OF tables_distinct(1) [OF assms(1)] assms(2), where P = "\<lambda>row. header_permits ident (snd (snd row))"]
    by (simp add: child_permits_def row_href_def)
qed

lemma feature_child:
  assumes "tables_ok t" "(d, h, g) \<in> set (gt_feature t)"
  shows "child_permits t entitled ident h \<longleftrightarrow> feature_permits entitled ident g"
proof -
  have "\<not> list_ex (\<lambda>row. row_href row = h \<and> header_permits ident (snd (snd row))) (gt_header t)"
    using tables_distinct(4) [OF assms(1) _ assms(2)] by (auto simp: list_ex_iff row_href_def)
  then show ?thesis
    using list_ex_unique [OF tables_distinct(2) [OF assms(1)] assms(2), where P = "\<lambda>row. feature_permits entitled ident (snd (snd row))"]
    by (simp add: child_permits_def row_href_def)
qed

lemma composite_permits:
  assumes "tables_ok t" "(d, href, g) \<in> set (gt_composite t)" "cg_Guards g = map Some hrefs"
  shows "permits t entitled ident href \<longleftrightarrow> (\<exists>h \<in> set hrefs. child_permits t entitled ident h)"
  using list_ex_unique [OF tables_distinct(3) [OF assms(1)] assms(2), where P = "\<lambda>row. list_ex (\<lambda>c. case c of None \<Rightarrow> False
      | Some h \<Rightarrow> child_permits t entitled ident h) (cg_Guards (snd (snd row)))"] assms(3)
  by (simp add: permits_def row_href_def list_ex_iff)

lemma rhid_permits: "header_permits ident (rhid_guard name f v) \<longleftrightarrow> ident f = Some v"
  by (simp add: header_permits_def rhid_guard_def)

lemma feature_guard_permits:
  "feature_permits entitled ident (feature_guard f) \<longleftrightarrow> (\<exists>org. ident ORG_ID_JQ_FILTER = Some org \<and> entitled org f)"
  by (simp add: feature_permits_def feature_guard_def split: option.split)

lemma guards_for_org:
  assumes z: "pulp_guards view (p_zest r)" and ok: "tables_ok (view (pw_pulp w))"
    and run: "CreateOrUpdateGuardsForOrg r ctx orgId w = (Inr href, w')"
  shows "permits (view (pw_pulp w')) entitled ident href \<longleftrightarrow>
    ident ORG_ID_JQ_FILTER = Some orgId \<or> ident TURNPIKE_JQ_FILTER = Some (pc_GuardSubjectDn (p_config r))"
proof -
  let ?put = "\<lambda>rows t. t\<lparr>gt_header := rows\<rparr>"
  let ?org = "rhid_guard ORG_ID_GUARD_NAME ORG_ID_JQ_FILTER orgId"
  let ?turnpike = "rhid_guard TURNPIKE_GUARD_NAME TURNPIKE_JQ_FILTER (pc_GuardSubjectDn (p_config r))"
  obtain h1 w1 h2 w2 where run1: "CreateOrUpdateOrgIdGuard r ctx orgId w = (Inr h1, w1)"
    and run2: "CreateOrUpdateTurnpikeGuard r ctx w1 = (Inr h2, w2)"
    and run3: "createOrUpdateCompositeGuard r ctx h1 h2 w2 = (Inr href, w')"
    using run unfolding CreateOrUpdateGuardsForOrg_def by (auto elim!: bindIO_successE)
  have u1: "upserted gt_header ?put hg_Name (domainName r) ?org (view (pw_pulp w)) (view (pw_pulp w1)) h1"
    using rhid_guard_upserted [OF z ok run1 [unfolded CreateOrUpdateOrgIdGuard_def]] .
  have u2: "upserted gt_header ?put hg_Name (domainName r) ?turnpike (view (pw_pulp w1)) (view (pw_pulp w2)) h2"
    using rhid_guard_upserted [OF z _ run2 [unfolded CreateOrUpdateTurnpikeGuard_def]] u1 by (simp add: upserted_def)
  have u3: "upserted gt_composite (\<lambda>rows t. t\<lparr>gt_composite := rows\<rparr>) cg_Name (domainName r)
      \<lparr>cg_Name = COMPOSITE_GUARD_NAME, cg_Guards = map Some [h1, h2]\<rparr> (view (pw_pulp w2)) (view (pw_pulp w')) href"
    using composite_guard_upserted [OF z _ run3 [unfolded createOrUpdateCompositeGuard_def fetchOrUpdateCompositeGuard_def
      createCompositeGuard_def fetchCompositeContentGuard_def]] u2 by (simp add: upserted_def)
  let ?t = "view (pw_pulp w')"
  have "\<not> named hg_Name (domainName r) (hg_Name ?turnpike) (domainName r, h1, ?org)"
    by (simp add: named_def rhid_guard_def ORG_ID_GUARD_NAME_def TURNPIKE_GUARD_NAME_def)
  then have rows: "(domainName r, h1, ?org) \<in> set (gt_header ?t)" "(domainName r, h2, ?turnpike) \<in> set (gt_header ?t)"
    using u1 u2 u3 by (auto simp: upserted_def)
  have ok': "tables_ok ?t" and top: "(domainName r, href, \<lparr>cg_Name = COMPOSITE_GUARD_NAME, cg_Guards = map Some [h1, h2]\<rparr>) \<in> set (gt_composite ?t)"
    using u3 by (auto simp: upserted_def)
  show ?thesis
    using composite_permits [OF ok' top, of "[h1, h2]"] header_child [OF ok' rows(1)] header_child [OF ok' rows(2)]
    by (simp add: rhid_permits)
qed

lemma feature_guards_rows:
  assumes z: "pulp_guards view (p_zest r)"
  shows "tables_ok (view (pw_pulp w)) \<Longrightarrow> distinct fs \<Longrightarrow> \<forall>f \<in> set fs. ParseFeatures f = [f] \<Longrightarrow>
    feature_guards r ctx fs w = (Inr hrefs, w') \<Longrightarrow>
    tables_ok (view (pw_pulp w')) \<and>
    list_all2 (\<lambda>f h. (domainName r, h, feature_guard f) \<in> set (gt_feature (view (pw_pulp w')))) fs hrefs \<and>
    (\<forall>row \<in> set (gt_feature (view (pw_pulp w))).
       (\<forall>f \<in> set fs. \<not> named fg_Name (domainName r) (featureGuardPulpName [f]) row) \<longrightarrow> row \<in> set (gt_feature (view (pw_pulp w'))))"
proof (induction fs arbitrary: w hrefs)
  case Nil
  then show ?case by simp
next
  case (Cons f fs)
  obtain h w1 hs where run: "CreateOrUpdateFeatureGuard r ctx f w = (Inr h, w1)" "feature_guards r ctx fs w1 = (Inr hs, w')" "hrefs = h # hs"
    using Cons.prems(4) by (auto elim!: bindIO_successE)
  have u: "upserted gt_feature (\<lambda>rows t. t\<lparr>gt_feature := rows\<rparr>) fg_Name (domainName r) (feature_guard f)
      (view (pw_pulp w)) (view (pw_pulp w1)) h"
    using feature_guard_upserted [OF z Cons.prems(1) _ run(1)] Cons.prems(3) by simp
  then have ok1: "tables_ok (view (pw_pulp w1))" by (simp add: upserted_def)
  note IH = Cons.IH [OF ok1 _ _ run(2)]
  have "\<not> named fg_Name (domainName r) (featureGuardPulpName [f']) (domainName r, h, feature_guard f)" if "f' \<in> set fs" for f'
    using that Cons.prems(2) by (auto simp: named_def feature_guard_def featureGuardPulpName_def)
  then have "(domainName r, h, feature_guard f) \<in> set (gt_feature (view (pw_pulp w')))"
    using IH Cons.prems(2,3) u by (auto simp: upserted_def)
  moreover have "fg_Name (feature_guard f) = featureGuardPulpName [f]" by (simp add: feature_guard_def)
  ultimately show ?case using IH Cons.prems(2,3) u run(3) by (auto simp: upserted_def)
qed

lemma guards_for_features:
  assumes z: "pulp_guards view (p_zest r)" and ok: "tables_ok (view (pw_pulp w))"
    and run: "CreateOrUpdateGuardsForRhelRepo r ctx featureName w = (Inr href, w')"
  shows "permits (view (pw_pulp w')) entitled ident href \<longleftrightarrow>
    (\<exists>org. ident ORG_ID_JQ_FILTER = Some org \<and> (\<exists>f \<in> set (ParseFeatures featureName). entitled org f)) \<or>
    ident TURNPIKE_JQ_FILTER = Some (pc_GuardSubjectDn (p_config r))"
proof -
  let ?fs = "ParseFeatures featureName"
  let ?turnpike = "rhid_guard TURNPIKE_GUARD_NAME TURNPIKE_JQ_FILTER (pc_GuardSubjectDn (p_config r))"
  obtain hs w1 h2 w2 where run1: "feature_guards r ctx ?fs w = (Inr hs, w1)"
    and run2: "CreateOrUpdateTurnpikeGuard r ctx w1 = (Inr h2, w2)"
    and run3: "createOrUpdateRhelCompositeGuard r ctx (hs @ [h2]) ?fs w2 = (Inr href, w')"
    using run unfolding CreateOrUpdateGuardsForRhelRepo_def Let_def by (auto elim!: bindIO_successE split: if_splits)
  have f: "tables_ok (view (pw_pulp w1))"
    "list_all2 (\<lambda>f h. (domainName r, h, feature_guard f) \<in> set (gt_feature (view (pw_pulp w1)))) ?fs hs"
    using feature_guards_rows [OF z ok _ _ run1] ParseFeatures_sorted_distinct [of featureName] parsed_feature by blast+
  have u2: "upserted gt_header (\<lambda>rows t. t\<lparr>gt_header := rows\<rparr>) hg_Name (domainName r) ?turnpike (view (pw_pulp w1)) (view (pw_pulp w2)) h2"
    using rhid_guard_upserted [OF z f(1) run2 [unfolded CreateOrUpdateTurnpikeGuard_def]] .
  have u3: "upserted gt_composite (\<lambda>rows t. t\<lparr>gt_composite := rows\<rparr>) cg_Name (domainName r)
      \<lparr>cg_Name = rhelCompositeGuardName ?fs, cg_Guards = map Some (hs @ [h2])\<rparr> (view (pw_pulp w2)) (view (pw_pulp w')) href"
    using composite_guard_upserted [OF z _ run3 [unfolded createOrUpdateRhelCompositeGuard_def createOrUpdateNamedCompositeGuard_def]] u2
    by (simp add: upserted_def)
  let ?t = "view (pw_pulp w')"
  have ok': "tables_ok ?t" and top: "(domainName r, href, \<lparr>cg_Name = rhelCompositeGuardName ?fs, cg_Guards = map Some (hs @ [h2])\<rparr>) \<in> set (gt_composite ?t)"
    and row: "(domainName r, h2, ?turnpike) \<in> set (gt_header ?t)"
    and rows: "list_all2 (\<lambda>f h. (domainName r, h, feature_guard f) \<in> set (gt_feature ?t)) ?fs hs"
    using u2 u3 f(2) by (auto simp: upserted_def)
  have "list_all2 (\<lambda>f h. child_permits ?t entitled ident h \<longleftrightarrow> feature_permits entitled ident (feature_guard f)) ?fs hs"
    using rows by (rule list_all2_mono) (rule feature_child [OF ok'])
  then have "(\<exists>h \<in> set hs. child_permits ?t entitled ident h) \<longleftrightarrow> (\<exists>f \<in> set ?fs. feature_permits entitled ident (feature_guard f))"
    by (induction rule: list_all2_induct) auto
  then show ?thesis
    using composite_permits [OF ok' top, of "hs @ [h2]"] header_child [OF ok' row]
    by (auto simp: rhid_permits feature_guard_permits)
qed

section \<open>A concrete Pulp\<close>

text \<open>A Pulp that keeps the guards in tables and names a new one after all that are there.\<close>

definition unused_zest :: "'p zest" where
  "unused_zest = \<lparr>z_HTTPClient = None, z_TasksRead = \<lambda>_ p. (ZestErr None (Other ''unused''), p),
      z_TasksCancel = \<lambda>_ _ p. (ZestErr None (Other ''unused''), p),
      z_DistributionsCreate = \<lambda>_ _ p. (ZestErr None (Other ''unused''), p),
      z_DistributionsList = \<lambda>_ _ p. (ZestErr None (Other ''unused''), p),
      z_DistributionsDelete = \<lambda>_ p. (ZestErr None (Other ''unused''), p),
      z_DistributionsUpdate = \<lambda>_ _ p. (ZestErr None (Other ''unused''), p),
      z_PublicationsCreate = \<lambda>_ _ p. (ZestErr None (Other ''unused''), p),
      z_PublicationsList = \<lambda>_ _ p. (ZestErr None (Other ''unused''), p),
      z_RepositoriesCreate = \<lambda>_ _ _ p. (ZestErr None (Other ''unused''), p),
      z_RepositoriesListName = \<lambda>_ _ p. (ZestErr None (Other ''unused''), p),
      z_RepositoriesListRemote = \<lambda>_ _ p. (ZestErr None (Other ''unused''), p),
      z_RepositoriesSync = \<lambda>_ _ _ p. (ZestErr None (Other ''unused''), p),
      z_RepositoriesDelete = \<lambda>_ p. (ZestErr None (Other ''unused''), p),
      z_RepositoriesModify = \<lambda>_ _ _ p. (ZestErr None (Other ''unused''), p),
      z_VersionsRead = \<lambda>_ p. (ZestErr None (Other ''unused''), p),
      z_VersionsDelete = \<lambda>_ p. (ZestErr None (Other ''unused''), p),
      z_VersionsRepair = \<lambda>_ _ p. (ZestErr None (Other ''unused''), p),
      z_RemotesCreate = \<lambda>_ _ p. (ZestErr None (Other ''unused''), p),
      z_RemotesUpdate = \<lambda>_ _ _ _ _ p. (ZestErr None (Other ''unused''), p),
      z_RemotesListName = \<lambda>_ _ p. (ZestErr None (Other ''unused''), p),
      z_RemotesDelete = \<lambda>_ p. (ZestErr None (Other ''unused''), p),
      z_DomainsList = \<lambda>_ _ p. (ZestErr None (Other ''unused''), p),
      z_DomainsCreate = \<lambda>_ _ p. (ZestErr None (Other ''unused''), p),
      z_DomainsUpdate = \<lambda>_ _ p. (ZestErr None (Other ''unused''), p),
      z_PackagesList = \<lambda>_ _ _ _ p. (ZestErr None (Other ''unused''), p),
      z_NullableStringEqual = \<lambda>_ _. False,
      z_HeaderCreate = \<lambda>_ _ p. (ZestErr None (Other ''unused''), p),
      z_HeaderList = \<lambda>_ _ p. (ZestErr None (Other ''unused''), p),
      z_HeaderUpdate = \<lambda>_ _ _ _ p. (ZestErr None (Other ''unused''), p),
      z_CompositeCreate = \<lambda>_ _ p. (ZestErr None (Other ''unused''), p),
      z_CompositeList = \<lambda>_ _ p. (ZestErr None (Other ''unused''), p),
      z_CompositeUpdate = \<lambda>_ _ p. (ZestErr None (Other ''unused''), p),
      z_FeatureCreate = \<lambda>_ _ p. (ZestErr None (Other ''unused''), p),
      z_FeatureList = \<lambda>_ _ p. (ZestErr None (Other ''unused''), p),
      z_FeatureUpdate = \<lambda>_ _ p. (ZestErr None (Other ''unused''), p)\<rparr>"

definition answer200 :: http_resp where
  "answer200 = \<lparr>hr_StatusCode = 200, hr_Body = [], hr_task = None\<rparr>"

definition sim_list :: "(guard_tables \<Rightarrow> 'g guard_rows) \<Rightarrow> ('g \<Rightarrow> string) \<Rightarrow> string \<Rightarrow> string \<Rightarrow> ((string option \<times> 'g) list, guard_tables) zest_call" where
  "sim_list get nm d n t =
     (ZestOk answer200 (map (\<lambda>row. (Some (row_href row), snd (snd row))) (filter (named nm d n) (get t))), t)"

definition sim_create ::
  "(guard_tables \<Rightarrow> 'g guard_rows) \<Rightarrow> ('g guard_rows \<Rightarrow> guard_tables \<Rightarrow> guard_tables) \<Rightarrow> string \<Rightarrow> 'g \<Rightarrow> (string option, guard_tables) zest_call" where
  "sim_create get put d g t = (let h = CHR ''g'' # concat (all_hrefs t) in
     (ZestOk answer200 (Some h), put (get t @ [(d, h, g)]) t))"

definition sim_update ::
  "(guard_tables \<Rightarrow> 'g guard_rows) \<Rightarrow> ('g guard_rows \<Rightarrow> guard_tables \<Rightarrow> guard_tables) \<Rightarrow> ('a \<Rightarrow> 'g \<Rightarrow> 'g) \<Rightarrow> string \<Rightarrow> 'a \<Rightarrow> (string option, guard_tables) zest_call" where
  "sim_update get put patch href a t =
     (ZestOk answer200 (Some href), put (map (\<lambda>(d, h', g). (d, h', if h' = href then patch a g else g)) (get t)) t)"

definition guards_zest :: "guard_tables zest" where
  "guards_zest = unused_zest
     \<lparr>z_HeaderList := sim_list gt_header hg_Name,
      z_HeaderCreate := sim_create gt_header (\<lambda>rows t. t\<lparr>gt_header := rows\<rparr>),
      z_HeaderUpdate := \<lambda>href n v j. sim_update gt_header (\<lambda>rows t. t\<lparr>gt_header := rows\<rparr>) patch_header href (n, v, j),
      z_FeatureList := sim_list gt_feature fg_Name,
      z_FeatureCreate := sim_create gt_feature (\<lambda>rows t. t\<lparr>gt_feature := rows\<rparr>),
      z_FeatureUpdate := sim_update gt_feature (\<lambda>rows t. t\<lparr>gt_feature := rows\<rparr>) (\<lambda>new g. new),
      z_CompositeList := sim_list gt_composite cg_Name,
      z_CompositeCreate := sim_create gt_composite (\<lambda>rows t. t\<lparr>gt_composite := rows\<rparr>),
      z_CompositeUpdate := sim_update gt_composite (\<lambda>rows t. t\<lparr>gt_composite := rows\<rparr>) (\<lambda>guards g. g\<lparr>cg_Guards := guards\<rparr>)\<rparr>"

lemma longer_is_fresh: "x # concat xs \<notin> set xs"
proof
  assume "x # concat xs \<in> set xs"
  then have "length (x # concat xs) \<le> length (concat xs)"
    by (metis concat.simps(2) concat_append in_set_conv_decomp le_add1 le_add2 le_trans length_append)
  then show False by simp
qed

lemma sim_laws:
  "list_ok id get nm (sim_list get nm)"
  "create_ok id get put (sim_create get put)"
  "update_ok id get put patch (sim_update get put patch)"
  by (simp_all add: list_ok_def create_ok_def update_ok_def sim_list_def sim_create_def sim_update_def Let_def longer_is_fresh)

lemma guards_zest_laws: "pulp_guards id guards_zest"
proof -
  have "(\<lambda>href (n, v, j). sim_update gt_header (\<lambda>rows t. t\<lparr>gt_header := rows\<rparr>) patch_header href (n, v, j)) =
      sim_update gt_header (\<lambda>rows t. t\<lparr>gt_header := rows\<rparr>) patch_header"
    by (simp add: fun_eq_iff)
  then show ?thesis by (simp add: pulp_guards_def guards_zest_def unused_zest_def sim_laws)
qed

definition pulp_demo_config :: PulpConfig where
  "pulp_demo_config = \<lparr>pc_StorageType = STORAGE_TYPE_LOCAL, pc_CustomRepoObjects = \<lparr>os_URL = [], os_AccessKey = [], os_SecretKey = [], os_Name = [], os_Region = []\<rparr>,
     pc_DownloadPolicy = DownloadPolicyOnDemand, pc_GuardSubjectDn = ''CN=turnpike'', pc_RepoContentGuards = True\<rparr>"

definition guards_client :: "guard_tables pulpDaoImpl" where
  "guards_client = \<lparr>domainName = ''cs-1'', p_config = pulp_demo_config, p_zest = guards_zest, p_rounds = 3\<rparr>"

text \<open>A domain in which an earlier run has left an org guard with another organisation's id.\<close>

definition stale_guards :: "guard_tables pulp_world" where
  "stale_guards = \<lparr>pw_pulp = \<lparr>gt_header = [(''cs-1'', ''h'', rhid_guard ORG_ID_GUARD_NAME ORG_ID_JQ_FILTER ''other'')], gt_feature = [], gt_composite = []\<rparr>,
     pw_cancel = None, pw_cause = Context_Canceled, pw_slept = 0\<rparr>"

text \<open>
  C22. Who may download: when Pulp keeps its promises about guards, the composite guard
  \<open>CreateOrUpdateGuardsForOrg\<close> returns lets through exactly the callers of that organisation and
  the turnpike certificate, whatever guards the domain held before; the one
  \<open>CreateOrUpdateGuardsForRhelRepo\<close> returns lets through exactly the callers whose organisation
  is entitled to one of the features, and the turnpike certificate.
\<close>

theorem guards_let_through_exactly:
  assumes "pulp_guards view (p_zest r)" "tables_ok (view (pw_pulp w))"
  shows "(\<forall>orgId href w'. CreateOrUpdateGuardsForOrg r ctx orgId w = (Inr href, w') \<longrightarrow>
      (permits (view (pw_pulp w')) entitled ident href \<longleftrightarrow>
        ident ORG_ID_JQ_FILTER = Some orgId \<or> ident TURNPIKE_JQ_FILTER = Some (pc_GuardSubjectDn (p_config r)))) \<and>
    (\<forall>featureName href w'. CreateOrUpdateGuardsForRhelRepo r ctx featureName w = (Inr href, w') \<longrightarrow>
      (permits (view (pw_pulp w')) entitled ident href \<longleftrightarrow>
        (\<exists>org. ident ORG_ID_JQ_FILTER = Some org \<and> (\<exists>f \<in> set (ParseFeatures featureName). entitled org f)) \<or>
        ident TURNPIKE_JQ_FILTER = Some (pc_GuardSubjectDn (p_config r))))"
  by (intro conjI allI impI) (fact guards_for_org [OF assms] guards_for_features [OF assms])+

theorem guards_let_through_exactly_witness:
  "(let (result, w') = CreateOrUpdateGuardsForOrg guards_client TaskCtx ''acme'' stale_guards in
    case result of Inl err \<Rightarrow> False | Inr href \<Rightarrow>
      permits (pw_pulp w') (\<lambda>_ _. False) [ORG_ID_JQ_FILTER \<mapsto> ''acme''] href \<and>
      \<not> permits (pw_pulp w') (\<lambda>_ _. False) [ORG_ID_JQ_FILTER \<mapsto> ''other''] href)"
proof -
  have laws: "pulp_guards id (p_zest guards_client)" by (simp add: guards_client_def guards_zest_laws)
  have ok: "tables_ok (id (pw_pulp stale_guards))" by code_simp
  let ?run = "CreateOrUpdateGuardsForOrg guards_client TaskCtx ''acme'' stale_guards"
  have "\<not> isl (fst ?run)" by code_simp
  then obtain href where "?run = (Inr href, snd ?run)" by (cases ?run; cases "fst ?run") auto
  moreover have "ORG_ID_JQ_FILTER \<noteq> TURNPIKE_JQ_FILTER" by code_simp
  ultimately show ?thesis
    using guards_let_through_exactly [OF laws ok, of TaskCtx "\<lambda>_ _. False" "[ORG_ID_JQ_FILTER \<mapsto> ''acme'']"]
      guards_let_through_exactly [OF laws ok, of TaskCtx "\<lambda>_ _. False" "[ORG_ID_JQ_FILTER \<mapsto> ''other'']"]
    by (auto simp: Let_def)
qed

text \<open>
  The composite guard of a Red Hat repository is named after its features, joined by underscores:
  different feature lists can share the name, and then the guard. Here a repository with the feature
  \<open>a_b\<close> is opened to organisations entitled to \<open>a\<close> when another one has the features \<open>a\<close> and \<open>b\<close>.
\<close>

lemma rhel_guard_shared:
  "(let w = stale_guards; entitled = (\<lambda>org f. f = ''a''); ident = [ORG_ID_JQ_FILTER \<mapsto> ''acme''];
        (r1, w1) = CreateOrUpdateGuardsForRhelRepo guards_client TaskCtx ''a_b'' w;
        (r2, w2) = CreateOrUpdateGuardsForRhelRepo guards_client TaskCtx ''a,b'' w1
    in case r1 of Inl err \<Rightarrow> False
       | Inr href \<Rightarrow> r2 = Inr href \<and> \<not> permits (pw_pulp w1) entitled ident href \<and> permits (pw_pulp w2) entitled ident href)"
  by code_simp

end
