(* ===== verification/DaoHelpers.thy ===== *)
theory DaoHelpers
  imports ConfigDao
begin

text \<open>
  The helpers the queries share (\<open>pkg/dao/helpers.go\<close>): the order of a list, the filters on versions,
  and the checks of a search request. A filter is the condition on the columns that its SQL states.
\<close>

section \<open>The order of a list\<close>

text \<open>
  One entry of the list \<open>sort_by\<close>: a field and a direction; the comma is added when the entry is not
  the last of the request.
\<close>

definition sort_entry :: "(string \<rightharpoonup> string) \<Rightarrow> string \<Rightarrow> bool \<Rightarrow> string" where
  "sort_entry SortMap sortBy isLast =
     (let split = Split sortBy CHR '':'';
          ascOrDesc = (if 1 < length split \<and> split ! 1 = ''desc'' then '' desc'' else '' asc'')
      in case SortMap (TrimSpace (split ! 0)) of
           None \<Rightarrow> ''''
         | Some sortField \<Rightarrow> sortField @ ascOrDesc @ (if isLast then '''' else '', ''))"

fun sort_entries :: "(string \<rightharpoonup> string) \<Rightarrow> string list \<Rightarrow> string" where
  "sort_entries SortMap [] = ''''"
| "sort_entries SortMap (sortBy # rest) = sort_entry SortMap sortBy (rest = []) @ sort_entries SortMap rest"

definition convertSortByToSQL :: "string \<Rightarrow> (string \<rightharpoonup> string) \<Rightarrow> string \<Rightarrow> string" where
  "convertSortByToSQL SortBy SortMap defaultSortBy =
     (let sqlOrderBy = sort_entries SortMap (Split SortBy CHR '','') in
      if sqlOrderBy = '''' \<and> defaultSortBy \<noteq> '''' then defaultSortBy else sqlOrderBy)"

section \<open>Versions\<close>

fun splitVersionFilters :: "string list \<Rightarrow> string list \<times> string list" where
  "splitVersionFilters [] = ([], [])"
| "splitVersionFilters (value # values) =
     (let value = TrimSpace value; (majors, minors) = splitVersionFilters values in
      if value = '''' then (majors, minors)
      else if StrContains value ''.'' then (majors, value # minors)
      else (value # majors, minors))"

text \<open>The condition on a row's \<open>version\<close> and \<open>extended_release_version\<close> (null and blank are the same here).\<close>

definition noMinorVersion :: "string \<Rightarrow> bool" where
  "noMinorVersion extended_release_version = (extended_release_version = '''')"

definition applyVersionFilter :: "string \<Rightarrow> bool \<Rightarrow> string \<Rightarrow> string \<Rightarrow> bool" where
  "applyVersionFilter version restrictToMajor v minor =
     (if version = '''' then restrictToMajor \<longrightarrow> noMinorVersion minor
      else
        (let (majorVersions, minorVersions) = splitVersionFilters (Split version CHR '','') in
         if 0 < length majorVersions \<and> 0 < length minorVersions then
           (if restrictToMajor then v \<in> set majorVersions \<and> noMinorVersion minor \<or> minor \<in> set minorVersions
            else v \<in> set majorVersions \<or> minor \<in> set minorVersions)
         else if 0 < length majorVersions then
           (if restrictToMajor then v \<in> set majorVersions \<and> noMinorVersion minor else v \<in> set majorVersions)
         else if 0 < length minorVersions then minor \<in> set minorVersions
         else True))"

text \<open>
  \<open>LIKE\<close> on characters: a percent sign stands for any characters, an underscore for one, and a
  backslash takes the meaning from the next.
\<close>

fun like_from :: "string list \<Rightarrow> string list \<Rightarrow> bool" where
  "like_from [] s = (s = [])"
| "like_from (p # ps) s =
     (if p = ''%'' then like_from ps s \<or> (case s of [] \<Rightarrow> False | _ # s' \<Rightarrow> like_from (p # ps) s')
      else case s of
        [] \<Rightarrow> False
      | c # s' \<Rightarrow>
          (if p = [CHR 0x5C] then (case ps of [] \<Rightarrow> False | q # qs \<Rightarrow> c = q \<and> like_from qs s')
           else (p = ''_'' \<or> c = p) \<and> like_from ps s'))"

definition sql_like :: "string \<Rightarrow> string \<Rightarrow> bool" where
  "sql_like s pattern = like_from (rune_spans pattern) (rune_spans s)"

section \<open>Search requests\<close>

record ContentUnitSearchRequest =
  cu_URLs :: "string list"
  cu_UUIDs :: "string list"
  cu_Search :: string
  cu_ExactNames :: "string list"
  cu_Limit :: "int option"

definition ContentUnitSearchRequestLimitDefault :: int where "ContentUnitSearchRequestLimitDefault = 100"
definition ContentUnitSearchRequestLimitMaximum :: int where "ContentUnitSearchRequestLimitMaximum = 500"

definition checkRequestUrlAndUuids :: "ContentUnitSearchRequest \<Rightarrow> go_error option" where
  "checkRequestUrlAndUuids request =
     (if length (cu_URLs request) = 0 \<and> length (cu_UUIDs request) = 0
      then Some (DaoLeaf ''must contain at least 1 URL or 1 UUID'' DaoBadValidation) else None)"

definition checkRequestLimit :: "ContentUnitSearchRequest \<Rightarrow> ContentUnitSearchRequest" where
  "checkRequestLimit request =
     (let limit = (case cu_Limit request of None \<Rightarrow> ContentUnitSearchRequestLimitDefault | Some l \<Rightarrow> l) in
      request\<lparr>cu_Limit := Some (if limit > ContentUnitSearchRequestLimitMaximum then ContentUnitSearchRequestLimitMaximum else limit)\<rparr>)"

definition handleTailChars :: "ContentUnitSearchRequest \<Rightarrow> string list" where
  "handleTailChars request = concat (map (\<lambda>url. [url, url @ ''/'']) (cu_URLs request))"

section \<open>Checks of rows\<close>

definition isOwnedRepository :: "ctx \<Rightarrow> string \<Rightarrow> string \<Rightarrow> (bool, ('p, 'x) db_world_scheme) io" where
  "isOwnedRepository ctx orgID repositoryConfigUUID =
     (let repoConfigs = (\<lambda>w. filter (\<lambda>c. co_OrgID c \<in> {orgID, RedHatOrg, CommunityOrg, LightwellOrg, LightwellDemoOrg} \<and>
         co_UUID c = repositoryConfigUUID \<and> \<not> co_Deleted c) (tw_configs w))
      in
      bindIO (queryIO ctx (\<lambda>w. Inr (repoConfigs w))) (\<lambda>_.
      bindIO (queryIO ctx (\<lambda>w. Inr (length (repoConfigs w)))) (\<lambda>count.
      returnIO (count \<noteq> 0))))"

text \<open>
  The first UUID or URL without a row; whatever error a query ends with counts as such a one, and
  UUIDs are looked at first.
\<close>

fun first_missing :: "ctx \<Rightarrow> (('p, 'x) db_world_scheme \<Rightarrow> string \<Rightarrow> bool) \<Rightarrow> string list \<Rightarrow> (string option, ('p, 'x) db_world_scheme) io" where
  "first_missing ctx exists [] = returnIO None"
| "first_missing ctx exists (key # keys) =
     caseIO (queryIO ctx (\<lambda>w. if exists w key then Inr () else Inl ErrRecordNotFound))
       (\<lambda>_. returnIO (Some key)) (\<lambda>_. first_missing ctx exists keys)"

definition checkForValidRepoUuidsUrls ::
  "ctx \<Rightarrow> string list \<Rightarrow> string list \<Rightarrow> (bool \<times> bool \<times> string \<times> string, ('p, 'x) db_world_scheme) io" where
  "checkForValidRepoUuidsUrls ctx uuids urls =
     bindIO (first_missing ctx (\<lambda>w uuid. list_ex (\<lambda>c. co_UUID c = uuid \<and> \<not> co_Deleted c) (tw_configs w)) uuids) (\<lambda>badUuid.
       case badUuid of
         Some uuid \<Rightarrow> returnIO (False, True, uuid, '''')
       | None \<Rightarrow>
           bindIO (first_missing ctx (\<lambda>w url. list_ex (\<lambda>r. rp_URL r = url) (tw_repositories w)) urls) (\<lambda>badUrl.
             case badUrl of
               Some url \<Rightarrow> returnIO (True, False, '''', url)
             | None \<Rightarrow> returnIO (True, True, '''', '''')))"

definition checkForValidSnapshotUuids :: "ctx \<Rightarrow> string list \<Rightarrow> (bool \<times> string, ('p, 'x) db_world_scheme) io" where
  "checkForValidSnapshotUuids ctx uuids =
     bindIO (first_missing ctx (\<lambda>w uuid. list_ex (\<lambda>s. sn_UUID s = uuid \<and> \<not> sn_Deleted s) (tw_snapshots w)) uuids) (\<lambda>bad.
       returnIO (case bad of Some uuid \<Rightarrow> (False, uuid) | None \<Rightarrow> (True, '''')))"

end
