(* ===== verification/TemplateDao.thy ===== *)
theory TemplateDao
  imports DaoHelpers
begin

text \<open>
  Templates and their associations with repositories and snapshots (\<open>pkg/dao/templates.go\<close>). Of a
  template's response the fields are those the tasks and handlers read; events that are sent about
  it are left out.
\<close>

section \<open>Requests and responses\<close>

text \<open>A pointer is an option, and so are a slice that may be nil and a zero time.\<close>

record TemplateRequest =
  tq_Name :: "string option"
  tq_Description :: "string option"
  tq_RepositoryUUIDS :: "string list option"
  tq_Arch :: "string option"
  tq_Version :: "string option"
  tq_ExtendedRelease :: "string option"
  tq_ExtendedReleaseVersion :: "string option"
  tq_Date :: "timestamp option option"
  tq_OrgID :: "string option"
  tq_User :: "string option"
  tq_UseLatest :: "bool option"

record TemplateUpdateRequest =
  tu_Name :: "string option"
  tu_Description :: "string option"
  tu_ExtendedReleaseVersion :: "string option"
  tu_RepositoryUUIDS :: "string list option"
  tu_Date :: "timestamp option option"
  tu_OrgID :: "string option"
  tu_User :: "string option"
  tu_UseLatest :: "bool option"

record TemplateResponse =
  tp_UUID :: string
  tp_Name :: string
  tp_OrgID :: string
  tp_Date :: "timestamp option"
  tp_UseLatest :: bool
  tp_RepositoryUUIDS :: "string list"
  tp_RHSMEnvironmentCreated :: bool
  tp_DeletedAt :: DeletedAt

definition set_if :: "'a option \<Rightarrow> ('a \<Rightarrow> 'm \<Rightarrow> 'm) \<Rightarrow> 'm \<Rightarrow> 'm" where
  "set_if v f m = (case v of None \<Rightarrow> m | Some a \<Rightarrow> f a m)"

definition templatesCreateApiToModel :: "TemplateRequest \<Rightarrow> template_row \<Rightarrow> template_row" where
  "templatesCreateApiToModel req t =
     (set_if (tq_ExtendedReleaseVersion req) (\<lambda>v t. t\<lparr>t_ExtendedReleaseVersion := v\<rparr>)
     (set_if (tq_ExtendedRelease req) (\<lambda>v t. t\<lparr>t_ExtendedRelease := v\<rparr>)
     (set_if (tq_UseLatest req) (\<lambda>v t. t\<lparr>t_UseLatest := v\<rparr>)
     (set_if (tq_User req) (\<lambda>v t. t\<lparr>t_LastUpdatedBy := v\<rparr>)
     (set_if (tq_OrgID req) (\<lambda>v t. t\<lparr>t_OrgID := v\<rparr>)
     (set_if (tq_Date req) (\<lambda>v t. t\<lparr>t_Date := v\<rparr>)
     (set_if (tq_Arch req) (\<lambda>v t. t\<lparr>t_Arch := v\<rparr>)
     (set_if (tq_Version req) (\<lambda>v t. t\<lparr>t_Version := v\<rparr>)
     (set_if (tq_Description req) (\<lambda>v t. t\<lparr>t_Description := v\<rparr>)
     (set_if (tq_Name req) (\<lambda>v t. t\<lparr>t_Name := v\<rparr>) t))))))))))"

definition templatesUpdateApiToModel :: "TemplateUpdateRequest \<Rightarrow> template_row \<Rightarrow> template_row" where
  "templatesUpdateApiToModel req t =
     (set_if (tu_UseLatest req) (\<lambda>v t. t\<lparr>t_UseLatest := v\<rparr>)
     (set_if (tu_Name req) (\<lambda>v t. t\<lparr>t_Name := v\<rparr>)
     (set_if (tu_User req) (\<lambda>v t. t\<lparr>t_LastUpdatedBy := v\<rparr>)
     (set_if (tu_OrgID req) (\<lambda>v t. t\<lparr>t_OrgID := v\<rparr>)
     (set_if (tu_Date req) (\<lambda>v t. t\<lparr>t_Date := v\<rparr>)
     (set_if (tu_ExtendedReleaseVersion req) (\<lambda>v t. t\<lparr>t_ExtendedReleaseVersion := v\<rparr>)
     (set_if (tu_Description req) (\<lambda>v t. t\<lparr>t_Description := v\<rparr>) t)))))))"

definition templatesModelToApi :: "template_row \<Rightarrow> TemplateResponse" where
  "templatesModelToApi t =
     \<lparr>tp_UUID = t_UUID t, tp_Name = t_Name t, tp_OrgID = t_OrgID t, tp_Date = t_Date t, tp_UseLatest = t_UseLatest t,
      tp_RepositoryUUIDS = [], tp_RHSMEnvironmentCreated = te_RHSMEnvironmentCreated t, tp_DeletedAt = t_DeletedAt t\<rparr>"

text \<open>A template as it is read: after its hook, with the associations that were read with it.\<close>

definition templatesConvertToResponse :: "template_row \<times> trc_row list \<Rightarrow> TemplateResponse" where
  "templatesConvertToResponse r =
     (case r of (t, trcs) \<Rightarrow>
        (templatesModelToApi (template_AfterFind t))\<lparr>tp_RepositoryUUIDS := map trc_RepositoryConfigurationUUID trcs\<rparr>)"

definition trcs_of :: "bool \<Rightarrow> ('p, 'x) db_world_scheme \<Rightarrow> template_row \<Rightarrow> trc_row list" where
  "trcs_of unscoped w t = filter (\<lambda>r. trc_TemplateUUID r = t_UUID t \<and> (unscoped \<or> \<not> trc_Deleted r)) (tw_trcs w)"

text \<open>Every query that answers templates ends with the content path and the latest snapshots of their repositories.\<close>

definition to_responses ::
  "DaoRegistry \<Rightarrow> ctx \<Rightarrow> (template_row \<times> trc_row list) list \<Rightarrow> (TemplateResponse list, ('p, 'x) db_world_scheme) io" where
  "to_responses reg ctx rows =
     bindIO (whenIO (dr_SnapshotsEnabled reg) (bindIO (resultIO (dr_GetContentPath reg)) (\<lambda>_. returnIO ()))) (\<lambda>_.
     bindIO (mapErrIO (\<lambda>e. TemplateDBToApiError e None) (queryIO ctx (\<lambda>w. Inr ()))) (\<lambda>_.
     returnIO (map templatesConvertToResponse rows)))"

section \<open>Reading\<close>

definition template_fetch :: "ctx \<Rightarrow> string \<Rightarrow> string \<Rightarrow> bool \<Rightarrow> (template_row \<times> trc_row list, ('p, 'x) db_world_scheme) io" where
  "template_fetch ctx orgID uuid includeSoftDel =
     mapErrIO (\<lambda>e. TemplateDBToApiError e (Some uuid)) (queryIO ctx (\<lambda>w.
       record_or_not_found (map_option (\<lambda>t. (t, trcs_of includeSoftDel w t))
         (find (\<lambda>t. t_UUID t = uuid \<and> t_OrgID t = orgID \<and> (includeSoftDel \<or> \<not> template_deleted t)) (tw_templates w)))))"

definition Template_Fetch ::
  "DaoRegistry \<Rightarrow> ctx \<Rightarrow> string \<Rightarrow> string \<Rightarrow> bool \<Rightarrow> (TemplateResponse, ('p, 'x) db_world_scheme) io" where
  "Template_Fetch reg ctx orgID uuid includeSoftDel =
     bindIO (template_fetch ctx orgID uuid includeSoftDel) (\<lambda>row.
     bindIO (to_responses reg ctx [row]) (\<lambda>resps. returnIO (hd resps)))"

record TemplateFilterData =
  tf_Name :: string
  tf_Arch :: string
  tf_Version :: string
  tf_ExtendedRelease :: string
  tf_ExtendedReleaseVersion :: string
  tf_RestrictToMajor :: bool
  tf_Search :: string
  tf_RepositoryUUIDs :: "string list"
  tf_SnapshotUUIDs :: "string list"
  tf_UseLatest :: bool

definition no_filter :: TemplateFilterData where
  "no_filter = \<lparr>tf_Name = '''', tf_Arch = '''', tf_Version = '''', tf_ExtendedRelease = '''', tf_ExtendedReleaseVersion = '''',
     tf_RestrictToMajor = False, tf_Search = '''', tf_RepositoryUUIDs = [], tf_SnapshotUUIDs = [], tf_UseLatest = False\<rparr>"

text \<open>A list of values separated by commas; with \<open>none\<close> in it a blank column is accepted too.\<close>

definition in_streams :: "string \<Rightarrow> string \<Rightarrow> bool" where
  "in_streams values column =
     (let streams = Split values CHR '','' in
      if ''none'' \<in> set streams then column \<in> set streams \<or> column = '''' else column \<in> set streams)"

text \<open>
  The condition of the list on a template and an association joined with it (\<open>j\<close>; there is no join
  when neither list is given). Conditions are joined with AND in the order they are added, and the
  one on snapshots, when both lists are given, with OR.
\<close>

definition filteredDbForList :: "string \<Rightarrow> TemplateFilterData \<Rightarrow> template_row \<Rightarrow> trc_row option \<Rightarrow> bool" where
  "filteredDbForList orgID f t j =
     (let columns = (t_OrgID t = orgID \<and>
            (tf_Name f \<noteq> '''' \<longrightarrow> t_Name t = tf_Name f) \<and>
            (tf_Arch f \<noteq> '''' \<longrightarrow> t_Arch t = tf_Arch f) \<and>
            applyVersionFilter (tf_Version f) (tf_RestrictToMajor f) (t_Version t) (t_ExtendedReleaseVersion t) \<and>
            (tf_ExtendedRelease f \<noteq> '''' \<longrightarrow> in_streams (tf_ExtendedRelease f) (t_ExtendedRelease t)) \<and>
            (tf_ExtendedReleaseVersion f \<noteq> '''' \<and> \<not> tf_RestrictToMajor f \<longrightarrow>
               in_streams (tf_ExtendedReleaseVersion f) (t_ExtendedReleaseVersion t)) \<and>
            (tf_Search f \<noteq> '''' \<longrightarrow> sql_like (t_Name t) (''%'' @ tf_Search f @ ''%'')));
          byRepo = (case j of None \<Rightarrow> True | Some r \<Rightarrow> trc_RepositoryConfigurationUUID r \<in> set (tf_RepositoryUUIDs f));
          bySnap = (case j of None \<Rightarrow> True | Some r \<Rightarrow> trc_SnapshotUUID r \<in> set (tf_SnapshotUUIDs f));
          useLatest = (tf_UseLatest f \<longrightarrow> t_UseLatest t)
      in
      if tf_RepositoryUUIDs f \<noteq> [] \<and> tf_SnapshotUUIDs f \<noteq> []
      then columns \<and> byRepo \<or> bySnap \<and> useLatest
      else if tf_RepositoryUUIDs f \<noteq> [] then columns \<and> byRepo \<and> useLatest
      else if tf_SnapshotUUIDs f \<noteq> [] then columns \<and> bySnap \<and> useLatest
      else columns \<and> useLatest)"

definition listed_templates :: "string \<Rightarrow> bool \<Rightarrow> TemplateFilterData \<Rightarrow> ('p, 'x) db_world_scheme \<Rightarrow> template_row list" where
  "listed_templates orgID includeSoftDel f w =
     filter (\<lambda>t. (includeSoftDel \<or> \<not> template_deleted t) \<and>
         (if tf_RepositoryUUIDs f \<noteq> [] \<or> tf_SnapshotUUIDs f \<noteq> []
          then list_ex (\<lambda>r. trc_TemplateUUID r = t_UUID t \<and> filteredDbForList orgID f t (Some r)) (tw_trcs w)
          else filteredDbForList orgID f t None)) (tw_templates w)"

text \<open>
  \<open>List\<close> without paging (as the tasks call it, with limit -1): the count, then the rows with their
  associations. The order is by name.
\<close>

definition Template_List ::
  "DaoRegistry \<Rightarrow> ctx \<Rightarrow> string \<Rightarrow> bool \<Rightarrow> TemplateFilterData \<Rightarrow> (TemplateResponse list \<times> nat, ('p, 'x) db_world_scheme) io" where
  "Template_List reg ctx orgID includeSoftDel f =
     bindIO (mapErrIO (\<lambda>e. TemplateDBToApiError e None)
       (queryIO ctx (\<lambda>w. Inr (length (remdups (map t_UUID (listed_templates orgID includeSoftDel f w))))))) (\<lambda>count.
     bindIO (mapErrIO (\<lambda>e. TemplateDBToApiError e None)
       (queryIO ctx (\<lambda>w. Inr (map (\<lambda>t. (t, trcs_of includeSoftDel w t))
          (sort_key t_Name (listed_templates orgID includeSoftDel f w)))))) (\<lambda>rows.
     bindIO (to_responses reg ctx rows) (\<lambda>resps. returnIO (resps, count))))"

text \<open>The rows of an inner join of templates with the associations that satisfy a condition.\<close>

definition templates_joined :: "(trc_row \<Rightarrow> bool) \<Rightarrow> ('p, 'x) db_world_scheme \<Rightarrow> template_row list" where
  "templates_joined P w = concat (map (\<lambda>t. map (\<lambda>_. t) (filter (\<lambda>r. trc_TemplateUUID r = t_UUID t \<and> P r) (tw_trcs w)))
     (filter (\<lambda>t. \<not> template_deleted t) (tw_templates w)))"

definition InternalOnlyGetTemplatesForRepoConfig ::
  "DaoRegistry \<Rightarrow> ctx \<Rightarrow> string \<Rightarrow> bool \<Rightarrow> (TemplateResponse list, ('p, 'x) db_world_scheme) io" where
  "InternalOnlyGetTemplatesForRepoConfig reg ctx repoUUID useLatestOnly =
     bindIO (mapErrIO (\<lambda>e. TemplateDBToApiError e None) (queryIO ctx (\<lambda>w. Inr (map (\<lambda>t. (t, []))
       (filter (\<lambda>t. useLatestOnly \<longrightarrow> t_UseLatest t)
         (templates_joined (\<lambda>r. trc_RepositoryConfigurationUUID r = repoUUID \<and> \<not> trc_Deleted r) w)))))) (to_responses reg ctx)"

definition InternalOnlyGetTemplatesForSnapshots ::
  "DaoRegistry \<Rightarrow> ctx \<Rightarrow> string list \<Rightarrow> (TemplateResponse list, ('p, 'x) db_world_scheme) io" where
  "InternalOnlyGetTemplatesForSnapshots reg ctx snapUUIDs =
     bindIO (mapErrIO (\<lambda>e. TemplateDBToApiError e None) (queryIO ctx (\<lambda>w. Inr (map (\<lambda>t. (t, []))
       (templates_joined (\<lambda>r. trc_SnapshotUUID r \<in> set snapUUIDs) w))))) (to_responses reg ctx)"

text \<open>
  Added, removed, unchanged and all: by whether the repository is asked for and whether the
  association has a distribution. A null href reads as the blank string.
\<close>

definition GetRepoChanges ::
  "ctx \<Rightarrow> string \<Rightarrow> string list \<Rightarrow> (string list \<times> string list \<times> string list \<times> string list, ('p, 'x) db_world_scheme) io" where
  "GetRepoChanges ctx templateUUID newRepoConfigUUIDs =
     mapErrIO (\<lambda>e. TemplateDBToApiError e None) (queryIO ctx (\<lambda>w.
       (let rows = filter (\<lambda>r. trc_TemplateUUID r = templateUUID) (tw_trcs w);
            asked = (\<lambda>r. trc_RepositoryConfigurationUUID r \<in> set newRepoConfigUUIDs);
            blank = (\<lambda>r. trc_DistributionHref r = None \<or> trc_DistributionHref r = Some '''');
            uuids = map trc_RepositoryConfigurationUUID
        in Inr (uuids (filter (\<lambda>r. blank r \<and> asked r) rows), uuids (filter (\<lambda>r. \<not> asked r) rows),
                uuids (filter (\<lambda>r. \<not> blank r \<and> asked r) rows), uuids rows))))"

definition GetDistributionHref :: "ctx \<Rightarrow> string \<Rightarrow> string \<Rightarrow> (string option, ('p, 'x) db_world_scheme) io" where
  "GetDistributionHref ctx templateUUID repoConfigUUID = queryIO ctx (\<lambda>w.
     Inr (case find (\<lambda>r. trc_TemplateUUID r = templateUUID \<and> trc_RepositoryConfigurationUUID r = repoConfigUUID) (tw_trcs w) of
            None \<Rightarrow> None | Some r \<Rightarrow> trc_DistributionHref r))"

section \<open>Writing associations\<close>

text \<open>
  \<open>INSERT .. ON CONFLICT (template_uuid, repository_configuration_uuid) DO UPDATE\<close>: a row with the
  same template and repository is changed by \<open>f\<close>, another is added. No row may be given twice, and
  gorm refuses an empty list. The foreign keys want the template, the configuration and the snapshot
  to exist.
\<close>

definition same_trc :: "trc_row \<Rightarrow> trc_row \<Rightarrow> bool" where
  "same_trc r s = (trc_TemplateUUID r = trc_TemplateUUID s \<and> trc_RepositoryConfigurationUUID r = trc_RepositoryConfigurationUUID s)"

definition upsert1 :: "(trc_row \<Rightarrow> trc_row \<Rightarrow> trc_row) \<Rightarrow> trc_row list \<Rightarrow> trc_row \<Rightarrow> trc_row list" where
  "upsert1 f rows new = (if list_ex (same_trc new) rows then update_where (same_trc new) (f new) rows else rows @ [new])"

definition trc_references_exist :: "('p, 'x) db_world_scheme \<Rightarrow> trc_row \<Rightarrow> bool" where
  "trc_references_exist w r =
     (list_ex (\<lambda>t. t_UUID t = trc_TemplateUUID r) (tw_templates w) \<and>
      list_ex (\<lambda>c. co_UUID c = trc_RepositoryConfigurationUUID r) (tw_configs w) \<and>
      list_ex (\<lambda>s. sn_UUID s = trc_SnapshotUUID r) (tw_snapshots w))"

definition upsert :: "ctx \<Rightarrow> (trc_row \<Rightarrow> trc_row \<Rightarrow> trc_row) \<Rightarrow> trc_row list \<Rightarrow> (unit, ('p, 'x) db_world_scheme) io" where
  "upsert ctx f news =
     mapErrIO (\<lambda>e. TemplateDBToApiError e None)
       (if news = [] then failIO (Other ''empty slice found'')
        else dbIO ctx (\<lambda>w.
          if \<not> distinct (map trc_RepositoryConfigurationUUID news) then
            (Inl (Other ''ON CONFLICT DO UPDATE command cannot affect row a second time''), w)
          else if \<not> list_all (trc_references_exist w) news then (Inl (Other ''violates foreign key constraint''), w)
          else (Inr (), w\<lparr>tw_trcs := foldl (upsert1 f) (tw_trcs w) news\<rparr>)))"

text \<open>\<open>slices.IndexFunc\<close> for the snapshot of a repository.\<close>

definition snapshot_for :: "Snapshot list \<Rightarrow> string \<Rightarrow> Snapshot option" where
  "snapshot_for snapshots repo = find (\<lambda>s. sn_RepositoryConfigurationUUID s = repo) snapshots"

text \<open>
  The rows for the given repositories; the repositories without a snapshot, in their order. The
  message prints the list of them with \<open>%v\<close>.
\<close>

definition missing_snapshots :: "string list \<Rightarrow> Snapshot list \<Rightarrow> string list" where
  "missing_snapshots repoUUIDs snapshots = filter (\<lambda>r. snapshot_for snapshots r = None) repoUUIDs"

definition trc_rows :: "string \<Rightarrow> string list \<Rightarrow> Snapshot list \<Rightarrow> (string \<Rightarrow> string option) \<Rightarrow> trc_row list" where
  "trc_rows templateUUID repoUUIDs snapshots href =
     List.map_filter (\<lambda>repo. map_option (\<lambda>s. \<lparr>trc_TemplateUUID = templateUUID, trc_RepositoryConfigurationUUID = repo,
       trc_SnapshotUUID = sn_UUID s, trc_DistributionHref = href repo, trc_Deleted = False\<rparr>) (snapshot_for snapshots repo)) repoUUIDs"

definition no_snapshots_found :: "string list \<Rightarrow> go_error" where
  "no_snapshots_found missing = Other (''no snapshots found for repositories with uuids ['' @ Join missing '' '' @ '']'')"

text \<open>An href that is not in the map is the blank string.\<close>

definition UpdateDistributionHrefs ::
  "ctx \<Rightarrow> string \<Rightarrow> string list \<Rightarrow> Snapshot list \<Rightarrow> (string \<rightharpoonup> string) \<Rightarrow> (unit, ('p, 'x) db_world_scheme) io" where
  "UpdateDistributionHrefs ctx templateUUID repoUUIDs snapshots repoDistributionMap =
     (let missing = missing_snapshots repoUUIDs snapshots in
      if missing \<noteq> [] then failIO (no_snapshots_found missing)
      else upsert ctx (\<lambda>new old. old\<lparr>trc_DistributionHref := trc_DistributionHref new\<rparr>)
        (trc_rows templateUUID repoUUIDs snapshots (\<lambda>repo. Some (case repoDistributionMap repo of None \<Rightarrow> '''' | Some href \<Rightarrow> href))))"

definition UpdateSnapshots :: "ctx \<Rightarrow> string \<Rightarrow> string list \<Rightarrow> Snapshot list \<Rightarrow> (unit, ('p, 'x) db_world_scheme) io" where
  "UpdateSnapshots ctx templateUUID repoUUIDs snapshots =
     (let missing = missing_snapshots repoUUIDs snapshots;
          rows = trc_rows templateUUID repoUUIDs snapshots (\<lambda>_. Some '''')
      in
      if missing \<noteq> [] then failIO (no_snapshots_found missing)
      else whenIO (0 < length rows) (upsert ctx (\<lambda>new old. old\<lparr>trc_SnapshotUUID := trc_SnapshotUUID new\<rparr>) rows))"

definition DeleteTemplateSnapshot :: "ctx \<Rightarrow> string \<Rightarrow> (unit, ('p, 'x) db_world_scheme) io" where
  "DeleteTemplateSnapshot ctx snapshotUUID = mapErrIO (\<lambda>e. TemplateDBToApiError e None)
     (execIO ctx (\<lambda>w. w\<lparr>tw_trcs := delete_where (\<lambda>r. trc_SnapshotUUID r = snapshotUUID) (tw_trcs w)\<rparr>))"

text \<open>An empty list of repositories to keep is \<open>NOT IN (NULL)\<close>, which no row satisfies.\<close>

definition not_kept :: "string \<Rightarrow> string list \<Rightarrow> trc_row \<Rightarrow> bool" where
  "not_kept templateUUID keep r =
     (trc_TemplateUUID r = templateUUID \<and> keep \<noteq> [] \<and> trc_RepositoryConfigurationUUID r \<notin> set keep)"

definition DeleteTemplateRepoConfigs :: "ctx \<Rightarrow> string \<Rightarrow> string list \<Rightarrow> (unit, ('p, 'x) db_world_scheme) io" where
  "DeleteTemplateRepoConfigs ctx templateUUID keep = mapErrIO (\<lambda>e. TemplateDBToApiError e None)
     (execIO ctx (\<lambda>w. w\<lparr>tw_trcs := delete_where (not_kept templateUUID keep) (tw_trcs w)\<rparr>))"

definition softDeleteTemplateRepoConfigs :: "ctx \<Rightarrow> string \<Rightarrow> string list \<Rightarrow> (unit, ('p, 'x) db_world_scheme) io" where
  "softDeleteTemplateRepoConfigs ctx templateUUID keep = mapErrIO (\<lambda>e. TemplateDBToApiError e None)
     (execIO ctx (\<lambda>w. w\<lparr>tw_trcs := update_where (\<lambda>r. not_kept templateUUID keep r \<and> \<not> trc_Deleted r) (\<lambda>r. r\<lparr>trc_Deleted := True\<rparr>) (tw_trcs w)\<rparr>))"

section \<open>Creating and updating\<close>

definition validateRepositoryUUIDs :: "ctx \<Rightarrow> string \<Rightarrow> string list \<Rightarrow> (unit, ('p, 'x) db_world_scheme) io" where
  "validateRepositoryUUIDs ctx orgId uuids =
     bindIO (wrapIO ''could not query repository uuids'' (queryIO ctx (\<lambda>w.
       Inr (filter (\<lambda>c. co_UUID c \<in> set uuids \<and> \<not> co_Deleted c \<and>
           (co_OrgID c \<in> {orgId, RedHatOrg, CommunityOrg} \<or> foreignPartnerVisible orgId (tw_snapshots w) c)) (tw_configs w))))) (\<lambda>repos.
     if length repos \<noteq> length uuids then failIO (DaoLeaf ''One or more Repository UUIDs was invalid.'' DaoNotFound)
     else
       (let missing = map co_Name (filter (\<lambda>c. \<not> IsForeignPartnerView c orgId \<and>
              (case co_LastSnapshotUUID c of None \<Rightarrow> True | Some u \<Rightarrow> u = '''')) repos) in
        if 0 < length missing
        then failIO (DaoLeaf (''No snapshots found for the following repositories: ['' @ Join missing '', '' @ '']'') DaoNotFound)
        else returnIO ()))"

text \<open>The zero time of Go, for a template without a date.\<close>

definition zero_time :: timestamp where "zero_time = -62135596800000000"

definition date_of :: "timestamp option \<Rightarrow> timestamp" where
  "date_of d = (case d of None \<Rightarrow> zero_time | Some t \<Rightarrow> t)"

definition template_date :: "bool \<Rightarrow> timestamp option \<Rightarrow> (timestamp, ('p, 'x) db_world_scheme) io" where
  "template_date useLatest date = (if useLatest then Now else returnIO (date_of date))"

definition index_panic :: go_error where
  "index_panic = GoPanic ''runtime error: index out of range [-1]''"

definition insertTemplateRepoConfigsAndSnapshots ::
  "ctx \<Rightarrow> string \<Rightarrow> template_row \<Rightarrow> string list \<Rightarrow> (unit, ('p, 'x) db_world_scheme) io" where
  "insertTemplateRepoConfigsAndSnapshots ctx orgId t repoUUIDs =
     bindIO (template_date (t_UseLatest t) (t_Date t)) (\<lambda>templateDate.
     bindIO (FetchSnapshotsModelByDateAndRepository ctx orgId repoUUIDs templateDate) (\<lambda>snapshots.
     if missing_snapshots repoUUIDs snapshots \<noteq> [] then failIO index_panic
     else upsert ctx (\<lambda>new old. old\<lparr>trc_Deleted := trc_Deleted new, trc_SnapshotUUID := trc_SnapshotUUID new\<rparr>)
       (trc_rows (t_UUID t) repoUUIDs snapshots (\<lambda>_. Some ''''))))"

definition empty_template :: template_row where
  "empty_template = \<lparr>t_UUID = '''', t_Name = '''', t_OrgID = '''', t_Description = '''', t_Date = None, t_Version = '''', t_Arch = '''',
     t_ExtendedRelease = '''', t_ExtendedReleaseVersion = '''', t_DeletedAt = \<lparr>da_Time = None, da_Valid = False\<rparr>, t_LastUpdatedBy = '''',
     t_UseLatest = False, te_RHSMEnvironmentCreated = False, te_LastUpdateSnapshotError = None\<rparr>"

definition model_failure :: "model_error \<Rightarrow> go_error" where
  "model_failure e = TemplateDBToApiError (ModelErr (me_Message e) (me_Validation e)) None"

text \<open>The name of a template is unique among the organisation's templates that are not deleted.\<close>

definition name_taken :: "('p, 'x) db_world_scheme \<Rightarrow> string \<Rightarrow> string \<Rightarrow> string \<Rightarrow> bool" where
  "name_taken w uuid orgID name =
     list_ex (\<lambda>t. t_UUID t \<noteq> uuid \<and> t_OrgID t = orgID \<and> t_Name t = name \<and> \<not> template_deleted t) (tw_templates w)"

definition template_create ::
  "(nat \<Rightarrow> string) \<Rightarrow> ctx \<Rightarrow> TemplateRequest \<Rightarrow> (TemplateResponse, ('p, 'x) db_world_scheme) io" where
  "template_create uuid ctx req =
     bindIO (deref (tq_OrgID req)) (\<lambda>orgID.
     bindIO (validateRepositoryUUIDs ctx orgID (case tq_RepositoryUUIDS req of None \<Rightarrow> [] | Some us \<Rightarrow> us)) (\<lambda>_.
     bindIO (NewString uuid) (\<lambda>id.
     let t = (templatesCreateApiToModel req empty_template)\<lparr>t_UUID := id\<rparr> in
     case template_validate t of
       Some err \<Rightarrow> failIO (model_failure err)
     | None \<Rightarrow>
         bindIO (mapErrIO (\<lambda>e. TemplateDBToApiError e None) (dbIO ctx (\<lambda>w.
           if name_taken w id (t_OrgID t) (t_Name t) then (Inl name_violation, w)
           else (Inr (), w\<lparr>tw_templates := tw_templates w @ [t]\<rparr>)))) (\<lambda>_.
           case tq_RepositoryUUIDS req of
             None \<Rightarrow> failIO (DaoLeaf ''template must include repository uuids'' DaoBadValidation)
           | Some repos \<Rightarrow>
               bindIO (insertTemplateRepoConfigsAndSnapshots ctx orgID t repos) (\<lambda>_.
               returnIO ((templatesModelToApi t)\<lparr>tp_RepositoryUUIDS := repos\<rparr>))))))"

text \<open>
  \<open>Create\<close> answers what the body of the transaction answered; the error of the transaction itself is
  dropped, and if the body never ran the answer is the zero response and no error.
\<close>

definition Template_Create :: "(nat \<Rightarrow> string) \<Rightarrow> ctx \<Rightarrow> TemplateRequest \<Rightarrow> (TemplateResponse, ('p, 'x) db_world_scheme) io" where
  "Template_Create uuid ctx req = (\<lambda>w.
     case transactionIO ctx (template_create uuid ctx req) w of
       ((_, Some res), w') \<Rightarrow> (res, w')
     | ((_, None), w') \<Rightarrow> (Inr (templatesModelToApi empty_template), w'))"

text \<open>
  The model whose hook validates the update has the name, organisation, architecture, version, date
  and \<open>use_latest\<close> of the new one only.
\<close>

definition template_to_validate :: "template_row \<Rightarrow> template_row" where
  "template_to_validate t = empty_template\<lparr>t_Name := t_Name t, t_OrgID := t_OrgID t, t_Arch := t_Arch t,
     t_UseLatest := t_UseLatest t, t_Version := t_Version t, t_Date := t_Date t\<rparr>"

text \<open>The columns of \<open>MapForUpdate\<close>.\<close>

definition set_columns :: "template_row \<Rightarrow> template_row \<Rightarrow> template_row" where
  "set_columns new t = t\<lparr>t_Description := t_Description new, t_Date := t_Date new, t_LastUpdatedBy := t_LastUpdatedBy new,
     t_Name := t_Name new, t_UseLatest := t_UseLatest new, t_ExtendedReleaseVersion := t_ExtendedReleaseVersion new\<rparr>"

definition template_update ::
  "ctx \<Rightarrow> string \<Rightarrow> string \<Rightarrow> TemplateUpdateRequest \<Rightarrow> (unit, ('p, 'x) db_world_scheme) io" where
  "template_update ctx orgID uuid params =
     bindIO (template_fetch ctx orgID uuid False) (\<lambda>(row, _).
     let dbTempl = templatesUpdateApiToModel params (template_AfterFind row) in
     case template_validate (template_to_validate dbTempl) of
       Some err \<Rightarrow> failIO (model_failure err)
     | None \<Rightarrow>
         bindIO (mapErrIO (\<lambda>e. TemplateDBToApiError e (Some uuid)) (dbIO ctx (\<lambda>w.
           if name_taken w uuid orgID (t_Name dbTempl) then (Inl name_violation, w)
           else (Inr (), w\<lparr>tw_templates := update_where (\<lambda>t. t_UUID t = uuid \<and> \<not> template_deleted t) (set_columns dbTempl) (tw_templates w)\<rparr>)))) (\<lambda>_.
         bindIO (mapErrIO (\<lambda>e. RepositoryDBErrorToApi e None) (queryIO ctx (\<lambda>w. Inr ()))) (\<lambda>_.
           case tu_RepositoryUUIDS params of
             None \<Rightarrow> returnIO ()
           | Some repos \<Rightarrow>
               bindIO (validateRepositoryUUIDs ctx orgID repos) (\<lambda>_.
               bindIO (mapErrIO (\<lambda>e. Wrapf ''could not remove uneeded template repositories '' e '''') (softDeleteTemplateRepoConfigs ctx uuid repos)) (\<lambda>_.
               mapErrIO (\<lambda>e. Wrapf ''could not insert new template repositories '' e '''')
                 (insertTemplateRepoConfigsAndSnapshots ctx (t_OrgID dbTempl) dbTempl repos))))))"

definition Template_Update ::
  "DaoRegistry \<Rightarrow> ctx \<Rightarrow> string \<Rightarrow> string \<Rightarrow> TemplateUpdateRequest \<Rightarrow> (TemplateResponse, ('p, 'x) db_world_scheme) io" where
  "Template_Update reg ctx orgID uuid params = (\<lambda>w.
     case transactionIO ctx (template_update ctx orgID uuid params) w of
       ((Some err, _), w') \<Rightarrow> (Inl err, w')
     | ((None, _), w') \<Rightarrow> Template_Fetch reg ctx orgID uuid False w')"

section \<open>Other statements\<close>

definition template_in_org :: "ctx \<Rightarrow> string \<Rightarrow> string \<Rightarrow> bool \<Rightarrow> (template_row, ('p, 'x) db_world_scheme) io" where
  "template_in_org ctx orgID uuid unscoped = queryIO ctx (\<lambda>w.
     record_or_not_found (find (\<lambda>t. t_UUID t = uuid \<and> t_OrgID t = orgID \<and> (unscoped \<or> \<not> template_deleted t)) (tw_templates w)))"

definition Template_SoftDelete :: "ctx \<Rightarrow> string \<Rightarrow> string \<Rightarrow> (unit, ('p, 'x) db_world_scheme) io" where
  "Template_SoftDelete ctx orgID uuid =
     bindIO (mapErrIO (\<lambda>e. TemplateDBToApiError e (Some uuid)) (template_in_org ctx orgID uuid False)) (\<lambda>_.
     bindIO Now (\<lambda>now.
     execIO ctx (\<lambda>w. w\<lparr>tw_templates := update_where (\<lambda>t. t_UUID t = uuid \<and> \<not> template_deleted t)
       (\<lambda>t. t\<lparr>t_DeletedAt := \<lparr>da_Time = Some now, da_Valid = True\<rparr>\<rparr>) (tw_templates w)\<rparr>)))"

text \<open>Deleting the row takes its associations with it.\<close>

definition Template_Delete :: "ctx \<Rightarrow> string \<Rightarrow> string \<Rightarrow> (unit, ('p, 'x) db_world_scheme) io" where
  "Template_Delete ctx orgID uuid =
     bindIO (mapErrIO (\<lambda>e. TemplateDBToApiError e (Some uuid)) (template_in_org ctx orgID uuid True)) (\<lambda>_.
     execIO ctx (\<lambda>w. w\<lparr>tw_templates := delete_where (\<lambda>t. t_UUID t = uuid) (tw_templates w),
       tw_trcs := delete_where (\<lambda>r. trc_TemplateUUID r = uuid) (tw_trcs w)\<rparr>))"

definition Template_ClearDeletedAt :: "ctx \<Rightarrow> string \<Rightarrow> string \<Rightarrow> (unit, ('p, 'x) db_world_scheme) io" where
  "Template_ClearDeletedAt ctx orgID uuid =
     bindIO (template_in_org ctx orgID uuid True) (\<lambda>_.
     execIO ctx (\<lambda>w. w\<lparr>tw_templates := update_where (\<lambda>t. t_UUID t = uuid)
       (\<lambda>t. t\<lparr>t_DeletedAt := \<lparr>da_Time = None, da_Valid = False\<rparr>\<rparr>) (tw_templates w)\<rparr>))"

definition SetEnvironmentCreated :: "ctx \<Rightarrow> string \<Rightarrow> (unit, ('p, 'x) db_world_scheme) io" where
  "SetEnvironmentCreated ctx templateUUID = execIO ctx (\<lambda>w. w\<lparr>tw_templates :=
     update_where (\<lambda>t. t_UUID t = templateUUID) (\<lambda>t. t\<lparr>te_RHSMEnvironmentCreated := True\<rparr>) (tw_templates w)\<rparr>)"

definition UpdateLastError :: "ctx \<Rightarrow> string \<Rightarrow> string \<Rightarrow> string \<Rightarrow> (unit, ('p, 'x) db_world_scheme) io" where
  "UpdateLastError ctx orgID templateUUID lastUpdateSnapshotError = execIO ctx (\<lambda>w. w\<lparr>tw_templates :=
     update_where (\<lambda>t. t_OrgID t = orgID \<and> t_UUID t = templateUUID) (\<lambda>t. t\<lparr>te_LastUpdateSnapshotError := Some lastUpdateSnapshotError\<rparr>)
       (tw_templates w)\<rparr>)"

lemma to_responses_success: "to_responses reg ctx rs w = (Inr res, w') \<Longrightarrow> res = map templatesConvertToResponse rs"
  by (auto simp: to_responses_def elim!: bindIO_successE)

end
