(* ===== verification/ContentDemo.thy ===== *)
theory ContentDemo
  imports PulpGuardsProps TemplateDao
begin

text \<open>
  A concrete Pulp and concrete rows: the input the witnesses of the tasks' properties run on.
\<close>

section \<open>A concrete Pulp\<close>

text \<open>
  Pulp with one repository whose synchronisation makes one version, which is published; its state is
  the distributions and the versions. Tasks are done at once; the one of a creation is named after
  the distribution.
\<close>

definition version1 :: string where "version1 = ''/api/pulp/cs-1/api/v3/repositories/rpm/rpm/r/versions/1/''"
definition publication1 :: string where "publication1 = ''/api/pulp/cs-1/api/v3/publications/rpm/rpm/p/''"

definition dist_href :: "string \<Rightarrow> string" where
  "dist_href name = ''/api/pulp/cs-1/api/v3/distributions/rpm/rpm/'' @ name @ ''/''"

type_synonym demo_pulp = "DistributionResponse list \<times> string list"

definition done_task :: "string \<Rightarrow> TaskResponse" where
  "done_task href = \<lparr>tr_PulpHref = Some href, tr_State = Some COMPLETED,
     tr_CreatedResources = (if href = ''sync'' then [version1] else [dist_href href]), tr_Error = None\<rparr>"

definition snap_zest :: "demo_pulp zest" where
  "snap_zest = unused_zest
     \<lparr>z_PublicationsList := \<lambda>_ _ p. (ZestOk answer200 [Some publication1], p),
      z_DistributionsList := \<lambda>_ path (ds, vs). (ZestOk answer200 (filter (\<lambda>d. Some (di_BasePath d) = path) ds), (ds, vs)),
      z_DistributionsCreate := \<lambda>_ d (ds, vs). (ZestOk answer200 (di_Name d), (ds @ [d\<lparr>di_PulpHref := Some (dist_href (di_Name d))\<rparr>], vs)),
      z_DistributionsDelete := \<lambda>href (ds, vs). (ZestOk answer200 ''del'', (filter (\<lambda>d. di_PulpHref d \<noteq> Some href) ds, vs)),
      z_TasksRead := \<lambda>href p. (ZestOk answer200 (done_task href), p),
      z_TasksCancel := \<lambda>href _ p. (ZestOk answer200 (done_task href), p),
      z_VersionsRead := \<lambda>_ p. (ZestOk answer200 None, p),
      z_VersionsDelete := \<lambda>href (ds, vs). (ZestOk answer200 ''del'', (ds, filter (\<lambda>v. v \<noteq> href) vs)),
      z_DomainsList := \<lambda>_ _ p. (ZestOk answer200 [(Some ''domain'', [])], p),
      z_RemotesListName := \<lambda>_ _ p. (ZestOk answer200 [Some ''remote''], p),
      z_RemotesUpdate := \<lambda>_ _ _ _ _ p. (ZestOk answer200 '''', p),
      z_RepositoriesListName := \<lambda>_ _ p. (ZestOk answer200 [\<lparr>rr_PulpHref = Some ''repo'', rr_LatestVersionHref = Some version1\<rparr>], p),
      z_RepositoriesSync := \<lambda>_ _ _ (ds, vs). (ZestOk answer200 ''sync'', (ds, vs @ [version1]))\<rparr>"

definition demo_client :: "demo_pulp pulpDaoImpl" where
  "demo_client = \<lparr>domainName = ''cs-1'', p_config = pulp_demo_config\<lparr>pc_RepoContentGuards := False\<rparr>, p_zest = snap_zest, p_rounds = 3\<rparr>"

section \<open>Rows\<close>

definition demo_repo_config :: config_row where
  "demo_repo_config = \<lparr>co_UUID = ''r1'', co_OrgID = ''acme'', co_RepositoryUUID = ''p1'', co_Name = ''r'', co_Label = ''r'', co_FeatureName = '''',
     co_ExtendedRelease = '''', co_ModuleHotfixes = False, co_GpgKey = '''', co_Partner = False, co_LastSnapshotUUID = Some ''s2'',
     co_LastSnapshotTaskUUID = None, co_FailedSnapshotCount = 0, co_Deleted = False\<rparr>"

definition demo_snapshot :: "string \<Rightarrow> timestamp \<Rightarrow> Snapshot" where
  "demo_snapshot uuid at = \<lparr>sn_UUID = uuid, sn_CreatedAt = at, sn_Deleted = False, sn_VersionHref = ''v'' @ uuid, sn_PublicationHref = ''p'' @ uuid,
     sn_DistributionPath = ''r1/'' @ uuid, sn_RepositoryPath = ''cs-1/r1/'' @ uuid, sn_DistributionHref = dist_href uuid,
     sn_RepositoryConfigurationUUID = ''r1'', sn_ContentCounts = [], sn_AddedCounts = [], sn_RemovedCounts = [], sn_Published = False\<rparr>"

definition demo_template :: template_row where
  "demo_template = empty_template\<lparr>t_UUID := ''t1'', t_Name := ''t'', t_OrgID := ''acme'', t_Date := Some 25000000\<rparr>"

definition demo_trc :: "string \<Rightarrow> trc_row" where
  "demo_trc snapshot = \<lparr>trc_TemplateUUID = ''t1'', trc_RepositoryConfigurationUUID = ''r1'', trc_SnapshotUUID = snapshot,
     trc_DistributionHref = Some (dist_href ''t1''), trc_Deleted = False\<rparr>"

text \<open>
  One repository with a snapshot of second 10 and one of second 20, which is about to be deleted and
  which a template uses.
\<close>

definition demo_content :: "demo_pulp db_world" where
  "demo_content = \<lparr>pw_pulp = ([], [''vs1'', ''vs2'']), pw_cancel = None, pw_cause = Context_Canceled, pw_slept = 0,
     tw_repositories = [\<lparr>rp_UUID = ''p1'', rp_URL = ''https://example.com'', rp_Origin = ''external'', rp_Public = False\<rparr>],
     tw_configs = [demo_repo_config], tw_snapshots = [demo_snapshot ''s1'' 10000000, (demo_snapshot ''s2'' 20000000)\<lparr>sn_Deleted := True\<rparr>],
     tw_templates = [demo_template], tw_trcs = [demo_trc ''s2''], tw_domains = [(''acme'', ''cs-1'')], tw_faults = [], tw_uuids = 0,
     tw_clock = int, tw_reads = 0\<rparr>"

definition demo_registry :: DaoRegistry where
  "demo_registry = \<lparr>dr_GetContentPath = Inr ''/content'', dr_SnapshotsEnabled = True\<rparr>"

end
