(* ===== verification/SnapshotProps.thy ===== *)
theory SnapshotProps
  imports SnapshotTask PulpFrame ContentDemo
begin

text \<open>
  The snapshot helper against the interface it works through: what a run records, for every task
  that implements the interface. The snapshot task and the upload task provide it.
\<close>

section \<open>Frames\<close>

lemma only_pulp_task:
  assumes "only_pulp w w'"
  shows "tw_payload w' = tw_payload w" "tw_saved w' = tw_saved w" "tw_snapshots w' = tw_snapshots w"
    "tw_configs w' = tw_configs w" "tw_faults w' = tw_faults w" "tw_uuids w' = tw_uuids w"
  using assms by (cases w; cases w'; simp add: only_pulp_def)+

lemma more_payload:
  fixes w w' :: "('p, 'd) task_world"
  shows "db_world.more w' = db_world.more w \<Longrightarrow> tw_payload w' = tw_payload w"
  by (cases w; cases w'; simp)

lemma task_dbIO_success:
  fixes w :: "('p, 'd) task_world"
  assumes "dbIO ctx call w = (Inr a, w')"
  obtains w1 where "call w1 = (Inr a, w')" "tw_payload w1 = tw_payload w" "tw_snapshots w1 = tw_snapshots w"
    "tw_configs w1 = tw_configs w" "pw_pulp w1 = pw_pulp w" "tw_uuids w1 = tw_uuids w" "tw_clock w1 = tw_clock w" "tw_reads w1 = tw_reads w"
  using assms by (elim dbIO_success) (auto simp: same_tables_def dest: more_payload)

text \<open>The rows and one value of the state stay.\<close>

definition kept :: "(('p, 'd) task_world \<Rightarrow> 'a) \<Rightarrow> ('p, 'd) task_world \<Rightarrow> ('p, 'd) task_world \<Rightarrow> bool" where
  "kept get w w' \<longleftrightarrow> tw_snapshots w' = tw_snapshots w \<and> tw_configs w' = tw_configs w \<and> get w' = get w"

lemma kept_order: "reflp (kept get)" "transp (kept get)"
  by (auto simp: reflp_def transp_def kept_def)

lemmas kept_intros = keeps_return [OF kept_order(1)] keeps_fail [OF kept_order(1)] keeps_bind [OF kept_order(2)]
  keeps_wrap [of "kept get" for get] keeps_handle [OF kept_order(2)]

lemma kept_getIO: "keeps (kept get) (getIO f)"
  by (simp add: keeps_def getIO_def kept_def)

lemma kept_when: "keeps (kept get) m \<Longrightarrow> keeps (kept get) (whenIO b m)"
  by (cases b) (simp_all add: keeps_return [OF kept_order(1)] del: returnIO_apply)

lemma kept_NewString: "(\<And>w n. get (w\<lparr>tw_uuids := n\<rparr>) = get w) \<Longrightarrow> keeps (kept get) (NewString uuid)"
  by (simp add: keeps_def NewString_def kept_def)

lemma kept_pulp:
  assumes "\<And>w w'. tw_payload w' = tw_payload w \<Longrightarrow> get w' = get w" "keeps only_pulp m"
  shows "keeps (kept get) m"
proof (rule keepsI)
  fix w
  have "only_pulp w (snd (m w))" using keepsD [OF assms(2)] .
  note t = only_pulp_task [OF this]
  show "kept get w (snd (m w))" unfolding kept_def using t(3,4) assms(1) [OF t(1)] by simp
qed

lemma kept_run: "keeps (kept get) m \<Longrightarrow> m w = (r, w') \<Longrightarrow> kept get w w'"
  by (metis keepsD snd_conv)

lemma snapshot_row_fields [simp]:
  "sn_VersionHref (snapshot_row sh v pub path href summary) = v"
  "sn_PublicationHref (snapshot_row sh v pub path href summary) = pub"
  "sn_DistributionPath (snapshot_row sh v pub path href summary) = path"
  "sn_RepositoryPath (snapshot_row sh v pub path href summary) = filepath_Join [sh_domainName sh, path]"
  "sn_DistributionHref (snapshot_row sh v pub path href summary) = href"
  "sn_RepositoryConfigurationUUID (snapshot_row sh v pub path href summary) = re_UUID (sh_repo sh)"
  by (simp_all add: snapshot_row_def split: prod.split)

text \<open>What a run that succeeded has left: the row and its parts, and what the payload says.\<close>

definition run_record ::
  "('p, 'd) SnapshotHelper \<Rightarrow> string \<Rightarrow> ('p, 'd) task_world \<Rightarrow> ('p, 'd) task_world \<Rightarrow> string \<Rightarrow> string \<Rightarrow> string \<Rightarrow> string \<Rightarrow> Snapshot \<Rightarrow> bool" where
  "run_record sh v w w' pub ident distHref distTask snap \<longleftrightarrow>
     (let ops = sh_payload sh; path = re_UUID (sh_repo sh) @ ''/'' @ ident in
      (\<exists>w1. findOrCreatePublication sh v w = (Inr pub, w1)) \<and>
      (\<exists>wd wd' :: ('p, 'd) task_world.
         CreateOrUpdateDistribution (sh_pulpClient sh) (sh_ctx sh) (sh_repo sh) pub ident path wd = (Inr (distHref, distTask), wd')) \<and>
      sn_VersionHref snap = v \<and> sn_PublicationHref snap = pub \<and> sn_DistributionPath snap = path \<and>
      sn_RepositoryPath snap = filepath_Join [sh_domainName sh, path] \<and> sn_DistributionHref snap = distHref \<and>
      sn_RepositoryConfigurationUUID snap = re_UUID (sh_repo sh) \<and>
      tw_snapshots w' = tw_snapshots w @ [snap] \<and>
      tw_configs w' = update_where (\<lambda>c. co_UUID c = re_UUID (sh_repo sh)) (\<lambda>c. c\<lparr>co_LastSnapshotUUID := Some (sn_UUID snap)\<rparr>) (tw_configs w) \<and>
      (GetSnapshotIdent ops w \<noteq> None \<longrightarrow> GetSnapshotIdent ops w = Some ident) \<and>
      GetSnapshotIdent ops w' = Some ident \<and> GetSnapshotUUID ops w' = Some (sn_UUID snap) \<and>
      (\<exists>ws ws'. SaveDistributionTaskHref ops distTask ws = (Inr (), ws') \<and> GetDistributionTaskHref ops w' = GetDistributionTaskHref ops ws'))"

section \<open>The interface\<close>

text \<open>
  What a saved value is worth: it is read back, the other values and the rows stay, and the values
  are part of the task's payload.
\<close>

locale resumable_payload =
  fixes ops :: "('p, 'd) task_world ResumableSnapshot"
  assumes payload_only: "tw_payload w' = tw_payload w \<Longrightarrow> GetPublicationTaskHref ops w' = GetPublicationTaskHref ops w"
      "tw_payload w' = tw_payload w \<Longrightarrow> GetDistributionTaskHref ops w' = GetDistributionTaskHref ops w"
      "tw_payload w' = tw_payload w \<Longrightarrow> GetSnapshotIdent ops w' = GetSnapshotIdent ops w"
      "tw_payload w' = tw_payload w \<Longrightarrow> GetSnapshotUUID ops w' = GetSnapshotUUID ops w"
    and read_back: "x \<noteq> '''' \<Longrightarrow> SavePublicationTaskHref ops x w = (Inr (), w') \<Longrightarrow> GetPublicationTaskHref ops w' = Some x"
      "x \<noteq> '''' \<Longrightarrow> SaveDistributionTaskHref ops x w = (Inr (), w') \<Longrightarrow> GetDistributionTaskHref ops w' = Some x"
      "x \<noteq> '''' \<Longrightarrow> SaveSnapshotIdent ops x w = (Inr (), w') \<Longrightarrow> GetSnapshotIdent ops w' = Some x"
      "x \<noteq> '''' \<Longrightarrow> SaveSnapshotUUID ops x w = (Inr (), w') \<Longrightarrow> GetSnapshotUUID ops w' = Some x"
    and others_publication: "keeps (kept (GetSnapshotIdent ops)) (SavePublicationTaskHref ops x)"
      "keeps (kept (GetDistributionTaskHref ops)) (SavePublicationTaskHref ops x)"
      "keeps (kept (GetSnapshotUUID ops)) (SavePublicationTaskHref ops x)"
    and others_distribution: "keeps (kept (GetSnapshotIdent ops)) (SaveDistributionTaskHref ops x)"
      "keeps (kept (GetPublicationTaskHref ops)) (SaveDistributionTaskHref ops x)"
      "keeps (kept (GetSnapshotUUID ops)) (SaveDistributionTaskHref ops x)"
    and others_ident: "keeps (kept (GetDistributionTaskHref ops)) (SaveSnapshotIdent ops x)"
      "keeps (kept (GetPublicationTaskHref ops)) (SaveSnapshotIdent ops x)"
      "keeps (kept (GetSnapshotUUID ops)) (SaveSnapshotIdent ops x)"
    and others_uuid: "keeps (kept (GetSnapshotIdent ops)) (SaveSnapshotUUID ops x)"
      "keeps (kept (GetPublicationTaskHref ops)) (SaveSnapshotUUID ops x)"
      "keeps (kept (GetDistributionTaskHref ops)) (SaveSnapshotUUID ops x)"
begin

lemma pulp_ident: "keeps only_pulp m \<Longrightarrow> keeps (kept (GetSnapshotIdent ops)) m"
  by (rule kept_pulp [OF payload_only(3)])

lemmas pulp_ident_ops = only_pulp_simple [THEN pulp_ident] only_pulp_Poll [THEN pulp_ident] only_pulp_deref [THEN pulp_ident]
  only_pulp_CreateOrUpdate [THEN pulp_ident]

lemma publication_keeps_ident:
  assumes "sh_payload sh = ops"
  shows "keeps (kept (GetSnapshotIdent ops)) (findOrCreatePublication sh v)"
  unfolding findOrCreatePublication_def assms
  by (intro kept_intros) (auto intro!: kept_intros kept_getIO kept_when pulp_ident_ops others_publication split: option.split simp del: returnIO_apply failIO_apply)

text \<open>The steps of a run that succeeds.\<close>

lemma helper_steps:
  assumes "helper_Run sh v w = (Inr (), w')" "sh_payload sh = ops"
  obtains pub w1 w2 ident distHref distTask w3 w4 w5 summary w6 snap w7 w8 u1 u2 u3 u4 where
    "findOrCreatePublication sh v w = (Inr pub, w1)"
    "whenIO (GetSnapshotIdent ops w1 = None)
       (bindIO (NewString (sh_uuid sh)) (\<lambda>id. wrapIO ''unable to save snapshot ident'' (SaveSnapshotIdent ops id))) w1 = (Inr u1, w2)"
    "GetSnapshotIdent ops w2 = Some ident"
    "CreateOrUpdateDistribution (sh_pulpClient sh) (sh_ctx sh) (sh_repo sh) pub ident (re_UUID (sh_repo sh) @ ''/'' @ ident) w2 =
       (Inr (distHref, distTask), w3)"
    "SaveDistributionTaskHref ops distTask w3 = (Inr u2, w4)"
    "whenIO (ShouldUpdateLatestDistributionOnCreate (sh_repo sh))
       (bindIO (CreateOrUpdateLatestDistribution (sh_pulpClient sh) (sh_ctx sh) (sh_repo sh) pub) (\<lambda>_. returnIO ())) w4 = (Inr u3, w5)"
    "GetRpmRepositoryVersion (sh_pulpClient sh) (sh_ctx sh) v w5 = (Inr summary, w6)"
    "Snapshot_Create (sh_uuid sh) (sh_ctx sh) (snapshot_row sh v pub (re_UUID (sh_repo sh) @ ''/'' @ ident) distHref summary) w6 = (Inr snap, w7)"
    "SaveSnapshotUUID ops (sn_UUID snap) w7 = (Inr u4, w8)"
    "whenIO (re_OrgID (sh_repo sh) = RedHatOrg)
       (wrapIO ''could not set detected OS release'' (SetDetectedOSVersion sh (sn_UUID snap))) w8 = (Inr (), w')"
  using assms(1) unfolding helper_Run_def Let_def assms(2)
  apply (elim bindIO_prod_successE bindIO_successE)
  apply (simp (no_asm_use) only: getIO_def deref_success wrapIO_success prod.inject sum.inject)
  apply (elim conjE)
  apply hypsubst
  apply (rule that; assumption)
  done

text \<open>The parts of a run: the identifier is made at most once, the latest distribution and the version's summary are Pulp's alone.\<close>

lemma named_once:
  assumes "whenIO (GetSnapshotIdent ops w1 = None)
    (bindIO (NewString fresh) (\<lambda>id. wrapIO ''unable to save snapshot ident'' (SaveSnapshotIdent ops id))) w1 = (Inr u, w2)"
  shows "tw_snapshots w2 = tw_snapshots w1" and "tw_configs w2 = tw_configs w1" and "GetSnapshotIdent ops w1 \<noteq> None \<Longrightarrow> w2 = w1"
proof -
  have "keeps (kept (GetSnapshotUUID ops)) (NewString fresh)" by (rule kept_NewString) (rule payload_only(4), simp)
  then have k: "keeps (kept (GetSnapshotUUID ops)) (whenIO (GetSnapshotIdent ops w1 = None)
     (bindIO (NewString fresh) (\<lambda>id. wrapIO ''unable to save snapshot ident'' (SaveSnapshotIdent ops id))))"
    by (intro kept_when kept_intros others_ident)
  show "tw_snapshots w2 = tw_snapshots w1" "tw_configs w2 = tw_configs w1"
    using kept_run [OF k assms] by (simp_all add: kept_def)
  show "GetSnapshotIdent ops w1 \<noteq> None \<Longrightarrow> w2 = w1" using assms by (auto simp: whenIO_def)
qed

lemma latest_keeps:
  fixes get :: "('p, 'd) task_world \<Rightarrow> string option"
  assumes latest: "whenIO (ShouldUpdateLatestDistributionOnCreate repo)
      (bindIO (CreateOrUpdateLatestDistribution p c repo pub) (\<lambda>_. returnIO ())) w4 = (Inr u, w5)"
    and summary: "GetRpmRepositoryVersion p c v w5 = (Inr summary, w6)"
    and get: "\<And>w w'. tw_payload w' = tw_payload w \<Longrightarrow> get w' = get w"
  shows "kept get w4 w6"
proof -
  have p: "keeps (kept get) m" if "keeps only_pulp m" for m :: "(string \<times> string, ('p, 'd) task_world) io"
    using kept_pulp [of get m] that get by blast
  have p': "keeps (kept get) m" if "keeps only_pulp m" for m :: "(ContentSummary option, ('p, 'd) task_world) io"
    using kept_pulp [of get m] that get by blast
  have l: "keeps (kept get) (whenIO (ShouldUpdateLatestDistributionOnCreate repo)
     (bindIO (CreateOrUpdateLatestDistribution p c repo pub) (\<lambda>_. returnIO ())))"
    by (intro kept_when kept_intros p only_pulp_CreateOrUpdate)
  have "kept get w4 w5" using kept_run [OF l latest] .
  moreover have "kept get w5 w6" using kept_run [OF p' [OF only_pulp_simple(11)] summary] .
  ultimately show ?thesis using kept_order(2) by (auto elim: transpE)
qed

lemma created_snapshot:
  fixes w :: "('p, 'd) task_world"
  assumes run: "Snapshot_Create fresh c (snapshot_row sh v pub path distHref summary) w = (Inr snap, w')"
    and fresh: "\<And>n. fresh n \<noteq> ''''"
  obtains id now where "snap = (snapshot_row sh v pub path distHref summary)\<lparr>sn_UUID := id, sn_CreatedAt := now\<rparr>" and "id \<noteq> ''''"
    and "tw_snapshots w' = tw_snapshots w @ [(snapshot_row sh v pub path distHref summary)\<lparr>sn_UUID := id, sn_CreatedAt := now\<rparr>]"
    and "tw_configs w' = update_where (\<lambda>c. co_UUID c = re_UUID (sh_repo sh)) (\<lambda>c. c\<lparr>co_LastSnapshotUUID := Some id\<rparr>) (tw_configs w)"
    and "tw_payload w' = tw_payload w"
  using run fresh unfolding Snapshot_Create_def NewString_def Now_def execIO_def Let_def
  by (auto elim!: bindIO_successE task_dbIO_success)

text \<open>What a run that succeeds has recorded, and where its distribution came from.\<close>

lemma helper_records:
  assumes run: "helper_Run sh v w = (Inr (), w')" and sh: "sh_payload sh = ops" and uuid: "\<And>n. sh_uuid sh n \<noteq> ''''"
  obtains pub ident distHref distTask snap where "run_record sh v w w' pub ident distHref distTask snap"
proof -
  obtain pub w1 w2 ident distHref distTask w3 w4 w5 summary w6 snap w7 w8 u1 u2 u3 u4 where
    step: "findOrCreatePublication sh v w = (Inr pub, w1)"
    "whenIO (GetSnapshotIdent ops w1 = None)
       (bindIO (NewString (sh_uuid sh)) (\<lambda>id. wrapIO ''unable to save snapshot ident'' (SaveSnapshotIdent ops id))) w1 = (Inr u1, w2)"
    "GetSnapshotIdent ops w2 = Some ident"
    "CreateOrUpdateDistribution (sh_pulpClient sh) (sh_ctx sh) (sh_repo sh) pub ident (re_UUID (sh_repo sh) @ ''/'' @ ident) w2 =
       (Inr (distHref, distTask), w3)"
    "SaveDistributionTaskHref ops distTask w3 = (Inr u2, w4)"
    "whenIO (ShouldUpdateLatestDistributionOnCreate (sh_repo sh))
       (bindIO (CreateOrUpdateLatestDistribution (sh_pulpClient sh) (sh_ctx sh) (sh_repo sh) pub) (\<lambda>_. returnIO ())) w4 = (Inr u3, w5)"
    "GetRpmRepositoryVersion (sh_pulpClient sh) (sh_ctx sh) v w5 = (Inr summary, w6)"
    "Snapshot_Create (sh_uuid sh) (sh_ctx sh) (snapshot_row sh v pub (re_UUID (sh_repo sh) @ ''/'' @ ident) distHref summary) w6 = (Inr snap, w7)"
    "SaveSnapshotUUID ops (sn_UUID snap) w7 = (Inr u4, w8)"
    "whenIO (re_OrgID (sh_repo sh) = RedHatOrg)
       (wrapIO ''could not set detected OS release'' (SetDetectedOSVersion sh (sn_UUID snap))) w8 = (Inr (), w')"
    by (rule helper_steps [OF run sh])
  let ?row = "snapshot_row sh v pub (re_UUID (sh_repo sh) @ ''/'' @ ident) distHref summary"
  have k1: "kept (GetSnapshotIdent ops) w w1" using kept_run [OF publication_keeps_ident [OF sh] step(1)] .
  note i2 = named_once [OF step(2)]
  have k3: "kept (GetSnapshotIdent ops) w2 w3" using kept_run [OF only_pulp_CreateOrUpdate(1) [THEN pulp_ident] step(4)] .
  have k4: "kept (GetSnapshotIdent ops) w3 w4" using kept_run [OF others_distribution(1) step(5)] .
  have k6: "kept (GetSnapshotIdent ops) w4 w6" "kept (GetDistributionTaskHref ops) w4 w6"
    by (rule latest_keeps [OF step(6,7)], erule payload_only)+
  obtain id now where c: "snap = ?row\<lparr>sn_UUID := id, sn_CreatedAt := now\<rparr>" "id \<noteq> ''''"
    "tw_snapshots w7 = tw_snapshots w6 @ [?row\<lparr>sn_UUID := id, sn_CreatedAt := now\<rparr>]"
    "tw_configs w7 = update_where (\<lambda>c. co_UUID c = re_UUID (sh_repo sh)) (\<lambda>c. c\<lparr>co_LastSnapshotUUID := Some id\<rparr>) (tw_configs w6)"
    "tw_payload w7 = tw_payload w6"
    by (rule created_snapshot [OF step(8) uuid])
  have k8: "kept (GetSnapshotIdent ops) w7 w8" "kept (GetDistributionTaskHref ops) w7 w8" "GetSnapshotUUID ops w8 = Some id"
    using kept_run [OF others_uuid(1) step(9)] kept_run [OF others_uuid(3) step(9)] read_back(4) [of id w7 w8] step(9) c(1,2) by auto
  have last: "tw_snapshots w' = tw_snapshots w8" "tw_configs w' = tw_configs w8" "tw_payload w' = tw_payload w8"
    using step(10) by (auto simp: whenIO_def SetDetectedOSVersion_def split: if_splits option.splits elim!: task_dbIO_success)
  have rows: "tw_snapshots w' = tw_snapshots w @ [snap]"
    "tw_configs w' = update_where (\<lambda>c. co_UUID c = re_UUID (sh_repo sh)) (\<lambda>c. c\<lparr>co_LastSnapshotUUID := Some (sn_UUID snap)\<rparr>) (tw_configs w)"
    using k1 i2(1,2) k3 k4 k6(1) c(1,3,4) k8(1) last(1,2) by (simp_all add: kept_def)
  have ident: "GetSnapshotIdent ops w \<noteq> None \<longrightarrow> GetSnapshotIdent ops w = Some ident" "GetSnapshotIdent ops w' = Some ident"
    using step(3) k1 i2(3) k3 k4 k6(1) payload_only(3) [OF c(5)] k8(1) payload_only(3) [OF last(3)] by (auto simp: kept_def)
  have dist: "GetDistributionTaskHref ops w' = GetDistributionTaskHref ops w4"
    using k6(2) payload_only(2) [OF c(5)] k8(2) payload_only(2) [OF last(3)] by (simp add: kept_def)
  have uuid': "GetSnapshotUUID ops w' = Some (sn_UUID snap)" using k8(3) payload_only(4) [OF last(3)] c(1) by simp
  have "sn_VersionHref snap = v" "sn_PublicationHref snap = pub" "sn_DistributionPath snap = re_UUID (sh_repo sh) @ ''/'' @ ident"
    "sn_RepositoryPath snap = filepath_Join [sh_domainName sh, re_UUID (sh_repo sh) @ ''/'' @ ident]" "sn_DistributionHref snap = distHref"
    "sn_RepositoryConfigurationUUID snap = re_UUID (sh_repo sh)"
    using c(1) by simp_all
  moreover have "SaveDistributionTaskHref ops distTask w3 = (Inr (), w4)" using step(5) by simp
  ultimately show thesis
    using that step(1,4) rows ident uuid' dist unfolding run_record_def Let_def sh by blast
qed

end

text \<open>A provider for which a blank value is no value.\<close>

locale clearing_payload = resumable_payload +
  assumes blank: "SavePublicationTaskHref ops '''' w = (Inr (), w') \<Longrightarrow> GetPublicationTaskHref ops w' = None"
      "SaveDistributionTaskHref ops '''' w = (Inr (), w') \<Longrightarrow> GetDistributionTaskHref ops w' = None"
      "SaveSnapshotUUID ops '''' w = (Inr (), w') \<Longrightarrow> GetSnapshotUUID ops w' = None"

section \<open>The snapshot task's payload\<close>

lemma save_success:
  assumes "bindIO (set_payload f) (\<lambda>_. sr_UpdatePayload) w = (Inr (), w')"
  shows "tw_payload w' = f (tw_payload w)"
  using assms by (auto simp: set_payload_def sr_UpdatePayload_def bindIO_success elim!: task_dbIO_success)

lemma save_kept:
  assumes "\<And>d. get (f d) = get d"
  shows "keeps (kept (get \<circ> tw_payload)) (bindIO (set_payload f) (\<lambda>_. sr_UpdatePayload))"
  using assms unfolding keeps_def kept_def set_payload_def sr_UpdatePayload_def dbIO_def tick_def bindIO_def Let_def
  by (auto split: list.split option.split)

interpretation snapshot: clearing_payload snapshot_payload
  by unfold_locales
    (auto simp: snapshot_payload_def sr_SavePublicationTaskHref_def sr_SaveDistributionTaskHref_def sr_SaveSnapshotIdent_def
      sr_SaveSnapshotUUID_def blank_nil_def dest!: save_success intro!: save_kept)

section \<open>What a run records\<close>

lemma fresh_distribution:
  assumes "\<And>p. \<exists>resp p'. z_DistributionsList (p_zest r) (domainName r) (Some path) p = (ZestOk resp [], p')"
    and run: "createOrUpdateDistribution r ctx pub name path guard w = (Inr (distHref, distTask), w')"
  shows "distHref \<noteq> ''''"
proof -
  have none: "resp = None" if "FindDistributionByPath r ctx path w = (Inr resp, w1)" for resp w1
    using that assms(1) [of "pw_pulp w"] unfolding FindDistributionByPath_def
    by (auto simp: first_def elim!: bindIO_successE zestIO_success)
  obtain w1 where "bindIO (createDistribution r ctx pub name path guard) (\<lambda>distTask.
             case SelectRpmDistributionHref distTask of
               None \<Rightarrow> failIO (Other (''could not find a distribution href in task: '' @ task_href distTask))
             | Some distHref \<Rightarrow> returnIO (distHref, task_href distTask)) w1 = (Inr (distHref, distTask), w')"
    using run none unfolding createOrUpdateDistribution_def by (auto simp: bindIO_success [of "FindDistributionByPath r ctx path"])
  then obtain task where "SelectRpmDistributionHref task = Some distHref"
    by (auto elim!: bindIO_successE split: option.splits)
  then show ?thesis
    by (auto simp: SelectRpmDistributionHref_def SelectCreatedVersionHref_def find_Some_iff HasPrefix_def)
qed

text \<open>A distribution of an earlier attempt is in place.\<close>

lemma distribution_in_place:
  assumes "\<And>p. \<exists>resp rest p'. z_DistributionsList (p_zest r) (domainName r) (Some path) p = (ZestOk resp (dist # rest), p')"
    and "\<not> distributionUpdateNeeded dist pub guard"
    and run: "createOrUpdateDistribution r ctx pub name path guard w = (Inr res, w')"
  shows "res = ('''', '''')"
proof -
  have found: "resp = Some dist" if "FindDistributionByPath r ctx path w = (Inr resp, w1)" for resp w1
    using that assms(1) [of "pw_pulp w"] unfolding FindDistributionByPath_def
    by (auto simp: first_def elim!: bindIO_successE zestIO_success)
  show ?thesis
    using run found assms(2) unfolding createOrUpdateDistribution_def
    by (auto simp: bindIO_success [of "FindDistributionByPath r ctx path"])
qed

lemma helper_payload [simp]:
  "sh_payload (snapshot_helper sr repo) = snapshot_payload" "sh_repo (snapshot_helper sr repo) = repo"
  "sh_pulpClient (snapshot_helper sr repo) = sr_pulpClient sr" "sh_ctx (snapshot_helper sr repo) = TaskCtx"
  "sh_uuid (snapshot_helper sr repo) = sr_uuid sr" "sh_domainName (snapshot_helper sr repo) = sr_domainName sr"
  by (simp_all add: snapshot_helper_def)

lemma payload_gets [simp]:
  "GetSnapshotIdent snapshot_payload = SnapshotIdent \<circ> tw_payload" "GetSnapshotUUID snapshot_payload = SnapshotUUID \<circ> tw_payload"
  "GetDistributionTaskHref snapshot_payload = DistributionTaskHref \<circ> tw_payload"
  "GetPublicationTaskHref snapshot_payload = PublicationTaskHref \<circ> tw_payload"
  by (simp_all add: snapshot_payload_def)

section \<open>A run on a concrete Pulp\<close>

definition snap_demo_repo :: RepositoryResponse where
  "snap_demo_repo = \<lparr>re_UUID = ''r1'', re_OrgID = ''acme'', re_RepositoryUUID = ''p1'', re_URL = ''https://example.com'',
     re_Origin = ''external'', re_Name = ''r'', re_Label = ''r'', re_FeatureName = '''', re_ExtendedRelease = '''', re_ModuleHotfixes = False,
     re_GpgKey = '''', re_Partner = False, re_LastSnapshotUUID = '''', re_LastSnapshot = None\<rparr>"

definition snap_demo_task :: "demo_pulp SnapshotRepository" where
  "snap_demo_task = \<lparr>sr_domainName = ''cs-1'',
     sr_pulpClient = \<lparr>domainName = ''cs-1'', p_config = pulp_demo_config\<lparr>pc_RepoContentGuards := False\<rparr>, p_zest = snap_zest, p_rounds = 3\<rparr>,
     sr_repoConfig = Inr snap_demo_repo, sr_CdnCertPair = None, sr_LoadCA = Inr '''', sr_uuid = (\<lambda>n. replicate (Suc n) (CHR ''u'')),
     sr_SetDetectedOSVersion = (\<lambda>_. None)\<rparr>"

definition no_payload :: SnapshotPayload where
  "no_payload = \<lparr>SnapshotIdent = None, SnapshotUUID = None, SyncTaskHref = None, PublicationTaskHref = None, DistributionTaskHref = None\<rparr>"

definition snap_demo_world :: "go_error option list \<Rightarrow> demo_pulp snapshot_world" where
  "snap_demo_world faults = \<lparr>pw_pulp = ([], []), pw_cancel = None, pw_cause = Context_Canceled, pw_slept = 0,
     tw_repositories = [\<lparr>rp_UUID = ''p1'', rp_URL = ''https://example.com'', rp_Origin = ''external'', rp_Public = False\<rparr>],
     tw_configs = [\<lparr>co_UUID = ''r1'', co_OrgID = ''acme'', co_RepositoryUUID = ''p1'', co_Name = ''r'', co_Label = ''r'', co_FeatureName = '''',
       co_ExtendedRelease = '''', co_ModuleHotfixes = False, co_GpgKey = '''', co_Partner = False, co_LastSnapshotUUID = None,
       co_LastSnapshotTaskUUID = None, co_FailedSnapshotCount = 0, co_Deleted = False\<rparr>],
     tw_snapshots = [], tw_templates = [], tw_trcs = [], tw_domains = [(''acme'', ''cs-1'')], tw_faults = faults, tw_uuids = 0,
     tw_clock = int, tw_reads = 0, tw_payload = no_payload, tw_saved = no_payload\<rparr>"

text \<open>
  The database fails while the first run inserts the snapshot; the run is resumed with the payload
  it saved and the Pulp it left.
\<close>

definition interrupted :: "demo_pulp snapshot_world" where
  "interrupted = snd (helper_Run (snapshot_helper snap_demo_task snap_demo_repo) version1 (snap_demo_world [None, None, Some (Other ''connection lost'')]))"

definition resumed_start :: "demo_pulp snapshot_world" where
  "resumed_start = interrupted\<lparr>tw_payload := tw_saved interrupted, tw_faults := []\<rparr>"

section \<open>Properties\<close>



text \<open>
  C24. A run that finds its distribution in place (one that was interrupted after the distribution
  was made and is resumed with the identifier it saved) records a snapshot with a blank distribution
  href, and removes the href of the distribution task from the payload: the cleanup after a
  cancellation has no href to find the distribution by, and a deletion of the snapshot has to look
  the distribution up by its path.
\<close>

theorem resumed_snapshot_loses_its_distribution:
  assumes run: "helper_Run (snapshot_helper sr repo) v w = (Inr (), w')" and uuid: "\<forall>n. sr_uuid sr n \<noteq> ''''"
    and ident: "SnapshotIdent (tw_payload w) = Some ident"
    and publication: "\<forall>p. \<exists>resp rest p'. z_PublicationsList (p_zest (sr_pulpClient sr)) (domainName (sr_pulpClient sr)) v p =
      (ZestOk resp (Some pub # rest), p')"
    and distribution: "\<forall>p. \<exists>resp rest p'. z_DistributionsList (p_zest (sr_pulpClient sr)) (domainName (sr_pulpClient sr))
      (Some (re_UUID repo @ ''/'' @ ident)) p = (ZestOk resp (dist # rest), p')"
    and "di_Publication dist = Some pub"
    and guard: "\<forall>(wg :: 'p snapshot_world) guard wg'. FetchContentGuard (sr_pulpClient sr) TaskCtx (re_OrgID repo) (re_FeatureName repo) wg =
      (Inr guard, wg') \<longrightarrow> di_ContentGuard dist = guard"
  shows "\<exists>snap. tw_snapshots w' = tw_snapshots w @ [snap] \<and> sn_PublicationHref snap = pub \<and>
    sn_DistributionPath snap = re_UUID repo @ ''/'' @ ident \<and> sn_DistributionHref snap = '''' \<and>
    DistributionTaskHref (tw_payload w') = None"
proof -
  obtain pub' ident' distHref distTask snap where r: "run_record (snapshot_helper sr repo) v w w' pub' ident' distHref distTask snap"
    by (rule snapshot.helper_records [OF run]) (simp_all add: uuid)
  then have i: "ident' = ident" using ident by (auto simp: run_record_def Let_def)
  obtain w1 where "findOrCreatePublication (snapshot_helper sr repo) v w = (Inr pub', w1)"
    using r by (auto simp: run_record_def Let_def)
  then have p: "pub' = pub"
    using publication [rule_format, of "pw_pulp w"] unfolding findOrCreatePublication_def FindRpmPublicationByVersion_def
    by (auto simp: first_def elim!: bindIO_successE zestIO_success)
  obtain wg wg' guard wd' where g: "FetchContentGuard (sr_pulpClient sr) TaskCtx (re_OrgID repo) (re_FeatureName repo) (wg :: 'p snapshot_world) = (Inr guard, wg')"
    and d: "createOrUpdateDistribution (sr_pulpClient sr) TaskCtx pub ident (re_UUID repo @ ''/'' @ ident) guard wg' = (Inr (distHref, distTask), wd')"
    using r by (auto simp: run_record_def CreateOrUpdateDistribution_def Let_def i p elim!: bindIO_successE)
  have "di_ContentGuard dist = guard" using guard [rule_format, OF g] .
  then have "\<not> distributionUpdateNeeded dist pub guard"
    using assms(6) by (cases guard) (auto simp: distributionUpdateNeeded_def)
  then have blank: "distHref = ''''" "distTask = ''''"
    using distribution_in_place [OF _ _ d] distribution by blast+
  then show ?thesis
    using r i p snapshot.blank(2) by (auto simp: run_record_def Let_def)
qed

definition placed :: DistributionResponse where
  "placed = \<lparr>di_PulpHref = Some (dist_href ''u''), di_Name = ''u'', di_BasePath = ''r1/u'', di_ContentGuard = None, di_Publication = Some publication1, di_PublicationIsSet = True\<rparr>"

definition resumed_task :: "demo_pulp SnapshotRepository" where
  "resumed_task = snap_demo_task\<lparr>sr_pulpClient := (sr_pulpClient snap_demo_task)\<lparr>p_zest := snap_zest
     \<lparr>z_DistributionsList := \<lambda>_ path p. (ZestOk answer200 (if path = Some ''r1/u'' then [placed] else []), p)\<rparr>\<rparr>\<rparr>"

definition resumed_world :: "demo_pulp snapshot_world" where
  "resumed_world = (snap_demo_world [])\<lparr>tw_payload := no_payload\<lparr>SnapshotIdent := Some ''u'', DistributionTaskHref := Some ''task''\<rparr>\<rparr>"

theorem resumed_snapshot_loses_its_distribution_witness:
  "(let (result, w') = helper_Run (snapshot_helper resumed_task snap_demo_repo) version1 resumed_world in
    result = Inr () \<and> (\<exists>snap. tw_snapshots w' = [snap] \<and> sn_DistributionPath snap = ''r1/u'' \<and> sn_DistributionHref snap = '''' \<and>
      DistributionTaskHref (tw_payload w') = None))"
proof -
  let ?run = "helper_Run (snapshot_helper resumed_task snap_demo_repo) version1 resumed_world"
  have "fst ?run = Inr ()" by code_simp
  then have run: "?run = (Inr (), snd ?run)" by (cases ?run) auto
  have uuid: "\<forall>n. sr_uuid resumed_task n \<noteq> ''''" by (simp add: resumed_task_def snap_demo_task_def)
  have ident: "SnapshotIdent (tw_payload resumed_world) = Some ''u''" by (simp add: resumed_world_def)
  have pub: "\<forall>p. \<exists>resp rest p'. z_PublicationsList (p_zest (sr_pulpClient resumed_task)) (domainName (sr_pulpClient resumed_task)) version1 p =
      (ZestOk resp (Some publication1 # rest), p')"
    by (simp add: resumed_task_def snap_zest_def)
  have dist: "\<forall>p. \<exists>resp rest p'. z_DistributionsList (p_zest (sr_pulpClient resumed_task)) (domainName (sr_pulpClient resumed_task))
      (Some (re_UUID snap_demo_repo @ ''/'' @ ''u'')) p = (ZestOk resp (placed # rest), p')"
    by (simp add: resumed_task_def snap_demo_repo_def)
  have guard: "\<forall>(wg :: demo_pulp snapshot_world) guard wg'. FetchContentGuard (sr_pulpClient resumed_task) TaskCtx
      (re_OrgID snap_demo_repo) (re_FeatureName snap_demo_repo) wg = (Inr guard, wg') \<longrightarrow> di_ContentGuard placed = guard"
    by (simp add: FetchContentGuard_def resumed_task_def snap_demo_task_def placed_def)
  have "di_Publication placed = Some publication1" by (simp add: placed_def)
  from resumed_snapshot_loses_its_distribution [OF run uuid ident pub dist this guard] run show ?thesis
    by (auto simp: Let_def resumed_world_def snap_demo_world_def snap_demo_repo_def)
qed

text \<open>
  The same on a Pulp that remembers its distributions, with the interruption: the first run made the
  distribution \<open>r1/u\<close> and lost the connection, the second finds it.
\<close>

lemma interrupted_then_resumed:
  "map di_BasePath (fst (pw_pulp interrupted)) = [''r1/u'', ''r1/latest''] \<and> tw_snapshots interrupted = [] \<and>
   DistributionTaskHref (tw_saved interrupted) = Some ''u'' \<and>
   (let (result, w') = helper_Run (snapshot_helper snap_demo_task snap_demo_repo) version1 resumed_start in
    result = Inr () \<and> map sn_DistributionPath (tw_snapshots w') = [''r1/u''] \<and> map sn_DistributionHref (tw_snapshots w') = [''''] \<and>
    DistributionTaskHref (tw_saved w') = None)"
  by code_simp

section \<open>Cancellation\<close>

lemma dbIO_cancelled: "cancelled w \<Longrightarrow> dbIO TaskCtx call w = (Inl (pw_cause w), w)"
  by (simp add: dbIO_def)

lemma GetTask_cancelled: "cancelled w \<Longrightarrow> GetTask r TaskCtx href w = (Inl (cancel_error r w), w)"
  by (simp add: GetTask_def zestIO_cancelled)

lemma Find_cancelled: "cancelled w \<Longrightarrow> FindDistributionByPath r TaskCtx path w = (Inl (cancel_error r w), w)"
  by (simp add: FindDistributionByPath_def zestIO_cancelled bindIO_def)

lemma UpdatePayload_cancelled: "cancelled w \<Longrightarrow> cancelled (snd (sr_UpdatePayload w))"
  by (auto simp: sr_UpdatePayload_def dbIO_def tick_def cancelled_def Let_def split: list.split option.split)

lemma save_uuid_cancelled: "cancelled w \<Longrightarrow> cancelled (snd (sr_SaveSnapshotUUID x w))"
  using UpdatePayload_cancelled [of "w\<lparr>tw_payload := (tw_payload w)\<lparr>SnapshotUUID := blank_nil x\<rparr>\<rparr>"]
  by (simp add: sr_SaveSnapshotUUID_def set_payload_def bindIO_def cancelled_def)

abbreviation dist_task :: "'p snapshot_world \<Rightarrow> string option" where
  "dist_task \<equiv> DistributionTaskHref \<circ> tw_payload"

text \<open>
  The cleanup of the helper runs under the context whose cancellation started it: it stops at its
  first call, before it deletes anything.
\<close>

definition with_delete :: "'p SnapshotRepository \<Rightarrow> (string \<Rightarrow> (string, 'p) zest_call) \<Rightarrow> 'p SnapshotRepository" where
  "with_delete sr delete =
     sr\<lparr>sr_pulpClient := (sr_pulpClient sr)\<lparr>p_zest := (p_zest (sr_pulpClient sr))\<lparr>z_DistributionsDelete := delete\<rparr>\<rparr>\<rparr>"

lemma cancel_error_delete [simp]: "cancel_error (sr_pulpClient (with_delete sr f)) w = cancel_error (sr_pulpClient sr) w"
  by (simp add: cancel_error_def with_delete_def)

lemma Cleanup_cancelled:
  assumes c: "cancelled w"
  shows "kept dist_task w (snd (Cleanup (snapshot_helper sr repo) w))"
    and "Cleanup (snapshot_helper (with_delete sr f) repo) w = Cleanup (snapshot_helper sr repo) w"
proof -
  obtain res w1 where s: "sr_SaveSnapshotUUID '''' w = (res, w1)" by (cases "sr_SaveSnapshotUUID '''' w")
  then have c1: "cancelled w1" using save_uuid_cancelled [OF c, of "''''"] by simp
  have k: "kept dist_task w w1"
    using kept_run [OF snapshot.others_uuid(3) [of "''''"], of w res w1] s by (simp add: snapshot_payload_def)
  note defs = Cleanup_def getIO_def bindIO_def Snapshot_Delete_def Snapshot_FetchModel_def mapErrIO_def queryIO_def handleIO_def dbIO_cancelled [OF c] GetTask_cancelled [OF c]
    Find_cancelled [OF c1] snapshot_payload_def kept_def
  show "kept dist_task w (snd (Cleanup (snapshot_helper sr repo) w))"
    using s k by (cases "DistributionTaskHref (tw_payload w)"; cases "SnapshotUUID (tw_payload w)"; cases res) (simp_all add: defs)
  show "Cleanup (snapshot_helper (with_delete sr f) repo) w = Cleanup (snapshot_helper sr repo) w"
    using s by (cases "DistributionTaskHref (tw_payload w)"; cases "SnapshotUUID (tw_payload w)"; cases res) (simp_all add: defs)
qed

lemma kept_ignore: "keeps (kept get) m \<Longrightarrow> keeps (kept get) (ignoreIO m)"
  unfolding ignoreIO_def by (intro kept_intros)

lemma kept_UpdatePayload: "keeps (kept dist_task) sr_UpdatePayload"
  by (auto simp: keeps_def kept_def sr_UpdatePayload_def dbIO_def tick_def Let_def split: list.split option.split)

lemma cleanupOnCancel_kept: "keeps (kept dist_task) (cleanupOnCancel sr)"
proof -
  have pulp_task: "keeps (kept dist_task) m" if "keeps only_pulp m" for m :: "(TaskResponse, 'a snapshot_world) io"
    by (rule kept_pulp [OF _ that]) simp
  have pulp_href: "keeps (kept dist_task) m" if "keeps only_pulp m" for m :: "(string option, 'a snapshot_world) io"
    by (rule kept_pulp [OF _ that]) simp
  have set: "keeps (kept dist_task) (set_payload f)" if "\<And>d. DistributionTaskHref (f d) = DistributionTaskHref d" for f
    using that by (simp add: keeps_def kept_def set_payload_def)
  show ?thesis
    unfolding cleanupOnCancel_def
    by (auto intro!: kept_intros kept_getIO set pulp_task [OF only_pulp_CancelTask] pulp_task [OF only_pulp_simple(1)] pulp_href [OF only_pulp_simple(12)]
        split: option.split simp del: returnIO_apply)
qed

lemma delete_not_used:
  "CancelTask (sr_pulpClient (with_delete sr f)) = CancelTask (sr_pulpClient sr)"
  "GetTask (sr_pulpClient (with_delete sr f)) = GetTask (sr_pulpClient sr)"
  "DeleteRpmRepositoryVersion (sr_pulpClient (with_delete sr f)) = DeleteRpmRepositoryVersion (sr_pulpClient sr)"
  by (simp_all add: fun_eq_iff with_delete_def CancelTask_def GetTask_def zestIO_def DeleteRpmRepositoryVersion_def deleteIO_def getZestClient_def)

lemma cleanupOnCancel_delete: "cleanupOnCancel (with_delete sr f) = cleanupOnCancel sr"
  unfolding cleanupOnCancel_def delete_not_used ..

text \<open>
  C25. When a snapshot run is cancelled, what the deferred cleanup does: it removes no snapshot
  row, forgets no distribution task and asks Pulp to delete no distribution (the helper's cleanup
  runs under the cancelled context), though it does cancel the synchronisation and delete the
  version it made.
\<close>

theorem cancelled_run_keeps_row_and_distribution:
  assumes "cancelled w" "on_cancel sr repo w = (res, w')"
  shows "tw_snapshots w' = tw_snapshots w \<and> DistributionTaskHref (tw_payload w') = DistributionTaskHref (tw_payload w) \<and>
    (\<forall>delete. on_cancel (with_delete sr delete) repo w = (res, w'))"
proof -
  let ?clean = "\<lambda>sr. ignoreIO (Cleanup (snapshot_helper sr repo))"
  let ?rest = "\<lambda>sr. bindIO (ignoreIO (cleanupOnCancel sr)) (\<lambda>_. ignoreIO sr_UpdatePayload)"
  have on: "on_cancel sr repo = bindIO (?clean sr) (\<lambda>_. ?rest sr)" for sr by (simp add: on_cancel_def)
  obtain r1 w1 where c: "?clean sr w = (r1, w1)" by (cases "?clean sr w")
  then have w1: "w1 = snd (Cleanup (snapshot_helper sr repo) w)"
    by (auto simp: ignoreIO_def handleIO_def split: prod.splits sum.splits if_splits)
  have "keeps (kept dist_task) (?rest sr)"
    by (intro kept_intros kept_ignore cleanupOnCancel_kept kept_UpdatePayload)
  then have "kept dist_task w1 (snd (?rest sr w1))" by (rule keepsD)
  moreover have "kept dist_task w w1" using Cleanup_cancelled(1) [OF assms(1)] w1 by simp
  moreover have "w' = w1 \<or> w' = snd (?rest sr w1)"
    using assms(2) c unfolding on by (auto simp: bindIO_def [of "?clean sr"] split: sum.splits)
  ultimately have "kept dist_task w w'" by (auto simp: kept_def)
  moreover have "on_cancel (with_delete sr delete) repo w = (res, w')" for delete
    using assms(2) Cleanup_cancelled(2) [OF assms(1)] unfolding on cleanupOnCancel_delete
    by (simp add: bindIO_def ignoreIO_def handleIO_def)
  ultimately show ?thesis by (simp add: kept_def)
qed

text \<open>
  Cancelled between the two statements that record the snapshot: the handler reports success, the
  snapshot's row stays and its version is gone from Pulp.
\<close>

definition cancelled_at :: "nat \<Rightarrow> demo_pulp snapshot_world" where
  "cancelled_at n = (snap_demo_world [])\<lparr>pw_cancel := Some n\<rparr>"

theorem cancelled_run_keeps_row_and_distribution_witness:
  "(let w = snd (run_snapshot snap_demo_task snap_demo_repo (cancelled_at 15)); w' = snd (on_cancel snap_demo_task snap_demo_repo w) in
    cancelled w \<and> tw_snapshots w' = tw_snapshots w \<and> DistributionTaskHref (tw_payload w') = DistributionTaskHref (tw_payload w))"
proof -
  let ?w = "snd (run_snapshot snap_demo_task snap_demo_repo (cancelled_at 15))"
  have c: "cancelled ?w" by code_simp
  have "on_cancel snap_demo_task snap_demo_repo ?w = (fst (on_cancel snap_demo_task snap_demo_repo ?w), snd (on_cancel snap_demo_task snap_demo_repo ?w))" by simp
  from cancelled_run_keeps_row_and_distribution [OF c this] c show ?thesis by (simp add: Let_def)
qed

lemma cancelled_snapshot_without_version:
  "(let (result, w) = SnapshotHandler snap_demo_task (cancelled_at 19) in
    result = Inr () \<and> map sn_VersionHref (tw_snapshots w) = [version1] \<and> snd (pw_pulp w) = [] \<and>
    map di_BasePath (fst (pw_pulp w)) = [''r1/u'', ''r1/latest''])"
  by code_simp

end
