(* ===== verification/TemplatePaths.thy ===== *)
theory TemplatePaths
  imports TemplateDao
begin

text \<open>
  Where Pulp serves a template's repositories: the path and the name of a distribution
  (\<open>getDistPathAndName\<close>, \<open>getRHRepoContentPath\<close>, \<open>customTemplateSnapshotPath\<close>) and the domain that
  owns a repository's content (\<open>pkg/tasks/utils.go\<close>), shared by the tasks on templates and snapshots.
\<close>

section \<open>The path of a URL\<close>

text \<open>
  What \<open>url.Parse\<close> makes of a URL, as far as its path: the fragment and the query are cut off, then
  the scheme and the authority, and the rest is unescaped. The syntax of the authority itself (its
  port, its address) is not checked here.
\<close>

definition is_letter :: "char \<Rightarrow> bool" where
  "is_letter c = ((of_char c :: nat) \<in> {97..122} \<union> {65..90})"

definition is_digit :: "char \<Rightarrow> bool" where
  "is_digit c = ((of_char c :: nat) \<in> {48..57})"

text \<open>The characters before a colon, if they can be a scheme.\<close>

fun getScheme :: "string \<Rightarrow> string \<Rightarrow> string option \<times> string" where
  "getScheme seen [] = (Some [], rev seen)"
| "getScheme seen (c # s) =
     (if is_letter c \<or> (is_digit c \<or> c \<in> set ''+-.'') \<and> seen \<noteq> [] then getScheme (c # seen) s
      else if c = CHR '':'' then (if seen = [] then (None, s) else (Some (rev seen), s))
      else (Some [], rev seen @ c # s))"

fun hex_value :: "char \<Rightarrow> nat option" where
  "hex_value c = (let n = (of_char c :: nat) in
     if n \<in> {48..57} then Some (n - 48) else if n \<in> {97..102} then Some (n - 87) else if n \<in> {65..70} then Some (n - 55) else None)"

fun unescape :: "string \<Rightarrow> string option" where
  "unescape [] = Some []"
| "unescape (c # s) =
     (if c = CHR ''%'' then
        (case s of
           a # b # rest \<Rightarrow>
             (case (hex_value a, hex_value b) of
                (Some x, Some y) \<Rightarrow> map_option (Cons (char_of (16 * x + y))) (unescape rest)
              | _ \<Rightarrow> None)
         | _ \<Rightarrow> None)
      else map_option (Cons c) (unescape s))"

definition url_error :: "string \<Rightarrow> string \<Rightarrow> go_error" where
  "url_error rawURL why = Other (''parse '' @ [CHR 34] @ rawURL @ [CHR 34] @ '': '' @ why)"

definition set_path :: "string \<Rightarrow> string \<Rightarrow> string result" where
  "set_path rawURL rest = (case unescape rest of None \<Rightarrow> Inl (url_error rawURL ''invalid URL escape'') | Some path \<Rightarrow> Inr path)"

definition url_Path :: "string \<Rightarrow> string result" where
  "url_Path rawURL =
     (let u = fst (Cut rawURL ''#'') in
      if list_ex (\<lambda>c. (of_char c :: nat) < 32 \<or> of_char c = (127 :: nat)) u then Inl (url_error rawURL ''invalid control character in URL'')
      else if u = ''*'' then Inr ''*''
      else
        (case getScheme [] u of
           (None, _) \<Rightarrow> Inl (url_error rawURL ''missing protocol scheme'')
         | (Some scheme, rest) \<Rightarrow>
             (let rest = fst (Cut rest ''?'') in
              if \<not> HasPrefix rest ''/'' \<and> scheme \<noteq> [] then Inr ''''
              else if \<not> HasPrefix rest ''/'' \<and> CHR '':'' \<in> set (takeWhile (\<lambda>c. c \<noteq> CHR ''/'') rest)
              then Inl (url_error rawURL ''first path segment in URL cannot contain colon'')
              else if (scheme \<noteq> [] \<or> \<not> HasPrefix rest ''///'') \<and> HasPrefix rest ''//''
              then set_path rawURL (dropWhile (\<lambda>c. c \<noteq> CHR ''/'') (drop 2 rest))
              else set_path rawURL rest)))"

section \<open>Distributions of a template\<close>

definition customTemplateSnapshotPath :: "string \<Rightarrow> string \<Rightarrow> string" where
  "customTemplateSnapshotPath templateUUID repoUUID = ''templates/'' @ templateUUID @ ''/'' @ repoUUID"

text \<open>\<open>u.Path[1 : len(u.Path)-1]\<close>, which panics for a path of less than two characters.\<close>

definition slice_panic :: go_error where
  "slice_panic = GoPanic ''runtime error: slice bounds out of range''"

definition getRHRepoContentPath :: "string \<Rightarrow> string result" where
  "getRHRepoContentPath rawURL =
     (case url_Path rawURL of
        Inl err \<Rightarrow> Inl err
      | Inr path \<Rightarrow> if length path < 2 then Inl slice_panic else Inr (take (length path - 2) (drop 1 path)))"

definition getDistPathAndName :: "RepositoryResponse \<Rightarrow> string \<Rightarrow> (string \<times> string) result" where
  "getDistPathAndName repo templateUUID =
     (let distName = templateUUID @ ''/'' @ re_UUID repo in
      if re_OrgID repo = RedHatOrg then
        (case getRHRepoContentPath (re_URL repo) of
           Inl err \<Rightarrow> Inl err
         | Inr path \<Rightarrow> Inr (''templates/'' @ templateUUID @ ''/'' @ path, distName))
      else Inr (customTemplateSnapshotPath templateUUID (re_UUID repo), distName))"

text \<open>\<open>repositoryDomain\<close>: the switch compares the repository's organisation in this order.\<close>

definition repositoryDomain ::
  "ctx \<Rightarrow> RepositoryResponse \<Rightarrow> string \<Rightarrow> string \<Rightarrow> string \<Rightarrow> string \<Rightarrow> (string, ('p, 'x) db_world_scheme) io" where
  "repositoryDomain ctx repo viewerOrgID viewerDomain rhDomain communityDomain =
     (if re_OrgID repo = RedHatOrg then returnIO rhDomain
      else if re_OrgID repo = CommunityOrg then returnIO communityDomain
      else if re_OrgID repo = viewerOrgID then returnIO viewerDomain
      else wrapIO (''error fetching domain for repo org '' @ re_OrgID repo) (Domain_Fetch ctx (re_OrgID repo)))"

lemma reads_repositoryDomain [db_reads]: "keeps same_tables (repositoryDomain ctx repo o' d rh c)"
  by (simp add: repositoryDomain_def db_reads del: returnIO_apply)

text \<open>A path Red Hat's content network serves, with its slashes at both ends.\<close>

lemma rh_path_example:
  "getRHRepoContentPath ''https://cdn.redhat.com/content/dist/rhel9/9/x86_64/baseos/os/'' = Inr ''content/dist/rhel9/9/x86_64/baseos/os''"
  by code_simp

end
