(* ===== verification/DeleteSnapshots.thy ===== *)
theory DeleteSnapshots
  imports TemplatePaths PulpFrame
begin

text \<open>
  Deleting snapshots (\<open>pkg/tasks/delete_snapshots.go\<close>): the templates that use a snapshot get another
  one, the configuration gets another latest one, then what Pulp serves and keeps of the snapshot is
  removed and last the row. An error of one snapshot is collected and the next one is tried.
\<close>

section \<open>The task\<close>

text \<open>
  \<open>ds_range\<close> is the order in which the map of the updated templates is ranged over, which Go leaves
  open. Log lines and events are left out.
\<close>

record 'p DeleteSnapshots =
  ds_orgID :: string
  ds_rhDomainName :: string
  ds_domainName :: string
  ds_communityDomainName :: string
  ds_RepoUUID :: string
  ds_SnapshotsUUIDs :: "string list"
  ds_daoReg :: DaoRegistry
  ds_pulpClient :: "'p pulpDaoImpl"
  ds_PulpConfigured :: bool
  ds_range :: "(string \<times> Snapshot) list \<Rightarrow> (string \<times> Snapshot) list"

text \<open>\<open>m[key] = v\<close>\<close>

definition map_put :: "'k \<Rightarrow> 'v \<Rightarrow> ('k \<times> 'v) list \<Rightarrow> ('k \<times> 'v) list" where
  "map_put k v m = (if k \<in> fst ` set m then map (\<lambda>e. if fst e = k then (k, v) else e) m else m @ [(k, v)])"

definition no_other_snapshot :: go_error where
  "no_other_snapshot = Other ''no other snapshot was found''"

section \<open>Rows\<close>

definition templates_using ::
  "'p DeleteSnapshots \<Rightarrow> Snapshot \<Rightarrow> (TemplateResponse list, ('p, 'x) db_world_scheme) io" where
  "templates_using ds snap =
     (if ds_orgID ds = RedHatOrg \<or> ds_orgID ds = CommunityOrg
      then InternalOnlyGetTemplatesForSnapshots (ds_daoReg ds) TaskCtx [sn_UUID snap]
      else
        bindIO (Template_List (ds_daoReg ds) TaskCtx (ds_orgID ds) False
            (no_filter\<lparr>tf_SnapshotUUIDs := [sn_UUID snap]\<rparr>)) (\<lambda>(templates, count).
        returnIO (if count = 0 then [] else templates)))"

definition move_template ::
  "'p DeleteSnapshots \<Rightarrow> Snapshot \<Rightarrow> TemplateResponse \<Rightarrow> (Snapshot, ('p, 'x) db_world_scheme) io" where
  "move_template ds snap template =
     (let repoUUIDs = [sn_RepositoryConfigurationUUID snap] in
      bindIO (template_date (tp_UseLatest template) (tp_Date template)) (\<lambda>date.
      bindIO (FetchSnapshotsModelByDateAndRepository TaskCtx (ds_orgID ds) repoUUIDs date) (\<lambda>snaps.
        case snaps of
          [other] \<Rightarrow> bindIO (UpdateSnapshots TaskCtx (tp_UUID template) repoUUIDs snaps) (\<lambda>_. returnIO other)
        | _ \<Rightarrow> failIO no_other_snapshot)))"

fun move_templates ::
  "'p DeleteSnapshots \<Rightarrow> Snapshot \<Rightarrow> (string \<times> Snapshot) list \<Rightarrow> TemplateResponse list \<Rightarrow> ((string \<times> Snapshot) list, ('p, 'x) db_world_scheme) io" where
  "move_templates ds snap templateUpdateMap [] = returnIO templateUpdateMap"
| "move_templates ds snap templateUpdateMap (template # templates) =
     bindIO (move_template ds snap template) (\<lambda>other.
     move_templates ds snap (map_put (tp_UUID template) other templateUpdateMap) templates)"

definition updateTemplatesUsingSnap ::
  "'p DeleteSnapshots \<Rightarrow> Snapshot \<Rightarrow> ((string \<times> Snapshot) list, ('p, 'x) db_world_scheme) io" where
  "updateTemplatesUsingSnap ds snap = bindIO (templates_using ds snap) (move_templates ds snap [])"

text \<open>The second statement gets the UUID of the configuration where that of the repository is expected.\<close>

definition updateRepoConfig :: "'p DeleteSnapshots \<Rightarrow> string \<Rightarrow> string \<Rightarrow> (unit, ('p, 'x) db_world_scheme) io" where
  "updateRepoConfig ds repoUUID snapUUID =
     bindIO (FetchLatestSnapshotModel TaskCtx repoUUID) (\<lambda>latestSnap.
       if sn_UUID latestSnap = snapUUID then failIO no_other_snapshot
       else
         bindIO (UpdateLastSnapshot TaskCtx (ds_orgID ds) repoUUID (sn_UUID latestSnap)) (\<lambda>_.
         UpdateLastSnapshotTask TaskCtx '''' (ds_orgID ds) repoUUID))"

section \<open>Pulp\<close>

text \<open>\<open>WithDomain\<close> of the domain that has the repository's content.\<close>

definition configurePulpClient :: "'p DeleteSnapshots \<Rightarrow> ('p pulpDaoImpl, ('p, 'x) db_world_scheme) io" where
  "configurePulpClient ds =
     bindIO (RepositoryConfig_Fetch (ds_daoReg ds) TaskCtx (ds_orgID ds) (ds_RepoUUID ds)) (\<lambda>repo.
     returnIO
       (if re_OrgID repo = RedHatOrg \<and> ds_rhDomainName ds \<noteq> '''' then WithDomain (ds_pulpClient ds) (ds_rhDomainName ds)
        else if re_OrgID repo = CommunityOrg \<and> ds_communityDomainName ds \<noteq> '''' then WithDomain (ds_pulpClient ds) (ds_communityDomainName ds)
        else if ds_domainName ds \<noteq> '''' then WithDomain (ds_pulpClient ds) (ds_domainName ds)
        else ds_pulpClient ds))"

definition isRepositoryVersionBlockedByDistribution :: "go_error \<Rightarrow> bool" where
  "isRepositoryVersionBlockedByDistribution err =
     (StrContains (error_text err) ''currently being used to distribute content'' \<or>
      StrContains (error_text err) ''update the necessary distributions first'')"

text \<open>Delete a distribution and wait for the task Pulp starts for that, if it starts one.\<close>

definition delete_polled ::
  "'p pulpDaoImpl \<Rightarrow> string \<Rightarrow> string \<Rightarrow> string \<Rightarrow> (unit, ('p, 'x) pulp_world_scheme) io" where
  "delete_polled pulp whenDeleting whenPolling href =
     bindIO (wrapIO whenDeleting (DeleteRpmDistribution pulp TaskCtx href)) (\<lambda>task.
       case task of
         None \<Rightarrow> returnIO ()
       | Some taskHref \<Rightarrow> bindIO (wrapIO whenPolling (PollTask pulp TaskCtx taskHref)) (\<lambda>_. returnIO ()))"

definition deleteDistributionAtPath :: "'p pulpDaoImpl \<Rightarrow> string \<Rightarrow> (unit, ('p, 'x) pulp_world_scheme) io" where
  "deleteDistributionAtPath pulp distPath =
     (if distPath = '''' then returnIO ()
      else
        bindIO (wrapIO (''failed to find distribution at base path '' @ distPath) (FindDistributionByPath pulp TaskCtx distPath)) (\<lambda>dist.
          case (case dist of None \<Rightarrow> None | Some d \<Rightarrow> di_PulpHref d) of
            None \<Rightarrow> returnIO ()
          | Some href \<Rightarrow>
              delete_polled pulp (''failed to delete distribution '' @ href @ '' at path '' @ distPath)
                (''error polling distribution deletion task for '' @ href) href))"

definition deleteSnapshotDistribution :: "'p pulpDaoImpl \<Rightarrow> Snapshot \<Rightarrow> (unit, ('p, 'x) pulp_world_scheme) io" where
  "deleteSnapshotDistribution pulp snap =
     (if sn_DistributionHref snap \<noteq> '''' then
        delete_polled pulp (''failed to delete snapshot distribution '' @ sn_DistributionHref snap)
          (''error polling snapshot distribution deletion task for '' @ sn_DistributionHref snap) (sn_DistributionHref snap)
      else
        wrapIO (''failed to delete snapshot distribution by path '' @ sn_DistributionPath snap)
          (deleteDistributionAtPath pulp (sn_DistributionPath snap)))"

definition deleteDistributionIfBlockingPublication ::
  "'p pulpDaoImpl \<Rightarrow> string \<Rightarrow> string \<Rightarrow> (bool, ('p, 'x) pulp_world_scheme) io" where
  "deleteDistributionIfBlockingPublication pulp distPath publicationHref =
     bindIO (wrapIO (''failed to find distribution at base path '' @ distPath) (FindDistributionByPath pulp TaskCtx distPath)) (\<lambda>dist.
       case dist of
         None \<Rightarrow> returnIO False
       | Some d \<Rightarrow>
           if di_PulpHref d = None then returnIO False
           else if \<not> di_PublicationIsSet d then bindIO (deleteDistributionAtPath pulp distPath) (\<lambda>_. returnIO True)
           else if di_Publication d \<noteq> Some publicationHref then returnIO False
           else bindIO (deleteDistributionAtPath pulp distPath) (\<lambda>_. returnIO True))"

definition template_path :: "RepositoryResponse \<Rightarrow> string \<Rightarrow> (string \<times> string, 's) io" where
  "template_path repo templateUUID = resultIO (getDistPathAndName repo templateUUID)"

fun template_paths :: "RepositoryResponse \<Rightarrow> string list \<Rightarrow> (string list, 's) io" where
  "template_paths repo [] = returnIO []"
| "template_paths repo (uuid # uuids) =
     bindIO (wrapIO (''failed to get distribution path for template '' @ uuid) (template_path repo uuid)) (\<lambda>(distPath, _).
     bindIO (template_paths repo uuids) (\<lambda>distPaths. returnIO (distPath # distPaths)))"

definition deleteDistributionsBlockingPublication ::
  "DaoRegistry \<Rightarrow> 'p pulpDaoImpl \<Rightarrow> Snapshot \<Rightarrow> RepositoryResponse \<Rightarrow> string \<Rightarrow> (unit, ('p, 'x) db_world_scheme) io" where
  "deleteDistributionsBlockingPublication reg pulp snap repo publicationHref =
     bindIO (wrapIO (''failed to list templates for repo '' @ sn_RepositoryConfigurationUUID snap)
       (InternalOnlyGetTemplatesForRepoConfig reg TaskCtx (sn_RepositoryConfigurationUUID snap) False)) (\<lambda>templates.
     bindIO (template_paths repo (map tp_UUID templates)) (\<lambda>distPaths.
     forIO (\<lambda>distPath. bindIO (deleteDistributionIfBlockingPublication pulp distPath publicationHref) (\<lambda>_. returnIO ()))
       (sn_DistributionPath snap # distPaths)))"

text \<open>The version is deleted, and the task polled if there is one.\<close>

definition delete_version :: "'p pulpDaoImpl \<Rightarrow> string \<Rightarrow> string \<Rightarrow> (string option, ('p, 'x) pulp_world_scheme) io" where
  "delete_version pulp what versionHref = wrapIO what (DeleteRpmRepositoryVersion pulp TaskCtx versionHref)"

definition and_cleanup_failed :: "go_error \<Rightarrow> go_error \<Rightarrow> go_error" where
  "and_cleanup_failed err cleanupErr =
     Wrapf '''' err ('' (also failed to clean up blocking distributions: '' @ error_text cleanupErr @ '')'')"

definition attemptDeleteRepositoryVersion ::
  "DaoRegistry \<Rightarrow> 'p pulpDaoImpl \<Rightarrow> Snapshot \<Rightarrow> RepositoryResponse \<Rightarrow> (unit, ('p, 'x) db_world_scheme) io" where
  "attemptDeleteRepositoryVersion reg pulp snap repo =
     bindIO (delete_version pulp ''failed to delete repository version'' (sn_VersionHref snap)) (\<lambda>task.
       case task of
         Some taskHref \<Rightarrow>
           handleIO (bindIO (PollTask pulp TaskCtx taskHref) (\<lambda>_. returnIO ())) (\<lambda>err.
             if \<not> isRepositoryVersionBlockedByDistribution err then failIO (Wrap ''error polling repository version deletion task'' err)
             else
               bindIO (mapErrIO (\<lambda>cleanupErr. Wrapf ''error polling repository version deletion task: '' err
                   ('' (also failed to clean up blocking distributions: '' @ error_text cleanupErr @ '')''))
                 (deleteDistributionsBlockingPublication reg pulp snap repo (sn_PublicationHref snap))) (\<lambda>_.
               bindIO (delete_version pulp ''failed to delete repository version after cleanup'' (sn_VersionHref snap)) (\<lambda>task.
                 case task of
                   None \<Rightarrow> returnIO ()
                 | Some taskHref \<Rightarrow>
                     bindIO (wrapIO ''error polling repository version deletion task after cleanup'' (PollTask pulp TaskCtx taskHref))
                       (\<lambda>_. returnIO ()))))
       | None \<Rightarrow>
           caseIO (GetRpmRepositoryVersion pulp TaskCtx (sn_VersionHref snap)) (\<lambda>verifyErr. returnIO ())
             (\<lambda>_. failIO (Other ''repository version still exists after delete returned no task'')))"

definition deleteRepositoryVersion ::
  "DaoRegistry \<Rightarrow> 'p pulpDaoImpl \<Rightarrow> Snapshot \<Rightarrow> RepositoryResponse \<Rightarrow> (unit, ('p, 'x) db_world_scheme) io" where
  "deleteRepositoryVersion reg pulp snap repo =
     handleIO (attemptDeleteRepositoryVersion reg pulp snap repo) (\<lambda>err.
       if \<not> isRepositoryVersionBlockedByDistribution err then failIO err
       else
         bindIO (mapErrIO (and_cleanup_failed err) (deleteDistributionsBlockingPublication reg pulp snap repo (sn_PublicationHref snap))) (\<lambda>_.
         wrapIO ''failed to delete repository version after cleanup'' (attemptDeleteRepositoryVersion reg pulp snap repo)))"

text \<open>
  The distribution of a template that was moved; an error of the lookup of its href is only logged,
  and then the href is nil.
\<close>

definition moveTemplateDistribution ::
  "'p pulpDaoImpl \<Rightarrow> RepositoryResponse \<Rightarrow> string \<times> Snapshot \<Rightarrow> (unit, ('p, 'x) db_world_scheme) io" where
  "moveTemplateDistribution pulp repo entry =
     (case entry of (templateUUID, other) \<Rightarrow>
        bindIO (wrapIO (''failed to get distribution path/name for template '' @ templateUUID) (template_path repo templateUUID)) (\<lambda>(distPath, distName).
        bindIO (handleIO (GetDistributionHref TaskCtx templateUUID (re_UUID repo)) (\<lambda>_. returnIO None)) (\<lambda>storedDistHref.
          case storedDistHref of
            None \<Rightarrow> returnIO ()
          | Some _ \<Rightarrow>
              bindIO (wrapIO (''failed to find distribution by path '' @ distPath @ '' for template '' @ templateUUID)
                (FindDistributionByPath pulp TaskCtx distPath)) (\<lambda>_.
              bindIO (wrapIO (''failed to update distribution for template '' @ templateUUID)
                (CreateOrUpdateDistribution pulp TaskCtx repo (sn_PublicationHref other) distName distPath)) (\<lambda>_. returnIO ())))))"

definition updateLatestDistribution ::
  "'p pulpDaoImpl \<Rightarrow> RepositoryResponse \<Rightarrow> (unit, ('p, 'x) db_world_scheme) io" where
  "updateLatestDistribution pulp repo =
     (let latestPathIdent = GetLatestRepoDistPath (re_UUID repo) in
      bindIO (wrapIO (''failed to find latest distribution by path '' @ latestPathIdent) (FindDistributionByPath pulp TaskCtx latestPathIdent)) (\<lambda>latestDistro.
        case latestDistro of
          None \<Rightarrow> returnIO ()
        | Some dist \<Rightarrow>
            caseIO (FetchLatestSnapshotForDistribution TaskCtx (re_UUID repo))
              (\<lambda>err.
                if errors_Is err ErrRecordNotFound
                then bindIO (deref (di_PulpHref dist)) (delete_polled pulp (''failed to delete latest distribution for repo '' @ re_UUID repo)
                  (''failed to poll latest distribution deletion for repo '' @ re_UUID repo))
                else failIO (Wrap (''failed to fetch latest snapshot for repo '' @ re_UUID repo) err))
              (\<lambda>latestSnap.
                bindIO (wrapIO (''failed to update latest distribution for repo '' @ re_UUID repo)
                  (CreateOrUpdateLatestDistribution pulp TaskCtx repo (sn_PublicationHref latestSnap))) (\<lambda>_. returnIO ()))))"

definition deleteOrUpdatePulpContent ::
  "'p DeleteSnapshots \<Rightarrow> 'p pulpDaoImpl \<Rightarrow> Snapshot \<Rightarrow> RepositoryResponse \<Rightarrow> (string \<times> Snapshot) list \<Rightarrow> (unit, ('p, 'x) db_world_scheme) io" where
  "deleteOrUpdatePulpContent ds pulp snap repo templateUpdateMap =
     bindIO (forIO (moveTemplateDistribution pulp repo) (ds_range ds templateUpdateMap)) (\<lambda>_.
     bindIO (updateLatestDistribution pulp repo) (\<lambda>_.
     bindIO (deleteSnapshotDistribution pulp snap) (\<lambda>_.
     deleteRepositoryVersion (ds_daoReg ds) pulp snap repo)))"

section \<open>One snapshot, and all\<close>

text \<open>Everything that comes before the row of the snapshot is deleted.\<close>

definition release_snapshot ::
  "'p DeleteSnapshots \<Rightarrow> 'p pulpDaoImpl \<Rightarrow> string \<Rightarrow> Snapshot \<Rightarrow> RepositoryResponse \<Rightarrow> (unit, ('p, 'x) db_world_scheme) io" where
  "release_snapshot ds pulp snapUUID snap repo =
     bindIO (wrapIO (''couldn''@[CHR 39]@''t update templates for snapshot '' @ snapUUID) (updateTemplatesUsingSnap ds snap)) (\<lambda>templateUpdateMap.
     bindIO (wrapIO (''failed to delete template snapshot associations for snapshot '' @ snapUUID)
       (DeleteTemplateSnapshot TaskCtx (sn_UUID snap))) (\<lambda>_.
     bindIO (whenIO (re_LastSnapshotUUID repo = snapUUID)
       (wrapIO (''failed to update repo config for snapshot '' @ snapUUID) (updateRepoConfig ds (re_UUID repo) snapUUID))) (\<lambda>_.
     wrapIO (''failed to delete pulp content for snapshot '' @ snapUUID)
       (deleteOrUpdatePulpContent ds pulp snap repo templateUpdateMap))))"

definition delete_one :: "'p DeleteSnapshots \<Rightarrow> 'p pulpDaoImpl \<Rightarrow> string \<Rightarrow> (unit, ('p, 'x) db_world_scheme) io" where
  "delete_one ds pulp snapUUID =
     bindIO (wrapIO (''failed to fetch snapshot '' @ snapUUID) (unless_missing (Snapshot_FetchModel TaskCtx snapUUID True))) (\<lambda>found.
       case found of
         None \<Rightarrow> returnIO ()
       | Some snap \<Rightarrow>
           bindIO (wrapIO (''couldn''@[CHR 39]@''t fetch repo config '' @ sn_RepositoryConfigurationUUID snap @ '' for snapshot '' @ snapUUID)
             (unless_missing (RepositoryConfig_Fetch (ds_daoReg ds) TaskCtx (ds_orgID ds) (sn_RepositoryConfigurationUUID snap)))) (\<lambda>found.
             case found of
               None \<Rightarrow> returnIO ()
             | Some repo \<Rightarrow>
                 bindIO (release_snapshot ds pulp snapUUID snap repo) (\<lambda>_.
                 bindIO (wrapIO (''failed to delete snapshot '' @ snapUUID) (unless_missing (Snapshot_Delete TaskCtx snapUUID))) (\<lambda>_.
                 returnIO ()))))"

definition DeleteSnapshots_Run :: "'p DeleteSnapshots \<Rightarrow> (unit, ('p, 'x) db_world_scheme) io" where
  "DeleteSnapshots_Run ds =
     (if \<not> ds_PulpConfigured ds then failIO (Other (''no pulp client configured, can''@[CHR 39]@''t proceed with snapshot deletion''))
      else
        bindIO (wrapIO ''failed to configure pulp client'' (configurePulpClient ds)) (\<lambda>pulp.
        joinIO (collectIO (delete_one ds pulp) (ds_SnapshotsUUIDs ds))))"

text \<open>The handler reads the three domains; \<open>newClient\<close> makes the client of a domain.\<close>

definition DeleteSnapshotsHandler ::
  "'p DeleteSnapshots \<Rightarrow> (string \<Rightarrow> 'p pulpDaoImpl) \<Rightarrow> (unit, ('p, 'x) db_world_scheme) io" where
  "DeleteSnapshotsHandler task newClient =
     bindIO (Domain_Fetch TaskCtx (ds_orgID task)) (\<lambda>domain.
     bindIO (Domain_Fetch TaskCtx RedHatOrg) (\<lambda>rhDomain.
     bindIO (Domain_Fetch TaskCtx CommunityOrg) (\<lambda>communityDomain.
     DeleteSnapshots_Run (task\<lparr>ds_rhDomainName := rhDomain, ds_domainName := domain, ds_communityDomainName := communityDomain,
       ds_pulpClient := newClient domain\<rparr>))))"

end
