(* ===== verification/SnapshotDaoProps.thy ===== *)
theory SnapshotDaoProps
  imports ContentDemo
begin

text \<open>
  Which snapshot a template gets for a date: the two queries and the one that combines them against
  their purpose.
\<close>

lemma created_after_date:
  assumes "not_after date s" "\<not> not_after date t"
  shows "created_sooner s t"
proof (rule ccontr)
  assume "\<not> created_sooner s t"
  then have "sn_CreatedAt t \<le> sn_CreatedAt s" by (simp add: created_sooner_def)
  then have "trunc_second (sn_CreatedAt t) \<le> trunc_second (sn_CreatedAt s)"
    by (simp add: trunc_second_def zdiv_mono1)
  with assms show False by (simp add: not_after_def)
qed

lemma filter_by_key:
  assumes "distinct (map key rows)" "set xs \<subseteq> set rows"
  shows "filter (\<lambda>s. key s \<in> set (map key xs)) rows = filter (\<lambda>s. s \<in> set xs) rows"
proof (rule filter_cong [OF refl])
  fix s assume "s \<in> set rows"
  with assms show "key s \<in> set (map key xs) \<longleftrightarrow> s \<in> set xs"
    by (auto simp: distinct_map dest: inj_onD)
qed

lemma filter_single:
  "distinct rows \<Longrightarrow> filter ((=) t) rows = (if t \<in> set rows then [t] else [])"
  by (induction rows) auto

text \<open>The rows one repository contributes to the two queries.\<close>

definition before_date :: "timestamp \<Rightarrow> string \<Rightarrow> Snapshot list \<Rightarrow> Snapshot option" where
  "before_date date r rows = pick created_later (filter (\<lambda>s. sn_RepositoryConfigurationUUID s = r \<and> not_after date s) rows)"

definition after_date :: "timestamp \<Rightarrow> string \<Rightarrow> Snapshot list \<Rightarrow> Snapshot option" where
  "after_date date r rows = pick created_sooner (filter (\<lambda>s. sn_RepositoryConfigurationUUID s = r \<and> \<not> not_after date s) rows)"

lemma before_dateD:
  "before_date date r rows = Some s \<Longrightarrow> s \<in> set rows \<and> sn_RepositoryConfigurationUUID s = r \<and> not_after date s"
  by (auto simp: before_date_def dest: pick_filterD)

lemma after_dateD:
  "after_date date r rows = Some s \<Longrightarrow> s \<in> set rows \<and> sn_RepositoryConfigurationUUID s = r \<and> \<not> not_after date s"
  by (auto simp: after_date_def dest: pick_filterD)

definition both_dates :: "timestamp \<Rightarrow> Snapshot list \<Rightarrow> Snapshot list" where
  "both_dates date rows =
     distinct_on sn_RepositoryConfigurationUUID created_later (filter (not_after date) rows) @
     distinct_on sn_RepositoryConfigurationUUID created_sooner (filter (\<lambda>s. \<not> not_after date s) rows)"

lemma both_dates_iff:
  "s \<in> set (both_dates date rows) \<longleftrightarrow>
   before_date date (sn_RepositoryConfigurationUUID s) rows = Some s \<or> after_date date (sn_RepositoryConfigurationUUID s) rows = Some s"
  by (simp add: both_dates_def distinct_on_iff before_date_def after_date_def conj_commute)

text \<open>The one that is combined from them: the row before the date, or the one after it.\<close>

definition chosen_for :: "timestamp \<Rightarrow> string \<Rightarrow> Snapshot list \<Rightarrow> Snapshot option" where
  "chosen_for date r rows = (case before_date date r rows of Some s \<Rightarrow> Some s | None \<Rightarrow> after_date date r rows)"

lemma chosen_forD: "chosen_for date r rows = Some s \<Longrightarrow> s \<in> set rows \<and> sn_RepositoryConfigurationUUID s = r"
  by (auto simp: chosen_for_def split: option.splits dest: before_dateD after_dateD)

lemma combined_choice:
  assumes "set rows \<subseteq> set table"
  shows "pick created_sooner (filter (\<lambda>s. sn_RepositoryConfigurationUUID s = r \<and> s \<in> set (both_dates date rows)) table) = chosen_for date r rows"
proof -
  let ?in = "\<lambda>s. sn_RepositoryConfigurationUUID s = r \<and> s \<in> set (both_dates date rows)"
  have mem: "?in s \<longleftrightarrow> before_date date r rows = Some s \<or> after_date date r rows = Some s" for s
    by (auto simp: both_dates_iff dest: before_dateD after_dateD)
  have order: "sooner b a" if "before_date date r rows = Some b" "after_date date r rows = Some a" "sooner = created_sooner" for a b sooner
    using that created_after_date before_dateD after_dateD by blast
  show ?thesis
  proof (cases "chosen_for date r rows")
    case None
    then have "filter ?in table = []" using mem by (auto simp: chosen_for_def filter_empty_conv split: option.splits)
    with None show ?thesis by simp
  next
    case (Some s)
    have "s \<in> set table" "?in s"
      using Some mem assms by (auto simp: chosen_for_def split: option.splits dest: before_dateD after_dateD)
    moreover have "created_sooner s t" if "?in t" "t \<noteq> s" for t
      using that Some mem order [of s t] by (auto simp: chosen_for_def split: option.splits)
    ultimately show ?thesis using sooner.pick_first [of s "filter ?in table"] Some by auto
  qed
qed

lemma snapshots_by_date_eq:
  assumes uuids: "distinct (map sn_UUID (tw_snapshots w))"
  shows "filter (\<lambda>s. sn_RepositoryConfigurationUUID s = r) (snapshots_by_date orgID repos date w) =
    (case chosen_for date r (candidates orgID repos w) of None \<Rightarrow> [] | Some s \<Rightarrow> [s])"
proof -
  let ?rows = "candidates orgID repos w" and ?table = "tw_snapshots w"
  let ?both = "both_dates date ?rows"
  have rows: "set ?rows \<subseteq> set ?table" "\<And>s. s \<in> set ?rows \<Longrightarrow> \<not> sn_Deleted s" by (auto simp: candidates_def)
  have both: "set ?both \<subseteq> set ?rows" by (auto simp: both_dates_iff dest: before_dateD after_dateD)
  let ?combined = "distinct_on sn_RepositoryConfigurationUUID created_sooner (filter (\<lambda>s. s \<in> set ?both) ?table)"
  have comb: "s \<in> set ?combined \<longleftrightarrow> chosen_for date (sn_RepositoryConfigurationUUID s) ?rows = Some s" for s
    unfolding distinct_on_iff filter_filter using combined_choice [OF rows(1)] by (simp add: conj_commute)
  have sub: "set ?combined \<subseteq> set ?table" using both rows(1) by (auto simp: distinct_on_iff dest: pick_filterD)
  have "snapshots_by_date orgID repos date w = filter (\<lambda>s. s \<in> set ?combined) ?table"
  proof -
    have "snapshots_by_date orgID repos date w = filter (\<lambda>s. sn_UUID s \<in> set (map sn_UUID ?combined) \<and> \<not> sn_Deleted s) ?table"
      unfolding filter_by_key [OF uuids subset_trans [OF both rows(1)], symmetric]
      by (simp only: snapshots_by_date_def Let_def both_dates_def map_append)
    also have "\<dots> = filter (\<lambda>s. \<not> sn_Deleted s) (filter (\<lambda>s. s \<in> set ?combined) ?table)"
      unfolding filter_by_key [OF uuids sub, symmetric] by (simp add: conj_commute)
    also have "\<dots> = filter (\<lambda>s. s \<in> set ?combined) ?table"
    proof (rule filter_True, rule ballI)
      fix s assume "s \<in> set (filter (\<lambda>s. s \<in> set ?combined) ?table)"
      then have "chosen_for date (sn_RepositoryConfigurationUUID s) ?rows = Some s" using comb by simp
      then show "\<not> sn_Deleted s" using rows(2) chosen_forD by blast
    qed
    finally show ?thesis .
  qed
  moreover have "sn_RepositoryConfigurationUUID s = r \<and> s \<in> set ?combined \<longleftrightarrow> chosen_for date r ?rows = Some s" for s
    unfolding comb using chosen_forD by blast
  ultimately have "filter (\<lambda>s. sn_RepositoryConfigurationUUID s = r) (snapshots_by_date orgID repos date w) =
      filter (\<lambda>s. chosen_for date r ?rows = Some s) ?table" by (simp add: conj_commute)
  moreover have "distinct ?table" using uuids by (simp add: distinct_map)
  moreover have "s \<in> set ?table" if "chosen_for date r ?rows = Some s" for s
    using that rows(1) chosen_forD by blast
  ultimately show ?thesis by (cases "chosen_for date r ?rows") (auto simp: filter_single)
qed

lemma snapshots_by_date_mem:
  "s \<in> set (snapshots_by_date orgID repos date w) \<Longrightarrow> s \<in> set (tw_snapshots w) \<and> \<not> sn_Deleted s"
  by (auto simp: snapshots_by_date_def Let_def)

text \<open>
  What is chosen: the newest of the repository's readable snapshots that is not after the date; if all
  are after it, the oldest.
\<close>

lemma chosen_for_spec:
  assumes "chosen_for date r rows = Some s"
  shows "s \<in> set rows \<and> sn_RepositoryConfigurationUUID s = r \<and>
    (\<forall>t. t \<in> set rows \<and> sn_RepositoryConfigurationUUID t = r \<longrightarrow>
      (if not_after date s then not_after date t \<longrightarrow> sn_CreatedAt t \<le> sn_CreatedAt s
       else \<not> not_after date t \<and> sn_CreatedAt s \<le> sn_CreatedAt t))"
proof (cases "before_date date r rows")
  case None
  then have none: "\<not> not_after date t" if "t \<in> set rows" "sn_RepositoryConfigurationUUID t = r" for t
    using that by (auto simp: before_date_def filter_empty_conv)
  from None assms have s: "after_date date r rows = Some s" by (simp add: chosen_for_def)
  have "sn_CreatedAt s \<le> sn_CreatedAt t" if "t \<in> set rows" "sn_RepositoryConfigurationUUID t = r" for t
    using sooner.pick_least [OF s [unfolded after_date_def], of t] none that by (simp add: created_sooner_def)
  with after_dateD [OF s] none show ?thesis by simp
next
  case (Some b)
  with assms have s: "before_date date r rows = Some s" by (simp add: chosen_for_def)
  have "sn_CreatedAt t \<le> sn_CreatedAt s" if "t \<in> set rows" "sn_RepositoryConfigurationUUID t = r" "not_after date t" for t
    using later.pick_least [OF s [unfolded before_date_def], of t] that by (simp add: created_later_def)
  with before_dateD [OF s] show ?thesis by simp
qed

lemma chosen_for_None: "chosen_for date r rows = None \<longleftrightarrow> (\<forall>s. s \<in> set rows \<longrightarrow> sn_RepositoryConfigurationUUID s \<noteq> r)"
  by (auto simp: chosen_for_def before_date_def after_date_def filter_empty_conv split: option.splits dest!: pick_mem)

lemma chosen_for_candidates:
  assumes "rc \<in> set repos"
  shows "chosen_for date rc (candidates org repos w) = chosen_for date rc (candidates org [rc] w)"
proof -
  have "filter (\<lambda>s. sn_RepositoryConfigurationUUID s = rc \<and> P s) (candidates org repos w) =
      filter (\<lambda>s. sn_RepositoryConfigurationUUID s = rc \<and> P s) (candidates org [rc] w)" for P
    using assms by (auto simp: candidates_def intro: filter_cong)
  then have "before_date date rc (candidates org repos w) = before_date date rc (candidates org [rc] w)"
    "after_date date rc (candidates org repos w) = after_date date rc (candidates org [rc] w)"
    unfolding before_date_def after_date_def by metis+
  then show ?thesis by (simp add: chosen_for_def split: option.split)
qed

lemma snapshots_by_date_rows:
  assumes "same_tables w w'"
  shows "snapshots_by_date org repos date w' = snapshots_by_date org repos date w" "candidates org repos w' = candidates org repos w"
  using assms by (simp_all add: snapshots_by_date_def candidates_def config_of_def same_tables_def)

text \<open>A repository with a snapshot of second 10 and one of second 20.\<close>

definition two_snapshots :: "demo_pulp db_world" where
  "two_snapshots = demo_content\<lparr>tw_snapshots := [demo_snapshot ''s1'' 10000000, demo_snapshot ''s2'' 20000000]\<rparr>"

section \<open>Properties\<close>

text \<open>
  C30. The snapshot of a date: for each repository asked for, the query that combines two others answers
  at most one snapshot, the newest one the organisation may read that is not after the date (to the
  second), or the oldest if all are after it, and none only if there is none to read.
\<close>

theorem snapshot_of_date:
  assumes run: "FetchSnapshotsModelByDateAndRepository ctx orgID repos date w = (Inr snaps, w')"
    and uuids: "distinct (map sn_UUID (tw_snapshots w))" and r: "r \<in> set repos"
  defines "rows \<equiv> candidates orgID [r] w"
  shows "case filter (\<lambda>s. sn_RepositoryConfigurationUUID s = r) snaps of
      [] \<Rightarrow> rows = []
    | s # ss \<Rightarrow> ss = [] \<and> s \<in> set rows \<and>
        (if list_ex (not_after date) rows
         then not_after date s \<and> list_all (\<lambda>t. not_after date t \<longrightarrow> sn_CreatedAt t \<le> sn_CreatedAt s) rows
         else list_all (\<lambda>t. sn_CreatedAt s \<le> sn_CreatedAt t) rows)"
proof -
  have snaps: "snaps = snapshots_by_date orgID repos date w"
    using run by (auto simp: FetchSnapshotsModelByDateAndRepository_def snapshots_by_date_rows elim!: queryIO_success)
  have rc: "sn_RepositoryConfigurationUUID s = r" if "s \<in> set rows" for s using that by (simp add: rows_def candidates_def)
  have eq: "filter (\<lambda>s. sn_RepositoryConfigurationUUID s = r) snaps = (case chosen_for date r rows of None \<Rightarrow> [] | Some s \<Rightarrow> [s])"
    unfolding snaps snapshots_by_date_eq [OF uuids] rows_def by (simp add: chosen_for_candidates [OF r])
  show ?thesis
  proof (cases "chosen_for date r rows")
    case None
    then have "rows = []" using rc chosen_for_None [of date r rows] by (cases rows) auto
    with eq None show ?thesis by simp
  next
    case (Some s)
    from chosen_for_spec [OF Some] rc eq Some show ?thesis by (auto simp: list_ex_iff list_all_iff split: if_splits)
  qed
qed

theorem snapshot_of_date_witness:
  "\<exists>snaps w'. FetchSnapshotsModelByDateAndRepository TaskCtx ''acme'' [''r1''] 15000000 two_snapshots = (Inr snaps, w') \<and>
     filter (\<lambda>s. sn_RepositoryConfigurationUUID s = ''r1'') snaps = [demo_snapshot ''s1'' 10000000]"
proof -
  let ?run = "FetchSnapshotsModelByDateAndRepository TaskCtx ''acme'' [''r1''] 15000000 two_snapshots"
  have "\<not> isl (fst ?run)" by code_simp
  then obtain snaps w' where run: "?run = (Inr snaps, w')" by (cases ?run; cases "fst ?run") auto
  have rows: "candidates ''acme'' [''r1''] two_snapshots = [demo_snapshot ''s1'' 10000000, demo_snapshot ''s2'' 20000000]" by code_simp
  have dates: "not_after 15000000 (demo_snapshot ''s1'' 10000000)" "\<not> not_after 15000000 (demo_snapshot ''s2'' 20000000)" by code_simp+
  have "distinct (map sn_UUID (tw_snapshots two_snapshots))" by code_simp
  from snapshot_of_date [OF run this, of "''r1''"] rows dates
  have "filter (\<lambda>s. sn_RepositoryConfigurationUUID s = ''r1'') snaps = [demo_snapshot ''s1'' 10000000]"
    by (auto split: list.splits)
  with run show ?thesis by blast
qed

end
