(* ===== verification/ContentFrame.thy ===== *)
theory ContentFrame
  imports TemplatePaths PulpFrame
begin

text \<open>
  What the calls of the content tasks leave alone, proved once for every relation that ignores the
  bookkeeping of calls: the fault that was used up, the clock that was read, and Pulp.
\<close>

definition same_rows :: "('p, 'x) db_world_scheme \<Rightarrow> ('p, 'x) db_world_scheme \<Rightarrow> bool" where
  "same_rows w w' \<longleftrightarrow> same_tables w w' \<and> db_world.more w' = db_world.more w \<and> set (tw_faults w') \<subseteq> set (tw_faults w) \<and> pw_cause w' = pw_cause w"

lemma same_rows_order: "reflp same_rows" "transp same_rows"
  by (auto simp: reflp_def transp_def same_rows_def same_tables_def)

lemma same_rows_call: "same_rows w ((tick w)\<lparr>tw_faults := tl (tw_faults w)\<rparr>)"
  by (simp add: same_rows_def same_tables_def tick_def set_tl)

lemma only_pulp_same_rows: "only_pulp w w' \<Longrightarrow> same_rows w w'"
  by (cases w; cases w') (simp add: only_pulp_def same_rows_def same_tables_def)

lemma only_pulp_template: "keeps only_pulp (CreateOrUpdateTemplateDistribution r ctx repo snap orgID name path)"
  unfolding CreateOrUpdateTemplateDistribution_def CreateOrUpdateUnguardedDistribution_def by (simp add: pulp_keeps)

text \<open>The rows and the services.\<close>

definition untouched :: "('p, 'x) db_world_scheme \<Rightarrow> ('p, 'x) db_world_scheme \<Rightarrow> bool" where
  "untouched w w' \<longleftrightarrow> same_rows w w' \<and> pw_pulp w' = pw_pulp w"

named_theorems frame_keeps "steps that a frame relation allows"

text \<open>A relation that a database call keeps which changes no row.\<close>

locale db_frame =
  fixes R :: "('p, 'x) db_world_scheme \<Rightarrow> ('p, 'x) db_world_scheme \<Rightarrow> bool"
  assumes transitive: "transp R"
    and bookkeeping: "same_rows w w' \<Longrightarrow> pw_pulp w' = pw_pulp w \<Longrightarrow> R w w'"
begin

lemma reflexive: "reflp R"
  by (rule reflpI) (rule bookkeeping [OF reflpD [OF same_rows_order(1)] refl])

lemma bookkeeping_call: "R w ((tick w)\<lparr>tw_faults := tl (tw_faults w)\<rparr>)"
  by (rule bookkeeping [OF same_rows_call]) (simp add: tick_def)

lemma run: "keeps R m \<Longrightarrow> m w = (r, w') \<Longrightarrow> R w w'"
  by (metis keepsD snd_conv)

lemmas step_return [frame_keeps] = keeps_return [OF reflexive]
lemmas step_fail [frame_keeps] = keeps_fail [OF reflexive]
lemmas step_bind [frame_keeps] = keeps_bind [OF transitive]
lemmas step_wrap [frame_keeps] = keeps_wrap [of R]
lemmas step_for [frame_keeps] = keeps_for [OF reflexive transitive]
lemmas step_handle [frame_keeps] = keeps_handle [OF transitive]
lemmas step_case [frame_keeps] = keeps_case [OF transitive]
lemmas step_collect [frame_keeps] = keeps_collect [OF reflexive transitive]

lemma step_mapErr [frame_keeps]: "keeps R m \<Longrightarrow> keeps R (mapErrIO f m)"
  by (simp add: mapErrIO_def frame_keeps)

lemma step_when [frame_keeps]: "keeps R m \<Longrightarrow> keeps R (whenIO b m)"
  by (cases b) (simp_all add: frame_keeps del: returnIO_apply)

lemma step_missing [frame_keeps]: "keeps R m \<Longrightarrow> keeps R (unless_missing m)"
  by (auto simp: unless_missing_def simp del: returnIO_apply intro!: frame_keeps)

lemma step_join [frame_keeps]: "keeps R m \<Longrightarrow> keeps R (joinIO m)"
  by (auto simp: joinIO_def simp del: returnIO_apply intro!: frame_keeps split: option.split)

lemma step_result [frame_keeps]: "keeps R (resultIO r)"
  by (simp add: resultIO_def frame_keeps split: sum.split)

lemma step_deref [frame_keeps]: "keeps R (deref p)"
  by (cases p) (simp_all add: frame_keeps del: returnIO_apply)

lemma step_Now [frame_keeps]: "keeps R Now"
  by (simp add: keeps_def Now_def bookkeeping same_rows_def same_tables_def)

lemma step_db:
  assumes "\<And>w. R w (snd (call w))"
  shows "keeps R (dbIO ctx call)"
proof (rule keepsI)
  fix w :: "('p, 'x) db_world_scheme"
  let ?w = "(tick w)\<lparr>tw_faults := tl (tw_faults w)\<rparr>"
  have "R w ?w" by (rule bookkeeping_call)
  moreover from this assms [of ?w] have "R w (snd (call ?w))" using transitive by (auto elim: transpE)
  ultimately show "R w (snd (dbIO ctx call w))"
    by (auto simp: dbIO_def Let_def reflpD [OF reflexive] split: list.split option.split)
qed

lemma step_exec: "(\<And>w. R w (f w)) \<Longrightarrow> keeps R (execIO ctx f)"
  unfolding execIO_def by (rule step_db) simp

lemma step_query [frame_keeps]: "keeps R (queryIO ctx q)"
  unfolding queryIO_def by (rule step_db) (simp add: reflpD [OF reflexive])

lemma dbIO_run:
  assumes "dbIO ctx call w = (Inr a, w')"
  obtains w1 where "call w1 = (Inr a, w')" "R w w1"
  using assms bookkeeping_call [of w] by (auto simp: dbIO_def Let_def split: if_splits list.splits option.splits)

text \<open>Reads.\<close>

lemma step_reads [frame_keeps]:
  "keeps R (Snapshot_FetchModel ctx u d)"
  "keeps R (FetchLatestSnapshotModel ctx rc)"
  "keeps R (FetchLatestPublishedSnapshotModel ctx rc)"
  "keeps R (FetchSnapshotsModelByDateAndRepository ctx orgID rs date)"
  "keeps R (Domain_Fetch ctx orgID)"
  "keeps R (GetDistributionHref ctx t rc)"
  "keeps R (fetchRepoConfig ctx orgID u shared)"
  unfolding Snapshot_FetchModel_def FetchLatestSnapshotModel_def FetchLatestPublishedSnapshotModel_def
    FetchSnapshotsModelByDateAndRepository_def Domain_Fetch_def GetDistributionHref_def fetchRepoConfig_def
  by (intro frame_keeps)+

lemma step_HasPublished [frame_keeps]: "keeps R (HasPublishedSnapshot ctx rc)"
  unfolding HasPublishedSnapshot_def by (intro frame_keeps)

lemma step_ForRepoConfig [frame_keeps]: "keeps R (FetchForRepoConfigUUID ctx rc d)"
  unfolding FetchForRepoConfigUUID_def Let_def by (auto intro!: frame_keeps simp del: returnIO_apply)

lemma step_WithoutOrgID [frame_keeps]: "keeps R (FetchWithoutOrgID ctx u d)"
  unfolding FetchWithoutOrgID_def by (intro frame_keeps)

lemma step_ForDistribution [frame_keeps]: "keeps R (FetchLatestSnapshotForDistribution ctx rc)"
  unfolding FetchLatestSnapshotForDistribution_def by (intro frame_keeps) (simp add: frame_keeps)

lemma step_overrides [frame_keeps]: "keeps R (applyPartnerResponseOverrides ctx viewer c repo)"
  by (simp add: applyPartnerResponseOverrides_def Let_def frame_keeps del: returnIO_apply)

lemma step_Fetch [frame_keeps]: "keeps R (RepositoryConfig_Fetch reg ctx orgID u)"
  unfolding RepositoryConfig_Fetch_def by (auto intro!: frame_keeps simp del: returnIO_apply split: prod.split)

lemma step_responses [frame_keeps]: "keeps R (to_responses reg ctx rows)"
  unfolding to_responses_def by (intro frame_keeps)

lemma step_templates [frame_keeps]:
  "keeps R (Template_List reg ctx orgID d f)"
  "keeps R (InternalOnlyGetTemplatesForSnapshots reg ctx us)"
  "keeps R (InternalOnlyGetTemplatesForRepoConfig reg ctx rc l)"
  unfolding Template_List_def InternalOnlyGetTemplatesForSnapshots_def InternalOnlyGetTemplatesForRepoConfig_def
  by (intro frame_keeps)+

lemma step_date [frame_keeps]: "keeps R (template_date l d)"
  by (simp add: template_date_def frame_keeps del: returnIO_apply)

lemma step_domain [frame_keeps]: "keeps R (repositoryDomain ctx repo o' d rh c)"
  by (simp add: repositoryDomain_def frame_keeps del: returnIO_apply)

lemma step_template_Fetch [frame_keeps]: "keeps R (Template_Fetch reg ctx orgID u d)"
  unfolding Template_Fetch_def template_fetch_def by (intro frame_keeps)

lemma step_changes [frame_keeps]: "keeps R (GetRepoChanges ctx t rs)"
  unfolding GetRepoChanges_def by (intro frame_keeps)

end

text \<open>One that the calls to Pulp keep too.\<close>

locale content_frame = db_frame +
  assumes services: "only_pulp w w' \<Longrightarrow> R w w'"
begin

lemma step_pulp: "keeps only_pulp m \<Longrightarrow> keeps R m"
  by (auto simp: keeps_def intro!: services)

lemmas step_client [frame_keeps] = only_pulp_simple [THEN step_pulp] only_pulp_Poll [THEN step_pulp] only_pulp_CreateOrUpdate [THEN step_pulp] only_pulp_template [THEN step_pulp]

end

interpretation rows: content_frame same_rows
  by (unfold_locales, rule same_rows_order, assumption, rule only_pulp_same_rows)

interpretation untouched: db_frame untouched
  using transpE [OF same_rows_order(2)] by (unfold_locales) (auto simp: transp_def untouched_def)

end
