(* ===== verification/DeleteSnapshotsProps.thy ===== *)
theory DeleteSnapshotsProps
  imports DeleteSnapshots SnapshotDaoProps ContentDemo ContentFrame
begin

text \<open>
  What a deletion leaves behind: a run that reports success has deleted the rows of exactly the
  snapshots it was given, with no reference left to them, and a snapshot whose deletion failed keeps
  its row.
\<close>

section \<open>What the steps leave alone\<close>

context content_frame begin

text \<open>The steps on Pulp change no row.\<close>

lemma step_delete_polled [frame_keeps]: "keeps R (delete_polled r a b h)"
  unfolding delete_polled_def by (auto intro!: frame_keeps simp del: returnIO_apply split: option.split)

lemma step_AtPath [frame_keeps]: "keeps R (deleteDistributionAtPath r path)"
  unfolding deleteDistributionAtPath_def by (auto intro!: frame_keeps simp del: returnIO_apply split: option.split)

lemma step_SnapshotDistribution [frame_keeps]: "keeps R (deleteSnapshotDistribution r snap)"
  unfolding deleteSnapshotDistribution_def by (simp add: frame_keeps)

lemma step_IfBlocking [frame_keeps]: "keeps R (deleteDistributionIfBlockingPublication r path pub)"
  unfolding deleteDistributionIfBlockingPublication_def
  by (auto intro!: frame_keeps simp del: returnIO_apply split: option.split)

lemma step_template_path [frame_keeps]: "keeps R (template_path repo u)"
  by (simp add: template_path_def frame_keeps)

lemma step_template_paths [frame_keeps]: "keeps R (template_paths repo us)"
  by (induction us) (auto intro!: frame_keeps simp del: returnIO_apply split: prod.split)

lemma step_Blocking [frame_keeps]: "keeps R (deleteDistributionsBlockingPublication reg r snap repo pub)"
  unfolding deleteDistributionsBlockingPublication_def by (intro frame_keeps)

lemma step_delete_version [frame_keeps]: "keeps R (delete_version r what v)"
  by (simp add: delete_version_def frame_keeps)

lemma step_attempt [frame_keeps]: "keeps R (attemptDeleteRepositoryVersion reg r snap repo)"
  unfolding attemptDeleteRepositoryVersion_def
  by (intro frame_keeps) (auto intro!: frame_keeps simp del: returnIO_apply split: option.split)

lemma step_deleteVersion [frame_keeps]: "keeps R (deleteRepositoryVersion reg r snap repo)"
  unfolding deleteRepositoryVersion_def by (intro frame_keeps) (auto intro!: frame_keeps)

lemma step_moveDistribution [frame_keeps]: "keeps R (moveTemplateDistribution r repo e)"
  unfolding moveTemplateDistribution_def
  by (auto intro!: frame_keeps simp del: returnIO_apply split: prod.split option.split)

lemma step_latest [frame_keeps]: "keeps R (updateLatestDistribution r repo)"
  unfolding updateLatestDistribution_def Let_def
  by (intro frame_keeps) (auto intro!: frame_keeps simp del: returnIO_apply split: option.split)

lemma step_content [frame_keeps]: "keeps R (deleteOrUpdatePulpContent ds r snap repo m)"
  unfolding deleteOrUpdatePulpContent_def by (intro frame_keeps)


end

text \<open>
  No step but the last changes the snapshots, and none changes which configurations there are;
  associations and configurations refer to snapshots that exist; the database's faults are used up
  in order.
\<close>

definition config_key :: "config_row \<Rightarrow> string \<times> string \<times> bool" where
  "config_key c = (co_UUID c, co_OrgID c, co_Deleted c)"

definition refers :: "('p, 'x) db_world_scheme \<Rightarrow> bool" where
  "refers w \<longleftrightarrow>
     (\<forall>r\<in>set (tw_trcs w). trc_SnapshotUUID r \<in> sn_UUID ` set (tw_snapshots w)) \<and>
     (\<forall>c\<in>set (tw_configs w). \<forall>u. co_LastSnapshotUUID c = Some u \<longrightarrow> u \<in> sn_UUID ` set (tw_snapshots w))"

definition unfinished :: "('p, 'x) db_world_scheme \<Rightarrow> ('p, 'x) db_world_scheme \<Rightarrow> bool" where
  "unfinished w w' \<longleftrightarrow> tw_snapshots w' = tw_snapshots w \<and> map config_key (tw_configs w') = map config_key (tw_configs w) \<and>
     (refers w \<longrightarrow> refers w') \<and> set (tw_faults w') \<subseteq> set (tw_faults w) \<and> pw_cause w' = pw_cause w"

lemma unfinished_same_rows: "same_rows w w' \<Longrightarrow> unfinished w w'"
  by (auto simp: unfinished_def same_rows_def same_tables_def refers_def)

interpretation unfinished: content_frame unfinished
  by (unfold_locales, force simp: transp_def unfinished_def, rule unfinished_same_rows, assumption, rule unfinished_same_rows [OF only_pulp_same_rows])

lemma unfinished_exec:
  assumes "\<And>w. tw_snapshots (f w) = tw_snapshots w" "\<And>w. map config_key (tw_configs (f w)) = map config_key (tw_configs w)"
    "\<And>w. refers w \<Longrightarrow> refers (f w)" "\<And>w. tw_faults (f w) = tw_faults w" "\<And>w. pw_cause (f w) = pw_cause w"
  shows "keeps unfinished (execIO ctx f)"
  by (rule unfinished.step_exec) (simp add: unfinished_def assms)

lemma config_key_update:
  "(\<And>c. config_key (f c) = config_key c) \<Longrightarrow> map config_key (update_where P f cs) = map config_key cs"
  by (simp add: update_where_def)

lemma unfinished_statements [frame_keeps]:
  "keeps unfinished (UpdateLastSnapshotTask ctx t orgID r)"
  "keeps unfinished (DeleteTemplateSnapshot ctx u)"
  unfolding UpdateLastSnapshotTask_def DeleteTemplateSnapshot_def
  by (intro frame_keeps unfinished_exec; auto simp: config_key_update config_key_def refers_def update_where_def delete_where_def)+

text \<open>Rows that are added or changed refer to snapshots that exist.\<close>

definition takes_snapshot :: "(trc_row \<Rightarrow> trc_row \<Rightarrow> trc_row) \<Rightarrow> bool" where
  "takes_snapshot f \<longleftrightarrow> (\<forall>new old. trc_SnapshotUUID (f new old) \<in> {trc_SnapshotUUID new, trc_SnapshotUUID old})"

lemma upsert_snapshots:
  assumes "takes_snapshot f" "r \<in> set (foldl (upsert1 f) rows news)"
  shows "trc_SnapshotUUID r \<in> trc_SnapshotUUID ` (set rows \<union> set news)"
  using assms(2)
proof (induction news arbitrary: rows)
  case (Cons new news)
  have "trc_SnapshotUUID r' \<in> trc_SnapshotUUID ` (set rows \<union> {new})" if "r' \<in> set (upsert1 f rows new)" for r'
    using that assms(1) by (auto simp: upsert1_def update_where_def takes_snapshot_def split: if_splits)
  with Cons.IH [of "upsert1 f rows new"] Cons.prems show ?case by fastforce
qed auto

lemma references_snapshot: "trc_references_exist w r \<Longrightarrow> trc_SnapshotUUID r \<in> sn_UUID ` set (tw_snapshots w)"
  by (force simp: trc_references_exist_def list_ex_iff)

lemma unfinished_upsert:
  assumes "takes_snapshot f"
  shows "keeps unfinished (upsert ctx f news)"
  unfolding upsert_def
  by (auto intro!: frame_keeps unfinished.step_db simp: unfinished_def refers_def list_all_iff references_snapshot
      dest!: upsert_snapshots [OF assms])

lemma unfinished_UpdateSnapshots [frame_keeps]: "keeps unfinished (UpdateSnapshots ctx t rs ss)"
  unfolding UpdateSnapshots_def Let_def by (simp add: frame_keeps unfinished_upsert takes_snapshot_def)

lemma unfinished_move_template [frame_keeps]: "keeps unfinished (move_template ds snap t)"
  unfolding move_template_def Let_def
  by (intro frame_keeps) (auto intro!: frame_keeps simp del: returnIO_apply split: list.split)

lemma unfinished_move_templates [frame_keeps]: "keeps unfinished (move_templates ds snap m ts)"
  by (induction ts arbitrary: m) (auto intro!: frame_keeps simp del: returnIO_apply)

lemma unfinished_moves [frame_keeps]: "keeps unfinished (updateTemplatesUsingSnap ds snap)"
  unfolding updateTemplatesUsingSnap_def templates_using_def
  by (auto intro!: frame_keeps simp del: returnIO_apply split: prod.split)

lemma unfinished_UpdateLastSnapshot:
  assumes "u \<in> sn_UUID ` set (tw_snapshots w)"
  shows "unfinished w (snd (UpdateLastSnapshot ctx orgID rc u w))"
  using assms set_tl [of "tw_faults w"]
  by (auto simp: UpdateLastSnapshot_def execIO_def dbIO_def Let_def tick_def unfinished_def refers_def config_key_def update_where_def
      split: list.split option.split)

lemma FetchLatestSnapshotModel_mem:
  "FetchLatestSnapshotModel ctx rc w = (Inr s, w') \<Longrightarrow> s \<in> set (tw_snapshots w')"
  by (auto simp: FetchLatestSnapshotModel_def newest_where_def elim!: queryIO_success dest!: pick_filterD)

lemma unfinished_updateRepoConfig [frame_keeps]:
  fixes ds :: "'p DeleteSnapshots"
  shows "keeps unfinished (updateRepoConfig ds r u :: (unit, ('p, 'x) db_world_scheme) io)"
proof (rule keepsI)
  fix w :: "('p, 'x) db_world_scheme"
  obtain res w1 where f: "FetchLatestSnapshotModel TaskCtx r w = (res, w1)" by (cases "FetchLatestSnapshotModel TaskCtx r w")
  have w1: "unfinished w w1" using keepsD [OF unfinished.step_reads(2), of w TaskCtx r] f by simp
  show "unfinished w (snd (updateRepoConfig ds r u w))"
  proof (cases res)
    case (Inl e)
    with f w1 show ?thesis by (simp add: updateRepoConfig_def bindIO_def)
  next
    case (Inr s)
    with f have "sn_UUID s \<in> sn_UUID ` set (tw_snapshots w1)" by (auto dest: FetchLatestSnapshotModel_mem)
    then have "unfinished w1 (snd (UpdateLastSnapshot TaskCtx (ds_orgID ds) r (sn_UUID s) w1))" by (rule unfinished_UpdateLastSnapshot)
    moreover have "unfinished w2 (snd (UpdateLastSnapshotTask TaskCtx '''' (ds_orgID ds) r w2))" for w2 :: "('p, 'x) db_world_scheme" by (rule keepsD) (rule frame_keeps)
    ultimately show ?thesis
      using Inr f w1 unfinished.transitive
      by (auto simp: updateRepoConfig_def bindIO_def elim: transpE split: prod.split sum.split) (metis snd_conv transpE)
  qed
qed

lemma unfinished_release [frame_keeps]: "keeps unfinished (release_snapshot ds r u snap repo)"
  unfolding release_snapshot_def by (intro frame_keeps unfinished.step_content)

section \<open>Missing rows\<close>

text \<open>An error that is not about a missing row; the calls that fail do so with such errors only.\<close>

definition honest_error :: "go_error \<Rightarrow> bool" where
  "honest_error e \<longleftrightarrow> \<not> NotFound e \<and> \<not> errors_Is e ErrRecordNotFound"

definition honest :: "DaoRegistry \<Rightarrow> ('p, 'x) db_world_scheme \<Rightarrow> bool" where
  "honest reg w \<longleftrightarrow> (\<forall>e. Some e \<in> set (tw_faults w) \<longrightarrow> honest_error e) \<and> honest_error (pw_cause w) \<and>
     (\<forall>e. dr_GetContentPath reg = Inl e \<longrightarrow> honest_error e)"

lemma honest_unfinished: "unfinished w w' \<Longrightarrow> honest reg w \<Longrightarrow> honest reg w'"
  by (auto simp: honest_def unfinished_def)

lemma honest_db:
  assumes "honest reg w" "dbIO ctx call w = (Inl e, w')"
  obtains "honest_error e" | w1 where "call w1 = (Inl e, w')" "same_tables w w1"
  using assms by (auto simp: dbIO_def honest_def Let_def tick_def same_tables_def split: if_splits list.splits option.splits)

lemma dao_error_honest: "honest_error e \<Longrightarrow> \<not> NotFound (dao_error what e u)"
  by (simp add: honest_error_def dao_error_def NotFound_def)

lemma repository_error_honest: "honest_error e \<Longrightarrow> \<not> NotFound (RepositoryDBErrorToApi e u)"
  using dao_error_honest [of e "''Repository''" u]
  by (cases e) (auto simp: RepositoryDBErrorToApi_def NotFound_def split: option.splits)

lemma unless_missing_cases:
  assumes "unless_missing m w = (Inr r, w')"
  obtains a where "r = Some a" "m w = (Inr a, w')" | e where "r = None" "m w = (Inl e, w')" "NotFound e"
  using assms by (auto simp: unless_missing_def handleIO_def bindIO_def split: prod.splits sum.splits if_splits)

lemma mapErr_failure:
  assumes "mapErrIO f m w = (Inl e, w')" "NotFound e"
  obtains e' where "m w = (Inl e', w')" "e = f e'"
proof -
  have "\<not> NotFound e" if "halted e" using that by (cases e) (auto simp: NotFound_def)
  with assms that show thesis by (auto simp: mapErrIO_def handleIO_def split: prod.splits sum.splits if_splits)
qed

lemma FetchModel_missing:
  assumes "honest reg w" "Snapshot_FetchModel ctx u True w = (Inl e, w')" "NotFound e"
  shows "u \<notin> sn_UUID ` set (tw_snapshots w)"
proof -
  obtain e' where q: "queryIO ctx (\<lambda>w. record_or_not_found (find (\<lambda>s. sn_UUID s = u \<and> (True \<or> \<not> sn_Deleted s)) (tw_snapshots w))) w = (Inl e', w')"
    and e: "e = SnapshotsDBToApiError e' (Some u)"
    using assms(2,3) unfolding Snapshot_FetchModel_def by (elim mapErr_failure)
  from assms(1) q [unfolded queryIO_def] show ?thesis
  proof (cases rule: honest_db)
    case 1
    with e assms(3) show ?thesis by (simp add: SnapshotsDBToApiError_def dao_error_honest)
  next
    case (2 w1)
    then show ?thesis by (auto simp: record_or_not_found_def find_None_iff same_tables_def split: option.splits)
  qed
qed

definition owned :: "string \<Rightarrow> string \<Rightarrow> ('p, 'x) db_world_scheme \<Rightarrow> bool" where
  "owned orgID rc w \<longleftrightarrow> (rc, orgID, False) \<in> config_key ` set (tw_configs w)"

lemma owned_unfinished: "unfinished w w' \<Longrightarrow> owned orgID rc w \<Longrightarrow> owned orgID rc w'"
  unfolding owned_def unfinished_def by (metis list.set_map)

lemma fetchRepoConfig_owned:
  assumes "honest reg w" "owned orgID rc w" "fetchRepoConfig ctx orgID rc True w = (Inl e, w')"
  shows "\<not> NotFound e"
proof
  assume "NotFound e"
  then obtain e' where q: "queryIO ctx (\<lambda>w.
       record_or_not_found (map_option (\<lambda>c. (c, ModelToApiFields w c))
         (find (\<lambda>c. co_UUID c = rc \<and> \<not> co_Deleted c \<and>
             (if True
              then co_OrgID c \<in> {orgID, RedHatOrg, CommunityOrg, LightwellOrg, LightwellDemoOrg} \<or>
                   foreignPartnerVisible orgID (tw_snapshots w) c
              else co_OrgID c = orgID)) (tw_configs w)))) w = (Inl e', w')"
    and e: "e = RepositoryDBErrorToApi e' (Some rc)"
    using assms(3) unfolding fetchRepoConfig_def by (elim mapErr_failure)
  from assms(1) q [unfolded queryIO_def] show False
  proof (cases rule: honest_db)
    case 1
    with e \<open>NotFound e\<close> show False by (simp add: repository_error_honest)
  next
    case (2 w1)
    then show False
      using assms(2) by (auto simp: record_or_not_found_def find_None_iff same_tables_def owned_def config_key_def split: option.splits)
  qed
qed

lemma overrides_fail:
  assumes "applyPartnerResponseOverrides ctx viewer c repo w = (Inl e, w')"
  shows "\<not> NotFound e"
proof -
  have "halted e" using assms by (auto simp: applyPartnerResponseOverrides_def Let_def handleIO_def split: prod.splits sum.splits if_splits)
  then show ?thesis by (cases e) (auto simp: NotFound_def)
qed

lemma Domain_Fetch_honest: "honest reg w \<Longrightarrow> Domain_Fetch ctx orgID w = (Inl e, w') \<Longrightarrow> \<not> NotFound e"
  unfolding Domain_Fetch_def queryIO_def by (erule (1) honest_db) (auto simp: honest_error_def Let_def)

lemma Fetch_owned:
  assumes h: "honest reg w" and o: "owned orgID rc w" and f: "RepositoryConfig_Fetch reg ctx orgID rc w = (Inl e, w')"
  shows "\<not> NotFound e"
proof -
  obtain r w1 where c: "fetchRepoConfig ctx orgID rc True w = (r, w1)" by (cases "fetchRepoConfig ctx orgID rc True w")
  show ?thesis
  proof (cases r)
    case (Inl e')
    with c f fetchRepoConfig_owned [OF h o, of ctx e' w1] show ?thesis by (simp add: RepositoryConfig_Fetch_def bindIO_def)
  next
    case (Inr p)
    have h1: "honest reg w1" using honest_unfinished [OF unfinished.run [OF unfinished.step_reads(7) c] h] .
    have path: "\<not> NotFound e" if "dr_GetContentPath reg = Inl e" for e using that h by (simp add: honest_def honest_error_def)
    show ?thesis
      using f c Inr path overrides_fail Domain_Fetch_honest [OF h1]
      by (fastforce simp: RepositoryConfig_Fetch_def bindIO_def whenIO_def resultIO_def split: prod.splits sum.splits if_splits)
  qed
qed


section \<open>One round, and all\<close>

definition deleted :: "string set \<Rightarrow> ('p, 'x) db_world_scheme \<Rightarrow> ('p, 'x) db_world_scheme \<Rightarrow> bool" where
  "deleted us w w' \<longleftrightarrow> tw_snapshots w' = filter (\<lambda>s. sn_UUID s \<notin> us) (tw_snapshots w) \<and>
     map config_key (tw_configs w') = map config_key (tw_configs w) \<and>
     (refers w \<longrightarrow> refers w') \<and> set (tw_faults w') \<subseteq> set (tw_faults w) \<and> pw_cause w' = pw_cause w"

lemma unfinished_deleted: "unfinished w w' \<Longrightarrow> us \<inter> sn_UUID ` set (tw_snapshots w) = {} \<Longrightarrow> deleted us w w'"
  by (auto simp: deleted_def unfinished_def intro!: filter_True [symmetric])

lemma deleted_trans: "deleted us w w1 \<Longrightarrow> deleted vs w1 w2 \<Longrightarrow> deleted (us \<union> vs) w w2"
  by (auto simp: deleted_def intro!: filter_cong)

lemma honest_deleted: "deleted us w w' \<Longrightarrow> honest reg w \<Longrightarrow> honest reg w'"
  by (auto simp: honest_def deleted_def)

lemma owned_deleted: "deleted us w w' \<Longrightarrow> owned orgID rc w \<Longrightarrow> owned orgID rc w'"
  unfolding owned_def deleted_def by (metis list.set_map)

lemma uuid_image: "sn_UUID ` {x \<in> S. sn_UUID x \<noteq> u} = sn_UUID ` S - {u}"
  by auto

lemma delete_row_deleted:
  assumes "dbIO ctx (delete_snapshot_row u) w = (Inr (), w')"
  shows "deleted {u} w w'"
proof -
  obtain w1 where d: "delete_snapshot_row u w1 = (Inr (), w')" and w1: "unfinished w w1" using assms by (rule unfinished.dbIO_run)
  have "map config_key (tw_configs w') = map config_key (tw_configs w1)"
    using d by (auto simp: delete_snapshot_row_def config_key_def intro!: config_key_update split: if_splits)
  moreover have "refers w1 \<Longrightarrow> refers w'"
    using d by (auto simp: delete_snapshot_row_def refers_def delete_where_def update_where_def list_ex_iff uuid_image split: if_splits)
  ultimately have "deleted {u} w1 w'"
    using d by (auto simp: delete_snapshot_row_def deleted_def delete_where_def split: if_splits)
  then show ?thesis using deleted_trans [OF unfinished_deleted [OF w1, of "{}"]] by simp
qed

lemma Snapshot_Delete_deleted:
  assumes "honest reg w" "unless_missing (Snapshot_Delete TaskCtx u) w = (Inr r, w')"
  shows "deleted {u} w w'"
  using assms(2)
proof (cases rule: unless_missing_cases)
  case (1 a)
  then obtain snap w1 where f: "Snapshot_FetchModel TaskCtx u True w = (Inr snap, w1)"
    and d: "dbIO TaskCtx (delete_snapshot_row (sn_UUID snap)) w1 = (Inr (), w')"
    unfolding Snapshot_Delete_def by (auto elim: bindIO_successE)
  have "sn_UUID snap = u" using f unfolding Snapshot_FetchModel_def by (auto elim!: queryIO_success dest: find_mem)
  with d have "deleted {u} w1 w'" using delete_row_deleted by simp
  moreover have "deleted {} w w1" by (rule unfinished_deleted [OF unfinished.run [OF unfinished.step_reads(1) f]]) simp
  ultimately show ?thesis using deleted_trans [of "{}" w w1 "{u}" w'] by simp
next
  case (2 e)
  obtain x w1 where f: "Snapshot_FetchModel TaskCtx u True w = (x, w1)" by (cases "Snapshot_FetchModel TaskCtx u True w")
  have w1: "unfinished w w1" using unfinished.run [OF unfinished.step_reads(1) f] .
  show ?thesis
  proof (cases x)
    case (Inl e')
    with f 2 have "e' = e" "w1 = w'" by (simp_all add: Snapshot_Delete_def bindIO_def)
    with f Inl 2 assms(1) have "u \<notin> sn_UUID ` set (tw_snapshots w)" using FetchModel_missing by blast
    with \<open>w1 = w'\<close> show ?thesis using unfinished_deleted [OF w1, of "{u}"] by simp
  next
    case (Inr snap)
    with f 2 have d: "dbIO TaskCtx (delete_snapshot_row (sn_UUID snap)) w1 = (Inl e, w')" by (simp add: Snapshot_Delete_def bindIO_def)
    have "honest_error fk_violation" by (simp add: honest_error_def NotFound_def fk_violation_def ErrRecordNotFound_def)
    with d have "honest_error e"
      by (rule_tac honest_db [OF honest_unfinished [OF w1 assms(1)]]) (auto simp: delete_snapshot_row_def split: if_splits)
    with 2 show ?thesis by (simp add: honest_error_def)
  qed
qed

lemma delete_one_deleted:
  assumes run: "delete_one ds pulp u w = (Inr (), w')"
    and h: "honest (ds_daoReg ds) w"
    and o: "\<And>s. s \<in> set (tw_snapshots w) \<Longrightarrow> sn_UUID s = u \<Longrightarrow> owned (ds_orgID ds) (sn_RepositoryConfigurationUUID s) w"
  shows "deleted {u} w w'"
proof -
  obtain found w1 where f: "unless_missing (Snapshot_FetchModel TaskCtx u True) w = (Inr found, w1)"
    using run unfolding delete_one_def by (auto elim: bindIO_successE)
  have w1: "unfinished w w1" using unfinished.run [OF unfinished.step_missing [OF unfinished.step_reads(1)] f] .
  from f show ?thesis
  proof (cases rule: unless_missing_cases)
    case (2 e)
    then have "u \<notin> sn_UUID ` set (tw_snapshots w)" using FetchModel_missing [OF h] by blast
    moreover have "w1 = w'" using run f 2 by (simp add: delete_one_def bindIO_def wrapIO_def)
    ultimately show ?thesis using unfinished_deleted [OF w1, of "{u}"] by simp
  next
    case (1 snap)
    then have "snap \<in> set (tw_snapshots w)" "sn_UUID snap = u"
      unfolding Snapshot_FetchModel_def by (auto elim!: queryIO_success simp: same_tables_def dest: find_mem)
    then have o1: "owned (ds_orgID ds) (sn_RepositoryConfigurationUUID snap) w1" using o owned_unfinished [OF w1] by blast
    have h1: "honest (ds_daoReg ds) w1" using honest_unfinished [OF w1 h] .
    let ?fetch = "RepositoryConfig_Fetch (ds_daoReg ds) TaskCtx (ds_orgID ds) (sn_RepositoryConfigurationUUID snap)"
    obtain r w2 where c: "unless_missing ?fetch w1 = (Inr r, w2)"
      using run f 1 unfolding delete_one_def by (auto elim!: bindIO_successE)
    obtain repo where r: "r = Some repo" using c Fetch_owned [OF h1 o1] by (cases rule: unless_missing_cases) auto
    then obtain w3 x where g: "release_snapshot ds pulp u snap repo w2 = (Inr (), w3)"
      and d: "unless_missing (Snapshot_Delete TaskCtx u) w3 = (Inr x, w')"
      using run f 1 c by (auto simp: delete_one_def bindIO_def wrapIO_def split: prod.splits sum.splits)
    have "unfinished w w2"
      using unfinished.run [OF unfinished.step_missing [OF unfinished.step_Fetch] c] transpE [OF unfinished.transitive w1] by blast
    then have w3: "unfinished w w3" using unfinished.run [OF unfinished_release g] transpE [OF unfinished.transitive] by blast
    have "deleted {u} w3 w'" using Snapshot_Delete_deleted [OF honest_unfinished [OF w3 h] d] .
    then show ?thesis using deleted_trans [OF unfinished_deleted [OF w3, of "{}"]] by simp
  qed
qed


lemma collect_deleted:
  assumes "collectIO (delete_one ds pulp) us w = (Inr [], w')" "honest (ds_daoReg ds) w"
    and "\<And>s. s \<in> set (tw_snapshots w) \<Longrightarrow> sn_UUID s \<in> set us \<Longrightarrow> owned (ds_orgID ds) (sn_RepositoryConfigurationUUID s) w"
  shows "deleted (set us) w w'"
  using assms
proof (induction us arbitrary: w)
  case Nil
  then show ?case by (simp add: deleted_def)
next
  case (Cons u us)
  from Cons.prems(1) obtain w1 where one: "delete_one ds pulp u w = (Inr (), w1)"
    and rest: "collectIO (delete_one ds pulp) us w1 = (Inr [], w')" by (rule collectIO_none)
  have d: "deleted {u} w w1" using delete_one_deleted [OF one Cons.prems(2)] Cons.prems(3) by simp
  have "deleted (set us) w1 w'"
  proof (rule Cons.IH [OF rest honest_deleted [OF d Cons.prems(2)]])
    fix s assume "s \<in> set (tw_snapshots w1)" "sn_UUID s \<in> set us"
    with d Cons.prems(3) show "owned (ds_orgID ds) (sn_RepositoryConfigurationUUID s) w1"
      using owned_deleted [OF d] by (auto simp: deleted_def)
  qed
  from deleted_trans [OF d this] show ?case by simp
qed

lemma keeps_configure: "keeps unfinished (configurePulpClient ds)"
  unfolding configurePulpClient_def by (intro frame_keeps)

text \<open>Steps that leave the snapshots alone when they fail.\<close>

definition fails_keeping :: "('a, ('p, 'x) db_world_scheme) io \<Rightarrow> bool" where
  "fails_keeping m \<longleftrightarrow> (\<forall>w e w'. m w = (Inl e, w') \<longrightarrow> tw_snapshots w' = tw_snapshots w)"

lemma fails_keepingD: "fails_keeping m \<Longrightarrow> m w = (Inl e, w') \<Longrightarrow> tw_snapshots w' = tw_snapshots w"
  by (simp add: fails_keeping_def)

lemma fails_keeping_unfinished: "keeps unfinished m \<Longrightarrow> fails_keeping m"
  by (auto simp: fails_keeping_def unfinished_def dest!: unfinished.run)

lemma fails_keeping_bind:
  assumes m: "keeps unfinished m" and k: "\<And>a. fails_keeping (k a)"
  shows "fails_keeping (bindIO m k)"
proof -
  have "tw_snapshots w' = tw_snapshots w" if "bindIO m k w = (Inl e, w')" for w e w'
  proof -
    obtain r w1 where m1: "m w = (r, w1)" by (cases "m w")
    have "tw_snapshots w1 = tw_snapshots w" using unfinished.run [OF m m1] by (simp add: unfinished_def)
    with that m1 k show ?thesis by (cases r) (auto simp: bindIO_def fails_keeping_def)
  qed
  then show ?thesis by (simp add: fails_keeping_def)
qed

lemma fails_keeping_last:
  assumes "fails_keeping m"
  shows "fails_keeping (bindIO (wrapIO text (unless_missing m)) (\<lambda>_. returnIO ()))"
  using assms unfolding fails_keeping_def
  by (auto simp: bindIO_def wrapIO_def unless_missing_def handleIO_def split: prod.splits sum.splits if_splits)

lemma Snapshot_Delete_fails_keeping: "fails_keeping (Snapshot_Delete ctx u)"
proof -
  have "fails_keeping (dbIO ctx (delete_snapshot_row x))" for x
    by (auto simp: fails_keeping_def same_tables_def delete_snapshot_row_def elim!: dbIO_failure split: if_splits)
  then show ?thesis unfolding Snapshot_Delete_def by (intro fails_keeping_bind frame_keeps)
qed

lemma fails_keeping_optional:
  "(\<And>a. fails_keeping (k a)) \<Longrightarrow> fails_keeping (case x of None \<Rightarrow> returnIO () | Some a \<Rightarrow> k a)"
  by (auto simp: fails_keeping_def split: option.split)

lemma delete_one_fails_keeping: "fails_keeping (delete_one ds pulp u)"
  unfolding delete_one_def
  by (intro fails_keeping_optional fails_keeping_bind [OF unfinished_release] fails_keeping_last Snapshot_Delete_fails_keeping
    | intro fails_keeping_bind frame_keeps)+

section \<open>A concrete deletion\<close>

definition demo_deletion :: "demo_pulp DeleteSnapshots" where
  "demo_deletion = \<lparr>ds_orgID = ''acme'', ds_rhDomainName = '''', ds_domainName = ''cs-1'', ds_communityDomainName = '''', ds_RepoUUID = ''r1'',
     ds_SnapshotsUUIDs = [''s2''], ds_daoReg = demo_registry, ds_pulpClient = demo_client, ds_PulpConfigured = True, ds_range = (\<lambda>m. m)\<rparr>"

section \<open>Properties\<close>

text \<open>
  C26. A deletion that succeeds deletes the rows of exactly the snapshots it was given, and afterwards
  no template and no configuration refers to a snapshot that is gone. Assumed are that a failing
  call does not pass for a row that was not found, that references are intact before, and that the
  snapshots belong to the organisation of the task.
\<close>

theorem deletion_deletes_exactly_the_given:
  assumes run: "DeleteSnapshots_Run ds w = (Inr (), w')" and "honest (ds_daoReg ds) w" and "refers w"
    and own: "\<forall>s\<in>set (tw_snapshots w). sn_UUID s \<in> set (ds_SnapshotsUUIDs ds) \<longrightarrow>
      owned (ds_orgID ds) (sn_RepositoryConfigurationUUID s) w"
  shows "tw_snapshots w' = filter (\<lambda>s. sn_UUID s \<notin> set (ds_SnapshotsUUIDs ds)) (tw_snapshots w) \<and> refers w'"
proof -
  obtain pulp w1 where c: "configurePulpClient ds w = (Inr pulp, w1)"
    and r: "collectIO (delete_one ds pulp) (ds_SnapshotsUUIDs ds) w1 = (Inr [], w')"
    using run by (auto simp: DeleteSnapshots_Run_def split: if_splits elim!: bindIO_successE)
  have u: "unfinished w w1" using unfinished.run [OF keeps_configure c] .
  have "deleted (set (ds_SnapshotsUUIDs ds)) w1 w'"
    using own by (intro collect_deleted [OF r honest_unfinished [OF u assms(2)]] owned_unfinished [OF u])
      (use u in \<open>auto simp: unfinished_def\<close>)
  with u assms(3) show ?thesis by (simp add: deleted_def unfinished_def)
qed


theorem deletion_deletes_exactly_the_given_witness:
  "map sn_UUID (tw_snapshots (snd (DeleteSnapshots_Run demo_deletion demo_content))) = [''s1'']"
proof -
  let ?run = "DeleteSnapshots_Run demo_deletion demo_content"
  have "fst ?run = Inr ()" by code_simp
  then have run: "?run = (Inr (), snd ?run)" by (cases ?run) auto
  have h: "honest (ds_daoReg demo_deletion) demo_content"
    by (simp add: honest_def demo_content_def demo_deletion_def demo_registry_def honest_error_def NotFound_def ErrRecordNotFound_def)
  have r: "refers demo_content" by (simp add: refers_def demo_content_def demo_trc_def demo_snapshot_def demo_repo_config_def)
  have "\<forall>s\<in>set (tw_snapshots demo_content). sn_UUID s \<in> set (ds_SnapshotsUUIDs demo_deletion) \<longrightarrow>
      owned (ds_orgID demo_deletion) (sn_RepositoryConfigurationUUID s) demo_content"
    by (simp add: owned_def demo_content_def demo_deletion_def demo_snapshot_def demo_repo_config_def config_key_def)
  from deletion_deletes_exactly_the_given [OF run h r this] show ?thesis
    by (simp add: demo_content_def demo_deletion_def demo_snapshot_def)
qed

text \<open>
  C27. A snapshot whose deletion fails anywhere, in Pulp or in the database, keeps its row, so that the
  task can be run again.
\<close>

theorem failed_deletion_keeps_the_row:
  assumes "delete_one ds pulp u w = (Inl e, w')"
  shows "tw_snapshots w' = tw_snapshots w"
  by (rule fails_keepingD [OF delete_one_fails_keeping assms])


text \<open>The connection is lost at the last statement, when Pulp's content is gone already.\<close>

definition lost_at :: "nat \<Rightarrow> demo_pulp db_world" where
  "lost_at n = demo_content\<lparr>tw_faults := replicate n None @ [Some (Other ''connection lost'')]\<rparr>"

theorem failed_deletion_keeps_the_row_witness:
  "map_sum error_text id (fst (delete_one demo_deletion demo_client ''s2'' (lost_at 13))) = Inl ''failed to delete snapshot s2: connection lost'' \<and>
   map sn_UUID (tw_snapshots (snd (delete_one demo_deletion demo_client ''s2'' (lost_at 13)))) = [''s1'', ''s2'']"
proof -
  let ?run = "delete_one demo_deletion demo_client ''s2'' (lost_at 13)"
  have msg: "map_sum error_text id (fst ?run) = Inl ''failed to delete snapshot s2: connection lost''" by code_simp
  then obtain e where e: "fst ?run = Inl e" by (cases "fst ?run") auto
  have run: "?run = (Inl e, snd ?run)" unfolding e [symmetric] by simp
  from failed_deletion_keeps_the_row [OF run] msg show ?thesis
    by (simp add: lost_at_def demo_content_def demo_snapshot_def)
qed

end
