(* ===== verification/DeleteSnapshotsLinks.thy ===== *)
theory DeleteSnapshotsLinks
  imports DeleteSnapshotsProps
begin

text \<open>
  The templates that use a deleted snapshot: whatever fails, none of them loses a repository, as
  long as the snapshots to delete were marked as deleted before (which the handlers do).
\<close>

section \<open>Templates and what they refer to\<close>

definition template_ids :: "'p DeleteSnapshots \<Rightarrow> ('p, 'x) db_world_scheme \<Rightarrow> string set" where
  "template_ids ds w = t_UUID ` {t \<in> set (tw_templates w). \<not> template_deleted t \<and>
     (ds_orgID ds = RedHatOrg \<or> ds_orgID ds = CommunityOrg \<or> t_OrgID t = ds_orgID ds)}"

definition wf_links :: "'p DeleteSnapshots \<Rightarrow> ('p, 'x) db_world_scheme \<Rightarrow> bool" where
  "wf_links ds w \<longleftrightarrow> distinct (map sn_UUID (tw_snapshots w)) \<and>
     (\<forall>s\<in>set (tw_snapshots w). sn_UUID s \<in> set (ds_SnapshotsUUIDs ds) \<longrightarrow> sn_Deleted s) \<and>
     (\<forall>r\<in>set (tw_trcs w). \<forall>s\<in>set (tw_snapshots w). sn_UUID s = trc_SnapshotUUID r \<longrightarrow>
        sn_RepositoryConfigurationUUID s = trc_RepositoryConfigurationUUID r)"

definition linked :: "'p DeleteSnapshots \<Rightarrow> ('p, 'x) db_world_scheme \<Rightarrow> ('p, 'x) db_world_scheme \<Rightarrow> bool" where
  "linked ds w w' \<longleftrightarrow> tw_templates w' = tw_templates w \<and>
     (wf_links ds w \<longrightarrow> wf_links ds w' \<and>
       (\<forall>r\<in>set (tw_trcs w). trc_TemplateUUID r \<in> template_ids ds w \<longrightarrow> (\<exists>r'\<in>set (tw_trcs w'). same_trc r r')))"

lemma same_trc_trans: "same_trc r s \<Longrightarrow> same_trc s t \<Longrightarrow> same_trc r t"
  by (simp add: same_trc_def)

lemma same_trc_refl [simp]: "same_trc r r"
  by (simp add: same_trc_def)

lemma template_ids_linked: "linked ds w w' \<Longrightarrow> template_ids ds w' = template_ids ds w"
  by (simp add: linked_def template_ids_def)

lemma linked_trans:
  assumes "linked ds w w1" "linked ds w1 w2"
  shows "linked ds w w2"
proof -
  have "\<exists>r'\<in>set (tw_trcs w2). same_trc r r'" if "wf_links ds w" "r \<in> set (tw_trcs w)" "trc_TemplateUUID r \<in> template_ids ds w" for r
  proof -
    from assms(1) that obtain r1 where r1: "r1 \<in> set (tw_trcs w1)" "same_trc r r1" "wf_links ds w1" by (auto simp: linked_def)
    with that(3) template_ids_linked [OF assms(1)] have "trc_TemplateUUID r1 \<in> template_ids ds w1" by (simp add: same_trc_def)
    with assms(2) r1 obtain r2 where "r2 \<in> set (tw_trcs w2)" "same_trc r1 r2" by (auto simp: linked_def)
    with r1(2) show ?thesis using same_trc_trans by blast
  qed
  with assms show ?thesis by (auto simp: linked_def)
qed

lemma linked_same_rows: "same_rows w w' \<Longrightarrow> linked ds w w'"
  by (auto simp: linked_def same_rows_def same_tables_def wf_links_def intro: same_trc_refl)

interpretation linked: content_frame "linked ds" for ds :: "'p DeleteSnapshots"
  by (unfold_locales, rule transpI, erule (1) linked_trans, rule linked_same_rows, assumption, rule linked_same_rows [OF only_pulp_same_rows])

section \<open>Moving a template\<close>

definition new_link :: "string \<Rightarrow> Snapshot \<Rightarrow> trc_row" where
  "new_link templateUUID other = \<lparr>trc_TemplateUUID = templateUUID, trc_RepositoryConfigurationUUID = sn_RepositoryConfigurationUUID other,
     trc_SnapshotUUID = sn_UUID other, trc_DistributionHref = Some '''', trc_Deleted = False\<rparr>"

definition relink :: "string \<Rightarrow> Snapshot \<Rightarrow> trc_row list \<Rightarrow> trc_row list" where
  "relink templateUUID other rows = upsert1 (\<lambda>new old. old\<lparr>trc_SnapshotUUID := trc_SnapshotUUID new\<rparr>) rows (new_link templateUUID other)"

lemma relink_mem:
  assumes "r' \<in> set (relink t other rows)"
  shows "trc_SnapshotUUID r' = sn_UUID other \<and> trc_RepositoryConfigurationUUID r' = sn_RepositoryConfigurationUUID other \<and> trc_TemplateUUID r' = t \<or>
    r' \<in> set rows \<and> \<not> same_trc (new_link t other) r'"
  using assms by (auto simp: relink_def upsert1_def update_where_def new_link_def same_trc_def list_ex_iff split: if_splits)

lemma relink_keeps:
  assumes "r \<in> set rows"
  shows "\<exists>r'\<in>set (relink t other rows). same_trc r r'"
proof (cases "list_ex (same_trc (new_link t other)) rows")
  case False
  then show ?thesis using assms by (auto simp: relink_def upsert1_def intro: same_trc_refl)
next
  case True
  let ?r = "if same_trc (new_link t other) r then r\<lparr>trc_SnapshotUUID := trc_SnapshotUUID (new_link t other)\<rparr> else r"
  have "?r \<in> set (relink t other rows)" using True assms by (simp add: relink_def upsert1_def update_where_def)
  moreover have "same_trc r ?r" by (simp add: same_trc_def)
  ultimately show ?thesis by blast
qed

lemma UpdateSnapshots_effect:
  fixes w :: "('p, 'x) db_world_scheme"
  assumes "UpdateSnapshots ctx t [rc] [other] w = (res, w')"
  shows "same_rows w w' \<and> (\<forall>u. res \<noteq> Inr u) \<or>
    (\<exists>w1. same_rows w w1 \<and> w' = w1\<lparr>tw_trcs := relink t other (tw_trcs w1)\<rparr> \<and> sn_RepositoryConfigurationUUID other = rc)"
proof -
  let ?F = "\<lambda>new old. old\<lparr>trc_SnapshotUUID := trc_SnapshotUUID new\<rparr>"
  show ?thesis
  proof (cases "sn_RepositoryConfigurationUUID other = rc")
    case False
    then have "res \<noteq> Inr u \<and> w' = w" for u
      using assms by (auto simp: UpdateSnapshots_def missing_snapshots_def snapshot_for_def)
    then show ?thesis using reflpD [OF same_rows_order(1)] by blast
  next
    case True
    let ?call = "\<lambda>w :: ('p, 'x) db_world_scheme. if \<not> distinct (map trc_RepositoryConfigurationUUID [new_link t other]) then
            (Inl (Other ''ON CONFLICT DO UPDATE command cannot affect row a second time''), w)
          else if \<not> list_all (trc_references_exist w) [new_link t other] then (Inl (Other ''violates foreign key constraint''), w)
          else (Inr (), w\<lparr>tw_trcs := foldl (upsert1 ?F) (tw_trcs w) [new_link t other]\<rparr>)"
    have "trc_rows t [rc] [other] (\<lambda>_. Some '''') = [new_link t other]"
      using True by (simp add: trc_rows_def snapshot_for_def List.map_filter_def new_link_def)
    then have "UpdateSnapshots ctx t [rc] [other] = upsert ctx ?F [new_link t other]"
      using True by (simp add: UpdateSnapshots_def missing_snapshots_def snapshot_for_def)
    also have "\<dots> = mapErrIO (\<lambda>e. TemplateDBToApiError e None) (dbIO ctx ?call)"
      by (simp only: upsert_def list.distinct if_False)
    finally have "UpdateSnapshots ctx t [rc] [other] = mapErrIO (\<lambda>e. TemplateDBToApiError e None) (dbIO ctx ?call)" .
    with assms have m: "mapErrIO (\<lambda>e. TemplateDBToApiError e None) (dbIO ctx ?call) w = (res, w')" by simp
    show ?thesis
    proof (cases res)
      case (Inr u)
      with m have "dbIO ctx ?call w = (Inr u, w')" by simp
      then obtain w1 where "?call w1 = (Inr u, w')" "same_rows w w1" by (rule rows.dbIO_run)
      with True show ?thesis by (auto simp: relink_def split: if_splits)
    next
      case (Inl e)
      with m obtain e' where d: "dbIO ctx ?call w = (Inl e', w')"
        by (auto simp: mapErrIO_def handleIO_def split: prod.splits sum.splits if_splits)
      then have "same_rows w w'"
        using same_rows_call [of w] reflpD [OF same_rows_order(1)]
        by (auto simp: dbIO_def Let_def split: if_splits list.splits option.splits)
      with Inl show ?thesis by simp
    qed
  qed
qed


lemma unique_snapshot:
  "distinct (map sn_UUID rows) \<Longrightarrow> s \<in> set rows \<Longrightarrow> t \<in> set rows \<Longrightarrow> sn_UUID s = sn_UUID t \<Longrightarrow> s = t"
  by (simp add: distinct_map inj_on_def)

lemma relink_linked:
  assumes "other \<in> set (tw_snapshots w)"
  shows "linked ds w (w\<lparr>tw_trcs := relink t other (tw_trcs w)\<rparr>)"
proof -
  have "sn_RepositoryConfigurationUUID s = trc_RepositoryConfigurationUUID r"
    if "wf_links ds w" "r \<in> set (relink t other (tw_trcs w))" "s \<in> set (tw_snapshots w)" "sn_UUID s = trc_SnapshotUUID r" for r s
    using that relink_mem [OF that(2)] unique_snapshot [of "tw_snapshots w" s other] assms by (auto simp: wf_links_def)
  then show ?thesis using relink_keeps by (auto simp: linked_def wf_links_def)
qed

lemma move_template_effect:
  assumes "move_template ds snap t w = (res, w')"
  shows "same_rows w w' \<and> (\<forall>u. res \<noteq> Inr u) \<or>
    (\<exists>w1 other. same_rows w w1 \<and> w' = w1\<lparr>tw_trcs := relink (tp_UUID t) other (tw_trcs w1)\<rparr> \<and> other \<in> set (tw_snapshots w1) \<and>
      \<not> sn_Deleted other \<and> sn_RepositoryConfigurationUUID other = sn_RepositoryConfigurationUUID snap)"
proof -
  let ?rc = "sn_RepositoryConfigurationUUID snap"
  let ?read = "bindIO (template_date (tp_UseLatest t) (tp_Date t)) (FetchSnapshotsModelByDateAndRepository TaskCtx (ds_orgID ds) [?rc])"
  obtain x w1 where read: "?read w = (x, w1)" by (cases "?read w")
  have "keeps same_rows ?read" by (intro frame_keeps)
  then have w1: "same_rows w w1" using read by (rule rows.run)
  have split: "move_template ds snap t w = (case x of Inl e \<Rightarrow> (Inl e, w1) | Inr snaps \<Rightarrow> (case snaps of
      [other] \<Rightarrow> bindIO (UpdateSnapshots TaskCtx (tp_UUID t) [?rc] snaps) (\<lambda>_. returnIO other) w1 | _ \<Rightarrow> failIO no_other_snapshot w1))"
    using read unfolding move_template_def Let_def bindIO_assoc [symmetric]
    by (auto simp: bindIO_def [of ?read] split: sum.split list.split)
  show ?thesis
  proof (cases "\<exists>other. x = Inr [other]")
    case False
    then have "w' = w1 \<and> (\<forall>u. res \<noteq> Inr u)" using assms split by (auto split: sum.splits list.splits)
    with w1 show ?thesis by simp
  next
    case True
    then obtain other where x: "x = Inr [other]" by blast
    then obtain date where "snapshots_by_date (ds_orgID ds) [?rc] date w1 = [other]"
      using read by (auto simp: FetchSnapshotsModelByDateAndRepository_def elim!: bindIO_successE queryIO_success)
    then have other: "other \<in> set (tw_snapshots w1)" "\<not> sn_Deleted other"
      using snapshots_by_date_mem [of other "ds_orgID ds" "[?rc]" date w1] by simp_all
    obtain y w2 where up: "UpdateSnapshots TaskCtx (tp_UUID t) [?rc] [other] w1 = (y, w2)" by (cases "UpdateSnapshots TaskCtx (tp_UUID t) [?rc] [other] w1")
    then have r: "w' = w2" "(\<forall>u. res \<noteq> Inr u) \<longleftrightarrow> (\<forall>u. y \<noteq> Inr u)" using assms split x by (auto simp: bindIO_def split: sum.splits)
    from UpdateSnapshots_effect [OF up] show ?thesis
    proof (elim disjE exE conjE)
      assume "same_rows w1 w2" "\<forall>u. y \<noteq> Inr u"
      with r w1 show ?thesis using transpE [OF rows.transitive] by blast
    next
      fix w3 assume *: "same_rows w1 w3" "w2 = w3\<lparr>tw_trcs := relink (tp_UUID t) other (tw_trcs w3)\<rparr>" "sn_RepositoryConfigurationUUID other = ?rc"
      then have "same_rows w w3" using w1 transpE [OF rows.transitive] by blast
      moreover have "other \<in> set (tw_snapshots w3)" using * other by (simp add: same_rows_def same_tables_def)
      ultimately show ?thesis using * r other by blast
    qed
  qed
qed


text \<open>After the templates were moved, those that can be found use the snapshot no more.\<close>

definition still_used :: "string \<Rightarrow> ('p, 'x) db_world_scheme \<Rightarrow> (string \<times> string) set" where
  "still_used u w = (\<lambda>r. (trc_TemplateUUID r, trc_RepositoryConfigurationUUID r)) ` {r \<in> set (tw_trcs w). trc_SnapshotUUID r = u}"

lemma move_template_linked: "keeps (linked ds) (move_template ds' snap t)"
proof (rule keepsI)
  fix w
  obtain res w' where m: "move_template ds' snap t w = (res, w')" by (cases "move_template ds' snap t w")
  from move_template_effect [OF m] have "linked ds w w'"
    using relink_linked linked_same_rows linked_trans by blast
  with m show "linked ds w (snd (move_template ds' snap t w))" by simp
qed

lemma move_templates_linked: "keeps (linked ds) (move_templates ds' snap m ts)"
  by (induction ts arbitrary: m) (auto intro!: frame_keeps move_template_linked simp del: returnIO_apply)

lemma move_template_releases:
  assumes "move_template ds snap t w = (Inr other, w')" "wf_links ds w" "snap \<in> set (tw_snapshots w)" "sn_Deleted snap"
  shows "still_used (sn_UUID snap) w' \<subseteq> still_used (sn_UUID snap) w - {(tp_UUID t, sn_RepositoryConfigurationUUID snap)}"
proof -
  from move_template_effect [OF assms(1)] obtain w1 other where w1: "same_rows w w1"
    and w': "w' = w1\<lparr>tw_trcs := relink (tp_UUID t) other (tw_trcs w1)\<rparr>" and o: "other \<in> set (tw_snapshots w1)" "\<not> sn_Deleted other"
      "sn_RepositoryConfigurationUUID other = sn_RepositoryConfigurationUUID snap" by blast
  have "sn_UUID other \<noteq> sn_UUID snap"
    using unique_snapshot [of "tw_snapshots w" other snap] o w1 assms(2-4) by (auto simp: wf_links_def same_rows_def same_tables_def)
  then have old: "r' \<in> set (tw_trcs w) \<and> \<not> same_trc (new_link (tp_UUID t) other) r'"
    if "r' \<in> set (tw_trcs w')" "trc_SnapshotUUID r' = sn_UUID snap" for r'
    using relink_mem [of r' "tp_UUID t" other "tw_trcs w1"] that w' w1 by (auto simp: same_rows_def same_tables_def)
  have "(a, b) \<in> still_used (sn_UUID snap) w - {(tp_UUID t, sn_RepositoryConfigurationUUID snap)}" if "(a, b) \<in> still_used (sn_UUID snap) w'" for a b
    using that o(3) by (auto simp: still_used_def new_link_def same_trc_def dest: old)
  then show ?thesis by auto
qed

lemma move_templates_release:
  assumes "move_templates ds snap m ts w = (Inr m', w')" "wf_links ds w" "snap \<in> set (tw_snapshots w)" "sn_Deleted snap"
  shows "still_used (sn_UUID snap) w' \<subseteq> still_used (sn_UUID snap) w - tp_UUID ` set ts \<times> {sn_RepositoryConfigurationUUID snap}"
  using assms
proof (induction ts arbitrary: m w)
  case (Cons t ts)
  from Cons.prems(1) obtain other w1 where one: "move_template ds snap t w = (Inr other, w1)"
    and rest: "move_templates ds snap (map_put (tp_UUID t) other m) ts w1 = (Inr m', w')" by (auto elim!: bindIO_successE)
  have "linked ds w w1" using linked.run [OF move_template_linked one] .
  then have "wf_links ds w1" using Cons.prems(2) by (simp add: linked_def)
  moreover have "snap \<in> set (tw_snapshots w1)"
    using move_template_effect [OF one] Cons.prems(3) by (auto simp: same_rows_def same_tables_def)
  ultimately have "still_used (sn_UUID snap) w' \<subseteq> still_used (sn_UUID snap) w1 - tp_UUID ` set ts \<times> {sn_RepositoryConfigurationUUID snap}"
    using Cons.IH [OF rest] Cons.prems(4) by simp
  with move_template_releases [OF one Cons.prems(2-4)] show ?case by auto
qed simp

text \<open>The templates that are found are all that may be moved.\<close>

lemma convert_UUID [simp]: "tp_UUID (templatesConvertToResponse (t, rs)) = t_UUID t"
  by (simp add: templatesConvertToResponse_def templatesModelToApi_def template_AfterFind_def)

definition snapshot_filter :: "string \<Rightarrow> TemplateFilterData" where
  "snapshot_filter u = no_filter\<lparr>tf_SnapshotUUIDs := [u]\<rparr>"

lemma convert_UUIDs: "tp_UUID ` set (map templatesConvertToResponse (map (\<lambda>t. (t, g t)) ts)) = t_UUID ` set ts"
  by (simp add: image_image)

lemma same_listed:
  "same_tables w w' \<Longrightarrow> listed_templates orgID d f w' = listed_templates orgID d f w"
  "same_tables w w' \<Longrightarrow> templates_joined P w' = templates_joined P w"
  by (simp_all add: same_tables_def listed_templates_def templates_joined_def)

lemma Template_List_success:
  fixes w :: "('p, 'x) db_world_scheme"
  assumes "Template_List reg ctx orgID d f w = (Inr (res, count), w')"
  shows "tp_UUID ` set res = t_UUID ` set (listed_templates orgID d f w)" "count = 0 \<longleftrightarrow> listed_templates orgID d f w = []"
proof -
  obtain w1 w2 :: "('p, 'x) db_world_scheme" where w1: "same_tables w w1" "count = length (remdups (map t_UUID (listed_templates orgID d f w1)))"
    and w2: "same_tables w1 w2" "res = map templatesConvertToResponse (map (\<lambda>t. (t, trcs_of d w2 t)) (sort_key t_Name (listed_templates orgID d f w2)))"
    using assms unfolding Template_List_def
    by (auto elim!: bindIO_successE queryIO_success dest!: to_responses_success)
  show "tp_UUID ` set res = t_UUID ` set (listed_templates orgID d f w)"
    unfolding w2(2) convert_UUIDs same_listed(1) [OF w2(1)] same_listed(1) [OF w1(1)] by simp
  show "count = 0 \<longleftrightarrow> listed_templates orgID d f w = []"
    unfolding w1(2) same_listed(1) [OF w1(1)] by simp
qed

lemma templates_using_all:
  fixes w :: "('p, 'x) db_world_scheme"
  assumes run: "templates_using ds snap w = (Inr ts, w')" and "t \<in> template_ids ds w"
    and r: "r \<in> set (tw_trcs w)" "trc_TemplateUUID r = t" "trc_SnapshotUUID r = sn_UUID snap"
  shows "t \<in> tp_UUID ` set ts"
proof -
  obtain row where row: "row \<in> set (tw_templates w)" "\<not> template_deleted row" "t_UUID row = t"
    "ds_orgID ds = RedHatOrg \<or> ds_orgID ds = CommunityOrg \<or> t_OrgID row = ds_orgID ds"
    using assms(2) by (auto simp: template_ids_def)
  show ?thesis
  proof (cases "ds_orgID ds = RedHatOrg \<or> ds_orgID ds = CommunityOrg")
    case True
    then obtain w1 :: "('p, 'x) db_world_scheme" where w1: "same_tables w w1"
      "ts = map templatesConvertToResponse (map (\<lambda>t. (t, [])) (templates_joined (\<lambda>r. trc_SnapshotUUID r \<in> set [sn_UUID snap]) w1))"
      using run unfolding templates_using_def InternalOnlyGetTemplatesForSnapshots_def
      by (auto elim!: bindIO_successE queryIO_success dest!: to_responses_success)
    have "row \<in> set (templates_joined (\<lambda>r. trc_SnapshotUUID r \<in> set [sn_UUID snap]) w)" using row r by (auto simp: templates_joined_def)
    then show ?thesis using row(3) unfolding w1(2) convert_UUIDs same_listed(2) [OF w1(1)] by blast
  next
    case False
    have row': "row \<in> set (listed_templates (ds_orgID ds) False (snapshot_filter (sn_UUID snap)) w)"
      using False row r by (auto simp: listed_templates_def snapshot_filter_def no_filter_def filteredDbForList_def applyVersionFilter_def list_ex_iff)
    obtain res count where l: "Template_List (ds_daoReg ds) TaskCtx (ds_orgID ds) False (snapshot_filter (sn_UUID snap)) w = (Inr (res, count), w')"
      and ts: "ts = (if count = 0 then [] else res)"
      using run False unfolding templates_using_def snapshot_filter_def by (auto elim!: bindIO_successE)
    with Template_List_success [OF l] row' row(3) show ?thesis by auto
  qed
qed

section \<open>Deleting the associations that are left\<close>

lemma updateTemplates_linked: "keeps (linked ds) (updateTemplatesUsingSnap ds' snap)"
  unfolding updateTemplatesUsingSnap_def templates_using_def
  by (auto intro!: frame_keeps move_templates_linked simp del: returnIO_apply split: prod.split)

lemma updateTemplates_release:
  assumes run: "updateTemplatesUsingSnap ds snap w = (Inr m, w')" and wf: "wf_links ds w" and s: "snap \<in> set (tw_snapshots w)" "sn_Deleted snap"
  shows "still_used (sn_UUID snap) w' \<inter> template_ids ds w \<times> UNIV = {}"
proof -
  obtain ts w1 where u: "templates_using ds snap w = (Inr ts, w1)" and mv: "move_templates ds snap [] ts w1 = (Inr m, w')"
    using run unfolding updateTemplatesUsingSnap_def by (auto elim: bindIO_successE)
  have "keeps same_rows (templates_using ds snap)"
    unfolding templates_using_def by (auto intro!: frame_keeps simp del: returnIO_apply split: prod.split)
  then have w1: "same_rows w w1" using u by (rule rows.run)
  then have "wf_links ds w1" "snap \<in> set (tw_snapshots w1)" "still_used (sn_UUID snap) w1 = still_used (sn_UUID snap) w"
    using wf s by (auto simp: same_rows_def same_tables_def wf_links_def still_used_def)
  with move_templates_release [OF mv] s(2)
  have sub: "still_used (sn_UUID snap) w' \<subseteq> still_used (sn_UUID snap) w - tp_UUID ` set ts \<times> {sn_RepositoryConfigurationUUID snap}" by simp
  have "b = sn_RepositoryConfigurationUUID snap \<and> a \<in> tp_UUID ` set ts" if "(a, b) \<in> still_used (sn_UUID snap) w" "a \<in> template_ids ds w" for a b
  proof -
    from that(1) obtain r where "r \<in> set (tw_trcs w)" "trc_SnapshotUUID r = sn_UUID snap" "trc_TemplateUUID r = a" "trc_RepositoryConfigurationUUID r = b"
      by (auto simp: still_used_def)
    with that(2) templates_using_all [OF u, of a r] wf s show ?thesis by (auto simp: wf_links_def)
  qed
  with sub show ?thesis by fastforce
qed


lemma linked_configs: "keeps (linked ds) (UpdateLastSnapshot ctx orgID rc u)" "keeps (linked ds) (UpdateLastSnapshotTask ctx t orgID r)"
  unfolding UpdateLastSnapshot_def UpdateLastSnapshotTask_def
  by (rule linked.step_exec, auto simp: linked_def wf_links_def intro: same_trc_refl)+

lemma updateRepoConfig_linked: "keeps (linked ds) (updateRepoConfig ds' rc u)"
  unfolding updateRepoConfig_def by (auto intro!: frame_keeps linked_configs)

lemma Snapshot_Delete_linked: "keeps (linked ds) (Snapshot_Delete ctx u)"
proof -
  have "linked ds w (snd (delete_snapshot_row x w))" for x and w :: "('a, 'b) db_world_scheme"
    by (auto simp: delete_snapshot_row_def linked_def wf_links_def delete_where_def distinct_map_filter intro: same_trc_refl)
  then show ?thesis unfolding Snapshot_Delete_def by (intro frame_keeps linked.step_db)
qed

lemma unlink_released:
  assumes "linked ds w w1" "still_used u w1 \<inter> template_ids ds w \<times> UNIV = {}"
  shows "linked ds w (w1\<lparr>tw_trcs := delete_where (\<lambda>r. trc_SnapshotUUID r = u) (tw_trcs w1)\<rparr>)"
proof -
  have "trc_SnapshotUUID r1 \<noteq> u" if "r1 \<in> set (tw_trcs w1)" "trc_TemplateUUID r1 \<in> template_ids ds w" for r1
    using assms(2) that by (force simp: still_used_def)
  with assms(1) show ?thesis by (fastforce simp: linked_def wf_links_def delete_where_def same_trc_def)
qed

lemma DeleteTemplateSnapshot_effect:
  assumes "DeleteTemplateSnapshot ctx u w = (res, w')"
  obtains "same_rows w w'" | w1 where "same_rows w w1" "w' = w1\<lparr>tw_trcs := delete_where (\<lambda>r. trc_SnapshotUUID r = u) (tw_trcs w1)\<rparr>"
  using assms same_rows_call [of w] reflpD [OF same_rows_order(1), of w]
  unfolding DeleteTemplateSnapshot_def mapErrIO_def handleIO_def execIO_def dbIO_def Let_def
  by (fastforce split: prod.splits sum.splits if_splits list.splits option.splits)

lemma unlink_linked:
  assumes run: "updateTemplatesUsingSnap ds snap w = (Inr m, w1)" and d: "DeleteTemplateSnapshot ctx (sn_UUID snap) w1 = (res, w2)"
    and s: "snap \<in> set (tw_snapshots w)" "sn_UUID snap \<in> set (ds_SnapshotsUUIDs ds)"
  shows "linked ds w w2"
proof -
  have l1: "linked ds w w1" by (rule linked.run [OF updateTemplates_linked run])
  from d show ?thesis
  proof (cases rule: DeleteTemplateSnapshot_effect)
    case 1
    then show ?thesis using linked_trans [OF l1 linked_same_rows] by blast
  next
    case (2 w3)
    have l3: "linked ds w w3" using linked_trans [OF l1 linked_same_rows [OF 2(1)]] .
    show ?thesis
    proof (cases "wf_links ds w")
      case False
      with l3 2(2) show ?thesis by (simp add: linked_def)
    next
      case True
      with s have "sn_Deleted snap" by (auto simp: wf_links_def)
      then have "still_used (sn_UUID snap) w3 \<inter> template_ids ds w \<times> UNIV = {}"
        using updateTemplates_release [OF run True s(1)] 2(1) by (simp add: still_used_def same_rows_def same_tables_def)
      from unlink_released [OF l3 this] 2(2) show ?thesis by simp
    qed
  qed
qed

lemma release_linked:
  assumes "snap \<in> set (tw_snapshots w)" "sn_UUID snap \<in> set (ds_SnapshotsUUIDs ds)"
  shows "linked ds w (snd (release_snapshot ds pulp u snap repo w))"
proof -
  obtain res w1 where u: "updateTemplatesUsingSnap ds snap w = (res, w1)" by (cases "updateTemplatesUsingSnap ds snap w")
  have l1: "linked ds w w1" by (rule linked.run [OF updateTemplates_linked u])
  show ?thesis
  proof (cases res)
    case (Inl e)
    with u l1 show ?thesis by (simp add: release_snapshot_def bindIO_def wrapIO_def)
  next
    case (Inr m)
    let ?rest = "bindIO (whenIO (re_LastSnapshotUUID repo = u)
       (wrapIO (''failed to update repo config for snapshot '' @ u) (updateRepoConfig ds (re_UUID repo) u))) (\<lambda>_.
     wrapIO (''failed to delete pulp content for snapshot '' @ u) (deleteOrUpdatePulpContent ds pulp snap repo m))"
    have rest: "keeps (linked ds) ?rest" by (intro frame_keeps linked.step_content updateRepoConfig_linked)
    obtain res2 w2 where d: "DeleteTemplateSnapshot TaskCtx (sn_UUID snap) w1 = (res2, w2)" by (cases "DeleteTemplateSnapshot TaskCtx (sn_UUID snap) w1")
    have l2: "linked ds w w2" using unlink_linked [OF u [unfolded Inr] d assms] .
    have "linked ds w (snd (?rest w2))" using linked_trans [OF l2 keepsD [OF rest]] .
    with u Inr d l2 show ?thesis by (cases res2) (simp_all add: release_snapshot_def bindIO_def wrapIO_def)
  qed
qed


lemma delete_one_linked:
  fixes ds :: "'p DeleteSnapshots"
  assumes "u \<in> set (ds_SnapshotsUUIDs ds)"
  shows "keeps (linked ds) (delete_one ds pulp u :: (unit, ('p, 'x) db_world_scheme) io)"
proof (rule keepsI)
  fix w :: "('p, 'x) db_world_scheme"
  let ?fetch = "unless_missing (Snapshot_FetchModel TaskCtx u True)"
  let ?fetch2 = "\<lambda>snap. unless_missing (RepositoryConfig_Fetch (ds_daoReg ds) TaskCtx (ds_orgID ds) (sn_RepositoryConfigurationUUID snap))"
  let ?last = "bindIO (wrapIO (''failed to delete snapshot '' @ u) (unless_missing (Snapshot_Delete TaskCtx u))) (\<lambda>_. returnIO ())"
  have last: "keeps (linked ds) (?last :: (unit, ('p, 'x) db_world_scheme) io)" by (intro frame_keeps Snapshot_Delete_linked)
  obtain r1 w1 where f: "?fetch w = (r1, w1)" by (cases "?fetch w")
  have "keeps same_rows (?fetch :: (Snapshot option, ('p, 'x) db_world_scheme) io)" by (intro frame_keeps)
  then have w1: "same_rows w w1" using f by (rule rows.run)
  show "linked ds w (snd (delete_one ds pulp u w))"
  proof (cases "\<exists>snap. r1 = Inr (Some snap)")
    case False
    then show ?thesis
      using f linked_same_rows [OF w1] by (auto simp: delete_one_def bindIO_def wrapIO_def split: sum.splits option.splits)
  next
    case True
    then obtain snap where r1: "r1 = Inr (Some snap)" by blast
    with f have "Snapshot_FetchModel TaskCtx u True w = (Inr snap, w1)" by (auto elim: unless_missing_cases)
    then have s: "snap \<in> set (tw_snapshots w)" "sn_UUID snap = u"
      unfolding Snapshot_FetchModel_def by (auto elim!: queryIO_success simp: same_tables_def dest: find_mem)
    obtain r2 w2 where f2: "?fetch2 snap w1 = (r2, w2)" by (cases "?fetch2 snap w1")
    have "keeps same_rows (?fetch2 snap :: (RepositoryResponse option, ('p, 'x) db_world_scheme) io)" by (intro frame_keeps)
    then have w2: "same_rows w w2" using f2 w1 transpE [OF rows.transitive] rows.run by blast
    show ?thesis
    proof (cases "\<exists>repo. r2 = Inr (Some repo)")
      case False
      then show ?thesis
        using f f2 r1 linked_same_rows [OF w2] by (auto simp: delete_one_def bindIO_def wrapIO_def split: sum.splits option.splits)
    next
      case True
      then obtain repo where r2: "r2 = Inr (Some repo)" by blast
      have "delete_one ds pulp u w = bindIO (release_snapshot ds pulp u snap repo) (\<lambda>_. ?last) w2"
        using f f2 r1 r2 by (simp add: delete_one_def bindIO_def wrapIO_def)
      moreover have rel: "linked ds w (snd (release_snapshot ds pulp u snap repo w2))"
      proof -
        have "snap \<in> set (tw_snapshots w2)" using s(1) w2 by (simp add: same_rows_def same_tables_def)
        with s(2) assms have "linked ds w2 (snd (release_snapshot ds pulp u snap repo w2))" using release_linked by blast
        then show ?thesis using linked_trans [OF linked_same_rows [OF w2]] by blast
      qed
      ultimately show ?thesis
        using linked_trans [OF rel keepsD [OF last]] rel
        by (cases "release_snapshot ds pulp u snap repo w2") (simp add: bindIO_def [of "release_snapshot ds pulp u snap repo"] split: sum.split)
    qed
  qed
qed

section \<open>Property\<close>

text \<open>
  C28. A deletion takes no repository from a template, however it ends: a template of the organisation
  (of any organisation, for shared repositories) that had the repository has it still, with another
  snapshot. Assumed is that the snapshots were marked as deleted before, as the handlers do.
\<close>

theorem deletion_keeps_templates_repositories:
  assumes "DeleteSnapshots_Run ds w = (res, w')" and "wf_links ds w"
    and r: "r \<in> set (tw_trcs w)" "trc_TemplateUUID r \<in> template_ids ds w"
  shows "\<exists>r'\<in>set (tw_trcs w'). trc_TemplateUUID r' = trc_TemplateUUID r \<and>
    trc_RepositoryConfigurationUUID r' = trc_RepositoryConfigurationUUID r"
proof -
  have "keeps (linked ds) (DeleteSnapshots_Run ds)"
    unfolding DeleteSnapshots_Run_def configurePulpClient_def
    by (auto intro!: frame_keeps delete_one_linked simp del: returnIO_apply)
  then have "linked ds w w'" using assms(1) by (rule linked.run)
  with assms(2) r show ?thesis by (force simp: linked_def same_trc_def)
qed


theorem deletion_keeps_templates_repositories_witness:
  "map (\<lambda>r. (trc_TemplateUUID r, trc_RepositoryConfigurationUUID r)) (tw_trcs demo_content) = [(''t1'', ''r1'')] \<and>
   (\<exists>r'\<in>set (tw_trcs (snd (DeleteSnapshots_Run demo_deletion demo_content))).
     trc_TemplateUUID r' = ''t1'' \<and> trc_RepositoryConfigurationUUID r' = ''r1'')"
proof -
  let ?run = "DeleteSnapshots_Run demo_deletion demo_content"
  have run: "?run = (fst ?run, snd ?run)" by simp
  have wf: "wf_links demo_deletion demo_content"
    by (simp add: wf_links_def demo_content_def demo_deletion_def demo_snapshot_def demo_trc_def)
  have r: "demo_trc ''s2'' \<in> set (tw_trcs demo_content)" by (simp add: demo_content_def)
  have "trc_TemplateUUID (demo_trc ''s2'') \<in> template_ids demo_deletion demo_content"
    by (auto simp: template_ids_def demo_content_def demo_deletion_def demo_trc_def demo_template_def empty_template_def image_iff)
  from deletion_keeps_templates_repositories [OF run wf r this] show ?thesis
    by (simp add: demo_content_def demo_trc_def)
qed

end
