(* ===== verification/ContentQueue.thy ===== *)
theory ContentQueue
  imports TemplateDao ConfigTasks
begin

text \<open>
  The tasks that handlers and tasks enqueue, with their payloads, and the table of them as far as
  the handlers look at it (\<open>pkg/handler/utils.go\<close>, \<open>pkg/dao/task_info.go\<close>, \<open>pkg/tasks/payloads\<close>). The
  queue itself is \<open>TaskQueue\<close>; here it adds a pending row or answers an error.
\<close>

datatype content_payload =
    DeleteSnapshotsPayload string "string list"
  | DeleteRepositorySnapshotsPayload string
  | DeleteTemplatesPayload string "string list"
  | UpdateSnapshotPublishedPayload string bool
  | UpdateLatestSnapshotPayload string
  | UpdateTemplateContentPayload string "string list" "string option"

fun payload_type :: "content_payload \<Rightarrow> string" where
  "payload_type (DeleteSnapshotsPayload _ _) = DeleteSnapshotsTask"
| "payload_type (DeleteRepositorySnapshotsPayload _) = DeleteRepositorySnapshotsTask"
| "payload_type (DeleteTemplatesPayload _ _) = DeleteTemplatesTask"
| "payload_type (UpdateSnapshotPublishedPayload _ _) = UpdateSnapshotPublishedTask"
| "payload_type (UpdateLatestSnapshotPayload _) = UpdateLatestSnapshotTask"
| "payload_type (UpdateTemplateContentPayload _ _ _) = UpdateTemplateContentTask"

datatype object_type = ObjectTypeRepository | ObjectTypeTemplate

text \<open>A task is known by its position among the rows.\<close>

record content_task =
  ct_Payload :: content_payload
  ct_Dependencies :: "nat list"
  ct_OrgId :: string
  ct_AccountId :: string
  ct_ObjectUUID :: string
  ct_ObjectType :: object_type
  ct_RequestID :: string

record task_row =
  tk_Task :: content_task
  tk_Status :: task_status
  tk_Retries :: bool

text \<open>\<open>tk_Retries\<close>: the next retry time is set. \<open>qw_answers\<close> are the errors of the queue, in order.\<close>

record 'p queue_world = "'p db_world" +
  qw_tasks :: "task_row list"
  qw_answers :: "go_error option list"

definition enqueueTask :: "content_task \<Rightarrow> (nat, 'p queue_world) io" where
  "enqueueTask task = (\<lambda>w.
     case qw_answers w of
       Some err # rest \<Rightarrow> (Inl err, w\<lparr>qw_answers := rest\<rparr>)
     | answers \<Rightarrow> (Inr (length (qw_tasks w)),
         w\<lparr>qw_answers := tl answers, qw_tasks := qw_tasks w @ [\<lparr>tk_Task = task, tk_Status = Pending, tk_Retries = False\<rparr>]\<rparr>))"

definition active :: "task_row \<Rightarrow> bool" where
  "active t = (tk_Status t = Pending \<or> tk_Status t = Running \<or> (tk_Status t = Failed \<and> tk_Retries t))"

definition FetchActiveTasks :: "ctx \<Rightarrow> string \<Rightarrow> string \<Rightarrow> string list \<Rightarrow> (task_row list, 'p queue_world) io" where
  "FetchActiveTasks ctx orgID objectUUID taskTypes = queryIO ctx (\<lambda>w. Inr (filter (\<lambda>t.
     ct_OrgId (tk_Task t) = orgID \<and> ct_ObjectUUID (tk_Task t) = objectUUID \<and> payload_type (ct_Payload (tk_Task t)) \<in> set taskTypes \<and> active t)
     (qw_tasks w)))"

section \<open>Requests\<close>

text \<open>What a handler reads of a request, and what it answers: a status, or the errors.\<close>

record caller =
  rq_AccountID :: string
  rq_OrgID :: string
  rq_RequestID :: string

datatype reply = Reply int | Refused "HandlerError list"

definition dao_kind_of :: "go_error \<Rightarrow> dao_kind" where
  "dao_kind_of err = (case as_dao err of None \<Rightarrow> DaoPlain | Some k \<Rightarrow> k)"

text \<open>An error value as \<open>HttpCodeForDaoError\<close> and \<open>NewErrorResponseFromError\<close> see it.\<close>

definition to_app_error :: "go_error \<Rightarrow> app_error" where
  "to_app_error err =
     (if as_dao err = None then PlainError (error_text err)
      else DaoError (Some (PlainError (error_text err))) '''' (dao_kind_of err = DaoNotFound) (dao_kind_of err = DaoBadValidation)
        (dao_kind_of err = DaoAlreadyExists) (dao_kind_of err = DaoForbidden))"

definition dao_refusal :: "string \<Rightarrow> go_error \<Rightarrow> HandlerError list" where
  "dao_refusal title err = NewErrorResponse (HttpCodeForDaoError (to_app_error err)) title (error_text err)"

definition refusals :: "string \<Rightarrow> go_error option list \<Rightarrow> (HandlerError list, 's) io" where
  "refusals title errs =
     (case NewErrorResponseFromError title (map (map_option to_app_error) errs) of
        None \<Rightarrow> failIO nil_dereference
      | Some es \<Rightarrow> returnIO es)"

definition refuse :: "string \<Rightarrow> go_error \<Rightarrow> (reply, 's) io" where
  "refuse title err = returnIO (Refused (dao_refusal title err))"

definition refuse_all :: "string \<Rightarrow> go_error option list \<Rightarrow> (reply, 's) io" where
  "refuse_all title errs = bindIO (refusals title errs) (\<lambda>es. returnIO (Refused es))"

section \<open>Enqueuing\<close>

definition enqueueUpdateSnapshotPublishedTask :: "caller \<Rightarrow> string \<Rightarrow> string \<Rightarrow> bool \<Rightarrow> nat list \<Rightarrow> (nat, 'p queue_world) io" where
  "enqueueUpdateSnapshotPublishedTask c repoUUID snapshotUUID published dependencies = enqueueTask
     \<lparr>ct_Payload = UpdateSnapshotPublishedPayload snapshotUUID published, ct_Dependencies = dependencies, ct_OrgId = rq_OrgID c,
      ct_AccountId = rq_AccountID c, ct_ObjectUUID = repoUUID, ct_ObjectType = ObjectTypeRepository, ct_RequestID = rq_RequestID c\<rparr>"

definition enqueueUpdateLatestSnapshotTask :: "caller \<Rightarrow> string \<Rightarrow> nat list \<Rightarrow> (nat, 'p queue_world) io" where
  "enqueueUpdateLatestSnapshotTask c repoUUID dependencies = enqueueTask
     \<lparr>ct_Payload = UpdateLatestSnapshotPayload repoUUID, ct_Dependencies = dependencies, ct_OrgId = rq_OrgID c,
      ct_AccountId = rq_AccountID c, ct_ObjectUUID = repoUUID, ct_ObjectType = ObjectTypeRepository, ct_RequestID = rq_RequestID c\<rparr>"

definition enqueueUpdateTemplateContentTask :: "caller \<Rightarrow> string \<Rightarrow> string \<Rightarrow> string \<Rightarrow> nat list \<Rightarrow> (nat, 'p queue_world) io" where
  "enqueueUpdateTemplateContentTask c repoUUID templateUUID templateOrg dependencies = enqueueTask
     \<lparr>ct_Payload = UpdateTemplateContentPayload templateUUID [] (Some repoUUID), ct_Dependencies = dependencies, ct_OrgId = templateOrg,
      ct_AccountId = rq_AccountID c, ct_ObjectUUID = templateUUID, ct_ObjectType = ObjectTypeTemplate, ct_RequestID = rq_RequestID c\<rparr>"

end
