(* ===== verification/SnapshotHandlers.thy ===== *)
theory SnapshotHandlers
  imports ContentQueue
begin

text \<open>
  The requests that change snapshots (\<open>pkg/handler/snapshots.go\<close>): deleting one or several, and
  publishing one. A body that cannot be bound is the \<open>Inl\<close> of the parameter.
\<close>

definition BulkDeleteLimit :: nat where "BulkDeleteLimit = 100"

definition isDeleteInProgress :: "ctx \<Rightarrow> caller \<Rightarrow> string \<Rightarrow> (HandlerError list option, 'p queue_world) io" where
  "isDeleteInProgress ctx c repoUUID =
     caseIO (FetchActiveTasks ctx (rq_OrgID c) repoUUID [DeleteRepositorySnapshotsTask, DeleteSnapshotsTask])
       (\<lambda>err. returnIO (Some (dao_refusal ''Error fetching delete repository snapshots task'' err)))
       (\<lambda>tasks. returnIO (if length tasks \<ge> 1
          then Some (NewErrorResponse 400 ''Error deleting snapshot'' ''Delete is already in progress'') else None))"

definition no_such_snapshot :: go_error where
  "no_such_snapshot = DaoLeaf ''snapshot with this UUID does not exist for the specified repository'' DaoNotFound"

definition findSnapInRepo :: "Snapshot list \<Rightarrow> string \<Rightarrow> Snapshot result" where
  "findSnapInRepo repoSnaps uuid = (case find (\<lambda>s. sn_UUID s = uuid) repoSnaps of None \<Rightarrow> Inl no_such_snapshot | Some s \<Rightarrow> Inr s)"

text \<open>The loop over the given identifiers: it ends at a published snapshot, and notes the ones that are missing.\<close>

fun check_snapshots :: "Snapshot list \<Rightarrow> string list \<Rightarrow> go_error option list option" where
  "check_snapshots repoSnaps [] = Some []"
| "check_snapshots repoSnaps (uuid # uuids) =
     (case findSnapInRepo repoSnaps uuid of
        Inl err \<Rightarrow> map_option (Cons (Some err)) (check_snapshots repoSnaps uuids)
      | Inr snap \<Rightarrow> if sn_Published snap then None else map_option (Cons None) (check_snapshots repoSnaps uuids))"

definition isDeleteAllowed :: "DaoRegistry \<Rightarrow> ctx \<Rightarrow> caller \<Rightarrow> string \<Rightarrow> string list \<Rightarrow> (HandlerError list option, 'p queue_world) io" where
  "isDeleteAllowed reg ctx c repoUUID snapshotUUIDs =
     caseIO (RepositoryConfig_Fetch reg ctx (rq_OrgID c) repoUUID)
       (\<lambda>err. returnIO (Some (dao_refusal ''Error fetching repository config'' err)))
       (\<lambda>repo.
         if re_OrgID repo = RedHatOrg \<or> re_OrgID repo = CommunityOrg then
           returnIO (Some (NewErrorResponse 404 ''Error fetching repository config'' (''Could not find repository with UUID '' @ repoUUID)))
         else
           bindIO (isDeleteInProgress ctx c repoUUID) (\<lambda>inProgress.
             case inProgress of
               Some es \<Rightarrow> returnIO (Some es)
             | None \<Rightarrow>
                 caseIO (FetchForRepoConfigUUID ctx repoUUID False)
                   (\<lambda>err. returnIO (Some (dao_refusal ''Error fetching snapshots'' err)))
                   (\<lambda>repoSnaps.
                     case check_snapshots repoSnaps snapshotUUIDs of
                       None \<Rightarrow> returnIO (Some (NewErrorResponse 400 ''Error deleting snapshots'' ''Cannot delete a published snapshot''))
                     | Some errs \<Rightarrow>
                         if list_ex (\<lambda>e. e \<noteq> None) errs
                         then bindIO (refusals ''Error deleting snapshots'' errs) (\<lambda>es. returnIO (Some es))
                         else if length repoSnaps \<le> length snapshotUUIDs
                         then returnIO (Some (NewErrorResponse 400 ''Error deleting snapshots''
                           (''Can''@[CHR 39]@''t delete all the snapshots in the repository'')))
                         else returnIO None)))"

definition enqueueDeleteSnapshotsTask :: "caller \<Rightarrow> string \<Rightarrow> string list \<Rightarrow> (nat, 'p queue_world) io" where
  "enqueueDeleteSnapshotsTask c repoUUID snapshotUUIDs = enqueueTask
     \<lparr>ct_Payload = DeleteSnapshotsPayload repoUUID snapshotUUIDs, ct_Dependencies = [], ct_OrgId = rq_OrgID c,
      ct_AccountId = rq_AccountID c, ct_ObjectUUID = repoUUID, ct_ObjectType = ObjectTypeRepository, ct_RequestID = rq_RequestID c\<rparr>"

definition deleteSnapshot :: "DaoRegistry \<Rightarrow> ctx \<Rightarrow> caller \<Rightarrow> string \<Rightarrow> string \<Rightarrow> (reply, 'p queue_world) io" where
  "deleteSnapshot reg ctx c repoUUID snapshotUUID =
     bindIO (isDeleteAllowed reg ctx c repoUUID [snapshotUUID]) (\<lambda>refused.
       case refused of
         Some es \<Rightarrow> returnIO (Refused es)
       | None \<Rightarrow>
           caseIO (Snapshot_SoftDelete ctx snapshotUUID) (refuse ''Error deleting snapshot'') (\<lambda>_.
           caseIO (enqueueDeleteSnapshotsTask c repoUUID [snapshotUUID])
             (\<lambda>enqueueErr. caseIO (ClearDeletedAt ctx snapshotUUID) (refuse ''Error clearing deleted_at field'')
                (\<lambda>_. refuse ''Error enqueueing task'' enqueueErr))
             (\<lambda>_. returnIO (Reply 204))))"

fun clear_all :: "ctx \<Rightarrow> string list \<Rightarrow> (go_error option list, ('p, 'x) db_world_scheme) io" where
  "clear_all ctx [] = returnIO []"
| "clear_all ctx (uuid # uuids) =
     bindIO (caseIO (ClearDeletedAt ctx uuid) (\<lambda>err. returnIO (Some err)) (\<lambda>_. returnIO None)) (\<lambda>err.
     bindIO (clear_all ctx uuids) (\<lambda>errs. returnIO (err # errs)))"

definition bulkDeleteSnapshot :: "DaoRegistry \<Rightarrow> ctx \<Rightarrow> caller \<Rightarrow> string \<Rightarrow> string + string list \<Rightarrow> (reply, 'p queue_world) io" where
  "bulkDeleteSnapshot reg ctx c repoUUID body =
     (case body of
        Inl bindErr \<Rightarrow> returnIO (Refused (NewErrorResponse 400 ''Error binding parameters'' bindErr))
      | Inr snapshotUUIDs \<Rightarrow>
          if length snapshotUUIDs = 0 then
            returnIO (Refused (NewErrorResponse 400 ''Error deleting snapshots'' ''Request body must contain at least 1 snapshot UUID to delete.''))
          else if BulkDeleteLimit < length snapshotUUIDs then
            returnIO (Refused (NewErrorResponse 413 ''Error deleting repositories'' ''Cannot delete more than 100 snapshots at once.''))
          else
            bindIO (isDeleteAllowed reg ctx c repoUUID snapshotUUIDs) (\<lambda>refused.
              case refused of
                Some es \<Rightarrow> returnIO (Refused es)
              | None \<Rightarrow>
                  bindIO (BulkDelete ctx snapshotUUIDs) (\<lambda>errs.
                    if errs \<noteq> [] then refuse_all ''Error deleting snapshots'' errs
                    else
                      caseIO (enqueueDeleteSnapshotsTask c repoUUID snapshotUUIDs)
                        (\<lambda>enqueueErr. bindIO (clear_all ctx snapshotUUIDs) (\<lambda>errs.
                           if list_ex (\<lambda>e. e \<noteq> None) errs then refuse_all ''Error clearing snapshot deleted_at fields'' errs
                           else refuse ''Error enqueueing task'' enqueueErr))
                        (\<lambda>_. returnIO (Reply 204)))))"

section \<open>Publishing\<close>

fun enqueue_foreign_templates :: "caller \<Rightarrow> string \<Rightarrow> nat \<Rightarrow> TemplateResponse list \<Rightarrow> (unit, 'p queue_world) io" where
  "enqueue_foreign_templates c repoUUID publishTaskID [] = returnIO ()"
| "enqueue_foreign_templates c repoUUID publishTaskID (t # templates) =
     bindIO (if tp_OrgID t = rq_OrgID c \<or> tp_UseLatest t then returnIO ()
       else bindIO (enqueueUpdateTemplateContentTask c repoUUID (tp_UUID t) (tp_OrgID t) [publishTaskID]) (\<lambda>_. returnIO ())) (\<lambda>_.
     enqueue_foreign_templates c repoUUID publishTaskID templates)"

definition publishSnapshot ::
  "DaoRegistry \<Rightarrow> ctx \<Rightarrow> caller \<Rightarrow> string \<Rightarrow> string \<Rightarrow> string + bool option \<Rightarrow> (reply, 'p queue_world) io" where
  "publishSnapshot reg ctx c repoUUID snapshotUUID params =
     (case params of
        Inl bindErr \<Rightarrow> returnIO (Refused (NewErrorResponse 400 ''Error binding parameters'' bindErr))
      | Inr None \<Rightarrow> returnIO (Refused (NewErrorResponse 400 ''Error validating parameters''
          (''Request body must include the ''@[CHR 39]@''published''@[CHR 39]@'' field.'')))
      | Inr (Some published) \<Rightarrow>
          caseIO (UpdatePublishedStatus ctx (rq_OrgID c) published repoUUID snapshotUUID) (refuse ''Error (un)publishing snapshot'') (\<lambda>snapshot.
          caseIO (enqueueUpdateSnapshotPublishedTask c repoUUID snapshotUUID published []) (refuse ''Error enqueueing task'') (\<lambda>publishTaskID.
          caseIO (enqueueUpdateLatestSnapshotTask c repoUUID [publishTaskID]) (refuse ''Error enqueueing task'') (\<lambda>_.
          caseIO (InternalOnlyGetTemplatesForRepoConfig reg ctx repoUUID False) (refuse ''Error fetching templates for repository'') (\<lambda>templates.
          caseIO (enqueue_foreign_templates c repoUUID publishTaskID templates) (refuse ''Error enqueueing task'')
            (\<lambda>_. returnIO (Reply 200)))))))"

end
