(* ===== verification/SnapshotHandlersProps.thy ===== *)
theory SnapshotHandlersProps
  imports SnapshotHandlers ContentDemo ContentFrame
begin

text \<open>
  Who may delete a snapshot and which: a deletion that is accepted is of an unpublished snapshot of
  a repository of the caller's organisation (or of one of the Lightwell organisations), and leaves
  the repository another snapshot.
\<close>

lemma refuse_not_reply [simp]: "refuse title err w = (Inr (Reply n), w') \<longleftrightarrow> False"
  by (auto simp: refuse_def)

lemma refuse_all_not_reply [simp]: "refuse_all title errs w = (Inr (Reply n), w') \<longleftrightarrow> False"
  by (auto simp: refuse_all_def bindIO_def split: prod.splits sum.splits)

lemma refusal_some: "bindIO m (\<lambda>r. returnIO (Some r)) w = (Inr None, w') \<longleftrightarrow> False"
  by (auto simp: bindIO_def split: prod.splits sum.splits)

lemma check_snapshots_clean:
  assumes "check_snapshots repoSnaps uuids = Some errs" "\<not> list_ex (\<lambda>e. e \<noteq> None) errs" "u \<in> set uuids"
  shows "\<exists>s\<in>set repoSnaps. sn_UUID s = u \<and> (\<exists>s. find (\<lambda>s. sn_UUID s = u) repoSnaps = Some s \<and> \<not> sn_Published s)"
  using assms
proof (induction uuids arbitrary: errs)
  case (Cons v uuids)
  then show ?case
    by (auto simp: findSnapInRepo_def split: option.splits if_splits dest: find_mem)
qed simp

lemma FetchForRepoConfigUUID_success:
  assumes "FetchForRepoConfigUUID ctx rc False w = (Inr snaps, w')"
  shows "snaps = [] \<or> snaps = filter (\<lambda>s. sn_RepositoryConfigurationUUID s = rc \<and> \<not> sn_Deleted s) (tw_snapshots w)"
  using assms
  by (auto simp: FetchForRepoConfigUUID_def Let_def handleIO_def same_tables_def split: prod.splits sum.splits if_splits elim!: queryIO_success)

lemma rows_InProgress [frame_keeps]: "keeps same_rows (isDeleteInProgress ctx c rc)"
  unfolding isDeleteInProgress_def FetchActiveTasks_def by (intro frame_keeps)

lemma rows_refusals: "keeps same_rows (refusals title errs)"
  by (simp add: refusals_def frame_keeps del: returnIO_apply split: option.split)

lemma rows_Allowed: "keeps same_rows (isDeleteAllowed reg ctx c rc us)"
  unfolding isDeleteAllowed_def
  by (auto intro!: frame_keeps rows_refusals simp del: returnIO_apply split: option.split)

text \<open>The snapshots a repository has that are not marked as deleted.\<close>

definition repo_snapshots :: "string \<Rightarrow> ('p, 'x) db_world_scheme \<Rightarrow> Snapshot list" where
  "repo_snapshots rc w = filter (\<lambda>s. sn_RepositoryConfigurationUUID s = rc \<and> \<not> sn_Deleted s) (tw_snapshots w)"

definition may_delete :: "caller \<Rightarrow> string \<Rightarrow> config_row \<Rightarrow> bool" where
  "may_delete c rc cfg \<longleftrightarrow> co_UUID cfg = rc \<and> \<not> co_Deleted cfg \<and>
     (co_OrgID cfg = rq_OrgID c \<or> co_OrgID cfg \<in> {LightwellOrg, LightwellDemoOrg} \<and> \<not> co_Partner cfg)"

lemma isDeleteAllowed_None:
  assumes "isDeleteAllowed reg ctx c rc us w = (Inr None, w')"
  obtains repo w1 where "RepositoryConfig_Fetch reg ctx (rq_OrgID c) rc w = (Inr repo, w1)" "re_OrgID repo \<notin> {RedHatOrg, CommunityOrg}"
    "length us < length (repo_snapshots rc w)"
    "\<And>u. u \<in> set us \<Longrightarrow> \<exists>s. find (\<lambda>s. sn_UUID s = u) (repo_snapshots rc w) = Some s \<and> \<not> sn_Published s"
proof -
  obtain repo w1 where f: "RepositoryConfig_Fetch reg ctx (rq_OrgID c) rc w = (Inr repo, w1)" and o: "re_OrgID repo \<notin> {RedHatOrg, CommunityOrg}"
    and rest: "bindIO (isDeleteInProgress ctx c rc) (\<lambda>inProgress.
             case inProgress of
               Some es \<Rightarrow> returnIO (Some es)
             | None \<Rightarrow>
                 caseIO (FetchForRepoConfigUUID ctx rc False)
                   (\<lambda>err. returnIO (Some (dao_refusal ''Error fetching snapshots'' err)))
                   (\<lambda>repoSnaps.
                     case check_snapshots repoSnaps us of
                       None \<Rightarrow> returnIO (Some (NewErrorResponse 400 ''Error deleting snapshots'' ''Cannot delete a published snapshot''))
                     | Some errs \<Rightarrow>
                         if list_ex (\<lambda>e. e \<noteq> None) errs
                         then bindIO (refusals ''Error deleting snapshots'' errs) (\<lambda>es. returnIO (Some es))
                         else if length repoSnaps \<le> length us
                         then returnIO (Some (NewErrorResponse 400 ''Error deleting snapshots''
                           (''Can''@[CHR 39]@''t delete all the snapshots in the repository'')))
                         else returnIO None)) w1 = (Inr None, w')"
    using assms unfolding isDeleteAllowed_def
    by (elim caseIO_successE) (auto simp: refusal_some split: if_splits)
  have w1: "same_rows w w1" using rows.run [OF rows.step_Fetch f] .
  from rest obtain w2 snaps w3 errs where p: "isDeleteInProgress ctx c rc w1 = (Inr None, w2)"
    and s: "FetchForRepoConfigUUID ctx rc False w2 = (Inr snaps, w3)" and errs: "check_snapshots snaps us = Some errs" "\<not> list_ex (\<lambda>e. e \<noteq> None) errs"
    and len: "length us < length snaps"
    by (elim bindIO_successE) (auto simp: refusal_some split: option.splits if_splits elim!: caseIO_successE)
  have "same_rows w1 w2" using rows.run [OF rows_InProgress p] .
  with w1 have "tw_snapshots w2 = tw_snapshots w" by (simp add: same_rows_def same_tables_def)
  with FetchForRepoConfigUUID_success [OF s] len have snaps: "snaps = repo_snapshots rc w" by (auto simp: repo_snapshots_def)
  show thesis
    by (rule that [OF f o]) (use len snaps check_snapshots_clean [OF errs] in auto)
qed

lemma fetched_may_delete:
  assumes "RepositoryConfig_Fetch reg ctx (rq_OrgID c) rc w = (Inr repo, w1)" "re_OrgID repo \<notin> {RedHatOrg, CommunityOrg}"
  obtains cfg where "cfg \<in> set (tw_configs w)" "may_delete c rc cfg" "co_OrgID cfg \<notin> {RedHatOrg, CommunityOrg}"
  using assms by (elim RepositoryConfig_Fetch_success) (auto simp: may_delete_def IsForeignPartnerView_def foreignPartnerVisible_def split: if_splits)

text \<open>Marking a snapshot.\<close>

lemma SoftDelete_success:
  assumes run: "Snapshot_SoftDelete ctx u w = (Inr x, w')" and s: "s \<in> set (tw_snapshots w)" "sn_UUID s = u" "\<not> sn_Deleted s"
    and d: "distinct (map sn_UUID (tw_snapshots w))"
  obtains w1 where "same_rows w w1" "w' = soft_delete u w1"
proof -
  obtain snap w1 where f: "Snapshot_FetchModel ctx u True w = (Inr snap, w1)"
    and e: "whenIO (\<not> sn_Deleted snap) (execIO ctx (soft_delete u)) w1 = (Inr x, w')"
    using run unfolding Snapshot_SoftDelete_def by (auto elim: bindIO_successE)
  have "snap \<in> set (tw_snapshots w)" "sn_UUID snap = u"
    using f unfolding Snapshot_FetchModel_def by (auto elim!: queryIO_success simp: same_tables_def dest: find_mem)
  with s d have "snap = s" by (auto simp: distinct_map dest: inj_onD)
  with e s(3) have "dbIO ctx (\<lambda>w. (Inr (), soft_delete u w)) w1 = (Inr x, w')" by (simp add: execIO_def)
  then obtain w2 where "same_rows w1 w2" "w' = soft_delete u w2" by (auto elim: rows.dbIO_run)
  with rows.run [OF rows.step_reads(1) f] show thesis using that transpE [OF rows.transitive] by blast
qed

lemma repo_snapshots_soft_delete:
  "repo_snapshots rc (soft_delete u w) = filter (\<lambda>s. sn_UUID s \<noteq> u) (repo_snapshots rc w)"
proof -
  have "filter P (map (\<lambda>s. if sn_UUID s = u then s\<lparr>sn_Deleted := True\<rparr> else s) xs) = filter (\<lambda>s. P s \<and> sn_UUID s \<noteq> u) xs"
    if "\<And>s. P (s\<lparr>sn_Deleted := True\<rparr>) \<Longrightarrow> False" for P xs
    using that by (induction xs) auto
  from this [of "\<lambda>s. sn_RepositoryConfigurationUUID s = rc \<and> \<not> sn_Deleted s" "tw_snapshots w"] show ?thesis
    by (simp add: repo_snapshots_def soft_delete_def update_where_def)
qed

lemma same_rows_tasks: "same_rows w w' \<Longrightarrow> qw_tasks w' = qw_tasks w"
  by (cases w; cases w') (simp add: same_rows_def)

lemma Enqueue_success:
  assumes "enqueueTask t w = (Inr n, w')"
  shows "tw_snapshots w' = tw_snapshots w \<and> qw_tasks w' = qw_tasks w @ [\<lparr>tk_Task = t, tk_Status = Pending, tk_Retries = False\<rparr>]"
  using assms by (auto simp: enqueueTask_def split: list.splits option.splits)

lemma filter_key_length:
  assumes "distinct (map f xs)"
  shows "length xs \<le> Suc (length (filter (\<lambda>x. f x \<noteq> u) xs))"
  using assms
proof (induction xs)
  case (Cons x xs)
  show ?case
  proof (cases "f x = u")
    case True
    with Cons.prems have "filter (\<lambda>x. f x \<noteq> u) xs = xs" by (simp add: filter_id_conv) (metis imageI)
    then show ?thesis by simp
  next
    case False
    with Cons show ?thesis by simp
  qed
qed simp

section \<open>Property\<close>

text \<open>
  C29. What a request to delete a snapshot has checked when it is accepted: the repository is one the
  organisation may delete from, the snapshot is one of its snapshots and not published, others
  remain; then exactly this snapshot is marked and one task with it is waiting in the queue.
\<close>

theorem accepted_snapshot_deletion:
  assumes run: "deleteSnapshot reg ctx c rc u w = (Inr (Reply 204), w')" and d: "distinct (map sn_UUID (tw_snapshots w))"
  shows "(\<exists>cfg\<in>set (tw_configs w). may_delete c rc cfg \<and> co_OrgID cfg \<notin> {RedHatOrg, CommunityOrg}) \<and>
    (\<exists>s\<in>set (repo_snapshots rc w). sn_UUID s = u \<and> \<not> sn_Published s) \<and>
    repo_snapshots rc w' = filter (\<lambda>s. sn_UUID s \<noteq> u) (repo_snapshots rc w) \<and> repo_snapshots rc w' \<noteq> [] \<and>
    (\<exists>t. qw_tasks w' = qw_tasks w @ [t] \<and> tk_Status t = Pending \<and>
      ct_Payload (tk_Task t) = DeleteSnapshotsPayload rc [u] \<and> ct_OrgId (tk_Task t) = rq_OrgID c)"
proof -
  obtain w1 x w2 n where a: "isDeleteAllowed reg ctx c rc [u] w = (Inr None, w1)" and sd: "Snapshot_SoftDelete ctx u w1 = (Inr x, w2)"
    and q: "enqueueDeleteSnapshotsTask c rc [u] w2 = (Inr n, w')"
    using run unfolding deleteSnapshot_def
    by (elim bindIO_successE) (auto split: option.splits elim!: caseIO_successE)
  from a obtain repo wf where f: "RepositoryConfig_Fetch reg ctx (rq_OrgID c) rc w = (Inr repo, wf)" "re_OrgID repo \<notin> {RedHatOrg, CommunityOrg}"
    and len: "length [u] < length (repo_snapshots rc w)"
    and found: "\<exists>s. find (\<lambda>s. sn_UUID s = u) (repo_snapshots rc w) = Some s \<and> \<not> sn_Published s"
    by (rule isDeleteAllowed_None) auto
  from found obtain s where s: "s \<in> set (repo_snapshots rc w)" "sn_UUID s = u" "\<not> sn_Published s" by (auto dest: find_mem)
  have w1: "same_rows w w1" using rows.run [OF rows_Allowed a] .
  have "s \<in> set (tw_snapshots w1)" "\<not> sn_Deleted s" "distinct (map sn_UUID (tw_snapshots w1))"
    using s(1) w1 d by (auto simp: repo_snapshots_def same_rows_def same_tables_def)
  with sd s(2) obtain w3 where w3: "same_rows w1 w3" "w2 = soft_delete u w3" by (auto elim: SoftDelete_success)
  have "repo_snapshots rc w' = repo_snapshots rc w2" using Enqueue_success q unfolding enqueueDeleteSnapshotsTask_def repo_snapshots_def by metis
  also have "\<dots> = filter (\<lambda>s. sn_UUID s \<noteq> u) (repo_snapshots rc w3)" using w3 repo_snapshots_soft_delete by simp
  also have "repo_snapshots rc w3 = repo_snapshots rc w" using w1 w3(1) by (simp add: repo_snapshots_def same_rows_def same_tables_def)
  finally have eq: "repo_snapshots rc w' = filter (\<lambda>s. sn_UUID s \<noteq> u) (repo_snapshots rc w)" .
  have "distinct (map sn_UUID (repo_snapshots rc w))" using d by (simp add: repo_snapshots_def distinct_map_filter)
  from filter_key_length [OF this, of u] len eq have ne: "repo_snapshots rc w' \<noteq> []" by auto
  have "qw_tasks w2 = qw_tasks w" using same_rows_tasks [OF w1] same_rows_tasks [OF w3(1)] w3(2) by (simp add: soft_delete_def)
  with Enqueue_success [OF q [unfolded enqueueDeleteSnapshotsTask_def]] f s eq ne show ?thesis
    by (elim fetched_may_delete) auto
qed


definition demo_caller :: caller where
  "demo_caller = \<lparr>rq_AccountID = ''1'', rq_OrgID = ''acme'', rq_RequestID = ''q''\<rparr>"

text \<open>The rows of the demonstration with no snapshot marked as deleted, and an empty queue.\<close>

definition demo_queue :: "demo_pulp queue_world" where
  "demo_queue = \<lparr>pw_pulp = ([], [''vs1'', ''vs2'']), pw_cancel = None, pw_cause = Context_Canceled, pw_slept = 0,
     tw_repositories = tw_repositories demo_content, tw_configs = [demo_repo_config],
     tw_snapshots = [demo_snapshot ''s1'' 10000000, demo_snapshot ''s2'' 20000000],
     tw_templates = [demo_template], tw_trcs = [demo_trc ''s2''], tw_domains = [(''acme'', ''cs-1'')], tw_faults = [], tw_uuids = 0,
     tw_clock = int, tw_reads = 0, qw_tasks = [], qw_answers = []\<rparr>"

theorem accepted_snapshot_deletion_witness:
  "(let w' = snd (deleteSnapshot demo_registry TaskCtx demo_caller ''r1'' ''s2'' demo_queue) in
    fst (deleteSnapshot demo_registry TaskCtx demo_caller ''r1'' ''s2'' demo_queue) = Inr (Reply 204) \<and>
    map sn_UUID (repo_snapshots ''r1'' w') = [''s1''] \<and>
    (\<exists>t. qw_tasks w' = [t] \<and> ct_Payload (tk_Task t) = DeleteSnapshotsPayload ''r1'' [''s2'']))"
proof -
  let ?run = "deleteSnapshot demo_registry TaskCtx demo_caller ''r1'' ''s2'' demo_queue"
  have reply: "fst ?run = Inr (Reply 204)" by code_simp
  then have run: "?run = (Inr (Reply 204), snd ?run)" by (cases ?run) auto
  have "distinct (map sn_UUID (tw_snapshots demo_queue))" by (simp add: demo_queue_def demo_snapshot_def)
  from accepted_snapshot_deletion [OF run this] reply show ?thesis
    by (auto simp: Let_def repo_snapshots_def demo_queue_def demo_snapshot_def)
qed

end
