(* ===== verification/CandlepinContent.thy ===== *)
theory CandlepinContent
  imports TemplatePaths
begin

text \<open>
  What Candlepin is told of a template's repositories (\<open>pkg/tasks/candlepin_helpers.go\<close>): a content for
  each repository and the overrides of its settings. The client of Candlepin is the argument
  \<open>CandlepinClient\<close>, one function per call of its interface that the tasks use, over the state of the
  services outside; names and labels of its answers are taken to be there. \<open>url.JoinPath\<close> is an
  argument too.
\<close>

section \<open>The client\<close>

record ContentDTO =
  cd_Id :: string
  cd_Type :: string
  cd_Label :: string
  cd_Name :: string
  cd_Vendor :: string
  cd_GpgUrl :: "string option"
  cd_ContentUrl :: string

record ContentOverrideDTO =
  ov_Name :: string
  ov_ContentLabel :: string
  ov_Value :: string

record EnvironmentDTO =
  en_Name :: "string option"
  en_ContentIds :: "string list"

type_synonym ('a, 'p) cp_call = "'p \<Rightarrow> 'a result \<times> 'p"

text \<open>The contents of \<open>cp_FetchContentsByLabel\<close> are known by their identifiers, which may be nil.\<close>

record 'p CandlepinClient =
  cp_CreateProduct :: "string \<Rightarrow> (unit, 'p) cp_call"
  cp_CreatePool :: "string \<Rightarrow> (string, 'p) cp_call"
  cp_CreateContent :: "string \<Rightarrow> ContentDTO \<Rightarrow> (unit, 'p) cp_call"
  cp_AddContentBatchToProduct :: "string \<Rightarrow> string list \<Rightarrow> (unit, 'p) cp_call"
  cp_FetchContentsByLabel :: "string \<Rightarrow> string list \<Rightarrow> (string option list, 'p) cp_call"
  cp_FetchEnvironment :: "string \<Rightarrow> (EnvironmentDTO option, 'p) cp_call"
  cp_CreateEnvironment :: "string \<Rightarrow> string \<Rightarrow> string \<Rightarrow> string \<Rightarrow> (EnvironmentDTO, 'p) cp_call"
  cp_RenameEnvironment :: "string \<Rightarrow> string \<Rightarrow> (EnvironmentDTO, 'p) cp_call"
  cp_DeleteEnvironment :: "string \<Rightarrow> (unit, 'p) cp_call"
  cp_PromoteContentToEnvironment :: "string \<Rightarrow> string list \<Rightarrow> (unit, 'p) cp_call"
  cp_DemoteContentFromEnvironment :: "string \<Rightarrow> string list \<Rightarrow> (unit, 'p) cp_call"
  cp_FetchContentOverrides :: "string \<Rightarrow> (ContentOverrideDTO list, 'p) cp_call"
  cp_RemoveContentOverrides :: "string \<Rightarrow> ContentOverrideDTO list \<Rightarrow> (unit, 'p) cp_call"
  cp_UpdateContentOverrides :: "string \<Rightarrow> ContentOverrideDTO list \<Rightarrow> (unit, 'p) cp_call"
  cp_RemoveContentFromProduct :: "string \<Rightarrow> string \<Rightarrow> (unit, 'p) cp_call"
  cp_DeleteContent :: "string \<Rightarrow> string \<Rightarrow> (unit, 'p) cp_call"

definition cpIO :: "ctx \<Rightarrow> ('a, 'p) cp_call \<Rightarrow> ('a, ('p, 'x) pulp_world_scheme) io" where
  "cpIO ctx call = (\<lambda>w.
     if ctx = TaskCtx \<and> cancelled w then (Inl (pw_cause w), w)
     else case call (pw_pulp w) of (r, p') \<Rightarrow> (r, (tick w)\<lparr>pw_pulp := p'\<rparr>))"

section \<open>Contents\<close>

definition GetContentID :: "string \<Rightarrow> string" where
  "GetContentID repoConfigUUID = filter (\<lambda>c. c \<noteq> CHR ''-'') repoConfigUUID"

definition getRepoVendor :: "RepositoryResponse \<Rightarrow> string" where
  "getRepoVendor repo = (if re_OrgID repo = RedHatOrg then ''Red Hat'' else ''Custom'')"

text \<open>The settings the URLs are made with: the service's own address and root path, and \<open>url.JoinPath\<close>.\<close>

record url_settings =
  us_ExternalURL :: string
  us_FullRootPath :: string
  us_JoinPath :: "string \<Rightarrow> string list \<Rightarrow> string result"

definition genContentDto :: "url_settings \<Rightarrow> RepositoryResponse \<Rightarrow> string \<Rightarrow> ContentDTO" where
  "genContentDto us repo contentURL =
     \<lparr>cd_Id = GetContentID (re_UUID repo), cd_Type = ''yum'', cd_Label = re_Label repo, cd_Name = re_Name repo, cd_Vendor = getRepoVendor repo,
      cd_GpgUrl = (if re_OrgID repo \<noteq> RedHatOrg \<and> re_GpgKey repo \<noteq> ''''
        then CandlepinContentGpgKeyUrl (us_ExternalURL us) (us_FullRootPath us) (re_OrgID repo) (re_UUID repo) else Some ''''),
      cd_ContentUrl = contentURL\<rparr>"

section \<open>Overrides\<close>

text \<open>
  The pattern \<open>^(rhel-\d+)\.\d+(-for-.+-(e4s|eus)-rpms)$\<close>: the minor version is left out. Each part
  that repeats ends at a character that it cannot take.
\<close>

definition ends_extended :: "string \<Rightarrow> bool" where
  "ends_extended rest =
     (HasPrefix rest ''-for-'' \<and> CHR 10 \<notin> set rest \<and>
      (HasSuffix rest ''-e4s-rpms'' \<or> HasSuffix rest ''-eus-rpms'') \<and> length ''-for-'' + 1 + length ''-e4s-rpms'' \<le> length rest)"

definition normalizeExtendedReleaseLabel :: "string \<Rightarrow> string" where
  "normalizeExtendedReleaseLabel label =
     (if \<not> HasPrefix label ''rhel-'' then label
      else
        (let s = drop (length ''rhel-'') label; major = takeWhile is_digit s; s = dropWhile is_digit s in
         if major = [] \<or> \<not> HasPrefix s ''.'' then label
         else
           (let s = drop 1 s; minor = takeWhile is_digit s; rest = dropWhile is_digit s in
            if minor = [] \<or> \<not> ends_extended rest then label
            else ''rhel-'' @ major @ rest)))"

definition contentOverridesForRepo ::
  "url_settings \<Rightarrow> string \<Rightarrow> string \<Rightarrow> string \<Rightarrow> RepositoryResponse \<Rightarrow> bool \<Rightarrow> ContentOverrideDTO list result" where
  "contentOverridesForRepo us domain templateUUID pulpContentPath repo requireLastSnapshot =
     (if requireLastSnapshot \<and> re_LastSnapshot repo = None then Inr []
      else
        (let isExtendedReleaseRepo = (re_OrgID repo = RedHatOrg \<and> re_ExtendedRelease repo \<noteq> '''');
             shouldOverrideURL = (isExtendedReleaseRepo \<or> re_Origin repo \<in> {OriginExternal, OriginCommunity, OriginUpload});
             contentLabel = (if isExtendedReleaseRepo then normalizeExtendedReleaseLabel (re_Label repo) else re_Label repo);
             override = (\<lambda>name value. \<lparr>ov_Name = name, ov_ContentLabel = contentLabel, ov_Value = value\<rparr>);
             mapping = [override ''sslcacert'' '' '', override ''sslverifystatus'' ''0'']
         in
         if \<not> shouldOverrideURL then Inr mapping
         else
           (case getDistPathAndName repo templateUUID of
              Inl err \<Rightarrow> Inl err
            | Inr (distPath, _) \<Rightarrow>
                (case us_JoinPath us pulpContentPath [domain, distPath] of
                   Inl err \<Rightarrow> Inl err
                 | Inr path \<Rightarrow>
                     Inr (mapping @ [override ''baseurl'' path] @
                       (if re_ModuleHotfixes repo then [override ''module_hotfixes'' ''1''] else []))))))"

definition UnneededOverrides :: "ContentOverrideDTO list \<Rightarrow> ContentOverrideDTO list \<Rightarrow> ContentOverrideDTO list" where
  "UnneededOverrides existingDtos expectedDTOs =
     filter (\<lambda>existing. \<not> list_ex (\<lambda>expected. ov_Name existing = ov_Name expected \<and> ov_ContentLabel existing = ov_ContentLabel expected) expectedDTOs)
       existingDtos"

definition RemoveUneededOverrides ::
  "'p CandlepinClient \<Rightarrow> ctx \<Rightarrow> string \<Rightarrow> ContentOverrideDTO list \<Rightarrow> (unit, ('p, 'x) pulp_world_scheme) io" where
  "RemoveUneededOverrides cp ctx templateUUID expectedDTOs =
     bindIO (cpIO ctx (cp_FetchContentOverrides cp templateUUID)) (\<lambda>existingDtos.
     let toDelete = UnneededOverrides existingDtos expectedDTOs in
     whenIO (0 < length toDelete) (cpIO ctx (cp_RemoveContentOverrides cp templateUUID toDelete)))"

text \<open>\<open>difference\<close> of two lists.\<close>

definition difference :: "string list \<Rightarrow> string list \<Rightarrow> string list" where
  "difference a b = filter (\<lambda>x. x \<notin> set b) a"

lemma label_examples:
  "normalizeExtendedReleaseLabel ''rhel-8.6-for-x86_64-appstream-e4s-rpms'' = ''rhel-8-for-x86_64-appstream-e4s-rpms''"
  "normalizeExtendedReleaseLabel ''rhel-8-for-x86_64-appstream-rpms'' = ''rhel-8-for-x86_64-appstream-rpms''"
  "normalizeExtendedReleaseLabel ''rhel-9.4-for--eus-rpms'' = ''rhel-9.4-for--eus-rpms''"
  by code_simp+

end
