(* ===== verification/UpdateTemplateContent.thy ===== *)
theory UpdateTemplateContent
  imports CandlepinContent
begin

text \<open>
  The task that makes Pulp and Candlepin serve a template (\<open>pkg/tasks/update_template_content.go\<close>): a
  distribution for each of its repositories, with the snapshot of the template's date; and in
  Candlepin an environment with a content for each repository.
\<close>

section \<open>State\<close>

record 'p UpdateTemplateContent =
  ut_orgId :: string
  ut_domainName :: string
  ut_rhDomainName :: string
  ut_communityDomainName :: string
  ut_template :: TemplateResponse
  ut_TemplateUUID :: string
  ut_RepoConfigUUIDs :: "string list"
  ut_TriggeredByRepositoryUUID :: "string option"
  ut_daoReg :: DaoRegistry
  ut_pulpClient :: "'p pulpDaoImpl"
  ut_cpClient :: "'p CandlepinClient"
  ut_urls :: url_settings

section \<open>The template\<close>

definition lookupTemplate ::
  "DaoRegistry \<Rightarrow> ctx \<Rightarrow> string \<Rightarrow> string \<Rightarrow> (TemplateResponse option, ('p, 'x) db_world_scheme) io" where
  "lookupTemplate reg ctx orgId templateUUID =
     bindIO (Template_Fetch reg ctx orgId templateUUID True) (\<lambda>template.
       if da_Valid (tp_DeletedAt template) then returnIO None
       else bindIO (Template_Fetch reg ctx orgId templateUUID False) (\<lambda>template. returnIO (Some template)))"

text \<open>
  A task that a publication triggered: what the template is to have follows from the rows at the time
  of the run. The answer is whether to stop, and the task with the repositories to have.
\<close>

definition prepareTriggeredUpdate ::
  "'p UpdateTemplateContent \<Rightarrow> (bool \<times> 'p UpdateTemplateContent, ('p, 'x) db_world_scheme) io" where
  "prepareTriggeredUpdate t =
     (case ut_TriggeredByRepositoryUUID t of
        None \<Rightarrow> returnIO (False, t)
      | Some repoUUID \<Rightarrow>
          bindIO (wrapIO (''error fetching triggering repository '' @ repoUUID) (FetchWithoutOrgID TaskCtx repoUUID False)) (\<lambda>repo.
            if \<not> re_Partner repo then
              failIO (Other (''repository '' @ repoUUID @ '' triggered partner template reconciliation but is not a partner repository''))
            else
              bindIO (wrapIO (''error checking published snapshots for repository '' @ repoUUID) (HasPublishedSnapshot TaskCtx repoUUID)) (\<lambda>hasPublishedSnapshot.
              let template = ut_template t; t = t\<lparr>ut_RepoConfigUUIDs := tp_RepositoryUUIDS template\<rparr> in
              if repoUUID \<notin> set (ut_RepoConfigUUIDs t) then returnIO (False, t)
              else if hasPublishedSnapshot then returnIO (tp_UseLatest template, t)
              else if \<not> tp_UseLatest template \<and> re_OrgID repo = tp_OrgID template then returnIO (False, t)
              else
                (let desired = filter (\<lambda>r. r \<noteq> repoUUID) (ut_RepoConfigUUIDs t) in
                 returnIO (False, t\<lparr>ut_RepoConfigUUIDs := desired, ut_template := template\<lparr>tp_RepositoryUUIDS := desired\<rparr>\<rparr>)))))"

section \<open>Pulp\<close>

definition client_for_repo ::
  "'p UpdateTemplateContent \<Rightarrow> RepositoryResponse \<Rightarrow> ('p pulpDaoImpl, ('p, 'x) db_world_scheme) io" where
  "client_for_repo t repo =
     bindIO (repositoryDomain TaskCtx repo (ut_orgId t) (ut_domainName t) (ut_rhDomainName t) (ut_communityDomainName t)) (\<lambda>domain.
     returnIO (WithDomain (ut_pulpClient t) domain))"

text \<open>The two loops return the map of hrefs with the entries they add.\<close>

fun handleReposAdded ::
  "'p UpdateTemplateContent \<Rightarrow> string list \<Rightarrow> Snapshot list \<Rightarrow> (string \<rightharpoonup> string) \<Rightarrow> (string \<rightharpoonup> string, ('p, 'x) db_world_scheme) io" where
  "handleReposAdded t [] snapshots hrefs = returnIO hrefs"
| "handleReposAdded t (repoConfigUUID # reposAdded) snapshots hrefs =
     bindIO (FetchWithoutOrgID TaskCtx repoConfigUUID False) (\<lambda>repo.
     bindIO (client_for_repo t repo) (\<lambda>pulpClient.
       case snapshot_for snapshots repoConfigUUID of
         None \<Rightarrow> failIO (Other (''no snapshot found for repository '' @ repoConfigUUID))
       | Some snapshot \<Rightarrow>
           bindIO (resultIO (getDistPathAndName repo (ut_TemplateUUID t))) (\<lambda>(distPath, distName).
           bindIO (CreateOrUpdateTemplateDistribution pulpClient TaskCtx repo snapshot (ut_orgId t) distName distPath) (\<lambda>(distHref, _).
           handleReposAdded t reposAdded snapshots (hrefs(repoConfigUUID \<mapsto> distHref))))))"

fun handleReposUnchanged ::
  "'p UpdateTemplateContent \<Rightarrow> string list \<Rightarrow> Snapshot list \<Rightarrow> (string \<rightharpoonup> string) \<Rightarrow> (string \<rightharpoonup> string, ('p, 'x) db_world_scheme) io" where
  "handleReposUnchanged t [] snapshots hrefs = returnIO hrefs"
| "handleReposUnchanged t (repoConfigUUID # reposUnchanged) snapshots hrefs =
     bindIO (FetchWithoutOrgID TaskCtx repoConfigUUID False) (\<lambda>repo.
     bindIO (client_for_repo t repo) (\<lambda>pulpClient.
       case snapshot_for snapshots repoConfigUUID of
         None \<Rightarrow> handleReposUnchanged t reposUnchanged snapshots hrefs
       | Some snapshot \<Rightarrow>
           bindIO (resultIO (getDistPathAndName repo (ut_TemplateUUID t))) (\<lambda>(distPath, distName).
           bindIO (CreateOrUpdateTemplateDistribution pulpClient TaskCtx repo snapshot (ut_orgId t) distName distPath) (\<lambda>_.
           bindIO (FindDistributionByPath pulpClient TaskCtx distPath) (\<lambda>distResp.
           bindIO (deref distResp) (\<lambda>dist.
           bindIO (deref (di_PulpHref dist)) (\<lambda>href.
           handleReposUnchanged t reposUnchanged snapshots (hrefs(repoConfigUUID \<mapsto> href)))))))))"

text \<open>An href that is null ends the loop, not only its round.\<close>

fun handleReposRemoved :: "'p UpdateTemplateContent \<Rightarrow> string list \<Rightarrow> (unit, ('p, 'x) db_world_scheme) io" where
  "handleReposRemoved t [] = returnIO ()"
| "handleReposRemoved t (repoConfigUUID # reposRemoved) =
     bindIO (FetchWithoutOrgID TaskCtx repoConfigUUID False) (\<lambda>repo.
     bindIO (client_for_repo t repo) (\<lambda>pulpClient.
     bindIO (GetDistributionHref TaskCtx (ut_TemplateUUID t) repoConfigUUID) (\<lambda>distHref.
       case distHref of
         None \<Rightarrow> returnIO ()
       | Some href \<Rightarrow>
           bindIO (DeleteRpmDistribution pulpClient TaskCtx href) (\<lambda>task.
           bindIO (case task of None \<Rightarrow> returnIO ()
             | Some taskHref \<Rightarrow> bindIO (PollTask pulpClient TaskCtx taskHref) (\<lambda>_. returnIO ())) (\<lambda>_.
           handleReposRemoved t reposRemoved)))))"

definition RunPulp :: "'p UpdateTemplateContent \<Rightarrow> (unit, ('p, 'x) db_world_scheme) io" where
  "RunPulp t =
     (if length (ut_RepoConfigUUIDs t) = 0 then returnIO ()
      else
        bindIO (wrapIO ''error getting repo changes'' (GetRepoChanges TaskCtx (ut_TemplateUUID t) (ut_RepoConfigUUIDs t)))
          (\<lambda>(reposAdded, reposRemoved, reposUnchanged, allRepos).
        bindIO (template_date (tp_UseLatest (ut_template t)) (tp_Date (ut_template t))) (\<lambda>templateDate.
        bindIO (FetchSnapshotsModelByDateAndRepository TaskCtx (ut_orgId t) allRepos templateDate) (\<lambda>snapshots.
        bindIO (handleReposAdded t reposAdded snapshots Map.empty) (\<lambda>hrefs.
        bindIO (whenIO (reposRemoved \<noteq> [])
          (bindIO (handleReposRemoved t reposRemoved) (\<lambda>_.
           wrapIO ''error in DeleteTemplateRepoConfigs''
             (DeleteTemplateRepoConfigs TaskCtx (ut_TemplateUUID t) (reposUnchanged @ reposAdded))))) (\<lambda>_.
        bindIO (handleReposUnchanged t reposUnchanged snapshots hrefs) (\<lambda>hrefs.
        bindIO (wrapIO ''error updating distribution hrefs''
          (UpdateDistributionHrefs TaskCtx (ut_TemplateUUID t) (ut_RepoConfigUUIDs t) snapshots hrefs)) (\<lambda>_.
        wrapIO ''error updating template snapshots''
          (UpdateSnapshots TaskCtx (ut_TemplateUUID t) (ut_RepoConfigUUIDs t) snapshots)))))))))"

section \<open>Candlepin\<close>

definition fetchOrCreateEnvironment :: "'p UpdateTemplateContent \<Rightarrow> string \<Rightarrow> (EnvironmentDTO, ('p, 'x) pulp_world_scheme) io" where
  "fetchOrCreateEnvironment t prefix =
     bindIO (cpIO TaskCtx (cp_FetchEnvironment (ut_cpClient t) (ut_TemplateUUID t))) (\<lambda>env.
       case env of
         Some env \<Rightarrow> returnIO env
       | None \<Rightarrow> cpIO TaskCtx (cp_CreateEnvironment (ut_cpClient t) (ut_orgId t) (tp_Name (ut_template t)) (tp_UUID (ut_template t)) prefix))"

definition RunEnvironmentCreate :: "'p UpdateTemplateContent \<Rightarrow> (EnvironmentDTO, ('p, 'x) db_world_scheme) io" where
  "RunEnvironmentCreate t =
     bindIO (resultIO (dr_GetContentPath (ut_daoReg t))) (\<lambda>rhContentPath.
     bindIO (resultIO (us_JoinPath (ut_urls t) rhContentPath [ut_rhDomainName t, ''templates'', ut_TemplateUUID t])) (\<lambda>prefix.
     bindIO (fetchOrCreateEnvironment t prefix) (\<lambda>env.
     bindIO (whenIO (\<not> tp_RHSMEnvironmentCreated (ut_template t)) (SetEnvironmentCreated TaskCtx (tp_UUID (ut_template t)))) (\<lambda>_.
     returnIO env))))"

definition renameEnvironmentIfNeeded :: "'p UpdateTemplateContent \<Rightarrow> EnvironmentDTO \<Rightarrow> (EnvironmentDTO, ('p, 'x) pulp_world_scheme) io" where
  "renameEnvironmentIfNeeded t env =
     bindIO (deref (en_Name env)) (\<lambda>name.
       if tp_Name (ut_template t) = name then returnIO env
       else cpIO TaskCtx (cp_RenameEnvironment (ut_cpClient t) (tp_UUID (ut_template t)) (tp_Name (ut_template t))))"

fun fetch_repos :: "string list \<Rightarrow> (RepositoryResponse list, ('p, 'x) db_world_scheme) io" where
  "fetch_repos [] = returnIO []"
| "fetch_repos (uuid # uuids) =
     bindIO (FetchWithoutOrgID TaskCtx uuid False) (\<lambda>repo.
     bindIO (fetch_repos uuids) (\<lambda>repos. returnIO (repo # repos)))"

definition getRedHatContentIDs :: "'p UpdateTemplateContent \<Rightarrow> RepositoryResponse list \<Rightarrow> (string list, ('p, 'x) pulp_world_scheme) io" where
  "getRedHatContentIDs t rhRepos =
     bindIO (cpIO TaskCtx (cp_FetchContentsByLabel (ut_cpClient t) (ut_orgId t)
       (map (\<lambda>repo. if re_ExtendedRelease repo \<noteq> '''' then normalizeExtendedReleaseLabel (re_Label repo) else re_Label repo) rhRepos))) (\<lambda>contents.
     if None \<in> set contents then failIO nil_dereference else returnIO (map the contents))"

definition contentURLForRepo :: "'p UpdateTemplateContent \<Rightarrow> RepositoryResponse \<Rightarrow> string \<Rightarrow> (string, ('p, 'x) db_world_scheme) io" where
  "contentURLForRepo t repo contentPath =
     (if re_Origin repo \<noteq> OriginUpload then returnIO (re_URL repo)
      else
        bindIO (repositoryDomain TaskCtx repo (ut_orgId t) (ut_domainName t) (ut_rhDomainName t) (ut_communityDomainName t)) (\<lambda>domain.
          if domain = '''' then
            failIO (Other (''cannot generate Candlepin content URL for upload repository '' @ re_UUID repo @ '': Pulp domain is empty''))
          else
            bindIO (wrapIO (''cannot generate Candlepin content URL for upload repository '' @ re_UUID repo)
              (resultIO (us_JoinPath (ut_urls t) contentPath [domain, re_UUID repo, ''latest'']))) (\<lambda>contentURL.
            returnIO (contentURL @ ''/''))))"

fun createContentItems ::
  "'p UpdateTemplateContent \<Rightarrow> RepositoryResponse list \<Rightarrow> string \<Rightarrow> (ContentDTO list, ('p, 'x) db_world_scheme) io" where
  "createContentItems t [] contentPath = returnIO []"
| "createContentItems t (repo # repos) contentPath =
     (if re_OrgID repo = RedHatOrg then createContentItems t repos contentPath
      else
        bindIO (contentURLForRepo t repo contentPath) (\<lambda>contentURL.
        bindIO (createContentItems t repos contentPath) (\<lambda>content. returnIO (genContentDto (ut_urls t) repo contentURL # content))))"

text \<open>The contents to create (their identifiers are those of the content) and Red Hat's identifiers.\<close>

definition getContentList ::
  "'p UpdateTemplateContent \<Rightarrow> string \<Rightarrow> (ContentDTO list \<times> string list, ('p, 'x) db_world_scheme) io" where
  "getContentList t contentPath =
     (if length (ut_RepoConfigUUIDs t) = 0 then
        failIO (Other (''update template content: no repository config uuids available for template '' @ ut_TemplateUUID t))
      else
        bindIO (fetch_repos (ut_RepoConfigUUIDs t)) (\<lambda>repos.
        bindIO (getRedHatContentIDs t (filter (\<lambda>r. re_OrgID r = RedHatOrg) repos)) (\<lambda>rhContentIDs.
        bindIO (createContentItems t (filter (\<lambda>r. re_OrgID r \<noteq> RedHatOrg) repos) contentPath) (\<lambda>contentToCreate.
        returnIO (contentToCreate, rhContentIDs)))))"

fun override_loop ::
  "'p UpdateTemplateContent \<Rightarrow> string \<Rightarrow> string list \<Rightarrow> (ContentOverrideDTO list, ('p, 'x) db_world_scheme) io" where
  "override_loop t contentPath [] = returnIO []"
| "override_loop t contentPath (uuid # uuids) =
     bindIO (FetchWithoutOrgID TaskCtx uuid False) (\<lambda>repo.
     bindIO (repositoryDomain TaskCtx repo (ut_orgId t) (ut_domainName t) (ut_rhDomainName t) (ut_communityDomainName t)) (\<lambda>domain.
     bindIO (resultIO (contentOverridesForRepo (ut_urls t) domain (tp_UUID (ut_template t)) contentPath repo False)) (\<lambda>repoOver.
     bindIO (override_loop t contentPath uuids) (\<lambda>mapping. returnIO (repoOver @ mapping)))))"

definition GenOverrideDTO ::
  "'p UpdateTemplateContent \<Rightarrow> string \<Rightarrow> (ContentOverrideDTO list, ('p, 'x) db_world_scheme) io" where
  "GenOverrideDTO t contentPath =
     (if length (ut_RepoConfigUUIDs t) = 0 then
        failIO (Other (''refusing to list repository configs for template '' @ tp_UUID (ut_template t) @
          '': no repository config UUIDs (unfiltered list would include unrelated orgs)''))
      else override_loop t contentPath (ut_RepoConfigUUIDs t))"

text \<open>The pool's identifier is saved with the task; the row of the task is not part of this state.\<close>

definition save_pool :: "string \<Rightarrow> (unit, ('p, 'x) db_world_scheme) io" where
  "save_pool poolID = execIO Background (\<lambda>w. w)"

definition RunCandlepin :: "'p UpdateTemplateContent \<Rightarrow> EnvironmentDTO \<Rightarrow> (unit, ('p, 'x) db_world_scheme) io" where
  "RunCandlepin t env =
     (let cp = ut_cpClient t in
      bindIO (cpIO TaskCtx (cp_CreateProduct cp (ut_orgId t))) (\<lambda>_.
      bindIO (cpIO TaskCtx (cp_CreatePool cp (ut_orgId t))) (\<lambda>poolID.
      bindIO (save_pool poolID) (\<lambda>_.
      bindIO (resultIO (dr_GetContentPath (ut_daoReg t))) (\<lambda>contentPath.
      bindIO (getContentList t contentPath) (\<lambda>(customContent, rhContentIDs).
      let customContentIDs = map cd_Id customContent; contentIDs = customContentIDs @ rhContentIDs in
      bindIO (forIO (\<lambda>item. cpIO TaskCtx (cp_CreateContent cp (ut_orgId t) item)) customContent) (\<lambda>_.
      bindIO (cpIO TaskCtx (cp_AddContentBatchToProduct cp (ut_orgId t) customContentIDs)) (\<lambda>_.
      bindIO (renameEnvironmentIfNeeded t env) (\<lambda>env.
      let contentToPromote = difference contentIDs (en_ContentIds env); contentToDemote = difference (en_ContentIds env) contentIDs in
      bindIO (whenIO (length contentToPromote \<noteq> 0) (cpIO TaskCtx (cp_PromoteContentToEnvironment cp (ut_TemplateUUID t) contentToPromote))) (\<lambda>_.
      bindIO (whenIO (length contentToDemote \<noteq> 0) (cpIO TaskCtx (cp_DemoteContentFromEnvironment cp (ut_TemplateUUID t) contentToDemote))) (\<lambda>_.
      bindIO (GenOverrideDTO t contentPath) (\<lambda>overrideDtos.
      bindIO (RemoveUneededOverrides cp TaskCtx (tp_UUID (ut_template t)) overrideDtos) (\<lambda>_.
      cpIO TaskCtx (cp_UpdateContentOverrides cp (ut_TemplateUUID t) overrideDtos))))))))))))))"

section \<open>The handler\<close>

definition no_uuids :: "string \<Rightarrow> string \<Rightarrow> go_error" where
  "no_uuids what templateUUID = Other (''update template content: no repository config UUIDs '' @ what @ templateUUID)"

text \<open>
  \<open>task\<close> has the organisation, the payload and the parameters; the template and the domains are looked
  up. First what is done when the template and the domains are known.
\<close>

definition update_content :: "'p UpdateTemplateContent \<Rightarrow> (unit, ('p, 'x) db_world_scheme) io" where
  "update_content t =
     bindIO (prepareTriggeredUpdate t) (\<lambda>(skip, t).
       if skip then returnIO ()
       else if length (ut_RepoConfigUUIDs t) = 0 then failIO (no_uuids ''available for template '' (ut_TemplateUUID t))
       else
         bindIO (UpdateLastError TaskCtx (tp_OrgID (ut_template t)) (tp_UUID (ut_template t)) '''') (\<lambda>_.
         bindIO (RunEnvironmentCreate t) (\<lambda>env.
         bindIO (RunPulp t) (\<lambda>_.
         RunCandlepin t env))))"

definition UpdateTemplateContentHandler ::
  "'p UpdateTemplateContent \<Rightarrow> (string \<Rightarrow> 'p pulpDaoImpl) \<Rightarrow> (unit, ('p, 'x) db_world_scheme) io" where
  "UpdateTemplateContentHandler task newClient =
     bindIO (lookupTemplate (ut_daoReg task) TaskCtx (ut_orgId task) (ut_TemplateUUID task)) (\<lambda>found.
       case found of
         None \<Rightarrow> returnIO ()
       | Some template \<Rightarrow>
           if ut_TriggeredByRepositoryUUID task = None \<and> length (ut_RepoConfigUUIDs task) = 0
           then failIO (no_uuids ''in task payload (template '' (ut_TemplateUUID task @ '')''))
           else
             bindIO (Domain_Fetch TaskCtx (ut_orgId task)) (\<lambda>domain.
             bindIO (Domain_Fetch TaskCtx RedHatOrg) (\<lambda>rhDomain.
             bindIO (Domain_Fetch TaskCtx CommunityOrg) (\<lambda>communityDomain.
             update_content (task\<lparr>ut_template := template, ut_domainName := domain, ut_rhDomainName := rhDomain,
               ut_communityDomainName := communityDomain, ut_pulpClient := newClient domain\<rparr>)))))"

end
