(* ===== verification/UpdateTemplateContentProps.thy ===== *)
theory UpdateTemplateContentProps
  imports UpdateTemplateContent ContentFrame SnapshotDaoProps ContentDemo
begin

text \<open>
  What a run of the task leaves: the associations of the template after Pulp was updated, and what
  becomes of a template whose only repository is a partner's that has no published snapshot left.
\<close>

section \<open>What is read\<close>

lemma convert_fields [simp]:
  "tp_UUID (templatesConvertToResponse (t, rs)) = t_UUID t"
  "tp_OrgID (templatesConvertToResponse (t, rs)) = t_OrgID t"
  "tp_UseLatest (templatesConvertToResponse (t, rs)) = t_UseLatest t"
  "tp_RepositoryUUIDS (templatesConvertToResponse (t, rs)) = map trc_RepositoryConfigurationUUID rs"
  "\<not> da_Valid (tp_DeletedAt (templatesConvertToResponse (t, rs)))"
  by (simp_all add: templatesConvertToResponse_def templatesModelToApi_def template_AfterFind_def)

context db_frame begin

lemma step_lookup [frame_keeps]: "keeps R (lookupTemplate reg ctx orgID u)"
  unfolding lookupTemplate_def by (auto intro!: frame_keeps simp del: returnIO_apply)

lemma step_prepare [frame_keeps]: "keeps R (prepareTriggeredUpdate t)"
  unfolding prepareTriggeredUpdate_def Let_def
  by (auto intro!: frame_keeps simp del: returnIO_apply split: option.split)

end

lemma Template_Fetch_success:
  assumes "Template_Fetch reg ctx orgID u d w = (Inr template, w')"
  shows "\<exists>row. find (\<lambda>t. t_UUID t = u \<and> t_OrgID t = orgID \<and> (d \<or> \<not> template_deleted t)) (tw_templates w) = Some row \<and>
    template = templatesConvertToResponse (row, trcs_of d w row)"
  using assms unfolding Template_Fetch_def template_fetch_def
  by (auto elim!: bindIO_successE queryIO_success simp: same_tables_def trcs_of_def to_responses_def)

lemma lookupTemplate_success:
  assumes "lookupTemplate reg ctx orgID u w = (Inr found, w')"
  shows "\<exists>row. find (\<lambda>t. t_UUID t = u \<and> t_OrgID t = orgID \<and> \<not> template_deleted t) (tw_templates w) = Some row \<and>
    found = Some (templatesConvertToResponse (row, trcs_of False w row))"
proof -
  obtain t1 w1 where f: "Template_Fetch reg ctx orgID u True w = (Inr t1, w1)"
    and rest: "(if da_Valid (tp_DeletedAt t1) then returnIO None
       else bindIO (Template_Fetch reg ctx orgID u False) (\<lambda>template. returnIO (Some template))) w1 = (Inr found, w')"
    using assms unfolding lookupTemplate_def by (elim bindIO_successE)
  have "\<not> da_Valid (tp_DeletedAt t1)" using Template_Fetch_success [OF f] by auto
  with rest obtain t2 where f2: "Template_Fetch reg ctx orgID u False w1 = (Inr t2, w')" "found = Some t2" by (auto elim!: bindIO_successE)
  have "same_rows w w1" using rows.run [OF rows.step_template_Fetch f] .
  with Template_Fetch_success [OF f2(1)] f2(2) show ?thesis by (simp add: same_rows_def same_tables_def trcs_of_def)
qed


lemma FetchWithoutOrgID_success:
  assumes "FetchWithoutOrgID ctx u False w = (Inr repo, w')"
  obtains c where "find (\<lambda>c. co_UUID c = u \<and> \<not> co_Deleted c) (tw_configs w) = Some c" "repo = ModelToApiFields w' c"
  using assms unfolding FetchWithoutOrgID_def by (auto elim!: queryIO_success simp: same_tables_def)

lemma HasPublishedSnapshot_success:
  "HasPublishedSnapshot ctx u w = (Inr b, w') \<Longrightarrow> b \<longleftrightarrow> list_ex (published_snapshot u) (tw_snapshots w)"
  by (auto simp: HasPublishedSnapshot_def same_tables_def list_ex_iff filter_empty_conv elim!: queryIO_success)

section \<open>A template with one repository\<close>

definition withdrawn :: "string \<Rightarrow> template_row \<Rightarrow> ('p, 'x) db_world_scheme \<Rightarrow> bool" where
  "withdrawn r row w \<longleftrightarrow> (\<exists>c. find (\<lambda>c. co_UUID c = r \<and> \<not> co_Deleted c) (tw_configs w) = Some c \<and> co_Partner c \<and>
     (t_UseLatest row \<or> co_OrgID c \<noteq> t_OrgID row)) \<and> \<not> list_ex (published_snapshot r) (tw_snapshots w)"

lemma prepare_withdrawn:
  assumes "prepareTriggeredUpdate t w = (Inr (skip, t'), w')" "ut_TriggeredByRepositoryUUID t = Some r" "withdrawn r row w"
    "ut_template t = templatesConvertToResponse (row, rs)" "map trc_RepositoryConfigurationUUID rs = [r]"
  shows "\<not> skip \<and> ut_RepoConfigUUIDs t' = []"
proof -
  obtain repo w1 where f: "FetchWithoutOrgID TaskCtx r False w = (Inr repo, w1)"
    and rest: "(if \<not> re_Partner repo then
              failIO (Other (''repository '' @ r @ '' triggered partner template reconciliation but is not a partner repository''))
            else
              bindIO (wrapIO (''error checking published snapshots for repository '' @ r) (HasPublishedSnapshot TaskCtx r)) (\<lambda>hasPublishedSnapshot.
              let template = ut_template t; t = t\<lparr>ut_RepoConfigUUIDs := tp_RepositoryUUIDS template\<rparr> in
              if r \<notin> set (ut_RepoConfigUUIDs t) then returnIO (False, t)
              else if hasPublishedSnapshot then returnIO (tp_UseLatest template, t)
              else if \<not> tp_UseLatest template \<and> re_OrgID repo = tp_OrgID template then returnIO (False, t)
              else
                (let desired = filter (\<lambda>x. x \<noteq> r) (ut_RepoConfigUUIDs t) in
                 returnIO (False, t\<lparr>ut_RepoConfigUUIDs := desired, ut_template := template\<lparr>tp_RepositoryUUIDS := desired\<rparr>\<rparr>)))) w1 =
      (Inr (skip, t'), w')"
    using assms(1,2) unfolding prepareTriggeredUpdate_def by (auto elim!: bindIO_successE simp del: returnIO_apply)
  from f assms(3) have repo: "re_Partner repo" "t_UseLatest row \<or> re_OrgID repo \<noteq> t_OrgID row"
    by (auto elim!: FetchWithoutOrgID_success simp: withdrawn_def)
  have "same_rows w w1" using rows.run [OF rows.step_WithoutOrgID f] .
  then have "\<not> list_ex (published_snapshot r) (tw_snapshots w1)" using assms(3) by (simp add: withdrawn_def same_rows_def same_tables_def)
  then have hp: "\<not> b" if "HasPublishedSnapshot TaskCtx r w1 = (Inr b, w2)" for b w2 using HasPublishedSnapshot_success [OF that] by simp
  have tmpl: "tp_RepositoryUUIDS (ut_template t) = [r]" "tp_UseLatest (ut_template t) = t_UseLatest row" "tp_OrgID (ut_template t) = t_OrgID row"
    using assms(4,5) by simp_all
  from rest repo tmpl show ?thesis
    by (auto simp: Let_def simp del: returnIO_apply elim!: bindIO_successE dest!: hp) (auto split: if_splits)
qed

text \<open>Steps that read and then fail.\<close>

definition only_fails :: "('a, ('p, 'x) db_world_scheme) io \<Rightarrow> ('p, 'x) db_world_scheme \<Rightarrow> bool" where
  "only_fails m w \<longleftrightarrow> untouched w (snd (m w)) \<and> (\<exists>e. fst (m w) = Inl e)"

lemma only_fails_bind:
  assumes "keeps untouched m" "\<And>a w1. m w = (Inr a, w1) \<Longrightarrow> only_fails (k a) w1"
  shows "only_fails (bindIO m k) w"
proof -
  obtain r w1 where m: "m w = (r, w1)" by (cases "m w")
  have w1: "untouched w w1" using untouched.run [OF assms(1) m] .
  show ?thesis
  proof (cases r)
    case (Inl e)
    with m w1 show ?thesis by (simp add: only_fails_def bindIO_def)
  next
    case (Inr a)
    with m assms(2) have "only_fails (k a) w1" by blast
    with m w1 Inr show ?thesis using transpE [OF untouched.transitive w1] by (auto simp: only_fails_def bindIO_def)
  qed
qed

lemma only_fails_fail: "only_fails (failIO e) w"
  using reflpD [OF untouched.reflexive] by (simp add: only_fails_def)

lemma withdrawn_rows: "same_rows w w' \<Longrightarrow> withdrawn r row w \<Longrightarrow> withdrawn r row w'"
  by (simp add: withdrawn_def same_rows_def same_tables_def)

lemma update_content_withdrawn:
  assumes "ut_TriggeredByRepositoryUUID t = Some r" "withdrawn r row w"
    "ut_template t = templatesConvertToResponse (row, rs)" "map trc_RepositoryConfigurationUUID rs = [r]"
  shows "only_fails (update_content t) w"
  unfolding update_content_def
  by (intro only_fails_bind frame_keeps) (auto dest!: prepare_withdrawn [OF _ assms] intro: only_fails_fail split: prod.split)

section \<open>Associations\<close>

lemma upsert1_mem:
  assumes "r' \<in> set (upsert1 f rows new)" "\<And>old. same_trc new old \<Longrightarrow> same_trc new (f new old)"
  shows "same_trc new r' \<and> (r' = new \<or> (\<exists>old\<in>set rows. r' = f new old)) \<or> r' \<in> set rows \<and> \<not> same_trc new r'"
  using assms by (auto simp: upsert1_def update_where_def list_ex_iff same_trc_def split: if_splits)

text \<open>A statement that sets the snapshot: every row has that of the new row it belongs to, or was there before.\<close>

definition set_snapshot :: "trc_row \<Rightarrow> trc_row \<Rightarrow> trc_row" where
  "set_snapshot new old = old\<lparr>trc_SnapshotUUID := trc_SnapshotUUID new\<rparr>"

lemma upsert_snapshot_mem:
  assumes "r' \<in> set (foldl (upsert1 set_snapshot) rows news)"
  shows "(\<exists>n\<in>set news. same_trc n r' \<and> trc_SnapshotUUID r' = trc_SnapshotUUID n) \<or> r' \<in> set rows \<and> (\<forall>n\<in>set news. \<not> same_trc n r')"
  using assms
proof (induction news arbitrary: rows)
  case (Cons n news)
  from Cons.IH [of "upsert1 set_snapshot rows n"] Cons.prems
  consider "\<exists>n\<in>set news. same_trc n r' \<and> trc_SnapshotUUID r' = trc_SnapshotUUID n"
    | "r' \<in> set (upsert1 set_snapshot rows n)" "\<forall>n\<in>set news. \<not> same_trc n r'" by auto
  then show ?case
  proof cases
    case 2
    from upsert1_mem [OF 2(1)] have "same_trc n r' \<and> trc_SnapshotUUID r' = trc_SnapshotUUID n \<or> r' \<in> set rows \<and> \<not> same_trc n r'"
      by (auto simp: set_snapshot_def same_trc_def)
    with 2(2) show ?thesis by auto
  qed auto
qed simp

text \<open>Whatever is set, the rows belong to the same templates and repositories as before, or to the new ones.\<close>

lemma upsert_keys:
  assumes "r' \<in> set (foldl (upsert1 f) rows news)" "\<And>new old. same_trc old (f new old)"
  shows "\<exists>r\<in>set rows \<union> set news. same_trc r r'"
  using assms(1)
proof (induction news arbitrary: rows)
  case (Cons n news)
  from Cons.IH [of "upsert1 f rows n"] Cons.prems obtain r where r: "r \<in> set (upsert1 f rows n) \<union> set news" "same_trc r r'" by auto
  show ?case
  proof (cases "r \<in> set news")
    case False
    with r(1) have "r \<in> set (upsert1 f rows n)" by blast
    then have "(\<exists>r0\<in>set rows. same_trc r0 r) \<or> r = n"
      using assms(2) by (fastforce simp: upsert1_def update_where_def same_trc_def split: if_splits)
    with r(2) show ?thesis by (auto simp: same_trc_def)
  qed (use r in auto)
qed (auto simp: same_trc_def)

lemma upsert_success:
  assumes "upsert ctx f news w = (Inr u, w')"
  obtains w1 where "same_rows w w1" "w' = w1\<lparr>tw_trcs := foldl (upsert1 f) (tw_trcs w1) news\<rparr>"
proof -
  have "news \<noteq> []" and d: "dbIO ctx (\<lambda>w.
          if \<not> distinct (map trc_RepositoryConfigurationUUID news) then
            (Inl (Other ''ON CONFLICT DO UPDATE command cannot affect row a second time''), w)
          else if \<not> list_all (trc_references_exist w) news then (Inl (Other ''violates foreign key constraint''), w)
          else (Inr (), w\<lparr>tw_trcs := foldl (upsert1 f) (tw_trcs w) news\<rparr>)) w = (Inr u, w')"
    using assms unfolding upsert_def by (auto split: if_splits)
  from d show thesis by (rule rows.dbIO_run) (auto intro!: that split: if_splits)
qed

lemma trc_rows_mem:
  assumes "r \<in> set (trc_rows t repos snaps href)"
  shows "trc_TemplateUUID r = t \<and> trc_RepositoryConfigurationUUID r \<in> set repos \<and>
    (\<exists>s. snapshot_for snaps (trc_RepositoryConfigurationUUID r) = Some s \<and> trc_SnapshotUUID r = sn_UUID s)"
  using assms by (auto simp: trc_rows_def List.map_filter_def split: option.splits)

lemma trc_rows_all:
  assumes "missing_snapshots repos snaps = []" "rc \<in> set repos"
  shows "\<exists>r\<in>set (trc_rows t repos snaps href). trc_TemplateUUID r = t \<and> trc_RepositoryConfigurationUUID r = rc"
proof -
  from assms obtain s where "snapshot_for snaps rc = Some s" by (auto simp: missing_snapshots_def filter_empty_conv)
  with assms(2) show ?thesis by (force simp: trc_rows_def List.map_filter_def)
qed

lemma UpdateSnapshots_success:
  assumes "UpdateSnapshots ctx t repos snaps w = (Inr u, w')" "repos \<noteq> []"
  obtains w1 where "missing_snapshots repos snaps = []" "same_rows w w1"
    "w' = w1\<lparr>tw_trcs := foldl (upsert1 set_snapshot) (tw_trcs w1) (trc_rows t repos snaps (\<lambda>_. Some ''''))\<rparr>"
proof -
  have miss: "missing_snapshots repos snaps = []" using assms(1) by (auto simp: UpdateSnapshots_def Let_def split: if_splits)
  then have "trc_rows t repos snaps (\<lambda>_. Some '''') \<noteq> []" using trc_rows_all [OF miss, of "hd repos" t "\<lambda>_. Some []"] assms(2) by auto
  with assms(1) miss have "upsert ctx set_snapshot (trc_rows t repos snaps (\<lambda>_. Some '''')) w = (Inr u, w')"
    by (simp add: UpdateSnapshots_def Let_def set_snapshot_def [abs_def])
  with miss that show thesis by (auto elim: upsert_success)
qed

lemma UpdateHrefs_success:
  assumes "UpdateDistributionHrefs ctx t repos snaps hrefs w = (Inr u, w')"
  obtains w1 where "same_rows w w1" "tw_snapshots w' = tw_snapshots w1"
    "\<And>r'. r' \<in> set (tw_trcs w') \<Longrightarrow> (\<exists>r\<in>set (tw_trcs w1). same_trc r r') \<or> trc_TemplateUUID r' = t \<and> trc_RepositoryConfigurationUUID r' \<in> set repos"
proof -
  let ?f = "\<lambda>new old. old\<lparr>trc_DistributionHref := trc_DistributionHref new\<rparr>"
  obtain news where "upsert ctx ?f news w = (Inr u, w')" and news: "\<And>r. r \<in> set news \<Longrightarrow> trc_TemplateUUID r = t \<and> trc_RepositoryConfigurationUUID r \<in> set repos"
    using assms unfolding UpdateDistributionHrefs_def Let_def by (auto split: if_splits dest: trc_rows_mem)
  from this(1) obtain w1 where w1: "same_rows w w1" "w' = w1\<lparr>tw_trcs := foldl (upsert1 ?f) (tw_trcs w1) news\<rparr>" by (rule upsert_success)
  have "(\<exists>r\<in>set (tw_trcs w1). same_trc r r') \<or> trc_TemplateUUID r' = t \<and> trc_RepositoryConfigurationUUID r' \<in> set repos"
    if "r' \<in> set (tw_trcs w')" for r'
  proof -
    from that w1(2) have "r' \<in> set (foldl (upsert1 ?f) (tw_trcs w1) news)" by simp
    then have "\<exists>r\<in>set (tw_trcs w1) \<union> set news. same_trc r r'" by (rule upsert_keys) (simp add: same_trc_def)
    then obtain r where "r \<in> set (tw_trcs w1) \<union> set news" "same_trc r r'" by blast
    then show ?thesis using news [of r] by (auto simp: same_trc_def)
  qed
  with w1 show thesis by (intro that [of w1]) auto
qed

context content_frame begin

lemma step_client_for [frame_keeps]: "keeps R (client_for_repo t repo)"
  unfolding client_for_repo_def by (intro frame_keeps)

lemma step_added [frame_keeps]: "keeps R (handleReposAdded t rs snaps hrefs)"
  by (induction rs arbitrary: hrefs) (auto intro!: frame_keeps simp del: returnIO_apply split: option.split prod.split)

lemma step_unchanged [frame_keeps]: "keeps R (handleReposUnchanged t rs snaps hrefs)"
  by (induction rs arbitrary: hrefs) (auto intro!: frame_keeps simp del: returnIO_apply split: option.split prod.split)

lemma step_removed [frame_keeps]: "keeps R (handleReposRemoved t rs)"
  by (induction rs) (auto intro!: frame_keeps simp del: returnIO_apply split: option.split)

end

lemma DeleteTemplateRepoConfigs_success:
  assumes "DeleteTemplateRepoConfigs ctx t keep w = (Inr u, w')"
  obtains w1 where "same_rows w w1" "w' = w1\<lparr>tw_trcs := delete_where (not_kept t keep) (tw_trcs w1)\<rparr>"
  using assms unfolding DeleteTemplateRepoConfigs_def execIO_def by (auto elim: rows.dbIO_run)

lemma GetRepoChanges_success:
  assumes "GetRepoChanges ctx t asked w = (Inr (added, removed, unchanged, allRepos), w')"
  shows "same_tables w w'" "tw_clock w' = tw_clock w" "tw_reads w' = tw_reads w"
    "set allRepos = trc_RepositoryConfigurationUUID ` {r \<in> set (tw_trcs w). trc_TemplateUUID r = t}"
    "set removed = trc_RepositoryConfigurationUUID ` {r \<in> set (tw_trcs w). trc_TemplateUUID r = t \<and> trc_RepositoryConfigurationUUID r \<notin> set asked}"
    "set unchanged \<union> set added = trc_RepositoryConfigurationUUID ` {r \<in> set (tw_trcs w). trc_TemplateUUID r = t \<and> trc_RepositoryConfigurationUUID r \<in> set asked}"
proof -
  let ?blank = "\<lambda>r. trc_DistributionHref r = None \<or> trc_DistributionHref r = Some ''''"
  let ?f = "\<lambda>P. trc_RepositoryConfigurationUUID ` {r \<in> set (tw_trcs w). trc_TemplateUUID r = t \<and> P r}"
  have *: "same_tables w w' \<and> tw_clock w' = tw_clock w \<and> tw_reads w' = tw_reads w \<and>
      set added = ?f (\<lambda>r. ?blank r \<and> trc_RepositoryConfigurationUUID r \<in> set asked) \<and>
      set removed = ?f (\<lambda>r. trc_RepositoryConfigurationUUID r \<notin> set asked) \<and>
      set unchanged = ?f (\<lambda>r. \<not> ?blank r \<and> trc_RepositoryConfigurationUUID r \<in> set asked) \<and> set allRepos = ?f (\<lambda>_. True)"
    using assms unfolding GetRepoChanges_def by (auto elim!: queryIO_success simp: Let_def same_tables_def simp del: not_None_eq)
  then show "same_tables w w'" "tw_clock w' = tw_clock w" "tw_reads w' = tw_reads w"
    "set allRepos = trc_RepositoryConfigurationUUID ` {r \<in> set (tw_trcs w). trc_TemplateUUID r = t}"
    "set removed = ?f (\<lambda>r. trc_RepositoryConfigurationUUID r \<notin> set asked)" by simp_all
  have "set unchanged \<union> set added = ?f (\<lambda>r. \<not> ?blank r \<and> trc_RepositoryConfigurationUUID r \<in> set asked) \<union> ?f (\<lambda>r. ?blank r \<and> trc_RepositoryConfigurationUUID r \<in> set asked)"
    using * by simp
  also have "\<dots> = ?f (\<lambda>r. trc_RepositoryConfigurationUUID r \<in> set asked)" unfolding image_Un [symmetric] by (rule arg_cong [of _ _ "image _"]) blast
  finally show "set unchanged \<union> set added = ?f (\<lambda>r. trc_RepositoryConfigurationUUID r \<in> set asked)" .
qed

text \<open>After the rows of the removed repositories are gone, the template has rows of the asked ones only.\<close>

lemma removal_leaves_asked:
  fixes w :: "('p, 'x) db_world_scheme"
  assumes changes: "GetRepoChanges ctx t asked w = (Inr (added, removed, unchanged, allRepos), w1)" and w2: "same_rows w1 w2"
    and run: "whenIO (removed \<noteq> []) (bindIO (handleReposRemoved tk removed) (\<lambda>_. wrapIO msg (DeleteTemplateRepoConfigs TaskCtx t (unchanged @ added)))) w2 = (Inr u, w3)"
    and present: "asked \<noteq> []" "\<And>rc. rc \<in> set asked \<Longrightarrow> \<exists>r\<in>set (tw_trcs w). trc_TemplateUUID r = t \<and> trc_RepositoryConfigurationUUID r = rc"
    and r: "r \<in> set (tw_trcs w3)" "trc_TemplateUUID r = t"
  shows "trc_RepositoryConfigurationUUID r \<in> set asked"
proof -
  let ?rows = "filter (\<lambda>r. trc_TemplateUUID r = t) (tw_trcs w)"
  have ch: "set removed = trc_RepositoryConfigurationUUID ` {r \<in> set ?rows. trc_RepositoryConfigurationUUID r \<notin> set asked}"
    "set (unchanged @ added) = trc_RepositoryConfigurationUUID ` {r \<in> set ?rows. trc_RepositoryConfigurationUUID r \<in> set asked}"
    "same_tables w w1"
    using GetRepoChanges_success [OF changes] by auto
  then have w2': "tw_trcs w2 = tw_trcs w" using w2 by (simp add: same_rows_def same_tables_def)
  show ?thesis
  proof (cases "removed = []")
    case True
    with run have "w3 = w2" by simp
    with r w2' ch(1) True show ?thesis by auto
  next
    case False
    with run obtain w4 w5 v where h: "handleReposRemoved tk removed w2 = (Inr v, w4)" and w5: "same_rows w4 w5"
      "w3 = w5\<lparr>tw_trcs := delete_where (not_kept t (unchanged @ added)) (tw_trcs w5)\<rparr>"
      by (auto elim!: bindIO_successE DeleteTemplateRepoConfigs_success)
    have "r \<in> set (tw_trcs w)" "\<not> not_kept t (unchanged @ added) r"
      using r(1) w5 rows.run [OF rows.step_removed h] w2' by (auto simp: delete_where_def same_rows_def same_tables_def)
    moreover have "unchanged @ added \<noteq> []" using present(2) [of "hd asked"] present(1) ch(2) by force
    ultimately have "trc_RepositoryConfigurationUUID r \<in> set (unchanged @ added)" using r(2) by (auto simp: not_kept_def)
    then show ?thesis unfolding ch(2) by fastforce
  qed
qed


lemma upsert_has:
  assumes "\<And>new old. same_trc old (f new old)" "n \<in> set news \<or> (\<exists>r\<in>set rows. same_trc n r)"
  shows "\<exists>r\<in>set (foldl (upsert1 f) rows news). same_trc n r"
  using assms(2)
proof (induction news arbitrary: rows)
  case (Cons new news)
  have old: "\<exists>r\<in>set (upsert1 f rows new). same_trc n r" if "r \<in> set rows" "same_trc n r" for r
  proof (rule bexI)
    show "(if list_ex (same_trc new) rows \<and> same_trc new r then f new r else r) \<in> set (upsert1 f rows new)"
      using that(1) by (auto simp: upsert1_def update_where_def)
  qed (use that(2) assms(1) [of r new] in \<open>auto simp: same_trc_def\<close>)
  have "\<exists>r\<in>set (upsert1 f rows new). same_trc new r"
  proof (cases "\<exists>r\<in>set rows. same_trc new r")
    case True
    then obtain r where "r \<in> set rows" "same_trc new r" by blast
    then show ?thesis using assms(1) [of r new] by (auto simp: upsert1_def update_where_def same_trc_def list_ex_iff)
  qed (auto simp: upsert1_def list_ex_iff same_trc_def)
  with old Cons.prems have "n \<in> set news \<or> (\<exists>r\<in>set (upsert1 f rows new). same_trc n r)" by auto
  then show ?case using Cons.IH by simp
qed simp

section \<open>The snapshots that are chosen\<close>

lemma find_filter: "find P xs = Some x \<Longrightarrow> \<exists>ys. filter P xs = x # ys"
  by (induction xs) (auto split: if_splits)

lemma snapshot_for_by_date:
  assumes "distinct (map sn_UUID (tw_snapshots w))" "snapshot_for (snapshots_by_date org repos date w) rc = Some s"
  shows "rc \<in> set repos \<and> chosen_for date rc (candidates org [rc] w) = Some s"
proof -
  obtain ss where "filter (\<lambda>s. sn_RepositoryConfigurationUUID s = rc) (snapshots_by_date org repos date w) = s # ss"
    using find_filter [OF assms(2) [unfolded snapshot_for_def]] by blast
  with snapshots_by_date_eq [OF assms(1), of rc org repos date] have c: "chosen_for date rc (candidates org repos w) = Some s"
    by (auto split: option.splits)
  then have "rc \<in> set repos" using chosen_forD by (fastforce simp: candidates_def)
  with c chosen_for_candidates show ?thesis by metis
qed

section \<open>A run\<close>

text \<open>The date of a run: that of the template, or the time at which it starts.\<close>

definition content_date :: "'p UpdateTemplateContent \<Rightarrow> ('p, 'x) db_world_scheme \<Rightarrow> timestamp" where
  "content_date t w = (if tp_UseLatest (ut_template t) then tw_clock w (tw_reads w) else date_of (tp_Date (ut_template t)))"

text \<open>The steps of a run, as far as the rows go.\<close>

lemma RunPulp_steps:
  fixes w :: "('p, 'x) db_world_scheme"
  assumes "RunPulp t w = (Inr (), w')" "ut_RepoConfigUUIDs t \<noteq> []"
  obtains added removed unchanged allRepos w1 w2 u w3 w4 w5 w6 where
    "GetRepoChanges TaskCtx (ut_TemplateUUID t) (ut_RepoConfigUUIDs t) w = (Inr (added, removed, unchanged, allRepos), w1)" "same_rows w1 w2"
    "whenIO (removed \<noteq> []) (bindIO (handleReposRemoved t removed) (\<lambda>_.
       wrapIO ''error in DeleteTemplateRepoConfigs'' (DeleteTemplateRepoConfigs TaskCtx (ut_TemplateUUID t) (unchanged @ added)))) w2 = (Inr u, w3)"
    "same_rows w3 w4" "tw_snapshots w5 = tw_snapshots w4"
    "\<And>r'. r' \<in> set (tw_trcs w5) \<Longrightarrow> (\<exists>r\<in>set (tw_trcs w4). same_trc r r') \<or>
       trc_TemplateUUID r' = ut_TemplateUUID t \<and> trc_RepositoryConfigurationUUID r' \<in> set (ut_RepoConfigUUIDs t)"
    "same_rows w5 w6"
    "missing_snapshots (ut_RepoConfigUUIDs t) (snapshots_by_date (ut_orgId t) allRepos (content_date t w) w) = []"
    "w' = w6\<lparr>tw_trcs := foldl (upsert1 set_snapshot) (tw_trcs w6)
       (trc_rows (ut_TemplateUUID t) (ut_RepoConfigUUIDs t) (snapshots_by_date (ut_orgId t) allRepos (content_date t w) w) (\<lambda>_. Some ''''))\<rparr>"
proof -
  let ?T = "ut_TemplateUUID t" and ?asked = "ut_RepoConfigUUIDs t"
  obtain added removed unchanged allRepos w1 date wa snaps wb hrefs w2 u w3 hrefs' w3' u' w4' where
    ch: "GetRepoChanges TaskCtx ?T ?asked w = (Inr (added, removed, unchanged, allRepos), w1)"
    and date: "template_date (tp_UseLatest (ut_template t)) (tp_Date (ut_template t)) w1 = (Inr date, wa)"
    and snaps: "FetchSnapshotsModelByDateAndRepository TaskCtx (ut_orgId t) allRepos date wa = (Inr snaps, wb)"
    and add: "handleReposAdded t added snaps Map.empty wb = (Inr hrefs, w2)"
    and del: "whenIO (removed \<noteq> []) (bindIO (handleReposRemoved t removed) (\<lambda>_.
       wrapIO ''error in DeleteTemplateRepoConfigs'' (DeleteTemplateRepoConfigs TaskCtx ?T (unchanged @ added)))) w2 = (Inr u, w3)"
    and unch: "handleReposUnchanged t unchanged snaps hrefs w3 = (Inr hrefs', w3')"
    and hr: "UpdateDistributionHrefs TaskCtx ?T ?asked snaps hrefs' w3' = (Inr u', w4')"
    and up: "UpdateSnapshots TaskCtx ?T ?asked snaps w4' = (Inr (), w')"
    using assms unfolding RunPulp_def by (auto elim!: bindIO_prod_successE bindIO_successE simp del: whenIO_def)
  have tables: "same_tables w w1" "tw_clock w1 = tw_clock w" "tw_reads w1 = tw_reads w" using GetRepoChanges_success [OF ch] by simp_all
  have "date = content_date t w" "same_tables w1 wa" "same_rows w1 wa"
    using date tables by (auto simp: template_date_def Now_def content_date_def same_tables_def same_rows_def split: if_splits)
  moreover have "snaps = snapshots_by_date (ut_orgId t) allRepos date wa"
    using snaps by (auto simp: FetchSnapshotsModelByDateAndRepository_def snapshots_by_date_rows elim!: queryIO_success)
  ultimately have eq: "snaps = snapshots_by_date (ut_orgId t) allRepos (content_date t w) w"
    using tables snapshots_by_date_rows by metis
  have w2: "same_rows w1 w2"
    using \<open>same_rows w1 wa\<close> rows.run [OF rows.step_reads(4) snaps] rows.run [OF rows.step_added add]
    by (blast intro: transpE [OF rows.transitive])
  have w3': "same_rows w3 w3'" using rows.run [OF rows.step_unchanged unch] .
  obtain wc where wc: "same_rows w3' wc" "tw_snapshots w4' = tw_snapshots wc"
    "\<And>r'. r' \<in> set (tw_trcs w4') \<Longrightarrow> (\<exists>r\<in>set (tw_trcs wc). same_trc r r') \<or> trc_TemplateUUID r' = ?T \<and> trc_RepositoryConfigurationUUID r' \<in> set ?asked"
    using hr by (rule UpdateHrefs_success) blast
  obtain w6 where w6: "missing_snapshots ?asked snaps = []" "same_rows w4' w6"
    "w' = w6\<lparr>tw_trcs := foldl (upsert1 set_snapshot) (tw_trcs w6) (trc_rows ?T ?asked snaps (\<lambda>_. Some ''''))\<rparr>"
    using up assms(2) by (rule UpdateSnapshots_success) blast
  have "same_rows w3 wc" using w3' wc(1) by (blast intro: transpE [OF rows.transitive])
  from that [OF ch w2 del this wc(2,3) w6(2)] w6(1,3) eq show thesis by simp
qed

text \<open>Before the last statement the template has rows of the asked repositories only, all of which it had at the start.\<close>

lemma RunPulp_success:
  fixes w :: "('p, 'x) db_world_scheme"
  assumes run: "RunPulp t w = (Inr (), w')" and asked: "ut_RepoConfigUUIDs t \<noteq> []" and uuids: "distinct (map sn_UUID (tw_snapshots w))"
  obtains allRepos w6 where
    "missing_snapshots (ut_RepoConfigUUIDs t) (snapshots_by_date (ut_orgId t) allRepos (content_date t w) w) = []"
    "\<And>r. r \<in> set (tw_trcs w6) \<Longrightarrow> trc_TemplateUUID r = ut_TemplateUUID t \<Longrightarrow> trc_RepositoryConfigurationUUID r \<in> set (ut_RepoConfigUUIDs t)"
    "w' = w6\<lparr>tw_trcs := foldl (upsert1 set_snapshot) (tw_trcs w6)
       (trc_rows (ut_TemplateUUID t) (ut_RepoConfigUUIDs t) (snapshots_by_date (ut_orgId t) allRepos (content_date t w) w) (\<lambda>_. Some ''''))\<rparr>"
  using run asked
proof (rule RunPulp_steps)
  fix added removed unchanged allRepos w1 w2 u w3 w4 w5 w6
  let ?T = "ut_TemplateUUID t" and ?asked = "ut_RepoConfigUUIDs t"
  let ?snaps = "snapshots_by_date (ut_orgId t) allRepos (content_date t w) w"
  assume ch: "GetRepoChanges TaskCtx ?T ?asked w = (Inr (added, removed, unchanged, allRepos), w1)" and w2: "same_rows w1 w2"
    and del: "whenIO (removed \<noteq> []) (bindIO (handleReposRemoved t removed) (\<lambda>_.
       wrapIO ''error in DeleteTemplateRepoConfigs'' (DeleteTemplateRepoConfigs TaskCtx ?T (unchanged @ added)))) w2 = (Inr u, w3)"
    and w4: "same_rows w3 w4"
    and w5: "\<And>r'. r' \<in> set (tw_trcs w5) \<Longrightarrow> (\<exists>r\<in>set (tw_trcs w4). same_trc r r') \<or> trc_TemplateUUID r' = ?T \<and> trc_RepositoryConfigurationUUID r' \<in> set ?asked"
    and w6: "same_rows w5 w6" and missing: "missing_snapshots ?asked ?snaps = []"
    and w': "w' = w6\<lparr>tw_trcs := foldl (upsert1 set_snapshot) (tw_trcs w6) (trc_rows ?T ?asked ?snaps (\<lambda>_. Some ''''))\<rparr>"
  have present: "\<exists>r\<in>set (tw_trcs w). trc_TemplateUUID r = ?T \<and> trc_RepositoryConfigurationUUID r = rc" if "rc \<in> set ?asked" for rc
  proof -
    from missing that obtain s where "snapshot_for ?snaps rc = Some s" by (auto simp: missing_snapshots_def filter_empty_conv)
    with snapshot_for_by_date [OF uuids] have "rc \<in> set allRepos" by blast
    then show ?thesis unfolding GetRepoChanges_success(4) [OF ch] by blast
  qed
  have "trc_RepositoryConfigurationUUID r \<in> set ?asked" if "r \<in> set (tw_trcs w6)" "trc_TemplateUUID r = ?T" for r
  proof -
    have "r \<in> set (tw_trcs w5)" using that(1) w6 by (simp add: same_rows_def same_tables_def)
    from w5 [OF this] show ?thesis
    proof
      assume "\<exists>r'\<in>set (tw_trcs w4). same_trc r' r"
      then obtain r' where "r' \<in> set (tw_trcs w3)" "same_trc r' r" using w4 by (auto simp: same_rows_def same_tables_def)
      with removal_leaves_asked [OF ch w2 del asked present, of r'] that(2) show ?thesis by (simp add: same_trc_def)
    qed simp
  qed
  from that [OF missing this w'] show thesis by blast
qed

text \<open>The rows of a template after the last statement.\<close>

lemma set_snapshots_rows:
  fixes t rows repos snaps
  defines "news \<equiv> trc_rows t repos snaps (\<lambda>_. Some '''')"
  assumes missing: "missing_snapshots repos snaps = []"
    and only: "\<And>r. r \<in> set rows \<Longrightarrow> trc_TemplateUUID r = t \<Longrightarrow> trc_RepositoryConfigurationUUID r \<in> set repos"
  shows "trc_RepositoryConfigurationUUID ` {r \<in> set (foldl (upsert1 set_snapshot) rows news). trc_TemplateUUID r = t} = set repos"
    "r \<in> set (foldl (upsert1 set_snapshot) rows news) \<Longrightarrow> trc_TemplateUUID r = t \<Longrightarrow>
      \<exists>s. snapshot_for snaps (trc_RepositoryConfigurationUUID r) = Some s \<and> trc_SnapshotUUID r = sn_UUID s"
proof -
  let ?rows = "foldl (upsert1 set_snapshot) rows news"
  have all: "\<exists>n\<in>set news. trc_TemplateUUID n = t \<and> trc_RepositoryConfigurationUUID n = rc" if "rc \<in> set repos" for rc
    using trc_rows_all [OF missing that] unfolding news_def by blast
  have row: "\<exists>n\<in>set news. same_trc n r \<and> trc_SnapshotUUID r = trc_SnapshotUUID n" if "r \<in> set ?rows" "trc_TemplateUUID r = t" for r
    using upsert_snapshot_mem [OF that(1)] only [of r] that(2) all [of "trc_RepositoryConfigurationUUID r"] by (auto simp: same_trc_def)
  have new: "trc_RepositoryConfigurationUUID n \<in> set repos \<and>
      (\<exists>s. snapshot_for snaps (trc_RepositoryConfigurationUUID n) = Some s \<and> trc_SnapshotUUID n = sn_UUID s)" if "n \<in> set news" for n
    using trc_rows_mem that unfolding news_def by blast
  have "\<exists>r\<in>set ?rows. same_trc n r" if "n \<in> set news" for n
    by (rule upsert_has) (use that in \<open>simp_all add: set_snapshot_def same_trc_def\<close>)
  then have "set repos \<subseteq> trc_RepositoryConfigurationUUID ` {r \<in> set ?rows. trc_TemplateUUID r = t}"
    using all by (fastforce simp: same_trc_def)
  then show "trc_RepositoryConfigurationUUID ` {r \<in> set ?rows. trc_TemplateUUID r = t} = set repos"
    using row new by (fastforce simp: same_trc_def)
  show "\<exists>s. snapshot_for snaps (trc_RepositoryConfigurationUUID r) = Some s \<and> trc_SnapshotUUID r = sn_UUID s"
    if "r \<in> set ?rows" "trc_TemplateUUID r = t" using row [OF that] new by (fastforce simp: same_trc_def)
qed

section \<open>A concrete task\<close>

text \<open>A Candlepin that does what it is asked and remembers nothing.\<close>

definition demo_candlepin :: "'p CandlepinClient" where
  "demo_candlepin = \<lparr>cp_CreateProduct = (\<lambda>_ p. (Inr (), p)), cp_CreatePool = (\<lambda>_ p. (Inr ''pool'', p)),
     cp_CreateContent = (\<lambda>_ _ p. (Inr (), p)), cp_AddContentBatchToProduct = (\<lambda>_ _ p. (Inr (), p)),
     cp_FetchContentsByLabel = (\<lambda>_ labels p. (Inr (map Some labels), p)), cp_FetchEnvironment = (\<lambda>_ p. (Inr None, p)),
     cp_CreateEnvironment = (\<lambda>_ name _ _ p. (Inr \<lparr>en_Name = Some name, en_ContentIds = []\<rparr>, p)),
     cp_RenameEnvironment = (\<lambda>_ name p. (Inr \<lparr>en_Name = Some name, en_ContentIds = []\<rparr>, p)), cp_DeleteEnvironment = (\<lambda>_ p. (Inr (), p)),
     cp_PromoteContentToEnvironment = (\<lambda>_ _ p. (Inr (), p)), cp_DemoteContentFromEnvironment = (\<lambda>_ _ p. (Inr (), p)),
     cp_FetchContentOverrides = (\<lambda>_ p. (Inr [], p)), cp_RemoveContentOverrides = (\<lambda>_ _ p. (Inr (), p)),
     cp_UpdateContentOverrides = (\<lambda>_ _ p. (Inr (), p)), cp_RemoveContentFromProduct = (\<lambda>_ _ p. (Inr (), p)),
     cp_DeleteContent = (\<lambda>_ _ p. (Inr (), p))\<rparr>"

definition demo_urls :: url_settings where
  "demo_urls = \<lparr>us_ExternalURL = ''https://example.com'', us_FullRootPath = ''/api'', us_JoinPath = (\<lambda>base parts. Inr (Join (base # parts) ''/''))\<rparr>"

definition demo_update :: "demo_pulp UpdateTemplateContent" where
  "demo_update = \<lparr>ut_orgId = ''acme'', ut_domainName = ''cs-1'', ut_rhDomainName = ''rh'', ut_communityDomainName = ''community'',
     ut_template = templatesModelToApi demo_template, ut_TemplateUUID = ''t1'', ut_RepoConfigUUIDs = [''r1''], ut_TriggeredByRepositoryUUID = None,
     ut_daoReg = demo_registry, ut_pulpClient = demo_client, ut_cpClient = demo_candlepin, ut_urls = demo_urls\<rparr>"

text \<open>A vendor's repository in another organisation's template, whose distribution is in place; its snapshots are no longer published.\<close>

definition withdrawn_world :: "demo_pulp db_world" where
  "withdrawn_world = demo_content\<lparr>tw_configs := [demo_repo_config\<lparr>co_OrgID := ''vendor'', co_Partner := True\<rparr>], tw_trcs := [demo_trc ''s1''],
     tw_domains := [(''acme'', ''cs-1''), (RedHatOrg, ''rh''), (CommunityOrg, ''community'')],
     pw_pulp := ([\<lparr>di_PulpHref = Some (dist_href ''t1''), di_Name = ''t1/r1'', di_BasePath = ''templates/t1/r1'', di_ContentGuard = None, di_Publication = Some ''ps1'', di_PublicationIsSet = True\<rparr>], [''vs1''])\<rparr>"

section \<open>Properties\<close>

text \<open>
  C31. After the step on Pulp has succeeded, the associations of the template are with exactly the
  repositories the task was given, and each has the snapshot of the template's date, or the newest
  one if the template uses the latest.
\<close>

theorem template_content_follows_request:
  assumes run: "RunPulp t w = (Inr (), w')" and asked: "ut_RepoConfigUUIDs t \<noteq> []" and uuids: "distinct (map sn_UUID (tw_snapshots w))"
  shows "trc_RepositoryConfigurationUUID ` {r \<in> set (tw_trcs w'). trc_TemplateUUID r = ut_TemplateUUID t} = set (ut_RepoConfigUUIDs t) \<and>
    (\<forall>r\<in>set (tw_trcs w'). trc_TemplateUUID r = ut_TemplateUUID t \<longrightarrow>
      (\<exists>s. chosen_for (content_date t w) (trc_RepositoryConfigurationUUID r)
             (candidates (ut_orgId t) [trc_RepositoryConfigurationUUID r] w) = Some s \<and>
        trc_SnapshotUUID r = sn_UUID s))"
proof (rule RunPulp_success [OF run asked uuids])
  fix allRepos w6
  let ?snaps = "snapshots_by_date (ut_orgId t) allRepos (content_date t w) w"
  assume missing: "missing_snapshots (ut_RepoConfigUUIDs t) ?snaps = []"
    and only: "\<And>r. r \<in> set (tw_trcs w6) \<Longrightarrow> trc_TemplateUUID r = ut_TemplateUUID t \<Longrightarrow> trc_RepositoryConfigurationUUID r \<in> set (ut_RepoConfigUUIDs t)"
    and w': "w' = w6\<lparr>tw_trcs := foldl (upsert1 set_snapshot) (tw_trcs w6) (trc_rows (ut_TemplateUUID t) (ut_RepoConfigUUIDs t) ?snaps (\<lambda>_. Some ''''))\<rparr>"
  from set_snapshots_rows [OF missing, of "tw_trcs w6" "ut_TemplateUUID t", OF only] snapshot_for_by_date [OF uuids]
  show ?thesis unfolding w' by simp blast
qed

theorem template_content_follows_request_witness:
  "map trc_SnapshotUUID (tw_trcs demo_content) = [''s2''] \<and>
   trc_SnapshotUUID ` {r \<in> set (tw_trcs (snd (RunPulp demo_update demo_content))). trc_TemplateUUID r = ''t1''} = {''s1''}"
proof -
  let ?run = "RunPulp demo_update demo_content"
  have "fst ?run = Inr ()" by code_simp
  then have run: "?run = (Inr (), snd ?run)" by (cases ?run) auto
  have "distinct (map sn_UUID (tw_snapshots demo_content))" by code_simp
  from template_content_follows_request [OF run _ this]
  have *: "trc_RepositoryConfigurationUUID ` {r \<in> set (tw_trcs (snd ?run)). trc_TemplateUUID r = ''t1''} = {''r1''}"
    "\<And>r. r \<in> set (tw_trcs (snd ?run)) \<Longrightarrow> trc_TemplateUUID r = ''t1'' \<Longrightarrow>
      \<exists>s. chosen_for (content_date demo_update demo_content) (trc_RepositoryConfigurationUUID r)
        (candidates ''acme'' [trc_RepositoryConfigurationUUID r] demo_content) = Some s \<and> trc_SnapshotUUID r = sn_UUID s"
    by (simp_all add: demo_update_def)
  have only: "map_option sn_UUID (chosen_for (content_date demo_update demo_content) ''r1'' (candidates ''acme'' [''r1''] demo_content)) = Some ''s1''"
    by code_simp
  have "trc_SnapshotUUID r = ''s1''" if "r \<in> set (tw_trcs (snd ?run))" "trc_TemplateUUID r = ''t1''" for r
  proof -
    have "trc_RepositoryConfigurationUUID r = ''r1''" using *(1) that by blast
    with *(2) [OF that] show ?thesis using only by auto
  qed
  moreover obtain r where "r \<in> set (tw_trcs (snd ?run))" "trc_TemplateUUID r = ''t1''" using *(1) by blast
  ultimately have "trc_SnapshotUUID ` {r \<in> set (tw_trcs (snd ?run)). trc_TemplateUUID r = ''t1''} = {''s1''}"
    by (intro equalityI subsetI) (auto intro: rev_image_eqI)
  moreover have "map trc_SnapshotUUID (tw_trcs demo_content) = [''s2'']" by (simp add: demo_content_def demo_trc_def)
  ultimately show ?thesis by (rule conjI [rotated])
qed

text \<open>
  C32. A template whose only repository is a partner's that has no published snapshot left: the update
  that the withdrawal triggers fails before it touches Pulp, so that the template goes on serving the
  withdrawn content.
\<close>

theorem withdrawn_repository_stays_served:
  assumes run: "UpdateTemplateContentHandler task newClient w = (res, w')"
    and trigger: "ut_TriggeredByRepositoryUUID task = Some r"
    and row: "find (\<lambda>t. t_UUID t = ut_TemplateUUID task \<and> t_OrgID t = ut_orgId task \<and> \<not> template_deleted t) (tw_templates w) = Some row"
    and only: "map trc_RepositoryConfigurationUUID (trcs_of False w row) = [r]"
    and unpublished: "withdrawn r row w"
  shows "(\<exists>e. res = Inl e) \<and> tw_trcs w' = tw_trcs w \<and> pw_pulp w' = pw_pulp w"
proof -
  have "only_fails (UpdateTemplateContentHandler task newClient) w"
    unfolding UpdateTemplateContentHandler_def
  proof (intro only_fails_bind frame_keeps)
    fix found w1 assume l: "lookupTemplate (ut_daoReg task) TaskCtx (ut_orgId task) (ut_TemplateUUID task) w = (Inr found, w1)"
    have found: "found = Some (templatesConvertToResponse (row, trcs_of False w row))" using lookupTemplate_success [OF l] row by simp
    have w1: "withdrawn r row w1" using withdrawn_rows [OF rows.run [OF rows.step_lookup l] unpublished] .
    have "only_fails (update_content (task\<lparr>ut_template := templatesConvertToResponse (row, trcs_of False w row), ut_domainName := domain,
        ut_rhDomainName := rh, ut_communityDomainName := community, ut_pulpClient := newClient domain\<rparr>)) w4"
      if "Domain_Fetch TaskCtx (ut_orgId task) w1 = (Inr domain, w2)" "Domain_Fetch TaskCtx RedHatOrg w2 = (Inr rh, w3)"
        "Domain_Fetch TaskCtx CommunityOrg w3 = (Inr community, w4)" for domain rh community w2 w3 w4
    proof (rule update_content_withdrawn [OF _ _ _ only])
      show "withdrawn r row w4"
        using w1 that [THEN rows.run [OF rows.step_reads(5)], THEN withdrawn_rows] by blast
    qed (simp_all add: trigger)
    then show "only_fails (case found of None \<Rightarrow> returnIO () | Some template \<Rightarrow>
        if ut_TriggeredByRepositoryUUID task = None \<and> length (ut_RepoConfigUUIDs task) = 0
        then failIO (no_uuids ''in task payload (template '' (ut_TemplateUUID task @ '')''))
        else
          bindIO (Domain_Fetch TaskCtx (ut_orgId task)) (\<lambda>domain.
          bindIO (Domain_Fetch TaskCtx RedHatOrg) (\<lambda>rhDomain.
          bindIO (Domain_Fetch TaskCtx CommunityOrg) (\<lambda>communityDomain.
          update_content (task\<lparr>ut_template := template, ut_domainName := domain, ut_rhDomainName := rhDomain,
            ut_communityDomainName := communityDomain, ut_pulpClient := newClient domain\<rparr>))))) w1"
      using found trigger by (auto intro!: only_fails_bind frame_keeps)
  qed
  with run show ?thesis by (simp add: only_fails_def untouched_def same_rows_def same_tables_def)
qed

theorem withdrawn_repository_stays_served_witness:
  "let task = demo_update\<lparr>ut_TriggeredByRepositoryUUID := Some ''r1''\<rparr>;
       (res, w') = UpdateTemplateContentHandler task (\<lambda>_. demo_client) withdrawn_world
   in map_sum error_text id res = Inl ''update template content: no repository config UUIDs available for template t1'' \<and>
      pw_pulp w' = pw_pulp withdrawn_world"
proof -
  let ?task = "demo_update\<lparr>ut_TriggeredByRepositoryUUID := Some ''r1''\<rparr>"
  let ?run = "UpdateTemplateContentHandler ?task (\<lambda>_. demo_client) withdrawn_world"
  have msg: "map_sum error_text id (fst ?run) = Inl ''update template content: no repository config UUIDs available for template t1''" by code_simp
  have w: "withdrawn ''r1'' demo_template withdrawn_world"
    by (simp add: withdrawn_def withdrawn_world_def demo_repo_config_def demo_content_def demo_snapshot_def demo_template_def published_snapshot_def)
  have row: "find (\<lambda>t. t_UUID t = ut_TemplateUUID ?task \<and> t_OrgID t = ut_orgId ?task \<and> \<not> template_deleted t) (tw_templates withdrawn_world) = Some demo_template"
    by (simp add: withdrawn_world_def demo_content_def demo_update_def demo_template_def empty_template_def)
  have only: "map trc_RepositoryConfigurationUUID (trcs_of False withdrawn_world demo_template) = [''r1'']" by code_simp
  have "pw_pulp (snd ?run) = pw_pulp withdrawn_world"
    using withdrawn_repository_stays_served [OF prod.collapse [symmetric] _ row only w] by simp
  with msg show ?thesis by (simp add: Let_def split_beta)
qed

end
