(* ===== verification/UpdateLatestSnapshot.thy ===== *)
theory UpdateLatestSnapshot
  imports ContentQueue TemplatePaths DeleteSnapshots
begin

text \<open>
  The two tasks that follow a new or a newly published snapshot: the one that gives it to the templates
  that use the latest snapshot (\<open>pkg/tasks/update_latest_snapshot.go\<close>), and the one that opens or closes
  the snapshot's own distribution and the repository's latest one
  (\<open>pkg/tasks/update_snapshot_published.go\<close>). Events are left out.
\<close>

section \<open>Templates with the latest snapshot\<close>

text \<open>\<open>ul_task\<close> is the row of the task and what a child takes from it; it is missing without a queue.\<close>

record parent_task =
  pt_Id :: nat
  pt_AccountId :: string
  pt_RequestID :: string

record 'p UpdateLatestSnapshot =
  ul_orgID :: string
  ul_RepositoryConfigUUID :: string
  ul_domainName :: string
  ul_rhDomainName :: string
  ul_communityDomainName :: string
  ul_daoReg :: DaoRegistry
  ul_pulpClient :: "'p pulpDaoImpl"
  ul_task :: "parent_task option"

definition enqueueTemplateRemovalTask :: "parent_task \<Rightarrow> string \<Rightarrow> TemplateResponse \<Rightarrow> (unit, 'p queue_world) io" where
  "enqueueTemplateRemovalTask parent repoUUID template =
     bindIO (wrapIO (''error enqueueing template cleanup for template '' @ tp_UUID template) (enqueueTask
       \<lparr>ct_Payload = UpdateTemplateContentPayload (tp_UUID template) [] (Some repoUUID), ct_Dependencies = [pt_Id parent],
        ct_OrgId = tp_OrgID template, ct_AccountId = pt_AccountId parent, ct_ObjectUUID = tp_UUID template,
        ct_ObjectType = ObjectTypeTemplate, ct_RequestID = pt_RequestID parent\<rparr>)) (\<lambda>_. returnIO ())"

definition enqueueTemplateRemovalTasks ::
  "'p UpdateLatestSnapshot \<Rightarrow> string \<Rightarrow> TemplateResponse list \<Rightarrow> (unit, 'p queue_world) io" where
  "enqueueTemplateRemovalTasks t repoUUID templates =
     (case ul_task t of
        None \<Rightarrow> failIO (Other ''cannot enqueue template cleanup tasks without queue and parent task metadata'')
      | Some parent \<Rightarrow> forIO (enqueueTemplateRemovalTask parent repoUUID) templates)"

definition configurePulpClientForRepo ::
  "'p UpdateLatestSnapshot \<Rightarrow> RepositoryResponse \<Rightarrow> ('p pulpDaoImpl, ('p, 'x) db_world_scheme) io" where
  "configurePulpClientForRepo t repo =
     bindIO (repositoryDomain TaskCtx repo (ul_orgID t) (ul_domainName t) (ul_rhDomainName t) (ul_communityDomainName t)) (\<lambda>domain.
     returnIO (WithDomain (ul_pulpClient t) domain))"

definition updateLatestSnapshot ::
  "'p pulpDaoImpl \<Rightarrow> RepositoryResponse \<Rightarrow> TemplateResponse \<Rightarrow> Snapshot \<Rightarrow> (unit, ('p, 'x) db_world_scheme) io" where
  "updateLatestSnapshot pulp repo template snap =
     bindIO (resultIO (getDistPathAndName repo (tp_UUID template))) (\<lambda>(distPath, distName).
     bindIO (CreateOrUpdateTemplateDistribution pulp TaskCtx repo snap (tp_OrgID template) distName distPath) (\<lambda>_.
     bindIO (FindDistributionByPath pulp TaskCtx distPath) (\<lambda>distResp.
     bindIO (deref distResp) (\<lambda>dist.
     bindIO (deref (di_PulpHref dist)) (\<lambda>href.
     bindIO (UpdateDistributionHrefs TaskCtx (tp_UUID template) [re_UUID repo] [snap] [re_UUID repo \<mapsto> href]) (\<lambda>_.
     UpdateSnapshots TaskCtx (tp_UUID template) [re_UUID repo] [snap]))))))"

text \<open>An error of a template is recorded with it and ends the task.\<close>

definition update_template ::
  "'p UpdateLatestSnapshot \<Rightarrow> RepositoryResponse \<Rightarrow> Snapshot \<Rightarrow> TemplateResponse \<Rightarrow> (unit, ('p, 'x) db_world_scheme) io" where
  "update_template t repo snap template =
     bindIO (configurePulpClientForRepo t repo) (\<lambda>pulp.
     handleIO (updateLatestSnapshot pulp repo template snap) (\<lambda>err.
       bindIO (UpdateLastError TaskCtx (tp_OrgID template) (tp_UUID template) (error_text err)) (\<lambda>_. failIO err)))"

definition templates_with_latest ::
  "'p UpdateLatestSnapshot \<Rightarrow> RepositoryResponse \<Rightarrow> (TemplateResponse list, ('p, 'x) db_world_scheme) io" where
  "templates_with_latest t repo =
     (if ul_orgID t = RedHatOrg \<or> ul_orgID t = CommunityOrg \<or> re_Partner repo
      then InternalOnlyGetTemplatesForRepoConfig (ul_daoReg t) TaskCtx (ul_RepositoryConfigUUID t) True
      else
        bindIO (Template_List (ul_daoReg t) TaskCtx (ul_orgID t) False
          (no_filter\<lparr>tf_UseLatest := True, tf_RepositoryUUIDs := [ul_RepositoryConfigUUID t]\<rparr>)) (\<lambda>(templates, _). returnIO templates))"

definition update_templates ::
  "'p UpdateLatestSnapshot \<Rightarrow> RepositoryResponse \<Rightarrow> TemplateResponse list \<Rightarrow> (unit, ('p, 'x) db_world_scheme) io" where
  "update_templates t repo templates =
     bindIO (FetchLatestSnapshotForDistribution TaskCtx (re_UUID repo)) (\<lambda>snap.
     forIO (update_template t repo snap) templates)"

definition UpdateLatestSnapshot_Run :: "'p UpdateLatestSnapshot \<Rightarrow> (unit, 'p queue_world) io" where
  "UpdateLatestSnapshot_Run t =
     bindIO (FetchWithoutOrgID TaskCtx (ul_RepositoryConfigUUID t) False) (\<lambda>repo.
     bindIO (templates_with_latest t repo) (\<lambda>templates.
       if re_Partner repo then
         bindIO (wrapIO (''error checking published snapshots for repository '' @ re_UUID repo) (HasPublishedSnapshot TaskCtx (re_UUID repo)))
           (\<lambda>hasPublishedSnapshot.
           if \<not> hasPublishedSnapshot then enqueueTemplateRemovalTasks t (re_UUID repo) templates
           else update_templates t repo templates)
       else update_templates t repo templates))"

definition UpdateLatestSnapshotHandler :: "'p UpdateLatestSnapshot \<Rightarrow> (string \<Rightarrow> 'p pulpDaoImpl) \<Rightarrow> (unit, 'p queue_world) io" where
  "UpdateLatestSnapshotHandler task newClient =
     bindIO (Domain_Fetch TaskCtx (ul_orgID task)) (\<lambda>domain.
     bindIO (Domain_Fetch TaskCtx RedHatOrg) (\<lambda>rhDomain.
     bindIO (Domain_Fetch TaskCtx CommunityOrg) (\<lambda>communityDomain.
     UpdateLatestSnapshot_Run (task\<lparr>ul_domainName := domain, ul_rhDomainName := rhDomain, ul_communityDomainName := communityDomain,
       ul_pulpClient := newClient domain\<rparr>))))"

section \<open>A published snapshot\<close>

record 'p UpdateSnapshotPublished =
  up_orgID :: string
  up_SnapshotUUID :: string
  up_Published :: bool
  up_pulpClient :: "'p pulpDaoImpl"

text \<open>\<open>GetPulpHref\<close>: a nil href reads as the blank string. A creation that succeeds always answers a task.\<close>

definition GetPulpHref :: "DistributionResponse \<Rightarrow> string" where
  "GetPulpHref dist = (case di_PulpHref dist of None \<Rightarrow> '''' | Some href \<Rightarrow> href)"

definition retargetLatestDistribution :: "'p pulpDaoImpl \<Rightarrow> string \<Rightarrow> (unit, ('p, 'x) db_world_scheme) io" where
  "retargetLatestDistribution pulp repoConfigUUID =
     (let latestPath = GetLatestRepoDistPath repoConfigUUID in
      bindIO (wrapIO (''error fetching latest distribution for repo config '' @ repoConfigUUID) (FindDistributionByPath pulp TaskCtx latestPath)) (\<lambda>dist.
      caseIO (FetchLatestSnapshotForDistribution TaskCtx repoConfigUUID)
        (\<lambda>err.
          if \<not> errors_Is err ErrRecordNotFound then failIO (Wrap (''error fetching latest snapshot for repo config '' @ repoConfigUUID) err)
          else
            (case dist of
               None \<Rightarrow> returnIO ()
             | Some d \<Rightarrow>
                 delete_polled pulp (''error deleting latest distribution for repo config '' @ repoConfigUUID)
                   ''error polling latest distribution deletion task'' (GetPulpHref d)))
        (\<lambda>latestSnap.
          case dist of
            None \<Rightarrow>
              bindIO (wrapIO (''error creating latest distribution for repo config '' @ repoConfigUUID)
                (CreateRpmDistribution pulp TaskCtx (sn_PublicationHref latestSnap) repoConfigUUID latestPath None)) (\<lambda>taskHref.
              bindIO (wrapIO ''error polling latest distribution creation task'' (PollTask pulp TaskCtx taskHref)) (\<lambda>_. returnIO ()))
          | Some d \<Rightarrow>
              bindIO (wrapIO ''error updating latest distribution''
                (UpdateRpmDistribution pulp TaskCtx (GetPulpHref d) (sn_PublicationHref latestSnap) (di_Name d) (di_BasePath d) None)) (\<lambda>taskHref.
              bindIO (wrapIO ''error polling latest distribution update task'' (PollTask pulp TaskCtx taskHref)) (\<lambda>_. returnIO ())))))"

definition UpdateSnapshotPublished_Run :: "'p UpdateSnapshotPublished \<Rightarrow> (unit, ('p, 'x) db_world_scheme) io" where
  "UpdateSnapshotPublished_Run t =
     (let pulp = up_pulpClient t; uuid = up_SnapshotUUID t in
      bindIO (wrapIO (''error fetching snapshot '' @ uuid) (Snapshot_FetchModel TaskCtx uuid False)) (\<lambda>snap.
      bindIO (wrapIO (''error fetching distribution for snapshot '' @ uuid) (FindDistributionByPath pulp TaskCtx (sn_DistributionPath snap))) (\<lambda>dist.
        case dist of
          None \<Rightarrow> failIO (Other (''distribution not found for snapshot '' @ uuid @ '' at path '' @ sn_DistributionPath snap))
        | Some d \<Rightarrow>
            bindIO (if up_Published t then returnIO None
              else wrapIO (''error fetching content guard for org '' @ up_orgID t) (FetchContentGuard pulp TaskCtx (up_orgID t) '''')) (\<lambda>contentGuardHref.
            bindIO (wrapIO ''error updating distribution content guard''
              (UpdateRpmDistribution pulp TaskCtx (GetPulpHref d) (sn_PublicationHref snap) (di_Name d) (di_BasePath d) contentGuardHref)) (\<lambda>taskHref.
            bindIO (wrapIO ''error polling distribution update task'' (PollTask pulp TaskCtx taskHref)) (\<lambda>_.
            retargetLatestDistribution pulp (sn_RepositoryConfigurationUUID snap)))))))"

definition UpdateSnapshotPublishedHandler ::
  "'p UpdateSnapshotPublished \<Rightarrow> (string \<Rightarrow> 'p pulpDaoImpl) \<Rightarrow> (unit, ('p, 'x) db_world_scheme) io" where
  "UpdateSnapshotPublishedHandler task newClient =
     bindIO (wrapIO (''error fetching domain for org '' @ up_orgID task) (Domain_Fetch TaskCtx (up_orgID task))) (\<lambda>domain.
     UpdateSnapshotPublished_Run (task\<lparr>up_pulpClient := newClient domain\<rparr>))"

end
