(* ===== verification/UpdateLatestSnapshotProps.thy ===== *)
theory UpdateLatestSnapshotProps
  imports UpdateLatestSnapshot UpdateTemplateContentProps
begin

text \<open>
  What the templates with the latest snapshot have after the task that follows a new snapshot, and
  which tasks follow when a partner's repository has no published snapshot left.
\<close>

section \<open>Associations of one template\<close>

lemma upsert_other:
  assumes "r' \<in> set (foldl (upsert1 f) rows news)" "\<And>new old. same_trc old (f new old)"
  shows "(\<exists>n\<in>set news. same_trc n r') \<or> r' \<in> set rows"
  using assms(1)
proof (induction news arbitrary: rows)
  case (Cons n news)
  from Cons.IH [of "upsert1 f rows n"] Cons.prems consider "\<exists>n\<in>set news. same_trc n r'" | "r' \<in> set (upsert1 f rows n)" by auto
  then show ?case
  proof cases
    case 2
    have "same_trc n (f n old)" if "same_trc n old" for old using that assms(2) [of old n] by (simp add: same_trc_def)
    from upsert1_mem [OF 2 this] show ?thesis by auto
  qed auto
qed simp

text \<open>
  The rows with a key in \<open>K\<close> are as \<open>P\<close> says; the others are those that were there, and none is lost.
  Templates, configurations, snapshots and domains are the same.
\<close>

definition trc_key :: "trc_row \<Rightarrow> string \<times> string" where
  "trc_key r = (trc_TemplateUUID r, trc_RepositoryConfigurationUUID r)"

lemma same_trc_key: "same_trc r s \<longleftrightarrow> trc_key r = trc_key s"
  by (auto simp: same_trc_def trc_key_def)

definition other_tables :: "('p, 'x) db_world_scheme \<Rightarrow> ('p, 'x) db_world_scheme \<Rightarrow> bool" where
  "other_tables w w' \<longleftrightarrow> tw_templates w' = tw_templates w \<and> tw_configs w' = tw_configs w \<and> tw_snapshots w' = tw_snapshots w \<and>
     tw_domains w' = tw_domains w"

definition retargeted :: "(string \<times> string) set \<Rightarrow> (trc_row \<Rightarrow> bool) \<Rightarrow> ('p, 'x) db_world_scheme \<Rightarrow> ('p, 'x) db_world_scheme \<Rightarrow> bool" where
  "retargeted K P w w' \<longleftrightarrow>
     (\<forall>r\<in>set (tw_trcs w'). if trc_key r \<in> K then P r else r \<in> set (tw_trcs w)) \<and>
     trc_key ` set (tw_trcs w) \<subseteq> trc_key ` set (tw_trcs w') \<and> other_tables w w'"

lemma retargeted_rows: "same_rows w w' \<Longrightarrow> retargeted {} P w w'"
  by (auto simp: retargeted_def same_rows_def same_tables_def other_tables_def)

lemma retargeted_trans:
  assumes "retargeted K P w w1" "retargeted L P w1 w2"
  shows "retargeted (K \<union> L) P w w2"
proof -
  have "if trc_key r \<in> K \<union> L then P r else r \<in> set (tw_trcs w)" if "r \<in> set (tw_trcs w2)" for r
    using assms that by (cases "trc_key r \<in> L") (auto simp: retargeted_def)
  then show ?thesis using assms subset_trans [of "trc_key ` set (tw_trcs w)" "trc_key ` set (tw_trcs w1)"]
    by (simp add: retargeted_def other_tables_def)
qed

lemma retargeted_again:
  assumes "retargeted K P w w1" "retargeted K Q w1 w2"
  shows "retargeted K Q w w2"
proof -
  have "if trc_key r \<in> K then Q r else r \<in> set (tw_trcs w)" if "r \<in> set (tw_trcs w2)" for r
    using assms that by (cases "trc_key r \<in> K") (auto simp: retargeted_def)
  then show ?thesis using assms subset_trans [of "trc_key ` set (tw_trcs w)" "trc_key ` set (tw_trcs w1)"]
    by (simp add: retargeted_def other_tables_def)
qed

lemma retargeted_after_rows: "same_rows w w1 \<Longrightarrow> retargeted K P w1 w2 \<Longrightarrow> retargeted K P w w2"
  using retargeted_trans [OF retargeted_rows] by fastforce

lemma retargeted_upsert:
  assumes "upsert ctx f news w = (Inr u, w')" "\<And>new old. same_trc old (f new old)"
    and news: "\<And>n. n \<in> set news \<Longrightarrow> trc_key n = k"
    and P: "\<And>rows r. r \<in> set (foldl (upsert1 f) rows news) \<Longrightarrow> trc_key r = k \<Longrightarrow> P r"
  shows "retargeted {k} P w w'"
proof -
  obtain w1 where w1: "same_rows w w1" "w' = w1\<lparr>tw_trcs := foldl (upsert1 f) (tw_trcs w1) news\<rparr>" using assms(1) by (rule upsert_success)
  have other: "r \<in> set (tw_trcs w1)" if "r \<in> set (tw_trcs w')" "trc_key r \<noteq> k" for r
    using upsert_other [OF that(1) [unfolded w1(2), simplified] assms(2)] news that(2) by (auto simp: same_trc_key)
  have "trc_key r \<in> trc_key ` set (tw_trcs w')" if "r \<in> set (tw_trcs w1)" for r
    using upsert_has [of f r news "tw_trcs w1"] assms(2) w1(2) that by (auto simp: same_trc_key)
  with other have "retargeted {k} P w1 w'" using P w1(2) by (auto simp: retargeted_def other_tables_def)
  with w1(1) show ?thesis by (rule retargeted_after_rows)
qed

lemma UpdateHrefs_retargets:
  assumes "UpdateDistributionHrefs ctx t [rc] snaps hrefs w = (Inr u, w')"
  shows "retargeted {(t, rc)} (\<lambda>_. True) w w'"
proof -
  let ?news = "trc_rows t [rc] snaps (\<lambda>repo. Some (case hrefs repo of None \<Rightarrow> '''' | Some href \<Rightarrow> href))"
  have "upsert ctx (\<lambda>new old. old\<lparr>trc_DistributionHref := trc_DistributionHref new\<rparr>) ?news w = (Inr u, w')"
    using assms unfolding UpdateDistributionHrefs_def Let_def by (auto split: if_splits)
  then show ?thesis by (rule retargeted_upsert) (auto simp: same_trc_def trc_key_def dest: trc_rows_mem)
qed

definition has_snapshot :: "Snapshot \<Rightarrow> trc_row \<Rightarrow> bool" where
  "has_snapshot s r \<longleftrightarrow> trc_SnapshotUUID r = sn_UUID s"

lemma UpdateSnapshots_retargets:
  assumes "UpdateSnapshots ctx t [rc] [snap] w = (Inr u, w')"
  shows "retargeted {(t, rc)} (has_snapshot snap) w w'"
proof -
  let ?news = "trc_rows t [rc] [snap] (\<lambda>_. Some '''')"
  have miss: "missing_snapshots [rc] [snap] = []" using assms by (auto simp: UpdateSnapshots_def Let_def split: if_splits)
  have mem: "trc_key n = (t, rc) \<and> has_snapshot snap n" if "n \<in> set ?news" for n
    using trc_rows_mem [OF that] by (auto simp: trc_key_def has_snapshot_def snapshot_for_def split: if_splits)
  obtain n where n: "n \<in> set ?news" "trc_key n = (t, rc)" using trc_rows_all [OF miss, of rc t "\<lambda>_. Some ''''"] by (auto simp: trc_key_def)
  have u: "upsert ctx set_snapshot ?news w = (Inr u, w')"
    using assms miss length_pos_if_in_set [OF n(1)] by (simp add: UpdateSnapshots_def Let_def whenIO_def set_snapshot_def [abs_def])
  show ?thesis
  proof (rule retargeted_upsert [OF u])
    show "has_snapshot snap r" if "r \<in> set (foldl (upsert1 set_snapshot) rows ?news)" "trc_key r = (t, rc)" for rows r
      using upsert_snapshot_mem [OF that(1)] mem n that(2) by (auto simp: same_trc_key has_snapshot_def)
  qed (use mem in \<open>auto simp: set_snapshot_def same_trc_def\<close>)
qed

section \<open>The templates\<close>

lemma rows_run: "keeps same_rows m \<Longrightarrow> m w1 = (r, w2) \<Longrightarrow> same_rows w w1 \<Longrightarrow> same_rows w w2"
  using rows.run transpE [OF same_rows_order(2)] by blast

lemma updateLatestSnapshot_success:
  assumes run: "updateLatestSnapshot pulp repo template snap w = (Inr u, w')"
  shows "retargeted {(tp_UUID template, re_UUID repo)} (has_snapshot snap) w w'"
proof -
  obtain p n wa x wb dr wc dist wd href w1 y w2 where
    a: "resultIO (getDistPathAndName repo (tp_UUID template)) w = (Inr (p, n), wa)"
    and b: "CreateOrUpdateTemplateDistribution pulp TaskCtx repo snap (tp_OrgID template) n p wa = (Inr x, wb)"
    and c: "FindDistributionByPath pulp TaskCtx p wb = (Inr dr, wc)" and d: "deref dr wc = (Inr dist, wd)"
    and e: "deref (di_PulpHref dist) wd = (Inr href, w1)"
    and h: "UpdateDistributionHrefs TaskCtx (tp_UUID template) [re_UUID repo] [snap] [re_UUID repo \<mapsto> href] w1 = (Inr y, w2)"
    and s: "UpdateSnapshots TaskCtx (tp_UUID template) [re_UUID repo] [snap] w2 = (Inr u, w')"
    using run unfolding updateLatestSnapshot_def by (elim bindIO_prod_successE bindIO_successE)
  have k: "keeps same_rows (FindDistributionByPath pulp TaskCtx p)" by (intro frame_keeps)
  have "same_rows w wa" by (rule rows.run [OF rows.step_result a])
  then have "same_rows w wb" by (rule rows_run [OF rows.step_pulp [OF only_pulp_template] b])
  then have "same_rows w wc" by (rule rows_run [OF k c])
  then have "same_rows w w1" by (rule rows_run [OF rows.step_deref e rows_run [OF rows.step_deref d]])
  then show ?thesis
    by (rule retargeted_after_rows [OF _ retargeted_again [OF UpdateHrefs_retargets [OF h] UpdateSnapshots_retargets [OF s]]])
qed

lemma update_template_success:
  assumes "update_template t repo snap template w = (Inr u, w')"
  shows "retargeted {(tp_UUID template, re_UUID repo)} (has_snapshot snap) w w'"
proof -
  obtain pulp w1 where c: "configurePulpClientForRepo t repo w = (Inr pulp, w1)"
    and r: "updateLatestSnapshot pulp repo template snap w1 = (Inr u, w')"
    using assms unfolding update_template_def
    by (auto elim!: bindIO_successE simp: handleIO_def bindIO_def split: prod.splits sum.splits if_splits)
  have "keeps same_rows (configurePulpClientForRepo t repo)" unfolding configurePulpClientForRepo_def by (intro frame_keeps)
  from rows.run [OF this c] have "same_rows w w1" .
  then show ?thesis by (rule retargeted_after_rows [OF _ updateLatestSnapshot_success [OF r]])
qed

lemma update_templates_success:
  assumes "forIO (update_template t repo snap) templates w = (Inr u, w')"
  shows "retargeted ((\<lambda>T. (tp_UUID T, re_UUID repo)) ` set templates) (has_snapshot snap) w w'"
  using assms
proof (induction templates arbitrary: w)
  case Nil
  then show ?case by (simp add: retargeted_rows reflpD [OF same_rows_order(1)])
next
  case (Cons T Ts)
  from Cons.prems obtain w1 v where "update_template t repo snap T w = (Inr v, w1)" and r: "forIO (update_template t repo snap) Ts w1 = (Inr u, w')"
    by (auto elim!: bindIO_successE)
  from retargeted_trans [OF update_template_success [OF this(1)] Cons.IH [OF r]] show ?case by simp
qed

section \<open>The templates that are listed\<close>

text \<open>The templates the task is about: those that use the latest snapshot and have the repository.\<close>

definition follows_latest :: "'p UpdateLatestSnapshot \<Rightarrow> bool \<Rightarrow> ('p, 'x) db_world_scheme \<Rightarrow> template_row \<Rightarrow> bool" where
  "follows_latest t partner w T \<longleftrightarrow> T \<in> set (tw_templates w) \<and> \<not> template_deleted T \<and> t_UseLatest T \<and>
     (ul_orgID t = RedHatOrg \<or> ul_orgID t = CommunityOrg \<or> partner \<or> t_OrgID T = ul_orgID t) \<and>
     (\<exists>r\<in>set (tw_trcs w). trc_key r = (t_UUID T, ul_RepositoryConfigUUID t) \<and> \<not> trc_Deleted r)"

lemma templates_joined_mem:
  "T \<in> set (templates_joined P w) \<longleftrightarrow> T \<in> set (tw_templates w) \<and> \<not> template_deleted T \<and> (\<exists>r\<in>set (tw_trcs w). trc_TemplateUUID r = t_UUID T \<and> P r)"
  by (auto simp: templates_joined_def)

lemma same_templates:
  assumes "same_tables w w'"
  shows "templates_joined P w' = templates_joined P w" "listed_templates orgID d f w' = listed_templates orgID d f w" "trcs_of d w' T = trcs_of d w T"
  using assms by (simp_all add: templates_joined_def listed_templates_def trcs_of_def same_tables_def)

lemma templates_with_latest_success:
  assumes run: "templates_with_latest t repo w = (Inr templates, w')" and T: "follows_latest t (re_Partner repo) w T"
  shows "\<exists>R\<in>set templates. tp_UUID R = t_UUID T \<and> tp_OrgID R = t_OrgID T"
proof -
  obtain r where r: "r \<in> set (tw_trcs w)" "trc_TemplateUUID r = t_UUID T" "trc_RepositoryConfigurationUUID r = ul_RepositoryConfigUUID t" "\<not> trc_Deleted r"
    using T by (auto simp: follows_latest_def trc_key_def)
  have "\<exists>rs. templatesConvertToResponse (T, rs) \<in> set templates"
  proof (cases "ul_orgID t = RedHatOrg \<or> ul_orgID t = CommunityOrg \<or> re_Partner repo")
    case True
    with run have "templates = map (\<lambda>t. templatesConvertToResponse (t, [])) (filter t_UseLatest
         (templates_joined (\<lambda>r. trc_RepositoryConfigurationUUID r = ul_RepositoryConfigUUID t \<and> \<not> trc_Deleted r) w))"
      unfolding templates_with_latest_def InternalOnlyGetTemplatesForRepoConfig_def
      by (auto elim!: bindIO_successE queryIO_success dest!: to_responses_success simp: comp_def same_templates)
    with T r show ?thesis by (auto simp: follows_latest_def templates_joined_mem)
  next
    case False
    let ?f = "no_filter\<lparr>tf_UseLatest := True, tf_RepositoryUUIDs := [ul_RepositoryConfigUUID t]\<rparr>"
    from False run have ts: "templates = map (\<lambda>t. templatesConvertToResponse (t, trcs_of False w t)) (sort_key t_Name (listed_templates (ul_orgID t) False ?f w))"
      unfolding templates_with_latest_def Template_List_def
      by (auto elim!: bindIO_successE queryIO_success dest!: to_responses_success simp: comp_def same_templates)
    have "T \<in> set (listed_templates (ul_orgID t) False ?f w)"
      using T r False
      by (auto simp: listed_templates_def follows_latest_def filteredDbForList_def no_filter_def Let_def list_ex_iff applyVersionFilter_def)
    with ts show ?thesis by force
  qed
  then show ?thesis by force
qed

section \<open>A run\<close>

text \<open>The snapshots of a repository that may be served: a partner's only when they are published.\<close>

definition servable :: "bool \<Rightarrow> string \<Rightarrow> Snapshot \<Rightarrow> bool" where
  "servable partner rc s \<longleftrightarrow> sn_RepositoryConfigurationUUID s = rc \<and> (partner \<longrightarrow> sn_Published s) \<and> \<not> sn_Deleted s"

lemma newest_where_spec:
  "newest_where P ss = Some s \<Longrightarrow> s \<in> set ss \<and> P s \<and> \<not> sn_Deleted s \<and> (\<forall>s'\<in>set ss. P s' \<and> \<not> sn_Deleted s' \<longrightarrow> sn_CreatedAt s' \<le> sn_CreatedAt s)"
proof -
  assume n: "newest_where P ss = Some s"
  have "sn_CreatedAt s' \<le> sn_CreatedAt s" if "s' \<in> set ss" "P s'" "\<not> sn_Deleted s'" for s'
    using newest.pick_least [OF n [unfolded newest_where_def], of s'] that by (simp add: newer_def)
  then show ?thesis using n by (auto simp: newest_where_def dest: pick_filterD)
qed

lemma ForDistribution_success:
  assumes "FetchLatestSnapshotForDistribution ctx rc w = (Inr s, w')" "find (\<lambda>c. co_UUID c = rc \<and> \<not> co_Deleted c) (tw_configs w) = Some c"
  shows "s \<in> set (tw_snapshots w) \<and> servable (co_Partner c) rc s \<and>
    (\<forall>s'\<in>set (tw_snapshots w). servable (co_Partner c) rc s' \<longrightarrow> sn_CreatedAt s' \<le> sn_CreatedAt s)"
proof -
  have "newest_where (\<lambda>s. sn_RepositoryConfigurationUUID s = rc \<and> (co_Partner c \<longrightarrow> sn_Published s)) (tw_snapshots w) = Some s"
    using assms unfolding FetchLatestSnapshotForDistribution_def FetchLatestSnapshotModel_def FetchLatestPublishedSnapshotModel_def
    by (auto elim!: bindIO_successE queryIO_success simp: same_tables_def split: if_splits)
  from newest_where_spec [OF this] show ?thesis by (auto simp: servable_def)
qed

text \<open>The task that takes the repository out of a template.\<close>

definition removal_task :: "parent_task \<Rightarrow> string \<Rightarrow> string \<Rightarrow> string \<Rightarrow> content_task" where
  "removal_task parent rc templateUUID orgID =
     \<lparr>ct_Payload = UpdateTemplateContentPayload templateUUID [] (Some rc), ct_Dependencies = [pt_Id parent],
      ct_OrgId = orgID, ct_AccountId = pt_AccountId parent, ct_ObjectUUID = templateUUID,
      ct_ObjectType = ObjectTypeTemplate, ct_RequestID = pt_RequestID parent\<rparr>"

lemma enqueueTask_success:
  "enqueueTask task w = (Inr n, w') \<Longrightarrow> same_tables w w' \<and> qw_tasks w' = qw_tasks w @ [\<lparr>tk_Task = task, tk_Status = Pending, tk_Retries = False\<rparr>]"
  by (auto simp: enqueueTask_def same_tables_def split: list.splits option.splits)

abbreviation pending :: "content_task \<Rightarrow> task_row" where
  "pending task \<equiv> \<lparr>tk_Task = task, tk_Status = Pending, tk_Retries = False\<rparr>"

lemma enqueue_removal:
  "enqueueTemplateRemovalTask parent rc T w = (Inr u, w') \<Longrightarrow>
   same_tables w w' \<and> qw_tasks w' = qw_tasks w @ [pending (removal_task parent rc (tp_UUID T) (tp_OrgID T))]"
  unfolding enqueueTemplateRemovalTask_def removal_task_def by (auto elim!: bindIO_successE dest!: enqueueTask_success)

lemma enqueue_loop:
  assumes "forIO (enqueueTemplateRemovalTask parent rc) templates w = (Inr u, w')"
  shows "same_tables w w' \<and> qw_tasks w' = qw_tasks w @ map (\<lambda>T. pending (removal_task parent rc (tp_UUID T) (tp_OrgID T))) templates"
  using assms
proof (induction templates arbitrary: w)
  case (Cons T Ts)
  then obtain w1 where "enqueueTemplateRemovalTask parent rc T w = (Inr (), w1)" and "forIO (enqueueTemplateRemovalTask parent rc) Ts w1 = (Inr u, w')"
    by (auto elim!: bindIO_successE)
  with enqueue_removal [OF this(1)] Cons.IH [OF this(2)] show ?case by (simp add: same_tables_def)
qed (simp add: same_tables_def)

lemma enqueue_removals:
  assumes "enqueueTemplateRemovalTasks t rc templates w = (Inr u, w')"
  shows "same_tables w w' \<and> (\<exists>parent. ul_task t = Some parent \<and>
    qw_tasks w' = qw_tasks w @ map (\<lambda>T. pending (removal_task parent rc (tp_UUID T) (tp_OrgID T))) templates)"
  using assms by (auto simp: enqueueTemplateRemovalTasks_def split: option.splits dest!: enqueue_loop)

lemma update_templates_run:
  assumes run: "update_templates t repo templates w1 = (Inr u, w')" and w1: "same_rows w w1"
    and c: "find (\<lambda>c. co_UUID c = re_UUID repo \<and> \<not> co_Deleted c) (tw_configs w) = Some c"
  obtains s where "s \<in> set (tw_snapshots w)" "servable (co_Partner c) (re_UUID repo) s"
    "\<forall>s'\<in>set (tw_snapshots w). servable (co_Partner c) (re_UUID repo) s' \<longrightarrow> sn_CreatedAt s' \<le> sn_CreatedAt s"
    "retargeted ((\<lambda>T. (tp_UUID T, re_UUID repo)) ` set templates) (has_snapshot s) w w'"
proof -
  obtain s w2 where s: "FetchLatestSnapshotForDistribution TaskCtx (re_UUID repo) w1 = (Inr s, w2)"
    and loop: "forIO (update_template t repo s) templates w2 = (Inr u, w')"
    using run unfolding update_templates_def by (elim bindIO_successE)
  have "find (\<lambda>c. co_UUID c = re_UUID repo \<and> \<not> co_Deleted c) (tw_configs w1) = Some c" using c w1 by (simp add: same_rows_def same_tables_def)
  from ForDistribution_success [OF s this] have "s \<in> set (tw_snapshots w) \<and> servable (co_Partner c) (re_UUID repo) s \<and>
      (\<forall>s'\<in>set (tw_snapshots w). servable (co_Partner c) (re_UUID repo) s' \<longrightarrow> sn_CreatedAt s' \<le> sn_CreatedAt s)"
    using w1 by (simp add: same_rows_def same_tables_def)
  moreover have "same_rows w w2" by (rule rows_run [OF rows.step_ForDistribution s w1])
  ultimately show thesis using retargeted_after_rows [OF _ update_templates_success [OF loop]] that by blast
qed

lemma UpdateLatestSnapshot_cases:
  fixes w :: "'p queue_world"
  assumes run: "UpdateLatestSnapshot_Run t w = (Inr u, w')"
  defines "rc \<equiv> ul_RepositoryConfigUUID t"
  obtains repo c templates w3 where "find (\<lambda>c. co_UUID c = rc \<and> \<not> co_Deleted c) (tw_configs w) = Some c" "re_UUID repo = rc" "same_rows w w3"
    "\<And>T. follows_latest t (co_Partner c) w T \<Longrightarrow> \<exists>R\<in>set templates. tp_UUID R = t_UUID T \<and> tp_OrgID R = t_OrgID T"
    "co_Partner c \<and> \<not> list_ex (published_snapshot rc) (tw_snapshots w) \<and> enqueueTemplateRemovalTasks t rc templates w3 = (Inr u, w') \<or>
     update_templates t repo templates w3 = (Inr u, w')"
proof -
  obtain repo w1 templates w2 where f: "FetchWithoutOrgID TaskCtx rc False w = (Inr repo, w1)"
    and l: "templates_with_latest t repo w1 = (Inr templates, w2)"
    and rest: "(if re_Partner repo then
         bindIO (wrapIO (''error checking published snapshots for repository '' @ re_UUID repo) (HasPublishedSnapshot TaskCtx (re_UUID repo)))
           (\<lambda>hasPublishedSnapshot.
           if \<not> hasPublishedSnapshot then enqueueTemplateRemovalTasks t (re_UUID repo) templates
           else update_templates t repo templates)
       else update_templates t repo templates) w2 = (Inr u, w')"
    using run unfolding UpdateLatestSnapshot_Run_def rc_def by (elim bindIO_successE)
  obtain c where c: "find (\<lambda>c. co_UUID c = rc \<and> \<not> co_Deleted c) (tw_configs w) = Some c" and repo: "re_Partner repo = co_Partner c" "re_UUID repo = rc"
    using f by (rule FetchWithoutOrgID_success) (auto dest: find_mem)
  have w1: "same_rows w w1" by (rule rows.run [OF rows.step_WithoutOrgID f])
  have "keeps same_rows (templates_with_latest t repo)"
    unfolding templates_with_latest_def by (auto intro!: frame_keeps simp del: returnIO_apply split: prod.split)
  from rows_run [OF this l w1] have w2: "same_rows w w2" .
  have templates: "\<exists>R\<in>set templates. tp_UUID R = t_UUID T \<and> tp_OrgID R = t_OrgID T" if "follows_latest t (co_Partner c) w T" for T
    using templates_with_latest_success [OF l, of T] that w1 repo by (simp add: follows_latest_def same_rows_def same_tables_def)
  show thesis
  proof (cases "re_Partner repo")
    case True
    with rest obtain b w3 where h: "HasPublishedSnapshot TaskCtx rc w2 = (Inr b, w3)"
      and r: "(if \<not> b then enqueueTemplateRemovalTasks t rc templates else update_templates t repo templates) w3 = (Inr u, w')"
      using repo by (auto elim!: bindIO_successE)
    have w3: "same_rows w w3" by (rule rows_run [OF rows.step_HasPublished h w2])
    have "b \<longleftrightarrow> list_ex (published_snapshot rc) (tw_snapshots w)"
      using HasPublishedSnapshot_success [OF h] w2 by (simp add: same_rows_def same_tables_def)
    with True repo r show thesis using that [OF c repo(2) w3 templates] by (cases b) auto
  next
    case False
    with rest show thesis using that [OF c repo(2) w2 templates] by auto
  qed
qed

lemma retargeted_follower:
  assumes "retargeted K (has_snapshot s) w w'" "k \<in> K" "k \<in> trc_key ` set (tw_trcs w)"
  shows "(\<exists>r\<in>set (tw_trcs w'). trc_key r = k) \<and> (\<forall>r\<in>set (tw_trcs w'). trc_key r = k \<longrightarrow> trc_SnapshotUUID r = sn_UUID s)"
proof
  have "k \<in> trc_key ` set (tw_trcs w')" using assms(1,3) by (auto simp: retargeted_def)
  then show "\<exists>r\<in>set (tw_trcs w'). trc_key r = k" by blast
  show "\<forall>r\<in>set (tw_trcs w'). trc_key r = k \<longrightarrow> trc_SnapshotUUID r = sn_UUID s"
    using assms(1,2) by (auto simp: retargeted_def has_snapshot_def)
qed

section \<open>A concrete run\<close>

text \<open>A template that uses the latest snapshot and has the one of second 10; there is one of second 20.\<close>

definition latest_world :: "demo_pulp queue_world" where
  "latest_world = db_world.extend
     (demo_content\<lparr>tw_snapshots := [demo_snapshot ''s1'' 10000000, demo_snapshot ''s2'' 20000000], tw_trcs := [demo_trc ''s1''],
        tw_templates := [demo_template\<lparr>t_UseLatest := True\<rparr>]\<rparr>)
     \<lparr>qw_tasks = [], qw_answers = []\<rparr>"

definition demo_latest :: "demo_pulp UpdateLatestSnapshot" where
  "demo_latest = \<lparr>ul_orgID = ''acme'', ul_RepositoryConfigUUID = ''r1'', ul_domainName = ''cs-1'', ul_rhDomainName = '''', ul_communityDomainName = '''',
     ul_daoReg = demo_registry, ul_pulpClient = demo_client, ul_task = Some \<lparr>pt_Id = 0, pt_AccountId = '''', pt_RequestID = ''''\<rparr>\<rparr>"

section \<open>Properties\<close>



end
