(* ===== verification/DomainDao.thy ===== *)
theory DomainDao
  imports ContentDB
begin

text \<open>
  The domains of organisations in Pulp (\<open>pkg/dao/domains.go\<close>). A domain gets a random name, and
  two processes may look for the domain of a new organisation at the same time: that they agree
  rests on the unique constraints of the table and on the second look after the insertion.
\<close>

section \<open>Operations\<close>

text \<open>The name of a new domain; \<open>hex\<close> are the ten random digits.\<close>

definition new_domain_name :: "string \<Rightarrow> string \<Rightarrow> string" where
  "new_domain_name hex orgId =
     (if orgId = RedHatOrg then RedHatDomainName else if orgId = CommunityOrg then CommunityDomainName else ''cs-'' @ hex)"

text \<open>\<open>INSERT .. ON CONFLICT (org_id) DO NOTHING\<close>; names of domains are unique too.\<close>

definition name_taken_error :: go_error where
  "name_taken_error = PgError (''duplicate key value violates unique constraint '' @ [CHR 34] @ ''domains_name_unique'' @ [CHR 34])
     ''23505'' ''domains_name_unique''"

definition insert_domain :: "string \<Rightarrow> string \<Rightarrow> (string \<times> string) list \<Rightarrow> unit result \<times> (string \<times> string) list" where
  "insert_domain orgId name domains =
     (if orgId \<in> fst ` set domains then (Inr (), domains)
      else if name \<in> snd ` set domains then (Inl name_taken_error, domains)
      else (Inr (), domains @ [(orgId, name)]))"

definition Domain_Create :: "string \<Rightarrow> ctx \<Rightarrow> string \<Rightarrow> (string, ('p, 'x) db_world_scheme) io" where
  "Domain_Create hex ctx orgId =
     bindIO (dbIO ctx (\<lambda>w. case insert_domain orgId (new_domain_name hex orgId) (tw_domains w) of
       (r, domains) \<Rightarrow> (r, w\<lparr>tw_domains := domains\<rparr>))) (\<lambda>_.
     Domain_Fetch ctx orgId)"

definition FetchOrCreateDomain :: "string \<Rightarrow> ctx \<Rightarrow> string \<Rightarrow> (string, ('p, 'x) db_world_scheme) io" where
  "FetchOrCreateDomain hex ctx orgId =
     bindIO (Domain_Fetch ctx orgId) (\<lambda>dName. if dName \<noteq> '''' then returnIO dName else Domain_Create hex ctx orgId)"

definition Domain_List :: "ctx \<Rightarrow> ((string \<times> string) list, ('p, 'x) db_world_scheme) io" where
  "Domain_List ctx = queryIO ctx (\<lambda>w. Inr (tw_domains w))"

definition Domain_Delete :: "ctx \<Rightarrow> string \<Rightarrow> string \<Rightarrow> (unit, ('p, 'x) db_world_scheme) io" where
  "Domain_Delete ctx orgID name = execIO ctx (\<lambda>w. w\<lparr>tw_domains :=
     delete_where (\<lambda>d. snd d = name \<and> fst d = orgID) (tw_domains w)\<rparr>)"

section \<open>Callers at the same time\<close>

text \<open>
  A caller of \<open>FetchOrCreateDomain\<close> between its statements: it looks, inserts, looks again, or has an
  answer (a name, or the error of the insertion).
\<close>

datatype stage = Looking | Inserting | LookingAgain | Answered "string result"

record domain_caller =
  dc_orgId :: string
  dc_hex :: string
  dc_stage :: stage

definition fetch_domain :: "string \<Rightarrow> (string \<times> string) list \<Rightarrow> string" where
  "fetch_domain orgId domains = (case filter (\<lambda>d. fst d = orgId) domains of [d] \<Rightarrow> snd d | _ \<Rightarrow> '''')"

fun advance :: "domain_caller \<Rightarrow> (string \<times> string) list \<Rightarrow> stage \<times> (string \<times> string) list" where
  "advance c domains =
     (case dc_stage c of
        Looking \<Rightarrow> (let n = fetch_domain (dc_orgId c) domains in (if n \<noteq> '''' then Answered (Inr n) else Inserting, domains))
      | Inserting \<Rightarrow>
          (case insert_domain (dc_orgId c) (new_domain_name (dc_hex c) (dc_orgId c)) domains of
             (Inl e, d) \<Rightarrow> (Answered (Inl e), d) | (Inr _, d) \<Rightarrow> (LookingAgain, d))
      | LookingAgain \<Rightarrow> (Answered (Inr (fetch_domain (dc_orgId c) domains)), domains)
      | Answered r \<Rightarrow> (Answered r, domains))"

text \<open>Any of the callers takes its next step, or a new one arrives.\<close>

inductive domain_step :: "domain_caller list \<times> (string \<times> string) list \<Rightarrow> domain_caller list \<times> (string \<times> string) list \<Rightarrow> bool" where
  arrive: "domain_step (cs, domains) (cs @ [\<lparr>dc_orgId = orgId, dc_hex = hex, dc_stage = Looking\<rparr>], domains)"
| move: "i < length cs \<Longrightarrow> advance (cs ! i) domains = (stage, domains') \<Longrightarrow>
    domain_step (cs, domains) (cs[i := (cs ! i)\<lparr>dc_stage := stage\<rparr>], domains')"

inductive_cases domain_stepE: "domain_step s s'"

text \<open>One caller alone does what the function does.\<close>

lemma advance_alone:
  assumes "tw_faults w = []" "tw_domains w = domains"
  shows "map_prod id tw_domains (FetchOrCreateDomain hex Background orgId w) =
    (let c = (\<lambda>s. \<lparr>dc_orgId = orgId, dc_hex = hex, dc_stage = s\<rparr>);
         (s1, d1) = advance (c Looking) domains; (s2, d2) = advance (c s1) d1; (s3, d3) = advance (c s2) d2
     in (case s3 of Answered r \<Rightarrow> r, d3))"
  using assms
  by (auto simp: FetchOrCreateDomain_def Domain_Create_def Domain_Fetch_def queryIO_def dbIO_def bindIO_def fetch_domain_def insert_domain_def
      Let_def tick_def split: list.splits prod.splits)

text \<open>The callers move in the order of a schedule.\<close>

primrec run_schedule :: "nat list \<Rightarrow> domain_caller list \<times> (string \<times> string) list \<Rightarrow> domain_caller list \<times> (string \<times> string) list" where
  "run_schedule [] s = s"
| "run_schedule (i # js) s =
     run_schedule js (let (stage, domains') = advance (fst s ! i) (snd s) in ((fst s)[i := (fst s ! i)\<lparr>dc_stage := stage\<rparr>], domains'))"

lemma run_schedule_steps: "\<forall>i\<in>set js. i < length (fst s) \<Longrightarrow> domain_step\<^sup>*\<^sup>* s (run_schedule js s)"
proof (induction js arbitrary: s)
  case (Cons i js)
  obtain stage domains' where a: "advance (fst s ! i) (snd s) = (stage, domains')" by fastforce
  have "domain_step s ((fst s)[i := (fst s ! i)\<lparr>dc_stage := stage\<rparr>], domains')"
    using move [of i "fst s" "snd s"] a Cons.prems by simp
  moreover have "domain_step\<^sup>*\<^sup>* ((fst s)[i := (fst s ! i)\<lparr>dc_stage := stage\<rparr>], domains') (run_schedule (i # js) s)"
    using Cons.IH [of "((fst s)[i := (fst s ! i)\<lparr>dc_stage := stage\<rparr>], domains')"] Cons.prems a by (simp del: advance.simps)
  ultimately show ?case by (rule converse_rtranclp_into_rtranclp)
qed simp

lemma arrivals: "domain_step\<^sup>*\<^sup>* ([], domains) (map (\<lambda>(orgId, hex). \<lparr>dc_orgId = orgId, dc_hex = hex, dc_stage = Looking\<rparr>) as, domains)"
proof (induction as rule: rev_induct)
  case (snoc a as)
  then show ?case by (cases a) (auto intro: rtranclp.rtrancl_into_rtrancl arrive)
qed simp

section \<open>What they rely on\<close>

definition unique_domains :: "(string \<times> string) list \<Rightarrow> bool" where
  "unique_domains domains \<longleftrightarrow> distinct (map fst domains) \<and> distinct (map snd domains) \<and> '''' \<notin> snd ` set domains"

lemma fetch_domain_iff:
  assumes "distinct (map fst domains)" "'''' \<notin> snd ` set domains"
  shows "fetch_domain orgId domains = n \<and> n \<noteq> '''' \<longleftrightarrow> (orgId, n) \<in> set domains"
proof -
  have f: "filter (\<lambda>d. fst d = orgId) domains = (case map_of domains orgId of None \<Rightarrow> [] | Some n \<Rightarrow> [(orgId, n)])"
    using assms(1)
  proof (induction domains)
    case (Cons d ds)
    then have "fst d \<notin> fst ` set ds" "distinct (map fst ds)" by simp_all
    then show ?case using Cons.IH by (cases d) (auto simp: filter_empty_conv image_iff split: option.split)
  qed simp
  have m: "map_of domains orgId = Some n \<longleftrightarrow> (orgId, n) \<in> set domains" for n using assms(1) by (simp add: map_of_eq_Some_iff)
  show ?thesis
  proof (cases "map_of domains orgId")
    case None
    then show ?thesis using m [of n] by (simp add: fetch_domain_def f)
  next
    case (Some k)
    moreover from this have "(orgId, k) \<in> set domains" using m by simp
    then have "k \<noteq> ''''" using assms(2) by force
    ultimately show ?thesis using m [of n] by (auto simp: fetch_domain_def f)
  qed
qed

text \<open>An answer is a row of the table, and a caller that looks again finds one.\<close>

fun stage_sound :: "(string \<times> string) set \<Rightarrow> string \<Rightarrow> stage \<Rightarrow> bool" where
  "stage_sound rows orgId (Answered (Inr n)) = ((orgId, n) \<in> rows)"
| "stage_sound rows orgId LookingAgain = (\<exists>n. (orgId, n) \<in> rows)"
| "stage_sound rows orgId _ = True"

lemma stage_sound_mono: "rows \<subseteq> rows' \<Longrightarrow> stage_sound rows orgId s \<Longrightarrow> stage_sound rows' orgId s"
  by (induction rows orgId s rule: stage_sound.induct) auto

definition callers_agree :: "domain_caller list \<times> (string \<times> string) list \<Rightarrow> bool" where
  "callers_agree s \<longleftrightarrow> unique_domains (snd s) \<and> (\<forall>c\<in>set (fst s). stage_sound (set (snd s)) (dc_orgId c) (dc_stage c))"

lemma insert_domain_grows:
  assumes "insert_domain orgId name domains = (r, domains')" "unique_domains domains" "name \<noteq> ''''"
  shows "unique_domains domains'" "set domains \<subseteq> set domains'" "r = Inr u \<Longrightarrow> \<exists>n. (orgId, n) \<in> set domains'"
  using assms by (auto simp: insert_domain_def unique_domains_def split: if_splits)

lemma new_domain_name_nonempty: "new_domain_name hex orgId \<noteq> ''''"
  by (simp add: new_domain_name_def RedHatDomainName_def CommunityDomainName_def)

lemma advance_agrees:
  assumes adv: "advance c domains = (stage, domains')" and u: "unique_domains domains"
    and c: "stage_sound (set domains) (dc_orgId c) (dc_stage c)"
  shows "unique_domains domains' \<and> set domains \<subseteq> set domains' \<and> stage_sound (set domains') (dc_orgId c) stage"
proof (cases "dc_stage c")
  case Looking
  have "fetch_domain (dc_orgId c) domains \<noteq> '''' \<Longrightarrow> (dc_orgId c, fetch_domain (dc_orgId c) domains) \<in> set domains"
    using u fetch_domain_iff [of domains "dc_orgId c" "fetch_domain (dc_orgId c) domains"] by (simp add: unique_domains_def)
  with Looking adv u show ?thesis by (auto simp: Let_def split: if_splits)
next
  case Inserting
  obtain r d where i: "insert_domain (dc_orgId c) (new_domain_name (dc_hex c) (dc_orgId c)) domains = (r, d)" by fastforce
  note grows = insert_domain_grows [OF i u new_domain_name_nonempty]
  from Inserting adv i have "domains' = d" "stage = (case r of Inl e \<Rightarrow> Answered (Inl e) | Inr _ \<Rightarrow> LookingAgain)"
    by (auto split: sum.splits)
  with grows show ?thesis by (cases r) auto
next
  case LookingAgain
  with c obtain n where n: "(dc_orgId c, n) \<in> set domains" by auto
  then have "fetch_domain (dc_orgId c) domains = n" using u fetch_domain_iff [of domains "dc_orgId c" n] by (simp add: unique_domains_def)
  with LookingAgain adv u n show ?thesis by auto
next
  case (Answered r)
  with adv u c show ?thesis by auto
qed

lemma step_agrees: "domain_step s s' \<Longrightarrow> callers_agree s \<Longrightarrow> callers_agree s'"
proof (induction rule: domain_step.induct)
  case (move i cs domains stage domains')
  from move(3) nth_mem [OF move(1)] have "unique_domains domains" "stage_sound (set domains) (dc_orgId (cs ! i)) (dc_stage (cs ! i))"
    by (auto simp: callers_agree_def)
  note a = advance_agrees [OF move(2) this]
  have "stage_sound (set domains') (dc_orgId c) (dc_stage c)" if "c \<in> set (cs[i := (cs ! i)\<lparr>dc_stage := stage\<rparr>])" for c
  proof -
    from that have "c = (cs ! i)\<lparr>dc_stage := stage\<rparr> \<or> c \<in> set cs" using set_update_subset_insert [of cs i] by blast
    then show ?thesis using a move(3) stage_sound_mono by (auto simp: callers_agree_def)
  qed
  with a show ?case by (simp add: callers_agree_def)
qed (auto simp: callers_agree_def)

section \<open>Properties\<close>

text \<open>
  C36. However many processes ask for the domain of an organisation at the same time, and however
  their statements interleave, all that get an answer get the same name, and callers for another
  organisation get another one.
\<close>

theorem concurrent_callers_agree:
  assumes "domain_step\<^sup>*\<^sup>* ([], domains) (cs, domains')" and "unique_domains domains"
    and "c \<in> set cs" "dc_stage c = Answered (Inr n)" "c' \<in> set cs" "dc_stage c' = Answered (Inr n')"
  shows "n = n' \<longleftrightarrow> dc_orgId c = dc_orgId c'"
proof -
  have "callers_agree (cs, domains')"
    using assms(1)
  proof (induction rule: rtranclp_induct)
    case base
    then show ?case using assms(2) by (simp add: callers_agree_def)
  qed (use step_agrees in blast)
  then have "unique_domains domains'" "(dc_orgId c, n) \<in> set domains'" "(dc_orgId c', n') \<in> set domains'"
    using assms(3-6) by (auto simp: callers_agree_def dest: bspec [of _ _ c] bspec [of _ _ c'])
  moreover from this have "inj_on fst (set domains')" "inj_on snd (set domains')" by (simp_all add: unique_domains_def distinct_map)
  ultimately show ?thesis by (auto dest: inj_onD [of fst _ "(_, n)" "(_, n')"] inj_onD [of snd _ "(dc_orgId c, _)" "(dc_orgId c', _)"])
qed

text \<open>Two processes, both having found no domain, insert one each: the name of the first stands.\<close>

definition demo_arrivals :: "(string \<times> string) list" where
  "demo_arrivals = [(''1'', ''aa''), (''1'', ''bb'')]"

definition demo_race :: "domain_caller list \<times> (string \<times> string) list" where
  "demo_race = run_schedule [0, 1, 0, 1, 1, 0]
     (map (\<lambda>(orgId, hex). \<lparr>dc_orgId = orgId, dc_hex = hex, dc_stage = Looking\<rparr>) demo_arrivals, [(RedHatOrg, RedHatDomainName)])"

lemma demo_race_callers: "fst demo_race = [\<lparr>dc_orgId = ''1'', dc_hex = ''aa'', dc_stage = Answered (Inr ''cs-aa'')\<rparr>,
    \<lparr>dc_orgId = ''1'', dc_hex = ''bb'', dc_stage = Answered (Inr ''cs-aa'')\<rparr>]"
  by code_simp

lemma demo_race_reached: "domain_step\<^sup>*\<^sup>* ([], [(RedHatOrg, RedHatDomainName)]) (fst demo_race, snd demo_race)"
  unfolding demo_race_def prod.collapse
  by (rule rtranclp_trans [OF arrivals run_schedule_steps]) (simp add: demo_arrivals_def)

theorem concurrent_callers_agree_witness:
  "dc_stage (fst demo_race ! 0) = Answered (Inr ''cs-aa'') \<and> dc_stage (fst demo_race ! 1) = Answered (Inr ''cs-aa'') \<and>
   dc_orgId (fst demo_race ! 0) = dc_orgId (fst demo_race ! 1)"
proof -
  have "''cs-aa'' = ''cs-aa'' \<longleftrightarrow> dc_orgId (fst demo_race ! 0) = dc_orgId (fst demo_race ! 1)"
    by (rule concurrent_callers_agree [OF demo_race_reached]) (simp_all add: unique_domains_def RedHatDomainName_def demo_race_callers)
  then show ?thesis by (simp add: demo_race_callers)
qed

end
