(* ===== verification/DeleteRepository.thy ===== *)
theory DeleteRepository
  imports CandlepinContent DeleteSnapshots DomainDao
begin

text \<open>
  The task that deletes a repository (\<open>pkg/tasks/delete_repository_snapshots.go\<close>): its content in
  Candlepin, what Pulp serves and keeps of it, the rows of its snapshots and their associations with
  templates, and last the row of its configuration. Events are left out.
\<close>

text \<open>\<open>dr_pulpClient\<close> is nil when the organisation has no domain in Pulp.\<close>

record 'p DeleteRepositorySnapshots =
  dr_OrgId :: string
  dr_RepoConfigUUID :: string
  dr_daoReg :: DaoRegistry
  dr_pulpClient :: "'p pulpDaoImpl option"
  dr_cpClient :: "'p CandlepinClient"
  dr_PulpConfigured :: bool
  dr_CandlepinConfigured :: bool

section \<open>Candlepin\<close>

definition candlepinRHContentId ::
  "'p DeleteRepositorySnapshots \<Rightarrow> string \<Rightarrow> string \<Rightarrow> (string, ('p, 'x) db_world_scheme) io" where
  "candlepinRHContentId d templateOrgId repoConfigUuid =
     bindIO (mapErrIO (\<lambda>err. Other (''error fetching repo config '' @ error_text err)) (FetchWithoutOrgID TaskCtx repoConfigUuid True)) (\<lambda>rConfig.
     bindIO (wrapIO (''failed to fetch content for repo '' @ templateOrgId @ ''/'' @ re_Label rConfig)
       (cpIO TaskCtx (cp_FetchContentsByLabel (dr_cpClient d) templateOrgId [re_Label rConfig]))) (\<lambda>cpContent.
       case cpContent of
         Some contentId # _ \<Rightarrow> returnIO contentId
       | _ \<Rightarrow> failIO (Other (''missing content for candlepin content for repo '' @ templateOrgId @ ''/'' @ re_Label rConfig))))"

definition demote_content :: "'p DeleteRepositorySnapshots \<Rightarrow> TemplateResponse \<Rightarrow> (unit, ('p, 'x) db_world_scheme) io" where
  "demote_content d template =
     bindIO (candlepinRHContentId d (tp_OrgID template) (dr_RepoConfigUUID d)) (\<lambda>contentId.
     wrapIO (''couldn't demote content from environment for template '' @ tp_UUID template)
       (cpIO TaskCtx (cp_DemoteContentFromEnvironment (dr_cpClient d) (tp_UUID template) [contentId])))"

definition deleteCandlepinContent :: "'p DeleteRepositorySnapshots \<Rightarrow> (unit, ('p, 'x) db_world_scheme) io" where
  "deleteCandlepinContent d =
     (if \<not> dr_CandlepinConfigured d then returnIO ()
      else if dr_OrgId d = RedHatOrg then
        bindIO (wrapIO ''couldn't get templates for repo config''
          (InternalOnlyGetTemplatesForRepoConfig (dr_daoReg d) TaskCtx (dr_RepoConfigUUID d) False)) (forIO (demote_content d))
      else
        bindIO (wrapIO ''failed to remove content from candlepin product''
          (cpIO TaskCtx (cp_RemoveContentFromProduct (dr_cpClient d) (dr_OrgId d) (dr_RepoConfigUUID d)))) (\<lambda>_.
        wrapIO ''error deleting candlepin content''
          (cpIO TaskCtx (cp_DeleteContent (dr_cpClient d) (dr_OrgId d) (dr_RepoConfigUUID d)))))"

section \<open>Pulp\<close>

definition deleteRpmDistribution :: "'p pulpDaoImpl \<Rightarrow> string \<Rightarrow> (unit, ('p, 'x) pulp_world_scheme) io" where
  "deleteRpmDistribution pulp href =
     delete_polled pulp (''failed to delete rpm distribution '' @ href) (''error polling distribution deletion task for '' @ href) href"

definition deleteRepoDistributionAtPath :: "'p pulpDaoImpl \<Rightarrow> string \<Rightarrow> (unit, ('p, 'x) pulp_world_scheme) io" where
  "deleteRepoDistributionAtPath pulp distPath =
     (if distPath = '''' then returnIO ()
      else
        bindIO (wrapIO (''failed to find distribution at base path '' @ distPath) (FindDistributionByPath pulp TaskCtx distPath)) (\<lambda>dist.
          case (case dist of None \<Rightarrow> None | Some d \<Rightarrow> di_PulpHref d) of
            None \<Rightarrow> returnIO ()
          | Some href \<Rightarrow> deleteRpmDistribution pulp href))"

definition deleteRepoSnapshotDistribution :: "'p pulpDaoImpl \<Rightarrow> Snapshot \<Rightarrow> (unit, ('p, 'x) pulp_world_scheme) io" where
  "deleteRepoSnapshotDistribution pulp snap =
     (if sn_DistributionHref snap \<noteq> '''' then deleteRpmDistribution pulp (sn_DistributionHref snap)
      else deleteRepoDistributionAtPath pulp (sn_DistributionPath snap))"

definition delete_latest :: "'p DeleteRepositorySnapshots \<Rightarrow> 'p pulpDaoImpl \<Rightarrow> (unit, ('p, 'x) pulp_world_scheme) io" where
  "delete_latest d pulp =
     (let latestPathIdent = dr_RepoConfigUUID d @ ''/'' @ ''latest'' in
      bindIO (wrapIO (''failed to find latest distribution by path '' @ latestPathIdent) (FindDistributionByPath pulp TaskCtx latestPathIdent)) (\<lambda>latestDistro.
        case latestDistro of
          None \<Rightarrow> returnIO ()
        | Some dist \<Rightarrow>
            bindIO (deref (di_PulpHref dist)) (\<lambda>href.
            wrapIO (''failed to delete latest distribution '' @ href) (deleteRpmDistribution pulp href))))"

definition delete_template_repo_distribution ::
  "'p DeleteRepositorySnapshots \<Rightarrow> 'p pulpDaoImpl \<Rightarrow> TemplateResponse \<Rightarrow> (unit, ('p, 'x) db_world_scheme) io" where
  "delete_template_repo_distribution d pulp template =
     bindIO (wrapIO (''failed to get distribution href for template '' @ tp_UUID template)
       (GetDistributionHref TaskCtx (tp_UUID template) (dr_RepoConfigUUID d))) (\<lambda>distHref.
       case distHref of
         None \<Rightarrow> returnIO ()
       | Some href \<Rightarrow>
           delete_polled pulp (''failed to delete rpm distribution '' @ href @ '' for template '' @ tp_UUID template)
             (''error polling distribution deletion task for template '' @ tp_UUID template) href)"

definition templates_of_repo :: "'p DeleteRepositorySnapshots \<Rightarrow> (TemplateResponse list, ('p, 'x) db_world_scheme) io" where
  "templates_of_repo d = wrapIO ''failed to get templates for repo config''
     (if dr_OrgId d = RedHatOrg then InternalOnlyGetTemplatesForRepoConfig (dr_daoReg d) TaskCtx (dr_RepoConfigUUID d) False
      else
        bindIO (Template_List (dr_daoReg d) TaskCtx (dr_OrgId d) True (no_filter\<lparr>tf_RepositoryUUIDs := [dr_RepoConfigUUID d]\<rparr>))
          (\<lambda>(templates, _). returnIO templates))"

definition deleteTemplateRepoDistributions ::
  "'p DeleteRepositorySnapshots \<Rightarrow> 'p pulpDaoImpl \<Rightarrow> (unit, ('p, 'x) db_world_scheme) io" where
  "deleteTemplateRepoDistributions d pulp =
     bindIO (templates_of_repo d) (\<lambda>templates. joinIO (collectIO (delete_template_repo_distribution d pulp) templates))"

definition deleteRpmRemoteIfFound :: "'p pulpDaoImpl \<Rightarrow> string \<Rightarrow> (unit, ('p, 'x) pulp_world_scheme) io" where
  "deleteRpmRemoteIfFound pulp name =
     bindIO (wrapIO ''failed to look up rpm remote'' (GetRpmRemoteByName pulp TaskCtx name)) (\<lambda>remoteResp.
       case remoteResp of
         None \<Rightarrow> returnIO ()
       | Some remoteHref \<Rightarrow>
           bindIO (deref remoteHref) (\<lambda>href.
           bindIO (wrapIO (''failed to delete rpm remote '' @ href) (DeleteRpmRemote pulp TaskCtx href)) (\<lambda>task.
           bindIO (wrapIO (''error polling rpm remote deletion task for '' @ href) (PollTask pulp TaskCtx task)) (\<lambda>_. returnIO ()))))"

definition deleteRpmRepositoryIfFound :: "'p pulpDaoImpl \<Rightarrow> string \<Rightarrow> (unit, ('p, 'x) pulp_world_scheme) io" where
  "deleteRpmRepositoryIfFound pulp name =
     bindIO (wrapIO ''failed to look up rpm repository'' (GetRpmRepositoryByName pulp TaskCtx name)) (\<lambda>repoResp.
       case repoResp of
         None \<Rightarrow> returnIO ()
       | Some repo \<Rightarrow>
           bindIO (deref (rr_PulpHref repo)) (\<lambda>href.
           bindIO (wrapIO (''failed to delete rpm repository '' @ href) (DeleteRpmRepository pulp TaskCtx href)) (\<lambda>task.
           bindIO (wrapIO (''error polling rpm repository deletion task for '' @ href) (PollTask pulp TaskCtx task)) (\<lambda>_. returnIO ()))))"

definition deleteRpmRepoAndRemote :: "'p DeleteRepositorySnapshots \<Rightarrow> 'p pulpDaoImpl \<Rightarrow> (unit, ('p, 'x) pulp_world_scheme) io" where
  "deleteRpmRepoAndRemote d pulp =
     bindIO (deleteRpmRemoteIfFound pulp (dr_RepoConfigUUID d)) (\<lambda>_. deleteRpmRepositoryIfFound pulp (dr_RepoConfigUUID d))"

section \<open>Rows\<close>

definition deleteTemplateSnapshot :: "string \<Rightarrow> (unit, ('p, 'x) db_world_scheme) io" where
  "deleteTemplateSnapshot snapshotUUID =
     bindIO (wrapIO (''error deleting template snapshot '' @ snapshotUUID) (unless_missing (DeleteTemplateSnapshot TaskCtx snapshotUUID))) (\<lambda>_. returnIO ())"

definition deleteRepoSnapshotRow :: "string \<Rightarrow> (unit, ('p, 'x) db_world_scheme) io" where
  "deleteRepoSnapshotRow snapUUID =
     bindIO (wrapIO (''error deleting snapshot '' @ snapUUID) (unless_missing (Snapshot_Delete TaskCtx snapUUID))) (\<lambda>_. returnIO ())"

definition deleteRepoConfig :: "'p DeleteRepositorySnapshots \<Rightarrow> (unit, ('p, 'x) db_world_scheme) io" where
  "deleteRepoConfig d =
     bindIO (wrapIO ''error deleting repository configuration''
       (unless_missing (RepositoryConfig_Delete TaskCtx (dr_OrgId d) (dr_RepoConfigUUID d)))) (\<lambda>_. returnIO ())"

section \<open>The task\<close>

definition delete_repo_snapshot :: "'p pulpDaoImpl \<Rightarrow> Snapshot \<Rightarrow> (unit, ('p, 'x) db_world_scheme) io" where
  "delete_repo_snapshot pulp snap =
     bindIO (deleteRepoSnapshotDistribution pulp snap) (\<lambda>_.
     bindIO (deleteTemplateSnapshot (sn_UUID snap)) (\<lambda>_.
     deleteRepoSnapshotRow (sn_UUID snap)))"

text \<open>An error of the query for the snapshots is only logged; then there are none.\<close>

definition delete_pulp_content :: "'p DeleteRepositorySnapshots \<Rightarrow> 'p pulpDaoImpl \<Rightarrow> (unit, ('p, 'x) db_world_scheme) io" where
  "delete_pulp_content d pulp =
     bindIO (handleIO (FetchForRepoConfigUUID TaskCtx (dr_RepoConfigUUID d) True) (\<lambda>_. returnIO [])) (\<lambda>snaps.
     bindIO (delete_latest d pulp) (\<lambda>_.
     bindIO (deleteTemplateRepoDistributions d pulp) (\<lambda>_.
     bindIO (joinIO (collectIO (delete_repo_snapshot pulp) snaps)) (\<lambda>_.
     deleteRpmRepoAndRemote d pulp))))"

definition DeleteRepositorySnapshots_Run :: "'p DeleteRepositorySnapshots \<Rightarrow> (unit, ('p, 'x) db_world_scheme) io" where
  "DeleteRepositorySnapshots_Run d =
     bindIO (deleteCandlepinContent d) (\<lambda>_.
     bindIO (case dr_pulpClient d of
         Some pulp \<Rightarrow> whenIO (dr_PulpConfigured d) (delete_pulp_content d pulp)
       | None \<Rightarrow> returnIO ()) (\<lambda>_.
     deleteRepoConfig d))"

definition lookupOptionalPulpClient ::
  "string \<Rightarrow> 'p pulpDaoImpl \<Rightarrow> (string \<Rightarrow> 'p pulpDaoImpl) \<Rightarrow> 'p DeleteRepositorySnapshots \<Rightarrow> ('p pulpDaoImpl option, ('p, 'x) db_world_scheme) io" where
  "lookupOptionalPulpClient hex globalClient newClient d =
     (if \<not> dr_PulpConfigured d then returnIO None
      else
        bindIO (FetchOrCreateDomain hex TaskCtx (dr_OrgId d)) (\<lambda>name.
        bindIO (LookupDomain globalClient TaskCtx name) (\<lambda>domainFound.
        returnIO (if domainFound \<noteq> '''' then Some (newClient name) else None))))"

definition DeleteRepositorySnapshotsHandler ::
  "string \<Rightarrow> 'p pulpDaoImpl \<Rightarrow> (string \<Rightarrow> 'p pulpDaoImpl) \<Rightarrow> 'p DeleteRepositorySnapshots \<Rightarrow> (unit, ('p, 'x) db_world_scheme) io" where
  "DeleteRepositorySnapshotsHandler hex globalClient newClient task =
     bindIO (lookupOptionalPulpClient hex globalClient newClient task) (\<lambda>pulp.
     DeleteRepositorySnapshots_Run (task\<lparr>dr_pulpClient := pulp\<rparr>))"

end
