(* ===== verification/DeleteTemplates.thy ===== *)
theory DeleteTemplates
  imports CandlepinContent DeleteSnapshots
begin

text \<open>
  The task that deletes a template (\<open>pkg/tasks/delete_templates.go\<close>): its distributions in Pulp, its
  environment in Candlepin, and last its row.
\<close>

record 'p DeleteTemplates =
  dt_orgID :: string
  dt_rhDomainName :: string
  dt_domainName :: string
  dt_communityDomainName :: string
  dt_TemplateUUID :: string
  dt_RepoConfigUUIDs :: "string list"
  dt_daoReg :: DaoRegistry
  dt_pulpClient :: "'p pulpDaoImpl"
  dt_cpClient :: "'p CandlepinClient"
  dt_PulpConfigured :: bool
  dt_CandlepinConfigured :: bool

definition client_for_org :: "'p DeleteTemplates \<Rightarrow> RepositoryResponse \<Rightarrow> 'p pulpDaoImpl" where
  "client_for_org d repo = WithDomain (dt_pulpClient d)
     (if re_OrgID repo = RedHatOrg then dt_rhDomainName d
      else if re_OrgID repo = CommunityOrg then dt_communityDomainName d else dt_domainName d)"

text \<open>One round of the loop; its errors are collected and the loop goes on.\<close>

definition delete_template_distribution :: "'p DeleteTemplates \<Rightarrow> string \<Rightarrow> (unit, ('p, 'x) db_world_scheme) io" where
  "delete_template_distribution d repoConfigUUID =
     bindIO (wrapIO (''failed to fetch repo config '' @ repoConfigUUID)
       (unless_missing (RepositoryConfig_Fetch (dt_daoReg d) TaskCtx (dt_orgID d) repoConfigUUID))) (\<lambda>found.
       case found of
         None \<Rightarrow> returnIO ()
       | Some repo \<Rightarrow>
           if re_LastSnapshot repo = None then returnIO ()
           else
             bindIO (wrapIO (''error getting distribution href for repo '' @ repoConfigUUID)
               (GetDistributionHref TaskCtx (dt_TemplateUUID d) repoConfigUUID)) (\<lambda>distHref.
               case distHref of
                 None \<Rightarrow> returnIO ()
               | Some href \<Rightarrow>
                   delete_polled (client_for_org d repo) (''failed to delete rpm distribution '' @ href @ '' for repo '' @ repoConfigUUID)
                     (''error polling distribution deletion task for repo '' @ repoConfigUUID) href))"

definition deleteDistributions :: "'p DeleteTemplates \<Rightarrow> (unit, ('p, 'x) db_world_scheme) io" where
  "deleteDistributions d = joinIO (collectIO (delete_template_distribution d) (dt_RepoConfigUUIDs d))"

definition deleteTemplate :: "'p DeleteTemplates \<Rightarrow> (unit, ('p, 'x) db_world_scheme) io" where
  "deleteTemplate d =
     bindIO (wrapIO ''failed to delete template'' (unless_missing (Template_Delete TaskCtx (dt_orgID d) (dt_TemplateUUID d)))) (\<lambda>_. returnIO ())"

definition DeleteTemplates_Run :: "'p DeleteTemplates \<Rightarrow> (unit, ('p, 'x) db_world_scheme) io" where
  "DeleteTemplates_Run d =
     bindIO (whenIO (dt_PulpConfigured d) (deleteDistributions d)) (\<lambda>_.
     bindIO (whenIO (dt_CandlepinConfigured d)
       (wrapIO ''failed to delete candlepin environment'' (cpIO TaskCtx (cp_DeleteEnvironment (dt_cpClient d) (dt_TemplateUUID d))))) (\<lambda>_.
     deleteTemplate d))"

definition DeleteTemplateHandler :: "'p DeleteTemplates \<Rightarrow> (string \<Rightarrow> 'p pulpDaoImpl) \<Rightarrow> (unit, ('p, 'x) db_world_scheme) io" where
  "DeleteTemplateHandler task newClient =
     bindIO (Domain_Fetch TaskCtx (dt_orgID task)) (\<lambda>domain.
     bindIO (Domain_Fetch TaskCtx RedHatOrg) (\<lambda>rhDomain.
     bindIO (Domain_Fetch TaskCtx CommunityOrg) (\<lambda>communityDomain.
     DeleteTemplates_Run (task\<lparr>dt_rhDomainName := rhDomain, dt_domainName := domain, dt_communityDomainName := communityDomain,
       dt_pulpClient := newClient domain\<rparr>))))"

end
