(* ===== verification/DeleteTemplatesProps.thy ===== *)
theory DeleteTemplatesProps
  imports DeleteTemplates UpdateTemplateContentProps DeleteSnapshotsProps
begin

text \<open>
  What the deletion of a template leaves in the tables: the row is the last thing that goes.
\<close>

lemma only_pulp_candlepin: "keeps only_pulp (cpIO ctx call)"
  by (auto simp: keeps_def cpIO_def only_pulp_def tick_def cancelled_def split: prod.split)

context content_frame
begin

lemmas step_candlepin [frame_keeps] = only_pulp_candlepin [THEN step_pulp]

lemma step_delete_distribution [frame_keeps]: "keeps R (delete_template_distribution d u)"
  unfolding delete_template_distribution_def
  by (auto intro!: frame_keeps simp del: returnIO_apply split: option.split)

lemma step_delete_distributions [frame_keeps]: "keeps R (deleteDistributions d)"
  unfolding deleteDistributions_def by (intro frame_keeps)

end

lemma template_error_honest: "honest_error e \<Longrightarrow> \<not> NotFound (TemplateDBToApiError e u)"
  using dao_error_honest [of e "''Template''" u]
  by (cases e) (auto simp: TemplateDBToApiError_def NotFound_def split: option.splits)

definition has_template :: "string \<Rightarrow> string \<Rightarrow> ('p, 'x) db_world_scheme \<Rightarrow> bool" where
  "has_template orgID uuid w \<longleftrightarrow> (\<exists>t\<in>set (tw_templates w). t_UUID t = uuid \<and> t_OrgID t = orgID)"

text \<open>A statement on a row that was looked up first: when it fails nothing changed, and \<open>NotFound\<close> means there was no row.\<close>

lemma find_then_failure:
  fixes w :: "('p, 'x) db_world_scheme"
  assumes run: "bindIO (mapErrIO g (queryIO ctx (\<lambda>w. record_or_not_found (f w)))) (\<lambda>_. dbIO ctx call) w = (Inl e, w')"
    and call: "\<And>w1 e w2. call w1 = (Inl e, w2) \<Longrightarrow> w2 = w1 \<and> honest_error e"
    and g: "\<And>e. honest_error e \<Longrightarrow> \<not> NotFound (g e)"
    and f: "\<And>w1. same_tables w w1 \<Longrightarrow> f w1 = f w"
  shows "same_tables w w'" and "honest reg w \<Longrightarrow> NotFound e \<Longrightarrow> f w = None"
proof -
  let ?q = "mapErrIO g (queryIO ctx (\<lambda>w. record_or_not_found (f w)))"
  obtain r w1 where q: "?q w = (r, w1)" by (cases "?q w")
  have w1: "same_rows w w1" by (rule rows.run [OF rows.step_mapErr [OF rows.step_query] q])
  have "same_tables w w' \<and> (honest reg w \<longrightarrow> NotFound e \<longrightarrow> f w = None)"
  proof (cases r)
    case (Inl e')
    with run q have e: "?q w = (Inl e, w')" "w1 = w'" by (simp_all add: bindIO_def)
    have "f w = None" if h: "honest reg w" and n: "NotFound e"
    proof -
      obtain e'' where q': "queryIO ctx (\<lambda>w. record_or_not_found (f w)) w = (Inl e'', w')" and "e = g e''"
        using e(1) n by (elim mapErr_failure)
      from h q' [unfolded queryIO_def] show ?thesis
      proof (cases rule: honest_db)
        case 1
        with g n \<open>e = g e''\<close> show ?thesis by blast
      next
        case (2 w2)
        then show ?thesis using f [of w2] by (cases "f w2") auto
      qed
    qed
    with w1 e(2) show ?thesis by (simp add: same_rows_def)
  next
    case (Inr t)
    with run q have d: "dbIO ctx call w1 = (Inl e, w')" by (simp add: bindIO_def)
    have "same_tables w1 w'" using d by (rule dbIO_failure) (use call in auto)
    moreover have "honest_error e" if "honest reg w"
    proof -
      have "honest reg w1" using that w1 by (auto simp: honest_def same_rows_def)
      then show ?thesis using d by (rule honest_db) (use call in auto)
    qed
    ultimately show ?thesis using w1 by (auto simp: same_rows_def same_tables_def honest_error_def)
  qed
  then show "same_tables w w'" and "honest reg w \<Longrightarrow> NotFound e \<Longrightarrow> f w = None" by blast+
qed

text \<open>The tables without a template and its associations.\<close>

definition without_template :: "string \<Rightarrow> ('p, 'x) db_world_scheme \<Rightarrow> ('p, 'x) db_world_scheme" where
  "without_template uuid w = w\<lparr>tw_templates := filter (\<lambda>t. t_UUID t \<noteq> uuid) (tw_templates w),
     tw_trcs := filter (\<lambda>r. trc_TemplateUUID r \<noteq> uuid) (tw_trcs w)\<rparr>"

lemma Template_Delete_success:
  assumes "Template_Delete ctx orgID u w = (Inr x, w')"
  shows "has_template orgID u w \<and> same_tables (without_template u w) w'"
proof -
  obtain t w1 where t: "template_in_org ctx orgID u True w = (Inr t, w1)"
    and e: "execIO ctx (\<lambda>w. w\<lparr>tw_templates := delete_where (\<lambda>t. t_UUID t = u) (tw_templates w),
      tw_trcs := delete_where (\<lambda>r. trc_TemplateUUID r = u) (tw_trcs w)\<rparr>) w1 = (Inr (), w')"
    using assms unfolding Template_Delete_def by (auto elim!: bindIO_successE)
  have "has_template orgID u w \<and> same_tables w w1"
    using t unfolding template_in_org_def by (auto elim!: queryIO_success simp: has_template_def same_tables_def dest!: find_mem)
  moreover have "same_tables (without_template u w1) w'"
    using e by (auto elim!: execIO_success simp: same_tables_def without_template_def delete_where_def)
  ultimately show ?thesis by (auto simp: same_tables_def without_template_def)
qed

lemma Template_Delete_failure:
  assumes "Template_Delete ctx orgID u w = (Inl e, w')"
  shows "same_tables w w'" and "honest reg w \<Longrightarrow> NotFound e \<Longrightarrow> \<not> has_template orgID u w"
proof -
  note failure = find_then_failure [OF assms [unfolded Template_Delete_def template_in_org_def execIO_def] _ template_error_honest]
  show "same_tables w w'" by (rule failure(1)) (auto simp: same_tables_def)
  show "honest reg w \<Longrightarrow> NotFound e \<Longrightarrow> \<not> has_template orgID u w"
    using failure(2) [of reg] by (auto simp: has_template_def same_tables_def find_None_iff)
qed

lemma optional_outcome:
  assumes "bindIO (wrapIO msg (unless_missing m)) (\<lambda>_. returnIO ()) w = (r, w')"
  obtains (finished) u where "r = Inr ()" "m w = (Inr u, w')" | (missing) e where "r = Inr ()" "m w = (Inl e, w')" "NotFound e"
  | (failed) e e' where "r = Inl e" "m w = (Inl e', w')"
  using assms by (auto simp: unless_missing_def bindIO_def wrapIO_def handleIO_def split: prod.splits sum.splits if_splits)

lemma deleteTemplate_outcome:
  assumes "deleteTemplate d w = (r, w')" "honest reg w"
  shows "case r of Inl _ \<Rightarrow> same_tables w w'
    | Inr _ \<Rightarrow> same_tables (if has_template (dt_orgID d) (dt_TemplateUUID d) w then without_template (dt_TemplateUUID d) w else w) w'"
  using assms(1) unfolding deleteTemplate_def
proof (cases rule: optional_outcome)
  case finished
  then show ?thesis using Template_Delete_success by fastforce
next
  case missing
  then show ?thesis using Template_Delete_failure [OF missing(2)] assms(2) by simp
next
  case failed
  then show ?thesis using Template_Delete_failure(1) by fastforce
qed

section \<open>A concrete deletion\<close>

definition demo_template_deletion :: "demo_pulp DeleteTemplates" where
  "demo_template_deletion = \<lparr>dt_orgID = ''acme'', dt_rhDomainName = '''', dt_domainName = ''cs-1'', dt_communityDomainName = '''', dt_TemplateUUID = ''t1'',
     dt_RepoConfigUUIDs = [''r1''], dt_daoReg = demo_registry, dt_pulpClient = demo_client, dt_cpClient = demo_candlepin,
     dt_PulpConfigured = True, dt_CandlepinConfigured = True\<rparr>"

section \<open>Properties\<close>

text \<open>
  C34. A deletion of a template that fails, in Pulp, in Candlepin or in the database, leaves every table as
  it was, so that it can be run again; one that succeeds has deleted the template's row and its
  associations if the template was the organisation's, and nothing else in either case.
\<close>

theorem template_deletion_is_all_or_nothing:
  fixes w :: "('p, 'x) db_world_scheme"
  assumes run: "DeleteTemplates_Run d w = (r, w')" and h: "honest (dt_daoReg d) w"
  shows "case r of Inl _ \<Rightarrow> same_tables w w'
    | Inr _ \<Rightarrow> same_tables (if has_template (dt_orgID d) (dt_TemplateUUID d) w then without_template (dt_TemplateUUID d) w else w) w'"
proof -
  define before :: "(unit, ('p, 'x) db_world_scheme) io" where "before = bindIO (whenIO (dt_PulpConfigured d) (deleteDistributions d)) (\<lambda>_.
    whenIO (dt_CandlepinConfigured d)
       (wrapIO ''failed to delete candlepin environment'' (cpIO TaskCtx (cp_DeleteEnvironment (dt_cpClient d) (dt_TemplateUUID d)))))"
  obtain x w1 where b: "before w = (x, w1)" by (cases "before w")
  have "keeps same_rows before" unfolding before_def by (intro frame_keeps)
  from rows.run [OF this b] have w1: "same_rows w w1" .
  have d: "case x of Inl e \<Rightarrow> r = Inl e \<and> w' = w1 | Inr _ \<Rightarrow> deleteTemplate d w1 = (r, w')"
    using run b unfolding DeleteTemplates_Run_def before_def by (auto simp: bindIO_def split: prod.splits sum.splits)
  have h1: "honest (dt_daoReg d) w1" using h w1 by (auto simp: honest_def same_rows_def)
  show ?thesis
  proof (cases x)
    case (Inl e)
    with d w1 show ?thesis by (simp add: same_rows_def)
  next
    case (Inr u)
    with d deleteTemplate_outcome [OF _ h1, of d r w'] w1 show ?thesis
      by (auto simp: same_rows_def same_tables_def has_template_def without_template_def split: sum.splits if_splits)
  qed
qed

theorem template_deletion_is_all_or_nothing_witness:
  "tw_templates (snd (DeleteTemplates_Run demo_template_deletion demo_content)) = [] \<and>
   tw_trcs (snd (DeleteTemplates_Run demo_template_deletion demo_content)) = [] \<and>
   map co_UUID (tw_configs (snd (DeleteTemplates_Run demo_template_deletion demo_content))) = [''r1'']"
proof -
  let ?run = "DeleteTemplates_Run demo_template_deletion demo_content"
  have "fst ?run = Inr ()" by code_simp
  then have run: "?run = (Inr (), snd ?run)" by (cases ?run) auto
  have h: "honest (dt_daoReg demo_template_deletion) demo_content"
    by (simp add: honest_def demo_content_def demo_template_deletion_def demo_registry_def honest_error_def NotFound_def ErrRecordNotFound_def)
  have t: "has_template (dt_orgID demo_template_deletion) (dt_TemplateUUID demo_template_deletion) demo_content"
    by (simp add: has_template_def demo_content_def demo_template_def demo_template_deletion_def)
  have e: "tw_templates (without_template ''t1'' demo_content) = []" "tw_trcs (without_template ''t1'' demo_content) = []"
    "map co_UUID (tw_configs (without_template ''t1'' demo_content)) = [''r1'']"
    by (simp_all add: without_template_def demo_content_def demo_template_def demo_trc_def demo_repo_config_def)
  from template_deletion_is_all_or_nothing [OF run h] t have "same_tables (without_template ''t1'' demo_content) (snd ?run)"
    by (simp add: demo_template_deletion_def)
  with e show ?thesis by (simp add: same_tables_def)
qed

end
