(* ===== verification/DeleteRepositoryProps.thy ===== *)
theory DeleteRepositoryProps
  imports DeleteRepository DeleteTemplatesProps
begin

text \<open>
  What the deletion of a repository leaves: whatever becomes of it, rows of other repositories are not
  touched, and the configuration stays until everything else is gone.
\<close>

section \<open>What is deleted on the way\<close>

text \<open>Only snapshots of \<open>U\<close> and associations with them are deleted; configurations stay.\<close>

definition shedding :: "string set \<Rightarrow> ('p, 'x) db_world_scheme \<Rightarrow> ('p, 'x) db_world_scheme \<Rightarrow> bool" where
  "shedding U w w' \<longleftrightarrow>
     (\<exists>D\<subseteq>U. tw_snapshots w' = filter (\<lambda>s. sn_UUID s \<notin> D) (tw_snapshots w)) \<and>
     (\<exists>E\<subseteq>U. tw_trcs w' = filter (\<lambda>r. trc_SnapshotUUID r \<notin> E) (tw_trcs w)) \<and>
     map config_key (tw_configs w') = map config_key (tw_configs w) \<and> tw_templates w' = tw_templates w \<and> tw_repositories w' = tw_repositories w \<and>
     set (tw_faults w') \<subseteq> set (tw_faults w) \<and> pw_cause w' = pw_cause w"

lemma shed_nothing: "\<exists>D\<subseteq>U. xs = filter (\<lambda>x. key x \<notin> D) xs"
  by (rule exI [of _ "{}"]) simp

lemma shed_more:
  assumes "\<exists>D\<subseteq>U. ys = filter (\<lambda>x. key x \<notin> D) xs" "\<exists>D\<subseteq>U. zs = filter (\<lambda>x. key x \<notin> D) ys"
  shows "\<exists>D\<subseteq>U. zs = filter (\<lambda>x. key x \<notin> D) xs"
proof -
  from assms obtain D E where "D \<subseteq> U" "E \<subseteq> U" "zs = filter (\<lambda>x. key x \<notin> D \<union> E) xs" by (auto simp: conj_commute)
  then show ?thesis by (intro exI [of _ "D \<union> E"]) auto
qed

lemma shedding_rows: "same_rows w w' \<Longrightarrow> shedding U w w'"
  using shed_nothing [of U "tw_snapshots w" sn_UUID] shed_nothing [of U "tw_trcs w" trc_SnapshotUUID]
  by (simp add: shedding_def same_rows_def same_tables_def)

lemma shedding_trans:
  assumes "shedding U w w1" "shedding U w1 w2"
  shows "shedding U w w2"
  using assms shed_more [of U "tw_snapshots w1" sn_UUID "tw_snapshots w" "tw_snapshots w2"] shed_more [of U "tw_trcs w1" trc_SnapshotUUID "tw_trcs w" "tw_trcs w2"]
  by (simp add: shedding_def) (meson subset_trans)

interpretation shedding: content_frame "shedding U"
  using shedding_trans by unfold_locales (auto simp: transp_def intro: shedding_rows only_pulp_same_rows)

context content_frame
begin

lemma step_rhContent [frame_keeps]: "keeps R (candlepinRHContentId d o' rc)"
  unfolding candlepinRHContentId_def
  by (auto intro!: frame_keeps simp del: returnIO_apply split: list.split option.split)

lemma step_demote [frame_keeps]: "keeps R (demote_content d T)"
  unfolding demote_content_def by (intro frame_keeps)

lemma step_candlepinContent [frame_keeps]: "keeps R (deleteCandlepinContent d)"
  unfolding deleteCandlepinContent_def by (auto intro!: frame_keeps simp del: returnIO_apply)

lemma step_RpmDistribution [frame_keeps]: "keeps R (deleteRpmDistribution pulp href)"
  unfolding deleteRpmDistribution_def by (intro frame_keeps)

lemma step_RepoDistributionAtPath [frame_keeps]: "keeps R (deleteRepoDistributionAtPath pulp path)"
  unfolding deleteRepoDistributionAtPath_def
  by (auto intro!: frame_keeps simp del: returnIO_apply split: option.split)

lemma step_RepoSnapshotDistribution [frame_keeps]: "keeps R (deleteRepoSnapshotDistribution pulp snap)"
  unfolding deleteRepoSnapshotDistribution_def by (auto intro!: frame_keeps simp del: returnIO_apply)

lemma step_delete_latest [frame_keeps]: "keeps R (delete_latest d pulp)"
  unfolding delete_latest_def Let_def by (auto intro!: frame_keeps simp del: returnIO_apply split: option.split)

lemma step_repo_distribution [frame_keeps]: "keeps R (delete_template_repo_distribution d pulp T)"
  unfolding delete_template_repo_distribution_def by (auto intro!: frame_keeps simp del: returnIO_apply split: option.split)

lemma step_repo_distributions [frame_keeps]: "keeps R (deleteTemplateRepoDistributions d pulp)"
  unfolding deleteTemplateRepoDistributions_def templates_of_repo_def
  by (auto intro!: frame_keeps simp del: returnIO_apply split: prod.split)

lemma step_remote [frame_keeps]: "keeps R (deleteRpmRemoteIfFound pulp name)"
  unfolding deleteRpmRemoteIfFound_def by (auto intro!: frame_keeps simp del: returnIO_apply split: option.split)

lemma step_repository [frame_keeps]: "keeps R (deleteRpmRepositoryIfFound pulp name)"
  unfolding deleteRpmRepositoryIfFound_def by (auto intro!: frame_keeps simp del: returnIO_apply split: option.split)

lemma step_repoAndRemote [frame_keeps]: "keeps R (deleteRpmRepoAndRemote d pulp)"
  unfolding deleteRpmRepoAndRemote_def by (intro frame_keeps)

end

section \<open>The snapshots\<close>

lemma shed_one:
  "u \<in> U \<Longrightarrow> \<exists>D\<subseteq>U. delete_where (\<lambda>x. key x = u) xs = filter (\<lambda>x. key x \<notin> D) xs"
  by (intro exI [of _ "{u}"]) (simp add: delete_where_def)

lemma shedding_associations:
  assumes "u \<in> U"
  shows "keeps (shedding U) (DeleteTemplateSnapshot ctx u)"
  unfolding DeleteTemplateSnapshot_def
  using shed_one [OF assms, of trc_SnapshotUUID] shed_nothing [of U _ sn_UUID]
  by (intro frame_keeps shedding.step_exec) (simp add: shedding_def, blast)

lemma shedding_snapshot:
  assumes "u \<in> U"
  shows "keeps (shedding U) (Snapshot_Delete ctx u)"
proof (rule keepsI)
  fix w :: "('p, 'x) db_world_scheme"
  obtain r w' where run: "Snapshot_Delete ctx u w = (r, w')" by (cases "Snapshot_Delete ctx u w")
  obtain x w1 where f: "Snapshot_FetchModel ctx u True w = (x, w1)" by (cases "Snapshot_FetchModel ctx u True w")
  have w1: "shedding U w w1" by (rule shedding.run [OF shedding.step_reads(1) f])
  show "shedding U w (snd (Snapshot_Delete ctx u w))"
  proof (cases x)
    case (Inl e)
    with f w1 show ?thesis by (simp add: Snapshot_Delete_def bindIO_def)
  next
    case (Inr snap)
    have u: "sn_UUID snap = u" using f Inr unfolding Snapshot_FetchModel_def by (auto elim!: queryIO_success dest: find_mem)
    have "keeps (shedding U) (dbIO ctx (delete_snapshot_row u) :: (unit, ('p, 'x) db_world_scheme) io)"
      using shed_one [OF assms, of sn_UUID] shed_nothing [of U _ trc_SnapshotUUID] shedding_rows reflpD [OF same_rows_order(1)]
      by (intro shedding.step_db) (auto simp: delete_snapshot_row_def shedding_def config_key_update config_key_def)
    from keepsD [OF this, of w1] shedding_trans [OF w1] f Inr u show ?thesis by (simp add: Snapshot_Delete_def bindIO_def)
  qed
qed

lemma shedding_one:
  assumes "sn_UUID snap \<in> U"
  shows "keeps (shedding U) (delete_repo_snapshot pulp snap)"
  unfolding delete_repo_snapshot_def deleteTemplateSnapshot_def deleteRepoSnapshotRow_def
  by (intro frame_keeps shedding_associations shedding_snapshot assms)

lemma shedding_all:
  "\<forall>s\<in>set snaps. sn_UUID s \<in> U \<Longrightarrow> keeps (shedding U) (collectIO (delete_repo_snapshot pulp) snaps)"
  by (induction snaps) (auto intro!: frame_keeps shedding_one simp del: returnIO_apply)

text \<open>The snapshots of a repository, by their identifiers.\<close>

definition own_snapshots :: "string \<Rightarrow> ('p, 'x) db_world_scheme \<Rightarrow> string set" where
  "own_snapshots rc w = set (map sn_UUID (filter (\<lambda>s. sn_RepositoryConfigurationUUID s = rc) (tw_snapshots w)))"

lemma own_snapshots_rows: "same_rows w w' \<Longrightarrow> own_snapshots rc w' = own_snapshots rc w"
  by (simp add: own_snapshots_def same_rows_def same_tables_def)

lemma fetched_are_own:
  assumes "handleIO (FetchForRepoConfigUUID TaskCtx rc True) (\<lambda>_. returnIO []) w = (Inr snaps, w')"
  shows "\<forall>s\<in>set snaps. sn_UUID s \<in> own_snapshots rc w"
proof -
  have "snaps = [] \<or> FetchForRepoConfigUUID TaskCtx rc True w = (Inr snaps, w')"
    using assms by (auto simp: handleIO_def split: prod.splits sum.splits if_splits)
  then show ?thesis
    by (auto simp: FetchForRepoConfigUUID_def own_snapshots_def same_tables_def elim!: queryIO_success)
qed

lemma shedding_content: "shedding (own_snapshots (dr_RepoConfigUUID d) w) w (snd (delete_pulp_content d pulp w))"
proof -
  let ?fetch = "handleIO (FetchForRepoConfigUUID TaskCtx (dr_RepoConfigUUID d) True) (\<lambda>_. returnIO [])"
  obtain r w1 where f: "?fetch w = (r, w1)" by (cases "?fetch w")
  have "keeps same_rows ?fetch" by (intro frame_keeps)
  from rows.run [OF this f] have w1: "same_rows w w1" .
  show ?thesis
  proof (cases r)
    case (Inl e)
    with f w1 show ?thesis by (simp add: delete_pulp_content_def bindIO_def shedding_rows)
  next
    case (Inr snaps)
    let ?U = "own_snapshots (dr_RepoConfigUUID d) w"
    have "keeps (shedding ?U) (bindIO (delete_latest d pulp) (\<lambda>_. bindIO (deleteTemplateRepoDistributions d pulp) (\<lambda>_.
        bindIO (joinIO (collectIO (delete_repo_snapshot pulp) snaps)) (\<lambda>_. deleteRpmRepoAndRemote d pulp))))"
      using fetched_are_own [OF f [unfolded Inr]] by (intro frame_keeps shedding_all)
    from keepsD [OF this, of w1] show ?thesis
      using f Inr shedding_trans [OF shedding_rows [OF w1]] by (simp add: delete_pulp_content_def bindIO_def)
  qed
qed

section \<open>The configuration\<close>

definition has_config :: "string \<Rightarrow> string \<Rightarrow> ('p, 'x) db_world_scheme \<Rightarrow> bool" where
  "has_config orgID rc w \<longleftrightarrow> (\<exists>c\<in>set (tw_configs w). co_UUID c = rc \<and> co_OrgID c = orgID)"

lemma has_config_iff: "has_config orgID rc w \<longleftrightarrow> (\<exists>d. (rc, orgID, d) \<in> set (map config_key (tw_configs w)))"
  by (auto simp: has_config_def config_key_def image_iff)

lemma Config_Delete_success:
  assumes "RepositoryConfig_Delete ctx orgID rc w = (Inr u, w')"
  shows "has_config orgID rc w" "own_snapshots rc w = {}" "tw_snapshots w' = tw_snapshots w" "tw_templates w' = tw_templates w"
    "tw_configs w' = filter (\<lambda>c. co_UUID c \<noteq> rc) (tw_configs w)" "tw_trcs w' = filter (\<lambda>r. trc_RepositoryConfigurationUUID r \<noteq> rc) (tw_trcs w)"
proof -
  obtain c w1 where f: "queryIO ctx (\<lambda>w. record_or_not_found (find (\<lambda>c. co_UUID c = rc \<and> co_OrgID c = orgID) (tw_configs w))) w = (Inr c, w1)"
    and d: "dbIO ctx (\<lambda>w. if list_ex (\<lambda>s. sn_RepositoryConfigurationUUID s = rc) (tw_snapshots w) then (Inl snapshots_remain, w)
       else (Inr (), w\<lparr>tw_configs := delete_where (\<lambda>c. co_UUID c = rc) (tw_configs w),
              tw_trcs := delete_where (\<lambda>t. trc_RepositoryConfigurationUUID t = rc) (tw_trcs w)\<rparr>)) w1 = (Inr u, w')"
    using assms unfolding RepositoryConfig_Delete_def by (auto elim!: bindIO_successE)
  have w1: "same_tables w w1" "c \<in> set (tw_configs w) \<and> co_UUID c = rc \<and> co_OrgID c = orgID"
    using f by (auto elim!: queryIO_success simp: same_tables_def dest: find_mem)
  then show "has_config orgID rc w" unfolding has_config_def by blast
  from d w1(1) show "own_snapshots rc w = {}" "tw_snapshots w' = tw_snapshots w" "tw_templates w' = tw_templates w"
    "tw_configs w' = filter (\<lambda>c. co_UUID c \<noteq> rc) (tw_configs w)" "tw_trcs w' = filter (\<lambda>r. trc_RepositoryConfigurationUUID r \<noteq> rc) (tw_trcs w)"
    by (auto elim!: dbIO_success simp: own_snapshots_def same_tables_def delete_where_def list_ex_iff split: if_splits)
qed

lemma Config_Delete_failure:
  assumes "RepositoryConfig_Delete ctx orgID rc w = (Inl e, w')"
  shows "same_tables w w'" and "honest reg w \<Longrightarrow> NotFound e \<Longrightarrow> \<not> has_config orgID rc w"
proof -
  have "honest_error snapshots_remain" by (simp add: honest_error_def NotFound_def snapshots_remain_def ErrRecordNotFound_def)
  note failure = find_then_failure [OF assms [unfolded RepositoryConfig_Delete_def] _ repository_error_honest]
  show "same_tables w w'" by (rule failure(1)) (use \<open>honest_error snapshots_remain\<close> in \<open>auto simp: same_tables_def split: if_splits\<close>)
  have "honest reg w \<Longrightarrow> NotFound e \<Longrightarrow> find (\<lambda>c. co_UUID c = rc \<and> co_OrgID c = orgID) (tw_configs w) = None"
    by (rule failure(2)) (use \<open>honest_error snapshots_remain\<close> in \<open>auto simp: same_tables_def split: if_splits\<close>)
  then show "honest reg w \<Longrightarrow> NotFound e \<Longrightarrow> \<not> has_config orgID rc w" by (auto simp: has_config_def find_None_iff)
qed

section \<open>A concrete deletion\<close>

definition repo_zest :: "demo_pulp zest" where
  "repo_zest = snap_zest\<lparr>z_RemotesDelete := \<lambda>_ p. (ZestOk answer200 ''del'', p), z_RepositoriesDelete := \<lambda>_ p. (ZestOk answer200 ''del'', p)\<rparr>"

definition demo_repo_deletion :: "demo_pulp DeleteRepositorySnapshots" where
  "demo_repo_deletion = \<lparr>dr_OrgId = ''acme'', dr_RepoConfigUUID = ''r1'', dr_daoReg = demo_registry, dr_pulpClient = Some (demo_client\<lparr>p_zest := repo_zest\<rparr>),
     dr_cpClient = demo_candlepin, dr_PulpConfigured = True, dr_CandlepinConfigured = True\<rparr>"

section \<open>Properties\<close>

lemma other_snapshots_kept:
  assumes "shedding (own_snapshots rc w) w w1" "distinct (map sn_UUID (tw_snapshots w))"
  shows "filter (\<lambda>s. sn_RepositoryConfigurationUUID s \<noteq> rc) (tw_snapshots w1) = filter (\<lambda>s. sn_RepositoryConfigurationUUID s \<noteq> rc) (tw_snapshots w)"
proof -
  from assms(1) obtain D where D: "D \<subseteq> own_snapshots rc w" "tw_snapshots w1 = filter (\<lambda>s. sn_UUID s \<notin> D) (tw_snapshots w)" by (auto simp: shedding_def)
  have "inj_on sn_UUID (set (tw_snapshots w))" using assms(2) by (simp add: distinct_map)
  then have "sn_UUID s \<notin> D" if "s \<in> set (tw_snapshots w)" "sn_RepositoryConfigurationUUID s \<noteq> rc" for s
    using D(1) that by (auto simp: own_snapshots_def dest: inj_onD)
  then show ?thesis unfolding D(2) by (auto intro!: filter_cong)
qed

lemma shedding_before:
  fixes w :: "('p, 'x) db_world_scheme"
  assumes run: "DeleteRepositorySnapshots_Run d w = (r, w')"
  obtains e where "r = Inl e" "shedding (own_snapshots (dr_RepoConfigUUID d) w) w w'"
  | w1 where "deleteRepoConfig d w1 = (r, w')" "shedding (own_snapshots (dr_RepoConfigUUID d) w) w w1"
proof -
  let ?U = "own_snapshots (dr_RepoConfigUUID d) w"
  let ?pulp = "case dr_pulpClient d of Some pulp \<Rightarrow> whenIO (dr_PulpConfigured d) (delete_pulp_content d pulp) | None \<Rightarrow> returnIO ()"
  obtain x w0 where c: "deleteCandlepinContent d w = (x, w0)" by (cases "deleteCandlepinContent d w")
  have w0: "same_rows w w0" by (rule rows.run [OF rows.step_candlepinContent c])
  obtain y w1 where p: "?pulp w0 = (y, w1)" by (cases "?pulp w0")
  have "shedding ?U w0 (snd (?pulp w0))"
    using shedding_content [of d w0] own_snapshots_rows [OF w0] shedding_rows [OF reflpD [OF same_rows_order(1)]]
    by (auto simp: whenIO_def split: option.split)
  with p have w1: "shedding ?U w w1" using shedding_trans [OF shedding_rows [OF w0]] by simp
  show thesis
  proof (cases x)
    case (Inl e)
    with run c have "r = Inl e" "w' = w0" by (auto simp: DeleteRepositorySnapshots_Run_def bindIO_def)
    with w0 show thesis using that(1) shedding_rows by blast
  next
    case (Inr a)
    have "bindIO ?pulp (\<lambda>_. deleteRepoConfig d) w0 = (r, w')"
      using run c Inr by (simp add: DeleteRepositorySnapshots_Run_def bindIO_Inr [of "deleteCandlepinContent d"])
    with p w1 that show thesis by (cases y) (auto simp: bindIO_def)
  qed
qed

text \<open>
  C33. Deleting a repository never touches another repository's snapshots nor any template, and an
  association is only deleted if it is with the repository or one of its snapshots. A deletion that
  fails leaves the configuration, so that it can be run again; one that succeeds has deleted, if the
  repository was the organisation's, the configuration, all snapshots and all associations with it.
\<close>

theorem repository_deletion:
  assumes run: "DeleteRepositorySnapshots_Run d w = (r, w')" and h: "honest (dr_daoReg d) w" and u: "distinct (map sn_UUID (tw_snapshots w))"
  defines "rc \<equiv> dr_RepoConfigUUID d"
  shows "tw_templates w' = tw_templates w \<and>
    filter (\<lambda>s. sn_RepositoryConfigurationUUID s \<noteq> rc) (tw_snapshots w') = filter (\<lambda>s. sn_RepositoryConfigurationUUID s \<noteq> rc) (tw_snapshots w) \<and>
    (\<forall>t\<in>set (tw_trcs w). t \<in> set (tw_trcs w') \<or> trc_RepositoryConfigurationUUID t = rc \<or> trc_SnapshotUUID t \<in> own_snapshots rc w) \<and>
    (case r of
       Inl _ \<Rightarrow> map config_key (tw_configs w') = map config_key (tw_configs w)
     | Inr _ \<Rightarrow>
         if has_config (dr_OrgId d) rc w
         then own_snapshots rc w' = {} \<and> (\<forall>c\<in>set (tw_configs w'). co_UUID c \<noteq> rc) \<and> (\<forall>t\<in>set (tw_trcs w'). trc_RepositoryConfigurationUUID t \<noteq> rc)
         else map config_key (tw_configs w') = map config_key (tw_configs w))"
proof -
  let ?U = "own_snapshots rc w"
  have kept: "tw_templates w1 = tw_templates w \<and> map config_key (tw_configs w1) = map config_key (tw_configs w) \<and>
      (\<forall>t\<in>set (tw_trcs w). t \<in> set (tw_trcs w1) \<or> trc_SnapshotUUID t \<in> ?U) \<and>
      filter (\<lambda>s. sn_RepositoryConfigurationUUID s \<noteq> rc) (tw_snapshots w1) = filter (\<lambda>s. sn_RepositoryConfigurationUUID s \<noteq> rc) (tw_snapshots w)"
    if "shedding ?U w w1" for w1
    using other_snapshots_kept [OF that u] that by (auto simp: shedding_def)
  from run show ?thesis
  proof (cases rule: shedding_before)
    case (1 e)
    with kept [of w'] show ?thesis by (auto simp: rc_def)
  next
    case (2 w1)
    have s: "shedding ?U w w1" using 2(2) by (simp add: rc_def)
    have h1: "honest (dr_daoReg d) w1" using h s by (auto simp: honest_def shedding_def)
    have c1: "has_config (dr_OrgId d) rc w1 \<longleftrightarrow> has_config (dr_OrgId d) rc w"
      using kept [OF s] unfolding has_config_iff by simp
    from 2(1) [unfolded deleteRepoConfig_def, folded rc_def] show ?thesis
    proof (cases rule: optional_outcome)
      case (finished v)
      note del = Config_Delete_success [OF finished(2)]
      have "own_snapshots rc w' = {}" using del(2,3) by (simp add: own_snapshots_def)
      with finished(1) del kept [OF s] c1 show ?thesis by auto
    next
      case (missing e)
      with Config_Delete_failure [OF missing(2)] kept [OF s] h1 c1 show ?thesis by (auto simp: same_tables_def)
    next
      case (failed e e')
      with Config_Delete_failure(1) [OF failed(2)] kept [OF s] show ?thesis by (auto simp: same_tables_def)
    qed
  qed
qed

theorem repository_deletion_witness:
  "own_snapshots ''r1'' demo_content = {''s1'', ''s2''} \<and>
   own_snapshots ''r1'' (snd (DeleteRepositorySnapshots_Run demo_repo_deletion demo_content)) = {}"
proof
  show "own_snapshots ''r1'' demo_content = {''s1'', ''s2''}" by (simp add: own_snapshots_def demo_content_def demo_snapshot_def)
  let ?run = "DeleteRepositorySnapshots_Run demo_repo_deletion demo_content"
  have "fst ?run = Inr ()" by code_simp
  then have run: "?run = (Inr (), snd ?run)" by (cases ?run) auto
  have h: "honest (dr_daoReg demo_repo_deletion) demo_content"
    by (simp add: honest_def demo_content_def demo_repo_deletion_def demo_registry_def honest_error_def NotFound_def ErrRecordNotFound_def)
  have u: "distinct (map sn_UUID (tw_snapshots demo_content))" by (simp add: demo_content_def demo_snapshot_def)
  have c: "has_config (dr_OrgId demo_repo_deletion) (dr_RepoConfigUUID demo_repo_deletion) demo_content" "dr_RepoConfigUUID demo_repo_deletion = ''r1''"
    by (simp_all add: has_config_def demo_content_def demo_repo_deletion_def demo_repo_config_def)
  from repository_deletion [OF run h u] c show "own_snapshots ''r1'' (snd ?run) = {}" by simp
qed

end
