(* ===== verification/RepositoryRows.thy ===== *)
theory RepositoryRows
  imports ContentDB
begin

text \<open>
  The tables of repositories and their configurations as the requests of users change them
  (\<open>pkg/dao/repository_configs.go\<close> over \<open>pkg/models\<close>): rows are the models with the columns users set,
  and a statement runs the model's hooks and then meets the constraints of the tables
  (\<open>db/migrations\<close>). \<open>ContentDB\<close> has the same tables with the columns that tasks use.
\<close>

section \<open>State\<close>

text \<open>A configuration as it is stored; \<open>rc_Origin\<close>, which is the repository's, is blank there.\<close>

record stored_config =
  sc_Config :: RepositoryConfiguration
  sc_Deleted :: bool

text \<open>
  \<open>rw_faults\<close> are the errors of the statements, in order; \<open>rw_made\<close> counts the UUIDs that were made. The
  stream of UUIDs, the random suffixes of labels, the clock and \<open>url.ParseRequestURI\<close> are parameters.
\<close>

record repo_world =
  rw_repositories :: "Repository list"
  rw_configs :: "stored_config list"
  rw_faults :: "go_error option list"
  rw_made :: nat

record repo_env =
  ev_uuid :: "nat \<Rightarrow> string"
  ev_random :: "nat \<Rightarrow> string"
  ev_now :: "nat \<Rightarrow> timestamp"
  ev_ParseRequestURI :: "string \<Rightarrow> bool"

type_synonym 'a repo_io = "('a, repo_world) io"

definition callDB :: "(repo_world \<Rightarrow> 'a result \<times> repo_world) \<Rightarrow> 'a repo_io" where
  "callDB f = (\<lambda>w.
     let w1 = w\<lparr>rw_faults := tl (rw_faults w)\<rparr> in
     case rw_faults w of Some err # _ \<Rightarrow> (Inl err, w1) | _ \<Rightarrow> f w1)"

definition selectDB :: "(repo_world \<Rightarrow> 'a result) \<Rightarrow> 'a repo_io" where
  "selectDB q = callDB (\<lambda>w. (q w, w))"

definition rollback_to :: "repo_world \<Rightarrow> repo_world \<Rightarrow> repo_world" where
  "rollback_to save w = w\<lparr>rw_repositories := rw_repositories save, rw_configs := rw_configs save\<rparr>"

text \<open>A configuration with the repository it is of, as preloading reads them.\<close>

definition repository_of :: "repo_world \<Rightarrow> RepositoryConfiguration \<Rightarrow> Repository option" where
  "repository_of w c = find (\<lambda>r. r_UUID r = rc_RepositoryUUID c) (rw_repositories w)"

definition live_configs :: "repo_world \<Rightarrow> RepositoryConfiguration list" where
  "live_configs w = map sc_Config (filter (\<lambda>s. \<not> sc_Deleted s) (rw_configs w))"

section \<open>Constraints\<close>

definition unique_violation :: "string \<Rightarrow> go_error" where
  "unique_violation constraint =
     PgError (''duplicate key value violates unique constraint '' @ [CHR 34] @ constraint @ [CHR 34]) ''23505'' constraint"

text \<open>Blank columns of these are null, and nulls are different from each other.\<close>

definition repository_conflict :: "repo_world \<Rightarrow> Repository \<Rightarrow> string option" where
  "repository_conflict w r =
     (if r_URL r \<noteq> '''' \<and> list_ex (\<lambda>o'. r_URL o' = r_URL r \<and> r_Origin o' = r_Origin r) (rw_repositories w)
      then Some ''repositories_unique_url_origin'' else None)"

definition config_conflict :: "repo_world \<Rightarrow> RepositoryConfiguration \<Rightarrow> string option" where
  "config_conflict w c =
     (let others = filter (\<lambda>o'. rc_UUID o' \<noteq> rc_UUID c \<and> rc_OrgID o' = rc_OrgID c) (live_configs w) in
      if list_ex (\<lambda>o'. rc_Name o' = rc_Name c) others then Some ''repo_config_name_deleted_org_id_unique''
      else if list_ex (\<lambda>o'. rc_RepositoryUUID o' = rc_RepositoryUUID c) others then Some ''repo_config_repo_org_id_deleted_null_unique''
      else if list_ex (\<lambda>o'. rc_Label o' = rc_Label c) others then Some ''repo_config_label_deleted_org_id_unique''
      else None)"

definition fk_repository :: go_error where
  "fk_repository = PgError ''insert or update on table violates foreign key constraint'' ''23503'' ''fk_repository''"

section \<open>Statements\<close>

definition model_err :: "model_error \<Rightarrow> go_error" where
  "model_err e = ModelErr (me_Message e) (me_Validation e)"

text \<open>The defaults of columns that are left blank.\<close>

definition repository_defaults :: "Repository \<Rightarrow> Repository" where
  "repository_defaults r = r
     \<lparr>r_Origin := (if r_Origin r = '''' then OriginExternal else r_Origin r),
      r_LastIntrospectionStatus := (if r_LastIntrospectionStatus r = '''' then StatusPending else r_LastIntrospectionStatus r)\<rparr>"

definition create_repository :: "repo_env \<Rightarrow> Repository \<Rightarrow> Repository repo_io" where
  "create_repository ev repo = (\<lambda>w.
     let n = rw_made w; w0 = w\<lparr>rw_made := n + 1\<rparr> in
     case repository_BeforeCreate (ev_ParseRequestURI ev) (ev_uuid ev n) (ev_now ev n) repo of
       Inl e \<Rightarrow> (Inl (model_err e), w0)
     | Inr r \<Rightarrow>
         (let r = repository_defaults r in
          callDB (\<lambda>w. case repository_conflict w r of
              Some c \<Rightarrow> (Inl (unique_violation c), w)
            | None \<Rightarrow> (Inr r, w\<lparr>rw_repositories := rw_repositories w @ [r]\<rparr>)) w0))"

text \<open>\<open>FirstOrCreate\<close>: the first row (by the primary key) that satisfies the condition, or a new one.\<close>

definition by_uuid :: "Repository \<Rightarrow> Repository \<Rightarrow> bool" where
  "by_uuid r s = (r_UUID r < r_UUID s)"

definition first_or_create :: "repo_env \<Rightarrow> (Repository \<Rightarrow> bool) \<Rightarrow> Repository \<Rightarrow> Repository repo_io" where
  "first_or_create ev cond repo =
     bindIO (selectDB (\<lambda>w. Inr (pick by_uuid (filter cond (rw_repositories w))))) (\<lambda>found.
       case found of Some r \<Rightarrow> returnIO r | None \<Rightarrow> create_repository ev repo)"

text \<open>How many of the organisation's configurations have a label. This count does not fail here.\<close>

definition labels_taken :: "repo_world \<Rightarrow> string \<Rightarrow> string \<Rightarrow> nat option" where
  "labels_taken w orgID label = Some (length (filter (\<lambda>c. rc_OrgID c = orgID \<and> rc_Label c = label) (live_configs w)))"

definition store :: "RepositoryConfiguration \<Rightarrow> stored_config" where
  "store c = \<lparr>sc_Config = c\<lparr>rc_Origin := ''''\<rparr>, sc_Deleted = False\<rparr>"

definition create_config :: "repo_env \<Rightarrow> RepositoryConfiguration \<Rightarrow> RepositoryConfiguration repo_io" where
  "create_config ev c = (\<lambda>w.
     let n = rw_made w; w0 = w\<lparr>rw_made := n + 1\<rparr> in
     case rc_BeforeCreate (labels_taken w) (ev_random ev n) (ev_uuid ev n) c of
       Inl e \<Rightarrow> (Inl (model_err e), w0)
     | Inr c \<Rightarrow>
         callDB (\<lambda>w. case config_conflict w c of
             Some constraint \<Rightarrow> (Inl (unique_violation constraint), w)
           | None \<Rightarrow>
               if repository_of w c = None then (Inl fk_repository, w)
               else (Inr c, w\<lparr>rw_configs := rw_configs w @ [store c]\<rparr>)) w0)"

text \<open>
  The columns of \<open>MapForUpdate\<close>. The statement has them as a map, so that the hook's \<open>SetColumn\<close> changes
  that map and the model is validated as it was.
\<close>

definition hook_columns :: "RepositoryConfiguration \<Rightarrow> RepositoryConfiguration" where
  "hook_columns c = c
     \<lparr>rc_Versions := Some (if rc_Versions c = Some [] then [ANY_VERSION] else sort (dedup_from [] (versions c))),
      rc_Arch := (if rc_Arch c = '''' then ANY_ARCH else rc_Arch c)\<rparr>"

definition set_config_columns :: "RepositoryConfiguration \<Rightarrow> RepositoryConfiguration \<Rightarrow> RepositoryConfiguration" where
  "set_config_columns new c = c\<lparr>rc_Name := rc_Name new, rc_Arch := rc_Arch new, rc_Versions := rc_Versions new, rc_GpgKey := rc_GpgKey new,
     rc_MetadataVerification := rc_MetadataVerification new, rc_AccountID := rc_AccountID new, rc_OrgID := rc_OrgID new,
     rc_RepositoryUUID := rc_RepositoryUUID new, rc_Snapshot := rc_Snapshot new, rc_ModuleHotfixes := rc_ModuleHotfixes new\<rparr>"

definition live_row :: "string \<Rightarrow> stored_config \<Rightarrow> bool" where
  "live_row uuid s = (rc_UUID (sc_Config s) = uuid \<and> \<not> sc_Deleted s)"

definition update_config :: "RepositoryConfiguration \<Rightarrow> unit repo_io" where
  "update_config c = (\<lambda>w.
     case rc_validate c of
       Some e \<Rightarrow> (Inl (model_err e), w)
     | None \<Rightarrow>
         callDB (\<lambda>w. case find (live_row (rc_UUID c)) (rw_configs w) of
             None \<Rightarrow> (Inr (), w)
           | Some s \<Rightarrow>
               (let new = set_config_columns (hook_columns c) (sc_Config s) in
                case config_conflict w new of
                  Some constraint \<Rightarrow> (Inl (unique_violation constraint), w)
                | None \<Rightarrow>
                    if repository_of w new = None then (Inl fk_repository, w)
                    else (Inr (), w\<lparr>rw_configs := update_where (live_row (rc_UUID c)) (\<lambda>s. s\<lparr>sc_Config := new\<rparr>) (rw_configs w)\<rparr>))) w)"

definition soft_delete_config :: "string \<Rightarrow> unit repo_io" where
  "soft_delete_config uuid = callDB (\<lambda>w. (Inr (), w\<lparr>rw_configs :=
     update_where (live_row uuid) (\<lambda>s. s\<lparr>sc_Deleted := True\<rparr>) (rw_configs w)\<rparr>))"

section \<open>Transactions\<close>

text \<open>
  The bulk operations: each request in its turn, after an error back to the savepoint and on; with any
  error the whole is rolled back. The error of the transaction itself is dropped.
\<close>

primrec bulk_loop :: "('a \<Rightarrow> 'b repo_io) \<Rightarrow> repo_world \<Rightarrow> 'a list \<Rightarrow> 'b result list repo_io" where
  "bulk_loop f save [] = returnIO []"
| "bulk_loop f save (x # xs) =
     bindIO (caseIO (f x) (\<lambda>err w. (Inr (Inl err), rollback_to save w)) (\<lambda>r. returnIO (Inr r))) (\<lambda>r.
     bindIO (bulk_loop f save xs) (\<lambda>rs. returnIO (r # rs)))"

definition bulk_errors :: "'b result list \<Rightarrow> go_error option list" where
  "bulk_errors rs = (if list_ex isl rs then map (\<lambda>r. case r of Inl e \<Rightarrow> Some e | Inr _ \<Rightarrow> None) rs else [])"

definition bulk_responses :: "'b result list \<Rightarrow> 'b list" where
  "bulk_responses rs = (if list_ex isl rs then [] else map projr rs)"

definition bulk :: "('a \<Rightarrow> 'b repo_io) \<Rightarrow> 'a list \<Rightarrow> ('b list \<times> go_error option list) repo_io" where
  "bulk f xs = (\<lambda>w.
     case callDB (Pair (Inr ())) w of
       (Inl _, w1) \<Rightarrow> (Inr ([], []), w1)
     | (Inr _, w1) \<Rightarrow>
         (case bulk_loop f w1 xs w1 of
            (Inl panic, w2) \<Rightarrow> (Inl panic, rollback_to w1 w2)
          | (Inr rs, w2) \<Rightarrow>
              if list_ex isl rs then (Inr (bulk_responses rs, bulk_errors rs), rollback_to w1 w2)
              else
                (case callDB (Pair (Inr ())) w2 of
                   (Inl _, w3) \<Rightarrow> (Inr (bulk_responses rs, []), rollback_to w1 w3)
                 | (Inr _, w3) \<Rightarrow> (Inr (bulk_responses rs, []), w3))))"

text \<open>A transaction whose error is answered.\<close>

definition transaction :: "'a repo_io \<Rightarrow> 'a repo_io" where
  "transaction body = (\<lambda>w.
     case callDB (Pair (Inr ())) w of
       (Inl e, w1) \<Rightarrow> (Inl e, w1)
     | (Inr _, w1) \<Rightarrow>
         (case body w1 of
            (Inl e, w2) \<Rightarrow> (Inl e, rollback_to w1 w2)
          | (Inr a, w2) \<Rightarrow>
              (case callDB (Pair (Inr ())) w2 of
                 (Inl e, w3) \<Rightarrow> (Inl e, rollback_to w1 w3)
               | (Inr _, w3) \<Rightarrow> (Inr a, w3))))"

end
