(* ===== verification/RepositoryConfigs.thy ===== *)
theory RepositoryConfigs
  imports RepositoryRows
begin

text \<open>
  Creating, importing, changing, deleting and checking repository configurations
  (\<open>pkg/dao/repository_configs.go\<close>). A response is the configuration with its repository, whose fields
  \<open>ModelToApiFields\<close> copies. Notifications are left out.
\<close>

section \<open>Requests\<close>

record RepositoryRequest =
  q_AccountID :: "string option"
  q_OrgID :: "string option"
  q_Origin :: "string option"
  q_Name :: "string option"
  q_URL :: "string option"
  q_DistributionVersions :: "string list option"
  q_DistributionArch :: "string option"
  q_GpgKey :: "string option"
  q_MetadataVerification :: "bool option"
  q_ModuleHotfixes :: "bool option"
  q_Snapshot :: "bool option"

record RepositoryUpdateRequest =
  p_Name :: "string option"
  p_URL :: "string option"
  p_DistributionVersions :: "string list option"
  p_DistributionArch :: "string option"
  p_GpgKey :: "string option"
  p_MetadataVerification :: "bool option"
  p_ModuleHotfixes :: "bool option"
  p_Snapshot :: "bool option"

definition ToRepositoryUpdateRequest :: "RepositoryRequest \<Rightarrow> RepositoryUpdateRequest" where
  "ToRepositoryUpdateRequest r =
     \<lparr>p_Name = q_Name r, p_URL = q_URL r, p_DistributionVersions = q_DistributionVersions r, p_DistributionArch = q_DistributionArch r,
      p_GpgKey = q_GpgKey r, p_MetadataVerification = q_MetadataVerification r, p_ModuleHotfixes = q_ModuleHotfixes r, p_Snapshot = q_Snapshot r\<rparr>"

definition or_default :: "'a option \<Rightarrow> 'a \<Rightarrow> 'a option" where
  "or_default v d = (case v of None \<Rightarrow> Some d | Some a \<Rightarrow> Some a)"

definition update_FillDefaults :: "RepositoryUpdateRequest \<Rightarrow> RepositoryUpdateRequest" where
  "update_FillDefaults r = r
     \<lparr>p_Name := or_default (p_Name r) '''', p_URL := or_default (p_URL r) '''', p_DistributionVersions := or_default (p_DistributionVersions r) [''any''],
      p_DistributionArch := or_default (p_DistributionArch r) ''any'', p_GpgKey := or_default (p_GpgKey r) '''',
      p_MetadataVerification := or_default (p_MetadataVerification r) False, p_ModuleHotfixes := or_default (p_ModuleHotfixes r) False\<rparr>"

definition FillDefaults :: "string option \<Rightarrow> string option \<Rightarrow> RepositoryRequest \<Rightarrow> RepositoryRequest" where
  "FillDefaults accountID orgID r = r
     \<lparr>q_AccountID := accountID, q_OrgID := orgID, q_Origin := or_default (q_Origin r) OriginExternal,
      q_Name := or_default (q_Name r) '''', q_URL := or_default (q_URL r) '''', q_DistributionVersions := or_default (q_DistributionVersions r) [''any''],
      q_DistributionArch := or_default (q_DistributionArch r) ''any'', q_GpgKey := or_default (q_GpgKey r) '''',
      q_MetadataVerification := or_default (q_MetadataVerification r) False, q_ModuleHotfixes := or_default (q_ModuleHotfixes r) False\<rparr>"

type_synonym repo_response = "RepositoryConfiguration \<times> Repository"

definition EPELUrls :: "string list" where
  "EPELUrls = [''https://dl.fedoraproject.org/pub/epel/10/Everything/x86_64/'', ''https://dl.fedoraproject.org/pub/epel/9/Everything/x86_64/'',
     ''https://dl.fedoraproject.org/pub/epel/8/Everything/x86_64/'']"

definition errMsgCustomEpelRepoCreationNotPermitted :: string where
  "errMsgCustomEpelRepoCreationNotPermitted = ''creating of EPEL repositories is not permitted, please use the community repositories''"

definition rejectsCustomEpelRepository :: "string option \<Rightarrow> string option \<Rightarrow> bool" where
  "rejectsCustomEpelRepository origin url =
     (origin = Some OriginCommunity \<or> (case url of None \<Rightarrow> False | Some u \<Rightarrow> CleanupURL u \<in> set EPELUrls))"

definition isCreatableOrigin :: "string option \<Rightarrow> bool" where
  "isCreatableOrigin origin = (case origin of None \<Rightarrow> True | Some o' \<Rightarrow> o' \<in> set [OriginExternal, OriginUpload, ''''])"

definition set_some :: "'a option \<Rightarrow> ('a \<Rightarrow> 'm \<Rightarrow> 'm) \<Rightarrow> 'm \<Rightarrow> 'm" where
  "set_some v f m = (case v of None \<Rightarrow> m | Some a \<Rightarrow> f a m)"

definition update_fields ::
  "string option \<Rightarrow> string option \<Rightarrow> string list option \<Rightarrow> string option \<Rightarrow> bool option \<Rightarrow> bool option \<Rightarrow> bool option \<Rightarrow>
   RepositoryConfiguration \<Rightarrow> RepositoryConfiguration" where
  "update_fields name arch vs gpg metadata hotfixes snapshot c =
     set_some snapshot (\<lambda>v c. c\<lparr>rc_Snapshot := v\<rparr>) (set_some hotfixes (\<lambda>v c. c\<lparr>rc_ModuleHotfixes := v\<rparr>)
     (set_some metadata (\<lambda>v c. c\<lparr>rc_MetadataVerification := v\<rparr>) (set_some gpg (\<lambda>v c. c\<lparr>rc_GpgKey := v\<rparr>)
     (set_some vs (\<lambda>v c. c\<lparr>rc_Versions := Some v\<rparr>) (set_some arch (\<lambda>v c. c\<lparr>rc_Arch := v\<rparr>)
     (set_some name (\<lambda>v c. c\<lparr>rc_Name := v\<rparr>) c))))))"

definition ApiUpdateFieldsToModel ::
  "RepositoryUpdateRequest \<Rightarrow> RepositoryConfiguration \<Rightarrow> Repository \<Rightarrow> RepositoryConfiguration \<times> Repository" where
  "ApiUpdateFieldsToModel q c repo =
     (update_fields (p_Name q) (p_DistributionArch q) (p_DistributionVersions q) (p_GpgKey q) (p_MetadataVerification q) (p_ModuleHotfixes q) (p_Snapshot q) c,
      set_some (p_URL q) (\<lambda>v r. r\<lparr>r_URL := v\<rparr>) repo)"

definition ApiFieldsToModel ::
  "RepositoryRequest \<Rightarrow> RepositoryConfiguration \<Rightarrow> Repository \<Rightarrow> RepositoryConfiguration \<times> Repository" where
  "ApiFieldsToModel q c repo =
     (update_fields (q_Name q) (q_DistributionArch q) (q_DistributionVersions q) (q_GpgKey q) (q_MetadataVerification q) (q_ModuleHotfixes q) (q_Snapshot q) c,
      set_some (q_URL q) (\<lambda>v r. r\<lparr>r_URL := v\<rparr>)
        (if rc_UUID c = '''' then set_some (q_Origin q) (\<lambda>v r. r\<lparr>r_Origin := v\<rparr>) repo else repo))"

definition zero_config :: RepositoryConfiguration where
  "zero_config = \<lparr>rc_UUID = '''', rc_Name = '''', rc_Versions = None, rc_Arch = '''', rc_GpgKey = '''', rc_Label = '''', rc_MetadataVerification = False,
     rc_ModuleHotfixes = False, rc_AccountID = '''', rc_OrgID = '''', rc_RepositoryUUID = '''', rc_Origin = '''', rc_Snapshot = False,
     rc_ExtendedRelease = '''', rc_ExtendedReleaseVersion = ''''\<rparr>"

definition zero_repository :: Repository where
  "zero_repository = \<lparr>r_UUID = '''', r_URL = '''', r_RepomdChecksum = '''', r_Public = False, r_LastIntrospectionTime = None,
     r_LastIntrospectionSuccessTime = None, r_LastIntrospectionUpdateTime = None, r_LastIntrospectionError = None, r_LastIntrospectionStatus = '''',
     r_PackageCount = 0, r_BuildCount = 0, r_VersionCount = 0, r_FailedIntrospectionsCount = 0, r_Origin = '''', r_ContentType = ''rpm'',
     r_SecurityLevel = '''', r_PublishedDistURL = '''', r_PublishedDistBasePath = ''''\<rparr>"

section \<open>Reading\<close>

definition apiErr :: "'a repo_io \<Rightarrow> 'a repo_io" where
  "apiErr m = mapErrIO (\<lambda>e. RepositoryDBErrorToApi e None) m"

text \<open>\<open>fetchRepoConfig\<close> without the shared repositories; the repository is preloaded.\<close>

definition fetchOwnConfig :: "string \<Rightarrow> string \<Rightarrow> repo_response repo_io" where
  "fetchOwnConfig orgID uuid = mapErrIO (\<lambda>e. RepositoryDBErrorToApi e (Some uuid)) (selectDB (\<lambda>w.
     case find (\<lambda>c. rc_UUID c = uuid \<and> rc_OrgID c = orgID) (live_configs w) of
       None \<Rightarrow> Inl ErrRecordNotFound
     | Some c \<Rightarrow>
         (case repository_of w c of
            None \<Rightarrow> Inr (c, zero_repository)
          | Some r \<Rightarrow> Inr (c\<lparr>rc_Origin := r_Origin r\<rparr>, r))))"

text \<open>Configurations of given organisations whose repository has a URL. A blank URL is null, and equal to none.\<close>

definition has_url :: "string \<Rightarrow> Repository \<Rightarrow> bool" where
  "has_url url r = (r_URL r \<noteq> '''' \<and> r_URL r = url)"

definition configs_at :: "repo_world \<Rightarrow> string \<Rightarrow> string list \<Rightarrow> repo_response list" where
  "configs_at w url orgs =
     List.map_filter (\<lambda>c. case repository_of w c of
         Some r \<Rightarrow> if has_url url r \<and> rc_OrgID c \<in> set orgs then Some (c\<lparr>rc_Origin := r_Origin r\<rparr>, r) else None
       | None \<Rightarrow> None) (live_configs w)"

definition config_by_uuid :: "repo_response \<Rightarrow> repo_response \<Rightarrow> bool" where
  "config_by_uuid a b = (rc_UUID (fst a) < rc_UUID (fst b))"

section \<open>Creating\<close>

definition origin_not_permitted :: "string \<Rightarrow> go_error" where
  "origin_not_permitted origin =
     DaoLeaf (''creating repositories with origin '' @ [CHR 39] @ origin @ [CHR 39] @ '' is not permitted'') DaoBadValidation"

definition snapshot_required :: go_error where
  "snapshot_required = DaoLeaf ''Snapshot must be true for upload repositories'' DaoBadValidation"

definition the_string :: "string option \<Rightarrow> string" where
  "the_string v = (case v of None \<Rightarrow> '''' | Some s \<Rightarrow> s)"

definition same_url_origin :: "string \<Rightarrow> string \<Rightarrow> Repository \<Rightarrow> bool" where
  "same_url_origin url origin r = (has_url url r \<and> r_Origin r = origin)"

definition RepositoryConfig_Create :: "repo_env \<Rightarrow> RepositoryRequest \<Rightarrow> repo_response repo_io" where
  "RepositoryConfig_Create ev req =
     bindIO (deref (q_OrgID req)) (\<lambda>orgID.
       if orgID = RedHatOrg then failIO (Other ''creating of Red Hat repositories is not permitted'')
       else if orgID = LightwellOrg \<or> orgID = LightwellDemoOrg then failIO (Other ''creating of Lightwell repositories is not permitted'')
       else if orgID = CommunityOrg then failIO (Other errMsgCustomEpelRepoCreationNotPermitted)
       else if rejectsCustomEpelRepository (q_Origin req) (q_URL req)
       then failIO (DaoLeaf errMsgCustomEpelRepoCreationNotPermitted DaoBadValidation)
       else if \<not> isCreatableOrigin (q_Origin req) then failIO (origin_not_permitted (the_string (q_Origin req)))
       else
         (let origin = (if q_Origin req = None \<or> q_Origin req = Some '''' then OriginExternal else the_string (q_Origin req));
              req = req\<lparr>q_Origin := Some origin\<rparr>
          in
          if origin = OriginUpload \<and> q_Snapshot req \<noteq> Some True then failIO snapshot_required
          else
            (case ApiFieldsToModel req zero_config zero_repository of (c, repo) \<Rightarrow>
               bindIO (apiErr (if r_URL repo = '''' \<or> r_Origin repo = OriginUpload then create_repository ev repo
                 else first_or_create ev (same_url_origin (CleanupURL (r_URL repo)) (r_Origin repo)) repo)) (\<lambda>repo.
               bindIO (apiErr (create_config ev (c\<lparr>rc_OrgID := orgID, rc_AccountID := the_string (q_AccountID req),
                   rc_RepositoryUUID := r_UUID repo\<rparr>))) (\<lambda>c.
               bindIO (apiErr (fetchOwnConfig (rc_OrgID c) (rc_UUID c))) (\<lambda>(c, _). returnIO (c, repo)))))))"

text \<open>One round of \<open>bulkCreate\<close>.\<close>

definition bulk_create_one :: "repo_env \<Rightarrow> RepositoryRequest \<Rightarrow> repo_response repo_io" where
  "bulk_create_one ev req =
     (let origin = (case q_Origin req of None \<Rightarrow> OriginExternal | Some o' \<Rightarrow> o'); req = req\<lparr>q_Origin := Some origin\<rparr> in
      bindIO (deref (q_OrgID req)) (\<lambda>orgID.
        if orgID = RedHatOrg then failIO (Other ''creating of Red Hat repositories is not permitted'')
        else if orgID = CommunityOrg then failIO (Other errMsgCustomEpelRepoCreationNotPermitted)
        else if rejectsCustomEpelRepository (q_Origin req) (q_URL req)
        then failIO (DaoLeaf errMsgCustomEpelRepoCreationNotPermitted DaoBadValidation)
        else if \<not> isCreatableOrigin (q_Origin req) then failIO (origin_not_permitted origin)
        else if origin = OriginUpload \<and> q_Snapshot req \<noteq> Some True then failIO snapshot_required
        else
          (case ApiFieldsToModel req (zero_config\<lparr>rc_OrgID := orgID, rc_AccountID := the_string (q_AccountID req)\<rparr>) zero_repository of
             (c, repo) \<Rightarrow>
               let repo = repo\<lparr>r_LastIntrospectionStatus := StatusPending\<rparr> in
               bindIO (apiErr (if r_URL repo = '''' then create_repository ev repo
                 else first_or_create ev (same_url_origin (CleanupURL (r_URL repo)) (r_Origin repo)) repo)) (\<lambda>repo.
               bindIO (apiErr (create_config ev (c\<lparr>rc_RepositoryUUID := r_UUID repo\<rparr>))) (\<lambda>c.
               returnIO (c\<lparr>rc_Origin := r_Origin repo\<rparr>, repo))))))"

text \<open>The notification after the transaction reads the first request.\<close>

definition first_request_panic :: go_error where
  "first_request_panic = GoPanic ''runtime error: index out of range [0] with length 0''"

definition BulkCreate :: "repo_env \<Rightarrow> RepositoryRequest list \<Rightarrow> (repo_response list \<times> go_error option list) repo_io" where
  "BulkCreate ev reqs =
     bindIO (bulk (bulk_create_one ev) reqs) (\<lambda>answer. if reqs = [] then failIO first_request_panic else returnIO answer)"

section \<open>Importing\<close>

text \<open>A warning: the field, what there is, and what was asked for.\<close>

type_synonym warning = "string \<times> column \<times> column option"

definition differs :: "string \<Rightarrow> ('a \<Rightarrow> column) \<Rightarrow> 'a \<Rightarrow> 'a \<Rightarrow> warning list" where
  "differs field col existing new = (if col existing \<noteq> col new then [(field, col existing, Some (col new))] else [])"

definition checkWarningsOnImport :: "RepositoryConfiguration \<times> string \<Rightarrow> RepositoryConfiguration \<Rightarrow> warning list" where
  "checkWarningsOnImport existing new =
     (case existing of (c, url) \<Rightarrow>
        (if url \<noteq> '''' then [(''url'', CStr url, None)] else [(''name'', CStr (rc_Name c), None)]) @
        differs ''name'' (\<lambda>c. CStr (rc_Name c)) c new @
        differs ''distribution_arch'' (\<lambda>c. CStr (rc_Arch c)) c new @
        differs ''distribution_versions'' (\<lambda>c. CStrs (Some (sort (versions c)))) c new @
        differs ''gpg_key'' (\<lambda>c. CStr (rc_GpgKey c)) c new @
        differs ''metadata_verification'' (\<lambda>c. CBool (rc_MetadataVerification c)) c new @
        differs ''module_hotfixes'' (\<lambda>c. CBool (rc_ModuleHotfixes c)) c new @
        differs ''snapshot'' (\<lambda>c. CBool (rc_Snapshot c)) c new)"

text \<open>
  The upload repository that has the name already, or a new one, and which of the two. When the
  configuration is created its field \<open>Repository\<close> has an origin, so that gorm creates that association
  too, a second repository, and refers to it.
\<close>

definition importUploadRepository ::
  "repo_env \<Rightarrow> RepositoryRequest \<Rightarrow> Repository \<Rightarrow> RepositoryConfiguration \<Rightarrow> (RepositoryConfiguration \<times> bool) repo_io" where
  "importUploadRepository ev req newRepo newConfig =
     bindIO (selectDB (\<lambda>w. Inr (find (\<lambda>c. Some (rc_Name c) = q_Name req \<and> Some (rc_OrgID c) = q_OrgID req) (live_configs w)))) (\<lambda>existing.
       case existing of
         Some c \<Rightarrow> returnIO (c, True)
       | None \<Rightarrow>
           bindIO (create_repository ev newRepo) (\<lambda>_.
           bindIO (create_repository ev (zero_repository\<lparr>r_Origin := the_string (q_Origin req)\<rparr>)) (\<lambda>repo.
           bindIO (create_config ev (newConfig\<lparr>rc_RepositoryUUID := r_UUID repo, rc_Origin := the_string (q_Origin req), rc_Snapshot := True\<rparr>)) (\<lambda>c.
           returnIO (c, False)))))"

definition UploadRepositoryWarning :: string where
  "UploadRepositoryWarning = ''upload repository was exported from a different organization, make sure to add content to it manually''"

definition import_shared :: "RepositoryRequest \<Rightarrow> string \<Rightarrow> string \<Rightarrow> (repo_response \<times> warning list) repo_io" where
  "import_shared req origin url =
     bindIO (mapErrIO (\<lambda>err. if origin = OriginCommunity \<and> errors_Is err ErrRecordNotFound then origin_not_permitted origin else RepositoryDBErrorToApi err None)
       (selectDB (\<lambda>w. record_or_not_found (pick config_by_uuid (configs_at w (CleanupURL url) [CommunityOrg]))))) (\<lambda>existing.
     returnIO (existing, []))"

definition import_custom :: "repo_env \<Rightarrow> RepositoryConfiguration \<Rightarrow> Repository \<Rightarrow> (repo_response \<times> warning list) repo_io" where
  "import_custom ev c repo =
     (let url = CleanupURL (r_URL repo) in
      bindIO (apiErr (selectDB (\<lambda>w. Inr (pick config_by_uuid (configs_at w url [rc_OrgID c, CommunityOrg, RedHatOrg]))))) (\<lambda>existing.
        case existing of
          Some (e, r) \<Rightarrow> returnIO ((e, r\<lparr>r_URL := r_URL repo\<rparr>), checkWarningsOnImport (e, r_URL r) c)
        | None \<Rightarrow>
            bindIO (apiErr (first_or_create ev (has_url url) repo)) (\<lambda>repo.
            bindIO (apiErr (create_config ev (c\<lparr>rc_RepositoryUUID := r_UUID repo\<rparr>))) (\<lambda>c.
            returnIO ((c\<lparr>rc_Origin := r_Origin repo\<rparr>, repo), [])))))"

definition bulk_import_one :: "repo_env \<Rightarrow> RepositoryRequest \<Rightarrow> (repo_response \<times> warning list) repo_io" where
  "bulk_import_one ev req =
     (let origin = (case q_Origin req of None \<Rightarrow> OriginExternal | Some o' \<Rightarrow> o'); req = req\<lparr>q_Origin := Some origin\<rparr>;
          shared = (\<lambda>url. origin = OriginCommunity \<or> origin = OriginExternal \<and> CleanupURL url \<in> set EPELUrls)
      in
      if (case q_URL req of None \<Rightarrow> False | Some url \<Rightarrow> shared url) then import_shared req origin (the_string (q_URL req))
      else if \<not> isCreatableOrigin (q_Origin req) then failIO (origin_not_permitted origin)
      else
        bindIO (deref (q_OrgID req)) (\<lambda>orgID.
        bindIO (deref (q_AccountID req)) (\<lambda>accountID.
          case ApiFieldsToModel req (zero_config\<lparr>rc_OrgID := orgID, rc_AccountID := accountID\<rparr>) zero_repository of
            (c, repo) \<Rightarrow>
              if origin = OriginUpload then
                bindIO (apiErr (importUploadRepository ev req repo c)) (\<lambda>(e, exists).
                returnIO ((e, zero_repository\<lparr>r_Origin := rc_Origin e\<rparr>),
                  if exists then checkWarningsOnImport (e, '''') c
                  else [(''description'', CStr UploadRepositoryWarning, Some (CStr (rc_Name e)))]))
              else import_custom ev c (repo\<lparr>r_LastIntrospectionStatus := StatusPending\<rparr>))))"

definition BulkImport :: "repo_env \<Rightarrow> RepositoryRequest list \<Rightarrow> ((repo_response \<times> warning list) list \<times> go_error option list) repo_io" where
  "BulkImport ev reqs = bulk (bulk_import_one ev) reqs"

section \<open>Updating\<close>

text \<open>
  The repository of a new URL is looked up by the URL alone. The answer is whether the URL changed and
  the configuration that was written.
\<close>

definition update_target ::
  "repo_env \<Rightarrow> string option \<Rightarrow> RepositoryConfiguration \<Rightarrow> Repository \<Rightarrow> Repository \<Rightarrow> (RepositoryConfiguration \<times> bool) repo_io" where
  "update_target ev newUrl c repo oldRepo =
     (case newUrl of
        Some url \<Rightarrow>
          if r_Origin oldRepo \<noteq> OriginUpload then
            bindIO (apiErr (first_or_create ev (has_url (CleanupURL url)) repo)) (\<lambda>repo.
            returnIO (c\<lparr>rc_RepositoryUUID := r_UUID repo\<rparr>, r_URL oldRepo \<noteq> CleanupURL url))
          else returnIO (c, False)
      | None \<Rightarrow> returnIO (c, False))"

definition update_fetched ::
  "repo_env \<Rightarrow> RepositoryUpdateRequest \<Rightarrow> RepositoryConfiguration \<Rightarrow> Repository \<Rightarrow> (bool \<times> RepositoryConfiguration) repo_io" where
  "update_fetched ev params c oldRepo =
     (case ApiUpdateFieldsToModel params c zero_repository of (c, repo) \<Rightarrow>
       if r_Origin oldRepo = OriginUpload \<and> p_URL params \<noteq> None \<and> p_URL params \<noteq> Some ''''
       then failIO (DaoLeaf ''Cannot set URL on upload repositories'' DaoBadValidation)
       else if r_Origin oldRepo = OriginUpload \<and> p_Snapshot params = Some False then failIO snapshot_required
       else
         bindIO (update_target ev (p_URL params) c repo oldRepo) (\<lambda>(c, updatedUrl).
         let c = c\<lparr>rc_Origin := ''''\<rparr> in
         bindIO (apiErr (update_config c)) (\<lambda>_. returnIO (updatedUrl, c))))"

definition update_in_transaction ::
  "repo_env \<Rightarrow> string \<Rightarrow> string \<Rightarrow> RepositoryUpdateRequest \<Rightarrow> (bool \<times> RepositoryConfiguration) repo_io" where
  "update_in_transaction ev orgID uuid params = bindIO (fetchOwnConfig orgID uuid) (\<lambda>(c, oldRepo). update_fetched ev params c oldRepo)"

text \<open>The same update is written once more after the transaction.\<close>

definition RepositoryConfig_Update ::
  "repo_env \<Rightarrow> string \<Rightarrow> string \<Rightarrow> RepositoryUpdateRequest \<Rightarrow> bool repo_io" where
  "RepositoryConfig_Update ev orgID uuid params =
     bindIO (transaction (update_in_transaction ev orgID uuid params)) (\<lambda>(updatedUrl, c).
     bindIO (apiErr (update_config c)) (\<lambda>_. returnIO updatedUrl))"

section \<open>Deleting\<close>

definition RepositoryConfig_SoftDelete :: "string \<Rightarrow> string \<Rightarrow> unit repo_io" where
  "RepositoryConfig_SoftDelete orgID uuid =
     bindIO (mapErrIO (\<lambda>e. RepositoryDBErrorToApi e (Some uuid)) (selectDB (\<lambda>w. record_or_not_found
       (find (\<lambda>s. rc_UUID (sc_Config s) = uuid \<and> rc_OrgID (sc_Config s) = orgID) (rw_configs w))))) (\<lambda>s.
     whenIO (\<not> sc_Deleted s) (soft_delete_config (rc_UUID (sc_Config s))))"

definition bulk_delete_one :: "string \<Rightarrow> string \<Rightarrow> repo_response repo_io" where
  "bulk_delete_one orgID uuid =
     bindIO (apiErr (fetchOwnConfig orgID uuid)) (\<lambda>(c, repo).
     bindIO (apiErr (soft_delete_config (rc_UUID c))) (\<lambda>_. returnIO (c, repo)))"

definition RepositoryConfig_BulkDelete :: "string \<Rightarrow> string list \<Rightarrow> go_error option list repo_io" where
  "RepositoryConfig_BulkDelete orgID uuids = bindIO (bulk (bulk_delete_one orgID) uuids) (\<lambda>(_, errs). returnIO errs)"

section \<open>Checking parameters\<close>

record attribute_validation =
  av_Skipped :: bool
  av_Valid :: bool
  av_Error :: string

definition skipped :: attribute_validation where
  "skipped = \<lparr>av_Skipped = True, av_Valid = False, av_Error = ''''\<rparr>"

definition valid_attribute :: attribute_validation where
  "valid_attribute = \<lparr>av_Skipped = False, av_Valid = True, av_Error = ''''\<rparr>"

definition invalid_attribute :: "string \<Rightarrow> attribute_validation" where
  "invalid_attribute msg = \<lparr>av_Skipped = False, av_Valid = False, av_Error = msg\<rparr>"

definition quote_text :: "string \<Rightarrow> string" where
  "quote_text s = [CHR 39] @ s @ [CHR 39]"

definition validateName :: "string \<Rightarrow> string \<Rightarrow> string list \<Rightarrow> attribute_validation repo_io" where
  "validateName orgId name excludedUUIDS =
     (if name = '''' then returnIO (invalid_attribute ''Name cannot be blank'')
      else
        bindIO (apiErr (selectDB (\<lambda>w. Inr (list_ex (\<lambda>c. rc_Name c = name \<and> rc_OrgID c = orgId \<and> rc_UUID c \<notin> set excludedUUIDS) (live_configs w))))) (\<lambda>found.
        returnIO (if found then invalid_attribute (''A repository with the name '' @ quote_text name @ '' already exists.'') else valid_attribute)))"

definition validateUrl :: "string \<Rightarrow> string \<Rightarrow> string list \<Rightarrow> attribute_validation repo_io" where
  "validateUrl orgId url excludedUUIDS =
     (if url = '''' then returnIO (invalid_attribute ''URL cannot be blank'')
      else
        bindIO (apiErr (selectDB (\<lambda>w. Inr (configs_at w url [CommunityOrg, RedHatOrg] \<noteq> [])))) (\<lambda>shared.
          if shared then
            returnIO (invalid_attribute ((if StrContains url ''redhat'' then ''Red Hat'' else ''Community'') @ '' repository with this URL already exists''))
          else
            bindIO (apiErr (selectDB (\<lambda>w. Inr (list_ex (\<lambda>(c, _). rc_UUID c \<notin> set excludedUUIDS) (configs_at w url [orgId]))))) (\<lambda>found.
            returnIO
              (if found then invalid_attribute (''A repository with the URL '' @ quote_text url @ '' already exists.'')
               else if stringContainsInternalWhitespace url then invalid_attribute ''URL cannot contain whitespace.''
               else valid_attribute))))"

text \<open>The presence of metadata and signatures at a valid URL is found out by the library that reads repositories.\<close>

definition ValidateParameters ::
  "string \<Rightarrow> string option \<Rightarrow> string option \<Rightarrow> string list \<Rightarrow> (attribute_validation \<times> attribute_validation) repo_io" where
  "ValidateParameters orgId name url excludedUUIDS =
     bindIO (case name of None \<Rightarrow> returnIO skipped | Some n \<Rightarrow> validateName orgId n excludedUUIDS) (\<lambda>nameResponse.
     bindIO (case url of None \<Rightarrow> returnIO skipped | Some u \<Rightarrow> validateUrl orgId (CleanupURL u) excludedUUIDS) (\<lambda>urlResponse.
     returnIO (nameResponse, urlResponse)))"

section \<open>Exporting\<close>

definition FetchRepoUUIDsByURLs :: "string \<Rightarrow> string list \<Rightarrow> string list repo_io" where
  "FetchRepoUUIDsByURLs orgID repoURLs =
     (let urls = map CleanupURL repoURLs in
      bindIO (selectDB (\<lambda>w. Inr (map rc_UUID (filter (\<lambda>c. rc_OrgID c \<in> {RedHatOrg, CommunityOrg, orgID} \<and>
         (case repository_of w c of None \<Rightarrow> False | Some r \<Rightarrow> list_ex (\<lambda>url. has_url url r) urls)) (live_configs w))))) (\<lambda>uuids.
      if length urls \<noteq> length uuids then failIO (DaoLeaf ''One or more repository URLs was invalid.'' DaoNotFound) else returnIO uuids))"

definition export_visible :: "string \<Rightarrow> string list \<Rightarrow> repo_world \<Rightarrow> RepositoryConfiguration list" where
  "export_visible orgID uuids w = filter (\<lambda>c. rc_OrgID c \<in> {orgID, CommunityOrg, RedHatOrg} \<and> rc_UUID c \<in> set uuids) (live_configs w)"

definition validateExportUUIDs :: "string \<Rightarrow> string list \<Rightarrow> unit repo_io" where
  "validateExportUUIDs orgId uuids =
     bindIO (wrapIO ''could not query repository uuids'' (selectDB (\<lambda>w. Inr (length (export_visible orgId uuids w))))) (\<lambda>count.
     if count \<noteq> length uuids then failIO (DaoLeaf ''One or more Repository UUIDs was invalid.'' DaoNotFound) else returnIO ())"

text \<open>\<open>ModelToExportRepoApi\<close>, as the request that imports the repository again.\<close>

definition ModelToExportRepoApi :: "RepositoryConfiguration \<Rightarrow> Repository \<Rightarrow> RepositoryRequest" where
  "ModelToExportRepoApi c r =
     \<lparr>q_AccountID = None, q_OrgID = None, q_Origin = Some (r_Origin r), q_Name = Some (rc_Name c), q_URL = Some (r_URL r),
      q_DistributionVersions = rc_Versions c, q_DistributionArch = Some (rc_Arch c), q_GpgKey = Some (rc_GpgKey c),
      q_MetadataVerification = Some (rc_MetadataVerification c), q_ModuleHotfixes = Some (rc_ModuleHotfixes c), q_Snapshot = Some (rc_Snapshot c)\<rparr>"

definition BulkExport :: "string \<Rightarrow> string list \<Rightarrow> RepositoryRequest list repo_io" where
  "BulkExport orgID uuids =
     bindIO (validateExportUUIDs orgID uuids) (\<lambda>_.
     selectDB (\<lambda>w. Inr (List.map_filter (\<lambda>c. map_option (ModelToExportRepoApi c) (repository_of w c))
       (sort_key rc_Name (export_visible orgID uuids w)))))"

end
