(* ===== verification/RepositoryConfigsProps.thy ===== *)
theory RepositoryConfigsProps
  imports RepositoryConfigs
begin

text \<open>
  What is stored after repositories were created, imported, exported and changed.
\<close>

section \<open>Statements that succeed\<close>

lemma callDB_success:
  "callDB f w = (Inr a, w') \<Longrightarrow> f (w\<lparr>rw_faults := tl (rw_faults w)\<rparr>) = (Inr a, w')"
  by (auto simp: callDB_def Let_def split: list.splits option.splits)

lemma selectDB_success:
  assumes "selectDB q w = (Inr a, w')"
  shows "w' = w\<lparr>rw_faults := tl (rw_faults w)\<rparr>" "q w' = Inr a"
proof -
  have *: "(q (w\<lparr>rw_faults := tl (rw_faults w)\<rparr>), w\<lparr>rw_faults := tl (rw_faults w)\<rparr>) = (Inr a, w')"
    using assms unfolding selectDB_def by (rule callDB_success)
  then show "w' = w\<lparr>rw_faults := tl (rw_faults w)\<rparr>" by (simp only: prod.inject)
  with * show "q w' = Inr a" by (simp only: prod.inject)
qed

lemma apiErr_success [simp]: "apiErr m w = (Inr a, w') \<longleftrightarrow> m w = (Inr a, w')"
  by (simp add: apiErr_def)

text \<open>The tables of two states.\<close>

definition same_repos :: "repo_world \<Rightarrow> repo_world \<Rightarrow> bool" where
  "same_repos w w' \<longleftrightarrow> rw_repositories w' = rw_repositories w \<and> rw_configs w' = rw_configs w"

lemma rollback_same [simp]: "same_repos w (rollback_to w w')"
  by (simp add: same_repos_def rollback_to_def)

lemma live_configs_cong: "rw_configs w = rw_configs w' \<Longrightarrow> live_configs w = live_configs w'"
  by (simp add: live_configs_def)

lemma create_repository_success:
  assumes "create_repository ev repo w = (Inr r, w')"
  shows "rw_repositories w' = rw_repositories w @ [r] \<and> rw_configs w' = rw_configs w \<and> r_URL r = CleanupURL (r_URL repo) \<and>
    r_Origin r = (if r_Origin repo = '''' then OriginExternal else r_Origin repo)"
proof -
  from assms obtain n s where b: "repository_BeforeCreate (ev_ParseRequestURI ev) (ev_uuid ev n) (ev_now ev n) repo = Inr s"
    and c: "callDB (\<lambda>w. case repository_conflict w (repository_defaults s) of
              Some c \<Rightarrow> (Inl (unique_violation c), w)
            | None \<Rightarrow> (Inr (repository_defaults s), w\<lparr>rw_repositories := rw_repositories w @ [repository_defaults s]\<rparr>))
          (w\<lparr>rw_made := rw_made w + 1\<rparr>) = (Inr r, w')"
    by (auto simp: create_repository_def Let_def split: sum.splits)
  from callDB_success [OF c] have "r = repository_defaults s" "rw_repositories w' = rw_repositories w @ [r]" "rw_configs w' = rw_configs w"
    by (auto split: option.splits)
  moreover have "r_URL s = CleanupURL (r_URL repo)" "r_Origin s = r_Origin repo"
    using b by (auto simp: repository_BeforeCreate_def Let_def split: option.splits if_splits)
  ultimately show ?thesis by (simp add: repository_defaults_def)
qed

lemma first_or_create_success:
  assumes "first_or_create ev cond repo w = (Inr r, w')"
  shows "rw_configs w' = rw_configs w \<and>
    (r \<in> set (rw_repositories w) \<and> cond r \<and> rw_repositories w' = rw_repositories w \<or>
     filter cond (rw_repositories w) = [] \<and> rw_repositories w' = rw_repositories w @ [r] \<and> r_URL r = CleanupURL (r_URL repo) \<and>
       r_Origin r = (if r_Origin repo = '''' then OriginExternal else r_Origin repo))"
proof -
  obtain found w1 where f: "selectDB (\<lambda>w. Inr (pick by_uuid (filter cond (rw_repositories w)))) w = (Inr found, w1)"
    and k: "(case found of Some r \<Rightarrow> returnIO r | None \<Rightarrow> create_repository ev repo) w1 = (Inr r, w')"
    using assms unfolding first_or_create_def by (elim bindIO_successE)
  have w1: "rw_repositories w1 = rw_repositories w" "rw_configs w1 = rw_configs w"
    using selectDB_success(1) [OF f] by simp_all
  have p: "pick by_uuid (filter cond (rw_repositories w)) = found"
    using selectDB_success(2) [OF f] w1 by simp
  show ?thesis
  proof (cases found)
    case None
    with p have "filter cond (rw_repositories w) = []" by (simp del: filter_empty_conv)
    with None k w1 create_repository_success [of ev repo w1 r w'] show ?thesis by simp
  next
    case (Some s)
    with p have "s \<in> set (rw_repositories w)" "cond s" by (auto dest: pick_filterD)
    with Some k w1 show ?thesis by simp
  qed
qed

lemma hooks_keep:
  "rc_Name (ReplaceEmptyValues (DedupeVersions c)) = rc_Name c" "rc_OrgID (ReplaceEmptyValues (DedupeVersions c)) = rc_OrgID c"
  "rc_RepositoryUUID (ReplaceEmptyValues (DedupeVersions c)) = rc_RepositoryUUID c" "rc_UUID (ReplaceEmptyValues (DedupeVersions c)) = rc_UUID c"
  "rc_GpgKey (ReplaceEmptyValues (DedupeVersions c)) = rc_GpgKey c" "rc_Snapshot (ReplaceEmptyValues (DedupeVersions c)) = rc_Snapshot c"
  "rc_MetadataVerification (ReplaceEmptyValues (DedupeVersions c)) = rc_MetadataVerification c"
  "rc_ModuleHotfixes (ReplaceEmptyValues (DedupeVersions c)) = rc_ModuleHotfixes c"
  "rc_Origin (ReplaceEmptyValues (DedupeVersions c)) = rc_Origin c"
  "rc_Arch (ReplaceEmptyValues (DedupeVersions c)) = (if rc_Arch c = '''' then ANY_ARCH else rc_Arch c)"
  by (simp_all add: ReplaceEmptyValues_def DedupeVersions_def Let_def)

lemma label_keeps:
  "rc_Name (SetLabel taken rnd c) = rc_Name c" "rc_RepositoryUUID (SetLabel taken rnd c) = rc_RepositoryUUID c" "rc_UUID (SetLabel taken rnd c) = rc_UUID c"
  "rc_GpgKey (SetLabel taken rnd c) = rc_GpgKey c" "rc_Snapshot (SetLabel taken rnd c) = rc_Snapshot c" "rc_Arch (SetLabel taken rnd c) = rc_Arch c"
  "rc_MetadataVerification (SetLabel taken rnd c) = rc_MetadataVerification c" "rc_ModuleHotfixes (SetLabel taken rnd c) = rc_ModuleHotfixes c"
  "rc_Origin (SetLabel taken rnd c) = rc_Origin c"
  by (simp_all add: SetLabel_def Let_def split: option.splits)

lemma create_config_success:
  assumes "create_config ev new w = (Inr c, w')"
  shows "rw_repositories w' = rw_repositories w" "rw_configs w' = rw_configs w @ [store c]"
    "\<exists>taken rnd u. rc_BeforeCreate taken rnd u new = Inr c"
proof -
  from assms obtain n s where b: "rc_BeforeCreate (labels_taken w) (ev_random ev n) (ev_uuid ev n) new = Inr s"
    and d: "callDB (\<lambda>w. case config_conflict w s of
             Some constraint \<Rightarrow> (Inl (unique_violation constraint), w)
           | None \<Rightarrow>
               if repository_of w s = None then (Inl fk_repository, w)
               else (Inr s, w\<lparr>rw_configs := rw_configs w @ [store s]\<rparr>)) (w\<lparr>rw_made := rw_made w + 1\<rparr>) = (Inr c, w')"
    by (auto simp: create_config_def Let_def split: sum.splits)
  from callDB_success [OF d] b show "rw_repositories w' = rw_repositories w" "rw_configs w' = rw_configs w @ [store c]"
    "\<exists>taken rnd u. rc_BeforeCreate taken rnd u new = Inr c" by (auto split: option.splits if_splits)
qed

lemma BeforeCreate_keeps:
  assumes "rc_BeforeCreate taken rnd u new = Inr c"
  shows "rc_Name c = rc_Name new" "rc_OrgID c = rc_OrgID new" "rc_RepositoryUUID c = rc_RepositoryUUID new" "rc_GpgKey c = rc_GpgKey new"
    "rc_Snapshot c = rc_Snapshot new" "rc_MetadataVerification c = rc_MetadataVerification new" "rc_ModuleHotfixes c = rc_ModuleHotfixes new"
    "rc_Arch c = (if rc_Arch new = '''' then ANY_ARCH else rc_Arch new)" "rc_Origin c = rc_Origin new" "rc_Name c \<noteq> ''''" "rc_UUID c = u"
    "rc_Versions c = Some (if versions new = [] then [ANY_VERSION] else sort (dedup_from [] (versions new)))"
  using assms rc_validate_None [of c]
  by (auto simp: rc_BeforeCreate_def Let_def hooks_keep label_keeps replaced_versions versions_def split: option.splits)

section \<open>Requests in bulk\<close>

text \<open>Every statement takes the first of the faults that are left.\<close>

definition fewer_faults :: "repo_world \<Rightarrow> repo_world \<Rightarrow> bool" where
  "fewer_faults w w' \<longleftrightarrow> set (rw_faults w') \<subseteq> set (rw_faults w)"

lemma fewer_faults_order: "reflp fewer_faults" "transp fewer_faults"
  by (auto simp: fewer_faults_def reflp_def transp_def)

text \<open>
  Each request of a bulk operation has an effect when it succeeds; \<open>all_done\<close> are the effects of all, in
  the order of the requests.
\<close>

inductive all_done :: "('a \<Rightarrow> 'b \<Rightarrow> repo_world \<Rightarrow> repo_world \<Rightarrow> bool) \<Rightarrow> 'a list \<Rightarrow> 'b list \<Rightarrow> repo_world \<Rightarrow> repo_world \<Rightarrow> bool"
  for effect where
  none_left: "all_done effect [] [] w w"
| first_done: "effect x b w w1 \<Longrightarrow> all_done effect xs bs w1 w2 \<Longrightarrow> all_done effect (x # xs) (b # bs) w w2"

inductive_cases all_done_ConsE: "all_done effect (x # xs) bs w w'"

lemma callDB_begin:
  "callDB (Pair (Inr ())) w = (r, w') \<Longrightarrow>
     w' = w\<lparr>rw_faults := tl (rw_faults w)\<rparr> \<and> (isl r \<longrightarrow> (\<exists>e. Some e \<in> set (rw_faults w)))"
  by (auto simp: callDB_def Let_def split: list.splits option.splits)

locale bulk_request =
  fixes f :: "'a \<Rightarrow> 'b repo_io" and effect :: "'a \<Rightarrow> 'b \<Rightarrow> repo_world \<Rightarrow> repo_world \<Rightarrow> bool"
  assumes request_done: "f x w = (Inr b, w') \<Longrightarrow> effect x b w w'"
    and request_faults: "keeps fewer_faults (f x)"
begin

lemma loop_length: "bulk_loop f save xs w = (Inr rs, w') \<Longrightarrow> length rs = length xs"
  by (induction xs arbitrary: w rs) (auto elim!: bindIO_successE)

lemma loop_done:
  "bulk_loop f save xs w = (Inr rs, w') \<Longrightarrow> \<not> list_ex isl rs \<Longrightarrow> all_done effect xs (map projr rs) w w'"
proof (induction xs arbitrary: w rs)
  case Nil
  then show ?case by (simp add: none_left)
next
  case (Cons x xs)
  then obtain r w1 rs1 where r: "caseIO (f x) (\<lambda>err w. (Inr (Inl err), rollback_to save w)) (\<lambda>r. returnIO (Inr r)) w = (Inr r, w1)"
    and rest: "bulk_loop f save xs w1 = (Inr rs1, w')" and rs: "rs = r # rs1"
    by (auto elim!: bindIO_successE)
  with Cons.prems obtain b where b: "f x w = (Inr b, w1)" "r = Inr b" by (auto elim!: caseIO_successE)
  have "all_done effect xs (map projr rs1) w1 w'" using Cons.IH [OF rest] Cons.prems(2) rs by simp
  with request_done [OF b(1)] show ?case unfolding rs b(2) by (auto intro: first_done)
qed

lemma loop_faults: "keeps fewer_faults (bulk_loop f save xs)"
proof (induction xs)
  case Nil
  show ?case by (simp del: returnIO_apply add: keeps_return fewer_faults_order)
next
  case (Cons x xs)
  have "keeps fewer_faults (\<lambda>w. (Inr (Inl err), rollback_to save w))" for err
    by (rule keepsI) (simp add: fewer_faults_def rollback_to_def)
  with Cons show ?case
    by (auto intro!: keeps_bind keeps_case keeps_return fewer_faults_order request_faults simp del: returnIO_apply)
qed

text \<open>
  A bulk operation that answers errors has done nothing and answers one place for each request. One that
  answers none has done everything, or nothing when the transaction itself failed.
\<close>

lemma bulk_outcome:
  assumes "bulk f xs w = (Inr (resps, errs), w')"
  obtains (lost) e where "Some e \<in> set (rw_faults w)" "same_repos w w'" "errs = []"
  | (refused) "errs \<noteq> []" "resps = []" "same_repos w w'" "length errs = length xs" "\<exists>e. Some e \<in> set errs"
  | (accepted) w1 w2 where "errs = []" "same_repos w w1" "all_done effect xs resps w1 w2" "same_repos w2 w'"
proof -
  obtain r w1 where b: "callDB (Pair (Inr ())) w = (r, w1)" by (cases "callDB (Pair (Inr ())) w")
  then have w1: "w1 = w\<lparr>rw_faults := tl (rw_faults w)\<rparr>" and f1: "isl r \<longrightarrow> (\<exists>e. Some e \<in> set (rw_faults w))"
    using callDB_begin by blast+
  have s1: "same_repos w w1" by (simp add: w1 same_repos_def)
  show thesis
  proof (cases r)
    case (Inl e)
    with assms b have "w' = w1" "errs = []" by (auto simp: bulk_def)
    with f1 s1 Inl lost show thesis by auto
  next
    case (Inr u)
    obtain l w2 where l: "bulk_loop f w1 xs w1 = (l, w2)" by (cases "bulk_loop f w1 xs w1")
    with assms b Inr obtain rs where rs: "l = Inr rs" by (cases l) (auto simp: bulk_def)
    show thesis
    proof (cases "list_ex isl rs")
      case True
      with assms b Inr l rs have "w' = rollback_to w1 w2" "errs = bulk_errors rs" "resps = bulk_responses rs" by (auto simp: bulk_def)
      moreover have "length rs = length xs" using loop_length l rs by blast
      moreover have "\<exists>e. Some e \<in> set (bulk_errors rs)" using True by (force simp: bulk_errors_def list_ex_iff isl_def)
      moreover have "bulk_errors rs \<noteq> []" using True by (auto simp: bulk_errors_def)
      ultimately show thesis using True s1 refused by (simp add: bulk_errors_def bulk_responses_def same_repos_def rollback_to_def)
    next
      case False
      obtain c w3 where c: "callDB (Pair (Inr ())) w2 = (c, w3)" by (cases "callDB (Pair (Inr ())) w2")
      then have w3: "w3 = w2\<lparr>rw_faults := tl (rw_faults w2)\<rparr>" and f3: "isl c \<longrightarrow> (\<exists>e. Some e \<in> set (rw_faults w2))"
        using callDB_begin by blast+
      have "set (rw_faults w2) \<subseteq> set (rw_faults w)"
        using keepsD [OF loop_faults [of w1 xs], of w1] l set_tl [of "rw_faults w"] by (simp add: fewer_faults_def w1)
      then show thesis
      proof (cases c)
        case (Inl e)
        with assms b Inr l rs False c have "w' = rollback_to w1 w3" "errs = []" by (auto simp: bulk_def)
        moreover from f3 Inl obtain e' where "Some e' \<in> set (rw_faults w2)" by auto
        ultimately show thesis using s1 \<open>set (rw_faults w2) \<subseteq> set (rw_faults w)\<close>
          by (intro lost [of e']) (auto simp: same_repos_def rollback_to_def)
      next
        case (Inr v)
        with assms b \<open>r = Inr u\<close> l rs False c have "w' = w3" "errs = []" "resps = map projr rs"
          by (auto simp: bulk_def bulk_responses_def)
        moreover have "all_done effect xs (map projr rs) w1 w2" using loop_done l rs False by blast
        ultimately show thesis using s1 accepted by (simp add: same_repos_def w3)
      qed
    qed
  qed
qed

end

section \<open>Created repositories\<close>

definition as_requested :: "RepositoryRequest \<Rightarrow> repo_response \<Rightarrow> bool" where
  "as_requested q resp = (case resp of (c, r) \<Rightarrow>
     q_OrgID q = Some (rc_OrgID c) \<and> q_Name q = Some (rc_Name c) \<and> rc_Snapshot c = (q_Snapshot q = Some True) \<and>
     rc_RepositoryUUID c = r_UUID r \<and> r_URL r = CleanupURL (the_string (q_URL q)) \<and>
     rc_OrgID c \<notin> {RedHatOrg, CommunityOrg} \<and> r_URL r \<notin> set EPELUrls \<and> r_Origin r \<in> {OriginExternal, OriginUpload, ''''})"

definition created :: "RepositoryRequest \<Rightarrow> repo_response \<Rightarrow> repo_world \<Rightarrow> repo_world \<Rightarrow> bool" where
  "created q resp w w' \<longleftrightarrow> as_requested q resp \<and> snd resp \<in> set (rw_repositories w') \<and>
     rw_configs w' = rw_configs w @ [store (fst resp)] \<and> (rw_repositories w' = rw_repositories w \<or> rw_repositories w' = rw_repositories w @ [snd resp])"

lemma set_some_keep: "(\<And>a. g (f a m) = g m) \<Longrightarrow> g (set_some v f m) = g m"
  by (cases v) (simp_all add: set_some_def)

lemma update_fields_columns:
  "rc_Name (update_fields n a vs g md mh sn c) = (case n of None \<Rightarrow> rc_Name c | Some v \<Rightarrow> v)"
  "rc_Arch (update_fields n a vs g md mh sn c) = (case a of None \<Rightarrow> rc_Arch c | Some v \<Rightarrow> v)"
  "rc_Versions (update_fields n a vs g md mh sn c) = (case vs of None \<Rightarrow> rc_Versions c | Some v \<Rightarrow> Some v)"
  "rc_GpgKey (update_fields n a vs g md mh sn c) = (case g of None \<Rightarrow> rc_GpgKey c | Some v \<Rightarrow> v)"
  "rc_MetadataVerification (update_fields n a vs g md mh sn c) = (case md of None \<Rightarrow> rc_MetadataVerification c | Some v \<Rightarrow> v)"
  "rc_ModuleHotfixes (update_fields n a vs g md mh sn c) = (case mh of None \<Rightarrow> rc_ModuleHotfixes c | Some v \<Rightarrow> v)"
  "rc_Snapshot (update_fields n a vs g md mh sn c) = (case sn of None \<Rightarrow> rc_Snapshot c | Some v \<Rightarrow> v)"
  "rc_OrgID (update_fields n a vs g md mh sn c) = rc_OrgID c" "rc_UUID (update_fields n a vs g md mh sn c) = rc_UUID c"
  "rc_RepositoryUUID (update_fields n a vs g md mh sn c) = rc_RepositoryUUID c" "rc_AccountID (update_fields n a vs g md mh sn c) = rc_AccountID c"
  "rc_Origin (update_fields n a vs g md mh sn c) = rc_Origin c"
  unfolding update_fields_def
  by (simp_all add: set_some_keep [where g = rc_Name] set_some_keep [where g = rc_Arch] set_some_keep [where g = rc_Versions]
    set_some_keep [where g = rc_GpgKey] set_some_keep [where g = rc_MetadataVerification] set_some_keep [where g = rc_ModuleHotfixes]
    set_some_keep [where g = rc_Snapshot] set_some_keep [where g = rc_OrgID] set_some_keep [where g = rc_UUID]
    set_some_keep [where g = rc_RepositoryUUID] set_some_keep [where g = rc_AccountID] set_some_keep [where g = rc_Origin])
    (simp_all add: set_some_def split: option.split)

lemma requested_fields:
  assumes "ApiFieldsToModel req (zero_config\<lparr>rc_OrgID := orgID, rc_AccountID := account\<rparr>) zero_repository = (c, repo)" "q_Origin req = Some origin"
  shows "rc_Name c = the_string (q_Name req)" "rc_OrgID c = orgID" "rc_Snapshot c = (q_Snapshot req = Some True)"
    "r_URL repo = the_string (q_URL req)" "r_Origin repo = origin"
proof -
  let ?z = "zero_config\<lparr>rc_OrgID := orgID, rc_AccountID := account\<rparr>"
  have c: "c = update_fields (q_Name req) (q_DistributionArch req) (q_DistributionVersions req) (q_GpgKey req) (q_MetadataVerification req)
      (q_ModuleHotfixes req) (q_Snapshot req) ?z"
    and r: "repo = set_some (q_URL req) (\<lambda>v r. r\<lparr>r_URL := v\<rparr>) (zero_repository\<lparr>r_Origin := origin\<rparr>)"
    using assms by (simp_all add: ApiFieldsToModel_def zero_config_def set_some_def)
  show "rc_Name c = the_string (q_Name req)" "rc_OrgID c = orgID" "rc_Snapshot c = (q_Snapshot req = Some True)"
    by (simp_all add: c update_fields_columns zero_config_def the_string_def split: option.split)
  show "r_URL repo = the_string (q_URL req)" "r_Origin repo = origin"
    by (simp_all add: r set_some_def zero_repository_def the_string_def split: option.split)
qed

lemma repository_for_success:
  assumes "(if P then create_repository ev repo else first_or_create ev (same_url_origin (CleanupURL (r_URL repo)) (r_Origin repo)) repo) w = (Inr r, w')"
  shows "rw_configs w' = rw_configs w \<and> r \<in> set (rw_repositories w') \<and> r_URL r = CleanupURL (r_URL repo) \<and>
    (r_Origin r = r_Origin repo \<or> r_Origin r = OriginExternal) \<and> (rw_repositories w' = rw_repositories w \<or> rw_repositories w' = rw_repositories w @ [r])"
proof (cases P)
  case True
  then show ?thesis using create_repository_success [of ev repo w r w'] assms by simp
next
  case False
  then show ?thesis
    using first_or_create_success [of ev "same_url_origin (CleanupURL (r_URL repo)) (r_Origin repo)" repo w r w'] assms
    by (auto simp: same_url_origin_def has_url_def)
qed

lemma not_epel: "\<not> rejectsCustomEpelRepository o' url \<Longrightarrow> CleanupURL (the_string url) \<notin> set EPELUrls"
proof -
  have "CleanupURL [] \<notin> set EPELUrls" by code_simp
  then show "\<not> rejectsCustomEpelRepository o' url \<Longrightarrow> CleanupURL (the_string url) \<notin> set EPELUrls"
    by (auto simp: rejectsCustomEpelRepository_def the_string_def split: option.splits)
qed

lemma callDB_faults: "(\<And>w. rw_faults (snd (f w)) = rw_faults w) \<Longrightarrow> keeps fewer_faults (callDB f)"
proof (rule keepsI)
  fix w assume "\<And>w. rw_faults (snd (f w)) = rw_faults w"
  then show "fewer_faults w (snd (callDB f w))"
    using set_tl [of "rw_faults w"] by (auto simp: callDB_def fewer_faults_def Let_def split: list.split option.split)
qed

lemma selectDB_faults: "keeps fewer_faults (selectDB q)"
  unfolding selectDB_def by (rule callDB_faults) simp

lemma callDB_faults_made:
  "(\<And>w. rw_faults (snd (f w)) = rw_faults w) \<Longrightarrow> fewer_faults w (snd (callDB f (w\<lparr>rw_made := n\<rparr>)))"
  using keepsD [OF callDB_faults, of f "w\<lparr>rw_made := n\<rparr>"] by (simp add: fewer_faults_def)

lemma create_repository_faults: "keeps fewer_faults (create_repository ev repo)"
proof (rule keepsI)
  fix w
  show "fewer_faults w (snd (create_repository ev repo w))"
    by (auto simp: create_repository_def Let_def intro!: callDB_faults_made split: sum.split option.split) (simp add: fewer_faults_def)
qed

lemma create_config_faults: "keeps fewer_faults (create_config ev c)"
proof (rule keepsI)
  fix w
  show "fewer_faults w (snd (create_config ev c w))"
    by (auto simp: create_config_def Let_def intro!: callDB_faults_made split: sum.split option.split) (simp add: fewer_faults_def)
qed

lemmas create_faults = create_repository_faults create_config_faults

lemma apiErr_keeps: "reflp R \<Longrightarrow> transp R \<Longrightarrow> keeps R m \<Longrightarrow> keeps R (apiErr m)"
  unfolding apiErr_def mapErrIO_def by (intro keeps_handle keeps_fail)

lemma deref_keeps: "reflp R \<Longrightarrow> keeps R (deref p)"
  by (cases p) (auto intro: keeps_return keeps_fail simp del: returnIO_apply failIO_apply)

lemma created_from:
  assumes repo: "(if P then create_repository ev repo else first_or_create ev (same_url_origin (CleanupURL (r_URL repo)) (r_Origin repo)) repo) w = (Inr r, w1)"
    and conf: "create_config ev (c\<lparr>rc_RepositoryUUID := r_UUID r\<rparr>) w1 = (Inr c', w')"
    and fields: "rc_Name c = the_string (q_Name req)" "q_OrgID req = Some (rc_OrgID c)" "rc_Snapshot c = (q_Snapshot req = Some True)"
      "r_URL repo = the_string (q_URL req)"
    and permitted: "rc_OrgID c \<notin> {RedHatOrg, CommunityOrg}" "\<not> rejectsCustomEpelRepository origin (q_URL req)"
      "r_Origin repo \<in> {OriginExternal, OriginUpload, ''''}"
  shows "created req (c'\<lparr>rc_Origin := r_Origin r\<rparr>, r) w w'"
proof -
  obtain taken rnd u where b: "rc_BeforeCreate taken rnd u (c\<lparr>rc_RepositoryUUID := r_UUID r\<rparr>) = Inr c'"
    using create_config_success(3) [OF conf] by blast
  note c' = BeforeCreate_keeps [OF b]
  have "q_Name req = Some (rc_Name c')" using c'(1,10) fields(1) by (auto simp: the_string_def split: option.splits)
  moreover have "store (c'\<lparr>rc_Origin := r_Origin r\<rparr>) = store c'" by (simp add: store_def)
  ultimately show ?thesis
    using repository_for_success [OF repo] create_config_success(1,2) [OF conf] c' fields permitted not_epel [OF permitted(2)]
    by (auto simp: created_def as_requested_def)
qed

lemma bulk_create_one_success:
  assumes "bulk_create_one ev req w = (Inr resp, w')"
  shows "created req resp w w'"
proof -
  define origin where "origin = (case q_Origin req of None \<Rightarrow> OriginExternal | Some o' \<Rightarrow> o')"
  let ?req = "req\<lparr>q_Origin := Some origin\<rparr>"
  obtain orgID where org: "q_OrgID req = Some orgID"
    using assms by (cases "q_OrgID req") (auto simp: bulk_create_one_def Let_def)
  obtain c repo where f: "ApiFieldsToModel ?req (zero_config\<lparr>rc_OrgID := orgID, rc_AccountID := the_string (q_AccountID req)\<rparr>) zero_repository = (c, repo)"
    by fastforce
  let ?repo = "repo\<lparr>r_LastIntrospectionStatus := StatusPending\<rparr>"
  note rf = requested_fields [OF f, of origin]
  have ok: "orgID \<notin> {RedHatOrg, CommunityOrg}" "\<not> rejectsCustomEpelRepository (Some origin) (q_URL req)" "isCreatableOrigin (Some origin)"
    using assms org by (auto simp: bulk_create_one_def Let_def origin_def split: if_splits)
  obtain r w1 c' where "(if r_URL ?repo = '''' then create_repository ev ?repo
      else first_or_create ev (same_url_origin (CleanupURL (r_URL ?repo)) (r_Origin ?repo)) ?repo) w = (Inr r, w1)"
    "create_config ev (c\<lparr>rc_RepositoryUUID := r_UUID r\<rparr>) w1 = (Inr c', w')" "resp = (c'\<lparr>rc_Origin := r_Origin r\<rparr>, r)"
    using assms org ok f unfolding bulk_create_one_def origin_def [symmetric]
    by (auto simp: Let_def elim!: bindIO_successE split: if_splits)
  then show ?thesis using rf ok org by (auto intro!: created_from simp: isCreatableOrigin_def)
qed

lemma bulk_create_one_faults: "keeps fewer_faults (bulk_create_one ev req)"
  by (auto simp: bulk_create_one_def first_or_create_def Let_def simp del: returnIO_apply failIO_apply
    intro!: keeps_bind keeps_return keeps_fail apiErr_keeps deref_keeps fewer_faults_order create_faults selectDB_faults split: prod.split option.split)

interpretation bulk_creation: bulk_request "bulk_create_one ev" created for ev
  by unfold_locales (rule bulk_create_one_success, assumption, rule bulk_create_one_faults)

lemma all_created:
  "all_done created reqs resps w w' \<Longrightarrow> rw_configs w' = rw_configs w @ map (store \<circ> fst) resps \<and> list_all2 as_requested reqs resps \<and>
     (\<exists>rs. rw_repositories w' = rw_repositories w @ rs) \<and> (\<forall>resp \<in> set resps. snd resp \<in> set (rw_repositories w'))"
  by (induction rule: all_done.induct) (auto simp: created_def)


definition demo_repo_env :: repo_env where
  "demo_repo_env = \<lparr>ev_uuid = (\<lambda>n. replicate (n + 1) (CHR ''u'')), ev_random = (\<lambda>n. ''x''), ev_now = (\<lambda>n. 0), ev_ParseRequestURI = (\<lambda>_. True)\<rparr>"

definition no_repositories :: "go_error option list \<Rightarrow> repo_world" where
  "no_repositories faults = \<lparr>rw_repositories = [], rw_configs = [], rw_faults = faults, rw_made = 0\<rparr>"

definition demo_creation :: "string \<Rightarrow> RepositoryRequest" where
  "demo_creation name = \<lparr>q_AccountID = None, q_OrgID = Some ''7'', q_Origin = None, q_Name = Some name, q_URL = Some (''https://repo.example/'' @ name),
     q_DistributionVersions = Some [''9''], q_DistributionArch = Some ''x86_64'', q_GpgKey = None, q_MetadataVerification = None,
     q_ModuleHotfixes = None, q_Snapshot = Some True\<rparr>"

definition demo_bulk :: "(repo_response list \<times> go_error option list) result \<times> repo_world" where
  "demo_bulk = BulkCreate demo_repo_env [demo_creation ''a'', demo_creation ''b''] (no_repositories [])"

lemma demo_bulk_answer: "\<not> isl (fst demo_bulk) \<and> snd (projr (fst demo_bulk)) = [] \<and> length (fst (projr (fst demo_bulk))) = 2"
  by code_simp


text \<open>When the commit fails the created repositories are answered all the same, and nothing is stored.\<close>

lemma lost_commit_is_answered_as_created:
  "let (answer, w') = BulkCreate demo_repo_env [demo_creation ''a''] (no_repositories [None, None, None, None, Some (Other ''connection lost'')]) in
     \<not> isl answer \<and> length (fst (projr answer)) = 1 \<and> snd (projr answer) = [] \<and> rw_configs w' = [] \<and> rw_repositories w' = []"
  by code_simp

end
