(* ===== verification/RepositoryTables.thy ===== *)
theory RepositoryTables
  imports RepositoryConfigsProps
begin

text \<open>
  The invariant of the tables of repositories and configurations, which every request keeps.
\<close>

section \<open>The invariant\<close>

text \<open>Two configurations of an organisation may share neither name nor repository nor label.\<close>

definition clash :: "RepositoryConfiguration \<Rightarrow> RepositoryConfiguration \<Rightarrow> bool" where
  "clash c d \<longleftrightarrow> rc_OrgID c = rc_OrgID d \<and>
     (rc_Name c = rc_Name d \<or> rc_RepositoryUUID c = rc_RepositoryUUID d \<or> rc_Label c = rc_Label d)"

definition configs_ok :: "Repository list \<Rightarrow> stored_config list \<Rightarrow> bool" where
  "configs_ok repos configs \<longleftrightarrow>
     (\<forall>s \<in> set configs. rc_normal (sc_Config s) \<and> rc_Origin (sc_Config s) = '''' \<and>
        (\<exists>r \<in> set repos. r_UUID r = rc_RepositoryUUID (sc_Config s))) \<and>
     distinct (map (rc_UUID \<circ> sc_Config) configs) \<and>
     (\<forall>s \<in> set configs. \<forall>t \<in> set configs. \<not> sc_Deleted s \<and> \<not> sc_Deleted t \<and> clash (sc_Config s) (sc_Config t) \<longrightarrow> s = t)"

definition repositories_ok :: "Repository list \<Rightarrow> bool" where
  "repositories_ok repos \<longleftrightarrow>
     distinct (map r_UUID repos) \<and> (\<forall>r \<in> set repos. CleanupURL (r_URL r) = r_URL r \<and> r_Origin r \<noteq> '''') \<and>
     (\<forall>r \<in> set repos. \<forall>r' \<in> set repos. r_URL r \<noteq> '''' \<and> r_URL r = r_URL r' \<and> r_Origin r = r_Origin r' \<longrightarrow> r = r')"

text \<open>The UUIDs that are still to be made are not in use.\<close>

definition unused :: "repo_env \<Rightarrow> repo_world \<Rightarrow> nat \<Rightarrow> bool" where
  "unused ev w n \<longleftrightarrow> (\<forall>k \<ge> n. ev_uuid ev k \<notin> r_UUID ` set (rw_repositories w) \<union> (rc_UUID \<circ> sc_Config) ` set (rw_configs w))"

definition repo_tables_ok :: "repo_env \<Rightarrow> repo_world \<Rightarrow> bool" where
  "repo_tables_ok ev w \<longleftrightarrow> repositories_ok (rw_repositories w) \<and> configs_ok (rw_repositories w) (rw_configs w) \<and> unused ev w (rw_made w)"

definition keeping :: "repo_env \<Rightarrow> repo_world \<Rightarrow> repo_world \<Rightarrow> bool" where
  "keeping ev w w' \<longleftrightarrow> (repo_tables_ok ev w \<longrightarrow> rw_made w \<le> rw_made w' \<and> repo_tables_ok ev w')"

lemma keeping_order: "reflp (keeping ev)" "transp (keeping ev)"
  by (auto simp: keeping_def reflp_def transp_def)

lemma repo_tables_ok_same:
  "repo_tables_ok ev w \<Longrightarrow> same_repos w w' \<Longrightarrow> rw_made w \<le> rw_made w' \<Longrightarrow> repo_tables_ok ev w'"
  by (auto simp: repo_tables_ok_def same_repos_def unused_def)

lemma keeping_same: "same_repos w w' \<Longrightarrow> rw_made w \<le> rw_made w' \<Longrightarrow> keeping ev w w'"
  using repo_tables_ok_same [of ev w w'] by (simp add: keeping_def)

section \<open>Statements\<close>

lemma callDB_cases:
  obtains e where "callDB f w = (Inl e, w\<lparr>rw_faults := tl (rw_faults w)\<rparr>)" | "callDB f w = f (w\<lparr>rw_faults := tl (rw_faults w)\<rparr>)"
proof (cases "\<exists>e fs. rw_faults w = Some e # fs")
  case True
  then show thesis using that(1) by (auto simp: callDB_def Let_def)
next
  case False
  then have "callDB f w = f (w\<lparr>rw_faults := tl (rw_faults w)\<rparr>)" by (auto simp: callDB_def Let_def split: list.split option.split)
  then show thesis by (rule that(2))
qed

lemma keeping_faults [simp]: "keeping ev w (w\<lparr>rw_faults := fs\<rparr>)"
  by (rule keeping_same) (simp_all add: same_repos_def)

lemma keeping_made [simp]: "n \<ge> rw_made w \<Longrightarrow> keeping ev w (w\<lparr>rw_made := n\<rparr>)"
  by (rule keeping_same) (simp_all add: same_repos_def)

lemma callDB_keeping:
  assumes "\<And>w. keeping ev w (snd (f w))"
  shows "keeps (keeping ev) (callDB f)"
proof (rule keepsI)
  fix w
  show "keeping ev w (snd (callDB f w))"
  proof (cases rule: callDB_cases [of f w])
    case 2
    then show ?thesis using assms [of "w\<lparr>rw_faults := tl (rw_faults w)\<rparr>"] keeping_faults keeping_order(2) by (metis transpD)
  qed simp
qed

lemma selectDB_keeping: "keeps (keeping ev) (selectDB q)"
  unfolding selectDB_def by (rule callDB_keeping) (simp add: keeping_same same_repos_def)

lemma add_repository:
  assumes "repo_tables_ok ev w" "inj (ev_uuid ev)" "r_UUID r = ev_uuid ev (rw_made w)" "CleanupURL (r_URL r) = r_URL r" "r_Origin r \<noteq> ''''"
    and "repository_conflict w r = None"
    and "rw_repositories w' = rw_repositories w @ [r]" "rw_configs w' = rw_configs w" "rw_made w' = Suc (rw_made w)"
  shows "repo_tables_ok ev w'"
  using assms inj_eq [OF assms(2)]
  by (auto simp: repo_tables_ok_def repositories_ok_def configs_ok_def unused_def repository_conflict_def list_ex_iff Ball_def image_iff
    split: if_splits)

lemma no_conflict:
  "config_conflict w c = None \<Longrightarrow> s \<in> set (rw_configs w) \<Longrightarrow> \<not> sc_Deleted s \<Longrightarrow> clash c (sc_Config s) \<Longrightarrow> rc_UUID (sc_Config s) = rc_UUID c"
  by (auto simp: config_conflict_def clash_def live_configs_def list_ex_iff Let_def split: if_splits)

lemma repository_of_Some: "repository_of w c \<noteq> None \<Longrightarrow> \<exists>r \<in> set (rw_repositories w). r_UUID r = rc_RepositoryUUID c"
  by (auto simp: repository_of_def find_Some_iff)

lemma clash_store [simp]: "clash (sc_Config (store c)) d \<longleftrightarrow> clash c d" "clash d (sc_Config (store c)) \<longleftrightarrow> clash d c"
  by (auto simp: store_def clash_def)

lemma clash_sym: "clash c d \<Longrightarrow> clash d c"
  by (auto simp: clash_def)

lemma store_fields [simp]:
  "rc_UUID (sc_Config (store c)) = rc_UUID c" "rc_Origin (sc_Config (store c)) = ''''" "\<not> sc_Deleted (store c)"
  "rc_RepositoryUUID (sc_Config (store c)) = rc_RepositoryUUID c" "rc_normal c \<Longrightarrow> rc_normal (sc_Config (store c))"
  by (auto simp: store_def rc_normal_def OriginUpload_def)

lemma add_config:
  assumes "configs_ok repos configs" "rc_normal c" "rc_UUID c \<notin> (rc_UUID \<circ> sc_Config) ` set configs" "\<exists>r \<in> set repos. r_UUID r = rc_RepositoryUUID c"
    and "\<And>s. s \<in> set configs \<Longrightarrow> \<not> sc_Deleted s \<Longrightarrow> \<not> clash c (sc_Config s)"
  shows "configs_ok repos (configs @ [store c])"
  using assms clash_sym [of _ c] by (fastforce simp: configs_ok_def)

lemma configs_ok_mapI:
  assumes "\<forall>s \<in> set configs. rc_normal (sc_Config (f s)) \<and> rc_Origin (sc_Config (f s)) = '''' \<and>
      (\<exists>r \<in> set repos. r_UUID r = rc_RepositoryUUID (sc_Config (f s)))"
    and "distinct (map (rc_UUID \<circ> sc_Config) (map f configs))"
    and "\<And>s t. s \<in> set configs \<Longrightarrow> t \<in> set configs \<Longrightarrow> \<not> sc_Deleted (f s) \<Longrightarrow> \<not> sc_Deleted (f t) \<Longrightarrow>
      clash (sc_Config (f s)) (sc_Config (f t)) \<Longrightarrow> f s = f t"
  shows "configs_ok repos (map f configs)"
  using assms by (simp add: configs_ok_def)

lemma change_config:
  assumes ok: "configs_ok repos configs" and new: "rc_normal c" "rc_Origin c = ''''" "rc_UUID c = uuid" "\<exists>r \<in> set repos. r_UUID r = rc_RepositoryUUID c"
    and free: "\<And>s. s \<in> set configs \<Longrightarrow> \<not> sc_Deleted s \<Longrightarrow> clash c (sc_Config s) \<Longrightarrow> rc_UUID (sc_Config s) = uuid"
  shows "configs_ok repos (update_where (live_row uuid) (\<lambda>s. s\<lparr>sc_Config := c\<rparr>) configs)"
proof -
  let ?f = "\<lambda>s. if live_row uuid s then s\<lparr>sc_Config := c\<rparr> else s"
  have ids: "rc_UUID (sc_Config (?f s)) = rc_UUID (sc_Config s)" for s using new(3) by (simp add: live_row_def)
  have one: "s = t" if "s \<in> set configs" "t \<in> set configs" "rc_UUID (sc_Config s) = rc_UUID (sc_Config t)" for s t
    using ok that by (auto simp: configs_ok_def distinct_map inj_on_def)
  have "?f s = ?f t" if st: "s \<in> set configs" "t \<in> set configs" "\<not> sc_Deleted (?f s)" "\<not> sc_Deleted (?f t)" "clash (sc_Config (?f s)) (sc_Config (?f t))" for s t
  proof -
    have live: "\<not> sc_Deleted s" "\<not> sc_Deleted t" using st(3,4) by (auto split: if_splits)
    consider "live_row uuid s" "live_row uuid t" | "live_row uuid s" "\<not> live_row uuid t" | "\<not> live_row uuid s" "live_row uuid t"
      | "\<not> live_row uuid s" "\<not> live_row uuid t" by blast
    then show ?thesis
    proof cases
      case 1
      then show ?thesis using one [OF st(1,2)] by (simp add: live_row_def)
    next
      case 2
      then show ?thesis using free [OF st(2) live(2)] st(5) live(2) by (simp add: live_row_def)
    next
      case 3
      then show ?thesis using free [OF st(1) live(1)] st(5) live(1) clash_sym by (simp add: live_row_def)
    next
      case 4
      then show ?thesis using ok st live by (simp add: configs_ok_def)
    qed
  qed
  moreover have "distinct (map (rc_UUID \<circ> sc_Config) (map ?f configs))"
    using ok ids by (simp add: configs_ok_def comp_def)
  moreover have "\<forall>s \<in> set configs. rc_normal (sc_Config (?f s)) \<and> rc_Origin (sc_Config (?f s)) = '''' \<and>
      (\<exists>r \<in> set repos. r_UUID r = rc_RepositoryUUID (sc_Config (?f s)))"
    using ok new by (simp add: configs_ok_def)
  ultimately show ?thesis unfolding update_where_def by (intro configs_ok_mapI) blast+
qed

lemma delete_config:
  assumes "configs_ok repos configs"
  shows "configs_ok repos (update_where (live_row uuid) (\<lambda>s. s\<lparr>sc_Deleted := True\<rparr>) configs)"
proof -
  let ?f = "\<lambda>s. if live_row uuid s then s\<lparr>sc_Deleted := True\<rparr> else s"
  have f: "sc_Config (?f s) = sc_Config s" for s by simp
  have "?f s = s" if "\<not> sc_Deleted (?f s)" for s using that by (auto split: if_splits)
  then have "?f s = ?f t" if "s \<in> set configs" "t \<in> set configs" "\<not> sc_Deleted (?f s)" "\<not> sc_Deleted (?f t)" "clash (sc_Config (?f s)) (sc_Config (?f t))" for s t
    using assms that unfolding configs_ok_def by metis
  moreover have "distinct (map (rc_UUID \<circ> sc_Config) (map ?f configs))" 
  proof -
    have "map (rc_UUID \<circ> sc_Config) (map ?f configs) = map (rc_UUID \<circ> sc_Config) configs" by simp
    with assms show ?thesis unfolding configs_ok_def by metis
  qed
  moreover have "\<forall>s \<in> set configs. rc_normal (sc_Config (?f s)) \<and> rc_Origin (sc_Config (?f s)) = '''' \<and>
      (\<exists>r \<in> set repos. r_UUID r = rc_RepositoryUUID (sc_Config (?f s)))"
    using assms unfolding f by (simp add: configs_ok_def)
  ultimately show ?thesis unfolding update_where_def by (intro configs_ok_mapI) blast+
qed

section \<open>Each statement\<close>

lemma BeforeCreate_normal:
  assumes "rc_BeforeCreate taken rnd u new = Inr c"
  shows "rc_normal c"
  using assms normal_after [of "SetLabel taken rnd (new\<lparr>rc_UUID := u\<rparr>)"] by (auto simp: rc_BeforeCreate_def Let_def split: option.splits)

lemma keeping_create_repository:
  assumes "inj (ev_uuid ev)"
  shows "keeps (keeping ev) (create_repository ev repo)"
proof (rule keepsI)
  fix w :: repo_world
  let ?n = "rw_made w" and ?w = "w\<lparr>rw_made := Suc (rw_made w), rw_faults := tl (rw_faults w)\<rparr>"
  have same: "keeping ev w (w\<lparr>rw_made := Suc ?n\<rparr>)" "keeping ev w ?w" by (auto intro!: keeping_same simp: same_repos_def)
  show "keeping ev w (snd (create_repository ev repo w))"
  proof (cases "repository_BeforeCreate (ev_ParseRequestURI ev) (ev_uuid ev ?n) (ev_now ev ?n) repo")
    case (Inl e)
    then show ?thesis using same by (simp add: create_repository_def Let_def)
  next
    case (Inr r)
    let ?r = "repository_defaults r"
    let ?f = "\<lambda>w. case repository_conflict w ?r of Some c \<Rightarrow> (Inl (unique_violation c), w) | None \<Rightarrow> (Inr ?r, w\<lparr>rw_repositories := rw_repositories w @ [?r]\<rparr>)"
    have c: "create_repository ev repo w = callDB ?f (w\<lparr>rw_made := Suc ?n\<rparr>)" using Inr by (simp add: create_repository_def Let_def)
    have r: "r_UUID ?r = ev_uuid ev ?n" "CleanupURL (r_URL ?r) = r_URL ?r" "r_Origin ?r \<noteq> ''''"
      using Inr by (auto simp: repository_BeforeCreate_def repository_defaults_def Let_def OriginExternal_def split: option.splits if_splits)
    have "keeping ev w (?w\<lparr>rw_repositories := rw_repositories w @ [?r]\<rparr>)" if "repository_conflict ?w ?r = None"
      using that by (auto simp: keeping_def repository_conflict_def intro!: add_repository [OF _ assms r])
    then show ?thesis
      using same unfolding c by (cases rule: callDB_cases [of ?f "w\<lparr>rw_made := Suc ?n\<rparr>"]) (auto split: option.split)
  qed
qed

lemma keeping_create_config:
  assumes "inj (ev_uuid ev)"
  shows "keeps (keeping ev) (create_config ev new)"
proof (rule keepsI)
  fix w :: repo_world
  let ?n = "rw_made w" and ?w = "w\<lparr>rw_made := Suc (rw_made w), rw_faults := tl (rw_faults w)\<rparr>"
  have same: "keeping ev w (w\<lparr>rw_made := Suc ?n\<rparr>)" "keeping ev w ?w" by (auto intro!: keeping_same simp: same_repos_def)
  show "keeping ev w (snd (create_config ev new w))"
  proof (cases "rc_BeforeCreate (labels_taken w) (ev_random ev ?n) (ev_uuid ev ?n) new")
    case (Inl e)
    then show ?thesis using same by (simp add: create_config_def Let_def)
  next
    case (Inr s)
    let ?f = "\<lambda>w. case config_conflict w s of Some constraint \<Rightarrow> (Inl (unique_violation constraint), w)
      | None \<Rightarrow> if repository_of w s = None then (Inl fk_repository, w) else (Inr s, w\<lparr>rw_configs := rw_configs w @ [store s]\<rparr>)"
    have c: "create_config ev new w = callDB ?f (w\<lparr>rw_made := Suc ?n\<rparr>)" using Inr by (simp add: create_config_def Let_def)
    note s = BeforeCreate_keeps(11) [OF Inr] BeforeCreate_normal [OF Inr]
    have "keeping ev w (?w\<lparr>rw_configs := rw_configs w @ [store s]\<rparr>)" if g: "config_conflict ?w s = None" "repository_of ?w s \<noteq> None"
    proof -
      have "repo_tables_ok ev (?w\<lparr>rw_configs := rw_configs w @ [store s]\<rparr>)" if ok: "repo_tables_ok ev w"
      proof -
        have u: "rc_UUID s \<notin> (rc_UUID \<circ> sc_Config) ` set (rw_configs w)" using ok s(1) by (simp add: repo_tables_ok_def unused_def)
        have "configs_ok (rw_repositories w) (rw_configs w @ [store s])"
          using ok u s(2) repository_of_Some [OF g(2)] no_conflict [OF g(1)] by (intro add_config) (force simp: repo_tables_ok_def)+
        moreover have "unused ev (?w\<lparr>rw_configs := rw_configs w @ [store s]\<rparr>) (Suc ?n)"
          using ok s(1) inj_eq [OF assms] by (auto simp: repo_tables_ok_def unused_def)
        ultimately show ?thesis using ok by (simp add: repo_tables_ok_def)
      qed
      then show ?thesis by (simp add: keeping_def)
    qed
    then show ?thesis
      using same unfolding c by (cases rule: callDB_cases [of ?f "w\<lparr>rw_made := Suc ?n\<rparr>"]) (auto split: option.split)
  qed
qed

lemma update_where_keys: "(\<And>s. p s \<Longrightarrow> k (f s) = k s) \<Longrightarrow> k ` set (update_where p f rows) = k ` set rows"
  unfolding update_where_def set_map image_image by (rule image_cong) simp_all

lemma hook_normal:
  assumes "rc_validate c = None" "rc_Versions c \<noteq> None" "rc_Origin d = ''''"
  shows "rc_normal (set_config_columns (hook_columns c) d)"
proof -
  note v = rc_validate_None [OF assms(1)]
  obtain vs where vs: "rc_Versions c = Some vs" "versions c = vs" using assms(2) by (auto simp: versions_def)
  have any: "ANY_VERSION \<in> version_labels" "ValidArchLabel ANY_ARCH" "ANY_ARCH \<noteq> ''''" by code_simp+
  have alone: "ANY_VERSION \<in> set vs \<Longrightarrow> vs = [ANY_VERSION]"
    using v vs by (cases vs) (auto simp: versionContainsAnyAndOthers_def list_ex_iff split: if_splits)
  have "\<exists>us. rc_Versions (hook_columns c) = Some us \<and> us \<noteq> [] \<and> sorted us \<and> distinct us \<and> set us \<subseteq> version_labels \<and>
      (ANY_VERSION \<in> set us \<longrightarrow> us = [ANY_VERSION])"
    using v vs any alone
    by (cases "vs = []") (auto simp: hook_columns_def sorted_nonempty_dedup distinct_dedup_from set_dedup_from)
  then show ?thesis using v any assms(3) by (auto simp: rc_normal_def set_config_columns_def hook_columns_def OriginUpload_def)
qed

lemma keeping_update_config:
  assumes "rc_Versions c \<noteq> None"
  shows "keeps (keeping ev) (update_config c)"
proof (cases "rc_validate c")
  case (Some e)
  then show ?thesis by (auto intro!: keepsI keeping_same simp: update_config_def same_repos_def)
next
  case None
  let ?f = "\<lambda>w. case find (live_row (rc_UUID c)) (rw_configs w) of None \<Rightarrow> (Inr (), w)
    | Some s \<Rightarrow> (let new = set_config_columns (hook_columns c) (sc_Config s) in
        case config_conflict w new of Some constraint \<Rightarrow> (Inl (unique_violation constraint), w)
        | None \<Rightarrow> if repository_of w new = None then (Inl fk_repository, w)
            else (Inr (), w\<lparr>rw_configs := update_where (live_row (rc_UUID c)) (\<lambda>s. s\<lparr>sc_Config := new\<rparr>) (rw_configs w)\<rparr>))"
  have u: "update_config c = callDB ?f" using None by (simp add: update_config_def)
  have "keeping ev w (snd (?f w))" for w :: repo_world
  proof (cases "find (live_row (rc_UUID c)) (rw_configs w)")
    case None
    then show ?thesis by (simp add: keeping_same same_repos_def)
  next
    case (Some s)
    define new where "new = set_config_columns (hook_columns c) (sc_Config s)"
    from Some have s: "s \<in> set (rw_configs w)" "live_row (rc_UUID c) s" by (auto simp: find_Some_iff)
    have "repo_tables_ok ev (w\<lparr>rw_configs := update_where (live_row (rc_UUID c)) (\<lambda>s. s\<lparr>sc_Config := new\<rparr>) (rw_configs w)\<rparr>)"
      if g: "config_conflict w new = None" "repository_of w new \<noteq> None" and ok: "repo_tables_ok ev w"
    proof -
      have id: "rc_UUID new = rc_UUID c" using s(2) by (simp add: new_def set_config_columns_def live_row_def)
      have o': "rc_Origin (sc_Config s) = ''''" using ok s(1) by (simp add: repo_tables_ok_def configs_ok_def)
      then have "rc_Origin new = ''''" by (simp add: new_def set_config_columns_def)
      with ok id hook_normal [OF None assms o'] repository_of_Some [OF g(2)] no_conflict [OF g(1)]
      have "configs_ok (rw_repositories w) (update_where (live_row (rc_UUID c)) (\<lambda>s. s\<lparr>sc_Config := new\<rparr>) (rw_configs w))"
        by (intro change_config) (auto simp: repo_tables_ok_def new_def)
      moreover have "(rc_UUID \<circ> sc_Config) ` set (update_where (live_row (rc_UUID c)) (\<lambda>s. s\<lparr>sc_Config := new\<rparr>) (rw_configs w)) =
          (rc_UUID \<circ> sc_Config) ` set (rw_configs w)"
        using id by (intro update_where_keys) (simp add: live_row_def)
      ultimately show ?thesis using ok by (simp add: repo_tables_ok_def unused_def)
    qed
    with Some show ?thesis by (auto simp: keeping_def new_def Let_def split: option.split)
  qed
  then show ?thesis unfolding u by (rule callDB_keeping)
qed

lemma keeping_soft_delete: "keeps (keeping ev) (soft_delete_config uuid)"
proof -
  have "keeping ev w (w\<lparr>rw_configs := update_where (live_row uuid) (\<lambda>s. s\<lparr>sc_Deleted := True\<rparr>) (rw_configs w)\<rparr>)" for w :: repo_world
  proof -
    have "(rc_UUID \<circ> sc_Config) ` set (update_where (live_row uuid) (\<lambda>s. s\<lparr>sc_Deleted := True\<rparr>) (rw_configs w)) =
        (rc_UUID \<circ> sc_Config) ` set (rw_configs w)"
      by (intro update_where_keys) simp
    then show ?thesis using delete_config by (simp add: keeping_def repo_tables_ok_def unused_def)
  qed
  then show ?thesis unfolding soft_delete_config_def by (intro callDB_keeping) simp
qed

section \<open>Requests\<close>

lemmas table_return = keeps_return [OF keeping_order(1)]
lemmas table_fail = keeps_fail [OF keeping_order(1)]
lemmas table_bind = keeps_bind [OF keeping_order(2)]
lemmas table_apiErr = apiErr_keeps [OF keeping_order]
lemmas table_handle = keeps_handle [OF keeping_order(2)]
lemmas table_deref = deref_keeps [OF keeping_order(1)]

lemmas table_steps = table_return table_fail table_bind table_apiErr table_handle table_deref selectDB_keeping
  keeping_create_repository keeping_create_config keeping_soft_delete

lemma keeping_first_or_create: "inj (ev_uuid ev) \<Longrightarrow> keeps (keeping ev) (first_or_create ev cond repo)"
  by (auto simp: first_or_create_def simp del: returnIO_apply intro!: table_steps split: option.split)

lemma keeping_create: "inj (ev_uuid ev) \<Longrightarrow> keeps (keeping ev) (RepositoryConfig_Create ev req)"
  by (auto simp: RepositoryConfig_Create_def fetchOwnConfig_def mapErrIO_def Let_def simp del: returnIO_apply failIO_apply
    intro!: table_steps keeping_first_or_create split: prod.split)

lemma keeping_bulk_create_one: "inj (ev_uuid ev) \<Longrightarrow> keeps (keeping ev) (bulk_create_one ev req)"
  by (auto simp: bulk_create_one_def Let_def simp del: returnIO_apply failIO_apply intro!: table_steps keeping_first_or_create split: prod.split)

lemma keeping_import_upload: "inj (ev_uuid ev) \<Longrightarrow> keeps (keeping ev) (importUploadRepository ev req repo c)"
  by (auto simp: importUploadRepository_def simp del: returnIO_apply intro!: table_steps split: option.split)

lemma keeping_import_custom: "inj (ev_uuid ev) \<Longrightarrow> keeps (keeping ev) (import_custom ev c repo)"
  by (auto simp: import_custom_def Let_def simp del: returnIO_apply intro!: table_steps keeping_first_or_create split: option.split)

lemma keeping_bulk_import_one: "inj (ev_uuid ev) \<Longrightarrow> keeps (keeping ev) (bulk_import_one ev req)"
  by (auto simp: bulk_import_one_def import_shared_def mapErrIO_def Let_def simp del: returnIO_apply failIO_apply
    intro!: table_steps keeping_import_upload keeping_import_custom split: prod.split option.split)

lemma keeping_delete_one: "keeps (keeping ev) (bulk_delete_one orgID uuid)"
  by (auto simp: bulk_delete_one_def fetchOwnConfig_def mapErrIO_def simp del: returnIO_apply failIO_apply intro!: table_steps split: prod.split)

lemma keeping_soft_delete_request: "keeps (keeping ev) (RepositoryConfig_SoftDelete orgID uuid)"
  by (auto simp: RepositoryConfig_SoftDelete_def mapErrIO_def whenIO_def simp del: returnIO_apply failIO_apply intro!: table_steps)

text \<open>Back to a savepoint whose tables were in order.\<close>

lemma ok_rollback: "repo_tables_ok ev save \<Longrightarrow> rw_made save \<le> rw_made w \<Longrightarrow> repo_tables_ok ev (rollback_to save w)"
  by (rule repo_tables_ok_same [of ev save]) (simp_all add: rollback_to_def same_repos_def)

lemma bulk_loop_keeps_ok:
  assumes f: "\<And>x. keeps (keeping ev) (f x)" and save: "repo_tables_ok ev save"
  shows "repo_tables_ok ev w \<Longrightarrow> rw_made save \<le> rw_made w \<Longrightarrow> bulk_loop f save xs w = (r, w') \<Longrightarrow>
    repo_tables_ok ev w' \<and> rw_made save \<le> rw_made w'"
proof (induction xs arbitrary: w r)
  case (Cons x xs)
  obtain r1 w1 where r1: "f x w = (r1, w1)" by (cases "f x w")
  have w1: "repo_tables_ok ev w1 \<and> rw_made save \<le> rw_made w1" using keepsD [OF f, of w x] r1 Cons.prems by (simp add: keeping_def)
  obtain r2 w2 where r2: "caseIO (f x) (\<lambda>err w. (Inr (Inl err), rollback_to save w)) (\<lambda>r. returnIO (Inr r)) w = (r2, w2)"
    by fastforce
  have w2: "repo_tables_ok ev w2 \<and> rw_made save \<le> rw_made w2"
    using r2 r1 w1 save ok_rollback [of ev save w1] by (cases r1) (auto simp: caseIO_def rollback_to_def split: if_splits)
  show ?case
  proof (cases r2)
    case (Inl e)
    then show ?thesis using Cons.prems(3) r2 w2 by (simp add: bindIO_def)
  next
    case (Inr b)
    obtain r3 w3 where r3: "bulk_loop f save xs w2 = (r3, w3)" by fastforce
    then have "w' = w3" using Cons.prems(3) r2 Inr by (cases r3) (simp_all add: bindIO_def)
    then show ?thesis using Cons.IH [of w2 r3] r3 w2 by simp
  qed
qed simp

lemma begin_ok:
  assumes "callDB (Pair (Inr ())) w = (r, w')" "repo_tables_ok ev w"
  shows "repo_tables_ok ev w' \<and> rw_made w' = rw_made w"
  using callDB_begin [OF assms(1)] repo_tables_ok_same [OF assms(2), of w'] by (simp add: same_repos_def)

lemma keeping_bulk:
  assumes "\<And>x. keeps (keeping ev) (f x)"
  shows "keeps (keeping ev) (bulk f xs)"
proof (rule keepsI)
  fix w :: repo_world
  obtain r w1 where b: "callDB (Pair (Inr ())) w = (r, w1)" by (cases "callDB (Pair (Inr ())) w")
  obtain l w2 where l: "bulk_loop f w1 xs w1 = (l, w2)" by (cases "bulk_loop f w1 xs w1")
  obtain c w3 where c: "callDB (Pair (Inr ())) w2 = (c, w3)" by (cases "callDB (Pair (Inr ())) w2")
  show "keeping ev w (snd (bulk f xs w))"
  proof (cases "repo_tables_ok ev w")
    case True
    note w1 = begin_ok [OF b True]
    have w2: "repo_tables_ok ev w2 \<and> rw_made w1 \<le> rw_made w2" using bulk_loop_keeps_ok [OF assms _ _ _ l] w1 by blast
    then have w3: "repo_tables_ok ev w3 \<and> rw_made w3 = rw_made w2" using begin_ok [OF c] by blast
    have "repo_tables_ok ev (rollback_to w1 w2)" "repo_tables_ok ev (rollback_to w1 w3)"
      using ok_rollback [of ev w1] w1 w2 w3 by simp_all
    then show ?thesis using b l c w1 w2 w3
      by (cases r; cases l; cases c) (simp_all add: bulk_def keeping_def rollback_to_def)
  qed (simp add: keeping_def)
qed

lemma keeping_transaction:
  assumes "keeps (keeping ev) body"
  shows "keeps (keeping ev) (transaction body)"
proof (rule keepsI)
  fix w :: repo_world
  obtain r w1 where b: "callDB (Pair (Inr ())) w = (r, w1)" by (cases "callDB (Pair (Inr ())) w")
  obtain l w2 where l: "body w1 = (l, w2)" by (cases "body w1")
  obtain c w3 where c: "callDB (Pair (Inr ())) w2 = (c, w3)" by (cases "callDB (Pair (Inr ())) w2")
  show "keeping ev w (snd (transaction body w))"
  proof (cases "repo_tables_ok ev w")
    case True
    note w1 = begin_ok [OF b True]
    have w2: "repo_tables_ok ev w2 \<and> rw_made w1 \<le> rw_made w2" using keepsD [OF assms, of w1] l w1 by (simp add: keeping_def)
    then have w3: "repo_tables_ok ev w3 \<and> rw_made w3 = rw_made w2" using begin_ok [OF c] by blast
    have "repo_tables_ok ev (rollback_to w1 w2)" "repo_tables_ok ev (rollback_to w1 w3)"
      using ok_rollback [of ev w1] w1 w2 w3 by simp_all
    then show ?thesis using b l c w1 w2 w3
      by (cases r; cases l; cases c) (simp_all add: transaction_def keeping_def rollback_to_def)
  qed (simp add: keeping_def)
qed

text \<open>A continuation of which more is known when the tables are in order.\<close>

lemma table_bind_known:
  assumes m: "keeps (keeping ev) m" and known: "\<And>w a w'. repo_tables_ok ev w \<Longrightarrow> m w = (Inr a, w') \<Longrightarrow> P a"
    and k: "\<And>a. P a \<Longrightarrow> keeps (keeping ev) (k a)"
  shows "keeps (keeping ev) (bindIO m k)"
proof (rule keepsI)
  fix w :: repo_world
  obtain r w1 where r: "m w = (r, w1)" by (cases "m w")
  show "keeping ev w (snd (bindIO m k w))"
  proof (cases "repo_tables_ok ev w")
    case True
    have w1: "repo_tables_ok ev w1 \<and> rw_made w \<le> rw_made w1" using keepsD [OF m, of w] True r by (simp add: keeping_def)
    show ?thesis
    proof (cases r)
      case (Inl e)
      then show ?thesis using r w1 by (simp add: bindIO_def keeping_def)
    next
      case (Inr a)
      then have "keeping ev w1 (snd (k a w1))" using keepsD [OF k] known [OF True] r by blast
      then show ?thesis using r Inr w1 by (auto simp: bindIO_def keeping_def)
    qed
  qed (simp add: keeping_def)
qed

lemma fetched_same:
  assumes "fetchOwnConfig orgID uuid w = (Inr cr, w')"
  shows "same_repos w w'"
proof -
  have s: "selectDB (\<lambda>w. case find (\<lambda>c. rc_UUID c = uuid \<and> rc_OrgID c = orgID) (live_configs w) of None \<Rightarrow> Inl ErrRecordNotFound
      | Some c \<Rightarrow> (case repository_of w c of None \<Rightarrow> Inr (c, zero_repository) | Some r \<Rightarrow> Inr (c\<lparr>rc_Origin := r_Origin r\<rparr>, r))) w = (Inr cr, w')"
    using assms by (simp add: fetchOwnConfig_def)
  show ?thesis using selectDB_success(1) [OF s] by (simp add: same_repos_def)
qed

lemma fetched_own:
  assumes "fetchOwnConfig orgID uuid w = (Inr (c, r), w')"
  obtains d where "d \<in> set (live_configs w)" "rc_UUID d = uuid" "rc_OrgID d = orgID" "c = d\<lparr>rc_Origin := rc_Origin c\<rparr>"
proof -
  have f: "(case find (\<lambda>c. rc_UUID c = uuid \<and> rc_OrgID c = orgID) (live_configs w') of None \<Rightarrow> Inl ErrRecordNotFound
      | Some c \<Rightarrow> (case repository_of w' c of None \<Rightarrow> Inr (c, zero_repository) | Some r \<Rightarrow> Inr (c\<lparr>rc_Origin := r_Origin r\<rparr>, r))) = Inr (c, r)"
    and "rw_configs w' = rw_configs w"
    using assms selectDB_success unfolding fetchOwnConfig_def by fastforce+
  then have l: "live_configs w' = live_configs w" by (simp add: live_configs_def)
  from f obtain d where d: "find (\<lambda>c. rc_UUID c = uuid \<and> rc_OrgID c = orgID) (live_configs w) = Some d"
    and c: "c = d \<or> (\<exists>o'. c = d\<lparr>rc_Origin := o'\<rparr>)"
    unfolding l by (auto split: option.splits)
  from find_mem [OF d] have m: "d \<in> set (live_configs w)" "rc_UUID d = uuid" "rc_OrgID d = orgID" by simp_all
  have "c = d\<lparr>rc_Origin := rc_Origin c\<rparr>" using c by auto
  with m show thesis by (rule that)
qed

lemma fetched_versions:
  assumes "repo_tables_ok ev w" "fetchOwnConfig orgID uuid w = (Inr (c, r), w')"
  shows "rc_Versions c \<noteq> None"
proof -
  obtain d where d: "d \<in> set (live_configs w)" "c = d\<lparr>rc_Origin := rc_Origin c\<rparr>" using fetched_own [OF assms(2)] by blast
  have "rc_Versions c = rc_Versions d" by (subst d(2)) simp
  then show ?thesis using d(1) assms(1) by (auto simp: repo_tables_ok_def configs_ok_def rc_normal_def live_configs_def)
qed

lemma updated_versions:
  "ApiUpdateFieldsToModel params c repo = (c', repo') \<Longrightarrow> rc_Versions c \<noteq> None \<Longrightarrow> rc_Versions c' \<noteq> None"
  by (auto simp: ApiUpdateFieldsToModel_def update_fields_columns split: option.splits)

lemma update_target_success:
  assumes "update_target ev newUrl c repo old w = (Inr (c', b), w')"
  shows "(\<exists>u. c' = c\<lparr>rc_RepositoryUUID := u\<rparr> \<and> (newUrl = None \<longrightarrow> u = rc_RepositoryUUID c)) \<and> rw_configs w' = rw_configs w \<and>
    (rw_repositories w' = rw_repositories w \<or>
     (\<exists>r. newUrl \<noteq> None \<and> rw_repositories w' = rw_repositories w @ [r] \<and> r_URL r = CleanupURL (r_URL repo)))"
proof (cases "newUrl \<noteq> None \<and> r_Origin old \<noteq> OriginUpload")
  case True
  then obtain url where u: "newUrl = Some url" by blast
  with True assms obtain r where f: "first_or_create ev (has_url (CleanupURL url)) repo w = (Inr r, w')" "c' = c\<lparr>rc_RepositoryUUID := r_UUID r\<rparr>"
    by (auto simp: update_target_def elim!: bindIO_successE)
  from first_or_create_success [OF f(1)] f(2) u show ?thesis by blast
next
  case False
  with assms have "c' = c" "w' = w" by (auto simp: update_target_def split: option.splits)
  then show ?thesis by (auto intro!: exI [of _ "rc_RepositoryUUID c"])
qed

lemma update_fetched_success:
  assumes "update_fetched ev q c old w = (Inr (changed, c'), w')"
  obtains c1 repo c2 b w1 where "ApiUpdateFieldsToModel q c zero_repository = (c1, repo)" "update_target ev (p_URL q) c1 repo old w = (Inr (c2, b), w1)"
    "c' = c2\<lparr>rc_Origin := ''''\<rparr>" "update_config c' w1 = (Inr (), w')"
proof -
  obtain c1 repo where a: "ApiUpdateFieldsToModel q c zero_repository = (c1, repo)" by fastforce
  have "bindIO (update_target ev (p_URL q) c1 repo old) (\<lambda>(c, updatedUrl).
      let c = c\<lparr>rc_Origin := ''''\<rparr> in bindIO (apiErr (update_config c)) (\<lambda>_. returnIO (updatedUrl, c))) w = (Inr (changed, c'), w')"
    using assms unfolding update_fetched_def a prod.case by (simp split: if_splits)
  then obtain c2 b w1 where t: "update_target ev (p_URL q) c1 repo old w = (Inr (c2, b), w1)"
    and "(let c = c2\<lparr>rc_Origin := ''''\<rparr> in bindIO (apiErr (update_config c)) (\<lambda>_. returnIO (b, c))) w1 = (Inr (changed, c'), w')"
    by (elim bindIO_prod_successE)
  then have "c' = c2\<lparr>rc_Origin := ''''\<rparr>" "update_config c' w1 = (Inr (), w')" by (auto simp: Let_def elim!: bindIO_successE)
  with a t show thesis by (rule that)
qed

lemma update_versions:
  assumes "repo_tables_ok ev w" "update_in_transaction ev orgID uuid params w = (Inr (changed, c), w')"
  shows "rc_Versions c \<noteq> None"
proof -
  obtain c0 old w1 where f: "fetchOwnConfig orgID uuid w = (Inr (c0, old), w1)" and k: "update_fetched ev params c0 old w1 = (Inr (changed, c), w')"
    using assms(2) unfolding update_in_transaction_def by (elim bindIO_prod_successE)
  obtain c1 repo c2 b w2 where u: "ApiUpdateFieldsToModel params c0 zero_repository = (c1, repo)"
    "update_target ev (p_URL params) c1 repo old w1 = (Inr (c2, b), w2)" "c = c2\<lparr>rc_Origin := ''''\<rparr>" "update_config c w2 = (Inr (), w')"
    by (rule update_fetched_success [OF k])
  obtain ru where "c2 = c1\<lparr>rc_RepositoryUUID := ru\<rparr>" 
    using update_target_success [OF u(2)] by (elim conjE exE) (rule that)
  then have "rc_Versions c = rc_Versions c1" using u(3) by simp
  then show ?thesis using updated_versions [OF u(1) fetched_versions [OF assms(1) f]] by simp
qed

lemma keeping_update_fetched:
  assumes "inj (ev_uuid ev)" "rc_Versions c \<noteq> None"
  shows "keeps (keeping ev) (update_fetched ev params c old)"
proof -
  obtain c1 repo where a: "ApiUpdateFieldsToModel params c zero_repository = (c1, repo)" by fastforce
  note v = updated_versions [OF a assms(2)]
  have "keeps (keeping ev) (bindIO (update_target ev (p_URL params) c1 repo old) (\<lambda>(c, b).
      let c = c\<lparr>rc_Origin := ''''\<rparr> in bindIO (apiErr (update_config c)) (\<lambda>_. returnIO (b, c))))"
  proof (rule table_bind_known [where P = "\<lambda>d. rc_Versions (fst d) \<noteq> None"])
    show "keeps (keeping ev) (update_target ev (p_URL params) c1 repo old)"
      by (auto simp: update_target_def assms(1) simp del: returnIO_apply intro!: table_steps keeping_first_or_create split: option.split)
  next
    fix w d w' assume t: "update_target ev (p_URL params) c1 repo old w = (Inr d, w')"
    obtain c2 b where d: "d = (c2, b)" by (cases d)
    obtain ru where "c2 = c1\<lparr>rc_RepositoryUUID := ru\<rparr>" 
      using update_target_success [OF t [unfolded d]] by (elim conjE exE) (rule that)
    then show "rc_Versions (fst d) \<noteq> None" using v by (simp add: d)
  next
    fix d :: "RepositoryConfiguration \<times> bool" assume "rc_Versions (fst d) \<noteq> None"
    then show "keeps (keeping ev) (case d of (c, b) \<Rightarrow> let c = c\<lparr>rc_Origin := ''''\<rparr> in bindIO (apiErr (update_config c)) (\<lambda>_. returnIO (b, c)))"
      by (cases d) (auto simp: Let_def simp del: returnIO_apply intro!: table_steps keeping_update_config)
  qed
  then show ?thesis unfolding update_fetched_def a prod.case by (simp add: table_fail)
qed

lemma keeping_update:
  assumes "inj (ev_uuid ev)"
  shows "keeps (keeping ev) (RepositoryConfig_Update ev orgID uuid params)"
proof -
  have t: "keeps (keeping ev) (update_in_transaction ev orgID uuid params)"
    unfolding update_in_transaction_def
    by (rule table_bind_known [where P = "\<lambda>(c, r). rc_Versions c \<noteq> None"])
       (auto simp: fetchOwnConfig_def mapErrIO_def simp del: failIO_apply intro!: table_steps keeping_update_fetched assms dest: fetched_versions)
  have k: "keeps (keeping ev) (bindIO (apiErr (update_config c)) (\<lambda>_. returnIO changed))" if "rc_Versions c \<noteq> None" for c changed
    using that by (auto simp del: returnIO_apply intro!: table_steps keeping_update_config)
  have v: "rc_Versions c \<noteq> None"
    if "repo_tables_ok ev w" "transaction (update_in_transaction ev orgID uuid params) w = (Inr (changed, c), w')" for w changed c w'
  proof -
    obtain r w1 where b: "callDB (Pair (Inr ())) w = (r, w1)" by fastforce
    have "\<exists>w2. update_in_transaction ev orgID uuid params w1 = (Inr (changed, c), w2)"
      using that(2) b by (auto simp: transaction_def split: sum.splits prod.splits)
    then show ?thesis using update_versions begin_ok [OF b that(1)] by blast
  qed
  show ?thesis
    unfolding RepositoryConfig_Update_def
  proof (rule table_bind_known [where P = "\<lambda>a. rc_Versions (snd a) \<noteq> None"])
    show "keeps (keeping ev) (transaction (update_in_transaction ev orgID uuid params))" by (rule keeping_transaction [OF t])
  next
    fix w a w' assume "repo_tables_ok ev w" "transaction (update_in_transaction ev orgID uuid params) w = (Inr a, w')"
    then show "rc_Versions (snd a) \<noteq> None" using v by (cases a) auto
  next
    fix a :: "bool \<times> RepositoryConfiguration" assume "rc_Versions (snd a) \<noteq> None"
    then show "keeps (keeping ev) (case a of (updatedUrl, c) \<Rightarrow> bindIO (apiErr (update_config c)) (\<lambda>_. returnIO updatedUrl))"
      using k by (cases a) (simp del: returnIO_apply)
  qed
qed

section \<open>All requests\<close>

text \<open>The requests that change the tables, in any order; before each the faults of its statements are chosen.\<close>

inductive repo_step :: "repo_env \<Rightarrow> repo_world \<Rightarrow> repo_world \<Rightarrow> bool" for ev where
  faults_chosen: "repo_step ev w (w\<lparr>rw_faults := fs\<rparr>)"
| create: "repo_step ev w (snd (RepositoryConfig_Create ev req w))"
| bulk_create: "repo_step ev w (snd (BulkCreate ev reqs w))"
| bulk_import: "repo_step ev w (snd (BulkImport ev reqs w))"
| update: "repo_step ev w (snd (RepositoryConfig_Update ev orgID uuid params w))"
| soft_delete: "repo_step ev w (snd (RepositoryConfig_SoftDelete orgID uuid w))"
| bulk_delete: "repo_step ev w (snd (RepositoryConfig_BulkDelete orgID uuids w))"

lemma repo_step_keeping:
  assumes "inj (ev_uuid ev)" "repo_step ev w w'"
  shows "keeping ev w w'"
  using assms(2)
proof cases
  case (create req)
  then show ?thesis using keepsD [OF keeping_create [OF assms(1)]] by simp
next
  case (bulk_create reqs)
  have "keeps (keeping ev) (BulkCreate ev reqs)"
    by (auto simp: BulkCreate_def simp del: returnIO_apply failIO_apply intro!: table_steps keeping_bulk keeping_bulk_create_one assms(1))
  from keepsD [OF this, of w] show ?thesis using bulk_create by simp
next
  case (bulk_import reqs)
  have "keeps (keeping ev) (BulkImport ev reqs)" unfolding BulkImport_def by (intro keeping_bulk keeping_bulk_import_one assms(1))
  from keepsD [OF this, of w] show ?thesis using bulk_import by simp
next
  case (update orgID uuid params)
  then show ?thesis using keepsD [OF keeping_update [OF assms(1)]] by simp
next
  case (soft_delete orgID uuid)
  then show ?thesis using keepsD [OF keeping_soft_delete_request] by simp
next
  case (bulk_delete orgID uuids)
  have "keeps (keeping ev) (RepositoryConfig_BulkDelete orgID uuids)"
    by (auto simp: RepositoryConfig_BulkDelete_def simp del: returnIO_apply intro!: table_steps keeping_bulk keeping_delete_one)
  from keepsD [OF this, of w] show ?thesis using bulk_delete by simp
qed simp

text \<open>
  C37. Whatever requests come, the tables stay well-formed: every configuration is in its normal form
  (known versions, sorted and without duplicates, a known architecture, a name, an organisation) and refers
  to a stored repository; no two live configurations of an organisation share a name, a repository or a
  label; every repository has a cleaned URL and an origin, and no two have both the same. This holds after
  errors, rollbacks and lost commits too, when the UUIDs that are made are new.
\<close>

theorem repository_tables_stay_well_formed:
  assumes "inj (ev_uuid ev)" "(repo_step ev)\<^sup>*\<^sup>* w w'" "repo_tables_ok ev w"
  shows "repo_tables_ok ev w'"
  using assms(2)
proof induction
  case base
  show ?case by (rule assms(3))
next
  case (step w1 w2)
  then show ?case using repo_step_keeping [OF assms(1)] by (auto simp: keeping_def)
qed

theorem repository_tables_stay_well_formed_witness:
  "repo_tables_ok demo_repo_env (snd (BulkCreate demo_repo_env [demo_creation ''a'', demo_creation ''b''] (no_repositories []))) \<and>
   length (rw_configs (snd (BulkCreate demo_repo_env [demo_creation ''a'', demo_creation ''b''] (no_repositories [])))) = 2"
proof
  have "inj (ev_uuid demo_repo_env)" by (auto simp: demo_repo_env_def inj_def)
  moreover have "repo_tables_ok demo_repo_env (no_repositories [])"
    by (simp add: repo_tables_ok_def no_repositories_def repositories_ok_def configs_ok_def unused_def)
  ultimately show "repo_tables_ok demo_repo_env (snd (BulkCreate demo_repo_env [demo_creation ''a'', demo_creation ''b''] (no_repositories [])))"
    using repository_tables_stay_well_formed [of demo_repo_env "no_repositories []"] repo_step.bulk_create by blast
  show "length (rw_configs (snd (BulkCreate demo_repo_env [demo_creation ''a'', demo_creation ''b''] (no_repositories [])))) = 2" by code_simp
qed

end
