(* ===== verification/RepositoryExport.thy ===== *)
theory RepositoryExport
  imports RepositoryTables
begin

text \<open>
  A repository that was exported and imported again, and what an update changes.
\<close>

section \<open>Statements without faults\<close>

lemma callDB_no_faults: "rw_faults w = [] \<Longrightarrow> callDB f w = f w"
  by (cases w) (simp add: callDB_def)

lemma selectDB_no_faults: "rw_faults w = [] \<Longrightarrow> selectDB q w = (q w, w)"
  by (simp add: selectDB_def callDB_no_faults)

lemma apiErr_no_error: "m w = (Inr a, w') \<Longrightarrow> apiErr m w = (Inr a, w')"
  by simp

lemma create_repository_ok:
  assumes "rw_faults w = []" "repository_validate (ev_ParseRequestURI ev) repo = None" "r_Origin repo = OriginExternal"
    and "\<And>o'. o' \<in> set (rw_repositories w) \<Longrightarrow> r_URL o' \<noteq> CleanupURL (r_URL repo)"
  shows "\<exists>r w'. create_repository ev repo w = (Inr r, w') \<and> rw_faults w' = [] \<and> r_UUID r = ev_uuid ev (rw_made w)"
proof -
  let ?n = "rw_made w"
  have "repository_validate (ev_ParseRequestURI ev) (repo\<lparr>r_UUID := ev_uuid ev ?n\<rparr>) = None"
    using assms(2) by (simp add: repository_validate_def split: if_splits)
  then obtain r where r: "repository_BeforeCreate (ev_ParseRequestURI ev) (ev_uuid ev ?n) (ev_now ev ?n) repo = Inr r"
    "r_UUID r = ev_uuid ev ?n" "r_URL r = CleanupURL (r_URL repo)"
    using assms(3) by (simp add: repository_BeforeCreate_def Let_def OriginExternal_def OriginUpload_def)
  have "repository_conflict (w\<lparr>rw_made := Suc ?n\<rparr>) (repository_defaults r) = None"
    using assms(4) r(3) by (auto simp: repository_conflict_def list_ex_iff repository_defaults_def)
  then show ?thesis
    using r assms(1) by (simp add: create_repository_def Let_def callDB_no_faults) (simp add: repository_defaults_def)
qed

lemma first_or_create_ok:
  assumes "rw_faults w = []" "repository_validate (ev_ParseRequestURI ev) repo = None" "r_Origin repo = OriginExternal" "r_URL repo \<noteq> ''''"
    and "CleanupURL (r_URL repo) = r_URL repo" "\<forall>r \<in> set (rw_repositories w). r_UUID r \<noteq> ''''" "\<forall>n. ev_uuid ev n \<noteq> ''''"
  shows "\<exists>r w'. first_or_create ev (has_url (r_URL repo)) repo w = (Inr r, w') \<and> rw_faults w' = [] \<and> r_UUID r \<noteq> ''''"
proof (cases "pick by_uuid (filter (has_url (r_URL repo)) (rw_repositories w))")
  case None
  then have "o' \<in> set (rw_repositories w) \<Longrightarrow> r_URL o' \<noteq> CleanupURL (r_URL repo)" for o'
    using assms(4,5) by (auto simp: filter_empty_conv has_url_def)
  from create_repository_ok [OF assms(1-3) this] None assms(1,7) show ?thesis
    by (auto simp: first_or_create_def bindIO_def selectDB_no_faults)
next
  case (Some r)
  then have "r_UUID r \<noteq> ''''" using pick_filterD [OF Some] assms(6) by blast
  with Some assms(1) show ?thesis by (simp add: first_or_create_def bindIO_def selectDB_no_faults)
qed

lemma normal_validates:
  assumes "rc_normal c" "rc_ExtendedRelease c = ''''" "rc_ExtendedReleaseVersion c = ''''"
  shows "rc_validate c = None"
proof -
  obtain vs where vs: "rc_Versions c = Some vs" "set vs \<subseteq> version_labels" "ANY_VERSION \<in> set vs \<longrightarrow> vs = [ANY_VERSION]"
    using assms(1) by (auto simp: rc_normal_def)
  have "fst (ValidDistributionVersionLabels (versions c))" using vs ValidDistributionVersionLabels_iff by (simp add: versions_def)
  moreover have "\<not> versionContainsAnyAndOthers (versions c)"
    using vs by (auto simp: versionContainsAnyAndOthers_def versions_def list_ex_iff)
  ultimately show ?thesis using assms by (cases "ValidDistributionVersionLabels (versions c)") (auto simp: rc_validate_def rc_normal_def)
qed

text \<open>The hook of a normal configuration only gives it its UUID and label.\<close>

lemma label_keeps_normal: "rc_normal (SetLabel taken rnd c) = rc_normal c"
  by (auto simp: SetLabel_def rc_normal_def Let_def split: option.splits)

lemma BeforeCreate_normal_ok:
  assumes "rc_normal c" "rc_ExtendedRelease c = ''''" "rc_ExtendedReleaseVersion c = ''''"
  shows "\<exists>c'. rc_BeforeCreate taken rnd u c = Inr c'"
proof -
  let ?c = "SetLabel taken rnd (c\<lparr>rc_UUID := u\<rparr>)"
  have n: "rc_normal ?c" using assms(1) by (simp add: label_keeps_normal) (simp add: rc_normal_def)
  have "rc_ExtendedRelease ?c = ''''" "rc_ExtendedReleaseVersion ?c = ''''"
    using assms(2,3) by (simp_all add: SetLabel_def Let_def split: option.split)
  with n have "rc_BeforeUpdate ?c = Inr ?c" by (intro normal_fixpoint normal_validates)
  then show ?thesis by (auto simp: rc_BeforeUpdate_def rc_BeforeCreate_def Let_def split: option.splits)
qed

lemma create_config_ok:
  assumes "rw_faults w = []" "rc_normal c" "rc_ExtendedRelease c = ''''" "rc_ExtendedReleaseVersion c = ''''"
    and "\<And>d. d \<in> set (live_configs w) \<Longrightarrow> rc_OrgID d \<noteq> rc_OrgID c" "r \<in> set (rw_repositories w)" "r_UUID r = rc_RepositoryUUID c"
  shows "\<exists>c' w'. create_config ev c w = (Inr c', w')"
proof -
  let ?n = "rw_made w"
  obtain c' where c': "rc_BeforeCreate (labels_taken w) (ev_random ev ?n) (ev_uuid ev ?n) c = Inr c'"
    using BeforeCreate_normal_ok [OF assms(2-4)] by blast
  note k = BeforeCreate_keeps [OF c']
  let ?w = "w\<lparr>rw_made := Suc ?n\<rparr>"
  have "filter (\<lambda>o'. rc_UUID o' \<noteq> rc_UUID c' \<and> rc_OrgID o' = rc_OrgID c') (live_configs ?w) = []"
    using assms(5) k(2) by (auto simp: filter_empty_conv live_configs_def)
  then have "config_conflict ?w c' = None" unfolding config_conflict_def Let_def by (simp del: filter_empty_conv)
  moreover have "repository_of ?w c' \<noteq> None"
    using assms(6,7) k(3) by (auto simp: repository_of_def find_None_iff)
  ultimately show ?thesis using c' assms(1) by (simp add: create_config_def Let_def callDB_no_faults)
qed

section \<open>Importing what was exported\<close>

text \<open>
  A repository that another organisation can import: in normal form, external, with a URL that is cleaned,
  accepted and not one of the shared repositories'.
\<close>

definition exportable :: "repo_env \<Rightarrow> RepositoryConfiguration \<Rightarrow> Repository \<Rightarrow> bool" where
  "exportable ev c r \<longleftrightarrow> rc_normal c \<and> r_Origin r = OriginExternal \<and> r_URL r \<noteq> '''' \<and> CleanupURL (r_URL r) = r_URL r \<and>
     r_URL r \<notin> set EPELUrls \<and> repository_validate (ev_ParseRequestURI ev) r = None"

text \<open>A database that does not have it: the organisation has no repository yet, and the URL is neither shared nor of another origin.\<close>

definition importable_into :: "repo_world \<Rightarrow> string \<Rightarrow> string \<Rightarrow> bool" where
  "importable_into w org url \<longleftrightarrow> rw_faults w = [] \<and> org \<noteq> '''' \<and> (\<forall>d \<in> set (live_configs w). rc_OrgID d \<noteq> org) \<and>
     configs_at w url [org, CommunityOrg, RedHatOrg] = [] \<and>
     (\<forall>r \<in> set (rw_repositories w). r_UUID r \<noteq> '''' \<and> (r_URL r = url \<longrightarrow> r_Origin r = OriginExternal))"

definition imported_config :: "string \<Rightarrow> string \<Rightarrow> RepositoryConfiguration \<Rightarrow> RepositoryConfiguration" where
  "imported_config account org c = zero_config\<lparr>rc_OrgID := org, rc_AccountID := account, rc_Name := rc_Name c, rc_Arch := rc_Arch c,
     rc_Versions := rc_Versions c, rc_GpgKey := rc_GpgKey c, rc_MetadataVerification := rc_MetadataVerification c,
     rc_ModuleHotfixes := rc_ModuleHotfixes c, rc_Snapshot := rc_Snapshot c\<rparr>"

definition imported_repository :: "Repository \<Rightarrow> Repository" where
  "imported_repository r = zero_repository\<lparr>r_Origin := r_Origin r, r_URL := r_URL r, r_LastIntrospectionStatus := StatusPending\<rparr>"

lemma import_exported:
  assumes "exportable ev c r"
  shows "bulk_import_one ev (FillDefaults (Some account) (Some org) (ModelToExportRepoApi c r)) =
    import_custom ev (imported_config account org c) (imported_repository r)"
proof -
  obtain vs where vs: "rc_Versions c = Some vs" using assms by (auto simp: exportable_def rc_normal_def)
  have o': "r_Origin r = OriginExternal" "OriginExternal \<noteq> OriginCommunity" "OriginExternal \<noteq> OriginUpload"
    using assms by (simp_all add: exportable_def OriginExternal_def OriginCommunity_def OriginUpload_def)
  let ?q = "FillDefaults (Some account) (Some org) (ModelToExportRepoApi c r)"
  have "ApiFieldsToModel (?q\<lparr>q_Origin := Some OriginExternal\<rparr>) (zero_config\<lparr>rc_OrgID := org, rc_AccountID := account\<rparr>) zero_repository =
      (imported_config account org c, zero_repository\<lparr>r_Origin := OriginExternal, r_URL := r_URL r\<rparr>)"
    using vs o' by (simp add: ApiFieldsToModel_def FillDefaults_def ModelToExportRepoApi_def or_default_def update_fields_def set_some_def
        imported_config_def zero_config_def)
  moreover have "q_Origin ?q = Some OriginExternal" "q_URL ?q = Some (r_URL r)" "q_OrgID ?q = Some org" "q_AccountID ?q = Some account"
    using o' by (simp_all add: FillDefaults_def ModelToExportRepoApi_def or_default_def)
  ultimately show ?thesis
    using assms o' by (simp add: bulk_import_one_def Let_def exportable_def isCreatableOrigin_def imported_repository_def)
qed

lemma created_exports_alike:
  assumes "rc_BeforeCreate taken rnd u ((imported_config account org c)\<lparr>rc_RepositoryUUID := repoUUID\<rparr>) = Inr c'" "rc_normal c"
    and "r_URL r' = r_URL r" "r_Origin r' = r_Origin r"
  shows "ModelToExportRepoApi (c'\<lparr>rc_Origin := o'\<rparr>) r' = ModelToExportRepoApi c r"
proof -
  obtain vs where vs: "rc_Versions c = Some vs" "vs \<noteq> []" "sorted vs" "distinct vs" using assms(2) by (auto simp: rc_normal_def)
  then have "sort (dedup_from [] vs) = vs" using dedup_from_distinct [of vs "[]"] by (simp add: sorted_sort_id)
  then have "rc_Versions c' = rc_Versions c"
    using BeforeCreate_keeps(12) [OF assms(1)] vs by (simp add: imported_config_def versions_def)
  then show ?thesis
    using BeforeCreate_keeps(1-10) [OF assms(1)] assms(2-4)
    by (simp add: ModelToExportRepoApi_def imported_config_def rc_normal_def)
qed

text \<open>
  C39. An external repository that is exported and then imported by an organisation that has none comes back
  without a warning and unchanged: it is stored, and exporting it again gives the same export (name, URL,
  versions, architecture, GPG key, verification, hotfixes and snapshot setting).
\<close>

theorem export_import_round_trip:
  assumes "exportable ev c r" "importable_into w org (r_URL r)" "\<forall>n. ev_uuid ev n \<noteq> ''''"
  shows "\<exists>c' r' w'. bulk_import_one ev (FillDefaults (Some account) (Some org) (ModelToExportRepoApi c r)) w = (Inr ((c', r'), []), w') \<and>
     rw_configs w' = rw_configs w @ [store c'] \<and> r' \<in> set (rw_repositories w') \<and> rc_RepositoryUUID c' = r_UUID r' \<and> rc_OrgID c' = org \<and>
     ModelToExportRepoApi c' r' = ModelToExportRepoApi c r"
proof -
  let ?c = "imported_config account org c" and ?r = "imported_repository r"
  have e: "r_Origin ?r = OriginExternal" "r_URL ?r = r_URL r" "r_URL ?r \<noteq> ''''" "CleanupURL (r_URL ?r) = r_URL ?r"
      "repository_validate (ev_ParseRequestURI ev) ?r = None" "rc_normal c"
    using assms(1) by (auto simp: exportable_def imported_repository_def repository_validate_def split: if_splits)
  have w: "rw_faults w = []" "\<forall>r \<in> set (rw_repositories w). r_UUID r \<noteq> ''''" "org \<noteq> ''''" "\<And>d. d \<in> set (live_configs w) \<Longrightarrow> rc_OrgID d \<noteq> org"
      "configs_at w (r_URL r) [org, CommunityOrg, RedHatOrg] = []"
    using assms(2) by (auto simp: importable_into_def)
  obtain r' w1 where f: "first_or_create ev (has_url (r_URL ?r)) ?r w = (Inr r', w1)" "rw_faults w1 = []" "r_UUID r' \<noteq> ''''"
    using first_or_create_ok [OF w(1) e(5,1,3,4) w(2) assms(3)] by blast
  note fs = first_or_create_success [OF f(1)]
  then have r': "r' \<in> set (rw_repositories w1)" "r_URL r' = r_URL r" "r_Origin r' = r_Origin r" "rw_configs w1 = rw_configs w"
    using assms(1,2) e by (auto simp: has_url_def importable_into_def exportable_def OriginExternal_def)
  let ?n = "?c\<lparr>rc_RepositoryUUID := r_UUID r'\<rparr>"
  have n: "rc_normal ?n" "rc_ExtendedRelease ?n = ''''" "rc_ExtendedReleaseVersion ?n = ''''" "rc_OrgID ?n = org"
    using e(6) f(3) w(3) by (auto simp: rc_normal_def imported_config_def zero_config_def OriginUpload_def)
  have others: "rc_OrgID d \<noteq> rc_OrgID ?n" if "d \<in> set (live_configs w1)" for d
    using that w(4) n(4) live_configs_cong [OF r'(4)] by simp
  obtain c' w' where c: "create_config ev ?n w1 = (Inr c', w')"
    using create_config_ok [OF f(2) n(1-3) others r'(1), of ev] by auto
  obtain taken rnd u where b: "rc_BeforeCreate taken rnd u ?n = Inr c'" using create_config_success(3) [OF c] by blast
  have "import_custom ev ?c ?r w = (Inr ((c'\<lparr>rc_Origin := r_Origin r'\<rparr>, r'), []), w')"
    using f(1) c w(1,5) e by (simp add: import_custom_def Let_def bindIO_def selectDB_no_faults apiErr_no_error imported_config_def)
  moreover have "rw_configs w' = rw_configs w @ [store (c'\<lparr>rc_Origin := r_Origin r'\<rparr>)]" "rw_repositories w' = rw_repositories w1"
    using create_config_success(1,2) [OF c] r'(4) by (simp_all add: store_def)
  ultimately show ?thesis
    using import_exported [OF assms(1), of account org] created_exports_alike [OF b e(6) r'(2,3)] r'(1) BeforeCreate_keeps(2,3) [OF b] n(4)
    by fastforce
qed

definition demo_exported :: RepositoryConfiguration where
  "demo_exported = zero_config\<lparr>rc_UUID := ''c'', rc_Name := ''a'', rc_Versions := Some [''9''], rc_Arch := ''x86_64'', rc_OrgID := ''7'',
     rc_RepositoryUUID := ''r''\<rparr>"

definition demo_repository :: Repository where
  "demo_repository = zero_repository\<lparr>r_UUID := ''r'', r_URL := ''https://repo.example/a/'', r_Origin := OriginExternal\<rparr>"

theorem export_import_round_trip_witness:
  "\<exists>c' r' w'. bulk_import_one demo_repo_env (FillDefaults (Some '''') (Some ''8'') (ModelToExportRepoApi demo_exported demo_repository)) (no_repositories []) =
       (Inr ((c', r'), []), w') \<and> rw_configs w' = [store c'] \<and> rc_OrgID c' = ''8'' \<and>
     ModelToExportRepoApi c' r' = ModelToExportRepoApi demo_exported demo_repository"
proof -
  have "rc_normal demo_exported"
    by (simp add: rc_normal_def demo_exported_def zero_config_def version_labels_def ANY_VERSION_def ValidArchLabel_iff OriginUpload_def)
  moreover have "r_URL demo_repository \<noteq> '''' \<and> CleanupURL (r_URL demo_repository) = r_URL demo_repository \<and> r_URL demo_repository \<notin> set EPELUrls \<and>
      repository_validate (ev_ParseRequestURI demo_repo_env) demo_repository = None"
    by code_simp
  ultimately have "exportable demo_repo_env demo_exported demo_repository" by (simp add: exportable_def demo_repository_def)
  moreover have "importable_into (no_repositories []) ''8'' (r_URL demo_repository)"
    by (simp add: importable_into_def no_repositories_def live_configs_def configs_at_def)
  moreover have "\<forall>n. ev_uuid demo_repo_env n \<noteq> ''''" by (simp add: demo_repo_env_def)
  ultimately show ?thesis
    using export_import_round_trip [of demo_repo_env demo_exported demo_repository "no_repositories []" "''8''" "''''"]
    by (fastforce simp: no_repositories_def)
qed

section \<open>What an update changes\<close>

lemma update_config_success:
  assumes "update_config c w = (Inr (), w')"
  shows "rw_repositories w' = rw_repositories w \<and>
    (rw_configs w' = rw_configs w \<and> find (live_row (rc_UUID c)) (rw_configs w) = None \<or>
     (\<exists>s. find (live_row (rc_UUID c)) (rw_configs w) = Some s \<and>
        rw_configs w' = update_where (live_row (rc_UUID c)) (\<lambda>t. t\<lparr>sc_Config := set_config_columns (hook_columns c) (sc_Config s)\<rparr>) (rw_configs w)))"
proof -
  from assms have "rc_validate c = None" by (auto simp: update_config_def split: option.splits)
  with assms have "callDB (\<lambda>w. case find (live_row (rc_UUID c)) (rw_configs w) of None \<Rightarrow> (Inr (), w)
    | Some s \<Rightarrow> (let new = set_config_columns (hook_columns c) (sc_Config s) in
        case config_conflict w new of Some constraint \<Rightarrow> (Inl (unique_violation constraint), w)
        | None \<Rightarrow> if repository_of w new = None then (Inl fk_repository, w)
            else (Inr (), w\<lparr>rw_configs := update_where (live_row (rc_UUID c)) (\<lambda>s. s\<lparr>sc_Config := new\<rparr>) (rw_configs w)\<rparr>))) w = (Inr (), w')"
    by (simp add: update_config_def)
  from callDB_success [OF this] show ?thesis by (auto simp: Let_def split: option.splits if_splits)
qed

lemma transaction_success:
  assumes "transaction body w = (Inr a, w')"
  obtains w1 w2 where "body w1 = (Inr a, w2)" "same_repos w w1" "same_repos w2 w'"
proof -
  obtain r w1 where b: "callDB (Pair (Inr ())) w = (r, w1)" by fastforce
  obtain l w2 where l: "body w1 = (l, w2)" by fastforce
  obtain c w3 where c: "callDB (Pair (Inr ())) w2 = (c, w3)" by fastforce
  have "l = Inr a" "w' = w3" using assms b l c by (auto simp: transaction_def split: sum.splits)
  moreover have "same_repos w w1" "same_repos w2 w3" using callDB_begin [OF b] callDB_begin [OF c] by (simp_all add: same_repos_def)
  ultimately show thesis using that l by blast
qed

text \<open>Writing the same columns twice.\<close>

lemma set_columns_twice: "set_config_columns new (set_config_columns new c) = set_config_columns new c"
  by (simp add: set_config_columns_def)

lemma find_updated:
  assumes "find (live_row u) rows = Some s" "rc_UUID new = u"
  shows "\<exists>t. find (live_row u) (update_where (live_row u) (\<lambda>t. t\<lparr>sc_Config := new\<rparr>) rows) = Some t \<and> sc_Config t = new"
  using assms by (induction rows) (auto simp: live_row_def)

lemma update_where_twice:
  "(\<And>t. p t \<Longrightarrow> p (f t)) \<Longrightarrow> (\<And>t. f (f t) = f t) \<Longrightarrow> update_where p f (update_where p f rows) = update_where p f rows"
  by (induction rows) auto

definition updated_as_requested :: "RepositoryUpdateRequest \<Rightarrow> RepositoryConfiguration \<Rightarrow> RepositoryConfiguration \<Rightarrow> bool" where
  "updated_as_requested q old new \<longleftrightarrow> rc_UUID new = rc_UUID old \<and> rc_OrgID new = rc_OrgID old \<and> rc_Label new = rc_Label old \<and>
     rc_Name new = (case p_Name q of None \<Rightarrow> rc_Name old | Some n \<Rightarrow> n) \<and>
     rc_GpgKey new = (case p_GpgKey q of None \<Rightarrow> rc_GpgKey old | Some k \<Rightarrow> k) \<and>
     rc_MetadataVerification new = (case p_MetadataVerification q of None \<Rightarrow> rc_MetadataVerification old | Some b \<Rightarrow> b) \<and>
     rc_ModuleHotfixes new = (case p_ModuleHotfixes q of None \<Rightarrow> rc_ModuleHotfixes old | Some b \<Rightarrow> b) \<and>
     rc_Snapshot new = (case p_Snapshot q of None \<Rightarrow> rc_Snapshot old | Some b \<Rightarrow> b) \<and>
     (p_URL q = None \<longrightarrow> rc_RepositoryUUID new = rc_RepositoryUUID old)"

lemma columns_as_requested:
  assumes "ApiUpdateFieldsToModel q (d\<lparr>rc_Origin := o1\<rparr>) repo0 = (c1, repo)" "p_URL q = None \<longrightarrow> u = rc_RepositoryUUID d"
  shows "updated_as_requested q d (set_config_columns (hook_columns (c1\<lparr>rc_RepositoryUUID := u, rc_Origin := o2\<rparr>)) d)"
  using assms
  by (auto simp: updated_as_requested_def set_config_columns_def hook_columns_def ApiUpdateFieldsToModel_def update_fields_columns split: option.splits)

lemma found_row:
  assumes "repo_tables_ok ev w" "s \<in> set (rw_configs w)" "live_row uuid s"
  shows "find (live_row uuid) (rw_configs w) = Some s"
proof -
  obtain t where t: "find (live_row uuid) (rw_configs w) = Some t" using assms(2,3) by (cases "find (live_row uuid) (rw_configs w)") (auto simp: find_None_iff)
  from find_mem [OF t] have "t \<in> set (rw_configs w)" "rc_UUID (sc_Config t) = rc_UUID (sc_Config s)" using assms(3) by (simp_all add: live_row_def)
  then have "t = s" using assms(1,2) by (auto simp: repo_tables_ok_def configs_ok_def distinct_map inj_on_def)
  with t show ?thesis by simp
qed


definition demo_shared :: Repository where
  "demo_shared = zero_repository\<lparr>r_UUID := ''s'', r_URL := ''https://cdn.example/b/'', r_Origin := OriginRedHat\<rparr>"

definition demo_tables :: repo_world where
  "demo_tables = \<lparr>rw_repositories = [demo_repository, demo_shared], rw_configs = [store demo_exported], rw_faults = [], rw_made = 0\<rparr>"

definition demo_change :: RepositoryUpdateRequest where
  "demo_change = \<lparr>p_Name = Some ''b'', p_URL = Some ''https://cdn.example/b'', p_DistributionVersions = None, p_DistributionArch = None,
     p_GpgKey = None, p_MetadataVerification = None, p_ModuleHotfixes = None, p_Snapshot = Some True\<rparr>"

lemma demo_change_runs: "fst (RepositoryConfig_Update demo_repo_env ''7'' ''c'' demo_change demo_tables) = Inr True"
  by code_simp

lemma demo_tables_ok: "repo_tables_ok demo_repo_env demo_tables"
proof -
  have "CleanupURL ''https://repo.example/a/'' = ''https://repo.example/a/''" "CleanupURL ''https://cdn.example/b/'' = ''https://cdn.example/b/''"
    by code_simp+
  moreover have "rc_normal demo_exported"
    by (simp add: rc_normal_def demo_exported_def zero_config_def version_labels_def ANY_VERSION_def ValidArchLabel_iff OriginUpload_def)
  ultimately show ?thesis
    by (auto simp: repo_tables_ok_def demo_tables_def repositories_ok_def configs_ok_def unused_def demo_repository_def demo_shared_def
      demo_repo_env_def zero_repository_def OriginExternal_def OriginRedHat_def demo_exported_def)
qed


text \<open>The repository of the new URL may have any origin: here the custom configuration ends up with Red Hat's.\<close>

lemma update_takes_a_repository_of_any_origin:
  "map (rc_RepositoryUUID \<circ> sc_Config) (rw_configs (snd (RepositoryConfig_Update demo_repo_env ''7'' ''c'' demo_change demo_tables))) = [r_UUID demo_shared] \<and>
   r_Origin demo_shared = OriginRedHat"
  by code_simp

end
