(* ===== verification/Spec2Isabelle.thy ===== *)
theory Spec2Isabelle
  imports WorkerProps TaskQueueRetries Middleware CoverageMatcher Introspection SnapshotProps
    DeleteSnapshotsLinks SnapshotHandlersProps UpdateTemplateContentProps
    UpdateLatestSnapshotProps DeleteRepositoryProps RepositoryExport
begin

text \<open>
  Verification of content-sources-backend.

  The repository is the backend of Red Hat's content service: an HTTP API over repositories,
  snapshots and templates (\<open>pkg/handler\<close>, \<open>pkg/dao\<close>, \<open>pkg/models\<close>), a queue of background
  tasks in PostgreSQL with workers that run them (\<open>pkg/tasks\<close>), and clients of the services the
  tasks use, above all the Pulp content server (\<open>pkg/clients\<close>). A request passes the middlewares
  (identity, permissions, visibility of organisations), changes rows through a DAO and enqueues
  tasks; a worker takes a task off the queue, runs its handler, and the handler works on Pulp, on the
  upstream repository and on the rows.

  \<^bold>\<open>Conventions.\<close> A Go function is a HOL function of the same name where HOL allows it. Errors are
  values of \<open>go_error\<close> (\<open>CS_Prelude\<close>), an \<open>error + value\<close> result, or an application error with its
  HTTP code (\<open>ConfigValues\<close>). State is passed explicitly: the queue's tables (\<open>queue_db\<close>), a pool of
  workers (\<open>pool\<close>), a world of rows and of Pulp (\<open>task_world\<close>), in the transaction monad of
  \<open>TaskQueue\<close> or the error monad of \<open>GoIO\<close>. Strings are byte strings; Go's string functions are in
  \<open>GoStrings\<close>, UTF-8 included. Code outside the repository (Pulp and its generated bindings, yum
  metadata, Redis, the permission services, URL parsing, random names, the clock) is an argument
  of the definitions that use it; what a theorem needs of it is a named hypothesis of the theorem,
  and a witness gives an instance.

  \<^bold>\<open>Theories, in the order of the program.\<close>

  \<^item> \<open>CS_Prelude\<close>, \<open>GoStrings\<close>, \<open>GoIO\<close>: errors, tables as lists of rows, Go strings, steps that may fail
    with the frame rule \<open>keeps\<close> the tasks' proofs use.

  \<^item> \<open>ConfigTasks\<close>, \<open>ConfigValues\<close>, \<open>Utils\<close>: \<open>pkg/config\<close> (task types, limits, versions and
    architectures, intervals), \<open>pkg/errors\<close>, \<open>pkg/utils\<close>.

  \<^item> \<open>TaskQueue\<close>: \<open>pkg/tasks/queue/pgqueue.go\<close>, the tables, each SQL statement and each operation as a
    transaction whose calls may fail one by one. \<open>TaskQueueEffects\<close>: what an operation that succeeds
    does to the tables. \<open>TaskQueueInv\<close>: the invariant of the tables, kept by every operation.
    \<open>TaskMachine\<close>: the state machine of one task, which the operations refine. \<open>TaskQueueProps\<close>:
    reachable tables are well formed, refinement, and the outcome of dequeuing, finishing, cancelling and
    requeuing (C1 to C6). \<open>TaskQueueRetries\<close>: retries: how often a task is handed out, waits, failed
    calls, and what retries do to dependents (C7 to C9).

  \<^item> \<open>Worker\<close>, \<open>WorkerProps\<close>: \<open>pkg/tasks/worker\<close>, a pool whose goroutines are steps in any order; one
    task is processed as the handler says, panics, heartbeats (C10, C11). \<open>pkg/tasks/client\<close> is part of it.

  \<^item> \<open>Models\<close>: \<open>pkg/models\<close>, validation and normal forms of what is stored (C12, C13).

  \<^item> \<open>Rbac\<close>, \<open>Routes\<close>, \<open>Middleware\<close>: \<open>pkg/rbac\<close>, \<open>pkg/cache\<close>, the route registrations of
    \<open>pkg/handler\<close> and \<open>pkg/middleware\<close>: the permission every route asks for, what the cache of answers may
    grant, which organisations a response shows (C14 to C17). The locale \<open>access_cache\<close> is the contract
    between the permission client and its cache, interpreted for Redis and for the null cache.

  \<^item> \<open>CoverageParser\<close>, \<open>CoverageMatcher\<close>: \<open>pkg/coverage\<close>, reports of dependencies, round trips and the
    matching with a catalogue (C18, C19).

  \<^item> \<open>Introspection\<close>: \<open>pkg/external_repos/introspect.go\<close> and the repository rows of \<open>pkg/dao\<close>; status as a
    function of the history, giving up after failures (C20, C21).

  \<^item> \<open>PulpClient\<close>: \<open>pkg/clients/pulp_client\<close>, one function per client operation over the record \<open>zest\<close>
    of binding calls. \<open>PulpGuards\<close>, \<open>PulpGuardsProps\<close>: content guards and whom they let through, when
    Pulp keeps the laws \<open>pulp_guards\<close> (C22). \<open>PulpDistribution\<close>: \<open>pkg/tasks/helpers\<close>. \<open>PulpFrame\<close>: what
    client calls leave alone.

  \<^item> \<open>SnapshotTask\<close>, \<open>SnapshotProps\<close>: \<open>pkg/tasks/repository_snapshot.go\<close> and \<open>snapshot_helper.go\<close>
    with the snapshot rows: what a run records, what a resumed run loses, what the cleanup of a
    cancelled run leaves (C23 to C25). The locale \<open>resumable_payload\<close> is the Go interface
    \<open>ResumableSnapshotInterface\<close>; the helper's lemmas are proved in it.

  \<^item> \<open>ContentDB\<close>: the tables of repositories, snapshots, templates and their associations next to Pulp, and
    the statements on them, each of which may fail (\<open>db_world\<close>). \<open>ContentFrame\<close>: the locales \<open>db_frame\<close> and
    \<open>content_frame\<close>, relations between states that every statement and client call keeps, interpreted for
    the rows, for untouched worlds, and for the invariants of the deletion tasks. \<open>ContentDemo\<close>: the
    concrete world of the witnesses.

  \<^item> \<open>DaoHelpers\<close>, \<open>SnapshotDao\<close>, \<open>ConfigDao\<close>, \<open>TemplateDao\<close>, \<open>DomainDao\<close>: \<open>pkg/dao\<close> for the content tasks.
    \<open>SnapshotDaoProps\<close>: the snapshot of a date (C30). \<open>DomainDao\<close> also has concurrent callers, as steps in
    any order (C36). \<open>TemplatePaths\<close>: \<open>pkg/tasks/utils.go\<close> and the paths of \<open>candlepin_helpers.go\<close>.

  \<^item> \<open>DeleteSnapshots\<close>, \<open>DeleteSnapshotsProps\<close>, \<open>DeleteSnapshotsLinks\<close>: \<open>pkg/tasks/delete_snapshots.go\<close>: which
    rows go, and that templates keep their repositories (C26 to C28). \<open>ContentQueue\<close>, \<open>SnapshotHandlers\<close>,
    \<open>SnapshotHandlersProps\<close>: the requests that lead to it, \<open>pkg/handler/snapshots.go\<close> (C29).

  \<^item> \<open>CandlepinContent\<close>, \<open>UpdateTemplateContent\<close>, \<open>UpdateTemplateContentProps\<close>:
    \<open>pkg/tasks/update_template_content.go\<close>, what a template serves after the task, and the partner's
    repository that cannot be withdrawn (C31, C32).

  \<^item> \<open>DeleteRepository\<close>, \<open>DeleteTemplates\<close>, \<open>UpdateLatestSnapshot\<close>, each with its \<open>Props\<close>: the tasks that delete
    a repository or a template, and those that follow a new or a published snapshot (C33 to C35).

  \<^item> \<open>RepositoryRows\<close>, \<open>RepositoryConfigs\<close>: the requests on repositories, \<open>pkg/dao/repository_configs.go\<close>, over
    the tables with the columns users set, their constraints, transactions and savepoints.
    \<open>RepositoryTables\<close>: the invariant of these tables under every request (C37). \<open>RepositoryConfigsProps\<close>:
    bulk creation; the locale \<open>bulk_request\<close> is what a bulk operation needs of a single request (C38).
    \<open>RepositoryExport\<close>: export and import, and what an update changes (C39, C40).

  \<^bold>\<open>Bounds and fuel.\<close> Loops that recurse over data are structural. \<open>strip_slashes\<close> runs as often as the
    string is long. \<open>PollTask\<close> and \<open>ListVersionAllPackages\<close> may run for ever in the code: the model follows
    them for \<open>p_rounds\<close> rounds, a field of the client that is universally quantified in the theorems, and
    ends in \<open>NeverReturns\<close>, which no error check sees. Dequeuing waits for notifications given as
    a list. Machine integers whose width matters are words (page offsets,
    UUIDs); counters that cannot overflow in practice are \<open>nat\<close> or \<open>int\<close>.

  \<^bold>\<open>Not modelled.\<close> Generated code (mocks, \<open>api/docs.go\<close>, the lightwell store), command-line mains,
  logging, metrics and instrumentation, seeds, Kafka, certificates and the set-up of HTTP clients: they hold
  no logic of their own or only wrap libraries. The DAOs of RPMs, uploads, advisories and metrics are long
  SQL queries over joined tables, some built by a library that is not in the repository; the lists of
  repositories and templates with their filters and paging are of that kind too. The decoding of requests in
  the remaining handlers, the upload tasks, the Candlepin and the other HTTP clients, external repositories
  and the one-off jobs call services one after the other and are left out. Of the migrations only the
  constraints are used, in \<open>RepositoryRows\<close>, \<open>ContentDB\<close> and \<open>DomainDao\<close>. Events and notifications have no
  effect on the state and are left out of the tasks.
\<close>

end
